(* ===== verification/Prelude.thy ===== *)
theory Prelude
  imports Main "HOL-Library.Word" "HOL-Library.Monad_Syntax"
begin

text \<open>
  Shared vocabulary of the development.

  The programs under \<^verbatim>\<open>src/quectel-cm/src\<close> exchange packed C structures through byte buffers:
  a structure is overlaid on a buffer and its members are read and written at fixed offsets.
  A buffer is therefore a list of bytes, a member access is an access at an offset, and an access
  outside of the object (undefined behaviour in C) is the value \<^term>\<open>None\<close> of the type
  \<open>'a access\<close>. Multi-byte members are little-endian on the wire
  (\<^verbatim>\<open>qendian.h\<close>: \<^verbatim>\<open>le16_to_cpu\<close>, \<^verbatim>\<open>cpu_to_le16\<close>, \<^verbatim>\<open>le32_to_cpu\<close>, \<^verbatim>\<open>cpu_to_le32\<close>), so decoding
  them from bytes does not depend on the byte order of the host.
\<close>

unbundle bit_operations_syntax

type_synonym byte = "8 word"
type_synonym u16 = "16 word"
type_synonym u32 = "32 word"
type_synonym buf = "byte list"
type_synonym 'a access = "'a option"

named_theorems access_simps \<open>unfolding of accesses to byte buffers\<close>
named_theorems wire_simps \<open>lengths and shapes of encoded messages\<close>

subsection \<open>Little-endian members\<close>

definition le16 :: "byte \<Rightarrow> byte \<Rightarrow> u16" where
  "le16 lo hi = of_nat (unat lo + 256 * unat hi)"

definition bytes16 :: "u16 \<Rightarrow> buf" where
  "bytes16 w = [of_nat (unat w), of_nat (unat w div 256)]"

definition le32 :: "byte \<Rightarrow> byte \<Rightarrow> byte \<Rightarrow> byte \<Rightarrow> u32" where
  "le32 a b c d = of_nat (unat a + 256 * unat b + 65536 * unat c + 16777216 * unat d)"

definition bytes32 :: "u32 \<Rightarrow> buf" where
  "bytes32 w = [of_nat (unat w), of_nat (unat w div 256),
                of_nat (unat w div 65536), of_nat (unat w div 16777216)]"

lemma unat_byte_lt: "unat (x :: byte) < 256"
  using unsigned_less [of x] by simp

lemma uint_byte_lt: "uint (x :: byte) < 256"
  using uint_bounded [of x] by simp

lemma unat_u16_lt: "unat (x :: u16) < 65536"
  using unsigned_less [of x] by simp

lemma unat_u32_lt: "unat (x :: u32) < 4294967296"
  using unsigned_less [of x] by simp

lemma unat_of_nat_byte [simp]: "unat (of_nat n :: byte) = n mod 256"
  by (simp add: unat_of_nat)

lemma unat_of_nat_u16: "unat (of_nat n :: u16) = n mod 65536"
  by (simp add: unat_of_nat)

lemma unat_of_nat_u32: "unat (of_nat n :: u32) = n mod 4294967296"
  by (simp add: unat_of_nat)

lemma unat_le16: "unat (le16 lo hi) = unat lo + 256 * unat hi"
  using unat_byte_lt [of lo] unat_byte_lt [of hi]
  unfolding le16_def unat_of_nat_u16 by (intro mod_less) linarith

lemma unat_le32:
  "unat (le32 a b c d) = unat a + 256 * unat b + 65536 * unat c + 16777216 * unat d"
  using unat_byte_lt [of a] unat_byte_lt [of b] unat_byte_lt [of c] unat_byte_lt [of d]
  unfolding le32_def unat_of_nat_u32 by (intro mod_less) linarith

lemma length_bytes16 [simp, wire_simps]: "length (bytes16 w) = 2"
  by (simp add: bytes16_def)

lemma length_bytes32 [simp, wire_simps]: "length (bytes32 w) = 4"
  by (simp add: bytes32_def)

lemma nat_base256_2: "n < 65536 \<Longrightarrow> n mod 256 + 256 * (n div 256 mod 256) = (n :: nat)"
  using mod_mult2_eq [of n 256 256] by simp

lemma nat_base256_4:
  assumes "n < (4294967296 :: nat)"
  shows "n mod 256 + 256 * (n div 256 mod 256) + 65536 * (n div 65536 mod 256)
           + 16777216 * (n div 16777216 mod 256) = n"
proof -
  have "n mod 65536 = n mod 256 + 256 * (n div 256 mod 256)"
    using mod_mult2_eq [of n 256 256] by simp
  moreover have "n mod 16777216 = n mod 65536 + 65536 * (n div 65536 mod 256)"
    using mod_mult2_eq [of n 65536 256] by simp
  moreover have "n = n mod 16777216 + 16777216 * (n div 16777216 mod 256)"
    using assms mod_mult2_eq [of n 16777216 256] by simp
  ultimately show ?thesis by linarith
qed

lemma le16_bytes16: "le16 (bytes16 w ! 0) (bytes16 w ! 1) = w"
  unfolding word_unat_eq_iff unat_le16 bytes16_def nth_Cons_0 nth_Cons_Suc One_nat_def
    unat_of_nat_byte by (rule nat_base256_2 [OF unat_u16_lt])

lemma le32_bytes32:
  "le32 (bytes32 w ! 0) (bytes32 w ! 1) (bytes32 w ! 2) (bytes32 w ! 3) = w"
  unfolding word_unat_eq_iff unat_le32 bytes32_def nth_Cons_0 nth_Cons_Suc One_nat_def
    numeral_2_eq_2 numeral_3_eq_3 unat_of_nat_byte by (rule nat_base256_4 [OF unat_u32_lt])

subsection \<open>Accesses to a buffer\<close>

definition rd8 :: "buf \<Rightarrow> nat \<Rightarrow> byte access" where
  "rd8 b i = (if i < length b then Some (b ! i) else None)"

definition rd16 :: "buf \<Rightarrow> nat \<Rightarrow> u16 access" where
  "rd16 b i = do { x \<leftarrow> rd8 b i; y \<leftarrow> rd8 b (i + 1); Some (le16 x y) }"

definition rd32 :: "buf \<Rightarrow> nat \<Rightarrow> u32 access" where
  "rd32 b i = do { x \<leftarrow> rd8 b i; y \<leftarrow> rd8 b (i + 1); z \<leftarrow> rd8 b (i + 2); w \<leftarrow> rd8 b (i + 3);
                   Some (le32 x y z w) }"

text \<open>\<^verbatim>\<open>memcpy\<close> out of a buffer: \<open>n\<close> bytes from offset \<open>i\<close>.\<close>

definition rdn :: "buf \<Rightarrow> nat \<Rightarrow> nat \<Rightarrow> buf access" where
  "rdn b i n = (if i + n \<le> length b then Some (take n (drop i b)) else None)"

text \<open>Stores: the bytes \<open>vs\<close> replace the ones at offset \<open>i\<close>; a store past the end is a fault.\<close>

definition wr :: "buf \<Rightarrow> nat \<Rightarrow> buf \<Rightarrow> buf access" where
  "wr b i vs = (if i + length vs \<le> length b
                then Some (take i b @ vs @ drop (i + length vs) b) else None)"

lemma rd8_Some_iff: "rd8 b i = Some v \<longleftrightarrow> i < length b \<and> b ! i = v"
  by (auto simp: rd8_def)

lemma rd8_None_iff: "rd8 b i = None \<longleftrightarrow> length b \<le> i"
  by (auto simp: rd8_def)

lemma rd16_in_range: "i + 1 < length b \<Longrightarrow> rd16 b i = Some (le16 (b ! i) (b ! (i + 1)))"
  by (simp add: rd16_def rd8_def)

lemma rd16_SomeD: "rd16 b i = Some v \<Longrightarrow> i + 1 < length b"
  by (auto simp: rd16_def rd8_def bind_eq_Some_conv split: if_splits)

lemma rd16_None_iff: "rd16 b i = None \<longleftrightarrow> length b \<le> i + 1"
  by (auto simp: rd16_def rd8_def split: if_splits)

lemma rd8_append [access_simps]:
  "rd8 (xs @ ys) i = (if i < length xs then rd8 xs i else rd8 ys (i - length xs))"
  by (auto simp: rd8_def nth_append)

lemma rd8_Cons [access_simps]: "rd8 (x # xs) i = (if i = 0 then Some x else rd8 xs (i - 1))"
  by (cases i) (auto simp: rd8_def)

lemma rd8_append_right: "length xs \<le> i \<Longrightarrow> rd8 (xs @ ys) i = rd8 ys (i - length xs)"
  by (simp add: rd8_append)

lemma rd16_append_right: "length xs \<le> i \<Longrightarrow> rd16 (xs @ ys) i = rd16 ys (i - length xs)"
  by (simp add: rd16_def rd8_append_right Suc_diff_le)

lemma rd32_append_right: "length xs \<le> i \<Longrightarrow> rd32 (xs @ ys) i = rd32 ys (i - length xs)"
  by (simp add: rd32_def rd8_append_right Suc_diff_le add.commute [of _ i]
      Nat.diff_add_assoc2 numeral_2_eq_2 numeral_3_eq_3)

lemma rdn_append_right: "length xs \<le> i \<Longrightarrow> rdn (xs @ ys) i n = rdn ys (i - length xs) n"
  by (auto simp: rdn_def)

lemma rd16_bytes16 [simp]: "rd16 (bytes16 w @ ys) 0 = Some w"
  using le16_bytes16 [of w] by (simp add: rd16_def rd8_def nth_append)

lemma rd32_bytes32 [simp]: "rd32 (bytes32 w @ ys) 0 = Some w"
  using le32_bytes32 [of w] by (simp add: rd32_def rd8_def nth_append numeral_2_eq_2 numeral_3_eq_3)

lemma rdn_prefix [simp]: "rdn (xs @ ys) 0 (length xs) = Some xs"
  by (simp add: rdn_def)

lemma length_wr: "wr b i vs = Some b' \<Longrightarrow> length b' = length b"
  by (auto simp: wr_def split: if_splits)

lemma wr_None_iff: "wr b i vs = None \<longleftrightarrow> length b < i + length vs"
  by (auto simp: wr_def)

lemma take_wr_append:
  assumes "wr b i vs = Some b'" shows "take (i + length vs) b' = take i b @ vs"
  using assms by (auto simp: wr_def split: if_splits)

lemma take_wr_below:
  assumes "wr b i vs = Some b'" and "j \<le> i" shows "take j b' = take j b"
  using assms by (auto simp: wr_def min_def split: if_splits)

lemma drop_wr_above:
  assumes "wr b i vs = Some b'" and "i + length vs \<le> j" shows "drop j b' = drop j b"
  using assms by (auto simp: wr_def split: if_splits)

lemma wr_adjacent: "Option.bind (wr b i xs) (\<lambda>b'. wr b' (i + length xs) ys) = wr b i (xs @ ys)"
proof (cases "i + length xs \<le> length b")
  case True
  then show ?thesis by (simp add: wr_def add.assoc add.commute add.left_commute)
next
  case False
  then show ?thesis by (simp add: wr_def)
qed

lemma wr_merge:
  "j = i + length xs \<Longrightarrow> Option.bind (wr b i xs) (\<lambda>b. Option.bind (wr b j ys) f)
     = Option.bind (wr b i (xs @ ys)) f"
  unfolding wr_adjacent [symmetric] bind_assoc by simp

lemma wr_adjacent3:
  assumes "j = i + length xs" and "k = j + length ys"
  shows "Option.bind (wr b i xs) (\<lambda>b. Option.bind (wr b j ys) (\<lambda>b. wr b k zs))
         = wr b i (xs @ ys @ zs)"
proof -
  have "Option.bind (wr b' j ys) (\<lambda>b. wr b k zs) = wr b' j (ys @ zs)" for b'
    unfolding assms(2) by (rule wr_adjacent)
  then show ?thesis
    by (simp add: assms(1) wr_adjacent)
qed

subsection \<open>Accesses that succeed with a postcondition\<close>

definition yields :: "'a access \<Rightarrow> ('a \<Rightarrow> bool) \<Rightarrow> bool" where
  "yields m P \<longleftrightarrow> (\<exists>x. m = Some x \<and> P x)"

lemma yields_Some [simp]: "yields (Some x) P \<longleftrightarrow> P x"
  by (simp add: yields_def)

lemma yields_None [simp]: "\<not> yields None P"
  by (simp add: yields_def)

lemma yields_bind: "yields m P \<Longrightarrow> (\<And>x. P x \<Longrightarrow> yields (f x) Q) \<Longrightarrow> yields (Option.bind m f) Q"
  by (auto simp: yields_def)

lemma yields_mono: "yields m P \<Longrightarrow> (\<And>x. P x \<Longrightarrow> Q x) \<Longrightarrow> yields m Q"
  by (auto simp: yields_def)

subsection \<open>C strings\<close>

text \<open>
  A \<^verbatim>\<open>char *\<close> that may be \<^verbatim>\<open>NULL\<close> is an optional list of bytes without the terminator;
  \<open>cstr_ok\<close> says that the list has no inner terminator, so that its length is \<^verbatim>\<open>strlen\<close>.
\<close>

type_synonym cstr = "byte list"

definition cstr_ok :: "cstr \<Rightarrow> bool" where
  "cstr_ok s \<longleftrightarrow> 0 \<notin> set s"

definition ascii :: "string \<Rightarrow> cstr" where
  "ascii s = map (\<lambda>c. of_nat (of_char c)) s"

lemma length_ascii [simp]: "length (ascii s) = length s"
  by (simp add: ascii_def)

text \<open>The C string stored at the start of a buffer: the bytes before the first terminator.\<close>

definition cstr_of :: "buf \<Rightarrow> cstr" where
  "cstr_of b = takeWhile (\<lambda>c. c \<noteq> 0) b"

lemma cstr_of_terminated: "cstr_ok s \<Longrightarrow> cstr_of (s @ 0 # ys) = s"
  by (induction s) (auto simp: cstr_of_def cstr_ok_def)

text \<open>
  \<^verbatim>\<open>atoi\<close>: leading white space, an optional sign, then decimal digits up to the first other byte.
  The result is exact, that is for values within the range of \<^verbatim>\<open>int\<close>.
\<close>

definition c_isspace :: "byte \<Rightarrow> bool" where
  "c_isspace c \<longleftrightarrow> c = 32 \<or> 9 \<le> c \<and> c \<le> 13"

definition c_isdigit :: "byte \<Rightarrow> bool" where
  "c_isdigit c \<longleftrightarrow> 48 \<le> c \<and> c \<le> 57"

definition digits_value :: "byte list \<Rightarrow> int" where
  "digits_value ds = foldl (\<lambda>a c. 10 * a + (uint c - 48)) 0 ds"

text \<open>\<^verbatim>\<open>atoi\<close> is \<^verbatim>\<open>(int) strtol(s, NULL, 10)\<close>: the value saturates at the ends of a 64 bit \<^verbatim>\<open>long\<close> and is then cut to 32 bits.\<close>

definition c_strtol :: "byte list \<Rightarrow> int" where
  "c_strtol s = (let r = dropWhile c_isspace (cstr_of s);
       v = (case r of
              [] \<Rightarrow> 0
            | c # cs \<Rightarrow> if c = 45 then - digits_value (takeWhile c_isdigit cs)
                        else if c = 43 then digits_value (takeWhile c_isdigit cs)
                        else digits_value (takeWhile c_isdigit r))
     in max (- (2 ^ 63)) (min (2 ^ 63 - 1) v))"

definition c_int32 :: "int \<Rightarrow> int" where
  "c_int32 v = (v + 2 ^ 31) mod 2 ^ 32 - 2 ^ 31"

definition c_atoi :: "byte list \<Rightarrow> int" where
  "c_atoi s = c_int32 (c_strtol s)"

end
