(* ===== verification/Qmi_Tlv.thy ===== *)
theory Qmi_Tlv
  imports Prelude
begin

text \<open>
  The type-length-value blocks of a QMUX message (\<^verbatim>\<open>QMI_TLV_HDR\<close> of \<^verbatim>\<open>QCQMI.h\<close>) and
  \<^verbatim>\<open>GetTLV\<close> of \<^verbatim>\<open>QMIThread.c\<close>, which every request handler uses to find a block of a response.
\<close>

subsection \<open>Blocks and their encoding\<close>

record tlv =
  TLVType :: byte
  TLVValue :: buf

text \<open>\<^verbatim>\<open>sizeof(QMI_TLV_HDR)\<close>: one byte of type, two of length.\<close>

definition sizeof_QMI_TLV_HDR :: nat where
  "sizeof_QMI_TLV_HDR = 3"

definition tlv_bytes :: "tlv \<Rightarrow> buf" where
  "tlv_bytes t = TLVType t # bytes16 (of_nat (length (TLVValue t))) @ TLVValue t"

definition tlvs_bytes :: "tlv list \<Rightarrow> buf" where
  "tlvs_bytes ts = concat (map tlv_bytes ts)"

subsection \<open>The search\<close>

text \<open>
  The loop of \<^verbatim>\<open>GetTLV\<close>: \<open>len\<close> is the \<^verbatim>\<open>USHORT\<close> variable \<^verbatim>\<open>Length\<close>, whose subtraction
  wraps around at 16 bits, \<open>p\<close> the offset of \<^verbatim>\<open>pTLVHdr\<close> in the message. The result is \<open>None\<close>
  for an access outside the message, \<open>Some None\<close> for \<^verbatim>\<open>NULL\<close> and \<open>Some (Some p)\<close> for a
  pointer to the block at offset \<open>p\<close>. A search key above \<open>0x1000\<close> asks for a position.
\<close>

function GetTLV_loop :: "buf \<Rightarrow> int \<Rightarrow> int \<Rightarrow> u16 \<Rightarrow> nat \<Rightarrow> nat option access" where
  "GetTLV_loop b key found len p =
     (if len < 3 then Some None
      else if key > 0x1000 \<and> found + 1 + 0x1000 = key then Some (Some p)
      else case (if key > 0x1000 then Some False else map_option (\<lambda>t. uint t = key) (rd8 b p)) of
             None \<Rightarrow> None
           | Some hit \<Rightarrow>
               if hit then Some (Some p)
               else case rd16 b (p + 1) of
                      None \<Rightarrow> None
                    | Some l \<Rightarrow> GetTLV_loop b key (found + 1) (len - (l + 3)) (p + unat l + 3))"
  by pat_completeness auto
termination
  by (relation "measure (\<lambda>(b, key, found, len, p). length b - p)") (auto dest: rd16_SomeD)

declare GetTLV_loop.simps [simp del]

text \<open>\<^verbatim>\<open>GetTLV(pQMUXMsgHdr, TLVType)\<close>, with \<open>h\<close> the offset of the \<^verbatim>\<open>QCQMUX_MSG_HDR\<close>.\<close>

definition GetTLV :: "buf \<Rightarrow> nat \<Rightarrow> int \<Rightarrow> nat option access" where
  "GetTLV b h key = do { len \<leftarrow> rd16 b (h + 2); GetTLV_loop b key 0 len (h + 4) }"

subsection \<open>Specification: the first block of the wanted type\<close>

primrec find_tlv :: "tlv list \<Rightarrow> byte \<Rightarrow> tlv option" where
  "find_tlv [] ty = None"
| "find_tlv (t # ts) ty = (if TLVType t = ty then Some t else find_tlv ts ty)"

primrec tlv_offset :: "tlv list \<Rightarrow> byte \<Rightarrow> nat option" where
  "tlv_offset [] ty = None"
| "tlv_offset (t # ts) ty =
     (if TLVType t = ty then Some 0
      else map_option (\<lambda>n. length (tlv_bytes t) + n) (tlv_offset ts ty))"

lemma length_tlv_bytes [simp, wire_simps]: "length (tlv_bytes t) = 3 + length (TLVValue t)"
  by (simp add: tlv_bytes_def)

lemma tlvs_bytes_Nil [simp]: "tlvs_bytes [] = []"
  by (simp add: tlvs_bytes_def)

lemma tlvs_bytes_Cons [simp]: "tlvs_bytes (t # ts) = tlv_bytes t @ tlvs_bytes ts"
  by (simp add: tlvs_bytes_def)

lemma tlvs_bytes_append [simp]: "tlvs_bytes (ts @ us) = tlvs_bytes ts @ tlvs_bytes us"
  by (simp add: tlvs_bytes_def)

lemma find_tlv_offset:
  "tlv_offset ts ty = Some n \<Longrightarrow>
   \<exists>t ys. find_tlv ts ty = Some t \<and> drop n (tlvs_bytes ts) = tlv_bytes t @ ys"
  by (induction ts arbitrary: n) (auto split: if_splits)

lemma tlv_offset_None_iff: "tlv_offset ts ty = None \<longleftrightarrow> find_tlv ts ty = None"
  by (induction ts) auto

lemma find_tlv_None_iff: "find_tlv ts ty = None \<longleftrightarrow> ty \<notin> TLVType ` set ts"
  by (induction ts) auto

lemma find_tlv_length: "find_tlv ts ty = Some t \<Longrightarrow> length (TLVValue t) \<le> length (tlvs_bytes ts)"
  by (induction ts) (auto split: if_splits)

subsection \<open>The search implements the specification on well-formed messages\<close>

lemma rd8_tlv_type: "rd8 (pre @ tlv_bytes t @ ys) (length pre) = Some (TLVType t)"
  by (simp add: rd8_append_right tlv_bytes_def rd8_Cons)

lemma rd16_tlv_length:
  "rd16 (pre @ tlv_bytes t @ ys) (length pre + 1) = Some (of_nat (length (TLVValue t)))"
proof -
  have "pre @ tlv_bytes t @ ys =
        (pre @ [TLVType t]) @ bytes16 (of_nat (length (TLVValue t))) @ TLVValue t @ ys"
    by (simp add: tlv_bytes_def)
  then show ?thesis by (metis rd16_append_right rd16_bytes16 diff_self_eq_0 le_refl
        length_append_singleton Suc_eq_plus1)
qed

lemma rdn_tlv_value:
  "rdn (pre @ tlv_bytes t @ ys) (length pre + 3) (length (TLVValue t)) = Some (TLVValue t)"
proof -
  have "pre @ tlv_bytes t @ ys =
        (pre @ [TLVType t] @ bytes16 (of_nat (length (TLVValue t)))) @ TLVValue t @ ys"
    by (simp add: tlv_bytes_def)
  moreover have "length (pre @ [TLVType t] @ bytes16 (of_nat (length (TLVValue t)))) = length pre + 3"
    by simp
  ultimately show ?thesis by (metis rdn_append_right rdn_prefix diff_self_eq_0 le_refl)
qed

lemma u16_of_nat_less_3: "n < 65536 \<Longrightarrow> (of_nat n :: u16) < 3 \<longleftrightarrow> n < 3"
  by (simp add: word_less_nat_alt unat_of_nat_u16)

lemma u16_block_diff:
  "(of_nat (3 + v + n) :: u16) - (of_nat v + 3) = of_nat n"
  by (simp add: algebra_simps)

lemma GetTLV_loop_correct:
  assumes "length (tlvs_bytes ts) < 65536"
  shows "GetTLV_loop (pre @ tlvs_bytes ts @ post) (uint (ty :: byte)) found
           (of_nat (length (tlvs_bytes ts))) (length pre)
         = Some (map_option ((+) (length pre)) (tlv_offset ts ty))"
  using assms
proof (induction ts arbitrary: pre found)
  case Nil
  show ?case by (simp add: GetTLV_loop.simps [of _ _ _ 0])
next
  case (Cons t ts)
  let ?b = "pre @ tlv_bytes t @ tlvs_bytes ts @ post"
  let ?v = "length (TLVValue t)"
  have small: "\<not> uint ty > 0x1000"
    using uint_byte_lt [of ty] by simp
  have len3: "\<not> (of_nat (length (tlvs_bytes (t # ts))) :: u16) < 3"
    using u16_of_nat_less_3 [OF Cons.prems] by (simp only: tlvs_bytes_Cons length_append) simp
  have uv: "unat (of_nat ?v :: u16) = ?v"
    using Cons.prems by (simp add: unat_of_nat_u16)
  show ?case
  proof (cases "TLVType t = ty")
    case True
    then show ?thesis
      using small len3 rd8_tlv_type [of pre t "tlvs_bytes ts @ post"]
      by (simp add: GetTLV_loop.simps [of _ _ _ _ "length pre"])
  next
    case False
    then have miss: "uint (TLVType t) \<noteq> uint ty" by (simp add: word_uint_eq_iff)
    have step: "GetTLV_loop ?b (uint ty) found (of_nat (length (tlvs_bytes (t # ts)))) (length pre)
          = GetTLV_loop ?b (uint ty) (found + 1) (of_nat (length (tlvs_bytes ts)))
              (length (pre @ tlv_bytes t))"
    proof -
      have diff: "(of_nat (length (tlvs_bytes (t # ts))) :: u16) - (of_nat ?v + 3)
                  = of_nat (length (tlvs_bytes ts))"
        using u16_block_diff [of ?v "length (tlvs_bytes ts)"]
        by (simp only: tlvs_bytes_Cons length_append length_tlv_bytes)
      have pos: "length pre + unat (of_nat ?v :: u16) + 3 = length (pre @ tlv_bytes t)"
        using uv by simp
      show ?thesis
        unfolding GetTLV_loop.simps [of ?b _ found _ "length pre"]
        using small len3 miss
        by (simp only: rd8_tlv_type rd16_tlv_length option.map option.case if_False
            simp_thms diff pos)
    qed
    have IH: "GetTLV_loop ((pre @ tlv_bytes t) @ tlvs_bytes ts @ post) (uint ty) (found + 1)
        (of_nat (length (tlvs_bytes ts))) (length (pre @ tlv_bytes t))
        = Some (map_option ((+) (length (pre @ tlv_bytes t))) (tlv_offset ts ty))"
      using Cons.prems by (intro Cons.IH) simp
    have offs: "map_option ((+) (length (pre @ tlv_bytes t))) (tlv_offset ts ty)
                = map_option ((+) (length pre)) (tlv_offset (t # ts) ty)"
      using False by (cases "tlv_offset ts ty") simp_all
    from step IH offs show ?thesis
      by (simp only: tlvs_bytes_Cons append_assoc)
  qed
qed

text \<open>The bytes of a QMUX message: \<^verbatim>\<open>QCQMUX_MSG_HDR\<close> with its length member, then the blocks.\<close>

definition mux_body :: "u16 \<Rightarrow> tlv list \<Rightarrow> buf" where
  "mux_body ty ts = bytes16 ty @ bytes16 (of_nat (length (tlvs_bytes ts))) @ tlvs_bytes ts"

lemma length_mux_body [simp, wire_simps]: "length (mux_body ty ts) = 4 + length (tlvs_bytes ts)"
  by (simp add: mux_body_def)

lemma GetTLV_mux_body:
  assumes "length (tlvs_bytes ts) < 65536"
  shows "GetTLV (pre @ mux_body mt ts @ post) (length pre) (uint (ty :: byte))
         = Some (map_option ((+) (length pre + 4)) (tlv_offset ts ty))"
proof -
  let ?l = "bytes16 (of_nat (length (tlvs_bytes ts)))"
  have b: "pre @ mux_body mt ts @ post = (pre @ bytes16 mt) @ ?l @ tlvs_bytes ts @ post"
    by (simp add: mux_body_def)
  have len: "rd16 (pre @ mux_body mt ts @ post) (length pre + 2)
             = Some (of_nat (length (tlvs_bytes ts)))"
    unfolding b by (simp add: rd16_append_right del: append_assoc)
  have "GetTLV_loop ((pre @ bytes16 mt @ ?l) @ tlvs_bytes ts @ post) (uint ty) 0
          (of_nat (length (tlvs_bytes ts))) (length (pre @ bytes16 mt @ ?l))
        = Some (map_option ((+) (length (pre @ bytes16 mt @ ?l))) (tlv_offset ts ty))"
    by (rule GetTLV_loop_correct [OF assms])
  then show ?thesis
    using len by (simp add: GetTLV_def mux_body_def)
qed

text \<open>The found offset is that of the whole block, so its members read as the block's.\<close>

lemma GetTLV_mux_body_Some:
  assumes "length (tlvs_bytes ts) < 65536" and "find_tlv ts ty = Some t"
  obtains pre' ys where
    "GetTLV (pre @ mux_body mt ts @ post) (length pre) (uint (ty :: byte)) = Some (Some (length pre'))"
    and "pre @ mux_body mt ts @ post = pre' @ tlv_bytes t @ ys"
proof -
  from assms(2) tlv_offset_None_iff [of ts ty] obtain n where n: "tlv_offset ts ty = Some n"
    by (cases "tlv_offset ts ty") auto
  from find_tlv_offset [OF n] assms(2) obtain ys where ys: "drop n (tlvs_bytes ts) = tlv_bytes t @ ys"
    by auto
  have nlt: "n \<le> length (tlvs_bytes ts)"
    by (rule ccontr) (use ys in \<open>simp add: tlv_bytes_def\<close>)
  let ?pre = "pre @ bytes16 mt @ bytes16 (of_nat (length (tlvs_bytes ts))) @ take n (tlvs_bytes ts)"
  have split: "tlvs_bytes ts = take n (tlvs_bytes ts) @ tlv_bytes t @ ys"
    using append_take_drop_id [of n "tlvs_bytes ts"] ys by simp
  show thesis
  proof (rule that [of ?pre "ys @ post"])
    show "GetTLV (pre @ mux_body mt ts @ post) (length pre) (uint ty) = Some (Some (length ?pre))"
      using GetTLV_mux_body [OF assms(1), of pre mt post ty] n nlt by simp
    show "pre @ mux_body mt ts @ post = ?pre @ tlv_bytes t @ ys @ post"
      using split by (simp add: mux_body_def)
  qed
qed

text \<open>What the handlers do with a block that is found: read its length, then its value.\<close>

definition tlv_value :: "buf \<Rightarrow> nat \<Rightarrow> byte \<Rightarrow> buf option access" where
  "tlv_value b h ty = do {
     r \<leftarrow> GetTLV b h (uint ty);
     (case r of
        None \<Rightarrow> Some None
      | Some p \<Rightarrow> do { n \<leftarrow> rd16 b (p + 1); v \<leftarrow> rdn b (p + 3) (unat n); Some (Some v) }) }"

lemma tlv_value_mux_body:
  assumes "length (tlvs_bytes ts) < 65536"
  shows "tlv_value (pre @ mux_body mt ts @ post) (length pre) ty
         = Some (map_option TLVValue (find_tlv ts ty))"
proof (cases "find_tlv ts ty")
  case None
  then show ?thesis
    using GetTLV_mux_body [OF assms, of pre mt post ty] tlv_offset_None_iff [of ts ty]
    by (simp add: tlv_value_def)
next
  case (Some t)
  with assms obtain pre' ys where
    g: "GetTLV (pre @ mux_body mt ts @ post) (length pre) (uint ty) = Some (Some (length pre'))"
    and b: "pre @ mux_body mt ts @ post = pre' @ tlv_bytes t @ ys"
    by (rule GetTLV_mux_body_Some)
  have "length (TLVValue t) < 65536"
    using assms find_tlv_length [OF Some] by linarith
  then have "unat (of_nat (length (TLVValue t)) :: u16) = length (TLVValue t)"
    by (simp add: unat_of_nat_u16)
  then show ?thesis
    unfolding tlv_value_def g by (simp add: Some b rd16_tlv_length [simplified] rdn_tlv_value)
qed

end
