(* ===== verification/Profile.thy ===== *)
theory Profile
  imports Prelude
begin

text \<open>
  The data model shared by the programs: \<^verbatim>\<open>IPV4_T\<close>, \<^verbatim>\<open>IPV6_T\<close>, \<^verbatim>\<open>QMAP_SETTING\<close>,
  \<^verbatim>\<open>RMNET_INFO\<close> and \<^verbatim>\<open>PROFILE_T\<close> of \<^verbatim>\<open>QMIThread.h\<close>, and the constants of \<^verbatim>\<open>QCQMI.h\<close>,
  \<^verbatim>\<open>QCQCTL.h\<close> and \<^verbatim>\<open>QCQMUX.h\<close> the handlers use. A C \<^verbatim>\<open>int\<close> is an \<open>int\<close>; the members that
  travel on the wire keep their width. \<^verbatim>\<open>char *\<close> members that may be \<^verbatim>\<open>NULL\<close> are optional C strings;
  a \<^verbatim>\<open>char[n]\<close> member holds a C string, so the empty list is \<^verbatim>\<open>member[0] == 0\<close>.
\<close>

record IPV4_T =
  Address4 :: u32
  Gateway4 :: u32
  SubnetMask4 :: u32
  DnsPrimary4 :: u32
  DnsSecondary4 :: u32
  Mtu4 :: u32

record IPV6_T =
  Address6 :: buf
  Gateway6 :: buf
  SubnetMask6 :: buf
  DnsPrimary6 :: buf
  DnsSecondary6 :: buf
  PrefixLengthIPAddr :: byte
  PrefixLengthGateway :: byte
  Mtu6 :: u32

text \<open>\<^verbatim>\<open>memset(&profile->ipv4, 0, sizeof(IPV4_T))\<close> and the same for IPv6.\<close>

definition ipv4_zero :: IPV4_T where
  "ipv4_zero = \<lparr>Address4 = 0, Gateway4 = 0, SubnetMask4 = 0, DnsPrimary4 = 0,
                DnsSecondary4 = 0, Mtu4 = 0\<rparr>"

definition ipv6_zero :: IPV6_T where
  "ipv6_zero = \<lparr>Address6 = replicate 16 0, Gateway6 = replicate 16 0, SubnetMask6 = replicate 16 0,
                DnsPrimary6 = replicate 16 0, DnsSecondary6 = replicate 16 0,
                PrefixLengthIPAddr = 0, PrefixLengthGateway = 0, Mtu6 = 0\<rparr>"

record QMAP_SETTING =
  qs_size :: u32
  qs_rx_urb_size :: u32
  qs_ep_type :: u32
  qs_iface_id :: u32
  qs_MuxId :: u32
  qs_ul_max_datagrams :: u32
  qs_ul_max_size :: u32
  qs_dl_minimum_padding :: u32

record RMNET_INFO =
  ri_size :: u32
  ri_rx_urb_size :: u32
  ri_ep_type :: u32
  ri_iface_id :: u32
  ri_qmap_mode :: u32
  ri_qmap_version :: u32
  ri_dl_minimum_padding :: u32
  ri_ifname :: "cstr list"
  ri_mux_id :: buf

record usb_device_info =
  idVendor :: int
  idProduct :: int
  busnum :: int
  devnum :: int
  bNumInterfaces :: int

record usb_interface_info =
  bNumEndpoints :: int
  bInterfaceClass :: int
  bInterfaceSubClass :: int
  bInterfaceProtocol :: int
  intf_driver :: cstr

text \<open>\<^verbatim>\<open>profile->request_ops\<close> and \<^verbatim>\<open>profile->qmi_ops\<close> point to one of a few constant tables;
  \<^verbatim>\<open>hardware_interface\<close> and
  \<^verbatim>\<open>software_interface\<close> hold values of one enumeration.\<close>

datatype request_ops_id = qmi_request_ops | mbim_request_ops | atc_request_ops

datatype qmi_device_ops_id = gobi_qmidev_ops | qmiwwan_qmidev_ops | mbim_dev_ops | atc_dev_ops | qrtr_qmidev_ops

datatype drv_type = DRV_INVALID | SOFTWARE_QMI | SOFTWARE_MBIM | SOFTWARE_ECM_RNDIS_NCM
  | SOFTWARE_QRTR | HARDWARE_PCIE | HARDWARE_USB

record PROFILE_T =
  apn :: "cstr option"
  user :: "cstr option"
  password :: "cstr option"
  auth :: int
  iptype :: int
  pincode :: "cstr option"
  proxy :: cstr
  pdp :: int
  profile_index :: int
  enable_bridge :: bool
  enable_ipv4 :: bool
  enable_ipv6 :: bool
  no_dhcp :: bool
  logfile :: "cstr option"
  usblogfile :: "cstr option"
  expect_adapter :: cstr
  kill_pdp :: int
  replication_factor :: int
  qmichannel :: cstr
  usbnet_adapter :: cstr
  qmapnet_adapter :: cstr
  driver_name :: cstr
  qmap_mode :: int
  qmap_size :: int
  prof_qmap_version :: int
  curIpFamily :: int
  rawIP :: int
  muxid :: int
  wda_client :: int
  udhcpc_ip :: u32
  ipv4 :: IPV4_T
  ipv6 :: IPV6_T
  PCSCFIpv4Addr1 :: u32
  PCSCFIpv4Addr2 :: u32
  PCSCFIpv6Addr1 :: buf
  PCSCFIpv6Addr2 :: buf
  reattach_flag :: bool
  hardware_interface :: drv_type
  software_interface :: drv_type
  usb_dev :: usb_device_info
  usb_intf :: usb_interface_info
  usbmon_fd :: int
  loopback_state :: byte
  BaseBandVersion :: cstr
  old_apn :: cstr
  old_user :: cstr
  old_password :: cstr
  old_auth :: int
  old_iptype :: int
  qmi_ops :: "qmi_device_ops_id option"
  request_ops :: "request_ops_id option"
  rmnet_info :: RMNET_INFO

text \<open>\<^verbatim>\<open>static PROFILE_T s_profile\<close>: every member starts as zero.\<close>

definition rmnet_zero :: RMNET_INFO where
  "rmnet_zero = \<lparr>ri_size = 0, ri_rx_urb_size = 0, ri_ep_type = 0, ri_iface_id = 0,
                 ri_qmap_mode = 0, ri_qmap_version = 0, ri_dl_minimum_padding = 0, ri_ifname = replicate 8 [], ri_mux_id = replicate 8 0\<rparr>"

definition s_profile :: PROFILE_T where
  "s_profile = \<lparr>apn = None, user = None, password = None, auth = 0, iptype = 0, pincode = None,
     proxy = [], pdp = 0, profile_index = 0, enable_bridge = False, enable_ipv4 = False,
     enable_ipv6 = False, no_dhcp = False, logfile = None, usblogfile = None, expect_adapter = [],
     kill_pdp = 0, replication_factor = 0, qmichannel = [], usbnet_adapter = [],
     qmapnet_adapter = [], driver_name = [], qmap_mode = 0, qmap_size = 0, prof_qmap_version = 0, curIpFamily = 0,
     rawIP = 0, muxid = 0, wda_client = 0, udhcpc_ip = 0, ipv4 = ipv4_zero, ipv6 = ipv6_zero,
     PCSCFIpv4Addr1 = 0, PCSCFIpv4Addr2 = 0, PCSCFIpv6Addr1 = replicate 16 0,
     PCSCFIpv6Addr2 = replicate 16 0, reattach_flag = False,
     hardware_interface = DRV_INVALID, software_interface = DRV_INVALID,
     usb_dev = \<lparr>idVendor = 0, idProduct = 0, busnum = 0, devnum = 0, bNumInterfaces = 0\<rparr>,
     usb_intf = \<lparr>bNumEndpoints = 0, bInterfaceClass = 0, bInterfaceSubClass = 0,
                 bInterfaceProtocol = 0, intf_driver = []\<rparr>, usbmon_fd = 0,
     loopback_state = 0, BaseBandVersion = [], old_apn = [], old_user = [], old_password = [],
     old_auth = 0, old_iptype = 0, qmi_ops = None, request_ops = None, rmnet_info = rmnet_zero\<rparr>"

subsection \<open>Constants\<close>

definition IpFamilyV4 :: int where "IpFamilyV4 = 4"
definition IpFamilyV6 :: int where "IpFamilyV6 = 6"

abbreviation (input) "QMUX_TYPE_CTL \<equiv> (0x00 :: byte)"
abbreviation (input) "QMUX_TYPE_WDS \<equiv> (0x01 :: byte)"
abbreviation (input) "QMUX_TYPE_DMS \<equiv> (0x02 :: byte)"
abbreviation (input) "QMUX_TYPE_NAS \<equiv> (0x03 :: byte)"
abbreviation (input) "QMUX_TYPE_UIM \<equiv> (0x0B :: byte)"
abbreviation (input) "QMUX_TYPE_WDS_IPV6 \<equiv> (0x11 :: byte)"
abbreviation (input) "QMUX_TYPE_WDS_ADMIN \<equiv> (0x1A :: byte)"
abbreviation (input) "QMUX_TYPE_ALL \<equiv> (0xFF :: byte)"

abbreviation (input) "QMICTL_GET_VERSION_REQ \<equiv> (0x0021 :: u16)"
abbreviation (input) "QMICTL_GET_CLIENT_ID_REQ \<equiv> (0x0022 :: u16)"
abbreviation (input) "QMICTL_RELEASE_CLIENT_ID_REQ \<equiv> (0x0023 :: u16)"
abbreviation (input) "QMICTL_REVOKE_CLIENT_ID_IND \<equiv> (0x0024 :: u16)"
abbreviation (input) "QMICTL_SYNC_REQ \<equiv> (0x0027 :: u16)"
abbreviation (input) "QMI_MESSAGE_CTL_INTERNAL_PROXY_OPEN \<equiv> (0xFF00 :: u16)"

abbreviation (input) "QWDS_PKT_DATA_UNKNOW \<equiv> (0x00 :: byte)"
abbreviation (input) "QWDS_PKT_DATA_DISCONNECTED \<equiv> (0x01 :: byte)"
abbreviation (input) "QWDS_PKT_DATA_CONNECTED \<equiv> (0x02 :: byte)"

text \<open>Linux \<^verbatim>\<open>errno\<close> values the functions return.\<close>

definition ENODEV :: int where "ENODEV = 19"
definition EINVAL :: int where "EINVAL = 22"
definition ETIMEDOUT :: int where "ETIMEDOUT = 110"

end
