(* ===== verification/Qmi_Message.thy ===== *)
theory Qmi_Message
  imports Qmi_Tlv Profile
begin

text \<open>
  Composition of QMI requests: \<^verbatim>\<open>ComposeQMUXMsg\<close> and the \<^verbatim>\<open>CUSTOMQMUX\<close> builders of
  \<^verbatim>\<open>QMIThread.c\<close>, \<^verbatim>\<open>ComposeQCTLMsg\<close> and the \<^verbatim>\<open>CUSTOMQCTL\<close> builders of \<^verbatim>\<open>QmiWwanCM.c\<close>.
  Both compose in a buffer of \<^verbatim>\<open>WDM_DEFAULT_BUFSIZE\<close> bytes on the stack, so that a store past its
  end is an access fault, and copy the message into memory of exactly its length.

  Offsets in a message: \<^verbatim>\<open>QCQMI_HDR\<close> 0 (IFType), 1 (Length), 3 (CtlFlags), 4 (QMIType),
  5 (ClientId); for a service message \<^verbatim>\<open>QCQMUX_HDR\<close> 6 (CtlFlags), 7 (TransactionId) and
  \<^verbatim>\<open>QCQMUX_MSG_HDR\<close> 9 (Type), 11 (Length), blocks from 13; for a control message
  \<^verbatim>\<open>QCQMICTL_MSG_HDR\<close> 6 (CtlFlags), 7 (TransactionId), 8 (QMICTLType), 10 (Length), blocks from 12.
\<close>

definition WDM_DEFAULT_BUFSIZE :: nat where
  "WDM_DEFAULT_BUFSIZE = 256"

subsection \<open>Transaction identifiers\<close>

text \<open>The function-local \<^verbatim>\<open>static int TransactionId\<close> is the state; the result is \<^verbatim>\<open>USHORT\<close>.\<close>

definition GetQMUXTransactionId :: "int \<Rightarrow> u16 \<times> int" where
  "GetQMUXTransactionId t = (let t' = (if t + 1 > 0xFFFF then 1 else t + 1) in (word_of_int t', t'))"

definition GetQCTLTransactionId :: "int \<Rightarrow> byte \<times> int" where
  "GetQCTLTransactionId t = (let t' = (if t + 1 > 0xFF then 1 else t + 1) in (word_of_int t', t'))"

text \<open>
  Both counters run through \<open>1 .. top\<close> in a cycle; the locale proves what the users of the
  identifiers rely on: an identifier is never 0 and does not repeat within \<open>top\<close> requests.
\<close>

locale transaction_counter =
  fixes top :: int and nxt :: "int \<Rightarrow> 'a :: len word \<times> int"
  assumes top_pos: "0 < top"
    and top_width: "top < 2 ^ LENGTH('a)"
    and nxt_eq: "nxt t = (word_of_int (if t + 1 > top then 1 else t + 1), if t + 1 > top then 1 else t + 1)"
begin

lemma nxt_cycle: "0 \<le> t \<Longrightarrow> t \<le> top \<Longrightarrow> snd (nxt t) = t mod top + 1"
  using top_pos by (cases "t = top") (auto simp: nxt_eq)

lemma nth_state:
  assumes "0 \<le> t" and "t \<le> top"
  shows "((\<lambda>t. snd (nxt t)) ^^ Suc n) t = (t + int n) mod top + 1"
proof (induction n)
  case 0
  then show ?case using nxt_cycle [OF assms] by simp
next
  case (Suc n)
  have "0 \<le> (t + int n) mod top" "(t + int n) mod top < top"
    using top_pos by simp_all
  then have "snd (nxt ((t + int n) mod top + 1)) = ((t + int n) mod top + 1) mod top + 1"
    by (intro nxt_cycle) linarith+
  then show ?case
    using Suc mod_add_right_eq [of 1 "t + int n" top] by (simp add: algebra_simps)
qed

lemma nth_id:
  assumes "0 \<le> t" and "t \<le> top"
  shows "uint (fst (nxt (((\<lambda>t. snd (nxt t)) ^^ n) t))) = (t + int n) mod top + 1"
proof -
  have "0 \<le> (t + int n) mod top" "(t + int n) mod top < top"
    using top_pos by simp_all
  moreover have "fst (nxt x) = word_of_int (snd (nxt x))" for x
    by (simp add: nxt_eq)
  ultimately show ?thesis
    using nth_state [OF assms, of n] top_width
    by (simp add: uint_word_of_int_eq take_bit_int_eq_self del: of_int_add)
qed

lemma ids_distinct:
  assumes "0 \<le> t" and "t \<le> top" and "i < j" and "int j < int i + top"
  shows "fst (nxt (((\<lambda>t. snd (nxt t)) ^^ i) t)) \<noteq> fst (nxt (((\<lambda>t. snd (nxt t)) ^^ j) t))"
proof
  assume "fst (nxt (((\<lambda>t. snd (nxt t)) ^^ i) t)) = fst (nxt (((\<lambda>t. snd (nxt t)) ^^ j) t))"
  then have "(t + int i) mod top = (t + int j) mod top"
    using nth_id [OF assms(1,2), of i] nth_id [OF assms(1,2), of j] by simp
  then have "top dvd int j - int i"
    by (metis add_diff_cancel_left mod_eq_dvd_iff)
  then show False
    using zdvd_imp_le [of top "int j - int i"] assms(3,4) by simp
qed

lemma id_nonzero:
  assumes "0 \<le> t" and "t \<le> top"
  shows "fst (nxt (((\<lambda>t. snd (nxt t)) ^^ i) t)) \<noteq> 0"
proof
  assume "fst (nxt (((\<lambda>t. snd (nxt t)) ^^ i) t)) = 0"
  then have "(t + int i) mod top + 1 = 0"
    using nth_id [OF assms, of i] by simp
  then show False
    using pos_mod_sign [OF top_pos, of "t + int i"] by linarith
qed

end

interpretation qmux_tid: transaction_counter "0xFFFF" GetQMUXTransactionId
  by unfold_locales (auto simp: GetQMUXTransactionId_def)

interpretation qctl_tid: transaction_counter "0xFF" GetQCTLTransactionId
  by unfold_locales (auto simp: GetQCTLTransactionId_def)

text \<open>C32: The transaction identifiers \<^verbatim>\<open>GetQMUXTransactionId\<close> gives to service requests are never 0
  (0 marks an unsolicited message), and two requests among any 65535 consecutive ones have different
  identifiers, so that a response identifies its request.\<close>

theorem qmux_transaction_ids:
  assumes "0 \<le> t" and "t \<le> 0xFFFF" and "i < j" and "j < i + 65535"
  shows "fst (GetQMUXTransactionId (((\<lambda>t. snd (GetQMUXTransactionId t)) ^^ i) t)) \<noteq> 0 \<and>
         fst (GetQMUXTransactionId (((\<lambda>t. snd (GetQMUXTransactionId t)) ^^ i) t))
           \<noteq> fst (GetQMUXTransactionId (((\<lambda>t. snd (GetQMUXTransactionId t)) ^^ j) t))"
  using qmux_tid.id_nonzero [OF assms(1,2), of i] qmux_tid.ids_distinct [OF assms(1-3)] assms(4)
  by simp

theorem qmux_transaction_ids_witness:
  "fst (GetQMUXTransactionId 65534) \<noteq> 0 \<and>
   fst (GetQMUXTransactionId 65534) \<noteq> fst (GetQMUXTransactionId (snd (GetQMUXTransactionId 65534)))"
  using qmux_transaction_ids [of 65534 0 1] by simp

subsection \<open>Composition of service requests\<close>

text \<open>A builder stores its blocks and returns the size of the message from \<^verbatim>\<open>QCQMUX_MSG_HDR\<close> on.\<close>

type_synonym builder = "buf \<Rightarrow> (buf \<times> u16) access"

text \<open>
  \<open>alloc n\<close> says whether \<^verbatim>\<open>malloc(n)\<close> succeeds; the message is \<open>None\<close> (\<^verbatim>\<open>NULL\<close>) when it does not.
\<close>

definition ComposeQMUXMsg ::
  "(nat \<Rightarrow> bool) \<Rightarrow> byte \<Rightarrow> u16 \<Rightarrow> builder option \<Rightarrow> int \<Rightarrow> (buf option \<times> int) access" where
  "ComposeQMUXMsg alloc QMIType Type custom t = do {
     let QMIBuf = replicate WDM_DEFAULT_BUFSIZE 0;
     b \<leftarrow> wr QMIBuf 0 [0x01];
     b \<leftarrow> wr b 3 [0x00];
     b \<leftarrow> wr b 4 [QMIType];
     b \<leftarrow> wr b 6 [0x00];
     let (tid, t') = GetQMUXTransactionId t;
     b \<leftarrow> wr b 7 (bytes16 tid);
     b \<leftarrow> wr b 9 (bytes16 Type);
     b \<leftarrow> (case custom of
            Some f \<Rightarrow> do { (b, n) \<leftarrow> f b; wr b 11 (bytes16 (n - 4)) }
          | None \<Rightarrow> wr b 11 (bytes16 0));
     mlen \<leftarrow> rd16 b 11;
     let qlen = mlen + 4 + 3 + 6 - 1;
     b \<leftarrow> wr b 1 (bytes16 qlen);
     let len = unat qlen + 1;
     if alloc len then do { m \<leftarrow> rdn b 0 len; Some (Some m, t') } else Some (None, t') }"

text \<open>
  The stores the builders are made of: the next block goes to offset \<open>13 + TLVLength\<close>.
  A string block is stored by \<^verbatim>\<open>qstrcpy\<close>, which also stores the terminator behind it.
\<close>

definition put_tlv :: "byte \<Rightarrow> buf \<Rightarrow> buf \<times> u16 \<Rightarrow> (buf \<times> u16) access" where
  "put_tlv ty v st = do {
     let (b, n) = st;
     b \<leftarrow> wr b (13 + unat n) [ty];
     b \<leftarrow> wr b (14 + unat n) (bytes16 (of_nat (length v)));
     b \<leftarrow> wr b (16 + unat n) v;
     Some (b, n + (of_nat (length v) + 3)) }"

definition put_str :: "byte \<Rightarrow> cstr \<Rightarrow> buf \<times> u16 \<Rightarrow> (buf \<times> u16) access" where
  "put_str ty s st = do {
     let (b, n) = st;
     b \<leftarrow> wr b (13 + unat n) [ty];
     b \<leftarrow> wr b (14 + unat n) (bytes16 (of_nat (length s)));
     b \<leftarrow> wr b (16 + unat n) (s @ [0]);
     Some (b, n + (of_nat (length s) + 3)) }"

subsection \<open>The builders\<close>

definition nonempty :: "cstr option \<Rightarrow> bool" where
  "nonempty s \<longleftrightarrow> (case s of None \<Rightarrow> False | Some cs \<Rightarrow> cs \<noteq> [])"

text \<open>The credentials \<^verbatim>\<open>WdsStartNwInterfaceReq\<close> uses: defaults for CDMA networks.\<close>

definition start_nw_credentials ::
  "bool \<Rightarrow> PROFILE_T \<Rightarrow> cstr option \<times> cstr option \<times> int" where
  "start_nw_credentials s_is_cdma profile =
     (if s_is_cdma \<and> \<not> nonempty (user profile) \<and> \<not> nonempty (password profile)
      then (Some (ascii ''ctnet@mycdma.cn''), Some (ascii ''vnet.mobi''), 2)
      else (user profile, password profile, auth profile))"

definition WdsStartNwInterfaceReq :: "bool \<Rightarrow> int \<Rightarrow> PROFILE_T \<Rightarrow> builder" where
  "WdsStartNwInterfaceReq s_is_cdma s_hdr_personality profile b = do {
     let (profile_user, profile_password, profile_auth) = start_nw_credentials s_is_cdma profile;
     b \<leftarrow> wr b 11 (bytes16 0);
     st \<leftarrow> put_tlv 0x30 [if s_is_cdma then 0x02 else 0x01] (b, 0);
     st \<leftarrow> (case apn profile of
             Some a \<Rightarrow> if s_is_cdma then Some st else put_str 0x14 a st | None \<Rightarrow> Some st);
     st \<leftarrow> (case profile_user of Some u \<Rightarrow> put_str 0x17 u st | None \<Rightarrow> Some st);
     st \<leftarrow> (case profile_password of Some w \<Rightarrow> put_str 0x18 w st | None \<Rightarrow> Some st);
     st \<leftarrow> (if profile_user \<noteq> None \<and> profile_password \<noteq> None
           then put_tlv 0x16 [word_of_int profile_auth] st else Some st);
     st \<leftarrow> put_tlv 0x19 [word_of_int (curIpFamily profile)] st;
     st \<leftarrow> (if profile_index profile \<noteq> 0 \<and> \<not> s_is_cdma
           then (if s_is_cdma \<and> s_hdr_personality = 2 then put_tlv 0x32 [101] st
                 else put_tlv 0x31 [word_of_int (profile_index profile)] st)
           else Some st);
     let (b, n) = st;
     Some (b, 4 + n) }"

definition WdsStopNwInterfaceReq :: "u32 \<Rightarrow> u32 \<Rightarrow> int \<Rightarrow> builder" where
  "WdsStopNwInterfaceReq WdsConnectionIPv4Handle WdsConnectionIPv6Handle arg b = do {
     (b, n) \<leftarrow> put_tlv 0x01 (bytes32 (if arg = IpFamilyV4 then WdsConnectionIPv4Handle
                                     else WdsConnectionIPv6Handle)) (b, 0);
     Some (b, 11) }"

definition WdsSetClientIPFamilyPref :: "byte \<Rightarrow> builder" where
  "WdsSetClientIPFamilyPref arg b = do { (b, n) \<leftarrow> put_tlv 0x01 [arg] (b, 0); Some (b, 8) }"

definition WdsSetAutoConnect :: "byte \<Rightarrow> builder" where
  "WdsSetAutoConnect arg b = do { (b, n) \<leftarrow> put_tlv 0x01 [arg] (b, 0); Some (b, 8) }"

definition WdsSetQMUXBindMuxDataPort :: "QMAP_SETTING \<Rightarrow> builder" where
  "WdsSetQMUXBindMuxDataPort qmap_settings b = do {
     st \<leftarrow> put_tlv 0x10 (bytes32 (qs_ep_type qmap_settings) @ bytes32 (qs_iface_id qmap_settings)) (b, 0);
     st \<leftarrow> put_tlv 0x11 [ucast (qs_MuxId qmap_settings)] st;
     (b, n) \<leftarrow> put_tlv 0x13 (bytes32 1) st;
     Some (b, 26) }"

definition WdaSetDataFormat :: "u32 \<Rightarrow> QMAP_SETTING \<Rightarrow> builder" where
  "WdaSetDataFormat qmap_version qmap_settings b =
     (if qs_rx_urb_size qmap_settings = 0 then do {
        st \<leftarrow> put_tlv 0x10 [0] (b, 0);
        st \<leftarrow> put_tlv 0x11 (bytes32 0x01) st;
        (b, n) \<leftarrow> put_tlv 0x13 (bytes32 0x00) st;
        Some (b, 4 + 4 + 7 + 7) }
      else do {
        st \<leftarrow> put_tlv 0x10 [0] (b, 0);
        st \<leftarrow> put_tlv 0x11 (bytes32 0x02) st;
        st \<leftarrow> put_tlv 0x12 (bytes32 qmap_version) st;
        st \<leftarrow> put_tlv 0x13 (bytes32 qmap_version) st;
        st \<leftarrow> put_tlv 0x15 (bytes32 (qs_rx_urb_size qmap_settings div 512)) st;
        st \<leftarrow> put_tlv 0x16 (bytes32 (qs_rx_urb_size qmap_settings)) st;
        st \<leftarrow> put_tlv 0x17 (bytes32 (qs_ep_type qmap_settings) @ bytes32 (qs_iface_id qmap_settings)) st;
        if qs_ul_max_datagrams qmap_settings = 0 then Some (fst st, 54)
        else do {
          st \<leftarrow> put_tlv 0x19 (bytes32 (qs_dl_minimum_padding qmap_settings)) st;
          st \<leftarrow> put_tlv 0x1B (bytes32 (qs_ul_max_datagrams qmap_settings)) st;
          (b, n) \<leftarrow> put_tlv 0x1C (bytes32 (qs_ul_max_size qmap_settings)) st;
          Some (b, 75) } })"

definition DmsUIMVerifyPinReqSend :: "cstr \<Rightarrow> builder" where
  "DmsUIMVerifyPinReqSend arg b = do {
     b \<leftarrow> wr b 13 [0x01];
     b \<leftarrow> wr b 16 [0x01];
     b \<leftarrow> wr b 17 [of_nat (length arg)];
     b \<leftarrow> wr b 18 (arg @ [0]);
     b \<leftarrow> wr b 14 (bytes16 (of_nat (2 + length arg)));
     Some (b, 10 + (of_nat (length arg) - 1)) }"

definition UimVerifyPinReqSend :: "cstr \<Rightarrow> builder" where
  "UimVerifyPinReqSend arg b = do {
     b \<leftarrow> wr b 13 [0x01];
     b \<leftarrow> wr b 14 (bytes16 2);
     b \<leftarrow> wr b 16 [0x00];
     b \<leftarrow> wr b 17 [0x00];
     b \<leftarrow> wr b 18 [0x02];
     b \<leftarrow> wr b 19 (bytes16 (of_nat (2 + length arg)));
     b \<leftarrow> wr b 21 [0x01];
     b \<leftarrow> wr b 22 [of_nat (length arg)];
     b \<leftarrow> wr b 23 (arg @ [0]);
     Some (b, 15 + (of_nat (length arg) - 1)) }"

definition WdsGetProfileListReqSend :: builder where
  "WdsGetProfileListReqSend b = do { b \<leftarrow> wr b 11 (bytes16 0); Some (b, 4) }"

definition WdsCreateProfileSettingsReqSend :: "PROFILE_T \<Rightarrow> builder" where
  "WdsCreateProfileSettingsReqSend profile b = do {
     b \<leftarrow> wr b 11 (bytes16 8);
     st \<leftarrow> put_tlv 0x01 [0x00] (b, 0);
     (b, n) \<leftarrow> put_tlv 0x25 [word_of_int (pdp profile)] st;
     Some (b, 12) }"

definition WdsGetProfileSettingsReqSend :: "PROFILE_T \<Rightarrow> builder" where
  "WdsGetProfileSettingsReqSend profile b = do {
     b \<leftarrow> wr b 11 (bytes16 5);
     (b, n) \<leftarrow> put_tlv 0x01 [0x00, word_of_int (profile_index profile)] (b, 0);
     Some (b, 9) }"

definition WdsModifyProfileSettingsReq :: "PROFILE_T \<Rightarrow> builder" where
  "WdsModifyProfileSettingsReq profile b = do {
     b \<leftarrow> wr b 11 (bytes16 5);
     st \<leftarrow> put_tlv 0x01 [0x00, word_of_int (profile_index profile)] (b, 0);
     st \<leftarrow> put_tlv 0x11 [word_of_int (iptype profile)] st;
     st \<leftarrow> (case apn profile of Some a \<Rightarrow> put_str 0x14 a st | None \<Rightarrow> Some st);
     st \<leftarrow> (case user profile of Some u \<Rightarrow> put_str 0x1B u st | None \<Rightarrow> Some st);
     st \<leftarrow> (case password profile of Some w \<Rightarrow> put_str 0x1C w st | None \<Rightarrow> Some st);
     st \<leftarrow> (if user profile \<noteq> None \<and> password profile \<noteq> None
           then put_tlv 0x1D [word_of_int (auth profile)] st else Some st);
     let (b, n) = st;
     Some (b, 4 + n) }"

definition WdsGetRuntimeSettingReq :: builder where
  "WdsGetRuntimeSettingReq b = do {
     (b, n) \<leftarrow> put_tlv 0x10 (bytes32 (push_bit 4 1 OR push_bit 8 1 OR push_bit 13 1 OR push_bit 9 1
                OR push_bit 11 1 OR push_bit 14 1)) (b, 0);
     Some (b, 11) }"

subsection \<open>What the builders store\<close>

text \<open>
  \<open>enc h b n ts\<close>: the buffer holds the first 11 header bytes \<open>h\<close>, two bytes of a length that is
  stored last, and the encoded blocks \<open>ts\<close>, whose size is \<open>n\<close>.
\<close>

definition enc :: "buf \<Rightarrow> buf \<Rightarrow> u16 \<Rightarrow> tlv list \<Rightarrow> bool" where
  "enc h b n ts \<longleftrightarrow> length h = 11 \<and> length b = WDM_DEFAULT_BUFSIZE \<and>
     unat n = length (tlvs_bytes ts) \<and>
     (\<exists>l2. length l2 = 2 \<and> take (13 + unat n) b = h @ l2 @ tlvs_bytes ts)"

abbreviation mk_tlv :: "byte \<Rightarrow> buf \<Rightarrow> tlv" where
  "mk_tlv ty v \<equiv> \<lparr>TLVType = ty, TLVValue = v\<rparr>"

lemma put_tlv_eq:
  "put_tlv ty v (b, n) =
     map_option (\<lambda>b. (b, n + (of_nat (length v) + 3))) (wr b (13 + unat n) (tlv_bytes (mk_tlv ty v)))"
proof -
  have "wr b (13 + unat n) (tlv_bytes (mk_tlv ty v))
        = Option.bind (wr b (13 + unat n) [ty]) (\<lambda>b.
            Option.bind (wr b (14 + unat n) (bytes16 (of_nat (length v))))
              (\<lambda>b. wr b (16 + unat n) v))"
    by (subst wr_adjacent3) (simp_all add: tlv_bytes_def)
  then show ?thesis
    by (simp add: put_tlv_def map_option_case split: Option.bind_splits option.splits)
qed

lemma put_str_eq:
  "put_str ty s (b, n) =
     map_option (\<lambda>b. (b, n + (of_nat (length s) + 3)))
       (wr b (13 + unat n) (tlv_bytes (mk_tlv ty s) @ [0]))"
proof -
  have "wr b (13 + unat n) (tlv_bytes (mk_tlv ty s) @ [0])
        = Option.bind (wr b (13 + unat n) [ty]) (\<lambda>b.
            Option.bind (wr b (14 + unat n) (bytes16 (of_nat (length s))))
              (\<lambda>b. wr b (16 + unat n) (s @ [0])))"
    by (subst wr_adjacent3) (simp_all add: tlv_bytes_def)
  then show ?thesis
    by (simp add: put_str_def map_option_case split: Option.bind_splits option.splits)
qed

lemma enc_wr:
  assumes e: "enc h b n ts" and w: "wr b (13 + unat n) (tlv_bytes t @ junk) = Some b'"
  shows "enc h b' (n + (of_nat (length (TLVValue t)) + 3)) (ts @ [t])"
proof -
  let ?v = "length (TLVValue t)"
  from w have fits: "13 + unat n + (3 + ?v) + length junk \<le> length b"
    by (auto simp: wr_def split: if_splits)
  then have n': "unat (n + (of_nat ?v + 3)) = unat n + (?v + 3)"
    using e by (simp add: enc_def WDM_DEFAULT_BUFSIZE_def unat_word_ariths unat_of_nat_u16)
  from e obtain l2 where l2: "length l2 = 2" "take (13 + unat n) b = h @ l2 @ tlvs_bytes ts"
    by (auto simp: enc_def)
  have "take (13 + unat n + length (tlv_bytes t)) b'
        = take (13 + unat n + length (tlv_bytes t)) (take (13 + unat n + length (tlv_bytes t @ junk)) b')"
    by (simp add: min_def)
  also have "\<dots> = take (13 + unat n) b @ tlv_bytes t"
    using fits unfolding take_wr_append [OF w] by simp
  finally have "take (13 + unat (n + (of_nat ?v + 3))) b' = h @ l2 @ tlvs_bytes (ts @ [t])"
    using l2 n' by (simp add: add.assoc add.commute add.left_commute)
  with e l2(1) n' length_wr [OF w] show ?thesis
    by (auto simp: enc_def)
qed

definition enc_st :: "buf \<Rightarrow> tlv list \<Rightarrow> buf \<times> u16 \<Rightarrow> bool" where
  "enc_st h ts st \<longleftrightarrow> enc h (fst st) (snd st) ts"

lemma put_tlv_enc:
  assumes "enc_st h ts st" and "13 + length (tlvs_bytes (ts @ [mk_tlv ty v])) \<le> WDM_DEFAULT_BUFSIZE"
  shows "yields (put_tlv ty v st) (enc_st h (ts @ [mk_tlv ty v]))"
proof -
  obtain b n where st: "st = (b, n)" by fastforce
  with assms have e: "enc h b n ts" by (simp add: enc_st_def)
  with assms(2) obtain b' where w: "wr b (13 + unat n) (tlv_bytes (mk_tlv ty v)) = Some b'"
    by (auto simp: wr_def enc_def)
  with enc_wr [OF e, of "mk_tlv ty v" "[]" b'] show ?thesis
    by (simp add: st put_tlv_eq enc_st_def)
qed

lemma put_str_enc:
  assumes "enc_st h ts st" and "14 + length (tlvs_bytes (ts @ [mk_tlv ty s])) \<le> WDM_DEFAULT_BUFSIZE"
  shows "yields (put_str ty s st) (enc_st h (ts @ [mk_tlv ty s]))"
proof -
  obtain b n where st: "st = (b, n)" by fastforce
  with assms have e: "enc h b n ts" by (simp add: enc_st_def)
  with assms(2) obtain b' where w: "wr b (13 + unat n) (tlv_bytes (mk_tlv ty s) @ [0]) = Some b'"
    by (auto simp: wr_def enc_def)
  with enc_wr [OF e w] show ?thesis
    by (simp add: st put_str_eq enc_st_def)
qed

lemma enc_set_length:
  assumes "enc h b n ts" shows "yields (wr b 11 (bytes16 l)) (\<lambda>b'. enc h b' n ts)"
proof -
  from assms obtain l2 where l2: "length l2 = 2" "take (13 + unat n) b = h @ l2 @ tlvs_bytes ts"
    and h: "length h = 11" and n: "unat n = length (tlvs_bytes ts)" and lb: "length b = 256"
    by (auto simp: enc_def WDM_DEFAULT_BUFSIZE_def)
  define r where "r = drop (13 + unat n) b"
  have b: "b = h @ l2 @ tlvs_bytes ts @ r"
    using append_take_drop_id [of "13 + unat n" b] unfolding l2(2) r_def by simp
  have "wr b 11 (bytes16 l) = Some (h @ bytes16 l @ tlvs_bytes ts @ r)"
    using h l2(1) by (simp add: b wr_def)
  moreover have "enc h (h @ bytes16 l @ tlvs_bytes ts @ r) n ts"
    using h n lb l2(1) by (auto simp: enc_def WDM_DEFAULT_BUFSIZE_def b)
  ultimately show ?thesis by simp
qed

subsection \<open>The composed message\<close>

text \<open>The bytes of a service message, as \<^verbatim>\<open>QCQMIMSG\<close> lays them out.\<close>

definition qmux_frame :: "byte \<Rightarrow> byte \<Rightarrow> byte \<Rightarrow> u16 \<Rightarrow> u16 \<Rightarrow> tlv list \<Rightarrow> buf" where
  "qmux_frame qt cid fl tid mt ts =
     [0x01] @ bytes16 (of_nat (12 + length (tlvs_bytes ts))) @ [0x00, qt, cid, fl] @ bytes16 tid
       @ mux_body mt ts"

lemma length_qmux_frame [simp, wire_simps]:
  "length (qmux_frame qt cid fl tid mt ts) = 13 + length (tlvs_bytes ts)"
  by (simp add: qmux_frame_def)

definition qmux_hdr :: "byte \<Rightarrow> u16 \<Rightarrow> u16 \<Rightarrow> buf" where
  "qmux_hdr qt tid mt = [0x01, 0, 0, 0x00, qt, 0, 0x00] @ bytes16 tid @ bytes16 mt"

lemma length_qmux_hdr [simp]: "length (qmux_hdr qt tid mt) = 11"
  by (simp add: qmux_hdr_def)

text \<open>The header stores at the start of \<^verbatim>\<open>ComposeQMUXMsg\<close>.\<close>

definition qmux_start :: "byte \<Rightarrow> u16 \<Rightarrow> u16 \<Rightarrow> buf" where
  "qmux_start qt tid mt = qmux_hdr qt tid mt @ replicate 245 0"

lemma wr_append_left:
  "i + length vs \<le> length xs \<Longrightarrow> wr (xs @ ys) i vs = map_option (\<lambda>zs. zs @ ys) (wr xs i vs)"
  by (simp add: wr_def)

lemma qmux_start_stores:
  "do { b \<leftarrow> wr (replicate WDM_DEFAULT_BUFSIZE 0) 0 [0x01];
        b \<leftarrow> wr b 3 [0x00];
        b \<leftarrow> wr b 4 [qt];
        b \<leftarrow> wr b 6 [0x00];
        b \<leftarrow> wr b 7 (bytes16 tid);
        wr b 9 (bytes16 mt) } = Some (qmux_start qt tid mt)"
proof -
  have "replicate WDM_DEFAULT_BUFSIZE (0 :: byte) = replicate 11 0 @ replicate 245 0"
    by (simp add: WDM_DEFAULT_BUFSIZE_def flip: replicate_add)
  also have "replicate 11 (0 :: byte) = [0, 0, 0, 0, 0, 0, 0, 0, 0, 0, 0]"
    by (simp add: numeral_eq_Suc)
  finally have init: "replicate WDM_DEFAULT_BUFSIZE (0 :: byte)
                      = [0, 0, 0, 0, 0, 0, 0, 0, 0, 0, 0] @ replicate 245 0" .
  show ?thesis
    unfolding init
    by (simp add: wr_append_left wr_def qmux_start_def qmux_hdr_def bytes16_def
        del: append_Cons append_Nil replicate_Suc)
qed

lemma enc_qmux_start: "enc (qmux_hdr qt tid mt) (qmux_start qt tid mt) 0 []"
  by (simp add: enc_def qmux_start_def WDM_DEFAULT_BUFSIZE_def take_replicate)

text \<open>What \<^verbatim>\<open>ComposeQMUXMsg\<close> does once the blocks are in the buffer.\<close>

lemma enc_finish:
  assumes "enc (qmux_hdr qt tid mt) b n ts"
  shows "do { b \<leftarrow> wr b 11 (bytes16 n);
              mlen \<leftarrow> rd16 b 11;
              let qlen = mlen + 4 + 3 + 6 - 1;
              b \<leftarrow> wr b 1 (bytes16 qlen);
              let len = unat qlen + 1;
              if alloc len then do { m \<leftarrow> rdn b 0 len; Some (Some m, t') } else Some (None, t') }
         = Some (if alloc (13 + length (tlvs_bytes ts)) then Some (qmux_frame qt 0 0 tid mt ts)
                 else None, t')"
proof -
  let ?L = "length (tlvs_bytes ts)"
  from assms obtain l2 where l2: "length l2 = 2"
      "take (13 + unat n) b = qmux_hdr qt tid mt @ l2 @ tlvs_bytes ts"
    and n: "unat n = ?L" and lb: "length b = 256"
    by (auto simp: enc_def WDM_DEFAULT_BUFSIZE_def)
  then have "length (take (13 + ?L) b) = 13 + ?L"
    by simp
  then have fit: "13 + ?L \<le> 256"
    unfolding length_take lb by simp
  define r where "r = drop (13 + ?L) b"
  have b: "b = qmux_hdr qt tid mt @ l2 @ tlvs_bytes ts @ r"
    using append_take_drop_id [of "13 + ?L" b] unfolding l2(2) [unfolded n] r_def by simp
  let ?h = "[0x01, 0, 0, 0x00, qt, 0, 0x00] @ bytes16 tid @ bytes16 mt"
  have w1: "wr b 11 (bytes16 n) = Some (?h @ bytes16 n @ tlvs_bytes ts @ r)"
    using l2(1) by (simp add: b wr_def qmux_hdr_def)
  have rd: "rd16 (?h @ bytes16 n @ tlvs_bytes ts @ r) 11 = Some n"
    using rd16_append_right [of ?h 11 "bytes16 n @ tlvs_bytes ts @ r"] by simp
  have q: "unat (n + 4 + 3 + 6 - 1) = 12 + ?L"
    using fit n by (simp add: unat_word_ariths)
  have qn: "n + 4 + 3 + 6 - 1 = of_nat (12 + ?L)"
    unfolding q [symmetric] by simp
  have nn: "n = of_nat ?L"
    unfolding n [symmetric] by simp
  let ?m = "[0x01] @ bytes16 (of_nat (12 + ?L)) @ [0x00, qt, 0, 0x00] @ bytes16 tid
              @ bytes16 mt @ bytes16 n @ tlvs_bytes ts"
  have w2: "wr (?h @ bytes16 n @ tlvs_bytes ts @ r) 1 (bytes16 (n + 4 + 3 + 6 - 1)) = Some (?m @ r)"
    unfolding qn by (simp add: wr_def numeral_3_eq_3)
  have m: "?m = qmux_frame qt 0 0 tid mt ts"
    by (simp add: qmux_frame_def mux_body_def nn)
  have rdm: "rdn (qmux_frame qt 0 0 tid mt ts @ r) 0 (12 + ?L + 1) = Some (qmux_frame qt 0 0 tid mt ts)"
  proof -
    have lm: "12 + ?L + 1 = length (qmux_frame qt 0 0 tid mt ts)" by simp
    show ?thesis unfolding lm by (rule rdn_prefix)
  qed
  show ?thesis
    unfolding w1 Option.bind.simps rd Let_def w2 q m rdm by simp
qed

lemma ComposeQMUXMsg_start:
  assumes "GetQMUXTransactionId t = (tid, t')"
  shows "ComposeQMUXMsg alloc qt mt (Some custom) t =
         do { (b, n) \<leftarrow> custom (qmux_start qt tid mt);
              b \<leftarrow> wr b 11 (bytes16 (n - 4));
              mlen \<leftarrow> rd16 b 11;
              let qlen = mlen + 4 + 3 + 6 - 1;
              b \<leftarrow> wr b 1 (bytes16 qlen);
              let len = unat qlen + 1;
              if alloc len then do { m \<leftarrow> rdn b 0 len; Some (Some m, t') } else Some (None, t') }"
proof -
  have "ComposeQMUXMsg alloc qt mt (Some custom) t =
        do { b0 \<leftarrow> do { b \<leftarrow> wr (replicate WDM_DEFAULT_BUFSIZE 0) 0 [0x01];
               b \<leftarrow> wr b 3 [0x00]; b \<leftarrow> wr b 4 [qt]; b \<leftarrow> wr b 6 [0x00];
               b \<leftarrow> wr b 7 (bytes16 tid); wr b 9 (bytes16 mt) };
             (b, n) \<leftarrow> custom b0;
             b \<leftarrow> wr b 11 (bytes16 (n - 4));
             mlen \<leftarrow> rd16 b 11;
             let qlen = mlen + 4 + 3 + 6 - 1;
             b \<leftarrow> wr b 1 (bytes16 qlen);
             let len = unat qlen + 1;
             if alloc len then do { m \<leftarrow> rdn b 0 len; Some (Some m, t') } else Some (None, t') }"
    unfolding ComposeQMUXMsg_def assms Let_def prod.case option.case
    by (simp add: bind_assoc case_prod_unfold)
  then show ?thesis unfolding qmux_start_stores Option.bind.simps .
qed

text \<open>
  The contract of a builder: on a buffer with the header it stores the blocks \<open>blocks\<close>, if they
  fit, and returns their size. Composition with such a builder gives exactly the frame of its blocks.
\<close>

locale qmux_builder =
  fixes custom :: builder and blocks :: "tlv list" and fits :: bool
  assumes builds: "fits \<Longrightarrow> enc h b 0 [] \<Longrightarrow>
    yields (custom b) (\<lambda>(b', n). enc h b' (n - 4) blocks)"
begin

lemma compose:
  assumes "fits" and "GetQMUXTransactionId t = (tid, t')"
  shows "ComposeQMUXMsg alloc qt mt (Some custom) t =
         Some (if alloc (13 + length (tlvs_bytes blocks)) then Some (qmux_frame qt 0 0 tid mt blocks)
               else None, t')"
proof -
  obtain b n where b: "custom (qmux_start qt tid mt) = Some (b, n)"
    and e: "enc (qmux_hdr qt tid mt) b (n - 4) blocks"
    using builds [OF assms(1) enc_qmux_start [of qt tid mt]] by (auto simp: yields_def)
  show ?thesis
    unfolding ComposeQMUXMsg_start [OF assms(2)] b
    using enc_finish [OF e, of alloc t'] by (simp add: Let_def)
qed

end

end
