(* ===== verification/Qmi_Builders.thy ===== *)
theory Qmi_Builders
  imports Qmi_Message
begin

text \<open>
  What each builder of \<^verbatim>\<open>QMIThread.c\<close> puts into its request: the list of its blocks, and an
  interpretation of the builder contract \<open>qmux_builder\<close> that gives the bytes of the message
  \<^verbatim>\<open>ComposeQMUXMsg\<close> makes with it.
\<close>

subsection \<open>The blocks of each request\<close>

definition opt_tlv :: "byte \<Rightarrow> cstr option \<Rightarrow> tlv list" where
  "opt_tlv ty s = (case s of None \<Rightarrow> [] | Some v \<Rightarrow> [mk_tlv ty v])"

definition start_nw_blocks :: "bool \<Rightarrow> PROFILE_T \<Rightarrow> tlv list" where
  "start_nw_blocks s_is_cdma profile =
     (let (u, w, a) = start_nw_credentials s_is_cdma profile in
      [mk_tlv 0x30 [if s_is_cdma then 0x02 else 0x01]]
      @ (if s_is_cdma then [] else opt_tlv 0x14 (apn profile))
      @ opt_tlv 0x17 u @ opt_tlv 0x18 w
      @ (if u \<noteq> None \<and> w \<noteq> None then [mk_tlv 0x16 [word_of_int a]] else [])
      @ [mk_tlv 0x19 [word_of_int (curIpFamily profile)]]
      @ (if profile_index profile \<noteq> 0 \<and> \<not> s_is_cdma
         then [mk_tlv 0x31 [word_of_int (profile_index profile)]] else []))"

definition modify_profile_blocks :: "PROFILE_T \<Rightarrow> tlv list" where
  "modify_profile_blocks profile =
     [mk_tlv 0x01 [0x00, word_of_int (profile_index profile)], mk_tlv 0x11 [word_of_int (iptype profile)]]
     @ opt_tlv 0x14 (apn profile) @ opt_tlv 0x1B (user profile) @ opt_tlv 0x1C (password profile)
     @ (if user profile \<noteq> None \<and> password profile \<noteq> None
        then [mk_tlv 0x1D [word_of_int (auth profile)]] else [])"

lemma put_opt_enc:
  assumes "enc_st h ts st" and "14 + length (tlvs_bytes (ts @ opt_tlv ty s)) \<le> WDM_DEFAULT_BUFSIZE"
  shows "yields (case s of None \<Rightarrow> Some st | Some v \<Rightarrow> put_str ty v st) (enc_st h (ts @ opt_tlv ty s))"
  using assms by (cases s) (simp_all add: opt_tlv_def put_str_enc)

lemma put_if_enc:
  assumes "enc_st h ts st"
    and "c \<Longrightarrow> 13 + length (tlvs_bytes (ts @ [mk_tlv ty v])) \<le> WDM_DEFAULT_BUFSIZE"
  shows "yields (if c then put_tlv ty v st else Some st) (enc_st h (ts @ (if c then [mk_tlv ty v] else [])))"
  using assms by (simp add: put_tlv_enc)

lemma start_nw_builds:
  assumes fits: "13 + length (tlvs_bytes (start_nw_blocks cdma profile)) \<le> WDM_DEFAULT_BUFSIZE"
    and e: "enc h b 0 []"
  shows "yields (WdsStartNwInterfaceReq cdma hdr profile b)
           (\<lambda>(b', n). enc h b' (n - 4) (start_nw_blocks cdma profile))"
proof -
  obtain u w a where cred: "start_nw_credentials cdma profile = (u, w, a)"
    by (cases "start_nw_credentials cdma profile")
  let ?apn = "if cdma then None else apn profile"
  let ?t1 = "[] @ [mk_tlv 0x30 [if cdma then 0x02 else 0x01]]"
  let ?t2 = "?t1 @ opt_tlv 0x14 ?apn"
  let ?t3 = "?t2 @ opt_tlv 0x17 u"
  let ?t4 = "?t3 @ opt_tlv 0x18 w"
  let ?t5 = "?t4 @ (if u \<noteq> None \<and> w \<noteq> None then [mk_tlv 0x16 [word_of_int a]] else [])"
  let ?t6 = "?t5 @ [mk_tlv 0x19 [word_of_int (curIpFamily profile)]]"
  let ?t7 = "?t6 @ (if profile_index profile \<noteq> 0 \<and> \<not> cdma
         then [mk_tlv 0x31 [word_of_int (profile_index profile)]] else [])"
  have blocks: "start_nw_blocks cdma profile = ?t7"
    by (simp add: start_nw_blocks_def cred opt_tlv_def)
  have size: "13 + length (tlvs_bytes ?t7) \<le> WDM_DEFAULT_BUFSIZE"
    using fits unfolding blocks .
  have apn: "(case apn profile of None \<Rightarrow> Some st | Some a \<Rightarrow> if cdma then Some st else put_str 0x14 a st)
           = (case ?apn of None \<Rightarrow> Some st | Some a \<Rightarrow> put_str 0x14 a st)" for st
    by (simp split: option.splits)
  have idx: "(if profile_index profile \<noteq> 0 \<and> \<not> cdma
              then if cdma \<and> hdr = 2 then put_tlv 0x32 [101] st
                   else put_tlv 0x31 [word_of_int (profile_index profile)] st
              else Some st) =
             (if profile_index profile \<noteq> 0 \<and> \<not> cdma
              then put_tlv 0x31 [word_of_int (profile_index profile)] st else Some st)" for st
    by simp
  show ?thesis
    unfolding WdsStartNwInterfaceReq_def cred Let_def prod.case apn idx blocks
    by (rule yields_bind [OF enc_set_length [OF e]],
        rule yields_bind [where P = "enc_st h ?t1"], rule put_tlv_enc,
        simp add: enc_st_def, use size in simp,
        rule yields_bind [where P = "enc_st h ?t2"], erule put_opt_enc, use size in simp,
        rule yields_bind [where P = "enc_st h ?t3"], erule put_opt_enc, use size in simp,
        rule yields_bind [where P = "enc_st h ?t4"], erule put_opt_enc, use size in simp,
        rule yields_bind [where P = "enc_st h ?t5"], erule put_if_enc, use size in simp,
        rule yields_bind [where P = "enc_st h ?t6"], erule put_tlv_enc, use size in simp,
        rule yields_bind [where P = "enc_st h ?t7"], erule put_if_enc, use size in simp,
        auto simp: enc_st_def)
qed

interpretation start_nw: qmux_builder "WdsStartNwInterfaceReq cdma hdr profile"
  "start_nw_blocks cdma profile"
  "13 + length (tlvs_bytes (start_nw_blocks cdma profile)) \<le> WDM_DEFAULT_BUFSIZE"
  for cdma hdr profile
  by unfold_locales (rule start_nw_builds)


text \<open>The builders of a fixed shape, and the profile update.\<close>

lemma yields_put_tlv:
  assumes "enc_st h ts st" and "13 + length (tlvs_bytes (ts @ [mk_tlv ty v])) \<le> WDM_DEFAULT_BUFSIZE"
    and "\<And>st'. enc_st h (ts @ [mk_tlv ty v]) st' \<Longrightarrow> yields (f st') Q"
  shows "yields (Option.bind (put_tlv ty v st) f) Q"
  by (rule yields_bind [OF put_tlv_enc]) (use assms in auto)

lemma enc_st_start: "enc h b 0 [] \<Longrightarrow> enc_st h [] (b, 0)"
  by (simp add: enc_st_def)

lemma enc_size:
  assumes "enc_st h ts st" and "m = of_nat (length (tlvs_bytes ts))"
  shows "enc h (fst st) m ts"
proof -
  from assms(1) have n: "unat (snd st) = length (tlvs_bytes ts)"
    by (simp add: enc_st_def enc_def)
  have "snd st = m" unfolding assms(2) n [symmetric] by simp
  with assms(1) show ?thesis by (simp add: enc_st_def)
qed

lemmas fixed_builder = yields_put_tlv enc_st_start


definition stop_nw_blocks :: "u32 \<Rightarrow> u32 \<Rightarrow> int \<Rightarrow> tlv list" where
  "stop_nw_blocks h4 h6 arg = [mk_tlv 0x01 (bytes32 (if arg = IpFamilyV4 then h4 else h6))]"

definition bind_mux_blocks :: "QMAP_SETTING \<Rightarrow> tlv list" where
  "bind_mux_blocks q =
     [mk_tlv 0x10 (bytes32 (qs_ep_type q) @ bytes32 (qs_iface_id q)),
      mk_tlv 0x11 [ucast (qs_MuxId q)], mk_tlv 0x13 (bytes32 1)]"

text \<open>Without aggregation three blocks; with it seven, and three more for uplink aggregation.\<close>

definition data_format_blocks :: "u32 \<Rightarrow> QMAP_SETTING \<Rightarrow> tlv list" where
  "data_format_blocks v q =
     (if qs_rx_urb_size q = 0
      then [mk_tlv 0x10 [0], mk_tlv 0x11 (bytes32 1), mk_tlv 0x13 (bytes32 0)]
      else [mk_tlv 0x10 [0], mk_tlv 0x11 (bytes32 2), mk_tlv 0x12 (bytes32 v), mk_tlv 0x13 (bytes32 v),
            mk_tlv 0x15 (bytes32 (qs_rx_urb_size q div 512)), mk_tlv 0x16 (bytes32 (qs_rx_urb_size q)),
            mk_tlv 0x17 (bytes32 (qs_ep_type q) @ bytes32 (qs_iface_id q))]
        @ (if qs_ul_max_datagrams q = 0 then []
           else [mk_tlv 0x19 (bytes32 (qs_dl_minimum_padding q)),
                 mk_tlv 0x1B (bytes32 (qs_ul_max_datagrams q)),
                 mk_tlv 0x1C (bytes32 (qs_ul_max_size q))]))"

definition dms_pin_blocks :: "cstr \<Rightarrow> tlv list" where
  "dms_pin_blocks pin = [mk_tlv 0x01 ([0x01, of_nat (length pin)] @ pin)]"

definition uim_pin_blocks :: "cstr \<Rightarrow> tlv list" where
  "uim_pin_blocks pin = [mk_tlv 0x01 [0x00, 0x00], mk_tlv 0x02 ([0x01, of_nat (length pin)] @ pin)]"

interpretation stop_nw: qmux_builder "WdsStopNwInterfaceReq h4 h6 arg" "stop_nw_blocks h4 h6 arg" True
  for h4 h6 arg
proof
  fix h b assume "enc h b 0 []"
  then have "enc_st h [] (b, 0)" by (rule enc_st_start)
  then show "yields (WdsStopNwInterfaceReq h4 h6 arg b)
               (\<lambda>(b', n). enc h b' (n - 4) (stop_nw_blocks h4 h6 arg))"
    unfolding WdsStopNwInterfaceReq_def stop_nw_blocks_def
    by (rule yields_put_tlv) (auto simp: WDM_DEFAULT_BUFSIZE_def dest!: enc_size [OF _ refl])
qed

interpretation ip_pref: qmux_builder "WdsSetClientIPFamilyPref arg" "[mk_tlv 0x01 [arg]]" True for arg
proof
  fix h b assume "enc h b 0 []"
  then have "enc_st h [] (b, 0)" by (rule enc_st_start)
  then show "yields (WdsSetClientIPFamilyPref arg b) (\<lambda>(b', n). enc h b' (n - 4) [mk_tlv 0x01 [arg]])"
    unfolding WdsSetClientIPFamilyPref_def
    by (rule yields_put_tlv) (auto simp: WDM_DEFAULT_BUFSIZE_def dest!: enc_size [OF _ refl])
qed

interpretation autoconnect: qmux_builder "WdsSetAutoConnect arg" "[mk_tlv 0x01 [arg]]" True for arg
proof
  fix h b assume "enc h b 0 []"
  then have "enc_st h [] (b, 0)" by (rule enc_st_start)
  then show "yields (WdsSetAutoConnect arg b) (\<lambda>(b', n). enc h b' (n - 4) [mk_tlv 0x01 [arg]])"
    unfolding WdsSetAutoConnect_def
    by (rule yields_put_tlv) (auto simp: WDM_DEFAULT_BUFSIZE_def dest!: enc_size [OF _ refl])
qed

interpretation bind_mux: qmux_builder "WdsSetQMUXBindMuxDataPort q" "bind_mux_blocks q" True for q
proof
  fix h b assume "enc h b 0 []"
  then have e: "enc_st h [] (b, 0)" by (rule enc_st_start)
  show "yields (WdsSetQMUXBindMuxDataPort q b) (\<lambda>(b', n). enc h b' (n - 4) (bind_mux_blocks q))"
    unfolding WdsSetQMUXBindMuxDataPort_def bind_mux_blocks_def
    by (rule yields_put_tlv [OF e], (simp add: WDM_DEFAULT_BUFSIZE_def),
        rule yields_put_tlv, assumption, (simp add: WDM_DEFAULT_BUFSIZE_def),
        rule yields_put_tlv, assumption, (simp add: WDM_DEFAULT_BUFSIZE_def),
        auto dest!: enc_size [OF _ refl])
qed

interpretation data_format: qmux_builder "WdaSetDataFormat v q" "data_format_blocks v q" True for v q
proof
  fix h b assume "enc h b 0 []"
  then have e: "enc_st h [] (b, 0)" by (rule enc_st_start)
  show "yields (WdaSetDataFormat v q b) (\<lambda>(b', n). enc h b' (n - 4) (data_format_blocks v q))"
  proof (cases "qs_rx_urb_size q = 0")
    case True
    show ?thesis
      unfolding WdaSetDataFormat_def data_format_blocks_def if_P [OF True]
      by (rule yields_put_tlv [OF e], (simp add: WDM_DEFAULT_BUFSIZE_def),
          (rule yields_put_tlv, assumption, simp add: WDM_DEFAULT_BUFSIZE_def)+,
          auto dest!: enc_size [OF _ refl])
  next
    case False
    show ?thesis
      unfolding WdaSetDataFormat_def data_format_blocks_def if_not_P [OF False]
      by (rule yields_put_tlv [OF e], (simp add: WDM_DEFAULT_BUFSIZE_def),
          (rule yields_put_tlv, assumption, simp add: WDM_DEFAULT_BUFSIZE_def)+,
          cases "qs_ul_max_datagrams q = 0", (auto dest!: enc_size [OF _ refl])[1],
          simp only: if_False,
          (rule yields_put_tlv, assumption, simp add: WDM_DEFAULT_BUFSIZE_def)+,
          auto dest!: enc_size [OF _ refl])
  qed
qed

interpretation runtime_settings: qmux_builder WdsGetRuntimeSettingReq
  "[mk_tlv 0x10 (bytes32 0x6B10)]" True
proof
  fix h b assume "enc h b 0 []"
  then have "enc_st h [] (b, 0)" by (rule enc_st_start)
  moreover have "(push_bit 4 1 OR push_bit 8 1 OR push_bit 13 1 OR push_bit 9 1
                OR push_bit 11 1 OR push_bit 14 1 :: u32) = 0x6B10" by simp
  ultimately show "yields (WdsGetRuntimeSettingReq b) (\<lambda>(b', n). enc h b' (n - 4) [mk_tlv 0x10 (bytes32 0x6B10)])"
    unfolding WdsGetRuntimeSettingReq_def
    by - (rule yields_put_tlv, assumption, (simp add: WDM_DEFAULT_BUFSIZE_def),
        auto dest!: enc_size [OF _ refl])
qed

interpretation profile_list: qmux_builder WdsGetProfileListReqSend "[]" True
proof
  fix h b assume e: "enc h b 0 []"
  show "yields (WdsGetProfileListReqSend b) (\<lambda>(b', n). enc h b' (n - 4) [])"
    unfolding WdsGetProfileListReqSend_def by (rule yields_bind [OF enc_set_length [OF e]]) simp
qed

interpretation create_profile: qmux_builder "WdsCreateProfileSettingsReqSend profile"
  "[mk_tlv 0x01 [0x00], mk_tlv 0x25 [word_of_int (pdp profile)]]" True for profile
proof
  fix h b assume e: "enc h b 0 []"
  show "yields (WdsCreateProfileSettingsReqSend profile b)
          (\<lambda>(b', n). enc h b' (n - 4) [mk_tlv 0x01 [0x00], mk_tlv 0x25 [word_of_int (pdp profile)]])"
    unfolding WdsCreateProfileSettingsReqSend_def
    by (rule yields_bind [OF enc_set_length [OF e]], drule enc_st_start,
        (rule yields_put_tlv, assumption, simp add: WDM_DEFAULT_BUFSIZE_def)+,
        auto dest!: enc_size [OF _ refl])
qed

interpretation get_profile: qmux_builder "WdsGetProfileSettingsReqSend profile"
  "[mk_tlv 0x01 [0x00, word_of_int (profile_index profile)]]" True for profile
proof
  fix h b assume e: "enc h b 0 []"
  show "yields (WdsGetProfileSettingsReqSend profile b)
          (\<lambda>(b', n). enc h b' (n - 4) [mk_tlv 0x01 [0x00, word_of_int (profile_index profile)]])"
    unfolding WdsGetProfileSettingsReqSend_def
    by (rule yields_bind [OF enc_set_length [OF e]], drule enc_st_start,
        (rule yields_put_tlv, assumption, simp add: WDM_DEFAULT_BUFSIZE_def)+,
        auto dest!: enc_size [OF _ refl])
qed

text \<open>The last block of the profile update may be a string, whose terminator has to fit as well.\<close>

lemma modify_profile_builds:
  assumes fits: "14 + length (tlvs_bytes (modify_profile_blocks profile)) \<le> WDM_DEFAULT_BUFSIZE"
    and e: "enc h b 0 []"
  shows "yields (WdsModifyProfileSettingsReq profile b)
           (\<lambda>(b', n). enc h b' (n - 4) (modify_profile_blocks profile))"
proof -
  let ?t0 = "[] @ [mk_tlv 0x01 [0x00, word_of_int (profile_index profile)]]"
  let ?t1 = "?t0 @ [mk_tlv 0x11 [word_of_int (iptype profile)]]"
  let ?t2 = "?t1 @ opt_tlv 0x14 (apn profile)"
  let ?t3 = "?t2 @ opt_tlv 0x1B (user profile)"
  let ?t4 = "?t3 @ opt_tlv 0x1C (password profile)"
  let ?t5 = "?t4 @ (if user profile \<noteq> None \<and> password profile \<noteq> None
        then [mk_tlv 0x1D [word_of_int (auth profile)]] else [])"
  have blocks: "modify_profile_blocks profile = ?t5"
    by (simp add: modify_profile_blocks_def)
  have size: "14 + length (tlvs_bytes ?t5) \<le> WDM_DEFAULT_BUFSIZE"
    using fits unfolding blocks .
  show ?thesis
    unfolding WdsModifyProfileSettingsReq_def Let_def blocks
    by (rule yields_bind [OF enc_set_length [OF e]], drule enc_st_start,
        rule yields_bind [where P = "enc_st h ?t0"], erule put_tlv_enc, use size in simp,
        rule yields_bind [where P = "enc_st h ?t1"], erule put_tlv_enc, use size in simp,
        rule yields_bind [where P = "enc_st h ?t2"], erule put_opt_enc, use size in simp,
        rule yields_bind [where P = "enc_st h ?t3"], erule put_opt_enc, use size in simp,
        rule yields_bind [where P = "enc_st h ?t4"], erule put_opt_enc, use size in simp,
        rule yields_bind [where P = "enc_st h ?t5"], erule put_if_enc, use size in simp,
        auto simp: enc_st_def)
qed

interpretation modify_profile: qmux_builder "WdsModifyProfileSettingsReq profile"
  "modify_profile_blocks profile"
  "14 + length (tlvs_bytes (modify_profile_blocks profile)) \<le> WDM_DEFAULT_BUFSIZE" for profile
  by unfold_locales (rule modify_profile_builds)

subsection \<open>The PIN requests\<close>

lemma wr_behind: "length p = k \<Longrightarrow> wr (p @ q) (k + i) vs = map_option ((@) p) (wr q i vs)"
  by (auto simp: wr_def)

lemma enc_direct:
  assumes "enc h b 0 []" and "b' = take 13 b @ tlvs_bytes ts @ r" and "length b' = length b"
    and "n = of_nat (length (tlvs_bytes ts))"
  shows "enc h b' n ts"
proof -
  from assms(1) obtain l2 where l2: "length h = 11" "length b = 256" "length l2 = 2"
      "take 13 b = h @ l2" by (auto simp: enc_def WDM_DEFAULT_BUFSIZE_def)
  have "length (tlvs_bytes ts) \<le> 243"
    using assms(2,3) l2(2) by simp
  then have "unat n = length (tlvs_bytes ts)"
    unfolding assms(4) unat_of_nat_u16 by simp
  then show ?thesis
    using assms(3) l2 by (auto simp: enc_def WDM_DEFAULT_BUFSIZE_def assms(2))
qed

lemma dms_pin_builds:
  assumes fits: "length pin \<le> 237" and e: "enc h b 0 []"
  shows "yields (DmsUIMVerifyPinReqSend pin b) (\<lambda>(b', n). enc h b' (n - 4) (dms_pin_blocks pin))"
proof -
  define p q where "p = take 13 b" and "q = drop 13 b"
  have b: "b = p @ q" and lp: "length p = 13" and lq: "length q = 243"
    using e by (simp_all add: enc_def WDM_DEFAULT_BUFSIZE_def p_def q_def)
  have st: "DmsUIMVerifyPinReqSend pin b =
      Some (take 13 b @ tlvs_bytes (dms_pin_blocks pin) @ 0 # drop (6 + length pin) q,
            10 + (of_nat (length pin) - 1))"
    using fits lp lq unfolding DmsUIMVerifyPinReqSend_def b
    by (simp add: wr_def dms_pin_blocks_def tlv_bytes_def numeral_eq_Suc)
  show ?thesis
    unfolding st yields_Some prod.case
    by (rule enc_direct [OF e refl]) (use fits lq lp b in \<open>simp_all add: dms_pin_blocks_def\<close>)
qed

lemma uim_pin_builds:
  assumes fits: "length pin \<le> 232" and e: "enc h b 0 []"
  shows "yields (UimVerifyPinReqSend pin b) (\<lambda>(b', n). enc h b' (n - 4) (uim_pin_blocks pin))"
proof -
  have "UimVerifyPinReqSend pin b =
      Option.bind (wr b 13 (tlvs_bytes (uim_pin_blocks pin) @ [0])) (\<lambda>b. Some (b, 15 + (of_nat (length pin) - 1)))"
    unfolding UimVerifyPinReqSend_def
    by (simp add: wr_merge uim_pin_blocks_def tlv_bytes_def bytes16_def)
  then have st: "UimVerifyPinReqSend pin b =
      Some (take 13 b @ tlvs_bytes (uim_pin_blocks pin) @ 0 # drop (24 + length pin) b,
            15 + (of_nat (length pin) - 1))"
    using fits e by (simp add: wr_def uim_pin_blocks_def enc_def WDM_DEFAULT_BUFSIZE_def)
  show ?thesis
    unfolding st yields_Some prod.case
    by (rule enc_direct [OF e refl])
       (use fits e in \<open>simp_all add: uim_pin_blocks_def enc_def WDM_DEFAULT_BUFSIZE_def\<close>)
qed

interpretation dms_pin: qmux_builder "DmsUIMVerifyPinReqSend pin" "dms_pin_blocks pin"
  "length pin \<le> 237" for pin
  by unfold_locales (rule dms_pin_builds)

interpretation uim_pin: qmux_builder "UimVerifyPinReqSend pin" "uim_pin_blocks pin"
  "length pin \<le> 232" for pin
  by unfold_locales (rule uim_pin_builds)

subsection \<open>Properties of the composed requests\<close>

lemma tlv_value_qmux_frame:
  assumes "length (tlvs_bytes ts) < 65536"
  shows "tlv_value (qmux_frame qt cid fl tid mt ts) 9 ty = Some (map_option TLVValue (find_tlv ts ty))"
  using tlv_value_mux_body [OF assms, of
      "[0x01] @ bytes16 (of_nat (12 + length (tlvs_bytes ts))) @ [0x00, qt, cid, fl] @ bytes16 tid" mt "[]" ty]
  by (simp add: qmux_frame_def)

lemma qmux_frame_tid: "rd16 (qmux_frame qt cid fl tid mt ts) 7 = Some tid"
  using rd16_append_right [of "[0x01] @ bytes16 (of_nat (12 + length (tlvs_bytes ts))) @ [0x00, qt, cid, fl]" 7
      "bytes16 tid @ mux_body mt ts"]
  by (simp add: qmux_frame_def)

lemma find_tlv_append:
  "find_tlv (ts @ us) ty = (case find_tlv ts ty of None \<Rightarrow> find_tlv us ty | Some t \<Rightarrow> Some t)"
  by (induction ts) auto

lemma find_tlv_opt: "find_tlv (opt_tlv ty s) ty' = (if ty = ty' then map_option (mk_tlv ty) s else None)"
  by (simp add: opt_tlv_def split: option.splits)

text \<open>C2: The request that starts a data call reaches the modem with the settings of the profile:
  whenever its blocks fit the buffer, \<^verbatim>\<open>ComposeQMUXMsg\<close> returns a message for the WDS service whose
  header length covers all of it, and reading it back block by block gives the APN (not on CDMA
  networks), the user, the password, the authentication and the IP family of the profile. On a CDMA network a
  profile without credentials gets the ones of the operator, with authentication 2; the profile index is sent only
  when one is set, and not on CDMA.\<close>

theorem start_nw_request_roundtrip:
  assumes "default_login \<longleftrightarrow> cdma \<and> \<not> nonempty (user profile) \<and> \<not> nonempty (password profile)"
    and "13 + length (tlvs_bytes (start_nw_blocks cdma profile)) \<le> WDM_DEFAULT_BUFSIZE"
  shows "\<exists>m t'. ComposeQMUXMsg (\<lambda>n. True) QMUX_TYPE_WDS 0x20
                 (Some (WdsStartNwInterfaceReq cdma hdr profile)) t = Some (Some m, t') \<and>
           rd16 m 1 = Some (of_nat (length m - 1)) \<and> rd8 m 4 = Some QMUX_TYPE_WDS \<and>
           tlv_value m 9 0x14 = Some (if cdma then None else apn profile) \<and>
           tlv_value m 9 0x17 = Some (if default_login then Some (ascii ''ctnet@mycdma.cn'') else user profile) \<and>
           tlv_value m 9 0x18 = Some (if default_login then Some (ascii ''vnet.mobi'') else password profile) \<and>
           tlv_value m 9 0x16 = Some (if default_login then Some [2]
             else if user profile \<noteq> None \<and> password profile \<noteq> None then Some [word_of_int (auth profile)] else None) \<and>
           tlv_value m 9 0x19 = Some (Some [word_of_int (curIpFamily profile)]) \<and>
           tlv_value m 9 0x31 = Some (if profile_index profile \<noteq> 0 \<and> \<not> cdma then Some [word_of_int (profile_index profile)] else None)"
proof -
  let ?ts = "start_nw_blocks cdma profile"
  obtain tid t' where tid: "GetQMUXTransactionId t = (tid, t')" by fastforce
  let ?m = "qmux_frame QMUX_TYPE_WDS 0 0 tid 0x20 ?ts"
  have L: "length (tlvs_bytes ?ts) < 65536"
    using assms(2) by (simp add: WDM_DEFAULT_BUFSIZE_def)
  have c: "ComposeQMUXMsg (\<lambda>n. True) QMUX_TYPE_WDS 0x20
             (Some (WdsStartNwInterfaceReq cdma hdr profile)) t = Some (Some ?m, t')"
    using start_nw.compose [OF assms(2) tid] by simp
  have len: "rd16 ?m 1 = Some (of_nat (length ?m - 1))"
    using rd16_append_right [of "[0x01]" 1] by (simp add: qmux_frame_def)
  have qt: "rd8 ?m 4 = Some QMUX_TYPE_WDS"
    by (simp add: qmux_frame_def access_simps)
  have fields: "map_option TLVValue (find_tlv ?ts 0x14) = (if cdma then None else apn profile)"
    "map_option TLVValue (find_tlv ?ts 0x17) = (if default_login then Some (ascii ''ctnet@mycdma.cn'') else user profile)"
    "map_option TLVValue (find_tlv ?ts 0x18) = (if default_login then Some (ascii ''vnet.mobi'') else password profile)"
    "map_option TLVValue (find_tlv ?ts 0x16) = (if default_login then Some [2]
       else if user profile \<noteq> None \<and> password profile \<noteq> None then Some [word_of_int (auth profile)] else None)"
    "map_option TLVValue (find_tlv ?ts 0x19) = Some [word_of_int (curIpFamily profile)]"
    "map_option TLVValue (find_tlv ?ts 0x31) =
       (if profile_index profile \<noteq> 0 \<and> \<not> cdma then Some [word_of_int (profile_index profile)] else None)"
    by (auto simp: assms(1) start_nw_blocks_def start_nw_credentials_def find_tlv_append find_tlv_opt option.map_comp comp_def
        split: option.splits)
  show ?thesis
    by (rule exI [of _ ?m], rule exI [of _ t'], intro conjI c len qt)
       (simp_all add: tlv_value_qmux_frame [OF L] fields)
qed

theorem start_nw_request_roundtrip_witness:
  "\<exists>m t'. ComposeQMUXMsg (\<lambda>n. True) QMUX_TYPE_WDS 0x20
     (Some (WdsStartNwInterfaceReq False 0 (s_profile\<lparr>apn := Some (ascii ''ctnet''), curIpFamily := 4\<rparr>))) 7
       = Some (Some m, t') \<and>
     tlv_value m 9 0x14 = Some (Some (ascii ''ctnet'')) \<and> tlv_value m 9 0x17 = Some None \<and>
     tlv_value m 9 0x19 = Some (Some [4])"
  using start_nw_request_roundtrip [of False False "s_profile\<lparr>apn := Some (ascii ''ctnet''), curIpFamily := 4\<rparr>" 0 7]
  by (auto simp: start_nw_credentials_def s_profile_def start_nw_blocks_def opt_tlv_def
      WDM_DEFAULT_BUFSIZE_def)

text \<open>The stores of the APN are not bounded: with an APN of 236 bytes or more the request is
  composed past the end of the 256 byte buffer on the stack.\<close>

theorem start_nw_apn_overflow:
  assumes "apn profile = Some a" and "236 \<le> length a" and "\<not> cdma"
  shows "ComposeQMUXMsg alloc qt mt (Some (WdsStartNwInterfaceReq cdma hdr profile)) t = None"
proof -
  obtain tid t' where tid: "GetQMUXTransactionId t = (tid, t')" by fastforce
  have "WdsStartNwInterfaceReq cdma hdr profile b = None" if b: "length b = 256" for b
    using assms b
    by (auto simp: WdsStartNwInterfaceReq_def put_tlv_eq put_str_eq wr_def Let_def
        split: prod.splits Option.bind_split)
  moreover have "length (qmux_start qt tid mt) = 256"
    by (simp add: qmux_start_def)
  ultimately show ?thesis
    unfolding ComposeQMUXMsg_start [OF tid] by simp
qed

theorem start_nw_apn_overflow_witness:
  "ComposeQMUXMsg (\<lambda>n. True) QMUX_TYPE_WDS 0x20
     (Some (WdsStartNwInterfaceReq False 0 (s_profile\<lparr>apn := Some (replicate 240 0x61)\<rparr>))) 7 = None"
  using start_nw_apn_overflow [of "s_profile\<lparr>apn := Some (replicate 240 0x61)\<rparr>" "replicate 240 0x61" False]
  by simp

end
