(* ===== verification/Qmi_Thread.thy ===== *)
theory Qmi_Thread
  imports Qmi_Builders
begin

text \<open>
  The rendezvous between a thread that sends a request and the thread that reads the device
  (\<^verbatim>\<open>QMIThread.c\<close>): \<^verbatim>\<open>QmiThreadSendQMITimeout\<close> publishes the request in \<^verbatim>\<open>s_pRequest\<close> and waits on
  \<^verbatim>\<open>cm_command_cond\<close>; \<^verbatim>\<open>QmiThreadRecvQMI\<close>, called for every message read, completes the request it
  answers or turns an unsolicited message into an event for the main loop. Both hold
  \<^verbatim>\<open>cm_command_mutex\<close>, so each call of \<^verbatim>\<open>QmiThreadRecvQMI\<close>, the part of the sender before its wait
  and the part behind it are atomic; the interleavings are the ones of \<open>chan_step\<close>.
\<close>

subsection \<open>State\<close>

text \<open>Events \<^verbatim>\<open>qmidevice_send_event_to_main\<close> and its \<^verbatim>\<open>_ext\<close> form write into the control socket pair.\<close>

datatype cm_event =
    RIL_INDICATE_DEVICE_CONNECTED
  | RIL_INDICATE_DEVICE_DISCONNECTED
  | RIL_UNSOL_RESPONSE_VOICE_NETWORK_STATE_CHANGED
  | RIL_UNSOL_DATA_CALL_LIST_CHANGED
  | MODEM_REPORT_RESET_EVENT
  | RIL_UNSOL_LOOPBACK_CONFIG_IND buf

record qmi_thread =
  s_pRequest :: "buf option"
  s_pResponse :: "buf option"
  cond_waiting :: bool
  cond_signalled :: bool
  main_events :: "cm_event list"

definition qmi_thread_init :: qmi_thread where
  "qmi_thread_init = \<lparr>s_pRequest = None, s_pResponse = None, cond_waiting = False,
                      cond_signalled = False, main_events = []\<rparr>"

text \<open>A signal wakes a thread that waits and is lost otherwise.\<close>

definition pthread_cond_signal :: "qmi_thread \<Rightarrow> qmi_thread" where
  "pthread_cond_signal st = (if cond_waiting st then st\<lparr>cond_signalled := True\<rparr> else st)"

definition qmidevice_send_event_to_main :: "cm_event \<Rightarrow> qmi_thread \<Rightarrow> qmi_thread" where
  "qmidevice_send_event_to_main ev st = st\<lparr>main_events := main_events st @ [ev]\<rparr>"

subsection \<open>Matching a message with the request\<close>

definition is_response :: "buf \<Rightarrow> buf \<Rightarrow> bool access" where
  "is_response pRequest pResponse = do {
     rq \<leftarrow> rd8 pRequest 4; rs \<leftarrow> rd8 pResponse 4;
     if rq \<noteq> rs then Some False
     else do {
       cq \<leftarrow> rd8 pRequest 5; cs \<leftarrow> rd8 pResponse 5;
       if cq \<noteq> cs then Some False
       else if rq = QMUX_TYPE_CTL
       then do { tq \<leftarrow> rd8 pRequest 7; ts \<leftarrow> rd8 pResponse 7; Some (tq = ts) }
       else do { tq \<leftarrow> rd16 pRequest 7; ts \<leftarrow> rd16 pResponse 7; Some (tq = ts) } } }"

subsection \<open>Receiving\<close>

definition QMINAS_SERVING_SYSTEM_IND :: u16 where "QMINAS_SERVING_SYSTEM_IND = 0x0024"
definition QMIWDS_GET_PKT_SRVC_STATUS_IND :: u16 where "QMIWDS_GET_PKT_SRVC_STATUS_IND = 0x0022"
definition QMINAS_SYS_INFO_IND :: u16 where "QMINAS_SYS_INFO_IND = 0x004E"
definition QMI_WDA_SET_LOOPBACK_CONFIG_IND :: u16 where "QMI_WDA_SET_LOOPBACK_CONFIG_IND = 0x002F"

text \<open>The event an unsolicited message stands for; \<^verbatim>\<open>SetLoopBackInd\<close> has 15 bytes.\<close>

definition unsol_event :: "buf \<Rightarrow> cm_event option access" where
  "unsol_event m = do {
     qt \<leftarrow> rd8 m 4;
     if qt = QMUX_TYPE_CTL then do {
       ty \<leftarrow> rd16 m 8;
       Some (if ty = QMICTL_REVOKE_CLIENT_ID_IND then Some MODEM_REPORT_RESET_EVENT else None) }
     else if qt = QMUX_TYPE_NAS then do {
       ty \<leftarrow> rd16 m 9;
       Some (if ty = QMINAS_SERVING_SYSTEM_IND \<or> ty = QMINAS_SYS_INFO_IND
             then Some RIL_UNSOL_RESPONSE_VOICE_NETWORK_STATE_CHANGED else None) }
     else if qt = QMUX_TYPE_WDS then do {
       ty \<leftarrow> rd16 m 9;
       Some (if ty = QMIWDS_GET_PKT_SRVC_STATUS_IND then Some RIL_UNSOL_DATA_CALL_LIST_CHANGED
             else None) }
     else if qt = QMUX_TYPE_WDS_ADMIN then do {
       ty \<leftarrow> rd16 m 9;
       if ty = QMI_WDA_SET_LOOPBACK_CONFIG_IND
       then do { p \<leftarrow> rdn m 9 15; Some (Some (RIL_UNSOL_LOOPBACK_CONFIG_IND p)) }
       else Some None }
     else Some None }"

text \<open>The whole handler; \<open>None\<close> is the \<^verbatim>\<open>NULL\<close> the readers pass when the device is gone.\<close>

definition QmiThreadRecvQMI :: "(nat \<Rightarrow> bool) \<Rightarrow> buf option \<Rightarrow> qmi_thread \<Rightarrow> qmi_thread access" where
  "QmiThreadRecvQMI alloc pResponse st =
     (case pResponse of
        None \<Rightarrow>
          Some (if s_pRequest st \<noteq> None
                then pthread_cond_signal (st\<lparr>s_pRequest := None, s_pResponse := None\<rparr>) else st)
      | Some m \<Rightarrow> do {
          mine \<leftarrow> (case s_pRequest st of None \<Rightarrow> Some False | Some r \<Rightarrow> is_response r m);
          if mine then do {
            l \<leftarrow> rd16 m 1;
            if alloc (unat l + 1) then do {
              c \<leftarrow> rdn m 0 (unat l + 1);
              Some (pthread_cond_signal (st\<lparr>s_pRequest := None, s_pResponse := Some c\<rparr>)) }
            else Some (pthread_cond_signal (st\<lparr>s_pRequest := None, s_pResponse := None\<rparr>)) }
          else do {
            ev \<leftarrow> unsol_event m;
            Some (case ev of None \<Rightarrow> st | Some e \<Rightarrow> qmidevice_send_event_to_main e st) } })"

subsection \<open>Sending\<close>

text \<open>
  \<open>dev\<close> is the function behind \<^verbatim>\<open>qmidev_send\<close>: it may store the client id into the request and
  returns 0 or an error. The sender is split at its wait; \<open>ret\<close> is what
  \<^verbatim>\<open>pthread_cond_timeout_np\<close> returned, and \<open>want\<close> says whether the caller passed \<^verbatim>\<open>ppResponse\<close>.
\<close>

type_synonym qmidev = "buf \<Rightarrow> (int \<times> buf) access"

definition QmiThreadSendQMI_begin :: "qmidev \<Rightarrow> buf \<Rightarrow> qmi_thread \<Rightarrow> (int \<times> qmi_thread) access" where
  "QmiThreadSendQMI_begin dev pRequest st = do {
     let st = st\<lparr>s_pRequest := Some pRequest, s_pResponse := None\<rparr>;
     (ret, r) \<leftarrow> dev pRequest;
     let st = st\<lparr>s_pRequest := Some r\<rparr>;
     Some (ret, if ret = 0 then st\<lparr>cond_waiting := True, cond_signalled := False\<rparr> else st) }"

definition QmiThreadSendQMI_end :: "int \<Rightarrow> bool \<Rightarrow> qmi_thread \<Rightarrow> buf option \<times> qmi_thread" where
  "QmiThreadSendQMI_end ret want st =
     (let st = st\<lparr>cond_waiting := False, cond_signalled := False\<rparr> in
      if ret = 0 then
        (case s_pResponse st of
           Some r \<Rightarrow> if want then (Some r, st) else (None, st\<lparr>s_pResponse := None\<rparr>)
         | None \<Rightarrow> (None, st))
      else (None, st))"

fun recv_all :: "(nat \<Rightarrow> bool) \<Rightarrow> buf option list \<Rightarrow> qmi_thread \<Rightarrow> qmi_thread access" where
  "recv_all alloc [] st = Some st"
| "recv_all alloc (m # ms) st = do { st \<leftarrow> QmiThreadRecvQMI alloc m st; recv_all alloc ms st }"

text \<open>
  The whole call: \<open>ms\<close> are the messages the reader hands over while the sender waits and \<open>wait\<close> is
  the result of the wait, as a function of whether the condition was signalled meanwhile.
\<close>

definition QmiThreadSendQMITimeout ::
  "(nat \<Rightarrow> bool) \<Rightarrow> qmidev \<Rightarrow> buf option list \<Rightarrow> (bool \<Rightarrow> int) \<Rightarrow> buf option \<Rightarrow> bool \<Rightarrow> qmi_thread
     \<Rightarrow> (int \<times> buf option \<times> qmi_thread) access" where
  "QmiThreadSendQMITimeout alloc dev ms wait pRequest want st =
     (case pRequest of
        None \<Rightarrow> Some (- EINVAL, None, st)
      | Some r \<Rightarrow> do {
          (ret, st) \<leftarrow> QmiThreadSendQMI_begin dev r st;
          if ret = 0 then do {
            st \<leftarrow> recv_all alloc ms st;
            let ret = wait (cond_signalled st);
            let (rsp, st) = QmiThreadSendQMI_end ret want st;
            Some (ret, rsp, st) }
          else Some (ret, None, st) })"

subsection \<open>Interleavings\<close>

datatype phase = Idle | Waiting buf | Returned buf int "buf option"

record chan =
  thr :: qmi_thread
  ph :: phase
  got :: "buf list"

text \<open>\<open>got\<close> is the list of messages read since the last request was sent. The sender may be woken by
  the signal, spuriously, or by its timeout, even when the signal is already there.\<close>

inductive chan_step :: "(nat \<Rightarrow> bool) \<Rightarrow> qmidev \<Rightarrow> chan \<Rightarrow> chan \<Rightarrow> bool"
  for alloc :: "nat \<Rightarrow> bool" and dev :: qmidev where
  send: "\<lbrakk>ph c = Idle \<or> (\<exists>r e x. ph c = Returned r e x); QmiThreadSendQMI_begin dev r (thr c) = Some (0, t);
          s_pRequest t = Some r'\<rbrakk>
    \<Longrightarrow> chan_step alloc dev c (c\<lparr>thr := t, ph := Waiting r', got := []\<rparr>)"
| send_fails: "\<lbrakk>ph c = Idle \<or> (\<exists>r e x. ph c = Returned r e x);
          QmiThreadSendQMI_begin dev r (thr c) = Some (e, t); e \<noteq> 0\<rbrakk>
    \<Longrightarrow> chan_step alloc dev c (c\<lparr>thr := t, ph := Returned r e None, got := []\<rparr>)"
| recv: "QmiThreadRecvQMI alloc (Some m) (thr c) = Some t
    \<Longrightarrow> chan_step alloc dev c (c\<lparr>thr := t, got := got c @ [m]\<rparr>)"
| recv_gone: "QmiThreadRecvQMI alloc None (thr c) = Some t \<Longrightarrow> chan_step alloc dev c (c\<lparr>thr := t\<rparr>)"
| wake: "\<lbrakk>ph c = Waiting r; QmiThreadSendQMI_end 0 want (thr c) = (x, t)\<rbrakk>
    \<Longrightarrow> chan_step alloc dev c (c\<lparr>thr := t, ph := Returned r 0 x\<rparr>)"
| timeout: "\<lbrakk>ph c = Waiting r; QmiThreadSendQMI_end ETIMEDOUT want (thr c) = (x, t)\<rbrakk>
    \<Longrightarrow> chan_step alloc dev c (c\<lparr>thr := t, ph := Returned r ETIMEDOUT x\<rparr>)"

inductive chan_reach :: "(nat \<Rightarrow> bool) \<Rightarrow> qmidev \<Rightarrow> chan \<Rightarrow> bool"
  for alloc :: "nat \<Rightarrow> bool" and dev :: qmidev where
  init: "chan_reach alloc dev \<lparr>thr = qmi_thread_init, ph = Idle, got = []\<rparr>"
| step: "chan_reach alloc dev c \<Longrightarrow> chan_step alloc dev c c' \<Longrightarrow> chan_reach alloc dev c'"

inductive_cases chan_stepE: "chan_step alloc dev c c'"

text \<open>\<open>x\<close> is the copy \<^verbatim>\<open>QmiThreadRecvQMI\<close> makes of a message \<open>m\<close> that answers the request \<open>r\<close>.\<close>

definition answer_of :: "buf \<Rightarrow> buf \<Rightarrow> buf \<Rightarrow> bool" where
  "answer_of r m x \<longleftrightarrow> is_response r m = Some True \<and>
     (case rd16 m 1 of None \<Rightarrow> False | Some l \<Rightarrow> rdn m 0 (unat l + 1) = Some x)"

text \<open>\<open>m\<close> does not answer \<open>r\<close> and is long enough for the reader to classify it.\<close>

definition ignored_by :: "buf \<Rightarrow> buf \<Rightarrow> bool" where
  "ignored_by r m \<longleftrightarrow> is_response r m = Some False \<and> unsol_event m \<noteq> None"

definition chan_inv :: "chan \<Rightarrow> bool" where
  "chan_inv c \<longleftrightarrow>
     (case ph c of
        Idle \<Rightarrow> True
      | Waiting r \<Rightarrow> cond_waiting (thr c) \<and>
          (s_pRequest (thr c) = Some r \<and> s_pResponse (thr c) = None \<and> \<not> cond_signalled (thr c)
           \<or> s_pRequest (thr c) = None \<and> cond_signalled (thr c) \<and>
             (case s_pResponse (thr c) of None \<Rightarrow> True | Some x \<Rightarrow> \<exists>m\<in>set (got c). answer_of r m x))
      | Returned r e x \<Rightarrow>
          (case x of None \<Rightarrow> True | Some y \<Rightarrow> e = 0 \<and> (\<exists>m\<in>set (got c). answer_of r m y)))"

lemma recv_waiting:
  assumes "QmiThreadRecvQMI alloc m t = Some t'" and "cond_waiting t" and "s_pRequest t = Some r"
    and "\<not> cond_signalled t" and "s_pResponse t = None"
  shows "cond_waiting t' \<and>
     (s_pRequest t' = Some r \<and> s_pResponse t' = None \<and> \<not> cond_signalled t'
      \<or> s_pRequest t' = None \<and> cond_signalled t' \<and>
        (case s_pResponse t' of None \<Rightarrow> True | Some x \<Rightarrow> \<exists>n. m = Some n \<and> answer_of r n x))"
  using assms
  by (auto simp: QmiThreadRecvQMI_def pthread_cond_signal_def qmidevice_send_event_to_main_def answer_of_def
      bind_eq_Some_conv split: option.splits if_splits)

text \<open>Once the request is answered, or when there is none, messages only add events.\<close>

lemma recv_no_request:
  assumes "QmiThreadRecvQMI alloc m t = Some t'" and "s_pRequest t = None"
  shows "\<exists>evs. t' = t\<lparr>main_events := main_events t @ evs\<rparr>"
proof (cases m)
  case None
  with assms show ?thesis by (auto simp: QmiThreadRecvQMI_def intro: exI [of _ "[]"])
next
  case (Some n)
  with assms obtain ev where "t' = (case ev of None \<Rightarrow> t | Some e \<Rightarrow> qmidevice_send_event_to_main e t)"
    by (auto simp: QmiThreadRecvQMI_def bind_eq_Some_conv)
  then show ?thesis
    by (cases ev) (auto simp: qmidevice_send_event_to_main_def intro: exI [of _ "[]"])
qed

lemma recv_keeps_inv:
  assumes "chan_inv c" and "QmiThreadRecvQMI alloc m (thr c) = Some t"
    and "got' = got c @ (case m of None \<Rightarrow> [] | Some n \<Rightarrow> [n])"
  shows "chan_inv (c\<lparr>thr := t, got := got'\<rparr>)"
proof (cases "ph c")
  case (Waiting r)
  show ?thesis
  proof (cases "s_pRequest (thr c)")
    case None
    then show ?thesis
      using recv_no_request [OF assms(2) None] assms(1,3) Waiting
      by (auto simp: chan_inv_def split: option.splits)
  next
    case (Some q)
    with assms(1) Waiting have "cond_waiting (thr c)" "q = r" "\<not> cond_signalled (thr c)"
      "s_pResponse (thr c) = None" by (auto simp: chan_inv_def)
    with recv_waiting [OF assms(2)] Some Waiting assms(3) show ?thesis
      by (fastforce simp: chan_inv_def split: option.splits)
  qed
next
  case Idle
  then show ?thesis by (simp add: chan_inv_def)
next
  case (Returned r e x)
  with assms(1,3) show ?thesis by (auto simp: chan_inv_def split: option.splits)
qed

lemma chan_step_inv: "chan_step alloc dev c c' \<Longrightarrow> chan_inv c \<Longrightarrow> chan_inv c'"
proof (induction rule: chan_step.induct)
  case (send c r t r')
  then show ?case
    by (auto simp: QmiThreadSendQMI_begin_def chan_inv_def bind_eq_Some_conv Let_def)
next
  case (recv m c t)
  then show ?case using recv_keeps_inv [of c alloc "Some m" t] by simp
next
  case (recv_gone c t)
  then show ?case using recv_keeps_inv [of c alloc None t "got c"] by simp
next
  case (wake c r want x t)
  then show ?case
    by (auto simp: QmiThreadSendQMI_end_def chan_inv_def Let_def split: option.splits if_splits)
next
  case (timeout c r want x t)
  then show ?case
    by (auto simp: QmiThreadSendQMI_end_def chan_inv_def Let_def ETIMEDOUT_def)
qed (simp add: chan_inv_def)

lemma chan_reach_inv: "chan_reach alloc dev c \<Longrightarrow> chan_inv c"
proof (induction rule: chan_reach.induct)
  case init
  then show ?case by (simp add: chan_inv_def)
next
  case (step c c')
  then show ?case by (blast intro: chan_step_inv)
qed

text \<open>The comparisons of \<^verbatim>\<open>is_response\<close>, written out on the bytes of the two messages, and the copy.\<close>

lemma is_response_bytes:
  "is_response r m = Some True \<longleftrightarrow>
     (\<exists>s i. rd8 r 4 = Some s \<and> rd8 m 4 = Some s \<and> rd8 r 5 = Some i \<and> rd8 m 5 = Some i \<and>
        (if s = 0 then \<exists>t. rd8 r 7 = Some t \<and> rd8 m 7 = Some t
         else \<exists>t. rd16 r 7 = Some t \<and> rd16 m 7 = Some t))"
  by (auto simp: is_response_def bind_eq_Some_conv split: if_splits)

lemma answer_of_copy:
  "answer_of r m x \<Longrightarrow> \<exists>l. rd16 m 1 = Some l \<and> unat l + 1 \<le> length m \<and> x = take (unat l + 1) m"
  by (auto simp: answer_of_def rdn_def split: option.splits if_splits)

text \<open>C1: Whatever the reader thread receives and however its calls, wake-ups and timeouts interleave
  with the sender, a response handed back to the sender of a request is the copy, cut to the length
  in its header, of a message that was read after this request was sent and that has the service
  (byte 4), the client (byte 5) and the transaction identifier (byte 7 of a control message, bytes 7
  and 8 of any other) of the request, and the sender returns 0: late answers to earlier requests,
  answers to other clients and indications with another transaction are never taken for the
  response.\<close>

theorem send_returns_own_response:
  assumes "chan_reach alloc dev c" and "ph c = Returned r e (Some x)"
  shows "e = 0 \<and> (\<exists>m\<in>set (got c). \<exists>s i l.
     rd8 r 4 = Some s \<and> rd8 m 4 = Some s \<and> rd8 r 5 = Some i \<and> rd8 m 5 = Some i \<and>
     (if s = 0 then \<exists>t. rd8 r 7 = Some t \<and> rd8 m 7 = Some t
      else \<exists>t. rd16 r 7 = Some t \<and> rd16 m 7 = Some t) \<and>
     rd16 m 1 = Some l \<and> unat l + 1 \<le> length m \<and> x = take (unat l + 1) m)"
proof -
  obtain m where e: "e = 0" and "m \<in> set (got c)" and m: "answer_of r m x"
    using chan_reach_inv [OF assms(1)] assms(2) by (auto simp: chan_inv_def)
  moreover have "is_response r m = Some True" using m by (simp add: answer_of_def)
  ultimately show ?thesis
    using answer_of_copy [OF m] unfolding is_response_bytes by blast
qed
text \<open>A request for the serving system, its answer, and a device that accepts every request.\<close>

definition sample_request :: buf where
  "sample_request = [1, 12, 0, 0, 3, 5, 0, 7, 0, 0x24, 0, 0, 0]"

definition sample_answer :: buf where
  "sample_answer = [1, 12, 0, 0x80, 3, 5, 2, 7, 0, 0x24, 0, 0, 0]"

definition sample_indication :: buf where
  "sample_indication = [1, 12, 0, 0x80, 3, 5, 4, 0, 0, 0x24, 0, 0, 0]"

lemmas sample_simps = sample_request_def sample_answer_def sample_indication_def

definition accepting_dev :: qmidev where
  "accepting_dev r = Some (0, r)"

lemma sample_answers: "answer_of sample_request sample_answer sample_answer"
  by (simp add: answer_of_def is_response_def sample_simps rd16_def rd8_def rdn_def le16_def)

lemma sample_ignored: "ignored_by sample_request sample_indication"
  by (simp add: ignored_by_def is_response_def unsol_event_def sample_simps rd16_def rd8_def le16_def)

theorem send_returns_own_response_witness:
  "\<exists>c. chan_reach (\<lambda>n. True) accepting_dev c \<and> ph c = Returned sample_request 0 (Some sample_answer) \<and>
       (\<exists>m\<in>set (got c). rd8 m 4 = Some 3 \<and> rd8 m 5 = Some 5 \<and> rd16 m 7 = Some 7 \<and>
          (\<exists>l. rd16 m 1 = Some l \<and> sample_answer = take (unat l + 1) m))"
proof -
  let ?c0 = "\<lparr>thr = qmi_thread_init, ph = Idle, got = []\<rparr> :: chan"
  let ?t1 = "qmi_thread_init\<lparr>s_pRequest := Some sample_request, cond_waiting := True\<rparr>"
  let ?t2 = "?t1\<lparr>s_pRequest := None, s_pResponse := Some sample_answer, cond_signalled := True\<rparr>"
  let ?t3 = "?t2\<lparr>cond_waiting := False, cond_signalled := False\<rparr>"
  have s1: "chan_step (\<lambda>n. True) accepting_dev ?c0 (?c0\<lparr>thr := ?t1, ph := Waiting sample_request, got := []\<rparr>)"
    by (rule chan_step.send [where r = sample_request])
       (simp_all add: QmiThreadSendQMI_begin_def accepting_dev_def qmi_thread_init_def)
  have "QmiThreadRecvQMI (\<lambda>n. True) (Some sample_answer) ?t1 = Some ?t2"
    by (simp add: QmiThreadRecvQMI_def is_response_def sample_simps rd16_def rd8_def rdn_def le16_def
        pthread_cond_signal_def)
  then have s2: "chan_step (\<lambda>n. True) accepting_dev (?c0\<lparr>thr := ?t1, ph := Waiting sample_request, got := []\<rparr>)
      (?c0\<lparr>thr := ?t2, ph := Waiting sample_request, got := [sample_answer]\<rparr>)"
    using chan_step.recv [of "\<lambda>n. True" sample_answer
        "?c0\<lparr>thr := ?t1, ph := Waiting sample_request, got := []\<rparr>" ?t2] by simp
  have s3: "chan_step (\<lambda>n. True) accepting_dev (?c0\<lparr>thr := ?t2, ph := Waiting sample_request, got := [sample_answer]\<rparr>)
      (?c0\<lparr>thr := ?t3, ph := Returned sample_request 0 (Some sample_answer), got := [sample_answer]\<rparr>)"
    using chan_step.wake [of "?c0\<lparr>thr := ?t2, ph := Waiting sample_request, got := [sample_answer]\<rparr>"
        sample_request True "Some sample_answer" ?t3]
    by (simp add: QmiThreadSendQMI_end_def)
  have "chan_reach (\<lambda>n. True) accepting_dev
      (?c0\<lparr>thr := ?t3, ph := Returned sample_request 0 (Some sample_answer), got := [sample_answer]\<rparr>)"
    by (rule chan_reach.step [OF chan_reach.step [OF chan_reach.step [OF chan_reach.init s1] s2] s3])
  then obtain c where c: "chan_reach (\<lambda>n. True) accepting_dev c"
      "ph c = Returned sample_request 0 (Some sample_answer)" by fastforce
  have "rd8 sample_request 4 = Some 3" "rd8 sample_request 5 = Some 5" "rd16 sample_request 7 = Some 7"
    by (simp_all add: sample_simps rd16_def rd8_def le16_def)
  then show ?thesis
    using send_returns_own_response [OF c] c by fastforce
qed

subsection \<open>The response arrives\<close>

lemma is_response_sym_type: "is_response r m = Some True \<Longrightarrow> rd8 r 4 = rd8 m 4 \<and> rd8 r 5 = rd8 m 5"
  by (auto simp: is_response_def bind_eq_Some_conv split: if_splits)

lemma recv_all_append:
  "recv_all alloc (ms @ ns) st = Option.bind (recv_all alloc ms st) (recv_all alloc ns)"
proof (induction ms arbitrary: st)
  case (Cons m ms)
  then show ?case by (cases "QmiThreadRecvQMI alloc m st") auto
qed simp

lemma recv_all_ignored:
  assumes "s_pRequest st = Some r" and "\<forall>m\<in>set ms. ignored_by r m"
  shows "\<exists>evs. recv_all alloc (map Some ms) st = Some (st\<lparr>main_events := main_events st @ evs\<rparr>)"
  using assms
proof (induction ms arbitrary: st)
  case Nil
  then show ?case by (auto intro: exI [of _ "[]"])
next
  case (Cons m ms)
  then obtain ev where ev: "unsol_event m = Some ev" by (auto simp: ignored_by_def)
  obtain e1 where "QmiThreadRecvQMI alloc (Some m) st = Some (st\<lparr>main_events := main_events st @ e1\<rparr>)"
    using Cons.prems ev
    by (cases ev) (auto simp: QmiThreadRecvQMI_def ignored_by_def qmidevice_send_event_to_main_def
        intro: that [of "[]"])
  then show ?case
    using Cons.IH [of "st\<lparr>main_events := main_events st @ e1\<rparr>"] Cons.prems by auto
qed

lemma recv_all_done:
  assumes "s_pRequest st = None" and "\<forall>m\<in>set ms. unsol_event m \<noteq> None"
  shows "\<exists>evs. recv_all alloc (map Some ms) st = Some (st\<lparr>main_events := main_events st @ evs\<rparr>)"
  using assms
proof (induction ms arbitrary: st)
  case Nil
  then show ?case by (auto intro: exI [of _ "[]"])
next
  case (Cons m ms)
  then obtain ev where ev: "unsol_event m = Some ev" by auto
  obtain e1 where "QmiThreadRecvQMI alloc (Some m) st = Some (st\<lparr>main_events := main_events st @ e1\<rparr>)"
    using Cons.prems ev
    by (cases ev) (auto simp: QmiThreadRecvQMI_def qmidevice_send_event_to_main_def intro: that [of "[]"])
  then show ?case
    using Cons.IH [of "st\<lparr>main_events := main_events st @ e1\<rparr>"] Cons.prems by auto
qed

text \<open>C30: A request that the device accepts is answered by the first message that matches it: with any
  unsolicited messages read before and any messages read after it and before the sender runs
  again, \<^verbatim>\<open>QmiThreadSendQMITimeout\<close> returns 0 and exactly that message, cut to the length in its
  header, provided that memory for the copy is available.\<close>

theorem send_delivers_response:
  assumes dev: "dev r = Some (0, r')" and before: "\<forall>m\<in>set before. ignored_by r' m"
    and m: "answer_of r' m x" and after: "\<forall>m\<in>set after. unsol_event m \<noteq> None"
    and wait: "wait True = 0" and mem: "alloc (length x)"
  shows "\<exists>st'. QmiThreadSendQMITimeout alloc dev (map Some (before @ m # after)) wait (Some r) True st
                = Some (0, Some x, st')"
proof -
  obtain t where t: "QmiThreadSendQMI_begin dev r st = Some (0, t)" "s_pRequest t = Some r'"
      "cond_waiting t" "\<not> cond_signalled t"
    by (auto simp: QmiThreadSendQMI_begin_def dev)
  obtain evs where b: "recv_all alloc (map Some before) t = Some (t\<lparr>main_events := main_events t @ evs\<rparr>)"
    using recv_all_ignored [OF t(2) before] by blast
  let ?t = "t\<lparr>main_events := main_events t @ evs, s_pRequest := None, s_pResponse := Some x, cond_signalled := True\<rparr>"
  from m obtain l where l: "rd16 m 1 = Some l" "rdn m 0 (unat l + 1) = Some x" "is_response r' m = Some True"
    by (auto simp: answer_of_def split: option.splits)
  then have "length x = unat l + 1" by (auto simp: rdn_def split: if_splits)
  then have g: "QmiThreadRecvQMI alloc (Some m) (t\<lparr>main_events := main_events t @ evs\<rparr>) = Some ?t"
    using t l mem by (simp add: QmiThreadRecvQMI_def pthread_cond_signal_def)
  obtain evs' where a: "recv_all alloc (map Some after) ?t = Some (?t\<lparr>main_events := main_events ?t @ evs'\<rparr>)"
    using recv_all_done [of ?t after] after by auto
  show ?thesis
    by (simp add: QmiThreadSendQMITimeout_def t(1) recv_all_append b g a wait QmiThreadSendQMI_end_def Let_def)
qed

theorem send_delivers_response_witness:
  "\<exists>st'. QmiThreadSendQMITimeout (\<lambda>n. True) accepting_dev
     [Some sample_indication, Some sample_answer, Some sample_indication] (\<lambda>s. if s then 0 else ETIMEDOUT)
     (Some sample_request) True qmi_thread_init = Some (0, Some sample_answer, st')"
  using send_delivers_response [of accepting_dev sample_request sample_request "[sample_indication]"
      sample_answer sample_answer "[sample_indication]" "\<lambda>s. if s then 0 else ETIMEDOUT" "\<lambda>n. True"
      qmi_thread_init]
  using sample_ignored sample_answers by (simp add: accepting_dev_def ignored_by_def)

end
