(* ===== verification/Qmi_Requests.thy ===== *)
theory Qmi_Requests
  imports Qmi_Thread
begin

text \<open>
  The request handlers of \<^verbatim>\<open>QMIThread.c\<close> (\<^verbatim>\<open>qmi_request_ops\<close>): each composes requests, sends them and
  reads the responses. The statics of the file are the record \<open>qmi_env\<close>; the thread rendezvous the
  handlers call (\<^verbatim>\<open>QmiThreadSendQMI\<close>) is the argument \<open>send\<close>, which answers as a function of the
  requests sent so far, the current one last. A handler returns its C result, and the state; \<open>None\<close>
  is an access outside of the response, or through a \<^verbatim>\<open>NULL\<close> pointer.
\<close>

subsection \<open>State and transport\<close>

datatype SIM_Status = SIM_ABSENT | SIM_NOT_READY | SIM_READY | SIM_PIN | SIM_PUK
  | SIM_NETWORK_PERSONALIZATION | SIM_BAD

record qmi_env =
  TransactionId :: int
  WdsConnectionIPv4Handle :: u32
  WdsConnectionIPv6Handle :: u32
  s_is_cdma :: bool
  s_5g_type :: u32
  s_hdr_personality :: int
  s_9x07 :: bool
  qmap_version :: u32
  sent :: "buf list"
  driver_settings :: "QMAP_SETTING list"

definition qmi_env_init :: qmi_env where
  "qmi_env_init = \<lparr>TransactionId = 0, WdsConnectionIPv4Handle = 0, WdsConnectionIPv6Handle = 0,
     s_is_cdma = False, s_5g_type = 0, s_hdr_personality = 0, s_9x07 = True, qmap_version = 5,
     sent = [], driver_settings = []\<rparr>"

type_synonym transport = "buf list \<Rightarrow> int \<times> buf option"

text \<open>
  \<^verbatim>\<open>pRequest = ComposeQMUXMsg(...); err = QmiThreadSendQMI(pRequest, &pResponse);\<close>
  Without memory for the request the send fails with \<^verbatim>\<open>-EINVAL\<close>.
\<close>

definition qmi_transact ::
  "(nat \<Rightarrow> bool) \<Rightarrow> transport \<Rightarrow> byte \<Rightarrow> u16 \<Rightarrow> builder option \<Rightarrow> qmi_env
     \<Rightarrow> (int \<times> buf option \<times> qmi_env) access" where
  "qmi_transact alloc send QMIType Type custom env = do {
     (m, t) \<leftarrow> ComposeQMUXMsg alloc QMIType Type custom (TransactionId env);
     let env = env\<lparr>TransactionId := t\<rparr>;
     Some (case m of
             None \<Rightarrow> (- EINVAL, None, env)
           | Some r \<Rightarrow> (let h = sent env @ [r]; (err, rsp) = send h in (err, rsp, env\<lparr>sent := h\<rparr>))) }"

text \<open>The macro \<^verbatim>\<open>qmi_rsp_check_and_return\<close>: \<open>Inl e\<close> returns \<open>e\<close>, \<open>Inr m\<close> goes on with the response.\<close>

definition qmi_rsp_check_and_return :: "int \<Rightarrow> buf option \<Rightarrow> (int + buf) access" where
  "qmi_rsp_check_and_return err pResponse =
     (case pResponse of
        None \<Rightarrow> Some (Inl err)
      | Some m \<Rightarrow>
          if err < 0 then Some (Inl err)
          else do {
            QMUXResult \<leftarrow> rd16 m 16;
            QMUXError \<leftarrow> rd16 m 18;
            Some (if QMUXResult \<noteq> 0 \<or> QMUXError \<noteq> 0 then Inl (uint QMUXError) else Inr m) })"

text \<open>\<^verbatim>\<open>p = GetTLV(&pResponse->MUXMsg.QMUXMsgHdr, ty); if (p) f(p);\<close>\<close>

definition with_tlv :: "buf \<Rightarrow> byte \<Rightarrow> (nat \<Rightarrow> 'a access) \<Rightarrow> 'a option access" where
  "with_tlv m ty f = do {
     r \<leftarrow> GetTLV m 9 (uint ty);
     (case r of None \<Rightarrow> Some None | Some p \<Rightarrow> map_option Some (f p)) }"

subsection \<open>Data format\<close>

definition DATA_EP_TYPE_HSUSB :: u32 where "DATA_EP_TYPE_HSUSB = 2"
definition DATA_EP_TYPE_PCIE :: u32 where "DATA_EP_TYPE_PCIE = 3"

definition qmidev_is_gobinet :: "cstr \<Rightarrow> bool" where
  "qmidev_is_gobinet ch \<longleftrightarrow> take (length ''/dev/qcqmi'') ch = ascii ''/dev/qcqmi''"

definition qmap_settings_zero :: QMAP_SETTING where
  "qmap_settings_zero = \<lparr>qs_size = 32, qs_rx_urb_size = 0, qs_ep_type = 0, qs_iface_id = 0, qs_MuxId = 0,
     qs_ul_max_datagrams = 0, qs_ul_max_size = 0, qs_dl_minimum_padding = 0\<rparr>"

text \<open>The first part of \<^verbatim>\<open>requestSetEthMode\<close>: the settings for QMAP and the \<^verbatim>\<open>qmap_version\<close> to ask for.\<close>

definition eth_mode_settings :: "PROFILE_T \<Rightarrow> QMAP_SETTING \<times> PROFILE_T \<times> u32" where
  "eth_mode_settings profile =
     (let q = qmap_settings_zero\<lparr>qs_MuxId := word_of_int (muxid profile)\<rparr>;
          q = q\<lparr>qs_rx_urb_size := word_of_int (qmap_size profile),
                qs_ep_type := (if hardware_interface profile = HARDWARE_PCIE then DATA_EP_TYPE_PCIE
                               else DATA_EP_TYPE_HSUSB),
                qs_iface_id := (if hardware_interface profile \<noteq> HARDWARE_PCIE
                                   \<and> idProduct (usb_dev profile) = 0x0316 then 0x03 else 0x04)\<rparr>;
          q = q\<lparr>qs_ul_max_datagrams := 11, qs_ul_max_size := 8 * 1024, qs_dl_minimum_padding := 0\<rparr>;
          profile = profile\<lparr>rawIP := 1\<rparr>;
          profile = (if prof_qmap_version profile \<noteq> 0x09 then profile\<lparr>prof_qmap_version := 0x05\<rparr> else profile);
          ri = rmnet_info profile
      in if ri_size ri \<noteq> 0
         then (q\<lparr>qs_rx_urb_size := ri_rx_urb_size ri, qs_ep_type := ri_ep_type ri,
                 qs_iface_id := ri_iface_id ri, qs_dl_minimum_padding := ri_dl_minimum_padding ri\<rparr>,
               profile, ri_qmap_version ri)
         else (q, profile, word_of_int (prof_qmap_version profile)))"

text \<open>What the response to the data format request changes.\<close>

definition eth_mode_response ::
  "buf \<Rightarrow> QMAP_SETTING \<Rightarrow> PROFILE_T \<Rightarrow> qmi_env \<Rightarrow> (QMAP_SETTING \<times> PROFILE_T \<times> qmi_env) access" where
  "eth_mode_response m q profile env = do {
     v \<leftarrow> with_tlv m 0x11 (\<lambda>p. rd32 m (p + 3));
     let (profile, env) = (case v of
           None \<Rightarrow> (profile, env)
         | Some x \<Rightarrow> (profile\<lparr>rawIP := (if x = 2 then 1 else 0)\<rparr>, env\<lparr>s_9x07 := (x = 2)\<rparr>));
     v \<leftarrow> with_tlv m 0x16 (\<lambda>p. if qmap_mode profile \<noteq> 0 then rd32 m (p + 3) else Some (qs_rx_urb_size q));
     let q = (case v of None \<Rightarrow> q | Some x \<Rightarrow> q\<lparr>qs_rx_urb_size := x\<rparr>);
     if qs_ul_max_datagrams q = 0 then Some (q, profile, env)
     else do {
       v \<leftarrow> with_tlv m 0x17 (\<lambda>p. rd32 m (p + 3));
       let q = (case v of None \<Rightarrow> q
                | Some x \<Rightarrow> q\<lparr>qs_ul_max_datagrams := min (qs_ul_max_datagrams q) x\<rparr>);
       v \<leftarrow> with_tlv m 0x18 (\<lambda>p. rd32 m (p + 3));
       let q = (case v of None \<Rightarrow> q | Some x \<Rightarrow> q\<lparr>qs_ul_max_size := min (qs_ul_max_size q) x\<rparr>);
       v \<leftarrow> with_tlv m 0x1A (\<lambda>p. rd32 m (p + 3));
       let q = (case v of None \<Rightarrow> q | Some x \<Rightarrow> q\<lparr>qs_dl_minimum_padding := x\<rparr>);
       let env = (if qs_ul_max_datagrams q > 1
                  then env\<lparr>driver_settings := driver_settings env @ [q]\<rparr> else env);
       Some (q, profile, env) } }"

text \<open>The mux binding and the IP family preference of one of the two WDS clients. The response to the
  preference is checked for IPv6 only.\<close>

definition eth_mode_family ::
  "(nat \<Rightarrow> bool) \<Rightarrow> transport \<Rightarrow> byte \<Rightarrow> byte \<Rightarrow> bool \<Rightarrow> QMAP_SETTING \<Rightarrow> PROFILE_T \<Rightarrow> qmi_env
     \<Rightarrow> ((int + unit) \<times> qmi_env) access" where
  "eth_mode_family alloc send QMIType IpPreference checked q profile env = do {
     (r, env) \<leftarrow>
       (if qmapnet_adapter profile \<noteq> [] then do {
          (err, rsp, env) \<leftarrow> qmi_transact alloc send QMIType 0xA2 (Some (WdsSetQMUXBindMuxDataPort q)) env;
          c \<leftarrow> qmi_rsp_check_and_return err rsp;
          Some (map_sum id (\<lambda>m. ()) c, env) }
        else Some (Inr (), env));
     (case r of
        Inl e \<Rightarrow> Some (Inl e, env)
      | Inr u \<Rightarrow> do {
          (err, rsp, env) \<leftarrow> qmi_transact alloc send QMIType 0x4D
                               (Some (WdsSetClientIPFamilyPref IpPreference)) env;
          if checked then do {
            c \<leftarrow> qmi_rsp_check_and_return err rsp;
            Some (map_sum id (\<lambda>m. ()) c, env) }
          else Some (Inr (), env) }) }"

definition eth_mode_families ::
  "(nat \<Rightarrow> bool) \<Rightarrow> transport \<Rightarrow> QMAP_SETTING \<Rightarrow> PROFILE_T \<Rightarrow> qmi_env \<Rightarrow> (int \<times> qmi_env) access" where
  "eth_mode_families alloc send q profile env = do {
     (r, env) \<leftarrow> (if enable_ipv4 profile
                  then eth_mode_family alloc send QMUX_TYPE_WDS (word_of_int IpFamilyV4) False q profile env
                  else Some (Inr (), env));
     (case r of
        Inl e \<Rightarrow> Some (e, env)
      | Inr u \<Rightarrow> do {
          (r, env) \<leftarrow> (if enable_ipv6 profile
                       then eth_mode_family alloc send QMUX_TYPE_WDS_IPV6 (word_of_int IpFamilyV6) True q profile env
                       else Some (Inr (), env));
          (case r of
             Inl e \<Rightarrow> Some (e, env)
           | Inr u \<Rightarrow> do {
               (err, rsp, env) \<leftarrow> qmi_transact alloc send QMUX_TYPE_WDS 0x51 (Some (WdsSetAutoConnect 0)) env;
               Some (0, env) }) }) }"

definition requestSetEthMode ::
  "(nat \<Rightarrow> bool) \<Rightarrow> transport \<Rightarrow> PROFILE_T \<Rightarrow> qmi_env \<Rightarrow> (int \<times> PROFILE_T \<times> qmi_env) access" where
  "requestSetEthMode alloc send profile env =
     (let (q, profile, env) =
            (if qmap_mode profile \<noteq> 0
             then (let (q, profile, v) = eth_mode_settings profile
                   in (q, profile, env\<lparr>s_9x07 := True, qmap_version := v\<rparr>))
             else (qmap_settings_zero, profile, env))
      in if qmap_mode profile \<noteq> 0 \<and> wda_client profile = 0
         then do {
           (r, env) \<leftarrow> eth_mode_families alloc send q profile env;
           Some (r, profile, env) }
         else do {
           (err, rsp, env) \<leftarrow> qmi_transact alloc send QMUX_TYPE_WDS_ADMIN 0x20
                                (Some (WdaSetDataFormat (qmap_version env) q)) env;
           c \<leftarrow> qmi_rsp_check_and_return err rsp;
           (case c of
              Inl e \<Rightarrow> Some (e, profile, env)
            | Inr m \<Rightarrow> do {
                (q, profile, env) \<leftarrow> eth_mode_response m q profile env;
                (r, env) \<leftarrow> eth_mode_families alloc send q profile env;
                Some (r, profile, env) }) })"

subsection \<open>SIM\<close>

definition QMI_PIN_STATUS_NOT_INIT :: byte where "QMI_PIN_STATUS_NOT_INIT = 0"
definition QMI_PIN_STATUS_NOT_VERIF :: byte where "QMI_PIN_STATUS_NOT_VERIF = 1"
definition QMI_PIN_STATUS_VERIFIED :: byte where "QMI_PIN_STATUS_VERIFIED = 2"
definition QMI_PIN_STATUS_DISABLED :: byte where "QMI_PIN_STATUS_DISABLED = 3"
definition QMI_PIN_STATUS_BLOCKED :: byte where "QMI_PIN_STATUS_BLOCKED = 4"
definition QMI_PIN_STATUS_PERM_BLOCKED :: byte where "QMI_PIN_STATUS_PERM_BLOCKED = 5"

lemmas pin_status_defs = QMI_PIN_STATUS_NOT_INIT_def QMI_PIN_STATUS_NOT_VERIF_def
  QMI_PIN_STATUS_VERIFIED_def QMI_PIN_STATUS_DISABLED_def QMI_PIN_STATUS_BLOCKED_def
  QMI_PIN_STATUS_PERM_BLOCKED_def

definition requestGetPINStatus ::
  "(nat \<Rightarrow> bool) \<Rightarrow> transport \<Rightarrow> SIM_Status \<Rightarrow> qmi_env \<Rightarrow> (int \<times> SIM_Status \<times> qmi_env) access" where
  "requestGetPINStatus alloc send SIMStatus env = do {
     (err, rsp, env) \<leftarrow> (if s_9x07 env then qmi_transact alloc send QMUX_TYPE_UIM 0x2F None env
                          else qmi_transact alloc send QMUX_TYPE_DMS 0x2B None env);
     c \<leftarrow> qmi_rsp_check_and_return err rsp;
     (case c of
        Inl e \<Rightarrow> Some (e, SIMStatus, env)
      | Inr m \<Rightarrow> do {
          v \<leftarrow> with_tlv m 0x11 (\<lambda>p. rd8 m (p + 3));
          Some (0, (case v of
                      None \<Rightarrow> SIMStatus
                    | Some PINStatus \<Rightarrow>
                        if PINStatus = QMI_PIN_STATUS_NOT_VERIF then SIM_PIN
                        else if PINStatus = QMI_PIN_STATUS_BLOCKED then SIM_PUK
                        else if PINStatus = QMI_PIN_STATUS_PERM_BLOCKED then SIM_BAD
                        else SIMStatus), env) }) }"

text \<open>The reading of \<^verbatim>\<open>QMIUIM_CARD_STATUS\<close> (26 bytes, followed by the application id and
  \<^verbatim>\<open>QMIUIM_PIN_STATE\<close>), with the initial values for a response without it.\<close>

definition card_state :: "buf \<Rightarrow> (byte \<times> byte) access" where
  "card_state m = do {
     v \<leftarrow> with_tlv m 0x10 (\<lambda>p. do {
            AIDLength \<leftarrow> rd8 m (p + 25);
            let pPINState = p + 26 + unat AIDLength;
            CardState \<leftarrow> rd8 m (p + 12);
            if CardState = 0x01 then do {
              UnivPIN \<leftarrow> rd8 m pPINState;
              PIN1State \<leftarrow> (if UnivPIN = 1 then rd8 m (p + 13) else rd8 m (pPINState + 1));
              Some (CardState, PIN1State) }
            else Some (CardState, QMI_PIN_STATUS_NOT_VERIF) });
     Some (case v of None \<Rightarrow> (0x01, QMI_PIN_STATUS_NOT_VERIF) | Some x \<Rightarrow> x) }"

definition uim_sim_status :: "byte \<Rightarrow> byte \<Rightarrow> SIM_Status" where
  "uim_sim_status CardState PIN1State =
     (if CardState = 0x01 \<and> (PIN1State = QMI_PIN_STATUS_VERIFIED \<or> PIN1State = QMI_PIN_STATUS_DISABLED)
      then SIM_READY
      else if CardState = 0x01 then
        (let s = (if PIN1State = QMI_PIN_STATUS_NOT_VERIF then SIM_PIN else SIM_ABSENT) in
         if PIN1State = QMI_PIN_STATUS_BLOCKED then SIM_PUK
         else if PIN1State = QMI_PIN_STATUS_PERM_BLOCKED then SIM_BAD
         else if PIN1State = QMI_PIN_STATUS_NOT_INIT \<or> PIN1State = QMI_PIN_STATUS_VERIFIED
                 \<or> PIN1State = QMI_PIN_STATUS_DISABLED then SIM_READY
         else s)
      else SIM_ABSENT)"

fun SIM_Status_index :: "SIM_Status \<Rightarrow> nat" where
  "SIM_Status_index SIM_ABSENT = 0" | "SIM_Status_index SIM_NOT_READY = 1"
| "SIM_Status_index SIM_READY = 2" | "SIM_Status_index SIM_PIN = 3"
| "SIM_Status_index SIM_PUK = 4" | "SIM_Status_index SIM_NETWORK_PERSONALIZATION = 5"
| "SIM_Status_index SIM_BAD = 6"

definition SIM_Status_String :: "string list" where
  "SIM_Status_String = [''SIM_ABSENT'', ''SIM_NOT_READY'', ''SIM_READY'', ''SIM_PIN'', ''SIM_PUK'',
     ''SIM_NETWORK_PERSONALIZATION'']"

text \<open>The log line at the end of the handler evaluates \<^verbatim>\<open>SIM_Status_String[*pSIMStatus]\<close>.\<close>

definition log_SIM_Status :: "SIM_Status \<Rightarrow> string access" where
  "log_SIM_Status s = (if SIM_Status_index s < length SIM_Status_String
                       then Some (SIM_Status_String ! SIM_Status_index s) else None)"

definition requestGetSIMStatus ::
  "(nat \<Rightarrow> bool) \<Rightarrow> transport \<Rightarrow> SIM_Status \<Rightarrow> qmi_env \<Rightarrow> (int \<times> SIM_Status \<times> qmi_env) access" where
  "requestGetSIMStatus alloc send SIMStatus env = do {
     (err, rsp, env) \<leftarrow> (if s_9x07 env then qmi_transact alloc send QMUX_TYPE_UIM 0x2F None env
                          else qmi_transact alloc send QMUX_TYPE_DMS 0x44 None env);
     c \<leftarrow> qmi_rsp_check_and_return err rsp;
     (case c of
        Inl e \<Rightarrow> Some (e, SIMStatus, env)
      | Inr m \<Rightarrow> do {
          (s, env) \<leftarrow>
            (if s_9x07 env then do {
               (CardState, PIN1State) \<leftarrow> card_state m;
               Some (uim_sim_status CardState PIN1State, env) }
             else do {
               UIMState \<leftarrow> rd8 m 23;
               if UIMState = 0x00 then Some (SIM_READY, env)
               else if UIMState = 0x01 then do {
                 (e, s, env) \<leftarrow> requestGetPINStatus alloc send SIM_ABSENT env;
                 Some (s, env) }
               else Some (SIM_ABSENT, env) });
          txt \<leftarrow> log_SIM_Status s;
          Some (0, s, env) }) }"

definition requestEnterSimPin ::
  "(nat \<Rightarrow> bool) \<Rightarrow> transport \<Rightarrow> cstr \<Rightarrow> qmi_env \<Rightarrow> (int \<times> qmi_env) access" where
  "requestEnterSimPin alloc send pPinCode env = do {
     (err, rsp, env) \<leftarrow>
       (if s_9x07 env then qmi_transact alloc send QMUX_TYPE_UIM 0x26 (Some (UimVerifyPinReqSend pPinCode)) env
        else qmi_transact alloc send QMUX_TYPE_DMS 0x28 (Some (DmsUIMVerifyPinReqSend pPinCode)) env);
     c \<leftarrow> qmi_rsp_check_and_return err rsp;
     (case c of Inl e \<Rightarrow> Some (e, env) | Inr m \<Rightarrow> Some (0, env)) }"

subsection \<open>Network registration\<close>

text \<open>
  The two conversions of CDMA codes; \<^verbatim>\<open>buf\<close> is unsigned and at least 11 wherever 10 is subtracted,
  so that the subtraction does not wrap and natural numbers give the same values.
\<close>

definition cdma_digit_step :: "nat \<Rightarrow> nat \<times> nat" where
  "cdma_digit_step b = (let d = b mod 10 in (d, if d = 0 then (b - 10) div 10 else b div 10))"

definition quectel_convert_cdma_mcc_2_ascii_mcc :: "u16 \<Rightarrow> u16" where
  "quectel_convert_cdma_mcc_2_ascii_mcc mcc =
     (if mcc = 0x3FF then 3
      else (let (d3, b) = cdma_digit_step (unat mcc + 111);
                (d2, b) = cdma_digit_step b;
                d1 = (if b = 10 then 0 else b)
            in if d1 < 10 \<and> d2 < 10 \<and> d3 < 10 then of_nat (d1 * 100 + d2 * 10 + d3) else 0))"

definition quectel_convert_cdma_mnc_2_ascii_mnc :: "u16 \<Rightarrow> u16" where
  "quectel_convert_cdma_mnc_2_ascii_mnc imsi_11_12 =
     (if imsi_11_12 = 0x7F then 7
      else (let (d2, b) = cdma_digit_step (unat imsi_11_12 + 11);
                d1 = (if b = 10 then 0 else b)
            in if d1 < 10 \<and> d2 < 10 then of_nat (d1 * 10 + d2) else 0))"

text \<open>The caller's variables behind the four pointers; \<open>w1\<close> and \<open>w2\<close> say whether the pairs are given.\<close>

record home_network =
  hn_mcc :: u16
  hn_mnc :: u16
  hn_sid :: u16
  hn_nid :: u16

definition requestGetHomeNetwork ::
  "(nat \<Rightarrow> bool) \<Rightarrow> transport \<Rightarrow> bool \<Rightarrow> bool \<Rightarrow> home_network \<Rightarrow> qmi_env
     \<Rightarrow> (int \<times> home_network \<times> qmi_env) access" where
  "requestGetHomeNetwork alloc send w1 w2 hn env = do {
     (err, rsp, env) \<leftarrow> qmi_transact alloc send QMUX_TYPE_NAS 0x25 None env;
     c \<leftarrow> qmi_rsp_check_and_return err rsp;
     (case c of
        Inl e \<Rightarrow> Some (e, hn, env)
      | Inr m \<Rightarrow> do {
          v \<leftarrow> with_tlv m 0x01 (\<lambda>p. if w1 then do { a \<leftarrow> rd16 m (p + 3); b \<leftarrow> rd16 m (p + 5);
                                                   Some (hn\<lparr>hn_mcc := a, hn_mnc := b\<rparr>) } else Some hn);
          let hn = (case v of None \<Rightarrow> hn | Some x \<Rightarrow> x);
          v \<leftarrow> with_tlv m 0x10 (\<lambda>p. if w2 then do { a \<leftarrow> rd16 m (p + 3); b \<leftarrow> rd16 m (p + 5);
                                                   Some (hn\<lparr>hn_sid := a, hn_nid := b\<rparr>) } else Some hn);
          let hn = (case v of None \<Rightarrow> hn | Some x \<Rightarrow> x);
          Some (0, hn, env) }) }"

text \<open>Both callers ask for the country and network code and convert them when there is one.\<close>

definition cdma_home_codes ::
  "(nat \<Rightarrow> bool) \<Rightarrow> transport \<Rightarrow> u16 \<times> u16 \<Rightarrow> qmi_env \<Rightarrow> ((u16 \<times> u16) \<times> qmi_env) access" where
  "cdma_home_codes alloc send codes env = do {
     (e, hn, env) \<leftarrow> requestGetHomeNetwork alloc send True False
                        \<lparr>hn_mcc = 0, hn_mnc = 0, hn_sid = 0, hn_nid = 0\<rparr> env;
     Some (if e = 0 \<and> hn_mcc hn \<noteq> 0
           then (quectel_convert_cdma_mcc_2_ascii_mcc (hn_mcc hn),
                 quectel_convert_cdma_mnc_2_ascii_mnc (hn_mnc hn))
           else codes, env) }"

definition WWAN_DATA_CLASS_GPRS :: u32 where "WWAN_DATA_CLASS_GPRS = 0x00000001"
definition WWAN_DATA_CLASS_EDGE :: u32 where "WWAN_DATA_CLASS_EDGE = 0x00000002"
definition WWAN_DATA_CLASS_UMTS :: u32 where "WWAN_DATA_CLASS_UMTS = 0x00000004"
definition WWAN_DATA_CLASS_HSDPA :: u32 where "WWAN_DATA_CLASS_HSDPA = 0x00000008"
definition WWAN_DATA_CLASS_HSUPA :: u32 where "WWAN_DATA_CLASS_HSUPA = 0x00000010"
definition WWAN_DATA_CLASS_LTE :: u32 where "WWAN_DATA_CLASS_LTE = 0x00000020"
definition WWAN_DATA_CLASS_5G_NSA :: u32 where "WWAN_DATA_CLASS_5G_NSA = 0x00000040"
definition WWAN_DATA_CLASS_5G_SA :: u32 where "WWAN_DATA_CLASS_5G_SA = 0x00000080"
definition WWAN_DATA_CLASS_1XRTT :: u32 where "WWAN_DATA_CLASS_1XRTT = 0x00010000"
definition WWAN_DATA_CLASS_1XEVDO :: u32 where "WWAN_DATA_CLASS_1XEVDO = 0x00020000"
definition WWAN_DATA_CLASS_1XEVDO_REVA :: u32 where "WWAN_DATA_CLASS_1XEVDO_REVA = 0x00040000"
definition WWAN_DATA_CLASS_1XEVDV :: u32 where "WWAN_DATA_CLASS_1XEVDV = 0x00080000"
definition WWAN_DATA_CLASS_3XRTT :: u32 where "WWAN_DATA_CLASS_3XRTT = 0x00100000"
definition WWAN_DATA_CLASS_1XEVDO_REVB :: u32 where "WWAN_DATA_CLASS_1XEVDO_REVB = 0x00200000"
definition WWAN_DATA_CLASS_UMB :: u32 where "WWAN_DATA_CLASS_UMB = 0x00400000"
definition WWAN_DATA_CLASS_CUSTOM :: u32 where "WWAN_DATA_CLASS_CUSTOM = 0x80000000"

lemmas wwan_class_defs = WWAN_DATA_CLASS_GPRS_def WWAN_DATA_CLASS_EDGE_def WWAN_DATA_CLASS_UMTS_def
  WWAN_DATA_CLASS_HSDPA_def WWAN_DATA_CLASS_HSUPA_def WWAN_DATA_CLASS_LTE_def WWAN_DATA_CLASS_5G_NSA_def
  WWAN_DATA_CLASS_5G_SA_def WWAN_DATA_CLASS_1XRTT_def WWAN_DATA_CLASS_1XEVDO_def
  WWAN_DATA_CLASS_1XEVDO_REVA_def WWAN_DATA_CLASS_1XEVDV_def WWAN_DATA_CLASS_3XRTT_def
  WWAN_DATA_CLASS_1XEVDO_REVB_def WWAN_DATA_CLASS_UMB_def WWAN_DATA_CLASS_CUSTOM_def

definition class2str :: "(u32 \<times> string) list" where
  "class2str =
     [(0, ''UNKNOWN''), (WWAN_DATA_CLASS_GPRS, ''GPRS''), (WWAN_DATA_CLASS_EDGE, ''EDGE''),
      (WWAN_DATA_CLASS_UMTS, ''UMTS''), (WWAN_DATA_CLASS_HSDPA, ''HSDPA''),
      (WWAN_DATA_CLASS_HSUPA, ''HSUPA''), (WWAN_DATA_CLASS_LTE, ''LTE''),
      (WWAN_DATA_CLASS_5G_NSA, ''5G_NSA''), (WWAN_DATA_CLASS_5G_SA, ''5G_SA''),
      (WWAN_DATA_CLASS_1XRTT, ''1XRTT''), (WWAN_DATA_CLASS_1XEVDO, ''1XEVDO''),
      (WWAN_DATA_CLASS_1XEVDO_REVA, ''1XEVDO_REVA''), (WWAN_DATA_CLASS_1XEVDV, ''1XEVDV''),
      (WWAN_DATA_CLASS_3XRTT, ''3XRTT''), (WWAN_DATA_CLASS_1XEVDO_REVB, ''1XEVDO_REVB''),
      (WWAN_DATA_CLASS_UMB, ''UMB''), (WWAN_DATA_CLASS_CUSTOM, ''CUSTOM'')]"

definition wwan_data_class2str :: "u32 \<Rightarrow> string" where
  "wwan_data_class2str c = (case map_of class2str c of None \<Rightarrow> ''UNKNOWN'' | Some s \<Rightarrow> s)"

definition char2ushort :: "buf \<Rightarrow> u16" where
  "char2ushort str = word_of_int (c_atoi (map (\<lambda>c. if c = 0xFF then 0 else c) (take 3 str) @ [0]))"

text \<open>The local variables of \<^verbatim>\<open>requestRegistrationState2\<close> that its loop updates.\<close>

record reg_vars =
  PSAttachedState :: byte
  MobileCountryCode :: u16
  MobileNetworkCode :: u16
  is_lte :: bool
  DeviceClass :: byte
  DataCapList :: u32
  pDataCapStr :: string
  endc_available_valid :: bool
  endc_available :: byte
  restrict_dcnr_valid :: bool
  restrict_dcnr :: byte

definition reg_vars_init :: reg_vars where
  "reg_vars_init = \<lparr>PSAttachedState = 0, MobileCountryCode = 0, MobileNetworkCode = 0, is_lte = False,
     DeviceClass = 0, DataCapList = 0, pDataCapStr = ''UNKNOW'', endc_available_valid = False,
     endc_available = 0, restrict_dcnr_valid = False, restrict_dcnr = 1\<rparr>"

abbreviation (input) "DEVICE_CLASS_CDMA \<equiv> (1 :: byte)"
abbreviation (input) "DEVICE_CLASS_GSM \<equiv> (2 :: byte)"

text \<open>\<^verbatim>\<open>SrvDomainValid\<close> is at offset 3 and \<^verbatim>\<open>SrvDomain\<close> at 4 in every system information block; the network
  identity is at offset \<open>off\<close>: 38 in the CDMA block, 22 in the others that have it.\<close>

definition ps_domain :: "buf \<Rightarrow> nat \<Rightarrow> bool access" where
  "ps_domain m p = do {
     valid \<leftarrow> rd8 m (p + 3);
     if valid = 0x01 then do { d \<leftarrow> rd8 m (p + 4); Some (d AND 0x02 \<noteq> 0) } else Some False }"

definition network_id :: "buf \<Rightarrow> nat \<Rightarrow> nat \<Rightarrow> reg_vars \<Rightarrow> reg_vars access" where
  "network_id m p off v = do {
     valid \<leftarrow> rd8 m (p + off);
     if valid = 0x01 then do {
       mcc \<leftarrow> rdn m (p + off + 1) 3; mnc \<leftarrow> rdn m (p + off + 4) 3;
       Some (v\<lparr>MobileCountryCode := char2ushort mcc, MobileNetworkCode := char2ushort mnc\<rparr>) }
     else Some v }"

text \<open>The \<^verbatim>\<open>switch\<close> over the type of a block at offset \<open>p\<close>.\<close>

definition sys_info_block ::
  "(nat \<Rightarrow> bool) \<Rightarrow> transport \<Rightarrow> buf \<Rightarrow> nat \<Rightarrow> byte \<Rightarrow> reg_vars \<Rightarrow> qmi_env \<Rightarrow> (reg_vars \<times> qmi_env) access" where
  "sys_info_block alloc send m p ty v env =
     (if ty = 0x10 then do {
        s \<leftarrow> rd8 m (p + 3);
        Some (if s = 0x02 then (v\<lparr>DataCapList := WWAN_DATA_CLASS_1XRTT OR WWAN_DATA_CLASS_1XEVDO OR
                 WWAN_DATA_CLASS_1XEVDO_REVA OR WWAN_DATA_CLASS_1XEVDV OR WWAN_DATA_CLASS_1XEVDO_REVB,
                 DeviceClass := DEVICE_CLASS_CDMA\<rparr>, env\<lparr>s_is_cdma := \<not> is_lte v\<rparr>) else (v, env)) }
      else if ty = 0x11 then do {
        s \<leftarrow> rd8 m (p + 3);
        Some (if s = 0x02 then (v\<lparr>DataCapList := WWAN_DATA_CLASS_3XRTT OR WWAN_DATA_CLASS_UMB,
                 DeviceClass := DEVICE_CLASS_CDMA\<rparr>, env\<lparr>s_is_cdma := \<not> is_lte v\<rparr>) else (v, env)) }
      else if ty = 0x12 then do {
        s \<leftarrow> rd8 m (p + 3);
        Some (if s = 0x02 then (v\<lparr>DataCapList := WWAN_DATA_CLASS_GPRS OR WWAN_DATA_CLASS_EDGE,
                 DeviceClass := DEVICE_CLASS_GSM\<rparr>, env) else (v, env)) }
      else if ty = 0x13 then do {
        s \<leftarrow> rd8 m (p + 3);
        Some (if s = 0x02 then (v\<lparr>DataCapList := WWAN_DATA_CLASS_UMTS,
                 DeviceClass := DEVICE_CLASS_GSM\<rparr>, env) else (v, env)) }
      else if ty = 0x14 then do {
        s \<leftarrow> rd8 m (p + 3);
        Some (if s = 0x02 then (v\<lparr>DataCapList := WWAN_DATA_CLASS_LTE, DeviceClass := DEVICE_CLASS_GSM,
                 is_lte := True\<rparr>, env\<lparr>s_is_cdma := False\<rparr>) else (v, env)) }
      else if ty = 0x4A then do {
        s \<leftarrow> rd8 m (p + 3);
        Some (if s = 0x02 then (v\<lparr>DataCapList := DataCapList v OR WWAN_DATA_CLASS_5G_SA,
                 DeviceClass := DEVICE_CLASS_GSM, is_lte := True\<rparr>, env\<lparr>s_is_cdma := False\<rparr>) else (v, env)) }
      else if ty = 0x4B then do {
        ps \<leftarrow> ps_domain m p;
        v \<leftarrow> network_id m p 22 (if ps then v\<lparr>PSAttachedState := 1\<rparr> else v);
        Some (v, env) }
      else if ty = 0x4E then do {
        s \<leftarrow> rd8 m (p + 3); Some (v\<lparr>endc_available_valid := True, endc_available := s\<rparr>, env) }
      else if ty = 0x4F then do {
        s \<leftarrow> rd8 m (p + 3); Some (v\<lparr>restrict_dcnr_valid := True, restrict_dcnr := s\<rparr>, env) }
      else if ty = 0x24 then do {
        s \<leftarrow> rd8 m (p + 3); Some (if s = 0x02 then v\<lparr>pDataCapStr := ''TD-SCDMA''\<rparr> else v, env) }
      else if ty = 0x15 then do {
        ps \<leftarrow> ps_domain m p;
        v' \<leftarrow> network_id m p 38 (if ps then v\<lparr>PSAttachedState := 1\<rparr> else v);
        Some (v', if ps then env\<lparr>s_is_cdma := \<not> is_lte v\<rparr> else env) }
      else if ty = 0x16 then do {
        ps \<leftarrow> ps_domain m p;
        let v = (if ps then v\<lparr>PSAttachedState := 1\<rparr> else v);
        let env = (if ps then env\<lparr>s_is_cdma := \<not> is_lte v\<rparr> else env);
        env \<leftarrow> (if PSAttachedState v \<noteq> 0 then do {
                   valid \<leftarrow> rd8 m (p + 13);
                   if valid = 0x01 then do {
                     h \<leftarrow> rd8 m (p + 14);
                     Some (if h = 0x03 then env\<lparr>s_hdr_personality := 2\<rparr> else env) }
                   else Some env }
                 else Some env);
        (codes, env) \<leftarrow> cdma_home_codes alloc send (MobileCountryCode v, MobileNetworkCode v) env;
        Some (v\<lparr>MobileCountryCode := fst codes, MobileNetworkCode := snd codes\<rparr>, env) }
      else if ty = 0x17 \<or> ty = 0x18 \<or> ty = 0x25 then do {
        ps \<leftarrow> ps_domain m p;
        v \<leftarrow> network_id m p 22 (if ps then v\<lparr>PSAttachedState := 1\<rparr> else v);
        Some (v, env) }
      else if ty = 0x19 then do {
        ps \<leftarrow> ps_domain m p;
        v \<leftarrow> network_id m p 22 (if ps then v\<lparr>PSAttachedState := 1, is_lte := True\<rparr> else v);
        Some (v, if ps then env\<lparr>s_is_cdma := False\<rparr> else env) }
      else Some (v, env))"

function sys_info_loop ::
  "(nat \<Rightarrow> bool) \<Rightarrow> transport \<Rightarrow> buf \<Rightarrow> int \<Rightarrow> nat \<Rightarrow> reg_vars \<Rightarrow> qmi_env \<Rightarrow> (reg_vars \<times> qmi_env) access" where
  "sys_info_loop alloc send m remainingLen p v env =
     (if remainingLen \<le> 0 then Some (v, env)
      else do {
        ty \<leftarrow> rd8 m p;
        (v, env) \<leftarrow> sys_info_block alloc send m p ty v env;
        l \<leftarrow> rd16 m (p + 1);
        sys_info_loop alloc send m (remainingLen - (uint l + 3)) (p + unat l + 3) v env })"
  by pat_completeness auto

termination
proof (relation "measure (\<lambda>(alloc, send, m, remainingLen, p, v, env). nat remainingLen)", goal_cases)
  case (2 alloc send m remainingLen p v env ty ve v' env' l)
  moreover have "- uint l < 3" using uint_ge_0 [of l] by linarith
  ultimately show ?case by auto
qed simp

text \<open>What follows the loop: dual connectivity, the name of the technology and \<^verbatim>\<open>s_5g_type\<close>.\<close>

definition data_class_name :: "reg_vars \<Rightarrow> qmi_env \<Rightarrow> string \<times> qmi_env" where
  "data_class_name v env =
     (let has = (\<lambda>c. DataCapList v AND c \<noteq> 0) in
      if DeviceClass v = DEVICE_CLASS_CDMA then
        (if s_hdr_personality env = 2 then ''eHRPD''
         else if has WWAN_DATA_CLASS_1XEVDO_REVB then wwan_data_class2str WWAN_DATA_CLASS_1XEVDO_REVB
         else if has WWAN_DATA_CLASS_1XEVDO_REVA then wwan_data_class2str WWAN_DATA_CLASS_1XEVDO_REVA
         else if has WWAN_DATA_CLASS_1XEVDO then wwan_data_class2str WWAN_DATA_CLASS_1XEVDO
         else if has WWAN_DATA_CLASS_1XRTT then wwan_data_class2str WWAN_DATA_CLASS_1XRTT
         else if has WWAN_DATA_CLASS_3XRTT then wwan_data_class2str WWAN_DATA_CLASS_3XRTT
         else if has WWAN_DATA_CLASS_UMB then wwan_data_class2str WWAN_DATA_CLASS_UMB
         else pDataCapStr v, env)
      else if has WWAN_DATA_CLASS_5G_SA
        then (wwan_data_class2str WWAN_DATA_CLASS_5G_SA, env\<lparr>s_5g_type := WWAN_DATA_CLASS_5G_SA\<rparr>)
      else if has WWAN_DATA_CLASS_5G_NSA
        then (wwan_data_class2str WWAN_DATA_CLASS_5G_NSA, env\<lparr>s_5g_type := WWAN_DATA_CLASS_5G_NSA\<rparr>)
      else
        (if has WWAN_DATA_CLASS_LTE then wwan_data_class2str WWAN_DATA_CLASS_LTE
         else if has WWAN_DATA_CLASS_HSDPA \<and> has WWAN_DATA_CLASS_HSUPA then ''HSDPA_HSUPA''
         else if has WWAN_DATA_CLASS_HSDPA then wwan_data_class2str WWAN_DATA_CLASS_HSDPA
         else if has WWAN_DATA_CLASS_HSUPA then wwan_data_class2str WWAN_DATA_CLASS_HSUPA
         else if has WWAN_DATA_CLASS_UMTS then wwan_data_class2str WWAN_DATA_CLASS_UMTS
         else if has WWAN_DATA_CLASS_EDGE then wwan_data_class2str WWAN_DATA_CLASS_EDGE
         else if has WWAN_DATA_CLASS_GPRS then wwan_data_class2str WWAN_DATA_CLASS_GPRS
         else pDataCapStr v, env))"

text \<open>The result lists what the log line shows besides the attach state: codes and technology.\<close>

definition requestRegistrationState2 ::
  "(nat \<Rightarrow> bool) \<Rightarrow> transport \<Rightarrow> qmi_env \<Rightarrow> (int \<times> byte \<times> (u16 \<times> u16 \<times> string) option \<times> qmi_env) access" where
  "requestRegistrationState2 alloc send env = do {
     (err, rsp, env) \<leftarrow> qmi_transact alloc send QMUX_TYPE_NAS 0x4D None env;
     c \<leftarrow> qmi_rsp_check_and_return err rsp;
     (case c of
        Inl e \<Rightarrow> Some (e, 0, None, env)
      | Inr m \<Rightarrow> do {
          len \<leftarrow> rd16 m 11;
          let env = env\<lparr>s_is_cdma := False, s_5g_type := 0, s_hdr_personality := 0\<rparr>;
          (v, env) \<leftarrow> sys_info_loop alloc send m (uint len) 13 reg_vars_init env;
          let v = (if DataCapList v AND WWAN_DATA_CLASS_LTE \<noteq> 0 \<and> endc_available_valid v
                      \<and> restrict_dcnr_valid v \<and> endc_available v \<noteq> 0 \<and> restrict_dcnr v = 0
                   then v\<lparr>DataCapList := DataCapList v OR WWAN_DATA_CLASS_5G_NSA\<rparr> else v);
          let (str, env) = data_class_name v env;
          Some (0, PSAttachedState v, Some (MobileCountryCode v, MobileNetworkCode v, str), env) }) }"

definition data_cap_name :: "byte \<Rightarrow> string" where
  "data_cap_name c =
     (if c = 0x01 then ''GPRS'' else if c = 0x02 then ''EDGE'' else if c = 0x03 then ''HSDPA''
      else if c = 0x04 then ''HSUPA'' else if c = 0x05 then ''UMTS'' else if c = 0x06 then ''1XRTT''
      else if c = 0x07 then ''1XEVDO'' else if c = 0x08 then ''1XEVDO_REVA'' else if c = 0x09 then ''GPRS''
      else if c = 0x0A then ''1XEVDO_REVB'' else if c = 0x0B then ''LTE'' else if c = 0x0C then ''HSDPA''
      else if c = 0x0D then ''HSDPA'' else ''UNKNOW'')"

text \<open>The serving system block: registration, PS attach state, number of radio interfaces, the first one.
  The last two members are read only while the modem is registered.\<close>

definition serving_system :: "buf \<Rightarrow> (byte \<times> byte \<times> byte \<times> byte) option access" where
  "serving_system m = with_tlv m 0x01 (\<lambda>p. do {
     reg \<leftarrow> rd8 m (p + 3);
     if reg = 0x01 then do {
       ps \<leftarrow> rd8 m (p + 5); use \<leftarrow> rd8 m (p + 7);
       rif \<leftarrow> (if use \<noteq> 0 then rd8 m (p + 8) else Some 0);
       Some (reg, ps, use, rif) }
     else Some (reg, 0x02, 0, 0) })"

definition requestRegistrationState ::
  "(nat \<Rightarrow> bool) \<Rightarrow> transport \<Rightarrow> byte \<Rightarrow> qmi_env \<Rightarrow> (int \<times> byte \<times> (u16 \<times> u16 \<times> string) option \<times> qmi_env) access" where
  "requestRegistrationState alloc send PSAttached env =
     (if s_9x07 env then requestRegistrationState2 alloc send env
      else do {
        (err, rsp, env) \<leftarrow> qmi_transact alloc send QMUX_TYPE_NAS 0x24 None env;
        c \<leftarrow> qmi_rsp_check_and_return err rsp;
        (case c of
           Inl e \<Rightarrow> Some (e, PSAttached, None, env)
         | Inr m \<Rightarrow> do {
             plmn \<leftarrow> with_tlv m 0x12 (\<lambda>p. do { a \<leftarrow> rd16 m (p + 3); b \<leftarrow> rd16 m (p + 5); Some (a, b) });
             let codes = (case plmn of None \<Rightarrow> (0, 0) | Some x \<Rightarrow> x);
             ss \<leftarrow> serving_system m;
             let PSAttached = (case ss of None \<Rightarrow> 0 | Some (reg, ps, use, rif) \<Rightarrow> ps);
             cap \<leftarrow> with_tlv m 0x11 (\<lambda>p. do {
                     n \<leftarrow> rd8 m (p + 3);
                     if n = 0 then Some None
                     else do {
                       c0 \<leftarrow> rd8 m (p + 4);
                       c0 \<leftarrow> (if n = 2 \<and> c0 = 0x06
                              then do { c1 \<leftarrow> rd8 m (p + 5); Some (if c1 = 0x08 \<or> c1 = 0x0A then c1 else c0) }
                              else Some c0);
                       Some (Some c0) } });
             let str = (case cap of Some (Some c0) \<Rightarrow> data_cap_name c0 | x \<Rightarrow> ''UNKNOW'');
             let registered = (\<lambda>P. case ss of None \<Rightarrow> False
                                   | Some (reg, ps, use, rif) \<Rightarrow> reg = 0x01 \<and> use \<noteq> 0 \<and> P rif);
             let str = (if registered (\<lambda>r. r = 0x09) then ''TD-SCDMA'' else str);
             let env = env\<lparr>s_is_cdma := False\<rparr>;
             if registered (\<lambda>r. r = 0x01 \<or> r = 0x02) then do {
               (codes, env) \<leftarrow> cdma_home_codes alloc send codes (env\<lparr>s_is_cdma := True\<rparr>);
               hp \<leftarrow> with_tlv m 0x23 (\<lambda>p. rd8 m (p + 3));
               let env = env\<lparr>s_hdr_personality := (case hp of None \<Rightarrow> 0 | Some x \<Rightarrow> uint x)\<rparr>;
               let str = (if s_hdr_personality env = 2 then ''eHRPD'' else str);
               Some (0, PSAttached, Some (fst codes, snd codes, str), env) }
             else Some (0, PSAttached, Some (fst codes, snd codes, str), env) }) })"

subsection \<open>Data calls\<close>

definition wds_type :: "int \<Rightarrow> byte" where
  "wds_type family = (if family = IpFamilyV4 then QMUX_TYPE_WDS else QMUX_TYPE_WDS_IPV6)"

definition set_handle :: "int \<Rightarrow> u32 \<Rightarrow> qmi_env \<Rightarrow> qmi_env" where
  "set_handle family h env = (if family = IpFamilyV4 then env\<lparr>WdsConnectionIPv4Handle := h\<rparr>
                                   else env\<lparr>WdsConnectionIPv6Handle := h\<rparr>)"

definition requestQueryDataCall ::
  "(nat \<Rightarrow> bool) \<Rightarrow> transport \<Rightarrow> byte \<Rightarrow> int \<Rightarrow> qmi_env \<Rightarrow> (int \<times> byte \<times> qmi_env) access" where
  "requestQueryDataCall alloc send ConnectionStatus family env = do {
     (err, rsp, env) \<leftarrow> qmi_transact alloc send (wds_type family) 0x22 None env;
     c \<leftarrow> qmi_rsp_check_and_return err rsp;
     (case c of
        Inl e \<Rightarrow> Some (e, ConnectionStatus, env)
      | Inr m \<Rightarrow> do {
          v \<leftarrow> with_tlv m 0x01 (\<lambda>p. do {
                 st \<leftarrow> rd8 m (p + 3);
                 l \<leftarrow> rd16 m (p + 1);
                 if l = 2 then do {
                   ReconfigReqd \<leftarrow> rd8 m (p + 4);
                   Some (if ReconfigReqd = 0x01 then QWDS_PKT_DATA_DISCONNECTED else st) }
                 else Some st });
          let st = (case v of None \<Rightarrow> QWDS_PKT_DATA_DISCONNECTED | Some x \<Rightarrow> x);
          Some (0, st, if st = QWDS_PKT_DATA_DISCONNECTED then set_handle family 0 env else env) }) }"

text \<open>The macro \<^verbatim>\<open>qmi_rsp_check\<close> goes on after a QMUX error, whose reasons are then read and logged.\<close>

definition requestSetupDataCall ::
  "(nat \<Rightarrow> bool) \<Rightarrow> transport \<Rightarrow> PROFILE_T \<Rightarrow> int \<Rightarrow> qmi_env \<Rightarrow> (int \<times> PROFILE_T \<times> qmi_env) access" where
  "requestSetupDataCall alloc send profile family env = do {
     let profile = profile\<lparr>curIpFamily := family\<rparr>;
     (err, rsp, env) \<leftarrow> qmi_transact alloc send (wds_type family) 0x20
                          (Some (WdsStartNwInterfaceReq (s_is_cdma env) (s_hdr_personality env) profile)) env;
     (case rsp of
        None \<Rightarrow> Some (err, profile, env)
      | Some m \<Rightarrow>
          if err < 0 then Some (err, profile, env)
          else do {
            QMUXResult \<leftarrow> rd16 m 16;
            QMUXError \<leftarrow> rd16 m 18;
            if QMUXResult \<noteq> 0 \<or> QMUXError \<noteq> 0 then do {
              r1 \<leftarrow> with_tlv m 0x10 (\<lambda>p. rd16 m (p + 3));
              r2 \<leftarrow> with_tlv m 0x11 (\<lambda>p. do { a \<leftarrow> rd16 m (p + 3); b \<leftarrow> rd16 m (p + 5); Some (a, b) });
              Some (uint QMUXError, profile, env) }
            else do {
              Handle \<leftarrow> rd32 m 23;
              Some (0, profile, set_handle family Handle env) } }) }"

definition requestDeactivateDefaultPDP ::
  "(nat \<Rightarrow> bool) \<Rightarrow> transport \<Rightarrow> int \<Rightarrow> qmi_env \<Rightarrow> (int \<times> qmi_env) access" where
  "requestDeactivateDefaultPDP alloc send family env =
     (if family = IpFamilyV4 \<and> WdsConnectionIPv4Handle env = 0 then Some (0, env)
      else if family = IpFamilyV6 \<and> WdsConnectionIPv6Handle env = 0 then Some (0, env)
      else do {
        (err, rsp, env) \<leftarrow> qmi_transact alloc send (wds_type family) 0x21
             (Some (WdsStopNwInterfaceReq (WdsConnectionIPv4Handle env) (WdsConnectionIPv6Handle env) family)) env;
        c \<leftarrow> qmi_rsp_check_and_return err rsp;
        (case c of Inl e \<Rightarrow> Some (e, env) | Inr m \<Rightarrow> Some (0, set_handle family 0 env)) })"

text \<open>The updates a runtime settings response makes. Addresses are copied as they are on the wire; the
  host is little-endian.\<close>

definition upd_tlv :: "buf \<Rightarrow> byte \<Rightarrow> (nat \<Rightarrow> 'a access) \<Rightarrow> ('a \<Rightarrow> 'b \<Rightarrow> 'b) \<Rightarrow> 'b \<Rightarrow> 'b access" where
  "upd_tlv m ty rd put x = do { v \<leftarrow> with_tlv m ty rd; Some (case v of None \<Rightarrow> x | Some y \<Rightarrow> put y x) }"

definition pcscf_settings :: "buf \<Rightarrow> PROFILE_T \<Rightarrow> PROFILE_T access" where
  "pcscf_settings m profile = do {
     v \<leftarrow> with_tlv m 0x2e (\<lambda>p. do {
            n \<leftarrow> rd8 m (p + 3);
            if n = 1 then do { a \<leftarrow> rdn m (p + 4) 16; Some (profile\<lparr>PCSCFIpv6Addr1 := a\<rparr>) }
            else if n = 2 then do { a \<leftarrow> rdn m (p + 4) 16; b \<leftarrow> rdn m (p + 20) 16;
                                    Some (profile\<lparr>PCSCFIpv6Addr1 := a, PCSCFIpv6Addr2 := b\<rparr>) }
            else Some profile });
     let profile = (case v of None \<Rightarrow> profile | Some x \<Rightarrow> x);
     v \<leftarrow> with_tlv m 0x23 (\<lambda>p. do {
            n \<leftarrow> rd8 m (p + 3);
            if n = 1 then do { a \<leftarrow> rd32 m (p + 4); Some (profile\<lparr>PCSCFIpv4Addr1 := a\<rparr>) }
            else if n = 2 then do { a \<leftarrow> rd32 m (p + 4); b \<leftarrow> rd32 m (p + 8);
                                    Some (profile\<lparr>PCSCFIpv4Addr1 := a, PCSCFIpv4Addr2 := b\<rparr>) }
            else Some profile });
     Some (case v of None \<Rightarrow> profile | Some x \<Rightarrow> x) }"

definition ipv4_settings :: "buf \<Rightarrow> IPV4_T \<Rightarrow> IPV4_T access" where
  "ipv4_settings m x = do {
     x \<leftarrow> upd_tlv m 0x15 (\<lambda>p. rd32 m (p + 3)) (\<lambda>a. DnsPrimary4_update (\<lambda>_. a)) x;
     x \<leftarrow> upd_tlv m 0x16 (\<lambda>p. rd32 m (p + 3)) (\<lambda>a. DnsSecondary4_update (\<lambda>_. a)) x;
     x \<leftarrow> upd_tlv m 0x20 (\<lambda>p. rd32 m (p + 3)) (\<lambda>a. Gateway4_update (\<lambda>_. a)) x;
     x \<leftarrow> upd_tlv m 0x21 (\<lambda>p. rd32 m (p + 3)) (\<lambda>a. SubnetMask4_update (\<lambda>_. a)) x;
     upd_tlv m 0x1E (\<lambda>p. rd32 m (p + 3)) (\<lambda>a. Address4_update (\<lambda>_. a)) x }"

definition ipv6_settings :: "buf \<Rightarrow> IPV6_T \<Rightarrow> IPV6_T access" where
  "ipv6_settings m x = do {
     x \<leftarrow> upd_tlv m 0x27 (\<lambda>p. rdn m (p + 3) 16) (\<lambda>a. DnsPrimary6_update (\<lambda>_. a)) x;
     x \<leftarrow> upd_tlv m 0x28 (\<lambda>p. rdn m (p + 3) 16) (\<lambda>a. DnsSecondary6_update (\<lambda>_. a)) x;
     x \<leftarrow> upd_tlv m 0x26 (\<lambda>p. do { a \<leftarrow> rdn m (p + 3) 16; l \<leftarrow> rd8 m (p + 19); Some (a, l) })
           (\<lambda>(a, l) x. x\<lparr>Gateway6 := a, PrefixLengthGateway := l\<rparr>) x;
     upd_tlv m 0x25 (\<lambda>p. do { a \<leftarrow> rdn m (p + 3) 16; l \<leftarrow> rd8 m (p + 19); Some (a, l) })
       (\<lambda>(a, l) x. x\<lparr>Address6 := a, PrefixLengthIPAddr := l\<rparr>) x }"

definition requestGetIPAddress ::
  "(nat \<Rightarrow> bool) \<Rightarrow> transport \<Rightarrow> PROFILE_T \<Rightarrow> int \<Rightarrow> qmi_env \<Rightarrow> (int \<times> PROFILE_T \<times> qmi_env) access" where
  "requestGetIPAddress alloc send profile family env =
     (let profile = (if family = IpFamilyV4 then profile\<lparr>ipv4 := ipv4_zero\<rparr>
                     else if family = IpFamilyV6 then profile\<lparr>ipv6 := ipv6_zero\<rparr> else profile)
      in if family = IpFamilyV4 \<and> WdsConnectionIPv4Handle env = 0 then Some (0, profile, env)
         else if family = IpFamilyV6 \<and> WdsConnectionIPv6Handle env = 0 then Some (0, profile, env)
         else do {
           (err, rsp, env) \<leftarrow> qmi_transact alloc send (wds_type family) 0x2D (Some WdsGetRuntimeSettingReq) env;
           c \<leftarrow> qmi_rsp_check_and_return err rsp;
           (case c of
              Inl e \<Rightarrow> Some (e, profile, env)
            | Inr m \<Rightarrow> do {
                profile \<leftarrow> pcscf_settings m profile;
                v4 \<leftarrow> ipv4_settings m (ipv4 profile);
                v6 \<leftarrow> ipv6_settings m (ipv6 profile);
                mtu \<leftarrow> with_tlv m 0x29 (\<lambda>p. rd32 m (p + 3));
                let v4 = (case mtu of None \<Rightarrow> v4 | Some x \<Rightarrow> if family = IpFamilyV4 then v4\<lparr>Mtu4 := x\<rparr> else v4);
                let v6 = (case mtu of None \<Rightarrow> v6 | Some x \<Rightarrow> if family = IpFamilyV4 then v6 else v6\<lparr>Mtu6 := x\<rparr>);
                Some (0, profile\<lparr>ipv4 := v4, ipv6 := v6\<rparr>, env) }) })"

subsection \<open>Profiles\<close>

text \<open>\<^verbatim>\<open>uchar2char\<close> into a buffer of \<open>n\<close> bytes; the result is the C string it holds.\<close>

definition uchar2char :: "nat \<Rightarrow> buf \<Rightarrow> cstr" where
  "uchar2char n src = cstr_of (take (min (n - 1) (length src)) src @ [0])"

text \<open>The log lines index a table of four names with the IP type.\<close>

definition ipStr :: "int \<Rightarrow> string access" where
  "ipStr i = (if i = 0 then Some ''IPV4'' else if i = 1 then Some ''NULL'' else if i = 2 then Some ''IPV6''
              else if i = 3 then Some ''IPV4V6'' else None)"

definition str_or_empty :: "cstr option \<Rightarrow> cstr" where
  "str_or_empty s = (case s of None \<Rightarrow> [] | Some c \<Rightarrow> c)"

text \<open>1: the profile of the modem was changed, 0: no need to change it, -1: there is no profile.\<close>

definition requestSetProfile ::
  "(nat \<Rightarrow> bool) \<Rightarrow> transport \<Rightarrow> PROFILE_T \<Rightarrow> qmi_env \<Rightarrow> (int \<times> qmi_env) access" where
  "requestSetProfile alloc send profile env = do {
     name \<leftarrow> ipStr (iptype profile);
     if profile_index profile = 0 then Some (- 1, env)
     else if old_apn profile = str_or_empty (apn profile) \<and> old_user profile = str_or_empty (user profile)
             \<and> old_password profile = str_or_empty (password profile)
             \<and> old_iptype profile = iptype profile \<and> old_auth profile = auth profile
     then Some (0, env)
     else do {
       (err, rsp, env) \<leftarrow> qmi_transact alloc send QMUX_TYPE_WDS 0x28
                            (Some (WdsModifyProfileSettingsReq profile)) env;
       c \<leftarrow> qmi_rsp_check_and_return err rsp;
       (case c of Inl e \<Rightarrow> Some (e, env) | Inr m \<Rightarrow> Some (1, env)) } }"

text \<open>
  The loop over the profile list: \<open>n\<close> entries remain, \<open>k\<close> is a \<^verbatim>\<open>uint8\<close> index into
  \<^verbatim>\<open>ProfileList\<close> (which starts at offset 3 of the block at \<open>p\<close>); the results go to an array of 42.
\<close>

fun profile_list_loop :: "buf \<Rightarrow> nat \<Rightarrow> nat \<Rightarrow> byte \<Rightarrow> byte list \<Rightarrow> byte list access" where
  "profile_list_loop m p 0 k acc = Some acc"
| "profile_list_loop m p (Suc n) k acc =
     (if length acc < 42 then do {
        i \<leftarrow> rd8 m (p + 3 + unat k);
        let k = k + 1;
        l \<leftarrow> rd8 m (p + 3 + unat k);
        profile_list_loop m p n (if l = 0 then k + 2 else k + 2 + l) (acc @ [i]) }
      else None)"

definition profile_indexs :: "buf \<Rightarrow> byte list access" where
  "profile_indexs m = do {
     r \<leftarrow> GetTLV m 9 0x01;
     p \<leftarrow> r;
     profile_num \<leftarrow> rd8 m (p + 3);
     profile_list_loop m p (unat profile_num) 2 [] }"

text \<open>
  The search for the profile with the wanted context: \<open>Found m\<close> is the response with its settings,
  \<open>Recheck\<close> the \<^verbatim>\<open>goto\<close> after a profile was created, \<open>Failed e\<close> a return with \<open>e\<close>. An
  empty list leaves the loop with the response that was freed before it, which is a fault.
\<close>

datatype search = Found buf | Recheck | Failed int

fun profile_search ::
  "(nat \<Rightarrow> bool) \<Rightarrow> transport \<Rightarrow> byte list \<Rightarrow> PROFILE_T \<Rightarrow> qmi_env \<Rightarrow> (search \<times> PROFILE_T \<times> qmi_env) access" where
  "profile_search alloc send [] profile env = None"
| "profile_search alloc send (i # is) profile env = do {
     let profile = profile\<lparr>profile_index := uint i\<rparr>;
     (err, rsp, env) \<leftarrow> qmi_transact alloc send QMUX_TYPE_WDS 0x2B
                          (Some (WdsGetProfileSettingsReqSend profile)) env;
     c \<leftarrow> qmi_rsp_check_and_return err rsp;
     (case c of
        Inl e \<Rightarrow> Some (Failed e, profile, env)
      | Inr m \<Rightarrow> do {
          r \<leftarrow> GetTLV m 9 0x25;
          p \<leftarrow> r;
          pdp_context \<leftarrow> rd8 m (p + 3);
          if uint pdp_context = pdp profile then Some (Found m, profile, env)
          else if is = [] then do {
            (err, rsp, env) \<leftarrow> qmi_transact alloc send QMUX_TYPE_WDS 0x27
                                 (Some (WdsCreateProfileSettingsReqSend profile)) env;
            c \<leftarrow> qmi_rsp_check_and_return err rsp;
            (case c of Inl e \<Rightarrow> Some (Failed e, profile, env) | Inr m \<Rightarrow> Some (Recheck, profile, env)) }
          else profile_search alloc send is profile env }) }"

definition old_string :: "buf \<Rightarrow> byte \<Rightarrow> cstr \<Rightarrow> cstr access" where
  "old_string m ty old = do {
     v \<leftarrow> with_tlv m ty (\<lambda>p. do { l \<leftarrow> rd16 m (p + 1); x \<leftarrow> rdn m (p + 3) (min 63 (unat l)); Some (uchar2char 64 x) });
     Some (case v of None \<Rightarrow> old | Some x \<Rightarrow> x) }"

definition profile_settings :: "buf \<Rightarrow> PROFILE_T \<Rightarrow> PROFILE_T access" where
  "profile_settings m profile = do {
     a \<leftarrow> old_string m 0x14 (old_apn profile);
     u \<leftarrow> old_string m 0x1B (old_user profile);
     w \<leftarrow> old_string m 0x1C (old_password profile);
     au \<leftarrow> with_tlv m 0x1D (\<lambda>p. rd8 m (p + 3));
     it \<leftarrow> with_tlv m 0x11 (\<lambda>p. rd8 m (p + 3));
     let profile = profile\<lparr>old_apn := a, old_user := u, old_password := w,
           old_auth := (case au of None \<Rightarrow> old_auth profile | Some x \<Rightarrow> uint x),
           old_iptype := (case it of None \<Rightarrow> old_iptype profile | Some x \<Rightarrow> uint x)\<rparr>;
     name \<leftarrow> ipStr (old_iptype profile);
     Some profile }"

text \<open>
  One round from the label \<^verbatim>\<open>_re_check\<close>. The response to the list request is dereferenced before it is
  checked, so no response at all is a fault. \<open>fuel\<close> bounds the rounds: the inner \<open>None\<close>
  is a run that still wants another round.
\<close>

fun requestGetProfile_rounds ::
  "(nat \<Rightarrow> bool) \<Rightarrow> transport \<Rightarrow> nat \<Rightarrow> PROFILE_T \<Rightarrow> qmi_env \<Rightarrow> (int \<times> PROFILE_T \<times> qmi_env) option access" where
  "requestGetProfile_rounds alloc send 0 profile env = Some None"
| "requestGetProfile_rounds alloc send (Suc fuel) profile env = do {
     (err, rsp, env) \<leftarrow> qmi_transact alloc send QMUX_TYPE_WDS 0x2A (Some WdsGetProfileListReqSend) env;
     m \<leftarrow> rsp;
     l \<leftarrow> rd16 m 1;
     c \<leftarrow> qmi_rsp_check_and_return err rsp;
     (case c of
        Inl e \<Rightarrow> Some (Some (e, profile, env))
      | Inr m \<Rightarrow> do {
          is \<leftarrow> profile_indexs m;
          (s, profile, env) \<leftarrow> profile_search alloc send is profile env;
          (case s of
             Failed e \<Rightarrow> Some (Some (e, profile, env))
           | Recheck \<Rightarrow> requestGetProfile_rounds alloc send fuel profile env
           | Found m \<Rightarrow> do { profile \<leftarrow> profile_settings m profile; Some (Some (0, profile, env)) }) }) }"

definition requestGetProfile ::
  "(nat \<Rightarrow> bool) \<Rightarrow> transport \<Rightarrow> nat \<Rightarrow> PROFILE_T \<Rightarrow> qmi_env \<Rightarrow> (int \<times> PROFILE_T \<times> qmi_env) option access" where
  "requestGetProfile alloc send fuel profile env =
     (let profile = profile\<lparr>old_apn := [], old_user := [], old_password := [], old_auth := 0, old_iptype := 0,
            iptype := (if enable_ipv4 profile \<and> enable_ipv6 profile then 3
                       else if enable_ipv6 profile then 2 else 0)\<rparr>
      in if pdp profile = 0 then Some (Some (0, profile, env))
         else requestGetProfile_rounds alloc send fuel profile env)"

subsection \<open>Version, radio power and loopback\<close>

definition requestBaseBandVersion ::
  "(nat \<Rightarrow> bool) \<Rightarrow> transport \<Rightarrow> PROFILE_T \<Rightarrow> qmi_env \<Rightarrow> (int \<times> PROFILE_T \<times> qmi_env) access" where
  "requestBaseBandVersion alloc send profile env = do {
     (err, rsp, env) \<leftarrow> qmi_transact alloc send QMUX_TYPE_DMS 0x23 None env;
     c \<leftarrow> qmi_rsp_check_and_return err rsp;
     (case c of
        Inl e \<Rightarrow> Some (e, profile, env)
      | Inr m \<Rightarrow> do {
          v \<leftarrow> with_tlv m 0x01 (\<lambda>p. do {
                 l \<leftarrow> rd16 m (p + 1);
                 if l = 0 then Some (BaseBandVersion profile)
                 else do { x \<leftarrow> rdn m (p + 3) (min 63 (unat l)); Some (uchar2char 64 x) } });
          Some (0, (case v of None \<Rightarrow> profile | Some x \<Rightarrow> profile\<lparr>BaseBandVersion := x\<rparr>), env) }) }"

definition DmsSetOperatingModeReq :: "byte \<Rightarrow> builder" where
  "DmsSetOperatingModeReq arg b = do { (b, n) \<leftarrow> put_tlv 0x01 [arg] (b, 0); Some (b, 8) }"

definition UimSetCardSlotReq :: "byte \<Rightarrow> builder" where
  "UimSetCardSlotReq arg b = do { (b, n) \<leftarrow> put_tlv 0x01 [arg] (b, 0); Some (b, 8) }"

definition requestRadioPower ::
  "(nat \<Rightarrow> bool) \<Rightarrow> transport \<Rightarrow> int \<Rightarrow> qmi_env \<Rightarrow> (int \<times> qmi_env) access" where
  "requestRadioPower alloc send state env = do {
     let OperatingMode = (if state \<noteq> 0 then 0 else 1);
     let SimOp = (if state \<noteq> 0 then 0x31 else 0x30);
     (err, rsp, env) \<leftarrow> qmi_transact alloc send QMUX_TYPE_DMS 0x2E (Some (DmsSetOperatingModeReq OperatingMode)) env;
     c \<leftarrow> qmi_rsp_check_and_return err rsp;
     (case c of
        Inl e \<Rightarrow> Some (e, env)
      | Inr m \<Rightarrow> do {
          (err, rsp, env) \<leftarrow> qmi_transact alloc send QMUX_TYPE_UIM SimOp (Some (UimSetCardSlotReq 0x01)) env;
          c \<leftarrow> qmi_rsp_check_and_return err rsp;
          (case c of Inl e \<Rightarrow> Some (e, env) | Inr m \<Rightarrow> Some (0, env)) }) }"

definition WdaSetLoopBackReq :: builder where
  "WdaSetLoopBackReq b = do {
     b \<leftarrow> wr b 13 [0x01];
     b \<leftarrow> wr b 14 (bytes16 1);
     b \<leftarrow> wr b 17 [0x10];
     b \<leftarrow> wr b 18 (bytes16 4);
     Some (b, 15) }"

text \<open>The values are stored into the composed request, which is not checked for \<^verbatim>\<open>NULL\<close>; the 32 bit
  factor goes through \<^verbatim>\<open>cpu_to_le16\<close>.\<close>

definition requestSetLoopBackState ::
  "(nat \<Rightarrow> bool) \<Rightarrow> transport \<Rightarrow> byte \<Rightarrow> u32 \<Rightarrow> qmi_env \<Rightarrow> (int \<times> qmi_env) access" where
  "requestSetLoopBackState alloc send state factor env = do {
     (m, t) \<leftarrow> ComposeQMUXMsg alloc QMUX_TYPE_WDS_ADMIN 0x2F (Some WdaSetLoopBackReq) (TransactionId env);
     r \<leftarrow> m;
     r \<leftarrow> wr r 16 [state];
     r \<leftarrow> wr r 20 (bytes32 (ucast (ucast factor :: u16)));
     let h = sent env @ [r];
     let (err, rsp) = send h;
     let env = env\<lparr>TransactionId := t, sent := h\<rparr>;
     c \<leftarrow> qmi_rsp_check_and_return err rsp;
     (case c of Inl e \<Rightarrow> Some (e, env) | Inr m \<Rightarrow> Some (0, env)) }"

end
