(* ===== verification/Qmi_Calls.thy ===== *)
theory Qmi_Calls
  imports Qmi_Requests
begin

text \<open>
  What the request handlers guarantee. Responses are described by their blocks: \<open>rsp_frame\<close> is a
  response message with a result block in front, as the modem builds it, so that the statements are
  about block values and not about offsets.
\<close>

subsection \<open>Requests that are sent\<close>

lemma ComposeQMUXMsg_None:
  assumes "GetQMUXTransactionId t = (tid, t')"
  shows "ComposeQMUXMsg alloc qt mt None t =
         Some (if alloc 13 then Some (qmux_frame qt 0 0 tid mt []) else None, t')"
proof -
  have e: "enc (qmux_hdr qt tid mt) (qmux_start qt tid mt) 0 []" by (rule enc_qmux_start)
  have "ComposeQMUXMsg alloc qt mt None t =
        do { b \<leftarrow> do { b \<leftarrow> wr (replicate WDM_DEFAULT_BUFSIZE 0) 0 [0x01];
               b \<leftarrow> wr b 3 [0x00]; b \<leftarrow> wr b 4 [qt]; b \<leftarrow> wr b 6 [0x00];
               b \<leftarrow> wr b 7 (bytes16 tid); wr b 9 (bytes16 mt) };
             b \<leftarrow> wr b 11 (bytes16 0);
             mlen \<leftarrow> rd16 b 11;
             let qlen = mlen + 4 + 3 + 6 - 1;
             b \<leftarrow> wr b 1 (bytes16 qlen);
             let len = unat qlen + 1;
             if alloc len then do { m \<leftarrow> rdn b 0 len; Some (Some m, t') } else Some (None, t') }"
    unfolding ComposeQMUXMsg_def assms Let_def prod.case option.case
    by (simp add: bind_assoc case_prod_unfold)
  then show ?thesis
    unfolding qmux_start_stores Option.bind.simps
    using enc_finish [OF e, of alloc t'] by (simp add: Let_def)
qed

text \<open>\<open>with_request m env\<close> is the state after the request \<open>m\<close> was handed to the transport.\<close>

definition next_tid :: "qmi_env \<Rightarrow> u16" where
  "next_tid env = fst (GetQMUXTransactionId (TransactionId env))"

definition with_request :: "buf \<Rightarrow> qmi_env \<Rightarrow> qmi_env" where
  "with_request m env = env\<lparr>TransactionId := snd (GetQMUXTransactionId (TransactionId env)), sent := sent env @ [m]\<rparr>"

lemma with_request_simps [simp]:
  "sent (with_request m env) = sent env @ [m]"
  "WdsConnectionIPv4Handle (with_request m env) = WdsConnectionIPv4Handle env"
  "WdsConnectionIPv6Handle (with_request m env) = WdsConnectionIPv6Handle env"
  "s_is_cdma (with_request m env) = s_is_cdma env"
  "s_9x07 (with_request m env) = s_9x07 env"
  by (simp_all add: with_request_def)

lemma transact_None:
  assumes "\<And>n. alloc n"
  shows "qmi_transact alloc send qt mt None env =
         (let m = qmux_frame qt 0 0 (next_tid env) mt []; (e, r) = send (sent env @ [m])
          in Some (e, r, with_request m env))"
proof -
  obtain tid t' where t: "GetQMUXTransactionId (TransactionId env) = (tid, t')" by fastforce
  show ?thesis
    using assms
    by (simp add: qmi_transact_def ComposeQMUXMsg_None [OF t] next_tid_def with_request_def t Let_def
        split: prod.splits)
qed

context qmux_builder
begin

lemma transact:
  assumes "fits" and "\<And>n. alloc n"
  shows "qmi_transact alloc send qt mt (Some custom) env =
         (let m = qmux_frame qt 0 0 (next_tid env) mt blocks; (e, r) = send (sent env @ [m])
          in Some (e, r, with_request m env))"
proof -
  obtain tid t' where t: "GetQMUXTransactionId (TransactionId env) = (tid, t')" by fastforce
  show ?thesis
    using assms
    by (simp add: qmi_transact_def compose [OF assms(1) t] next_tid_def with_request_def t Let_def
        split: prod.splits)
qed

end

subsection \<open>Responses\<close>

definition rsp_frame :: "byte \<Rightarrow> byte \<Rightarrow> u16 \<Rightarrow> u16 \<Rightarrow> u16 \<Rightarrow> u16 \<Rightarrow> tlv list \<Rightarrow> buf" where
  "rsp_frame qt cid tid mt res err ts =
     qmux_frame qt cid 2 tid mt (mk_tlv 0x02 (bytes16 res @ bytes16 err) # ts)"

lemma rsp_frame_split:
  "rsp_frame qt cid tid mt res err ts =
     ([0x01] @ bytes16 (of_nat (19 + length (tlvs_bytes ts))) @ [0x00, qt, cid, 2] @ bytes16 tid
       @ bytes16 mt @ bytes16 (of_nat (7 + length (tlvs_bytes ts))) @ [0x02] @ bytes16 4)
     @ bytes16 res @ bytes16 err @ tlvs_bytes ts"
  by (simp add: rsp_frame_def qmux_frame_def mux_body_def tlv_bytes_def)

lemma rsp_frame_result: "rd16 (rsp_frame qt cid tid mt res err ts) 16 = Some res"
  unfolding rsp_frame_split by (subst rd16_append_right) simp_all

lemma rsp_frame_error: "rd16 (rsp_frame qt cid tid mt res err ts) 18 = Some err"
proof -
  have "rd16 (bytes16 res @ bytes16 err @ tlvs_bytes ts) 2 = Some err"
    by (subst rd16_append_right) simp_all
  then show ?thesis
    unfolding rsp_frame_split by (subst rd16_append_right) simp_all
qed

lemma rsp_check_frame:
  assumes "\<not> e < 0"
  shows "qmi_rsp_check_and_return e (Some (rsp_frame qt cid tid mt res err ts)) =
         Some (if res \<noteq> 0 \<or> err \<noteq> 0 then Inl (uint err) else Inr (rsp_frame qt cid tid mt res err ts))"
  using assms by (simp add: qmi_rsp_check_and_return_def rsp_frame_result rsp_frame_error)

text \<open>Reading a block of a response gives what a reader of the block alone gets.\<close>

lemma with_tlv_frame:
  assumes "7 + length (tlvs_bytes ts) < 65536" and "ty \<noteq> 0x02"
    and "\<And>t pre ys. find_tlv ts ty = Some t \<Longrightarrow>
            rsp_frame qt cid tid mt res err ts = pre @ tlv_bytes t @ ys \<Longrightarrow> f (length pre) = Some (g t)"
  shows "with_tlv (rsp_frame qt cid tid mt res err ts) ty f = Some (map_option g (find_tlv ts ty))"
proof -
  let ?ts = "mk_tlv 0x02 (bytes16 res @ bytes16 err) # ts"
  let ?pre = "[0x01] @ bytes16 (of_nat (12 + length (tlvs_bytes ?ts))) @ [0x00, qt, cid, 2] @ bytes16 tid"
  have L: "length (tlvs_bytes ?ts) < 65536" using assms(1) by simp
  have fr: "rsp_frame qt cid tid mt res err ts = ?pre @ mux_body mt ?ts @ []"
    by (simp add: rsp_frame_def qmux_frame_def)
  have nine: "length ?pre = 9" by simp
  have fnd: "find_tlv ?ts ty = find_tlv ts ty" using assms(2) by simp
  show ?thesis
  proof (cases "find_tlv ts ty")
    case None
    then show ?thesis
      using GetTLV_mux_body [OF L, of ?pre mt "[]" ty] tlv_offset_None_iff [of ?ts ty] fnd
      unfolding with_tlv_def fr nine [symmetric] by simp
  next
    case (Some t)
    obtain pre' ys where g: "GetTLV (?pre @ mux_body mt ?ts @ []) (length ?pre) (uint ty) = Some (Some (length pre'))"
      and b: "?pre @ mux_body mt ?ts @ [] = pre' @ tlv_bytes t @ ys"
      by (rule GetTLV_mux_body_Some [OF L fnd [THEN trans, OF Some]])
    have "f (length pre') = Some (g t)"
      by (rule assms(3) [OF Some, of pre' ys]) (unfold fr, rule b)
    then show ?thesis
      using g Some unfolding with_tlv_def fr nine [symmetric] by simp
  qed
qed

lemma with_tlv_absent:
  assumes "find_tlv ts ty = None" and "7 + length (tlvs_bytes ts) < 65536" and "ty \<noteq> 0x02"
  shows "with_tlv (rsp_frame qt cid tid mt res err ts) ty f = Some None"
  using with_tlv_frame [OF assms(2,3), of qt cid tid mt res err f undefined] assms(1) by simp

lemma tlv_bytes_value: "pre @ tlv_bytes t @ ys =
   (pre @ TLVType t # bytes16 (of_nat (length (TLVValue t)))) @ TLVValue t @ ys"
  by (simp add: tlv_bytes_def)

lemma rd8_tlv: "TLVValue t = v # vs \<Longrightarrow> rd8 (pre @ tlv_bytes t @ ys) (length pre + 3) = Some v"
  unfolding tlv_bytes_value by (subst rd8_append_right) (simp_all add: rd8_Cons)

lemma rd32_tlv: "TLVValue t = bytes32 v @ vs \<Longrightarrow> rd32 (pre @ tlv_bytes t @ ys) (length pre + 3) = Some v"
  unfolding tlv_bytes_value by (subst rd32_append_right) simp_all

text \<open>The block behind the result block, where fixed response structures have their first member.\<close>

lemma rsp_frame_first:
  obtains pre where "rsp_frame qt cid tid mt res err (t # ts) = pre @ tlv_bytes t @ tlvs_bytes ts"
    and "length pre = 20"
proof
  show "rsp_frame qt cid tid mt res err (t # ts) =
     ([0x01] @ bytes16 (of_nat (19 + length (tlvs_bytes (t # ts)))) @ [0x00, qt, cid, 2] @ bytes16 tid
       @ bytes16 mt @ bytes16 (of_nat (7 + length (tlvs_bytes (t # ts)))) @ [0x02] @ bytes16 4
       @ bytes16 res @ bytes16 err) @ tlv_bytes t @ tlvs_bytes ts"
    unfolding rsp_frame_split by simp
qed simp

lemma rd32_first: "rd32 (rsp_frame qt cid tid mt res err (mk_tlv ty (bytes32 h) # ts)) 23 = Some h"
proof -
  obtain pre where "rsp_frame qt cid tid mt res err (mk_tlv ty (bytes32 h) # ts)
        = pre @ tlv_bytes (mk_tlv ty (bytes32 h)) @ tlvs_bytes ts" and "length pre = 20"
    by (rule rsp_frame_first)
  then show ?thesis using rd32_tlv [of "mk_tlv ty (bytes32 h)" h "[]" pre "tlvs_bytes ts"] by simp
qed

lemma rd8_first: "rd8 (rsp_frame qt cid tid mt res err (mk_tlv ty (v # vs) # ts)) 23 = Some v"
proof -
  obtain pre where "rsp_frame qt cid tid mt res err (mk_tlv ty (v # vs) # ts)
        = pre @ tlv_bytes (mk_tlv ty (v # vs)) @ tlvs_bytes ts" and "length pre = 20"
    by (rule rsp_frame_first)
  then show ?thesis using rd8_tlv [of "mk_tlv ty (v # vs)" v vs pre "tlvs_bytes ts"] by simp
qed

subsection \<open>Starting and stopping a data call\<close>

text \<open>C9: Starting a data call: with a profile that fits the request buffer and a response that reports
  success, \<^verbatim>\<open>requestSetupDataCall\<close> sends exactly one START request with the blocks of the profile, for
  IPv4 to the service \<^verbatim>\<open>QMUX_TYPE_WDS\<close> (0x01) and for IPv6 to \<^verbatim>\<open>QMUX_TYPE_WDS_IPV6\<close> (0x11), returns 0 and
  remembers the packet data handle of the response in \<^verbatim>\<open>WdsConnectionIPv4Handle\<close> or
  \<^verbatim>\<open>WdsConnectionIPv6Handle\<close>; the handle of the other family and all else stays.\<close>

theorem setup_data_call_success:
  assumes "\<And>n. alloc n" and "family = 4 \<and> svc = 0x01 \<or> family = 6 \<and> svc = 0x11"
    and "13 + length (tlvs_bytes (start_nw_blocks (s_is_cdma env) (profile\<lparr>curIpFamily := family\<rparr>)))
           \<le> WDM_DEFAULT_BUFSIZE"
    and "req = qmux_frame svc 0 0 (next_tid env) 0x20
                 (start_nw_blocks (s_is_cdma env) (profile\<lparr>curIpFamily := family\<rparr>))"
    and "send (sent env @ [req]) = (0, Some (rsp_frame qt cid tid 0x20 0 0 (mk_tlv 0x01 (bytes32 h) # ts)))"
  shows "requestSetupDataCall alloc send profile family env =
         Some (0, profile\<lparr>curIpFamily := family\<rparr>,
           if family = 4 then (with_request req env)\<lparr>WdsConnectionIPv4Handle := h\<rparr>
           else (with_request req env)\<lparr>WdsConnectionIPv6Handle := h\<rparr>)"
proof -
  have svc: "wds_type family = svc"
    using assms(2) by (auto simp: wds_type_def IpFamilyV4_def)
  have "requestSetupDataCall alloc send profile family env =
         Some (0, profile\<lparr>curIpFamily := family\<rparr>, set_handle family h (with_request req env))"
    unfolding requestSetupDataCall_def Let_def start_nw.transact [OF assms(3,1)] svc
    using assms(4,5) by (simp add: Let_def rsp_frame_result rsp_frame_error rd32_first)
  then show ?thesis
    by (simp add: set_handle_def IpFamilyV4_def)
qed

theorem setup_data_call_success_witness:
  "requestSetupDataCall (\<lambda>n. True)
     (\<lambda>h. (0, Some (rsp_frame 1 5 1 0x20 0 0 [mk_tlv 0x01 (bytes32 0xCAFE)]))) s_profile 4 qmi_env_init =
   Some (0, s_profile\<lparr>curIpFamily := 4\<rparr>,
         (with_request (qmux_frame 1 0 0 1 0x20 [mk_tlv 0x30 [1], mk_tlv 0x19 [4]]) qmi_env_init)
           \<lparr>WdsConnectionIPv4Handle := 0xCAFE\<rparr>)"
  using setup_data_call_success [where alloc = "\<lambda>n. True" and env = qmi_env_init and profile = s_profile
      and family = 4 and req = "qmux_frame 1 0 0 1 0x20 [mk_tlv 0x30 [1], mk_tlv 0x19 [4]]"
      and send = "\<lambda>h. (0, Some (rsp_frame 1 5 1 0x20 0 0 [mk_tlv 0x01 (bytes32 0xCAFE)]))"
      and qt = 1 and cid = 5 and tid = 1 and h = "0xCAFE" and ts = "[]"]
  by (simp add: qmi_env_init_def s_profile_def start_nw_blocks_def start_nw_credentials_def opt_tlv_def
      WDM_DEFAULT_BUFSIZE_def wds_type_def set_handle_def next_tid_def GetQMUXTransactionId_def
      IpFamilyV4_def)

lemma transact_frame:
  assumes "qmi_transact alloc send qt mt custom env = Some (e, r, env')"
  shows "env' = env\<lparr>TransactionId := TransactionId env', sent := sent env'\<rparr>"
    and "r \<noteq> None \<Longrightarrow> send (sent env') = (e, r)"
proof -
  obtain m t where "ComposeQMUXMsg alloc qt mt custom (TransactionId env) = Some (m, t)"
    using assms by (auto simp: qmi_transact_def bind_eq_Some_conv)
  then show "env' = env\<lparr>TransactionId := TransactionId env', sent := sent env'\<rparr>"
    and "r \<noteq> None \<Longrightarrow> send (sent env') = (e, r)"
    using assms by (cases m; auto simp: qmi_transact_def Let_def split: prod.splits)+
qed

lemma transact_handles:
  assumes "qmi_transact alloc send qt mt custom env = Some (e, r, env')"
  shows "WdsConnectionIPv4Handle env' = WdsConnectionIPv4Handle env"
    and "WdsConnectionIPv6Handle env' = WdsConnectionIPv6Handle env"
    and "s_is_cdma env' = s_is_cdma env" and "s_9x07 env' = s_9x07 env"
  by (subst transact_frame(1) [OF assms], simp)+

text \<open>A failed start: unless the modem answers the request and reports success, both packet data
  handles stay as they were, whatever the response holds and whether or not there is one.\<close>

theorem setup_data_call_failure:
  assumes "requestSetupDataCall alloc send profile family env = Some (r, profile', env')"
    and "\<And>e m. send (sent env') = (e, Some m) \<Longrightarrow> 0 \<le> e \<Longrightarrow> rd16 m 16 \<noteq> Some 0 \<or> rd16 m 18 \<noteq> Some 0"
  shows "WdsConnectionIPv4Handle env' = WdsConnectionIPv4Handle env \<and>
         WdsConnectionIPv6Handle env' = WdsConnectionIPv6Handle env"
proof -
  obtain e rsp env1 where t: "qmi_transact alloc send (wds_type family) 0x20
      (Some (WdsStartNwInterfaceReq (s_is_cdma env) (s_hdr_personality env) (profile\<lparr>curIpFamily := family\<rparr>))) env
      = Some (e, rsp, env1)"
    using assms(1) by (auto simp: requestSetupDataCall_def bind_eq_Some_conv Let_def)
  have "env' = env1"
  proof (cases rsp)
    case None
    then show ?thesis using assms(1) t by (simp add: requestSetupDataCall_def)
  next
    case (Some m)
    then have "send (sent env1) = (e, Some m)" using transact_frame(2) [OF t] by simp
    with assms t Some show ?thesis
      by (auto simp: requestSetupDataCall_def bind_eq_Some_conv set_handle_def Let_def split: if_splits)
  qed
  then show ?thesis using transact_handles [OF t] by simp
qed

theorem setup_data_call_failure_witness:
  "\<exists>env'. requestSetupDataCall (\<lambda>n. True) (\<lambda>h. (0, Some (rsp_frame 1 5 1 0x20 1 14 []))) s_profile 4 qmi_env_init
            = Some (14, s_profile\<lparr>curIpFamily := 4\<rparr>, env') \<and>
          WdsConnectionIPv4Handle env' = 0 \<and> WdsConnectionIPv6Handle env' = 0"
proof -
  let ?send = "\<lambda>h. (0, Some (rsp_frame 1 5 1 0x20 1 14 []))"
  have fits: "13 + length (tlvs_bytes (start_nw_blocks (s_is_cdma qmi_env_init) (s_profile\<lparr>curIpFamily := 4\<rparr>)))
      \<le> WDM_DEFAULT_BUFSIZE"
    by (simp add: start_nw_blocks_def start_nw_credentials_def opt_tlv_def s_profile_def WDM_DEFAULT_BUFSIZE_def
        qmi_env_init_def)
  obtain env' where r: "requestSetupDataCall (\<lambda>n. True) ?send s_profile 4 qmi_env_init
      = Some (14, s_profile\<lparr>curIpFamily := 4\<rparr>, env')"
    unfolding requestSetupDataCall_def Let_def start_nw.transact [OF fits, of "\<lambda>n. True", simplified]
    by (simp add: rsp_frame_result rsp_frame_error with_tlv_absent)
  show ?thesis
    using setup_data_call_failure [OF r] r by (simp add: rsp_frame_result qmi_env_init_def)
qed

text \<open>Stopping a data call: the STOP request goes to the WDS client of the family and names the
  handle the start returned; after a successful response the handle is 0, and while it is 0
  the handler returns 0 and sends nothing.\<close>

theorem deactivate_data_call:
  assumes "\<And>n. alloc n" and "family = IpFamilyV4 \<or> family = IpFamilyV6"
    and "h = (if family = IpFamilyV4 then WdsConnectionIPv4Handle env else WdsConnectionIPv6Handle env)"
    and "req = qmux_frame (wds_type family) 0 0 (next_tid env) 0x21 [mk_tlv 0x01 (bytes32 h)]"
    and "send (sent env @ [req]) = (0, Some (rsp_frame qt cid tid 0x21 0 0 ts))"
  shows "requestDeactivateDefaultPDP alloc send family env =
         Some (0, if h = 0 then env else set_handle family 0 (with_request req env))"
proof (cases "h = 0")
  case True
  then show ?thesis
    using assms(2,3) by (auto simp: requestDeactivateDefaultPDP_def IpFamilyV4_def IpFamilyV6_def)
next
  case False
  have b: "stop_nw_blocks (WdsConnectionIPv4Handle env) (WdsConnectionIPv6Handle env) family
           = [mk_tlv 0x01 (bytes32 h)]"
    by (simp add: stop_nw_blocks_def assms(3))
  show ?thesis
    using False assms
    by (auto simp: requestDeactivateDefaultPDP_def stop_nw.transact [OF TrueI assms(1)] b Let_def
        rsp_check_frame IpFamilyV4_def IpFamilyV6_def)
qed

theorem deactivate_data_call_witness:
  "requestDeactivateDefaultPDP (\<lambda>n. True) (\<lambda>h. (0, Some (rsp_frame 1 5 1 0x21 0 0 []))) 4
     (qmi_env_init\<lparr>WdsConnectionIPv4Handle := 7\<rparr>) =
   Some (0, with_request (qmux_frame 1 0 0 1 0x21 [mk_tlv 0x01 (bytes32 7)]) qmi_env_init)"
  using deactivate_data_call [where alloc = "\<lambda>n. True" and family = 4 and h = 7
      and env = "qmi_env_init\<lparr>WdsConnectionIPv4Handle := 7\<rparr>"
      and req = "qmux_frame 1 0 0 1 0x21 [mk_tlv 0x01 (bytes32 7)]"
      and send = "\<lambda>h. (0, Some (rsp_frame 1 5 1 0x21 0 0 []))" and qt = 1 and cid = 5 and tid = 1 and ts = "[]"]
  by (simp add: IpFamilyV4_def wds_type_def next_tid_def GetQMUXTransactionId_def qmi_env_init_def
      set_handle_def with_request_def)

subsection \<open>State of a data call\<close>

definition srvc_status :: "tlv list \<Rightarrow> byte" where
  "srvc_status ts = (case find_tlv ts 0x01 of
      None \<Rightarrow> QWDS_PKT_DATA_DISCONNECTED
    | Some t \<Rightarrow> if length (TLVValue t) = 2 \<and> TLVValue t ! 1 = 0x01 then QWDS_PKT_DATA_DISCONNECTED
                else TLVValue t ! 0)"

lemma rd_srvc_block:
  assumes "TLVValue t \<noteq> []" and "length (TLVValue t) < 65536"
  shows "do { st \<leftarrow> rd8 (pre @ tlv_bytes t @ ys) (length pre + 3);
              l \<leftarrow> rd16 (pre @ tlv_bytes t @ ys) (length pre + 1);
              if l = 2 then do {
                r \<leftarrow> rd8 (pre @ tlv_bytes t @ ys) (length pre + 4);
                Some (if r = 0x01 then QWDS_PKT_DATA_DISCONNECTED else st) }
              else Some st }
         = Some (if length (TLVValue t) = 2 \<and> TLVValue t ! 1 = 0x01 then QWDS_PKT_DATA_DISCONNECTED
                 else TLVValue t ! 0)"
proof -
  obtain v vs where v: "TLVValue t = v # vs" using assms(1) by (cases "TLVValue t") auto
  have two: "(of_nat (length (TLVValue t)) :: u16) = 2 \<longleftrightarrow> length (TLVValue t) = 2"
    using assms(2) by (simp add: word_unat_eq_iff unat_of_nat_u16)
  have snd: "rd8 (pre @ tlv_bytes t @ ys) (length pre + 4) = Some (TLVValue t ! 1)" if l: "length (TLVValue t) = 2"
    unfolding tlv_bytes_value by (subst rd8_append_right) (use l in \<open>auto simp: rd8_def nth_append\<close>)
  show ?thesis
    using snd two by (simp add: rd8_tlv [OF v] rd16_tlv_length [simplified] v)
qed

text \<open>The state of a data call is read from the modem: with a successful response, \<^verbatim>\<open>requestQueryDataCall\<close>
  reports the status in the packet service block, or disconnected when the block is missing or asks
  for a reconfiguration, and it forgets the handle of the family exactly when the call is down.\<close>

theorem query_data_call:
  assumes "\<And>n. alloc n" and "req = qmux_frame (wds_type family) 0 0 (next_tid env) 0x22 []"
    and "send (sent env @ [req]) = (0, Some (rsp_frame qt cid tid 0x22 0 0 ts))"
    and "7 + length (tlvs_bytes ts) < 65536"
    and "\<And>t. find_tlv ts 0x01 = Some t \<Longrightarrow> TLVValue t \<noteq> []"
  shows "requestQueryDataCall alloc send old family env =
         Some (0, srvc_status ts, if srvc_status ts = QWDS_PKT_DATA_DISCONNECTED
                                  then set_handle family 0 (with_request req env) else with_request req env)"
proof -
  let ?m = "rsp_frame qt cid tid 0x22 0 0 ts"
  let ?f = "\<lambda>p. do { st \<leftarrow> rd8 ?m (p + 3); l \<leftarrow> rd16 ?m (p + 1);
                     if l = 2 then do { r \<leftarrow> rd8 ?m (p + 4);
                                        Some (if r = 0x01 then QWDS_PKT_DATA_DISCONNECTED else st) }
                     else Some st }"
  have "with_tlv ?m 0x01 ?f = Some (map_option (\<lambda>t. if length (TLVValue t) = 2 \<and> TLVValue t ! 1 = 0x01
          then QWDS_PKT_DATA_DISCONNECTED else TLVValue t ! 0) (find_tlv ts 0x01))"
  proof (rule with_tlv_frame [OF assms(4)])
    fix t pre ys assume "find_tlv ts 0x01 = Some t" and m: "?m = pre @ tlv_bytes t @ ys"
    then show "?f (length pre) = Some (if length (TLVValue t) = 2 \<and> TLVValue t ! 1 = 0x01
          then QWDS_PKT_DATA_DISCONNECTED else TLVValue t ! 0)"
      unfolding m by (intro rd_srvc_block) (use assms(4,5) find_tlv_length in \<open>fastforce+\<close>)
  qed simp
  then show ?thesis
    using assms(2,3) unfolding requestQueryDataCall_def
    by (simp add: transact_None [OF assms(1)] Let_def rsp_check_frame srvc_status_def split: option.splits)
qed

theorem query_data_call_witness:
  "requestQueryDataCall (\<lambda>n. True) (\<lambda>h. (0, Some (rsp_frame 1 5 1 0x22 0 0 [mk_tlv 1 [2, 0]]))) 1 4 qmi_env_init
   = Some (0, QWDS_PKT_DATA_CONNECTED, with_request (qmux_frame 1 0 0 1 0x22 []) qmi_env_init)"
  using query_data_call [where alloc = "\<lambda>n. True" and req = "qmux_frame 1 0 0 1 0x22 []" and family = 4
      and env = qmi_env_init and send = "\<lambda>h. (0, Some (rsp_frame 1 5 1 0x22 0 0 [mk_tlv 1 [2, 0]]))"
      and qt = 1 and cid = 5 and tid = 1 and ts = "[mk_tlv 1 [2, 0]]" and old = 1]
  by (simp add: wds_type_def next_tid_def GetQMUXTransactionId_def qmi_env_init_def IpFamilyV4_def
      srvc_status_def)

subsection \<open>Runtime settings\<close>

definition le32_of :: "buf \<Rightarrow> u32" where
  "le32_of v = le32 (v ! 0) (v ! 1) (v ! 2) (v ! 3)"

definition tlv_u32 :: "tlv list \<Rightarrow> byte \<Rightarrow> u32" where
  "tlv_u32 ts ty = (case find_tlv ts ty of None \<Rightarrow> 0 | Some t \<Rightarrow> le32_of (TLVValue t))"

definition ipv4_of_blocks :: "tlv list \<Rightarrow> IPV4_T" where
  "ipv4_of_blocks ts = \<lparr>Address4 = tlv_u32 ts 0x1E, Gateway4 = tlv_u32 ts 0x20, SubnetMask4 = tlv_u32 ts 0x21,
     DnsPrimary4 = tlv_u32 ts 0x15, DnsSecondary4 = tlv_u32 ts 0x16, Mtu4 = tlv_u32 ts 0x29\<rparr>"

text \<open>The other members the response can set: the IPv6 settings and the addresses of the call session control
  functions, by the count in front of them.\<close>

definition ipv6_of_blocks :: "tlv list \<Rightarrow> IPV6_T \<Rightarrow> IPV6_T" where
  "ipv6_of_blocks ts x =
     (let block = (\<lambda>ty old. case find_tlv ts ty of None \<Rightarrow> old | Some t \<Rightarrow> take 16 (TLVValue t));
          prefix = (\<lambda>ty old. case find_tlv ts ty of None \<Rightarrow> old | Some t \<Rightarrow> TLVValue t ! 16)
      in x\<lparr>Address6 := block 0x25 (Address6 x), PrefixLengthIPAddr := prefix 0x25 (PrefixLengthIPAddr x),
           Gateway6 := block 0x26 (Gateway6 x), PrefixLengthGateway := prefix 0x26 (PrefixLengthGateway x),
           DnsPrimary6 := block 0x27 (DnsPrimary6 x), DnsSecondary6 := block 0x28 (DnsSecondary6 x)\<rparr>)"

definition pcscf6_of :: "buf \<Rightarrow> PROFILE_T \<Rightarrow> PROFILE_T" where
  "pcscf6_of v p =
     (if v ! 0 = 1 then p\<lparr>PCSCFIpv6Addr1 := take 16 (drop 1 v)\<rparr>
      else if v ! 0 = 2 then p\<lparr>PCSCFIpv6Addr1 := take 16 (drop 1 v), PCSCFIpv6Addr2 := take 16 (drop 17 v)\<rparr>
      else p)"

definition pcscf4_of :: "buf \<Rightarrow> PROFILE_T \<Rightarrow> PROFILE_T" where
  "pcscf4_of v p =
     (if v ! 0 = 1 then p\<lparr>PCSCFIpv4Addr1 := le32_of (drop 1 v)\<rparr>
      else if v ! 0 = 2 then p\<lparr>PCSCFIpv4Addr1 := le32_of (drop 1 v), PCSCFIpv4Addr2 := le32_of (drop 5 v)\<rparr>
      else p)"

definition pcscf_of_blocks :: "tlv list \<Rightarrow> PROFILE_T \<Rightarrow> PROFILE_T" where
  "pcscf_of_blocks ts p =
     (let p = (case find_tlv ts 0x2E of None \<Rightarrow> p | Some t \<Rightarrow> pcscf6_of (TLVValue t) p)
      in case find_tlv ts 0x23 of None \<Rightarrow> p | Some t \<Rightarrow> pcscf4_of (TLVValue t) p)"

text \<open>A block of the runtime settings has the size of the structure it is read with.\<close>

definition settings_block :: "tlv \<Rightarrow> bool" where
  "settings_block t \<longleftrightarrow>
     (let ty = TLVType t; n = length (TLVValue t); k = unat (TLVValue t ! 0) in
      (ty \<in> {0x15, 0x16, 0x1E, 0x20, 0x21, 0x29} \<longrightarrow> n = 4) \<and> (ty \<in> {0x27, 0x28} \<longrightarrow> n = 16) \<and>
      (ty \<in> {0x25, 0x26} \<longrightarrow> n = 17) \<and> (ty = 0x23 \<longrightarrow> 0 < n \<and> 1 + 4 * k \<le> n) \<and> (ty = 0x2E \<longrightarrow> 0 < n \<and> 1 + 16 * k \<le> n))"

lemma families_differ: "IpFamilyV4 \<noteq> IpFamilyV6"
  by (simp add: IpFamilyV4_def IpFamilyV6_def)

lemma rd32_tlv4:
  assumes "length (TLVValue t) = 4"
  shows "rd32 (pre @ tlv_bytes t @ ys) (length pre + 3) = Some (le32_of (TLVValue t))"
  unfolding tlv_bytes_value
  by (subst rd32_append_right) (use assms in \<open>auto simp: rd32_def rd8_def nth_append le32_of_def numeral_2_eq_2\<close>)

lemma with_tlv_rd32:
  assumes "7 + length (tlvs_bytes ts) < 65536" and "ty \<noteq> 0x02"
    and "\<And>t. find_tlv ts ty = Some t \<Longrightarrow> length (TLVValue t) = 4"
  shows "with_tlv (rsp_frame qt cid tid mt res err ts) ty (\<lambda>p. rd32 (rsp_frame qt cid tid mt res err ts) (p + 3))
         = Some (map_option (\<lambda>t. le32_of (TLVValue t)) (find_tlv ts ty))"
  by (rule with_tlv_frame [OF assms(1,2)]) (use assms(3) in \<open>simp add: rd32_tlv4\<close>)

lemma find_tlv_type: "find_tlv ts ty = Some t \<Longrightarrow> TLVType t = ty"
  by (induction ts) (auto split: if_splits)

lemma find_tlv_in: "find_tlv ts ty = Some t \<Longrightarrow> t \<in> set ts"
  by (induction ts) (auto split: if_splits)

lemma rdn_tlv:
  assumes "k + n \<le> length (TLVValue t)" and "i = length pre + 3 + k"
  shows "rdn (pre @ tlv_bytes t @ ys) i n = Some (take n (drop k (TLVValue t)))"
  using assms unfolding tlv_bytes_value by (auto simp: rdn_def bytes16_def numeral_3_eq_3)

lemma rd8_tlv_at:
  assumes "k < length (TLVValue t)" and "i = length pre + 3 + k"
  shows "rd8 (pre @ tlv_bytes t @ ys) i = Some (TLVValue t ! k)"
  using assms unfolding tlv_bytes_value by (auto simp: rd8_def nth_append)

lemma rd32_tlv_at:
  assumes "k + 4 \<le> length (TLVValue t)" and "i = length pre + 3 + k"
  shows "rd32 (pre @ tlv_bytes t @ ys) i = Some (le32_of (drop k (TLVValue t)))"
  unfolding rd32_def
  using rd8_tlv_at [of k t i pre ys] rd8_tlv_at [of "k + 1" t "i + 1" pre ys] rd8_tlv_at [of "k + 2" t "i + 2" pre ys]
    rd8_tlv_at [of "k + 3" t "i + 3" pre ys] assms
  by (simp add: le32_of_def add.commute)

lemma settings_block_u32:
  assumes "\<forall>t\<in>set ts. settings_block t" and "ty \<in> {0x15, 0x16, 0x1E, 0x20, 0x21, 0x29}" and "find_tlv ts ty = Some t"
  shows "length (TLVValue t) = 4"
  using find_tlv_type [OF assms(3)] find_tlv_in [OF assms(3)] assms(1,2) by (auto simp: settings_block_def Let_def)

lemma with_tlv_settings:
  assumes "7 + length (tlvs_bytes ts) < 65536" and "\<forall>t\<in>set ts. settings_block t" and "ty \<noteq> 0x02"
    and "\<And>t pre ys. settings_block t \<Longrightarrow> TLVType t = ty \<Longrightarrow> m = pre @ tlv_bytes t @ ys \<Longrightarrow> f (length pre) = Some (g t)"
    and "m = rsp_frame qt cid tid 0x2D 0 0 ts"
  shows "with_tlv m ty f = Some (map_option g (find_tlv ts ty))"
  unfolding assms(5) by (rule with_tlv_frame [OF assms(1,3)]) (use assms(2,4,5) find_tlv_type find_tlv_in in blast)

lemma pcscf6_block:
  assumes "settings_block t" and "TLVType t = 0x2E" and m: "m = pre @ tlv_bytes t @ ys"
  shows "do { n \<leftarrow> rd8 m (length pre + 3);
              if n = 1 then do { a \<leftarrow> rdn m (length pre + 4) 16; Some (p\<lparr>PCSCFIpv6Addr1 := a\<rparr>) }
              else if n = 2 then do { a \<leftarrow> rdn m (length pre + 4) 16; b \<leftarrow> rdn m (length pre + 20) 16;
                                      Some (p\<lparr>PCSCFIpv6Addr1 := a, PCSCFIpv6Addr2 := b\<rparr>) }
              else Some p } = Some (pcscf6_of (TLVValue t) p)"
proof -
  have "0 < length (TLVValue t)" "1 + 16 * unat (TLVValue t ! 0) \<le> length (TLVValue t)"
    using assms(1,2) by (simp_all add: settings_block_def Let_def)
  then show ?thesis
    unfolding m pcscf6_of_def
    by (auto simp: rd8_tlv_at [of 0 t] rdn_tlv [of 1 16 t] rdn_tlv [of 17 16 t])
qed

lemma pcscf4_block:
  assumes "settings_block t" and "TLVType t = 0x23" and m: "m = pre @ tlv_bytes t @ ys"
  shows "do { n \<leftarrow> rd8 m (length pre + 3);
              if n = 1 then do { a \<leftarrow> rd32 m (length pre + 4); Some (p\<lparr>PCSCFIpv4Addr1 := a\<rparr>) }
              else if n = 2 then do { a \<leftarrow> rd32 m (length pre + 4); b \<leftarrow> rd32 m (length pre + 8);
                                      Some (p\<lparr>PCSCFIpv4Addr1 := a, PCSCFIpv4Addr2 := b\<rparr>) }
              else Some p } = Some (pcscf4_of (TLVValue t) p)"
proof -
  have "0 < length (TLVValue t)" "1 + 4 * unat (TLVValue t ! 0) \<le> length (TLVValue t)"
    using assms(1,2) by (simp_all add: settings_block_def Let_def)
  then show ?thesis
    unfolding m pcscf4_of_def
    by (auto simp: rd8_tlv_at [of 0 t] rd32_tlv_at [of 1 t] rd32_tlv_at [of 5 t])
qed

lemma pcscf_settings_blocks:
  assumes "7 + length (tlvs_bytes ts) < 65536" and "\<forall>t\<in>set ts. settings_block t"
  shows "pcscf_settings (rsp_frame qt cid tid 0x2D 0 0 ts) p = Some (pcscf_of_blocks ts p)"
proof -
  define m where "m = rsp_frame qt cid tid 0x2D 0 0 ts"
  have six: "with_tlv m 0x2E (\<lambda>i. do {
            n \<leftarrow> rd8 m (i + 3);
            if n = 1 then do { a \<leftarrow> rdn m (i + 4) 16; Some (q\<lparr>PCSCFIpv6Addr1 := a\<rparr>) }
            else if n = 2 then do { a \<leftarrow> rdn m (i + 4) 16; b \<leftarrow> rdn m (i + 20) 16;
                                    Some (q\<lparr>PCSCFIpv6Addr1 := a, PCSCFIpv6Addr2 := b\<rparr>) }
            else Some q }) = Some (map_option (\<lambda>t. pcscf6_of (TLVValue t) q) (find_tlv ts 0x2E))" for q
    by (rule with_tlv_settings [OF assms _ _ m_def]) (simp, rule pcscf6_block)
  have four: "with_tlv m 0x23 (\<lambda>i. do {
            n \<leftarrow> rd8 m (i + 3);
            if n = 1 then do { a \<leftarrow> rd32 m (i + 4); Some (q\<lparr>PCSCFIpv4Addr1 := a\<rparr>) }
            else if n = 2 then do { a \<leftarrow> rd32 m (i + 4); b \<leftarrow> rd32 m (i + 8);
                                    Some (q\<lparr>PCSCFIpv4Addr1 := a, PCSCFIpv4Addr2 := b\<rparr>) }
            else Some q }) = Some (map_option (\<lambda>t. pcscf4_of (TLVValue t) q) (find_tlv ts 0x23))" for q
    by (rule with_tlv_settings [OF assms _ _ m_def]) (simp, rule pcscf4_block)
  show ?thesis
    unfolding pcscf_settings_def m_def [symmetric] six four pcscf_of_blocks_def Let_def
    by (simp split: option.splits)
qed

lemma dns6_block:
  assumes "settings_block t" and "TLVType t = ty" and "ty = 0x27 \<or> ty = 0x28" and m: "m = pre @ tlv_bytes t @ ys"
  shows "rdn m (length pre + 3) 16 = Some (take 16 (TLVValue t))"
proof -
  have "length (TLVValue t) = 16"
    using assms(1-3) unfolding settings_block_def Let_def by blast
  then show ?thesis
    unfolding m by (simp add: rdn_tlv [of 0 16])
qed

lemma addr6_block:
  assumes "settings_block t" and "TLVType t = ty" and "ty = 0x25 \<or> ty = 0x26" and m: "m = pre @ tlv_bytes t @ ys"
  shows "do { a \<leftarrow> rdn m (length pre + 3) 16; l \<leftarrow> rd8 m (length pre + 19); Some (a, l) } =
         Some (take 16 (TLVValue t), TLVValue t ! 16)"
proof -
  have "length (TLVValue t) = 17"
    using assms(1-3) unfolding settings_block_def Let_def by blast
  then show ?thesis
    unfolding m by (simp add: rdn_tlv [of 0 16] rd8_tlv_at [of 16])
qed

lemma ipv6_settings_blocks:
  assumes "7 + length (tlvs_bytes ts) < 65536" and "\<forall>t\<in>set ts. settings_block t"
  shows "ipv6_settings (rsp_frame qt cid tid 0x2D 0 0 ts) x = Some (ipv6_of_blocks ts x)"
proof -
  define m where "m = rsp_frame qt cid tid 0x2D 0 0 ts"
  have a: "with_tlv m ty (\<lambda>p. rdn m (p + 3) 16) = Some (map_option (\<lambda>t. take 16 (TLVValue t)) (find_tlv ts ty))"
    if "ty = 0x27 \<or> ty = 0x28" for ty
    by (rule with_tlv_settings [OF assms _ _ m_def]) (use that in fastforce, rule dns6_block [OF _ _ that])
  have b: "with_tlv m ty (\<lambda>p. do { a \<leftarrow> rdn m (p + 3) 16; l \<leftarrow> rd8 m (p + 19); Some (a, l) }) =
      Some (map_option (\<lambda>t. (take 16 (TLVValue t), TLVValue t ! 16)) (find_tlv ts ty))"
    if "ty = 0x25 \<or> ty = 0x26" for ty
    by (rule with_tlv_settings [OF assms _ _ m_def]) (use that in fastforce, rule addr6_block [OF _ _ that])
  show ?thesis
    unfolding m_def [symmetric] ipv6_settings_def upd_tlv_def a [OF disjI1 [OF refl]] a [OF disjI2 [OF refl]]
      b [OF disjI1 [OF refl]] b [OF disjI2 [OF refl]] ipv6_of_blocks_def Let_def
    by (cases "find_tlv ts 0x25"; cases "find_tlv ts 0x26"; cases "find_tlv ts 0x27"; cases "find_tlv ts 0x28") simp_all
qed

text \<open>C8: The address settings of an IPv4 call: with a handle, memory for the request and a successful runtime
  settings response whose blocks have the sizes of the structures they are read with (\<open>settings_block\<close>),
  \<^verbatim>\<open>requestGetIPAddress\<close> sets every member of the profile's IPv4 settings to the value of its block and to 0
  where the response has none. IPv6 and P-CSCF blocks that come with it set the members they name and
  leave the others alone. Without a handle it clears the IPv4 settings and sends nothing.\<close>

theorem get_ipv4_address:
  assumes "\<And>n. alloc n" and "req = qmux_frame QMUX_TYPE_WDS 0 0 (next_tid env) 0x2D [mk_tlv 0x10 (bytes32 0x6B10)]"
    and "send (sent env @ [req]) = (0, Some (rsp_frame qt cid tid 0x2D 0 0 ts))"
    and "7 + length (tlvs_bytes ts) < 65536" and "\<forall>t\<in>set ts. settings_block t"
  shows "requestGetIPAddress alloc send profile IpFamilyV4 env =
         (if WdsConnectionIPv4Handle env = 0 then Some (0, profile\<lparr>ipv4 := ipv4_zero\<rparr>, env)
          else Some (0, (pcscf_of_blocks ts profile)\<lparr>ipv4 := ipv4_of_blocks ts, ipv6 := ipv6_of_blocks ts (ipv6 profile)\<rparr>,
                     with_request req env))"
proof (cases "WdsConnectionIPv4Handle env = 0")
  case True
  then show ?thesis by (simp add: requestGetIPAddress_def)
next
  case False
  let ?m = "rsp_frame qt cid tid 0x2D 0 0 ts"
  have u32: "with_tlv ?m ty (\<lambda>p. rd32 ?m (p + 3)) = Some (map_option (\<lambda>t. le32_of (TLVValue t)) (find_tlv ts ty))"
    if "ty \<in> {0x15, 0x16, 0x1E, 0x20, 0x21, 0x29}" for ty
    by (rule with_tlv_rd32 [OF assms(4) _ settings_block_u32 [OF assms(5) that]]) (use that in fastforce)
  have v4: "ipv4_settings ?m ipv4_zero = Some ((ipv4_of_blocks ts)\<lparr>Mtu4 := 0\<rparr>)"
    by (simp add: ipv4_settings_def upd_tlv_def u32 ipv4_of_blocks_def tlv_u32_def ipv4_zero_def
        split: option.splits)
  have t: "qmi_transact alloc send (wds_type IpFamilyV4) 0x2D (Some WdsGetRuntimeSettingReq) env
           = Some (0, Some ?m, with_request req env)"
    using assms(2,3) by (simp add: runtime_settings.transact [OF TrueI assms(1)] wds_type_def)
  have pc: "pcscf_of_blocks ts (profile\<lparr>ipv4 := a\<rparr>) = (pcscf_of_blocks ts profile)\<lparr>ipv4 := a\<rparr>"
      "ipv6 (pcscf_of_blocks ts profile) = ipv6 profile" for a
    by (simp_all add: pcscf_of_blocks_def pcscf6_of_def pcscf4_of_def Let_def split: option.splits)
  show ?thesis
    using False families_differ
    by (cases "find_tlv ts 0x29")
       (simp_all add: requestGetIPAddress_def t rsp_check_frame pcscf_settings_blocks [OF assms(4,5)] v4 pc
          ipv6_settings_blocks [OF assms(4,5)] u32 ipv4_of_blocks_def tlv_u32_def)
qed
theorem get_ipv4_address_witness:
  "requestGetIPAddress (\<lambda>n. True)
     (\<lambda>h. (0, Some (rsp_frame 1 5 1 0x2D 0 0 [mk_tlv 0x1E (bytes32 0x0A010203), mk_tlv 0x29 (bytes32 1500),
              mk_tlv 0x23 (1 # bytes32 0x0A000001)])))
     s_profile IpFamilyV4 (qmi_env_init\<lparr>WdsConnectionIPv4Handle := 7\<rparr>) =
   Some (0, s_profile\<lparr>PCSCFIpv4Addr1 := 0x0A000001,
              ipv4 := \<lparr>Address4 = 0x0A010203, Gateway4 = 0, SubnetMask4 = 0, DnsPrimary4 = 0, DnsSecondary4 = 0, Mtu4 = 1500\<rparr>\<rparr>,
         with_request (qmux_frame 1 0 0 1 0x2D [mk_tlv 0x10 (bytes32 0x6B10)])
           (qmi_env_init\<lparr>WdsConnectionIPv4Handle := 7\<rparr>))"
proof -
  let ?ts = "[mk_tlv 0x1E (bytes32 0x0A010203), mk_tlv 0x29 (bytes32 1500), mk_tlv 0x23 (1 # bytes32 0x0A000001)]"
  let ?env = "qmi_env_init\<lparr>WdsConnectionIPv4Handle := 7\<rparr>"
  let ?send = "\<lambda>h. (0, Some (rsp_frame 1 5 1 0x2D 0 0 ?ts))"
  let ?req = "qmux_frame QMUX_TYPE_WDS 0 0 1 0x2D [mk_tlv 0x10 (bytes32 0x6B10)]"
  have "requestGetIPAddress (\<lambda>n. True) ?send s_profile IpFamilyV4 ?env =
         (if WdsConnectionIPv4Handle ?env = 0 then Some (0, s_profile\<lparr>ipv4 := ipv4_zero\<rparr>, ?env)
          else Some (0, (pcscf_of_blocks ?ts s_profile)\<lparr>ipv4 := ipv4_of_blocks ?ts,
                           ipv6 := ipv6_of_blocks ?ts (ipv6 s_profile)\<rparr>, with_request ?req ?env))"
    by (rule get_ipv4_address)
       (auto simp: next_tid_def GetQMUXTransactionId_def qmi_env_init_def settings_block_def Let_def)
  moreover have "pcscf_of_blocks ?ts s_profile = s_profile\<lparr>PCSCFIpv4Addr1 := 0x0A000001\<rparr>"
    by (simp add: pcscf_of_blocks_def pcscf4_of_def le32_of_def bytes32_def le32_def)
  moreover have "ipv6_of_blocks ?ts x = x" for x
    by (simp add: ipv6_of_blocks_def)
  moreover have "ipv4_of_blocks ?ts = \<lparr>Address4 = 0x0A010203, Gateway4 = 0, SubnetMask4 = 0, DnsPrimary4 = 0, DnsSecondary4 = 0,
      Mtu4 = 1500\<rparr>"
    by (simp add: ipv4_of_blocks_def tlv_u32_def le32_of_def bytes32_def le32_def)
  ultimately show ?thesis by simp
qed

subsection \<open>SIM status\<close>

text \<open>A SIM whose PIN is permanently blocked: the card state block is read correctly, but the status
  \<^verbatim>\<open>SIM_BAD\<close> has no entry in the table of names, so that the handler reads past the table when it
  logs the status.\<close>

theorem sim_bad_reads_out_of_bounds:
  assumes "\<And>n. alloc n" and "s_9x07 env"
    and "send (sent env @ [qmux_frame QMUX_TYPE_UIM 0 0 (next_tid env) 0x2F []]) = (0, Some m)"
    and "qmi_rsp_check_and_return 0 (Some m) = Some (Inr m)"
    and "card_state m = Some (0x01, QMI_PIN_STATUS_PERM_BLOCKED)"
  shows "requestGetSIMStatus alloc send s env = None"
  using assms
  by (simp add: requestGetSIMStatus_def transact_None [OF assms(1)] Let_def uim_sim_status_def pin_status_defs
      log_SIM_Status_def SIM_Status_String_def)

text \<open>Every other card state gives a status: a response that reports success and whose card state can
  be read is mapped to ready exactly when the card is present and its PIN is verified, disabled
  or not initialised, to PIN or PUK entry when it is locked, and to absent otherwise.\<close>

theorem sim_status_of_card:
  assumes "\<And>n. alloc n" and "s_9x07 env" and "req = qmux_frame QMUX_TYPE_UIM 0 0 (next_tid env) 0x2F []"
    and "send (sent env @ [req]) = (0, Some m)" and "qmi_rsp_check_and_return 0 (Some m) = Some (Inr m)"
    and "card_state m = Some (cs, pin)" and "cs \<noteq> 0x01 \<or> pin \<noteq> QMI_PIN_STATUS_PERM_BLOCKED"
  shows "requestGetSIMStatus alloc send s env =
         Some (0, if cs \<noteq> 0x01 then SIM_ABSENT
                  else if pin = QMI_PIN_STATUS_NOT_VERIF then SIM_PIN
                  else if pin = QMI_PIN_STATUS_BLOCKED then SIM_PUK
                  else if pin = QMI_PIN_STATUS_NOT_INIT \<or> pin = QMI_PIN_STATUS_VERIFIED \<or> pin = QMI_PIN_STATUS_DISABLED
                  then SIM_READY else SIM_ABSENT, with_request req env)"
  using assms
  by (simp add: requestGetSIMStatus_def transact_None [OF assms(1)] Let_def uim_sim_status_def pin_status_defs
      log_SIM_Status_def SIM_Status_String_def)

text \<open>A card status response: card present, no application id, the state of its PIN last.\<close>

definition sample_card_response :: "byte \<Rightarrow> buf" where
  "sample_card_response pin =
     [1, 47, 0, 0x80, 0x0B, 2, 2, 1, 0, 0x2F, 0, 35, 0, 2, 4, 0, 0, 0, 0, 0, 0x10, 25, 0]
     @ [0, 0, 0, 0, 0, 0, 0, 0, 1, 1, 0, 0, 0, 0, 1, 0, 0, 0, 0, 0, 0, 0, 0, 0, pin]"

lemma sample_card_state: "card_state (sample_card_response 5) = Some (1, 5)"
  "card_state (sample_card_response 2) = Some (1, 2)"
  by code_simp+

lemma sample_card_ok: "qmi_rsp_check_and_return 0 (Some (sample_card_response pin)) = Some (Inr (sample_card_response pin))"
  by (simp add: qmi_rsp_check_and_return_def sample_card_response_def rd16_def rd8_def le16_def)

theorem sim_bad_reads_out_of_bounds_witness:
  "requestGetSIMStatus (\<lambda>n. True) (\<lambda>h. (0, Some (sample_card_response 5))) SIM_ABSENT qmi_env_init = None"
  by (rule sim_bad_reads_out_of_bounds [where m = "sample_card_response 5"])
     (simp_all add: sample_card_ok sample_card_state pin_status_defs qmi_env_init_def)

theorem sim_status_of_card_witness:
  "requestGetSIMStatus (\<lambda>n. True) (\<lambda>h. (0, Some (sample_card_response 2))) SIM_ABSENT qmi_env_init
   = Some (0, SIM_READY, with_request (qmux_frame QMUX_TYPE_UIM 0 0 (next_tid qmi_env_init) 0x2F []) qmi_env_init)"
  using sim_status_of_card [where alloc = "\<lambda>n. True" and env = qmi_env_init and m = "sample_card_response 2"
      and req = "qmux_frame QMUX_TYPE_UIM 0 0 (next_tid qmi_env_init) 0x2F []" and cs = 1 and pin = 2
      and send = "\<lambda>h. (0, Some (sample_card_response 2))" and s = SIM_ABSENT]
  by (simp add: sample_card_ok sample_card_state pin_status_defs qmi_env_init_def)

subsection \<open>Reading the profile\<close>

text \<open>\<^verbatim>\<open>requestGetProfile\<close> dereferences the response to its first request before it checks it: when the
  send times out or fails, so that there is none, it reads through a null pointer.\<close>

theorem get_profile_without_response:
  assumes "\<And>h. snd (send h) = None" and "pdp profile \<noteq> 0"
  shows "requestGetProfile alloc send (Suc fuel) profile env = None"
proof -
  have "qmi_transact alloc send qt mt custom env = Some (e, r, env') \<Longrightarrow> r = None" for qt mt custom e r env'
    using transact_frame(2) assms(1) by (metis snd_conv)
  then show ?thesis
    using assms(2) by (fastforce simp: requestGetProfile_def Let_def Option.bind_eq_None_conv split: prod.splits)
qed

theorem get_profile_without_response_witness:
  "requestGetProfile (\<lambda>n. True) (\<lambda>h. (ETIMEDOUT, None)) 1 (s_profile\<lparr>pdp := 1\<rparr>) qmi_env_init = None"
  using get_profile_without_response [of "\<lambda>h. (ETIMEDOUT, None)" "s_profile\<lparr>pdp := 1\<rparr>" "\<lambda>n. True" 0 qmi_env_init]
  by (simp add: s_profile_def)

end
