(* ===== verification/Net_Config.thy ===== *)
theory Net_Config
  imports Profile
begin

text \<open>
  Configuration of the network interface (\<^verbatim>\<open>udhcpc.c\<close>, \<^verbatim>\<open>util.c\<close>, \<^verbatim>\<open>qmap_bridge_mode.c\<close>): addresses as text, the shell commands
  that set them, \<^verbatim>\<open>/etc/resolv.conf\<close>, and \<^verbatim>\<open>udhcpc_start\<close> and \<^verbatim>\<open>udhcpc_stop\<close>. What the program does to the
  system is a trace of operations; what it reads from the system is a parameter that may depend on the trace so far.
\<close>

subsection \<open>Text\<close>

fun dec_of :: "nat \<Rightarrow> cstr" where
  "dec_of n = (if n < 10 then [of_nat (48 + n)] else dec_of (n div 10) @ [of_nat (48 + n mod 10)])"

declare dec_of.simps [simp del]

definition hex_digit :: "nat \<Rightarrow> byte" where
  "hex_digit n = of_nat (if n < 10 then 48 + n else 87 + n)"

fun hex_of :: "nat \<Rightarrow> cstr" where
  "hex_of n = (if n < 16 then [hex_digit n] else hex_of (n div 16) @ [hex_digit (n mod 16)])"

declare hex_of.simps [simp del]

text \<open>\<^verbatim>\<open>%d\<close> of a C \<^verbatim>\<open>int\<close>.\<close>

definition int_of :: "int \<Rightarrow> cstr" where
  "int_of i = (if i < 0 then [45] @ dec_of (nat (- i)) else dec_of (nat i))"

text \<open>\<^verbatim>\<open>snprintf\<close> into a buffer of \<open>n\<close> bytes keeps \<open>n - 1\<close> characters.\<close>

definition snprintf :: "nat \<Rightarrow> cstr \<Rightarrow> cstr" where
  "snprintf n s = take (n - 1) s"

fun c_strstr :: "cstr \<Rightarrow> cstr \<Rightarrow> bool" where
  "c_strstr [] n \<longleftrightarrow> n = []"
| "c_strstr (c # cs) n \<longleftrightarrow> take (length n) (c # cs) = n \<or> c_strstr cs n"

text \<open>\<^verbatim>\<open>no_trunc_strncpy\<close>: up to \<open>dest_size\<close> characters and then the terminator, which may lie behind them.\<close>

definition no_trunc_strncpy :: "buf \<Rightarrow> cstr \<Rightarrow> nat \<Rightarrow> buf access" where
  "no_trunc_strncpy dest src dest_size = wr dest 0 (take dest_size src @ [0])"

subsection \<open>Addresses\<close>

definition qmi2addr :: "u32 \<Rightarrow> u32" where
  "qmi2addr x = drop_bit 24 x OR (drop_bit 8 x AND 0xff00) OR (push_bit 8 x AND 0xff0000) OR push_bit 24 x"

text \<open>The bytes of a word in memory, least significant first.\<close>

definition ipv4Str :: "u32 \<Rightarrow> cstr" where
  "ipv4Str a = (let ip = bytes32 a in snprintf 16
     (dec_of (unat (ip ! 3)) @ [46] @ dec_of (unat (ip ! 2)) @ [46] @ dec_of (unat (ip ! 1)) @ [46] @ dec_of (unat (ip ! 0))))"

definition ip_group :: "buf \<Rightarrow> nat \<Rightarrow> cstr" where
  "ip_group a i = hex_of (256 * unat (a ! (2 * i)) + unat (a ! (2 * i + 1)))"

definition ipv6Str :: "buf \<Rightarrow> cstr" where
  "ipv6Str a = snprintf 64 (ip_group a 0 @ [58] @ ip_group a 1 @ [58] @ ip_group a 2 @ [58] @ ip_group a 3 @ [58]
     @ ip_group a 4 @ [58] @ ip_group a 5 @ [58] @ ip_group a 6 @ [58] @ ip_group a 7)"

subsection \<open>The system\<close>

text \<open>\<open>CreateVnd\<close> asks the kernel for a multiplexed interface, \<open>Mknod\<close> makes a device node and \<open>UsbDriver\<close> attaches
  (\<open>True\<close>) or detaches the driver of a USB interface.\<close>

datatype net_op = Shell cstr | SetMtu cstr u32 | WriteFile cstr buf
  | CreateVnd cstr cstr int int | Mknod cstr int | UsbDriver cstr int bool

text \<open>A file is missing (\<^verbatim>\<open>ENOENT\<close>), exists but may not be read, or has a content.\<close>

datatype file_state = Missing | Denied | Content buf

record net_os =
  can_exec :: "cstr \<Rightarrow> bool"
  sys_file :: "net_op list \<Rightarrow> cstr \<Rightarrow> file_state"
  if_addr :: "net_op list \<Rightarrow> cstr \<Rightarrow> u32 option"
  if_mtu :: "net_op list \<Rightarrow> cstr \<Rightarrow> u32 option"
  if_up :: "net_op list \<Rightarrow> cstr \<Rightarrow> bool"
  can_write :: "cstr \<Rightarrow> bool"
  route_dels :: nat

definition ql_system :: "cstr \<Rightarrow> net_op list \<Rightarrow> net_op list" where
  "ql_system cmd t = t @ [Shell (snprintf 128 cmd)]"

definition ifc_set_state :: "net_os \<Rightarrow> cstr \<Rightarrow> bool \<Rightarrow> net_op list \<Rightarrow> net_op list" where
  "ifc_set_state os ifname state t =
     (let updown = ascii (if state then ''up'' else ''down'')
      in if can_exec os (ascii ''/sbin/ip'')
         then ql_system (ascii ''ip link set dev '' @ ifname @ ascii '' '' @ updown) t
         else ql_system (ascii ''ifconfig '' @ ifname @ ascii '' '' @ updown) t)"

definition ql_set_mtu :: "net_os \<Rightarrow> cstr \<Rightarrow> u32 \<Rightarrow> net_op list \<Rightarrow> net_op list" where
  "ql_set_mtu os ifname mtu t =
     (case if_mtu os t ifname of
        None \<Rightarrow> t
      | Some m \<Rightarrow> if m \<noteq> mtu then t @ [SetMtu ifname mtu] else t)"

definition ifc_get_addr :: "net_os \<Rightarrow> cstr \<Rightarrow> net_op list \<Rightarrow> u32" where
  "ifc_get_addr os ifname t = (case if_addr os t ifname of None \<Rightarrow> 0 | Some a \<Rightarrow> a)"

definition ql_netcard_ipv4_address_check :: "net_os \<Rightarrow> cstr \<Rightarrow> u32 \<Rightarrow> net_op list \<Rightarrow> bool" where
  "ql_netcard_ipv4_address_check os ifname ip t \<longleftrightarrow> ifc_get_addr os ifname t = ip"

definition ql_raw_ip_mode_check :: "net_os \<Rightarrow> cstr \<Rightarrow> u32 \<Rightarrow> net_op list \<Rightarrow> bool \<times> net_op list" where
  "ql_raw_ip_mode_check os ifname ip t =
     (if ql_netcard_ipv4_address_check os ifname (qmi2addr ip) t then (False, t)
      else (let raw_ip = snprintf 128 (ascii ''/sys/class/net/'' @ ifname @ ascii ''/qmi/raw_ip'')
            in case sys_file os t raw_ip of
                 Content c \<Rightarrow>
                   if c \<noteq> [] \<and> (c ! 0 = 48 \<or> c ! 0 = 78)
                   then (let t = ifc_set_state os ifname False t;
                             t = t @ [WriteFile raw_ip [89, (if 1 < length c then c ! 1 else 0)]]
                         in (True, ifc_set_state os ifname True t))
                   else (False, t)
               | _ \<Rightarrow> (False, t)))"

text \<open>The state written to the driver; what lies behind the terminator in the buffer of 128 bytes is not recorded.\<close>

definition ql_set_driver_link_state :: "net_os \<Rightarrow> PROFILE_T \<Rightarrow> bool \<Rightarrow> net_op list \<Rightarrow> net_op list" where
  "ql_set_driver_link_state os profile link_state t =
     (let link_file = snprintf 128 (ascii ''/sys/class/net/'' @ usbnet_adapter profile @ ascii ''/link_state'')
      in case sys_file os t link_file of
           Content _ \<Rightarrow>
             (let new_state = (if qmap_mode profile \<le> 1 then of_bool link_state
                               else (if link_state then 0 else 0x80) + (muxid profile AND 0x7F));
                  t = t @ [WriteFile link_file (int_of new_state @ [10])]
              in if \<not> link_state \<and> qmapnet_adapter profile \<noteq> [] \<and> qmapnet_adapter profile \<noteq> usbnet_adapter profile
                 then (case sys_file os t link_file of
                         Content c \<Rightarrow>
                           if 1 < length c \<and> (take 2 c = [48, 10] \<or> take 4 c = [48, 120, 48, 10] \<or> take 4 c = [48, 88, 48, 10])
                           then ifc_set_state os (usbnet_adapter profile) False t else t
                       | _ \<Rightarrow> t)
                 else t)
         | _ \<Rightarrow> t)"

subsection \<open>Addresses and routes\<close>

text \<open>A shift by the width of the type is undefined: a prefix of 0 without \<^verbatim>\<open>/sbin/ip\<close> is a fault.\<close>

definition prefix_mask :: "nat \<Rightarrow> u32 access" where
  "prefix_mask prefix = (if 1 \<le> prefix \<and> prefix \<le> 32
     then Some (push_bit (32 - prefix) (drop_bit (32 - prefix) (- 1))) else None)"

definition update_ipv4_address ::
  "net_os \<Rightarrow> cstr \<Rightarrow> cstr \<Rightarrow> cstr \<Rightarrow> nat \<Rightarrow> net_op list \<Rightarrow> net_op list access" where
  "update_ipv4_address os ifname ip gw prefix t =
     (if can_exec os (ascii ''/sbin/ip'')
      then Some (let t = ql_system (ascii ''ip -4 address flush dev '' @ ifname) t;
                     t = ql_system (ascii ''ip -4 address add '' @ ip @ ascii ''/'' @ dec_of prefix @ ascii '' dev '' @ ifname) t
                 in ql_system (ascii ''ip -4 route add default via '' @ gw @ ascii '' dev '' @ ifname) t)
      else do {
        n \<leftarrow> prefix_mask prefix;
        let t = ql_system (ascii ''ifconfig '' @ ifname @ ascii '' '' @ ip @ ascii '' netmask '' @ ipv4Str n) t;
        let t = t @ replicate (route_dels os + 1) (Shell (snprintf 128 (ascii ''route del default dev '' @ ifname)));
        Some (ql_system (ascii ''route add default gw '' @ gw @ ascii '' dev '' @ ifname) t) })"

definition update_ipv6_address :: "net_os \<Rightarrow> cstr \<Rightarrow> cstr \<Rightarrow> nat \<Rightarrow> net_op list \<Rightarrow> net_op list" where
  "update_ipv6_address os ifname ip prefix t =
     (if can_exec os (ascii ''/sbin/ip'')
      then (let t = ql_system (ascii ''ip -6 address flush dev '' @ ifname) t;
                t = ql_system (ascii ''ip -6 address add '' @ ip @ ascii ''/'' @ dec_of prefix @ ascii '' dev '' @ ifname) t
            in ql_system (ascii ''ip -6 route add default dev '' @ ifname) t)
      else (let t = ql_system (ascii ''ifconfig '' @ ifname @ ascii '' '' @ ip @ ascii ''/'' @ dec_of prefix) t
            in ql_system (ascii ''route -A inet6 add default dev '' @ ifname) t))"

definition mask_bits :: "u32 \<Rightarrow> nat" where
  "mask_bits m = length (filter (\<lambda>n. m AND push_bit n 1 \<noteq> 0) [0..<32])"

subsection \<open>Name servers\<close>

text \<open>\<^verbatim>\<open>fgets\<close> with room for \<open>n\<close> characters: up to and including the next newline.\<close>

fun fgets_split :: "nat \<Rightarrow> buf \<Rightarrow> buf \<times> buf" where
  "fgets_split 0 bs = ([], bs)"
| "fgets_split (Suc n) [] = ([], [])"
| "fgets_split (Suc n) (c # cs) =
     (if c = 10 then ([c], cs) else (let (l, r) = fgets_split n cs in (c # l, r)))"

text \<open>A trailing newline is cut off, but not the only character of a line.\<close>

definition chomp :: "cstr \<Rightarrow> cstr" where
  "chomp l = (if 1 < length l \<and> last l = 10 then butlast l else l)"

lemma fgets_split_rest: "0 < n \<Longrightarrow> bs \<noteq> [] \<Longrightarrow> length (snd (fgets_split n bs)) < length bs"
proof (induction n bs rule: fgets_split.induct)
  case (3 n c cs)
  then show ?case by (cases n; cases cs) (auto simp: case_prod_unfold Let_def less_Suc_eq_le intro: less_imp_le)
qed auto

text \<open>The lines kept, at most 16 in all, and whether a line with the tag was met.\<close>

function resolv_read :: "cstr \<Rightarrow> nat \<Rightarrow> bool \<Rightarrow> buf \<Rightarrow> cstr list \<times> bool" where
  "resolv_read tag i hit bs =
     (if bs = [] then ([], hit)
      else (let l = fst (fgets_split 254 bs); r = snd (fgets_split 254 bs); line = chomp (cstr_of l)
            in if c_strstr line tag then resolv_read tag i True r
               else if i + 1 = 16 then ([line], hit)
               else (case resolv_read tag (i + 1) hit r of (ls, h) \<Rightarrow> (line # ls, h))))"
  by pat_completeness auto
termination
  by (relation "measure (\<lambda>(tag, i, hit, bs). length bs)") (auto intro: fgets_split_rest)

declare resolv_read.simps [simp del]

definition nameserver_line :: "cstr \<Rightarrow> cstr \<Rightarrow> cstr" where
  "nameserver_line tag dns = ascii ''nameserver '' @ dns @ ascii '' '' @ tag"

definition dns_tag :: "nat \<Rightarrow> cstr \<Rightarrow> cstr" where
  "dns_tag ipver ifname = snprintf 64 (ascii ''# IPV'' @ dec_of ipver @ ascii '' '' @ ifname)"

definition text_file :: "cstr list \<Rightarrow> buf" where
  "text_file ls = concat (map (\<lambda>l. l @ [10]) ls)"

definition resolv_conf :: cstr where "resolv_conf = ascii ''/etc/resolv.conf''"

definition dns_list :: "cstr option \<Rightarrow> cstr option \<Rightarrow> cstr list" where
  "dns_list dns1 dns2 = (case dns1 of None \<Rightarrow> [] | Some d \<Rightarrow> [d]) @ (case dns2 of None \<Rightarrow> [] | Some d \<Rightarrow> [d])"

definition update_resolv_conf ::
  "net_os \<Rightarrow> nat \<Rightarrow> cstr \<Rightarrow> cstr option \<Rightarrow> cstr option \<Rightarrow> net_op list \<Rightarrow> net_op list" where
  "update_resolv_conf os ipver ifname dns1 dns2 t =
     (let tag = dns_tag ipver ifname
      in case sys_file os t resolv_conf of
           Denied \<Rightarrow> t
         | st \<Rightarrow>
             (let (dns_info, dns_match) = (case st of Content c \<Rightarrow> resolv_read tag 0 False c | _ \<Rightarrow> ([], False))
              in if dns1 = None \<and> \<not> dns_match \<or> \<not> can_write os resolv_conf then t
                 else t @ [WriteFile resolv_conf
                   (text_file (map (nameserver_line tag) (dns_list dns1 dns2) @ dns_info))]))"

subsection \<open>Static configuration from the settings of the modem\<close>

text \<open>The byte \<open>Address[0]\<close> of an IPv6 address decides whether it is set.\<close>

definition ipv6_set :: "IPV6_T \<Rightarrow> bool" where
  "ipv6_set i \<longleftrightarrow> Address6 i ! 0 \<noteq> 0 \<and> PrefixLengthIPAddr i \<noteq> 0"

definition update_ipv4_by_qmi :: "net_os \<Rightarrow> cstr \<Rightarrow> IPV4_T \<Rightarrow> net_op list \<Rightarrow> net_op list access" where
  "update_ipv4_by_qmi os ifname i t =
     (if Address4 i = 0 then Some t
      else do {
        t \<leftarrow> update_ipv4_address os ifname (ipv4Str (Address4 i)) (ipv4Str (Gateway4 i)) (mask_bits (SubnetMask4 i)) t;
        Some (if DnsPrimary4 i = 0 then t
              else update_resolv_conf os 4 ifname (Some (ipv4Str (DnsPrimary4 i)))
                     (Some (ipv4Str (if DnsSecondary4 i \<noteq> 0 then DnsSecondary4 i else DnsPrimary4 i))) t) })"

definition update_ipv6_by_qmi :: "net_os \<Rightarrow> cstr \<Rightarrow> IPV6_T \<Rightarrow> net_op list \<Rightarrow> net_op list" where
  "update_ipv6_by_qmi os ifname i t =
     (if \<not> ipv6_set i then t
      else (let t = update_ipv6_address os ifname (ipv6Str (Address6 i)) (unat (PrefixLengthIPAddr i)) t
            in if DnsPrimary6 i ! 0 = 0 then t
               else update_resolv_conf os 6 ifname (Some (ipv6Str (DnsPrimary6 i)))
                      (Some (ipv6Str (if DnsSecondary6 i ! 0 \<noteq> 0 then DnsSecondary6 i else DnsPrimary6 i))) t))"

definition update_ip_address_by_qmi ::
  "net_os \<Rightarrow> cstr \<Rightarrow> IPV4_T option \<Rightarrow> IPV6_T option \<Rightarrow> net_op list \<Rightarrow> net_op list access" where
  "update_ip_address_by_qmi os ifname i4 i6 t = do {
     t \<leftarrow> (case i4 of None \<Rightarrow> Some t | Some i \<Rightarrow> update_ipv4_by_qmi os ifname i t);
     Some (case i6 of None \<Rightarrow> t | Some i \<Rightarrow> update_ipv6_by_qmi os ifname i t) }"

subsection \<open>Bridge mode\<close>

text \<open>\<^verbatim>\<open>ql_fread\<close>: the number of bytes and the buffer of \<open>len\<close> bytes, which was cleared before.\<close>

definition ql_fread :: "net_os \<Rightarrow> net_op list \<Rightarrow> cstr \<Rightarrow> nat \<Rightarrow> nat \<times> buf" where
  "ql_fread os t filename len =
     (case sys_file os t filename of
        Content c \<Rightarrow> (length (take len c), take len c @ replicate (len - length c) 0)
      | _ \<Rightarrow> (0, replicate len 0))"

definition ql_fwrite :: "net_os \<Rightarrow> cstr \<Rightarrow> buf \<Rightarrow> net_op list \<Rightarrow> net_op list" where
  "ql_fwrite os filename b t = (if can_write os filename then t @ [WriteFile filename b] else t)"

text \<open>Whether the driver bridges the interface; then the address is written to the driver and not set here.\<close>

definition ql_bridge_mode_detect :: "net_os \<Rightarrow> PROFILE_T \<Rightarrow> net_op list \<Rightarrow> bool \<times> net_op list" where
  "ql_bridge_mode_detect os profile t =
     (let ifname = (if qmapnet_adapter profile \<noteq> [] then qmapnet_adapter profile else usbnet_adapter profile);
          net = ascii ''/sys/class/net/'' @ ifname; drv = ascii ''/sys/module/'' @ driver_name profile @ ascii ''/parameters'';
          paths = (\<lambda>d. (snprintf 128 (d @ ascii ''/bridge_mode''), snprintf 128 (d @ ascii ''/bridge_ipv4'')));
          found = (case sys_file os t (snd (paths net)) of
                     Content _ \<Rightarrow> Some (paths net)
                   | Denied \<Rightarrow> None
                   | Missing \<Rightarrow> (case sys_file os t (fst (paths drv)) of Content _ \<Rightarrow> Some (paths drv) | _ \<Rightarrow> None))
      in case found of
           None \<Rightarrow> (False, t)
         | Some (bridge_mode, bridge_ipv4) \<Rightarrow>
             (let (n, c) = ql_fread os t bridge_mode 64
              in if n = 0 \<or> c ! 0 = 48 then (False, t)
                 else (let a = ascii ''0x'' @ hex_of (unat (Address4 (ipv4 profile)));
                           a = (if c_strstr bridge_ipv4 (ascii ''/sys/class/net/'') \<or> qmap_mode profile = 0 \<or> qmap_mode profile = 1
                                then a else a @ ascii '':'' @ int_of (muxid profile))
                       in (True, ql_fwrite os bridge_ipv4 (snprintf 128 a) t))))"

subsection \<open>Starting and stopping\<close>

definition net_ifname :: "PROFILE_T \<Rightarrow> cstr" where
  "net_ifname profile = (if qmapnet_adapter profile \<noteq> [] then qmapnet_adapter profile else usbnet_adapter profile)"

definition udhcpc_cmd :: "cstr \<Rightarrow> cstr" where
  "udhcpc_cmd ifname = snprintf 128 (ascii ''busybox udhcpc -f -n -q -t 5 -i '' @ ifname)"

text \<open>The interface is brought up: first the link state of the driver, then the interfaces.\<close>

definition udhcpc_link_up :: "net_os \<Rightarrow> PROFILE_T \<Rightarrow> net_op list \<Rightarrow> net_op list" where
  "udhcpc_link_up os profile t =
     (let ifname = net_ifname profile;
          t = ql_set_driver_link_state os profile True t;
          t = (if rawIP profile \<noteq> 0 \<and> Address4 (ipv4 profile) \<noteq> 0 \<and> Mtu4 (ipv4 profile) \<noteq> 0
               then ql_set_mtu os ifname (Mtu4 (ipv4 profile)) t else t);
          t = (if ifname \<noteq> usbnet_adapter profile
               then (let t = ifc_set_state os (usbnet_adapter profile) True t
                     in if if_up os t ifname then ifc_set_state os ifname False t else t)
               else t)
      in ifc_set_state os ifname True t)"

text \<open>IPv4: set from the settings of the modem, or checked against what DHCP has set.\<close>

definition udhcpc_ipv4 :: "net_os \<Rightarrow> PROFILE_T \<Rightarrow> net_op list \<Rightarrow> (PROFILE_T \<times> net_op list) access" where
  "udhcpc_ipv4 os profile t =
     (let ifname = net_ifname profile in
      if Address4 (ipv4 profile) = 0 then Some (profile, t)
      else if no_dhcp profile \<or> request_ops profile = Some mbim_request_ops
      then do { t \<leftarrow> update_ip_address_by_qmi os ifname (Some (ipv4 profile)) None t; Some (profile, t) }
      else (let profile = (if request_ops profile = Some atc_request_ops
                           then profile\<lparr>udhcpc_ip := ifc_get_addr os ifname t\<rparr> else profile)
            in if request_ops profile \<noteq> Some qmi_request_ops then Some (profile, t)
               else do {
                 let (mode_change, t) = ql_raw_ip_mode_check os ifname (Address4 (ipv4 profile)) t;
                 let t = (if mode_change then t @ [Shell (udhcpc_cmd ifname)] else t);
                 t \<leftarrow> (if \<not> ql_netcard_ipv4_address_check os ifname (qmi2addr (Address4 (ipv4 profile))) t
                       then update_ip_address_by_qmi os ifname (Some (ipv4 profile)) None t else Some t);
                 Some (profile, t @ [Shell (snprintf 128 (ascii ''route -n | grep '' @ ifname
                         @ ascii '' | awk '' @ [39] @ ascii ''{print $1}'' @ [39] @ ascii '' | grep 0.0.0.0''))]) }))"

definition udhcpc_ipv6 :: "net_os \<Rightarrow> PROFILE_T \<Rightarrow> net_op list \<Rightarrow> net_op list" where
  "udhcpc_ipv6 os profile t =
     (let ifname = net_ifname profile; i = ipv6 profile in
      if \<not> ipv6_set i then t
      else (let t = update_ipv6_by_qmi os ifname i t in
            if DnsPrimary6 i ! 0 \<noteq> 0 \<or> DnsSecondary6 i ! 0 \<noteq> 0
            then update_resolv_conf os 6 ifname
                   (if DnsPrimary6 i ! 0 \<noteq> 0 then Some (ipv6Str (DnsPrimary6 i)) else None)
                   (if DnsSecondary6 i ! 0 \<noteq> 0 then Some (ipv6Str (DnsSecondary6 i)) else None) t
            else t))"

definition udhcpc_start :: "net_os \<Rightarrow> PROFILE_T \<Rightarrow> net_op list \<Rightarrow> (PROFILE_T \<times> net_op list) access" where
  "udhcpc_start os profile t =
     (let (bridged, t) = ql_bridge_mode_detect os profile (udhcpc_link_up os profile t)
      in if bridged then Some (profile, t)
         else do { (profile, t) \<leftarrow> udhcpc_ipv4 os profile t; Some (profile, udhcpc_ipv6 os profile t) })"

definition udhcpc_stop :: "net_os \<Rightarrow> PROFILE_T \<Rightarrow> net_op list \<Rightarrow> PROFILE_T \<times> net_op list" where
  "udhcpc_stop os profile t =
     (let t = ql_set_driver_link_state os profile False t; ifname = net_ifname profile;
          t = ql_system (if can_exec os (ascii ''/sbin/ip'') then ascii ''ip addr flush dev '' @ ifname
                         else ascii ''ifconfig '' @ ifname @ ascii '' 0.0.0.0'') t
      in (profile\<lparr>udhcpc_ip := 0\<rparr>, ifc_set_state os ifname False t))"

end
