(* ===== verification/Conn_Process.thy ===== *)
theory Conn_Process
  imports Net_Config
begin

text \<open>
  The process side of \<^verbatim>\<open>main.c\<close>: the command line, the search for other instances under
  \<^verbatim>\<open>/proc\<close> and the signals sent to them. \<^verbatim>\<open>/proc\<close> is a parameter: a list of directory entries
  with the targets of their links. A terminator stored behind an array is \<open>None\<close>.
\<close>

subsection \<open>Other instances on the same channel\<close>

record proc_entry =
  pe_name :: cstr
  pe_exe :: "cstr option"
  pe_fds :: "cstr option list"
  pe_alive :: "nat \<Rightarrow> bool"

definition MAX_PATH :: nat where "MAX_PATH = 256"

text \<open>\<^verbatim>\<open>linksize = readlink(.., filename, MAX_PATH); if (linksize <= 0) ..; filename[linksize] = 0;\<close>
  gives the string, \<open>None\<close> for a failed call or an empty link.\<close>

definition read_link :: "cstr option \<Rightarrow> cstr option access" where
  "read_link l =
     (case l of
        None \<Rightarrow> Some None
      | Some t \<Rightarrow> if t = [] then Some None
                  else if length (take MAX_PATH t) < MAX_PATH then Some (Some (cstr_of t)) else None)"

definition is_same_linkfile :: "cstr \<Rightarrow> cstr option \<Rightarrow> nat access" where
  "is_same_linkfile channel l = do {
     f \<leftarrow> read_link l;
     Some (if f = Some channel then 1 else 0) }"

text \<open>\<^verbatim>\<open>ls_dir\<close> adds the results of the function for the entries of a directory.\<close>

fun ls_dir :: "('e \<Rightarrow> nat access) \<Rightarrow> 'e list \<Rightarrow> nat access" where
  "ls_dir match [] = Some 0"
| "ls_dir match (e # es) = do { n \<leftarrow> match e; m \<leftarrow> ls_dir match es; Some (n + m) }"

text \<open>The signals sent to one process: \<open>pe_alive k\<close> is the result of the \<open>k\<close>-th \<^verbatim>\<open>!kill(pid, 0)\<close>. The
  loop asks before every \<^verbatim>\<open>SIGTERM\<close>, at most 15 times, and once more at the end.\<close>

definition SIGINT :: int where "SIGINT = 2"
definition SIGKILL :: int where "SIGKILL = 9"
definition SIGTERM :: int where "SIGTERM = 15"

fun term_loop :: "(nat \<Rightarrow> bool) \<Rightarrow> nat \<Rightarrow> nat \<Rightarrow> nat \<times> nat" where
  "term_loop alive 0 k = (0, k)"
| "term_loop alive (Suc n) k =
     (if alive k then (let (t, k) = term_loop alive n (Suc k) in (Suc t, k)) else (0, Suc k))"

definition kill_process :: "int \<Rightarrow> (nat \<Rightarrow> bool) \<Rightarrow> (int \<times> int) list" where
  "kill_process pid alive =
     (let (t, k) = term_loop alive 15 0
      in replicate t (pid, SIGTERM) @ (if alive k then [(pid, SIGKILL)] else []))"

definition is_brother_process :: "int \<Rightarrow> cstr \<Rightarrow> proc_entry \<Rightarrow> (nat \<times> (int \<times> int) list) access" where
  "is_brother_process self_pid channel e =
     (if \<not> list_all c_isdigit (pe_name e) then Some (0, [])
      else do {
        f \<leftarrow> read_link (pe_exe e);
        (if f = None \<or> c_atoi (pe_name e) \<ge> self_pid then Some (0, [])
         else do {
           n \<leftarrow> ls_dir (is_same_linkfile channel) (pe_fds e);
           Some (if n = 0 then (0, []) else (1, kill_process (c_atoi (pe_name e)) (pe_alive e))) }) })"

text \<open>\<^verbatim>\<open>kill_brothers\<close>: the signals sent, in order. \<open>exe\<close> is the link \<^verbatim>\<open>/proc/self/exe\<close>.\<close>

fun brothers_dir :: "int \<Rightarrow> cstr \<Rightarrow> proc_entry list \<Rightarrow> (int \<times> int) list access" where
  "brothers_dir self_pid channel [] = Some []"
| "brothers_dir self_pid channel (e # es) = do {
     (n, ks) \<leftarrow> is_brother_process self_pid channel e;
     ks' \<leftarrow> brothers_dir self_pid channel es;
     Some (ks @ ks') }"

definition kill_brothers :: "cstr option \<Rightarrow> int \<Rightarrow> proc_entry list \<Rightarrow> cstr \<Rightarrow> (int \<times> int) list access" where
  "kill_brothers exe self_pid procs channel = do {
     m \<leftarrow> read_link exe;
     (if m = None then Some [] else brothers_dir self_pid channel procs) }"

subsection \<open>The option \<^verbatim>\<open>-k\<close>\<close>

text \<open>\<^verbatim>\<open>getpid_by_pdp\<close> of \<^verbatim>\<open>util.c\<close>. The buffer of 512 bytes is kept from one process to the next; the
  entries are the names under \<^verbatim>\<open>/proc\<close> with the contents of their \<^verbatim>\<open>cmdline\<close>, \<open>None\<close> if it
  cannot be opened.\<close>

definition cmdline_read :: "buf \<Rightarrow> buf \<Rightarrow> buf" where
  "cmdline_read cmdline bs =
     (let r = take 512 bs; n = length r in
      map (\<lambda>b. if b = 0 then 32 else b) (take (n - 1) r) @ drop (n - 1) r @ drop n cmdline)"

fun pdp_search :: "cstr \<Rightarrow> cstr \<Rightarrow> buf \<Rightarrow> (cstr \<times> buf option) list \<Rightarrow> int access" where
  "pdp_search program_name opts cmdline [] = Some (- 1)"
| "pdp_search program_name opts cmdline ((name, content) # es) =
     (case content of
        None \<Rightarrow> Some (- 1)
      | Some bs \<Rightarrow>
          (let cmdline = cmdline_read cmdline bs in
           if 0 \<notin> set cmdline then None
           else if c_strstr (cstr_of cmdline) program_name \<and> c_strstr (cstr_of cmdline) opts
           then Some (c_atoi name)
           else pdp_search program_name opts cmdline es))"

definition getpid_by_pdp :: "int \<Rightarrow> cstr \<Rightarrow> (cstr \<times> buf option) list option \<Rightarrow> int access" where
  "getpid_by_pdp pdn program_name gt =
     (case gt of
        None \<Rightarrow> Some (- 1)
      | Some es \<Rightarrow> pdp_search program_name (snprintf 16 (ascii ''-n '' @ int_of pdn)) (replicate 512 0) es)"

text \<open>The part of the program's name behind the last slash.\<close>

definition basename :: "cstr \<Rightarrow> cstr" where
  "basename s = rev (takeWhile (\<lambda>c. c \<noteq> 47) (rev s))"

definition kill_data_call_pdp ::
  "(cstr \<times> buf option) list option \<Rightarrow> (int \<Rightarrow> int) \<Rightarrow> int \<Rightarrow> cstr \<Rightarrow> (int \<times> (int \<times> int) list) access" where
  "kill_data_call_pdp gt kill pdn self = do {
     pid \<leftarrow> getpid_by_pdp pdn (basename self) gt;
     Some (if 0 < pid then (kill pid, [(pid, SIGINT)]) else (- 1, [])) }"

subsection \<open>The command line\<close>

text \<open>\<^verbatim>\<open>has_more_argv()\<close>: the next argument is not an option; an argument is taken from the list.\<close>

definition is_option :: "cstr \<Rightarrow> bool" where
  "is_option a \<longleftrightarrow> (case a of [] \<Rightarrow> False | c # _ \<Rightarrow> c = 45)"

definition more_argv :: "cstr list \<Rightarrow> cstr option \<times> cstr list" where
  "more_argv args = (case args of a # rest \<Rightarrow> if is_option a then (None, args) else (Some a, rest) | [] \<Rightarrow> (None, []))"

text \<open>\<^verbatim>\<open>strcasecmp(a, b) == 0\<close>\<close>

definition c_tolower :: "byte \<Rightarrow> byte" where
  "c_tolower c = (if 65 \<le> c \<and> c \<le> 90 then c + 32 else c)"

definition c_caseeq :: "cstr \<Rightarrow> cstr \<Rightarrow> bool" where
  "c_caseeq a b \<longleftrightarrow> map c_tolower a = map c_tolower b"

text \<open>\<^verbatim>\<open>argv[opt][0] - '0'\<close>, where an empty argument has its terminator there and \<^verbatim>\<open>char\<close> is signed.\<close>

definition first_digit :: "cstr \<Rightarrow> int" where
  "first_digit a = (case a of [] \<Rightarrow> 0 | c # _ \<Rightarrow> sint c) - 48"

definition auth_of :: "cstr \<Rightarrow> int option" where
  "auth_of a =
     (if a = ascii ''0'' \<or> c_caseeq a (ascii ''none'') then Some 0
      else if a = ascii ''1'' \<or> c_caseeq a (ascii ''pap'') then Some 1
      else if a = ascii ''2'' \<or> c_caseeq a (ascii ''chap'') then Some 2
      else if a = ascii ''3'' \<or> c_caseeq a (ascii ''MsChapV2'') then Some 3
      else None)"

definition proxy_names :: "cstr list" where
  "proxy_names = [ascii ''quectel-qmi-proxy'', ascii ''quectel-mbim-proxy'', ascii ''qmi-proxy'',
                  ascii ''mbim-proxy'', ascii ''quectel-atc-proxy'']"

text \<open>The options: \<open>None\<close> stands for \<^verbatim>\<open>return usage(argv[0])\<close>.\<close>

definition opt_s :: "cstr list \<Rightarrow> PROFILE_T \<Rightarrow> (PROFILE_T \<times> cstr list) option" where
  "opt_s args p =
     (let p = p\<lparr>apn := Some [], user := Some [], password := Some []\<rparr>;
          (a, args) = more_argv args;
          p = (case a of None \<Rightarrow> p | Some a \<Rightarrow> p\<lparr>apn := Some a\<rparr>);
          (a, args) = more_argv args;
          p = (case a of None \<Rightarrow> p | Some a \<Rightarrow> p\<lparr>user := Some a\<rparr>);
          (a, args) = more_argv args;
          p = (case a of None \<Rightarrow> p | Some a \<Rightarrow>
                 if a \<noteq> [] then p\<lparr>password := Some a, auth := 2\<rparr> else p\<lparr>password := Some a\<rparr>);
          (a, args) = more_argv args
      in case a of
           None \<Rightarrow> Some (p, args)
         | Some a \<Rightarrow> (case auth_of a of None \<Rightarrow> None | Some n \<Rightarrow> Some (p\<lparr>auth := n\<rparr>, args)))"

definition opt_p :: "cstr list \<Rightarrow> PROFILE_T \<Rightarrow> (PROFILE_T \<times> cstr list) option" where
  "opt_p args p =
     (let (a, args) = more_argv args in
      case a of
        None \<Rightarrow> Some (p, args)
      | Some a \<Rightarrow>
          if a \<in> set proxy_names then Some (p\<lparr>proxy := take 31 a\<rparr>, args)
          else if 999 < c_atoi a \<and> c_atoi a < 10000 then Some (p\<lparr>pincode := Some a\<rparr>, args)
          else None)"

text \<open>Options with one argument that may be missing.\<close>

definition opt_arg :: "(cstr \<Rightarrow> PROFILE_T \<Rightarrow> PROFILE_T) \<Rightarrow> cstr list \<Rightarrow> PROFILE_T \<Rightarrow> (PROFILE_T \<times> cstr list) option" where
  "opt_arg f args p = (let (a, args) = more_argv args in Some (case a of None \<Rightarrow> p | Some a \<Rightarrow> f a p, args))"

definition opt_l :: "cstr \<Rightarrow> PROFILE_T \<Rightarrow> PROFILE_T" where
  "opt_l a p = (let p = p\<lparr>replication_factor := c_atoi a\<rparr>
                in if 0 < replication_factor p then p\<lparr>loopback_state := 1\<rparr> else p)"

definition parse_option :: "byte \<Rightarrow> cstr list \<Rightarrow> PROFILE_T \<Rightarrow> (PROFILE_T \<times> cstr list) option" where
  "parse_option c args p =
     (if c = 115 then opt_s args p
      else if c = 112 then opt_p args p
      else if c = 109 then opt_arg (\<lambda>a p. p\<lparr>muxid := first_digit a + 0x80\<rparr>) args p
      else if c = 110 then opt_arg (\<lambda>a p. p\<lparr>pdp := first_digit a\<rparr>) args p
      else if c = 102 then opt_arg (\<lambda>a p. p\<lparr>logfile := Some a\<rparr>) args p
      else if c = 105 then opt_arg (\<lambda>a p. p\<lparr>expect_adapter := take 31 a\<rparr>) args p
      else if c = 118 then Some (p, args)
      else if c = 108 then opt_arg opt_l args p
      else if c = 52 then Some (p\<lparr>enable_ipv4 := True\<rparr>, args)
      else if c = 54 then Some (p\<lparr>enable_ipv6 := True\<rparr>, args)
      else if c = 100 then Some (p\<lparr>no_dhcp := True\<rparr>, args)
      else if c = 117 then opt_arg (\<lambda>a p. p\<lparr>usblogfile := Some a\<rparr>) args p
      else if c = 98 then Some (p\<lparr>enable_bridge := True\<rparr>, args)
      else if c = 107 then opt_arg (\<lambda>a p. p\<lparr>kill_pdp := first_digit a\<rparr>) args p
      else None)"

lemma more_argv_length:
  "more_argv args = (a, rest) \<Longrightarrow> length rest \<le> length args"
  by (auto simp: more_argv_def split: list.splits if_splits)

lemma parse_option_length:
  assumes "parse_option c args p = Some (q, rest)"
  shows "length rest \<le> length args"
  using assms
  by (auto simp: parse_option_def opt_s_def opt_p_def opt_arg_def Let_def split: if_splits option.splits prod.splits
           dest!: more_argv_length)

text \<open>The \<^verbatim>\<open>while\<close> loop over the arguments; an option without a letter has the terminator in its place.\<close>

function parse_options :: "cstr list \<Rightarrow> PROFILE_T \<Rightarrow> PROFILE_T option" where
  "parse_options [] p = Some p"
| "parse_options (a # args) p =
     (if \<not> is_option a then None
      else (case parse_option (case a of _ # c # _ \<Rightarrow> c | _ \<Rightarrow> 0) args p of
              None \<Rightarrow> None
            | Some (q, rest) \<Rightarrow> parse_options rest q))"
  by pat_completeness auto
termination
  by (relation "measure (\<lambda>(args, p). length args)") (auto dest!: parse_option_length)

text \<open>\<^verbatim>\<open>parse_user_input\<close> on \<open>argv = prog # args\<close>: a last argument \<^verbatim>\<open>&\<close> is ignored.\<close>

definition parse_user_input :: "cstr list \<Rightarrow> PROFILE_T \<Rightarrow> PROFILE_T option" where
  "parse_user_input args p =
     (let args = (if args \<noteq> [] \<and> last args = ascii ''&'' then butlast args else args) in
      map_option (\<lambda>p. if \<not> enable_ipv4 p \<and> \<not> enable_ipv6 p then p\<lparr>enable_ipv4 := True\<rparr> else p)
        (parse_options args (p\<lparr>pdp := 1, profile_index := 1\<rparr>)))"

subsection \<open>What the command line can produce\<close>

text \<open>The type of a profile as the options build it up.\<close>

definition user_input_ok :: "PROFILE_T \<Rightarrow> bool" where
  "user_input_ok p \<longleftrightarrow>
     auth p \<in> {0..3} \<and> (proxy p = [] \<or> proxy p \<in> set proxy_names) \<and>
     (\<forall>pin. pincode p = Some pin \<longrightarrow> 999 < c_atoi pin \<and> c_atoi pin < 10000) \<and>
     length (expect_adapter p) < 32 \<and> (user p = None \<longleftrightarrow> apn p = None) \<and> (password p = None \<longleftrightarrow> apn p = None)"

lemma proxy_names_short:
  "a \<in> set proxy_names \<Longrightarrow> take 31 a = a"
  by (auto simp: proxy_names_def ascii_def)

lemma auth_of_range:
  "auth_of a = Some n \<Longrightarrow> n \<in> {0..3}"
  by (auto simp: auth_of_def split: if_splits)

lemma opt_s_ok:
  assumes "opt_s args p = Some (q, rest)" "user_input_ok p"
  shows "user_input_ok q"
proof -
  obtain a1 r1 a2 r2 a3 r3 a4 r4 where "more_argv args = (a1, r1)" "more_argv r1 = (a2, r2)"
      "more_argv r2 = (a3, r3)" "more_argv r3 = (a4, r4)"
    by (metis surj_pair)
  then have "proxy q = proxy p \<and> pincode q = pincode p \<and> expect_adapter q = expect_adapter p \<and>
      apn q \<noteq> None \<and> user q \<noteq> None \<and> password q \<noteq> None \<and> (auth q \<in> {0..3} \<or> auth q = auth p)"
    using assms(1)
    by (cases a1; cases a2; cases a3; cases a4)
       (auto simp: opt_s_def Let_def split: if_splits option.splits dest!: auth_of_range)
  then show ?thesis
    using assms(2) by (auto simp: user_input_ok_def)
qed

lemma opt_p_ok:
  "opt_p args p = Some (q, rest) \<Longrightarrow> user_input_ok p \<Longrightarrow> user_input_ok q"
  by (auto simp: opt_p_def Let_def user_input_ok_def proxy_names_short split: prod.splits option.splits if_splits)

lemma opt_arg_ok:
  assumes "opt_arg f args p = Some (q, rest)" "user_input_ok p" "\<And>a. user_input_ok p \<Longrightarrow> user_input_ok (f a p)"
  shows "user_input_ok q"
  using assms by (auto simp: opt_arg_def Let_def split: prod.splits option.splits)

lemma user_input_ok_updates [simp]:
  "user_input_ok (p\<lparr>muxid := i\<rparr>) = user_input_ok p" "user_input_ok (p\<lparr>pdp := i\<rparr>) = user_input_ok p"
  "user_input_ok (p\<lparr>logfile := s\<rparr>) = user_input_ok p" "user_input_ok (p\<lparr>usblogfile := s\<rparr>) = user_input_ok p"
  "user_input_ok (p\<lparr>kill_pdp := i\<rparr>) = user_input_ok p" "user_input_ok (p\<lparr>enable_ipv4 := b\<rparr>) = user_input_ok p"
  "user_input_ok (p\<lparr>enable_ipv6 := b\<rparr>) = user_input_ok p" "user_input_ok (p\<lparr>no_dhcp := b\<rparr>) = user_input_ok p"
  "user_input_ok (p\<lparr>enable_bridge := b\<rparr>) = user_input_ok p"
  "user_input_ok (p\<lparr>replication_factor := i\<rparr>) = user_input_ok p"
  "user_input_ok (p\<lparr>loopback_state := w\<rparr>) = user_input_ok p"
  by (simp_all add: user_input_ok_def)

lemma user_input_ok_adapter [simp]:
  "user_input_ok p \<Longrightarrow> user_input_ok (p\<lparr>expect_adapter := take 31 a\<rparr>)"
  by (simp add: user_input_ok_def)

lemma opt_l_ok [simp]:
  "user_input_ok (opt_l a p) = user_input_ok p"
  by (simp add: opt_l_def Let_def)

lemma parse_option_ok:
  assumes "parse_option c args p = Some (q, rest)" "user_input_ok p"
  shows "user_input_ok q"
  using assms unfolding parse_option_def
  by (simp split: if_split_asm; (elim opt_s_ok opt_p_ok opt_arg_ok)?; auto)

lemma parse_options_ok:
  "parse_options args p = Some q \<Longrightarrow> user_input_ok p \<Longrightarrow> user_input_ok q"
  by (induction args p rule: parse_options.induct) (auto split: if_splits option.splits dest: parse_option_ok)



end
