(* ===== verification/Conn_Manager.thy ===== *)
theory Conn_Manager
  imports Qmi_Calls Conn_Process
begin

text \<open>
  The connection manager \<^verbatim>\<open>qmi_main\<close> of \<^verbatim>\<open>main.c\<close>: the local variables of the function and the
  file's statics are the record \<open>cm\<close>, the function tables \<^verbatim>\<open>struct request_ops\<close> and
  \<^verbatim>\<open>struct qmi_device_ops\<close> are records of operations on a modem state \<open>'m\<close>. An optional entry
  of a table is an \<open>option\<close>. The kernel's network state is the parameter \<open>os\<close>, the
  values \<^verbatim>\<open>clock_msec()\<close> returns are \<open>clock 0, clock 1, ...\<close> in the order of the calls.
  \<^verbatim>\<open>unsigned long\<close> has 64 bits.
\<close>

type_synonym 'm op = "'m \<Rightarrow> (int \<times> 'm) access"
type_synonym 'm prof_op = "PROFILE_T \<Rightarrow> 'm \<Rightarrow> (int \<times> PROFILE_T \<times> 'm) access"
type_synonym 'm call_op = "PROFILE_T \<Rightarrow> int \<Rightarrow> 'm \<Rightarrow> (int \<times> PROFILE_T \<times> 'm) access"
type_synonym 'm status_op = "byte \<Rightarrow> 'm \<Rightarrow> (int \<times> byte \<times> 'm) access"

record 'm request_table =
  op_BaseBandVersion :: "'m prof_op option"
  op_SetEthMode :: "'m prof_op option"
  op_SetLoopBackState :: "(byte \<Rightarrow> u32 \<Rightarrow> 'm op) option"
  op_GetSIMStatus :: "(SIM_Status \<Rightarrow> 'm \<Rightarrow> (int \<times> SIM_Status \<times> 'm) access) option"
  op_EnterSimPin :: "(cstr \<Rightarrow> 'm op) option"
  op_SetProfile :: "'m prof_op option"
  op_GetProfile :: "(PROFILE_T \<Rightarrow> 'm \<Rightarrow> (int \<times> PROFILE_T \<times> 'm) option access) option"
  op_RegistrationState :: "'m status_op"
  op_SetupDataCall :: "'m call_op"
  op_QueryDataCall :: "byte \<Rightarrow> int \<Rightarrow> 'm \<Rightarrow> (int \<times> byte \<times> 'm) access"
  op_DeactivateDefaultPDP :: "'m call_op"
  op_GetIPAddress :: "'m call_op"
  op_GetSignalInfo :: "'m op option"
  op_GetCellInfoList :: "'m op option"
  op_GetICCID :: "'m op option"
  op_GetIMSI :: "'m op option"
  op_GetCoexWWANState :: "'m op option"
  op_SimHotplug :: "'m op option"
  op_RebootModem :: "'m op option"

record 'm device_table =
  dev_init :: "'m prof_op option"
  dev_deinit :: "'m op option"

text \<open>Values of the two control socket pairs: \<^verbatim>\<open>signal_control_fd\<close> carries a \<open>sig_event\<close>, the
  socket to the device thread a \<open>device_cmd\<close>.\<close>

datatype sig_event = SIG_EVENT_START | SIG_EVENT_CHECK | SIG_EVENT_STOP

datatype device_cmd = RIL_REQUEST_QUIT | DEVICE_EVENT_STOP

record 'm cm =
  prof :: PROFILE_T
  modem :: 'm
  PSAttachedState :: byte
  IPv4ConnectionStatus :: byte
  IPv6ConnectionStatus :: byte
  SetupCallFail :: u32
  SetupCallAllowTime :: "64 word"
  s_link :: int
  g_donot_exit_when_modem_hangup :: int
  g_reboot_modem :: int
  signals :: "sig_event list"
  events :: "cm_event list"
  device_cmds :: "device_cmd list"
  pending_alarm :: u32
  net :: "net_op list"
  readings :: nat
  kills :: "(int \<times> int) list"

definition clock_msec :: "(nat \<Rightarrow> 64 word) \<Rightarrow> 'm cm \<Rightarrow> 64 word \<times> 'm cm" where
  "clock_msec clock c = (clock (readings c), c\<lparr>readings := Suc (readings c)\<rparr>)"

definition send_signo_to_main :: "sig_event \<Rightarrow> 'm cm \<Rightarrow> 'm cm" where
  "send_signo_to_main s c = c\<lparr>signals := signals c @ [s]\<rparr>"

definition main_send_event_to_qmidevice :: "device_cmd \<Rightarrow> 'm cm \<Rightarrow> 'm cm" where
  "main_send_event_to_qmidevice d c = c\<lparr>device_cmds := device_cmds c @ [d]\<rparr>"

text \<open>The signal handler, for \<^verbatim>\<open>SIGALRM\<close> and for \<^verbatim>\<open>SIGINT\<close> or \<^verbatim>\<open>SIGTERM\<close>. A delivered alarm is no
  longer pending.\<close>

definition ql_sigaction :: "bool \<Rightarrow> 'm cm \<Rightarrow> 'm cm" where
  "ql_sigaction sigalrm c =
     (if sigalrm then send_signo_to_main SIG_EVENT_START (c\<lparr>pending_alarm := 0\<rparr>)
      else main_send_event_to_qmidevice DEVICE_EVENT_STOP
             (send_signo_to_main SIG_EVENT_STOP (c\<lparr>g_donot_exit_when_modem_hangup := 0\<rparr>)))"

subsection \<open>Calls through the table\<close>

definition call_op :: "'m call_op \<Rightarrow> int \<Rightarrow> 'm cm \<Rightarrow> (int \<times> 'm cm) access" where
  "call_op f family c = do {
     (e, p, m) \<leftarrow> f (prof c) family (modem c);
     Some (e, c\<lparr>prof := p, modem := m\<rparr>) }"

definition call_prof :: "'m prof_op option \<Rightarrow> 'm cm \<Rightarrow> (int \<times> 'm cm) access" where
  "call_prof f c = (case f of
       None \<Rightarrow> Some (0, c)
     | Some g \<Rightarrow> do { (e, p, m) \<leftarrow> g (prof c) (modem c); Some (e, c\<lparr>prof := p, modem := m\<rparr>) })"

definition call_opt :: "'m op option \<Rightarrow> 'm cm \<Rightarrow> 'm cm access" where
  "call_opt f c = (case f of
       None \<Rightarrow> Some c
     | Some g \<Rightarrow> do { (e, m) \<leftarrow> g (modem c); Some (c\<lparr>modem := m\<rparr>) })"

definition call_registration :: "'m request_table \<Rightarrow> 'm cm \<Rightarrow> 'm cm access" where
  "call_registration rt c = do {
     (e, s, m) \<leftarrow> op_RegistrationState rt (PSAttachedState c) (modem c);
     Some (c\<lparr>PSAttachedState := s, modem := m\<rparr>) }"

definition usbnet_link_change :: "net_os \<Rightarrow> int \<Rightarrow> 'm cm \<Rightarrow> 'm cm access" where
  "usbnet_link_change os link c =
     (if s_link c = link then Some c
      else (let p = prof c;
                p = (if \<not> bit link 4 then p\<lparr>ipv4 := ipv4_zero\<rparr> else p);
                p = (if \<not> bit link 6 then p\<lparr>ipv6 := ipv6_zero\<rparr> else p)
            in if link \<noteq> 0
               then do { (p, t) \<leftarrow> udhcpc_start os p (net c); Some (c\<lparr>s_link := link, prof := p, net := t\<rparr>) }
               else (let (p, t) = udhcpc_stop os p (net c) in Some (c\<lparr>s_link := link, prof := p, net := t\<rparr>))))"

definition check_ipv4_address :: "'m request_table \<Rightarrow> 'm cm \<Rightarrow> (bool \<times> 'm cm) access" where
  "check_ipv4_address rt c =
     (if request_ops (prof c) = Some mbim_request_ops then Some (True, c)
      else if request_ops (prof c) = Some atc_request_ops \<and> udhcpc_ip (prof c) = 0 then Some (True, c)
      else (let oldAddress = (if request_ops (prof c) = Some atc_request_ops then udhcpc_ip (prof c)
                              else Address4 (ipv4 (prof c)))
            in do { (e, c) \<leftarrow> call_op (op_GetIPAddress rt) IpFamilyV4 c;
                    Some (e = 0 \<and> Address4 (ipv4 (prof c)) = oldAddress, c) }))"

text \<open>\<^verbatim>\<open>profile->enable_ipv4 && profile->request_ops != &qmi_request_ops\<close>: IPv6 follows IPv4.\<close>

definition follows_ipv4 :: "PROFILE_T \<Rightarrow> bool" where
  "follows_ipv4 p \<longleftrightarrow> enable_ipv4 p \<and> request_ops p \<noteq> Some qmi_request_ops"

definition needs_call :: "'m cm \<Rightarrow> bool" where
  "needs_call c \<longleftrightarrow>
     enable_ipv4 (prof c) \<and> IPv4ConnectionStatus c = QWDS_PKT_DATA_DISCONNECTED \<or>
     enable_ipv6 (prof c) \<and> IPv6ConnectionStatus c = QWDS_PKT_DATA_DISCONNECTED"

definition some_call :: "'m cm \<Rightarrow> bool" where
  "some_call c \<longleftrightarrow> IPv4ConnectionStatus c = QWDS_PKT_DATA_CONNECTED \<or> IPv6ConnectionStatus c = QWDS_PKT_DATA_CONNECTED"

subsection \<open>\<^verbatim>\<open>SIG_EVENT_START\<close>\<close>

text \<open>After a failed call with a user and a password the other authentication is tried once.\<close>

definition setup_with_auth :: "'m request_table \<Rightarrow> 'm cm \<Rightarrow> (int \<times> 'm cm) access" where
  "setup_with_auth rt c = do {
     (qmierr, c) \<leftarrow> call_op (op_SetupDataCall rt) IpFamilyV4 c;
     if 0 < qmierr \<and> nonempty (user (prof c)) \<and> nonempty (password (prof c))
     then do {
       let old_auto = auth (prof c);
       let c = c\<lparr>prof := (prof c)\<lparr>auth := (if auth (prof c) = 1 then 2 else 1)\<rparr>\<rparr>;
       (qmierr, c) \<leftarrow> call_op (op_SetupDataCall rt) IpFamilyV4 c;
       Some (qmierr, if qmierr \<noteq> 0 then c\<lparr>prof := (prof c)\<lparr>auth := old_auto\<rparr>\<rparr> else c) }
     else Some (qmierr, c) }"

definition start_ipv4 :: "'m request_table \<Rightarrow> 'm cm \<Rightarrow> 'm cm access" where
  "start_ipv4 rt c =
     (if enable_ipv4 (prof c) \<and> IPv4ConnectionStatus c \<noteq> QWDS_PKT_DATA_CONNECTED
      then do {
        (qmierr, c) \<leftarrow> setup_with_auth rt c;
        if qmierr = 0
        then do {
          (qmierr, c) \<leftarrow> call_op (op_GetIPAddress rt) IpFamilyV4 c;
          Some (if qmierr = 0 then c\<lparr>IPv4ConnectionStatus := QWDS_PKT_DATA_CONNECTED\<rparr> else c) }
        else Some c }
      else Some c)"

definition start_ipv6 :: "'m request_table \<Rightarrow> 'm cm \<Rightarrow> 'm cm access" where
  "start_ipv6 rt c =
     (if enable_ipv6 (prof c) \<and> IPv6ConnectionStatus c \<noteq> QWDS_PKT_DATA_CONNECTED
      then if follows_ipv4 (prof c) then Some (c\<lparr>IPv6ConnectionStatus := IPv4ConnectionStatus c\<rparr>)
      else do {
        (qmierr, c) \<leftarrow> call_op (op_SetupDataCall rt) IpFamilyV6 c;
        if qmierr = 0
        then do {
          (qmierr, c) \<leftarrow> call_op (op_GetIPAddress rt) IpFamilyV6 c;
          Some (if qmierr = 0 then c\<lparr>IPv6ConnectionStatus := QWDS_PKT_DATA_CONNECTED\<rparr> else c) }
        else Some c }
      else Some c)"

definition allow_time :: "u32 \<Rightarrow> 64 word" where
  "allow_time n = (if n < 5 then [5, 10, 20, 40, 60] ! unat n else 60)"

definition schedule_retry :: "(nat \<Rightarrow> 64 word) \<Rightarrow> 'm cm \<Rightarrow> 'm cm" where
  "schedule_retry clock c =
     (if needs_call c
      then (let secs = allow_time (SetupCallFail c);
                c = c\<lparr>SetupCallFail := SetupCallFail c + 1, pending_alarm := ucast secs\<rparr>;
                (now, c) = clock_msec clock c
            in c\<lparr>SetupCallAllowTime := secs * 1000 + now\<rparr>)
      else if some_call c
      then (let (now, c) = clock_msec clock c in c\<lparr>SetupCallFail := 0, SetupCallAllowTime := now\<rparr>)
      else c)"

definition sig_start :: "(nat \<Rightarrow> 64 word) \<Rightarrow> 'm request_table \<Rightarrow> 'm cm \<Rightarrow> 'm cm access" where
  "sig_start clock rt c =
     (if PSAttachedState c \<noteq> 1 \<and> loopback_state (prof c) = 0 then Some c
      else (let (now, c) = clock_msec clock c in
        if SetupCallAllowTime c > now
        then (let (now, c) = clock_msec clock c
              in Some (c\<lparr>pending_alarm := ucast ((SetupCallAllowTime c - now + 999) div 1000)\<rparr>))
        else do {
          c \<leftarrow> start_ipv4 rt c;
          c \<leftarrow> start_ipv6 rt c;
          Some (schedule_retry clock c) }))"

subsection \<open>\<^verbatim>\<open>SIG_EVENT_CHECK\<close>\<close>

text \<open>A call that was up before the program started has no address yet; and a call whose address is no
  longer the one of the interface is put down.\<close>

definition missing_address :: "'m request_table \<Rightarrow> 'm cm \<Rightarrow> 'm cm access" where
  "missing_address rt c =
     (if IPv4ConnectionStatus c = QWDS_PKT_DATA_CONNECTED \<and> Address4 (ipv4 (prof c)) = 0
      then do { (qmierr, c) \<leftarrow> call_op (op_GetIPAddress rt) IpFamilyV4 c;
                Some (if qmierr \<noteq> 0 then c\<lparr>IPv4ConnectionStatus := QWDS_PKT_DATA_DISCONNECTED\<rparr> else c) }
      else Some c)"

definition changed_address :: "'m request_table \<Rightarrow> 'm cm \<Rightarrow> 'm cm access" where
  "changed_address rt c =
     (if IPv4ConnectionStatus c = QWDS_PKT_DATA_CONNECTED
      then do {
        (same, c) \<leftarrow> check_ipv4_address rt c;
        if same then Some c
        else do { (e, c) \<leftarrow> call_op (op_DeactivateDefaultPDP rt) IpFamilyV4 c;
                  Some (c\<lparr>IPv4ConnectionStatus := QWDS_PKT_DATA_DISCONNECTED\<rparr>) } }
      else Some c)"

definition check_ipv4 :: "'m request_table \<Rightarrow> 'm cm \<Rightarrow> 'm cm access" where
  "check_ipv4 rt c =
     (if enable_ipv4 (prof c) \<and> IPv4ConnectionStatus c \<noteq> QWDS_PKT_DATA_DISCONNECTED
      then do {
        (e, s, m) \<leftarrow> op_QueryDataCall rt (IPv4ConnectionStatus c) IpFamilyV4 (modem c);
        let c = c\<lparr>IPv4ConnectionStatus := s, modem := m\<rparr>;
        if e = 0 then do { c \<leftarrow> missing_address rt c; changed_address rt c }
        else Some (c\<lparr>IPv4ConnectionStatus := QWDS_PKT_DATA_DISCONNECTED\<rparr>) }
      else Some (c\<lparr>IPv4ConnectionStatus := QWDS_PKT_DATA_DISCONNECTED\<rparr>))"

definition check_ipv6 :: "'m request_table \<Rightarrow> 'm cm \<Rightarrow> 'm cm access" where
  "check_ipv6 rt c =
     (if enable_ipv6 (prof c) \<and> IPv6ConnectionStatus c \<noteq> QWDS_PKT_DATA_DISCONNECTED
      then if follows_ipv4 (prof c) then Some (c\<lparr>IPv6ConnectionStatus := IPv4ConnectionStatus c\<rparr>)
      else do { (e, s, m) \<leftarrow> op_QueryDataCall rt (IPv6ConnectionStatus c) IpFamilyV6 (modem c);
                Some (c\<lparr>IPv6ConnectionStatus := s, modem := m\<rparr>) }
      else Some (c\<lparr>IPv6ConnectionStatus := QWDS_PKT_DATA_DISCONNECTED\<rparr>))"

definition link_bits :: "'m cm \<Rightarrow> int" where
  "link_bits c = (if IPv4ConnectionStatus c = QWDS_PKT_DATA_CONNECTED then push_bit 4 1 else 0) OR
                 (if IPv6ConnectionStatus c = QWDS_PKT_DATA_CONNECTED then push_bit 6 1 else 0)"

definition check_link :: "net_os \<Rightarrow> 'm cm \<Rightarrow> 'm cm access" where
  "check_link os c =
     (if IPv4ConnectionStatus c = QWDS_PKT_DATA_DISCONNECTED \<and> IPv6ConnectionStatus c = QWDS_PKT_DATA_DISCONNECTED
      then usbnet_link_change os 0 c
      else if some_call c then usbnet_link_change os (link_bits c) c
      else Some c)"

definition sig_check :: "net_os \<Rightarrow> 'm request_table \<Rightarrow> 'm cm \<Rightarrow> 'm cm access" where
  "sig_check os rt c = do {
     c \<leftarrow> call_opt (op_GetSignalInfo rt) c;
     c \<leftarrow> call_opt (op_GetCellInfoList rt) c;
     c \<leftarrow> call_opt (op_GetCoexWWANState rt) c;
     c \<leftarrow> (if PSAttachedState c \<noteq> 1 then call_registration rt c else Some c);
     c \<leftarrow> check_ipv4 rt c;
     c \<leftarrow> check_ipv6 rt c;
     c \<leftarrow> check_link os c;
     Some (if needs_call c then send_signo_to_main SIG_EVENT_START c else c) }"

subsection \<open>\<^verbatim>\<open>SIG_EVENT_STOP\<close>\<close>

definition sig_stop :: "net_os \<Rightarrow> 'm request_table \<Rightarrow> 'm device_table \<Rightarrow> 'm cm \<Rightarrow> 'm cm access" where
  "sig_stop os rt dt c = do {
     c \<leftarrow> (if enable_ipv4 (prof c) \<and> IPv4ConnectionStatus c = QWDS_PKT_DATA_CONNECTED
          then map_option snd (call_op (op_DeactivateDefaultPDP rt) IpFamilyV4 c) else Some c);
     c \<leftarrow> (if enable_ipv6 (prof c) \<and> IPv6ConnectionStatus c = QWDS_PKT_DATA_CONNECTED \<and> \<not> follows_ipv4 (prof c)
          then map_option snd (call_op (op_DeactivateDefaultPDP rt) IpFamilyV6 c) else Some c);
     c \<leftarrow> usbnet_link_change os 0 c;
     c \<leftarrow> call_opt (dev_deinit dt) c;
     Some (main_send_event_to_qmidevice RIL_REQUEST_QUIT c) }"

subsection \<open>Events of the device thread\<close>

text \<open>The result says whether the handler jumps to \<^verbatim>\<open>__main_quit\<close>.\<close>

definition device_event :: "(nat \<Rightarrow> 64 word) \<Rightarrow> 'm request_table \<Rightarrow> cm_event \<Rightarrow> 'm cm \<Rightarrow> (bool \<times> 'm cm) access" where
  "device_event clock rt ev c =
     (case ev of
        RIL_INDICATE_DEVICE_DISCONNECTED \<Rightarrow> Some (True, c\<lparr>g_donot_exit_when_modem_hangup := 1\<rparr>)
      | RIL_UNSOL_RESPONSE_VOICE_NETWORK_STATE_CHANGED \<Rightarrow> do {
          c \<leftarrow> call_registration rt c;
          Some (False,
            if PSAttachedState c = 1
            then if needs_call c then send_signo_to_main SIG_EVENT_START c else c
            else (let (now, c) = clock_msec clock c in c\<lparr>SetupCallAllowTime := now\<rparr>)) }
      | RIL_UNSOL_DATA_CALL_LIST_CHANGED \<Rightarrow>
          (let c = (if some_call c
                    then (let (now, c) = clock_msec clock c in c\<lparr>SetupCallAllowTime := now + 1000\<rparr>) else c)
           in Some (False, send_signo_to_main SIG_EVENT_CHECK c))
      | MODEM_REPORT_RESET_EVENT \<Rightarrow>
          Some (True, (main_send_event_to_qmidevice RIL_REQUEST_QUIT c)\<lparr>g_donot_exit_when_modem_hangup := 1\<rparr>)
      | RIL_UNSOL_LOOPBACK_CONFIG_IND b \<Rightarrow>
          if length b = 15
          then do {
            st \<leftarrow> rd8 b 7; factor \<leftarrow> rd32 b 11;
            let c = c\<lparr>prof := (prof c)\<lparr>loopback_state := st, replication_factor := sint factor\<rparr>\<rparr>;
            Some (False, if st \<noteq> 0 then send_signo_to_main SIG_EVENT_START c else c) }
          else Some (False, c)
      | RIL_INDICATE_DEVICE_CONNECTED \<Rightarrow> Some (False, c))"

subsection \<open>The event loop\<close>

text \<open>What happens while the loop waits in \<^verbatim>\<open>poll\<close>: signals are delivered and the device thread
  sends events. Then \<^verbatim>\<open>poll\<close> fails or returns; \<^verbatim>\<open>POLLIN\<close> is set for a socket that holds data, the
  error conditions are inputs, and without any of these \<^verbatim>\<open>poll\<close> returns 0 after its timeout.\<close>

datatype arrival = Sig_alarm | Sig_term | Dev cm_event

record revents =
  re_err :: bool
  re_hup :: bool

datatype poll_result = Poll_failed | Polled revents revents

fun arrive :: "arrival \<Rightarrow> 'm cm \<Rightarrow> 'm cm" where
  "arrive Sig_alarm c = ql_sigaction True c"
| "arrive Sig_term c = ql_sigaction False c"
| "arrive (Dev ev) c = c\<lparr>events := events c @ [ev]\<rparr>"

definition reboot_requested :: "'m request_table \<Rightarrow> 'm cm \<Rightarrow> (bool \<times> 'm cm) access" where
  "reboot_requested rt c =
     (case op_RebootModem rt of
        Some f \<Rightarrow>
          if g_reboot_modem c \<noteq> 0
          then do {
            (e, m) \<leftarrow> f (modem c);
            let c = c\<lparr>modem := m\<rparr>;
            Some (if e = 0 then (True, main_send_event_to_qmidevice RIL_REQUEST_QUIT
                                         (c\<lparr>g_reboot_modem := 0, g_donot_exit_when_modem_hangup := 1\<rparr>))
                  else (False, c)) }
          else Some (False, c)
      | None \<Rightarrow> Some (False, c))"

definition read_signal ::
  "net_os \<Rightarrow> (nat \<Rightarrow> 64 word) \<Rightarrow> 'm request_table \<Rightarrow> 'm device_table \<Rightarrow> 'm cm \<Rightarrow> (bool \<times> 'm cm) access" where
  "read_signal os clock rt dt c =
     (case signals c of
        [] \<Rightarrow> Some (False, c)
      | s # ss \<Rightarrow>
          (let c = c\<lparr>signals := ss, pending_alarm := 0\<rparr> in
           case s of
             SIG_EVENT_START \<Rightarrow> map_option (Pair False) (sig_start clock rt c)
           | SIG_EVENT_CHECK \<Rightarrow> map_option (Pair False) (sig_check os rt c)
           | SIG_EVENT_STOP \<Rightarrow> map_option (Pair True) (sig_stop os rt dt c)))"

definition read_event :: "(nat \<Rightarrow> 64 word) \<Rightarrow> 'm request_table \<Rightarrow> 'm cm \<Rightarrow> (bool \<times> 'm cm) access" where
  "read_event clock rt c =
     (case events c of [] \<Rightarrow> Some (False, c) | e # es \<Rightarrow> device_event clock rt e (c\<lparr>events := es\<rparr>))"

text \<open>One round of the \<^verbatim>\<open>for\<close> loop over the descriptors; \<open>input\<close> is \<^verbatim>\<open>revents & POLLIN\<close>, \<open>rd\<close> the handler of
  the descriptor.\<close>

definition poll_fd ::
  "'m request_table \<Rightarrow> ('m cm \<Rightarrow> (bool \<times> 'm cm) access) \<Rightarrow> revents \<Rightarrow> bool \<Rightarrow> 'm cm \<Rightarrow> (bool \<times> 'm cm) access" where
  "poll_fd rt rd r input c =
     (let c = (if re_err r \<or> re_hup r then main_send_event_to_qmidevice RIL_REQUEST_QUIT c else c) in
      if re_hup r then Some (True, c)
      else if \<not> input then Some (False, c)
      else do { (quit, c) \<leftarrow> reboot_requested rt c; if quit then Some (True, c) else rd c })"

definition cm_turn ::
  "net_os \<Rightarrow> (nat \<Rightarrow> 64 word) \<Rightarrow> 'm request_table \<Rightarrow> 'm device_table \<Rightarrow> arrival list \<times> poll_result
     \<Rightarrow> 'm cm \<Rightarrow> (bool \<times> 'm cm) access" where
  "cm_turn os clock rt dt i c =
     (let c = fold arrive (fst i) c; in1 = signals c \<noteq> []; in2 = events c \<noteq> [] in
      case snd i of
        Poll_failed \<Rightarrow> Some (True, c)
      | Polled r1 r2 \<Rightarrow>
          if \<not> (in1 \<or> in2 \<or> re_err r1 \<or> re_hup r1 \<or> re_err r2 \<or> re_hup r2)
          then Some (False, send_signo_to_main SIG_EVENT_CHECK c)
          else do {
            (quit, c) \<leftarrow> poll_fd rt (read_signal os clock rt dt) r1 in1 c;
            if quit then Some (True, c) else poll_fd rt (read_event clock rt) r2 in2 c })"

text \<open>The loop on the inputs of its turns: it has left with \<open>True\<close>, or is still running after them.\<close>

fun cm_loop ::
  "net_os \<Rightarrow> (nat \<Rightarrow> 64 word) \<Rightarrow> 'm request_table \<Rightarrow> 'm device_table \<Rightarrow> (arrival list \<times> poll_result) list
     \<Rightarrow> 'm cm \<Rightarrow> (bool \<times> 'm cm) access" where
  "cm_loop os clock rt dt [] c = Some (False, c)"
| "cm_loop os clock rt dt (i # inputs) c = do {
     (quit, c) \<leftarrow> cm_turn os clock rt dt i c;
     if quit then Some (True, c) else cm_loop os clock rt dt inputs c }"

definition main_quit :: "net_os \<Rightarrow> 'm request_table \<Rightarrow> 'm cm \<Rightarrow> 'm cm access" where
  "main_quit os rt c = do {
     c \<leftarrow> (if enable_ipv4 (prof c) then map_option snd (call_op (op_DeactivateDefaultPDP rt) IpFamilyV4 c) else Some c);
     c \<leftarrow> (if enable_ipv6 (prof c) then map_option snd (call_op (op_DeactivateDefaultPDP rt) IpFamilyV6 c) else Some c);
     usbnet_link_change os 0 c }"

subsection \<open>Start-up\<close>

definition QMI_ERR_OP_DEVICE_UNSUPPORTED :: int where "QMI_ERR_OP_DEVICE_UNSUPPORTED = 0x0019"
definition QMI_ERR_INVALID_QMI_CMD :: int where "QMI_ERR_INVALID_QMI_CMD = 0x0047"

definition loopback_setup :: "'m request_table \<Rightarrow> 'm cm \<Rightarrow> 'm cm access" where
  "loopback_setup rt c =
     (case op_SetLoopBackState rt of
        Some f \<Rightarrow>
          if loopback_state (prof c) \<noteq> 0
          then do {
            (qmierr, m) \<leftarrow> f (loopback_state (prof c)) (word_of_int (replication_factor (prof c))) (modem c);
            let c = c\<lparr>modem := m\<rparr>;
            Some (if qmierr \<noteq> QMI_ERR_INVALID_QMI_CMD then c\<lparr>prof := (prof c)\<lparr>loopback_state := 0\<rparr>\<rparr> else c) }
          else Some c
      | None \<Rightarrow> Some c)"

text \<open>The loop that asks for the SIM status every second while the device is not ready; \<open>None\<close> if it is
  still asking after \<open>fuel\<close> rounds.\<close>

fun sim_status_loop ::
  "nat \<Rightarrow> (SIM_Status \<Rightarrow> 'm \<Rightarrow> (int \<times> SIM_Status \<times> 'm) access) \<Rightarrow> SIM_Status \<Rightarrow> 'm \<Rightarrow> (SIM_Status \<times> 'm) option access" where
  "sim_status_loop 0 f s m = Some None"
| "sim_status_loop (Suc fuel) f s m = do {
     (qmierr, s, m) \<leftarrow> f s m;
     if qmierr = QMI_ERR_OP_DEVICE_UNSUPPORTED then sim_status_loop fuel f s m else Some (Some (s, m)) }"

definition enter_pin :: "'m request_table \<Rightarrow> SIM_Status \<Rightarrow> 'm cm \<Rightarrow> 'm cm access" where
  "enter_pin rt s c =
     (case (pincode (prof c), op_EnterSimPin rt) of
        (Some pin, Some g) \<Rightarrow> if s = SIM_PIN then call_opt (Some (g pin)) c else Some c
      | _ \<Rightarrow> Some c)"

definition sim_query :: "nat \<Rightarrow> 'm request_table \<Rightarrow> 'm cm \<Rightarrow> (SIM_Status \<times> 'm cm) option access" where
  "sim_query fuel rt c =
     (case op_GetSIMStatus rt of
        None \<Rightarrow> Some (Some (SIM_ABSENT, c))
      | Some f \<Rightarrow> do {
          r \<leftarrow> sim_status_loop fuel f SIM_ABSENT (modem c);
          (case r of
             None \<Rightarrow> Some None
           | Some (s, m) \<Rightarrow> do { c \<leftarrow> enter_pin rt s (c\<lparr>modem := m\<rparr>); Some (Some (s, c)) }) })"

definition sim_setup :: "nat \<Rightarrow> 'm request_table \<Rightarrow> 'm cm \<Rightarrow> 'm cm option access" where
  "sim_setup fuel rt c = do {
     r \<leftarrow> sim_query fuel rt c;
     (case r of
        None \<Rightarrow> Some None
      | Some (s, c) \<Rightarrow>
          if s = SIM_READY
          then do { c \<leftarrow> call_opt (op_GetICCID rt) c; c \<leftarrow> call_opt (op_GetIMSI rt) c; Some (Some c) }
          else Some (Some c)) }"

definition get_profile :: "'m request_table \<Rightarrow> 'm cm \<Rightarrow> 'm cm option access" where
  "get_profile rt c =
     (case op_GetProfile rt of
        None \<Rightarrow> Some (Some c)
      | Some f \<Rightarrow> do {
          r \<leftarrow> f (prof c) (modem c);
          Some (map_option (\<lambda>(e, p, m). c\<lparr>prof := p, modem := m\<rparr>) r) })"

definition stale_call :: "'m request_table \<Rightarrow> 'm cm \<Rightarrow> 'm cm access" where
  "stale_call rt c =
     (if enable_ipv4 (prof c) \<and> request_ops (prof c) = Some atc_request_ops
      then do {
        (e, s, m) \<leftarrow> op_QueryDataCall rt (IPv4ConnectionStatus c) IpFamilyV4 (modem c);
        let c = c\<lparr>IPv4ConnectionStatus := s, modem := m\<rparr>;
        if e = 0 \<and> s = QWDS_PKT_DATA_CONNECTED
        then map_option snd (call_op (op_DeactivateDefaultPDP rt) IpFamilyV4 c) else Some c }
      else Some c)"

text \<open>The requests between the initialisation of the device and the loop.\<close>

definition cm_requests :: "nat \<Rightarrow> 'm request_table \<Rightarrow> 'm cm \<Rightarrow> 'm cm option access" where
  "cm_requests fuel rt c = do {
     (e, c) \<leftarrow> call_prof (op_BaseBandVersion rt) c;
     (e, c) \<leftarrow> call_prof (op_SetEthMode rt) c;
     c \<leftarrow> loopback_setup rt c;
     c \<leftarrow> call_opt (op_SimHotplug rt) c;
     r \<leftarrow> sim_setup fuel rt c;
     (case r of
        None \<Rightarrow> Some None
      | Some c \<Rightarrow> do {
          r \<leftarrow> get_profile rt c;
          (case r of
             None \<Rightarrow> Some None
           | Some c \<Rightarrow> do {
               (e, c) \<leftarrow> call_prof (if apn (prof c) \<noteq> None \<or> user (prof c) \<noteq> None \<or> password (prof c) \<noteq> None
                                   then op_SetProfile rt else None) c;
               c \<leftarrow> call_registration rt c;
               c \<leftarrow> stale_call rt c;
               Some (Some (send_signo_to_main SIG_EVENT_CHECK c)) }) }) }"

text \<open>What \<^verbatim>\<open>qmi_main\<close> meets before the loop: the results of \<^verbatim>\<open>socketpair\<close> and
  \<^verbatim>\<open>pthread_create\<close>, the first event of the device thread, and the processes under \<^verbatim>\<open>/proc\<close>.\<close>

record main_env =
  signal_pair :: bool
  control_pair :: bool
  thread_created :: bool
  first_event :: "cm_event option"
  self_exe :: "cstr option"
  self_pid :: int
  procs :: "proc_entry list"

datatype 'm main_outcome = Main_returned int "'m cm" | Main_running "'m cm" | Main_waiting

definition cm_begin :: "(nat \<Rightarrow> 64 word) \<Rightarrow> 'm cm \<Rightarrow> 'm cm" where
  "cm_begin clock c =
     (let (now, c) = clock_msec clock c
      in c\<lparr>PSAttachedState := 0, IPv4ConnectionStatus := QWDS_PKT_DATA_UNKNOW,
           IPv6ConnectionStatus := QWDS_PKT_DATA_UNKNOW, SetupCallFail := 0, SetupCallAllowTime := now,
           signals := [], events := [], device_cmds := []\<rparr>)"

definition cm_kill_brothers :: "main_env \<Rightarrow> 'm cm \<Rightarrow> 'm cm access" where
  "cm_kill_brothers env c =
     (if (qmap_mode (prof c) = 0 \<or> qmap_mode (prof c) = 1) \<and>
         (proxy (prof c) = [] \<or> c_strstr (qmichannel (prof c)) (ascii ''_IPCR''))
      then do { ks \<leftarrow> kill_brothers (self_exe env) (self_pid env) (procs env) (qmichannel (prof c));
                Some (c\<lparr>kills := kills c @ ks\<rparr>) }
      else Some c)"

definition qmi_main ::
  "net_os \<Rightarrow> (nat \<Rightarrow> 64 word) \<Rightarrow> nat \<Rightarrow> main_env \<Rightarrow> 'm request_table \<Rightarrow> 'm device_table
     \<Rightarrow> (arrival list \<times> poll_result) list \<Rightarrow> 'm cm \<Rightarrow> 'm main_outcome access" where
  "qmi_main os clock fuel env rt dt inputs c =
     (let c = cm_begin clock c in
      if \<not> signal_pair env then Some (Main_returned (- 1) c)
      else if \<not> control_pair env then Some (Main_returned 0 c)
      else do {
        c \<leftarrow> cm_kill_brothers env c;
        if \<not> thread_created env then Some (Main_returned 0 c)
        else if first_event env \<noteq> Some RIL_INDICATE_DEVICE_CONNECTED then Some (Main_returned 0 c)
        else do {
          (e, c) \<leftarrow> call_prof (dev_init dt) c;
          if e \<noteq> 0 then Some (Main_returned 0 c)
          else do {
            r \<leftarrow> cm_requests fuel rt c;
            (case r of
               None \<Rightarrow> Some Main_waiting
             | Some c \<Rightarrow> do {
                 (quit, c) \<leftarrow> cm_loop os clock rt dt inputs c;
                 if quit then do { c \<leftarrow> main_quit os rt c; Some (Main_returned 0 c) }
                 else Some (Main_running c) }) } } })"

end
