(* ===== verification/Conn_Invariant.thy ===== *)
theory Conn_Invariant
  imports Conn_Manager
begin

text \<open>
  Invariants of the connection manager over all runs of its loop. The contract of a request table
  is the locale \<open>dial_modem\<close>: no operation changes which families are enabled or which
  table is in use. The QMI handlers satisfy it. Under it every call the manager believes to be up
  belongs to an enabled family, and the next attempt to dial is never put off by more
  than a minute.
\<close>

subsection \<open>Partial correctness of accesses\<close>

lemma pred_option_bindI [intro]:
  "pred_option Q m \<Longrightarrow> (\<And>x. Q x \<Longrightarrow> pred_option P (f x)) \<Longrightarrow> pred_option P (Option.bind m f)"
  by (cases m) auto

lemma pred_option_bind_any:
  "(\<And>x. pred_option P (f x)) \<Longrightarrow> pred_option P (Option.bind m f)"
  by (cases m) auto

lemma pred_option_mapI:
  "pred_option (\<lambda>x. P (f x)) m \<Longrightarrow> pred_option P (map_option f m)"
  by (cases m) auto

lemma pred_option_Some_iff:
  "pred_option P m \<longleftrightarrow> (\<forall>x. m = Some x \<longrightarrow> P x)"
  by (cases m) auto

subsection \<open>The mode of a profile\<close>

definition same_mode :: "PROFILE_T \<Rightarrow> PROFILE_T \<Rightarrow> bool" where
  "same_mode p q \<longleftrightarrow> enable_ipv4 q = enable_ipv4 p \<and> enable_ipv6 q = enable_ipv6 p \<and> request_ops q = request_ops p"

lemma same_mode_refl [simp]: "same_mode p p"
  by (simp add: same_mode_def)

lemma same_mode_trans [trans]: "same_mode p q \<Longrightarrow> same_mode q r \<Longrightarrow> same_mode p r"
  by (simp add: same_mode_def)

lemma same_mode_updates [simp]:
  "same_mode p (q\<lparr>ipv4 := a\<rparr>) = same_mode p q" "same_mode p (q\<lparr>ipv6 := b\<rparr>) = same_mode p q"
  "same_mode p (q\<lparr>udhcpc_ip := w\<rparr>) = same_mode p q" "same_mode p (q\<lparr>auth := i\<rparr>) = same_mode p q"
  "same_mode p (q\<lparr>loopback_state := l\<rparr>) = same_mode p q" "same_mode p (q\<lparr>curIpFamily := i\<rparr>) = same_mode p q"
  "same_mode p (q\<lparr>replication_factor := i\<rparr>) = same_mode p q" "same_mode p (q\<lparr>profile_index := i\<rparr>) = same_mode p q"
  "same_mode p (q\<lparr>BaseBandVersion := s\<rparr>) = same_mode p q" "same_mode p (q\<lparr>iptype := i\<rparr>) = same_mode p q"
  "same_mode p (q\<lparr>old_apn := s\<rparr>) = same_mode p q" "same_mode p (q\<lparr>old_user := s\<rparr>) = same_mode p q"
  "same_mode p (q\<lparr>old_password := s\<rparr>) = same_mode p q" "same_mode p (q\<lparr>old_auth := i\<rparr>) = same_mode p q"
  "same_mode p (q\<lparr>old_iptype := i\<rparr>) = same_mode p q"
  "same_mode (p\<lparr>ipv4 := a\<rparr>) q = same_mode p q" "same_mode (p\<lparr>ipv6 := b\<rparr>) q = same_mode p q"
  "same_mode (p\<lparr>auth := i\<rparr>) q = same_mode p q"
  by (simp_all add: same_mode_def)

lemma udhcpc_ipv4_mode: "pred_option (\<lambda>(q, t). same_mode p q) (udhcpc_ipv4 os p t)"
  by (auto simp: udhcpc_ipv4_def Let_def pred_option_Some_iff bind_eq_Some_conv split: prod.splits if_splits)

lemma udhcpc_start_mode: "pred_option (\<lambda>(q, t). same_mode p q) (udhcpc_start os p t)"
  unfolding udhcpc_start_def Let_def
  by (auto split: prod.splits intro: pred_option_bindI [OF udhcpc_ipv4_mode])

subsection \<open>The invariant\<close>

definition link_ok :: "PROFILE_T \<Rightarrow> int \<Rightarrow> bool" where
  "link_ok p link \<longleftrightarrow> link = - 1 \<or> (bit link 4 \<longrightarrow> enable_ipv4 p) \<and> (bit link 6 \<longrightarrow> enable_ipv6 p)"

text \<open>The delays, in milliseconds, after which dialling is allowed again.\<close>

definition delays :: "64 word set" where
  "delays = {0, 1000, 5000, 10000, 20000, 40000, 60000}"

definition cm_ok :: "(nat \<Rightarrow> 64 word) \<Rightarrow> PROFILE_T \<Rightarrow> 'm cm \<Rightarrow> bool" where
  "cm_ok clock p c \<longleftrightarrow>
     same_mode p (prof c) \<and>
     (IPv4ConnectionStatus c = QWDS_PKT_DATA_CONNECTED \<longrightarrow> enable_ipv4 p) \<and>
     (IPv6ConnectionStatus c = QWDS_PKT_DATA_CONNECTED \<longrightarrow> enable_ipv6 p) \<and>
     link_ok p (s_link c) \<and>
     (\<exists>j < readings c. \<exists>d \<in> delays. SetupCallAllowTime c = clock j + d)"

lemma cm_ok_updates [simp]:
  "cm_ok clock p (c\<lparr>modem := m\<rparr>) = cm_ok clock p c"
  "cm_ok clock p (c\<lparr>PSAttachedState := s\<rparr>) = cm_ok clock p c"
  "cm_ok clock p (c\<lparr>SetupCallFail := n\<rparr>) = cm_ok clock p c"
  "cm_ok clock p (c\<lparr>g_donot_exit_when_modem_hangup := i\<rparr>) = cm_ok clock p c"
  "cm_ok clock p (c\<lparr>g_reboot_modem := i\<rparr>) = cm_ok clock p c"
  "cm_ok clock p (c\<lparr>signals := ss\<rparr>) = cm_ok clock p c"
  "cm_ok clock p (c\<lparr>events := es\<rparr>) = cm_ok clock p c"
  "cm_ok clock p (c\<lparr>device_cmds := ds\<rparr>) = cm_ok clock p c"
  "cm_ok clock p (c\<lparr>pending_alarm := a\<rparr>) = cm_ok clock p c"
  "cm_ok clock p (c\<lparr>net := t\<rparr>) = cm_ok clock p c"
  "cm_ok clock p (c\<lparr>kills := ks\<rparr>) = cm_ok clock p c"
  by (simp_all add: cm_ok_def)

lemma cm_ok_mode: "cm_ok clock p c \<Longrightarrow> same_mode p (prof c)"
  by (simp add: cm_ok_def)

lemma cm_ok_prof:
  "cm_ok clock p c \<Longrightarrow> same_mode (prof c) q \<Longrightarrow> cm_ok clock p (c\<lparr>prof := q\<rparr>)"
  by (auto simp: cm_ok_def same_mode_def)

lemma cm_ok_ipv4:
  "cm_ok clock p c \<Longrightarrow> (s = QWDS_PKT_DATA_CONNECTED \<Longrightarrow> enable_ipv4 (prof c)) \<Longrightarrow>
   cm_ok clock p (c\<lparr>IPv4ConnectionStatus := s\<rparr>)"
  by (auto simp: cm_ok_def same_mode_def)

lemma cm_ok_ipv6:
  "cm_ok clock p c \<Longrightarrow> (s = QWDS_PKT_DATA_CONNECTED \<Longrightarrow> enable_ipv6 (prof c)) \<Longrightarrow>
   cm_ok clock p (c\<lparr>IPv6ConnectionStatus := s\<rparr>)"
  by (auto simp: cm_ok_def same_mode_def)

lemma cm_ok_clock:
  assumes "cm_ok clock p c" "clock_msec clock c = (now, c')"
  shows "cm_ok clock p c'" "d \<in> delays \<Longrightarrow> cm_ok clock p (c'\<lparr>SetupCallAllowTime := now + d\<rparr>)"
  using assms by (auto simp: cm_ok_def clock_msec_def less_Suc_eq intro: exI [of _ "readings c"])

lemma cm_ok_send [simp]:
  "cm_ok clock p (send_signo_to_main s c) = cm_ok clock p c"
  "cm_ok clock p (main_send_event_to_qmidevice d c) = cm_ok clock p c"
  "cm_ok clock p (ql_sigaction b c) = cm_ok clock p c"
  by (simp_all add: send_signo_to_main_def main_send_event_to_qmidevice_def ql_sigaction_def)

lemma arrive_ok [simp]: "cm_ok clock p (arrive a c) = cm_ok clock p c"
  by (cases a) simp_all

lemma arrive_all_ok [simp]: "cm_ok clock p (fold arrive as c) = cm_ok clock p c"
  by (induction as arbitrary: c) simp_all

lemma allow_time_delay: "allow_time n * 1000 \<in> delays"
proof (cases "n < 5")
  case True
  then have "unat n = 0 \<or> unat n = 1 \<or> unat n = 2 \<or> unat n = 3 \<or> unat n = 4"
    unfolding word_less_nat_alt by simp linarith
  then show ?thesis
    using True by (elim disjE) (simp_all add: allow_time_def delays_def)
next
  case False
  then show ?thesis
    by (simp add: allow_time_def delays_def)
qed

subsection \<open>Steps that do not call the modem\<close>

lemma link_down_ok [simp]: "link_ok p 0"
  by (simp add: link_ok_def)

lemma usbnet_link_change_ok:
  assumes "cm_ok clock p c" "link_ok p link"
  shows "pred_option (cm_ok clock p) (usbnet_link_change os link c)"
proof -
  have upd: "cm_ok clock p (c\<lparr>s_link := l, prof := q\<rparr>)" if "same_mode (prof c) q" "link_ok p l" for q l
    using assms that by (auto simp: cm_ok_def same_mode_def)
  show ?thesis
    using assms
    by (auto simp: usbnet_link_change_def Let_def udhcpc_stop_def intro!: upd pred_option_bindI [OF udhcpc_start_mode])
qed

lemma link_bits_ok: "cm_ok clock p c \<Longrightarrow> link_ok p (link_bits c)"
  by (auto simp: link_bits_def link_ok_def cm_ok_def bit_simps)

lemma check_link_ok: "cm_ok clock p c \<Longrightarrow> pred_option (cm_ok clock p) (check_link os c)"
  by (simp add: check_link_def usbnet_link_change_ok link_bits_ok)

lemma schedule_retry_ok:
  assumes "cm_ok clock p c" shows "cm_ok clock p (schedule_retry clock c)"
proof -
  have "\<exists>j < Suc (readings c). \<exists>d \<in> delays. allow_time n * 1000 + clock (readings c) = clock j + d" for n
    using allow_time_delay [of n] by (intro exI [of _ "readings c"]) (auto simp: add.commute)
  moreover have "\<exists>j < Suc (readings c). \<exists>d \<in> delays. clock (readings c) = clock j + d"
    by (intro exI [of _ "readings c"]) (auto simp: delays_def)
  ultimately show ?thesis
    using assms by (auto simp: schedule_retry_def clock_msec_def Let_def cm_ok_def)
qed

text \<open>Every state \<^verbatim>\<open>qmi_main\<close> is in after any inputs, and the one it leaves behind.\<close>

definition outcome_ok :: "(nat \<Rightarrow> 64 word) \<Rightarrow> PROFILE_T \<Rightarrow> 'm main_outcome \<Rightarrow> bool" where
  "outcome_ok clock p r = (case r of Main_returned i c \<Rightarrow> cm_ok clock p c | Main_running c \<Rightarrow> cm_ok clock p c | Main_waiting \<Rightarrow> True)"

subsection \<open>The contract of a request table\<close>

locale dial_modem =
  fixes rt :: "'m request_table" and dt :: "'m device_table"
  assumes setup_mode: "pred_option (\<lambda>(e, q, m'). same_mode p q) (op_SetupDataCall rt p f m)"
    and deactivate_mode: "pred_option (\<lambda>(e, q, m'). same_mode p q) (op_DeactivateDefaultPDP rt p f m)"
    and address_mode: "pred_option (\<lambda>(e, q, m'). same_mode p q) (op_GetIPAddress rt p f m)"
    and version_mode: "op_BaseBandVersion rt = Some g \<Longrightarrow> pred_option (\<lambda>(e, q, m'). same_mode p q) (g p m)"
    and eth_mode: "op_SetEthMode rt = Some g \<Longrightarrow> pred_option (\<lambda>(e, q, m'). same_mode p q) (g p m)"
    and set_profile_mode: "op_SetProfile rt = Some g \<Longrightarrow> pred_option (\<lambda>(e, q, m'). same_mode p q) (g p m)"
    and get_profile_mode:
      "op_GetProfile rt = Some h \<Longrightarrow> pred_option (pred_option (\<lambda>(e, q, m'). same_mode p q)) (h p m)"
    and init_mode: "dev_init dt = Some g \<Longrightarrow> pred_option (\<lambda>(e, q, m'). same_mode p q) (g p m)"
begin

lemma call_op_ok:
  assumes "cm_ok clock p c" "\<And>q m. pred_option (\<lambda>(e, q', m'). same_mode q q') (f q family m)"
  shows "pred_option (\<lambda>(e, c'). cm_ok clock p c' \<and> same_mode (prof c) (prof c') \<and>
            IPv4ConnectionStatus c' = IPv4ConnectionStatus c \<and> IPv6ConnectionStatus c' = IPv6ConnectionStatus c)
          (call_op f family c)"
  unfolding call_op_def
  by (rule pred_option_bindI [OF assms(2)]) (auto intro: cm_ok_prof [OF assms(1)])

lemmas setup_ok = call_op_ok [OF _ setup_mode]
  and deactivate_ok = call_op_ok [OF _ deactivate_mode]
  and address_ok = call_op_ok [OF _ address_mode]

lemma call_prof_ok:
  assumes "cm_ok clock p c" "\<And>g q m. f = Some g \<Longrightarrow> pred_option (\<lambda>(e, q', m'). same_mode q q') (g q m)"
  shows "pred_option (\<lambda>(e, c'). cm_ok clock p c') (call_prof f c)"
  using assms(1)
  by (cases f) (auto simp: call_prof_def intro!: pred_option_bindI [OF assms(2)] intro: cm_ok_prof [OF assms(1)])

lemma call_opt_ok: "cm_ok clock p c \<Longrightarrow> pred_option (cm_ok clock p) (call_opt f c)"
  by (auto simp: call_opt_def pred_option_Some_iff bind_eq_Some_conv split: option.splits)

lemma registration_ok: "cm_ok clock p c \<Longrightarrow> pred_option (cm_ok clock p) (call_registration rt c)"
  by (auto simp: call_registration_def pred_option_Some_iff bind_eq_Some_conv)

lemma setup_with_auth_ok:
  assumes "cm_ok clock p c"
  shows "pred_option (\<lambda>(e, c'). cm_ok clock p c' \<and> same_mode (prof c) (prof c')) (setup_with_auth rt c)"
  unfolding setup_with_auth_def
  by (rule pred_option_bindI [OF setup_ok [OF assms]],
      auto simp: Let_def intro!: pred_option_bindI [OF setup_ok] cm_ok_prof, auto simp: same_mode_def)

lemma start_ipv4_ok:
  assumes "cm_ok clock p c" shows "pred_option (cm_ok clock p) (start_ipv4 rt c)"
proof -
  have "pred_option (cm_ok clock p) (Option.bind (call_op (op_GetIPAddress rt) IpFamilyV4 d)
          (\<lambda>(e, c). Some (if e = 0 then c\<lparr>IPv4ConnectionStatus := QWDS_PKT_DATA_CONNECTED\<rparr> else c)))"
    if "cm_ok clock p d" "enable_ipv4 (prof d)" for d
    using that by (auto intro!: pred_option_bindI [OF address_ok] cm_ok_ipv4 simp: same_mode_def)
  then show ?thesis
    unfolding start_ipv4_def using assms
    by (auto intro!: pred_option_bindI [OF setup_with_auth_ok] simp: same_mode_def)
qed

lemma start_ipv6_ok:
  assumes "cm_ok clock p c" shows "pred_option (cm_ok clock p) (start_ipv6 rt c)"
proof -
  have "pred_option (cm_ok clock p) (Option.bind (call_op (op_GetIPAddress rt) IpFamilyV6 d)
          (\<lambda>(e, c). Some (if e = 0 then c\<lparr>IPv6ConnectionStatus := QWDS_PKT_DATA_CONNECTED\<rparr> else c)))"
    if "cm_ok clock p d" "enable_ipv6 (prof d)" for d
    using that by (auto intro!: pred_option_bindI [OF address_ok] cm_ok_ipv6 simp: same_mode_def)
  then show ?thesis
    unfolding start_ipv6_def using assms
    by (auto intro!: pred_option_bindI [OF setup_ok] cm_ok_ipv6 simp: same_mode_def)
qed

lemma sig_start_ok:
  assumes "cm_ok clock p c" shows "pred_option (cm_ok clock p) (sig_start clock rt c)"
proof -
  obtain now d where d: "clock_msec clock c = (now, d)" by force
  obtain now' d' where d': "clock_msec clock d = (now', d')" by force
  have ok: "cm_ok clock p d" "cm_ok clock p d'"
    using cm_ok_clock(1) [OF assms d] cm_ok_clock(1) [OF _ d'] by auto
  have "pred_option (cm_ok clock p) (do { c \<leftarrow> start_ipv4 rt d; c \<leftarrow> start_ipv6 rt c; Some (schedule_retry clock c) })"
    by (rule pred_option_bindI [OF start_ipv4_ok [OF ok(1)]], rule pred_option_bindI [OF start_ipv6_ok])
       (auto intro: schedule_retry_ok)
  then show ?thesis
    using assms ok by (simp add: sig_start_def d d' Let_def)
qed

lemma check_ipv4_address_ok:
  assumes "cm_ok clock p c"
  shows "pred_option (\<lambda>(b, c'). cm_ok clock p c') (check_ipv4_address rt c)"
  using assms by (auto simp: check_ipv4_address_def Let_def intro!: pred_option_bindI [OF address_ok])

lemma missing_address_ok:
  assumes "cm_ok clock p c" shows "pred_option (cm_ok clock p) (missing_address rt c)"
  using assms by (auto simp: missing_address_def intro!: pred_option_bindI [OF address_ok] cm_ok_ipv4)

lemma changed_address_ok:
  assumes "cm_ok clock p c" shows "pred_option (cm_ok clock p) (changed_address rt c)"
  using assms unfolding changed_address_def
  by (auto intro!: pred_option_bindI [OF check_ipv4_address_ok] pred_option_bindI [OF deactivate_ok] cm_ok_ipv4)

lemma check_ipv4_ok:
  assumes "cm_ok clock p c" shows "pred_option (cm_ok clock p) (check_ipv4 rt c)"
proof (cases "enable_ipv4 (prof c) \<and> IPv4ConnectionStatus c \<noteq> QWDS_PKT_DATA_DISCONNECTED")
  case True
  have q: "cm_ok clock p (c\<lparr>IPv4ConnectionStatus := s, modem := m\<rparr>)" for s m
    using True by (simp add: cm_ok_ipv4 [OF assms])
  have "pred_option (cm_ok clock p)
     (if e = 0 then do { c \<leftarrow> missing_address rt d; changed_address rt c }
      else Some (d\<lparr>IPv4ConnectionStatus := QWDS_PKT_DATA_DISCONNECTED\<rparr>))" if "cm_ok clock p d" for d and e :: int
    using that by (auto intro!: cm_ok_ipv4 pred_option_bindI [OF missing_address_ok] changed_address_ok)
  from this [OF q] show ?thesis
    using True unfolding check_ipv4_def Let_def by (simp add: pred_option_bind_any case_prod_beta)
next
  case False
  then show ?thesis
    by (auto simp: check_ipv4_def intro!: cm_ok_ipv4 [OF assms])
qed

lemma check_ipv6_ok:
  assumes "cm_ok clock p c" shows "pred_option (cm_ok clock p) (check_ipv6 rt c)"
  unfolding check_ipv6_def
  by (auto simp: pred_option_Some_iff bind_eq_Some_conv intro!: cm_ok_ipv6 [OF assms])

lemma sig_check_ok:
  assumes "cm_ok clock p c" shows "pred_option (cm_ok clock p) (sig_check os rt c)"
  unfolding sig_check_def
  by (intro pred_option_bindI [where Q = "cm_ok clock p"];
      (rule call_opt_ok [OF assms] | erule call_opt_ok check_ipv4_ok check_ipv6_ok check_link_ok)?; simp add: registration_ok)

lemma deactivate_if_ok:
  assumes "cm_ok clock p c"
  shows "pred_option (cm_ok clock p)
     (if b then map_option snd (call_op (op_DeactivateDefaultPDP rt) family c) else Some c)"
  using assms deactivate_ok [OF assms] by (cases b) (auto simp: pred_option_Some_iff)

lemma sig_stop_ok:
  assumes "cm_ok clock p c" shows "pred_option (cm_ok clock p) (sig_stop os rt dt c)"
  unfolding sig_stop_def
  by (intro pred_option_bindI [where Q = "cm_ok clock p"]; (rule deactivate_if_ok [OF assms] |
      erule deactivate_if_ok | rule usbnet_link_change_ok | erule call_opt_ok)?; simp)

lemma main_quit_ok:
  assumes "cm_ok clock p c" shows "pred_option (cm_ok clock p) (main_quit os rt c)"
  unfolding main_quit_def
  by (intro pred_option_bindI [where Q = "cm_ok clock p"]; (rule deactivate_if_ok [OF assms] |
      erule deactivate_if_ok | rule usbnet_link_change_ok)?; simp)

lemma device_event_ok:
  assumes "cm_ok clock p c" shows "pred_option (\<lambda>(q, c'). cm_ok clock p c') (device_event clock rt ev c)"
proof -
  have t: "cm_ok clock p (snd (clock_msec clock e)\<lparr>SetupCallAllowTime := fst (clock_msec clock e)\<rparr>)"
      "cm_ok clock p (snd (clock_msec clock e)\<lparr>SetupCallAllowTime := fst (clock_msec clock e) + 1000\<rparr>)"
    if "cm_ok clock p e" for e
    using cm_ok_clock(2) [OF that, of "fst (clock_msec clock e)" "snd (clock_msec clock e)" 0]
      cm_ok_clock(2) [OF that, of "fst (clock_msec clock e)" "snd (clock_msec clock e)" 1000]
    by (auto simp: delays_def)
  moreover have "cm_ok clock p (c\<lparr>prof := (prof c)\<lparr>loopback_state := x, replication_factor := y\<rparr>\<rparr>)" for x y
    by (simp add: cm_ok_prof [OF assms])
  ultimately show ?thesis
    using assms
    by (auto simp: device_event_def Let_def case_prod_beta split: cm_event.splits
             intro!: pred_option_bindI [OF registration_ok])
       (auto simp: pred_option_Some_iff bind_eq_Some_conv split: if_splits)
qed

lemma reboot_ok:
  "cm_ok clock p c \<Longrightarrow> pred_option (\<lambda>(q, c'). cm_ok clock p c') (reboot_requested rt c)"
  by (auto simp: reboot_requested_def Let_def pred_option_Some_iff bind_eq_Some_conv split: option.splits if_splits)

lemma read_signal_ok:
  assumes "cm_ok clock p c" shows "pred_option (\<lambda>(q, c'). cm_ok clock p c') (read_signal os clock rt dt c)"
proof (cases "signals c")
  case (Cons s ss)
  have "cm_ok clock p (c\<lparr>signals := ss, pending_alarm := 0\<rparr>)"
    using assms by simp
  from sig_start_ok [OF this] sig_check_ok [OF this] sig_stop_ok [OF this] show ?thesis
    by (simp add: read_signal_def Cons option.pred_map comp_def Let_def split: sig_event.split)
qed (simp add: read_signal_def assms)

lemma read_event_ok:
  assumes "cm_ok clock p c" shows "pred_option (\<lambda>(q, c'). cm_ok clock p c') (read_event clock rt c)"
  using assms by (cases "events c") (simp_all add: read_event_def device_event_ok)

lemma poll_fd_ok:
  assumes "cm_ok clock p c" "\<And>c. cm_ok clock p c \<Longrightarrow> pred_option (\<lambda>(q, c'). cm_ok clock p c') (rd c)"
  shows "pred_option (\<lambda>(q, c'). cm_ok clock p c') (poll_fd rt rd r input c)"
proof -
  have "pred_option (\<lambda>(q, c'). cm_ok clock p c')
          (do { (quit, c) \<leftarrow> reboot_requested rt d; if quit then Some (True, c) else rd c })" if "cm_ok clock p d" for d
    by (rule pred_option_bindI [OF reboot_ok [OF that]]) (auto simp: assms(2))
  then show ?thesis
    using assms(1) by (simp add: poll_fd_def Let_def)
qed

lemma cm_turn_ok:
  assumes "cm_ok clock p c" shows "pred_option (\<lambda>(q, c'). cm_ok clock p c') (cm_turn os clock rt dt i c)"
proof (cases "snd i")
  case (Polled r1 r2)
  define d where "d = fold arrive (fst i) c"
  have "cm_ok clock p d"
    using assms by (simp add: d_def)
  then show ?thesis
    by (auto simp: cm_turn_def Polled Let_def read_event_ok simp flip: d_def
             intro!: pred_option_bindI [OF poll_fd_ok [OF _ read_signal_ok]] poll_fd_ok)
qed (simp add: cm_turn_def assms)

lemma cm_loop_ok:
  "cm_ok clock p c \<Longrightarrow> pred_option (\<lambda>(q, c'). cm_ok clock p c') (cm_loop os clock rt dt inputs c)"
proof (induction inputs arbitrary: c)
  case (Cons i inputs)
  show ?case
    unfolding cm_loop.simps
    by (rule pred_option_bindI [OF cm_turn_ok [OF Cons.prems]]) (auto simp: Cons.IH)
qed simp

lemma loopback_setup_ok:
  assumes "cm_ok clock p c" shows "pred_option (cm_ok clock p) (loopback_setup rt c)"
proof -
  have "cm_ok clock p (c\<lparr>modem := m, prof := (prof c)\<lparr>loopback_state := 0\<rparr>\<rparr>)" for m
    using cm_ok_prof [of clock p "c\<lparr>modem := m\<rparr>" "(prof c)\<lparr>loopback_state := 0\<rparr>"] assms by simp
  then show ?thesis
    using assms by (auto simp: loopback_setup_def Let_def pred_option_Some_iff bind_eq_Some_conv split: option.splits if_splits)
qed

lemma get_profile_ok:
  assumes "cm_ok clock p c" shows "pred_option (pred_option (cm_ok clock p)) (get_profile rt c)"
proof (cases "op_GetProfile rt")
  case (Some h)
  show ?thesis
    unfolding get_profile_def Some option.case
    by (rule pred_option_bindI [OF get_profile_mode [OF Some]])
       (auto simp: pred_option_Some_iff intro!: cm_ok_prof [OF assms])
qed (simp add: get_profile_def assms)

lemma enter_pin_ok: "cm_ok clock p c \<Longrightarrow> pred_option (cm_ok clock p) (enter_pin rt s c)"
  using call_opt_ok [of clock p c] by (auto simp: enter_pin_def split: option.split)

lemma sim_query_ok:
  assumes "cm_ok clock p c" shows "pred_option (pred_option (\<lambda>(s, c). cm_ok clock p c)) (sim_query fuel rt c)"
proof (cases "op_GetSIMStatus rt")
  case (Some f)
  have "pred_option (\<lambda>_. True) (sim_status_loop fuel f SIM_ABSENT (modem c))"
    by (simp add: pred_option_Some_iff)
  then show ?thesis
    unfolding sim_query_def Some option.case
    by (rule pred_option_bindI)
       (auto split: option.split intro!: pred_option_bindI [OF enter_pin_ok] simp: assms)
qed (simp add: sim_query_def assms)

lemma sim_setup_ok:
  assumes "cm_ok clock p c" shows "pred_option (pred_option (cm_ok clock p)) (sim_setup fuel rt c)"
  unfolding sim_setup_def
  by (rule pred_option_bindI [OF sim_query_ok [OF assms]])
     (auto split: option.split intro!: pred_option_bindI [OF call_opt_ok])

lemma stale_call_ok:
  assumes "cm_ok clock p c" shows "pred_option (cm_ok clock p) (stale_call rt c)"
proof (cases "enable_ipv4 (prof c)")
  case True
  have q: "cm_ok clock p (c\<lparr>IPv4ConnectionStatus := s, modem := m\<rparr>)" for s m
    using True by (simp add: cm_ok_ipv4 [OF assms])
  have "pred_option (\<lambda>_. True) (op_QueryDataCall rt (IPv4ConnectionStatus c) IpFamilyV4 (modem c))"
    by (simp add: pred_option_Some_iff)
  then have "pred_option (cm_ok clock p)
      (do { (e, s, m) \<leftarrow> op_QueryDataCall rt (IPv4ConnectionStatus c) IpFamilyV4 (modem c);
            let c = c\<lparr>IPv4ConnectionStatus := s, modem := m\<rparr>;
            if e = 0 \<and> s = QWDS_PKT_DATA_CONNECTED
            then map_option snd (call_op (op_DeactivateDefaultPDP rt) IpFamilyV4 c) else Some c })"
    by (rule pred_option_bindI) (unfold case_prod_beta Let_def, rule deactivate_if_ok [OF q])
  then show ?thesis
    using assms by (simp add: stale_call_def)
qed (simp add: stale_call_def assms)

lemma cm_requests_ok:
  assumes "cm_ok clock p c" shows "pred_option (pred_option (cm_ok clock p)) (cm_requests fuel rt c)"
proof -
  have s: "pred_option (pred_option (cm_ok clock p))
      (do { (e, c) \<leftarrow> call_prof f d;
            c \<leftarrow> call_registration rt c; c \<leftarrow> stale_call rt c;
            Some (Some (send_signo_to_main SIG_EVENT_CHECK c)) })"
    if "cm_ok clock p d" "f = op_SetProfile rt \<or> f = None" for f d
    by (rule pred_option_bindI [OF call_prof_ok [OF that(1)]])
       (use that(2) in \<open>auto intro: set_profile_mode [OF sym]
          intro!: pred_option_bindI [OF registration_ok] pred_option_bindI [OF stale_call_ok]\<close>)
  show ?thesis
    unfolding cm_requests_def
    apply (rule pred_option_bindI [OF call_prof_ok [OF assms]], erule version_mode, clarsimp)
    apply (rule pred_option_bindI [OF call_prof_ok], assumption, erule eth_mode, clarsimp)
    apply (rule pred_option_bindI [OF loopback_setup_ok], assumption)
    apply (rule pred_option_bindI [OF call_opt_ok], assumption)
    apply (rule pred_option_bindI [OF sim_setup_ok], assumption)
    apply (auto split: option.split intro!: pred_option_bindI [OF get_profile_ok] s)
    done
qed

lemma cm_begin_ok: "link_ok (prof c) (s_link c) \<Longrightarrow> cm_ok clock (prof c) (cm_begin clock c)"
  by (auto simp: cm_begin_def clock_msec_def cm_ok_def delays_def intro!: exI [of _ "readings c"])

lemma kill_brothers_ok: "cm_ok clock p c \<Longrightarrow> pred_option (cm_ok clock p) (cm_kill_brothers env c)"
  by (auto simp: cm_kill_brothers_def pred_option_Some_iff bind_eq_Some_conv)

lemma qmi_main_ok:
  assumes "link_ok (prof c) (s_link c)"
  shows "pred_option (outcome_ok clock (prof c)) (qmi_main os clock fuel env rt dt inputs c)"
proof -
  define p where "p = prof c"
  have run: "pred_option (outcome_ok clock p)
      (do { (quit, c) \<leftarrow> cm_loop os clock rt dt inputs d;
            if quit then do { c \<leftarrow> main_quit os rt c; Some (Main_returned 0 c) } else Some (Main_running c) })"
    if "cm_ok clock p d" for d
    by (rule pred_option_bindI [OF cm_loop_ok [OF that]])
       (auto simp: outcome_ok_def intro!: pred_option_bindI [OF main_quit_ok])
  have init: "pred_option (outcome_ok clock p)
      (do { (e, c) \<leftarrow> call_prof (dev_init dt) d;
            if e \<noteq> 0 then Some (Main_returned 0 c)
            else do { r \<leftarrow> cm_requests fuel rt c;
              (case r of None \<Rightarrow> Some Main_waiting
               | Some c \<Rightarrow> do { (quit, c) \<leftarrow> cm_loop os clock rt dt inputs c;
                   if quit then do { c \<leftarrow> main_quit os rt c; Some (Main_returned 0 c) } else Some (Main_running c) }) } })"
    if "cm_ok clock p d" for d
    apply (rule pred_option_bindI [OF call_prof_ok [OF that]], erule init_mode)
    apply (auto simp: outcome_ok_def split: option.split intro!: pred_option_bindI [OF cm_requests_ok [where clock = clock and p = p]] run)
    done
  have "cm_ok clock p (cm_begin clock c)"
    using cm_begin_ok [OF assms] by (simp add: p_def)
  then show ?thesis
    unfolding qmi_main_def Let_def p_def [symmetric]
    by (auto simp: outcome_ok_def intro!: pred_option_bindI [OF kill_brothers_ok] init)
qed

end

end
