(* ===== verification/Net_Props.thy ===== *)
theory Net_Props
  imports Net_Config
begin

text \<open>
  What the configuration of the interface guarantees: addresses as text and back, prefix lengths, the commands of a
  static configuration, the contents of \<^verbatim>\<open>/etc/resolv.conf\<close>.
\<close>

subsection \<open>Decimal numbers\<close>

lemma dec_digit:
  assumes "n < 10" shows "c_isdigit (of_nat (48 + n))" and "uint (of_nat (48 + n) :: byte) = 48 + int n"
proof -
  have u: "unat (of_nat (48 + n) :: byte) = 48 + n" using assms by (simp only: unat_of_nat_byte) simp
  then show "uint (of_nat (48 + n) :: byte) = 48 + int n" by (simp only: uint_nat)
  show "c_isdigit (of_nat (48 + n))" using assms by (simp only: c_isdigit_def word_le_nat_alt u) simp
qed

lemma dec_of_digits: "c \<in> set (dec_of n) \<Longrightarrow> c_isdigit c"
proof (induction n rule: dec_of.induct)
  case (1 n)
  show ?case using "1.prems" "1.IH" dec_digit(1) [of n] dec_digit(1) [of "n mod 10"]
    by (subst (asm) dec_of.simps) (auto split: if_splits)
qed

lemma digits_value_snoc: "digits_value (ds @ [c]) = 10 * digits_value ds + (uint c - 48)"
  by (simp add: digits_value_def)

lemma digits_value_dec_of: "digits_value (dec_of n) = int n"
proof (induction n rule: dec_of.induct)
  case (1 n)
  show ?case
  proof (cases "n < 10")
    case True
    then show ?thesis using dec_digit(2) [OF True] by (subst dec_of.simps) (simp only: digits_value_def, simp)
  next
    case False
    have "int (n mod 10) + 10 * int (n div 10) = int n" by (metis mod_mult_div_eq of_nat_add of_nat_mult of_nat_numeral)
    then show ?thesis using False 1 dec_digit(2) [of "n mod 10"]
      by (subst dec_of.simps) (simp only: if_False digits_value_snoc, simp)
  qed
qed

lemma length_dec_of: "n < 10 ^ k \<Longrightarrow> 0 < k \<Longrightarrow> length (dec_of n) \<le> k"
proof (induction k arbitrary: n)
  case (Suc k)
  show ?case
  proof (cases "n < 10")
    case True
    then show ?thesis by (subst dec_of.simps) simp
  next
    case False
    then have "0 < k" using Suc.prems by (cases k) auto
    moreover have "n div 10 < 10 ^ k" using Suc.prems(1) by (simp add: div_less_iff_less_mult mult.commute)
    ultimately show ?thesis using Suc.IH [of "n div 10"] False by (subst dec_of.simps) simp
  qed
qed simp

lemma dec_of_byte: "length (dec_of (unat (b :: byte))) \<le> 3"
  using length_dec_of [of "unat b" 3] unat_byte_lt [of b] by simp

lemma dec_of_no_sep: "\<not> c_isdigit d \<Longrightarrow> d \<notin> set (dec_of n)"
  using dec_of_digits by blast

subsection \<open>IPv4 addresses\<close>

fun split_on :: "byte \<Rightarrow> cstr \<Rightarrow> cstr list" where
  "split_on d [] = [[]]"
| "split_on d (c # cs) = (if c = d then [] # split_on d cs
     else (case split_on d cs of [] \<Rightarrow> [[c]] | x # xs \<Rightarrow> (c # x) # xs))"

lemma split_on_none: "d \<notin> set xs \<Longrightarrow> split_on d xs = [xs]"
  by (induction xs) auto

lemma split_on_first: "d \<notin> set xs \<Longrightarrow> split_on d (xs @ d # ys) = xs # split_on d ys"
  by (induction xs) auto

text \<open>The dotted decimal notation read back, four numbers with the most significant first.\<close>

definition parse_ipv4 :: "cstr \<Rightarrow> u32" where
  "parse_ipv4 s = (case map (\<lambda>d. of_int (digits_value d)) (split_on 46 s) of
                     [a, b, c, d] \<Rightarrow> le32 d c b a | _ \<Rightarrow> 0)"

lemma ipv4Str_full:
  "ipv4Str a = dec_of (unat (bytes32 a ! 3)) @ 46 # dec_of (unat (bytes32 a ! 2)) @ 46 #
     dec_of (unat (bytes32 a ! 1)) @ 46 # dec_of (unat (bytes32 a ! 0))"
  and length_ipv4Str: "length (ipv4Str a) \<le> 15"
proof -
  let ?s = "dec_of (unat (bytes32 a ! 3)) @ 46 # dec_of (unat (bytes32 a ! 2)) @ 46 #
     dec_of (unat (bytes32 a ! 1)) @ 46 # dec_of (unat (bytes32 a ! 0))"
  have l: "length ?s \<le> 15"
    using dec_of_byte [of "bytes32 a ! 3"] dec_of_byte [of "bytes32 a ! 2"] dec_of_byte [of "bytes32 a ! 1"]
      dec_of_byte [of "bytes32 a ! 0"] by simp
  then show "ipv4Str a = ?s" by (simp add: ipv4Str_def snprintf_def Let_def)
  with l show "length (ipv4Str a) \<le> 15" by simp
qed

text \<open>The text of an IPv4 address that is put into shell commands and \<^verbatim>\<open>/etc/resolv.conf\<close> is never cut off by its buffer of
  16 bytes, and reading the four numbers back gives the address.\<close>

theorem ipv4_text_roundtrip: "length (ipv4Str a) \<le> 15 \<and> parse_ipv4 (ipv4Str a) = a"
proof -
  have "(46 :: byte) \<notin> set (dec_of n)" for n by (rule dec_of_no_sep) (simp add: c_isdigit_def)
  then have "split_on 46 (ipv4Str a) = map (\<lambda>i. dec_of (unat (bytes32 a ! i))) [3, 2, 1, 0]"
    by (simp add: ipv4Str_full split_on_first split_on_none)
  then show ?thesis using le32_bytes32 [of a] length_ipv4Str
    by (simp add: parse_ipv4_def digits_value_dec_of)
qed

subsection \<open>Prefix lengths\<close>

definition netmask :: "nat \<Rightarrow> u32" where
  "netmask k = push_bit (32 - k) (- 1)"

lemma bit_netmask: "bit (netmask k) n \<longleftrightarrow> 32 - k \<le> n \<and> n < 32"
  by (auto simp: netmask_def bit_simps)

lemma mask_bits_netmask: "k \<le> 32 \<Longrightarrow> mask_bits (netmask k) = k"
proof -
  assume k: "k \<le> 32"
  have "(m AND push_bit n 1 \<noteq> (0 :: u32)) = bit m n" for m :: u32 and n
    by (simp add: bit_iff_and_push_bit_not_eq_0)
  then have "mask_bits (netmask k) = length (filter (\<lambda>n. 32 - k \<le> n) [0..<32])"
    unfolding mask_bits_def by (intro arg_cong [of _ _ length] filter_cong) (auto simp: bit_netmask)
  also have "[0..<32] = [0..<32 - k] @ [32 - k..<32]" using upt_add_eq_append [of 0 "32 - k" k] k by simp
  also have "filter (\<lambda>n. 32 - k \<le> n) ([0..<32 - k] @ [32 - k..<32]) = [32 - k..<32]"
    by (auto simp: filter_empty_conv filter_id_conv)
  finally show ?thesis using k by simp
qed

lemma prefix_mask_netmask: "1 \<le> k \<Longrightarrow> k \<le> 32 \<Longrightarrow> prefix_mask k = Some (netmask k)"
  by (auto simp: prefix_mask_def netmask_def bit_eq_iff bit_simps)

lemma static_commands:
  assumes "can_exec os (ascii ''/sbin/ip'')" and "Address4 i \<noteq> 0" and "mask_bits (SubnetMask4 i) = k" and "k \<le> 32"
    and "DnsPrimary4 i = 0" and "length ifname \<le> 31"
  shows "update_ip_address_by_qmi os ifname (Some i) None t = Some (t @
    [Shell (ascii ''ip -4 address flush dev '' @ ifname),
     Shell (ascii ''ip -4 address add '' @ ipv4Str (Address4 i) @ ascii ''/'' @ dec_of k @ ascii '' dev '' @ ifname),
     Shell (ascii ''ip -4 route add default via '' @ ipv4Str (Gateway4 i) @ ascii '' dev '' @ ifname)])"
proof -
  have "length (dec_of k) \<le> 2" using length_dec_of [of k 2] assms(4) by simp
  then show ?thesis
    using assms length_ipv4Str [of "Address4 i"] length_ipv4Str [of "Gateway4 i"]
    by (simp add: update_ip_address_by_qmi_def update_ipv4_by_qmi_def update_ipv4_address_def ql_system_def snprintf_def)
qed

definition sample_net :: "buf \<Rightarrow> net_os" where
  "sample_net c = \<lparr>can_exec = (\<lambda>_. True), sys_file = (\<lambda>_ _. Content c), if_addr = (\<lambda>_ _. None), if_mtu = (\<lambda>_ _. None),
     if_up = (\<lambda>_ _. False), can_write = (\<lambda>_. True), route_dels = 0\<rparr>"

subsection \<open>Name servers\<close>

definition line_ok :: "cstr \<Rightarrow> bool" where
  "line_ok l \<longleftrightarrow> l \<noteq> [] \<and> length l \<le> 253 \<and> 10 \<notin> set l \<and> 0 \<notin> set l"

lemma fgets_split_line: "10 \<notin> set l \<Longrightarrow> length l < n \<Longrightarrow> fgets_split n (l @ 10 # r) = (l @ [10], r)"
proof (induction l arbitrary: n)
  case Nil
  then show ?case by (cases n) auto
next
  case (Cons c l)
  then show ?case by (cases n) auto
qed

lemma cstr_of_no_zero: "0 \<notin> set l \<Longrightarrow> cstr_of l = l"
  by (auto simp: cstr_of_def takeWhile_eq_all_conv)

lemma read_line: "line_ok l \<Longrightarrow> chomp (cstr_of (fst (fgets_split 254 (l @ 10 # r)))) = l \<and> snd (fgets_split 254 (l @ 10 # r)) = r"
  by (auto simp: fgets_split_line line_ok_def cstr_of_no_zero chomp_def)

lemma resolv_read_lines:
  "list_all line_ok ls \<Longrightarrow> i < 16 \<Longrightarrow>
     fst (resolv_read tag i hit (text_file ls)) = take (16 - i) (filter (\<lambda>l. \<not> c_strstr l tag) ls)"
proof (induction ls arbitrary: i hit)
  case Nil
  then show ?case by (subst resolv_read.simps) (simp add: text_file_def)
next
  case (Cons l ls)
  have f: "text_file (l # ls) = l @ 10 # text_file ls" by (simp add: text_file_def)
  have r: "chomp (cstr_of (fst (fgets_split 254 (text_file (l # ls))))) = l" "snd (fgets_split 254 (text_file (l # ls))) = text_file ls"
    using read_line [of l "text_file ls"] Cons.prems(1) by (simp_all add: f)
  have "resolv_read tag i hit (text_file (l # ls)) =
     (if c_strstr l tag then resolv_read tag i True (text_file ls)
      else if i + 1 = 16 then ([l], hit)
      else (case resolv_read tag (i + 1) hit (text_file ls) of (ls, h) \<Rightarrow> (l # ls, h)))"
    by (subst resolv_read.simps) (simp add: r Let_def, simp add: f)
  then show ?case using Cons.IH [of i True] Cons.IH [of "i + 1" hit] Cons.prems
    by (auto simp: case_prod_unfold Suc_diff_Suc take_Cons')
qed

lemma c_strstr_suffix: "c_strstr (xs @ n) n"
proof (induction xs)
  case Nil
  then show ?case by (cases n) auto
qed auto

lemma nameserver_tagged: "c_strstr (nameserver_line tag d) tag"
  using c_strstr_suffix [of "ascii ''nameserver '' @ d @ ascii '' ''" tag] by (simp add: nameserver_line_def)

definition keep_lines :: "cstr \<Rightarrow> cstr list \<Rightarrow> cstr list" where
  "keep_lines tag ls = take 16 (filter (\<lambda>l. \<not> c_strstr l tag) ls)"

lemma update_resolv_lines:
  assumes "sys_file os t resolv_conf = Content (text_file ls)" and "can_write os resolv_conf" and "list_all line_ok ls"
  shows "update_resolv_conf os v ifname (Some d1) d2 t = t @ [WriteFile resolv_conf (text_file
     (map (nameserver_line (dns_tag v ifname)) (dns_list (Some d1) d2) @ keep_lines (dns_tag v ifname) ls))]"
  using resolv_read_lines [OF assms(3), of 0] assms(1,2)
  by (simp add: update_resolv_conf_def case_prod_unfold Let_def keep_lines_def)



lemma keep_lines_tagged:
  "keep_lines tag (map (nameserver_line tag) ds @ keep_lines tag ls) = keep_lines tag ls"
proof -
  have "filter (\<lambda>l. \<not> c_strstr l tag) (map (nameserver_line tag) ds) = []" by (auto simp: filter_empty_conv nameserver_tagged)
  moreover have "filter (\<lambda>l. \<not> c_strstr l tag) (take 16 (filter (\<lambda>l. \<not> c_strstr l tag) ls))
      = take 16 (filter (\<lambda>l. \<not> c_strstr l tag) ls)"
    by (rule filter_True) (auto dest: in_set_takeD)
  ultimately show ?thesis by (simp add: keep_lines_def)
qed

lemma digits_clean: "(10 :: byte) \<notin> set (dec_of n)" "(0 :: byte) \<notin> set (dec_of n)"
  by (rule dec_of_no_sep, simp add: c_isdigit_def)+

lemma nameserver_line_ok:
  assumes "10 \<notin> set ifname" and "0 \<notin> set ifname"
  shows "line_ok (nameserver_line (dns_tag v ifname) (ipv4Str a))"
proof -
  have "set (dns_tag v ifname) \<subseteq> set (ascii ''# IPV'' @ dec_of v @ ascii '' '' @ ifname)"
    unfolding dns_tag_def snprintf_def by (rule set_take_subset)
  then have "10 \<notin> set (dns_tag v ifname)" "0 \<notin> set (dns_tag v ifname)"
    using assms digits_clean by (auto simp: ascii_def)
  moreover have "10 \<notin> set (ipv4Str a)" "0 \<notin> set (ipv4Str a)" by (simp_all add: ipv4Str_full digits_clean)
  moreover have "length (dns_tag v ifname) \<le> 63" by (simp add: dns_tag_def snprintf_def)
  ultimately show ?thesis using length_ipv4Str [of a] by (simp add: line_ok_def nameserver_line_def ascii_def)
qed



text \<open>The tag of an interface is contained in the tag of every interface whose name it is a prefix of: setting the servers of
  \<^verbatim>\<open>wwan0\<close> removes the ones of \<^verbatim>\<open>wwan0_1\<close>.\<close>

lemma c_strstr_middle: "c_strstr (xs @ n @ ys) n"
proof (induction xs)
  case Nil
  then show ?case by (cases n; cases ys) auto
qed auto

lemma resolv_tag_clash:
  assumes "length (ascii ''# IPV'' @ dec_of v @ ascii '' '' @ ifname @ suffix) \<le> 63"
  shows "c_strstr (nameserver_line (dns_tag v (ifname @ suffix)) d) (dns_tag v ifname)"
  using assms c_strstr_middle [of "ascii ''nameserver '' @ d @ ascii '' ''" "ascii ''# IPV'' @ dec_of v @ ascii '' '' @ ifname" suffix]
  by (simp add: dns_tag_def snprintf_def nameserver_line_def)

end
