(* ===== verification/At_Tok.thy ===== *)
theory At_Tok
  imports Net_Props
begin

text \<open>
  The tokenizer of AT response lines (\<^verbatim>\<open>at_tok.c\<close>). A cursor \<^verbatim>\<open>char *\<close> is the rest of the line or \<open>None\<close>
  for \<^verbatim>\<open>NULL\<close>. \<^verbatim>\<open>strsep\<close> cuts the line at the delimiter by storing a terminator there, which changes
  neither the tokens returned before nor the rest. \<^verbatim>\<open>long\<close> has 64 bits and \<^verbatim>\<open>int\<close> 32.
\<close>

type_synonym cursor = "cstr option"

subsection \<open>The C library\<close>

text \<open>\<^verbatim>\<open>strsep\<close> with one delimiter: the token, and the rest behind the delimiter or \<^verbatim>\<open>NULL\<close>.\<close>

definition strsep :: "byte \<Rightarrow> cstr \<Rightarrow> cstr \<times> cursor" where
  "strsep d s = (let t = takeWhile (\<lambda>c. c \<noteq> d) s
                 in (t, if length t < length s then Some (drop (length t + 1) s) else None))"

definition digit_value :: "byte \<Rightarrow> int option" where
  "digit_value c = (if 48 \<le> c \<and> c \<le> 57 then Some (uint c - 48)
                    else if 97 \<le> c \<and> c \<le> 122 then Some (uint c - 87)
                    else if 65 \<le> c \<and> c \<le> 90 then Some (uint c - 55) else None)"

definition is_digit_in :: "int \<Rightarrow> byte \<Rightarrow> bool" where
  "is_digit_in base c = (case digit_value c of None \<Rightarrow> False | Some v \<Rightarrow> v < base)"

definition digits_in :: "int \<Rightarrow> cstr \<Rightarrow> int" where
  "digits_in base ds = foldl (\<lambda>a c. base * a + (case digit_value c of None \<Rightarrow> 0 | Some v \<Rightarrow> v)) 0 ds"

text \<open>The sign and the digits of a number after white space; in base 16 an \<^verbatim>\<open>0x\<close> that is followed by a digit is skipped.
  The result is \<open>None\<close> if there is no digit (\<^verbatim>\<open>end == nptr\<close>), otherwise the sign and the exact value.\<close>

definition strto_exact :: "int \<Rightarrow> cstr \<Rightarrow> (bool \<times> int) option" where
  "strto_exact base s =
     (let r = dropWhile c_isspace s;
          neg = (r \<noteq> [] \<and> hd r = 45);
          r = (if r \<noteq> [] \<and> (hd r = 45 \<or> hd r = 43) then tl r else r);
          r = (if base = 16 \<and> 2 < length r \<and> r ! 0 = 48 \<and> (r ! 1 = 120 \<or> r ! 1 = 88) \<and> is_digit_in 16 (r ! 2)
               then drop 2 r else r);
          ds = takeWhile (is_digit_in base) r
      in if ds = [] then None else Some (neg, digits_in base ds))"

text \<open>\<^verbatim>\<open>strtol\<close> and \<^verbatim>\<open>strtoul\<close> as the C library defines them, with the value they give out of range.\<close>

definition strtol :: "int \<Rightarrow> cstr \<Rightarrow> int option" where
  "strtol base s = map_option (\<lambda>(neg, v). max (- (2 ^ 63)) (min (2 ^ 63 - 1) (if neg then - v else v))) (strto_exact base s)"

definition strtoul :: "int \<Rightarrow> cstr \<Rightarrow> int option" where
  "strtoul base s = map_option (\<lambda>(neg, v). if v > 2 ^ 64 - 1 then 2 ^ 64 - 1 else if neg then (- v) mod 2 ^ 64 else v)
                      (strto_exact base s)"

text \<open>\<^verbatim>\<open>(int)l\<close>\<close>

definition c_int :: "int \<Rightarrow> int" where
  "c_int l = sint (word_of_int l :: u32)"

subsection \<open>Tokens\<close>

definition at_tok_start :: "cursor \<Rightarrow> int \<times> cursor" where
  "at_tok_start p_cur =
     (case p_cur of
        None \<Rightarrow> (- 1, None)
      | Some s \<Rightarrow> if 58 \<in> set s then (0, Some (tl (dropWhile (\<lambda>c. c \<noteq> 58) s))) else (- 1, None))"

definition skipWhiteSpace :: "cursor \<Rightarrow> cursor" where
  "skipWhiteSpace p_cur = map_option (dropWhile c_isspace) p_cur"

definition skipNextComma :: "cursor \<Rightarrow> cursor" where
  "skipNextComma p_cur = map_option (\<lambda>s. let r = dropWhile (\<lambda>c. c \<noteq> 44) s in if r \<noteq> [] then tl r else r) p_cur"

definition nextTok :: "cursor \<Rightarrow> cstr option \<times> cursor" where
  "nextTok p_cur =
     (case skipWhiteSpace p_cur of
        None \<Rightarrow> (None, None)
      | Some s \<Rightarrow>
          if s \<noteq> [] \<and> hd s = 34
          then (let (t, r) = strsep 34 (tl s) in (Some t, skipNextComma r))
          else (let (t, r) = strsep 44 s in (Some t, r)))"

text \<open>The error code, the value stored into \<^verbatim>\<open>*p_out\<close> if one is, and the cursor. Without digits 0 is
  stored before \<open>- 1\<close> is returned.\<close>

definition at_tok_nextint_base :: "int \<Rightarrow> bool \<Rightarrow> cursor \<Rightarrow> int \<times> int option \<times> cursor" where
  "at_tok_nextint_base base uns p_cur =
     (case p_cur of
        None \<Rightarrow> (- 1, None, None)
      | Some s \<Rightarrow>
          (case nextTok p_cur of
             (None, c) \<Rightarrow> (- 1, None, c)
           | (Some t, c) \<Rightarrow>
               (case (if uns then strtoul base t else strtol base t) of
                  None \<Rightarrow> (- 1, Some 0, c)
                | Some l \<Rightarrow> (0, Some (c_int l), c))))"

definition at_tok_nextint :: "cursor \<Rightarrow> int \<times> int option \<times> cursor" where
  "at_tok_nextint = at_tok_nextint_base 10 False"

definition at_tok_nexthexint :: "cursor \<Rightarrow> int \<times> int option \<times> cursor" where
  "at_tok_nexthexint = at_tok_nextint_base 16 True"

definition at_tok_nextbool :: "cursor \<Rightarrow> int \<times> int option \<times> cursor" where
  "at_tok_nextbool p_cur =
     (let (ret, result, c) = at_tok_nextint p_cur in
      if ret < 0 then (- 1, None, c)
      else if result = Some 0 \<or> result = Some 1 then (ret, result, c) else (- 1, None, c))"

definition at_tok_nextstr :: "cursor \<Rightarrow> int \<times> cstr option \<times> cursor" where
  "at_tok_nextstr p_cur =
     (case p_cur of None \<Rightarrow> (- 1, None, None) | Some s \<Rightarrow> (let (t, c) = nextTok p_cur in (0, t, c)))"

definition at_tok_hasmore :: "cursor \<Rightarrow> bool" where
  "at_tok_hasmore p_cur = (case p_cur of None \<Rightarrow> False | Some s \<Rightarrow> s \<noteq> [])"

definition at_tok_count :: "cursor \<Rightarrow> nat" where
  "at_tok_count in_line = (case in_line of None \<Rightarrow> 0 | Some s \<Rightarrow> length (filter (\<lambda>c. c = 44) s))"

subsection \<open>\<^verbatim>\<open>at_tok_scanf\<close>\<close>

text \<open>What happens to the destination of a conversion.\<close>

datatype at_val = AtInt int | AtBool int | AtStr "cstr option" | Untouched

definition at_dash :: "cursor \<Rightarrow> bool" where
  "at_dash line = (case line of Some (a # b # _) \<Rightarrow> a = 45 \<and> b = 44 | _ \<Rightarrow> False)"

definition scan_int :: "(int \<Rightarrow> at_val) \<Rightarrow> int \<times> int option \<times> cursor \<Rightarrow> bool \<times> at_val \<times> cursor" where
  "scan_int f r = (let (err, v, c) = r in (err \<ge> 0, (case v of None \<Rightarrow> Untouched | Some i \<Rightarrow> f i), c))"

text \<open>One conversion: whether it succeeds, what it stores and the cursor.\<close>

definition scan_one :: "byte \<Rightarrow> cursor \<Rightarrow> bool \<times> at_val \<times> cursor" where
  "scan_one d line =
     (if d = 100 then scan_int AtInt (at_tok_nextint line)
      else if d = 120 then scan_int AtInt (at_tok_nexthexint line)
      else if d = 98 then scan_int AtBool (at_tok_nextbool line)
      else if d = 115 then (let (err, t, c) = at_tok_nextstr line in (err \<ge> 0, if err \<ge> 0 then AtStr t else Untouched, c))
      else (False, Untouched, line))"

text \<open>The loop over the format: the count and the destinations in order. A format that ends in \<^verbatim>\<open>%\<close> makes
  the loop step over its terminator if the line goes on with \<^verbatim>\<open>-,\<close>.\<close>

fun scanf_loop :: "cstr \<Rightarrow> cursor \<Rightarrow> nat \<Rightarrow> at_val list \<Rightarrow> (nat \<times> at_val list) access" where
  "scanf_loop [] line n out = Some (n, out)"
| "scanf_loop [c] line n out =
     (if c = 37 \<and> at_tok_hasmore line \<and> at_dash line then None else Some (n, out))"
| "scanf_loop (c # d # fmt) line n out =
     (if c = 44 \<or> c = 32 then scanf_loop (d # fmt) line n out
      else if c \<noteq> 37 then Some (n, out)
      else if \<not> at_tok_hasmore line then Some (n, out)
      else if at_dash line
      then scanf_loop fmt (map_option (drop 2) line) (n + 1) (out @ [if d = 100 then AtInt (- 1) else Untouched])
      else (let (ok, v, line) = scan_one d line
            in if ok then scanf_loop fmt line (n + 1) (out @ [v]) else Some (n, out @ [v])))"

definition at_tok_scanf :: "cursor \<Rightarrow> cstr \<Rightarrow> (nat \<times> at_val list) access" where
  "at_tok_scanf in_line fmt =
     (case in_line of
        None \<Rightarrow> Some (0, [])
      | Some s \<Rightarrow> (let (err, line) = at_tok_start (Some (take 1023 s))
                   in if err < 0 then Some (0, []) else scanf_loop fmt line 0 []))"

subsection \<open>Reading back a response\<close>

text \<open>A response line as a modem prints it, and the format that reads it.\<close>

datatype at_field = FInt int | FStr cstr

fun field_text :: "at_field \<Rightarrow> cstr" where
  "field_text (FInt i) = int_of i"
| "field_text (FStr s) = [34] @ s @ [34]"

fun field_conv :: "at_field \<Rightarrow> cstr" where
  "field_conv (FInt i) = [37, 100]"
| "field_conv (FStr s) = [37, 115]"

fun field_val :: "at_field \<Rightarrow> at_val" where
  "field_val (FInt i) = AtInt i"
| "field_val (FStr s) = AtStr (Some s)"

fun field_ok :: "at_field \<Rightarrow> bool" where
  "field_ok (FInt i) \<longleftrightarrow> - (2 ^ 31) \<le> i \<and> i < 2 ^ 31"
| "field_ok (FStr s) \<longleftrightarrow> 34 \<notin> set s"

fun commas :: "cstr list \<Rightarrow> cstr" where
  "commas [] = []"
| "commas [x] = x"
| "commas (x # y # xs) = x @ [44] @ commas (y # xs)"

lemma digits_in_10: "list_all c_isdigit ds \<Longrightarrow> digits_in 10 ds = digits_value ds"
proof (induction ds rule: rev_induct)
  case (snoc d ds)
  then show ?case
    by (simp add: digits_in_def digits_value_def digit_value_def c_isdigit_def)
qed (simp add: digits_in_def digits_value_def)

lemma digit_in_10: "is_digit_in 10 c = c_isdigit c"
proof -
  have "uint c - 48 < 10 \<longleftrightarrow> c \<le> 57"
    by (auto simp: word_le_def)
  moreover have "\<not> uint c - 87 < 10" if "97 \<le> c"
    using that by (simp add: word_le_def)
  moreover have "\<not> uint c - 55 < 10" if "65 \<le> c"
    using that by (simp add: word_le_def)
  ultimately show ?thesis
    by (auto simp: is_digit_in_def digit_value_def c_isdigit_def)
qed

lemma dec_of_nonempty [simp]: "dec_of n \<noteq> []"
  by (subst dec_of.simps) simp

lemma digit_not_space: "c_isdigit c \<Longrightarrow> \<not> c_isspace c"
  by (auto simp: c_isdigit_def c_isspace_def word_le_nat_alt)

lemma int_of_first:
  obtains c r where "int_of i = c # r" "\<not> c_isspace c" "c \<noteq> 34" "c \<noteq> 45 \<or> r \<noteq> [] \<and> hd r \<noteq> 44"
proof (cases "i < 0")
  case True
  have "hd (dec_of (nat (- i))) \<noteq> 44"
    using dec_of_digits [of "hd (dec_of (nat (- i)))" "nat (- i)"] by (auto simp: c_isdigit_def)
  with True show ?thesis
    by (intro that [of 45 "dec_of (nat (- i))"]) (simp_all add: int_of_def c_isspace_def)
next
  case False
  obtain c r where cr: "dec_of (nat i) = c # r" by (cases "dec_of (nat i)") auto
  then have "c_isdigit c" using dec_of_digits [of c "nat i"] by simp
  with False cr show ?thesis
    by (intro that [of c r]) (auto simp: int_of_def digit_not_space, auto simp: c_isdigit_def)
qed

lemma takeWhile_digits: "takeWhile c_isdigit (dec_of n) = dec_of n"
  by (rule takeWhile_eq_all_conv [THEN iffD2]) (simp add: dec_of_digits)

lemma strto_int_of: "strto_exact 10 (int_of i) = Some (i < 0, abs i)"
proof -
  obtain c r where cr: "int_of i = c # r" "\<not> c_isspace c" by (rule int_of_first)
  have ws: "dropWhile c_isspace (int_of i) = int_of i"
    using cr by simp
  have all: "list_all c_isdigit (dec_of n)" for n
    by (simp add: list_all_iff dec_of_digits)
  have val: "digits_in 10 (dec_of n) = int n" for n
    by (simp add: digits_in_10 [OF all] digits_value_dec_of)
  have sign: "hd (dec_of n) \<noteq> 45" "hd (dec_of n) \<noteq> 43" for n
    using dec_of_digits [of "hd (dec_of n)" n] by (auto simp: c_isdigit_def)
  have tw: "takeWhile (is_digit_in 10) (dec_of n) = dec_of n" for n
    using takeWhile_digits [of n] by (simp add: digit_in_10 [abs_def])
  show ?thesis
    unfolding strto_exact_def ws Let_def
    by (cases "i < 0") (simp_all add: int_of_def sign tw val)
qed

lemma nextint_field:
  assumes "- (2 ^ 31) \<le> i" "i < 2 ^ 31" and "s = int_of i \<or> s = int_of i @ 44 # r"
  shows "at_tok_nextint (Some s) = (0, Some i, if s = int_of i then None else Some r)"
proof -
  obtain c u where cr: "int_of i = c # u" "\<not> c_isspace c" "c \<noteq> 34" by (rule int_of_first)
  have no: "44 \<notin> set (int_of i)"
    using dec_of_no_sep [of 44] by (simp add: int_of_def c_isdigit_def)
  then have sep: "takeWhile (\<lambda>c. c \<noteq> 44) (int_of i) = int_of i" "takeWhile (\<lambda>c. c \<noteq> 44) (int_of i @ 44 # r) = int_of i"
    by (auto simp: takeWhile_eq_all_conv takeWhile_append)
  have tok: "nextTok (Some s) = (Some (int_of i), if s = int_of i then None else Some r)"
    using assms(3) cr sep by (auto simp: nextTok_def skipWhiteSpace_def strsep_def Let_def)
  have "strtol 10 (int_of i) = Some i"
    using assms(1,2) by (simp add: strtol_def strto_int_of)
  moreover have "c_int i = i"
    using assms(1,2) by (simp add: c_int_def sint_sbintrunc' signed_take_bit_int_eq_self)
  ultimately show ?thesis
    by (simp add: at_tok_nextint_def at_tok_nextint_base_def tok)
qed

lemma nextstr_field:
  assumes "34 \<notin> set x" and "s = [34] @ x @ [34] \<or> s = [34] @ x @ [34] @ 44 # r"
  shows "at_tok_nextstr (Some s) = (0, Some x, Some (if s = [34] @ x @ [34] then [] else r))"
proof -
  have "takeWhile (\<lambda>c. c \<noteq> 34) (x @ 34 # u) = x" for u
    using assms(1) by (auto simp: takeWhile_append takeWhile_eq_all_conv)
  then show ?thesis
    using assms(2)
    by (auto simp: at_tok_nextstr_def nextTok_def skipWhiteSpace_def skipNextComma_def strsep_def Let_def c_isspace_def)
qed

text \<open>One field and the comma behind it, in the way the loop meets them.\<close>

lemma scanf_field:
  assumes "field_ok f" and "s = field_text f \<or> s = field_text f @ 44 # r"
  shows "scanf_loop (field_conv f @ fmt) (Some s) n out =
         scanf_loop fmt (if s = field_text f then (case f of FInt i \<Rightarrow> None | FStr x \<Rightarrow> Some []) else Some r) (n + 1) (out @ [field_val f])"
proof (cases f)
  case (FInt i)
  obtain c u where cu: "int_of i = c # u" "c \<noteq> 45 \<or> u \<noteq> [] \<and> hd u \<noteq> 44" by (rule int_of_first)
  then have "at_tok_hasmore (Some s)" "\<not> at_dash (Some s)"
    using assms(2) FInt by (cases u; auto simp: at_tok_hasmore_def at_dash_def split: list.splits)+
  moreover have "at_tok_nextint (Some s) = (0, Some i, if s = int_of i then None else Some r)"
    using assms FInt by (intro nextint_field) auto
  ultimately show ?thesis
    using FInt by (simp add: scan_one_def scan_int_def)
next
  case (FStr x)
  have "at_tok_hasmore (Some s)" "\<not> at_dash (Some s)"
    using assms(2) FStr by (auto simp: at_tok_hasmore_def at_dash_def split: list.splits)
  moreover have "at_tok_nextstr (Some s) = (0, Some x, Some (if s = [34] @ x @ [34] then [] else r))"
    using assms FStr by (intro nextstr_field) auto
  ultimately show ?thesis
    using FStr by (simp add: scan_one_def)
qed

lemma scanf_fields:
  "list_all field_ok (f # fs) \<Longrightarrow>
   scanf_loop (commas (map field_conv (f # fs))) (Some (commas (map field_text (f # fs)))) n out =
   Some (n + length (f # fs), out @ map field_val (f # fs))"
proof (induction fs arbitrary: f n out)
  case Nil
  then show ?case
    using scanf_field [of f "field_text f" "[]" "[]" n out] by simp
next
  case (Cons g fs)
  have skip: "scanf_loop (44 # commas (map field_conv (g # fs))) l m o' = scanf_loop (commas (map field_conv (g # fs))) l m o'" for l m o'
    by (cases g; cases fs) simp_all
  have ne: "field_text f @ 44 # commas (map field_text (g # fs)) \<noteq> field_text f"
    by simp
  have "scanf_loop (commas (map field_conv (f # g # fs))) (Some (commas (map field_text (f # g # fs)))) n out
      = scanf_loop (44 # commas (map field_conv (g # fs))) (Some (commas (map field_text (g # fs)))) (n + 1) (out @ [field_val f])"
    using Cons.prems scanf_field [of f "field_text f @ 44 # commas (map field_text (g # fs))" "commas (map field_text (g # fs))"
        "44 # commas (map field_conv (g # fs))" n out] ne by simp
  then show ?case
    unfolding skip using Cons.IH [of g "n + 1" "out @ [field_val f]"] Cons.prems by simp
qed

text \<open>C12: A response line with integers and quoted strings, printed behind its name and a colon, is read back by
  \<^verbatim>\<open>at_tok_scanf\<close> with the corresponding format: every value is recovered and the count is the
  number of fields, for any number of fields as long as the line fits the buffer of 1023 characters.\<close>

theorem at_scanf_roundtrip:
  assumes "list_all field_ok (f # fs)" and "58 \<notin> set name"
    and "length (name @ [58] @ commas (map field_text (f # fs))) \<le> 1023"
  shows "at_tok_scanf (Some (name @ [58] @ commas (map field_text (f # fs)))) (commas (map field_conv (f # fs)))
         = Some (length (f # fs), map field_val (f # fs))"
proof -
  have "at_tok_start (Some (name @ 58 # r)) = (0, Some r)" for r
    using assms(2) by (auto simp: at_tok_start_def dropWhile_append)
  then show ?thesis
    using assms(3) scanf_fields [OF assms(1), of 0 "[]"] by (simp add: at_tok_scanf_def)
qed

theorem at_scanf_roundtrip_witness:
  "at_tok_scanf (Some (ascii ''+COPS'' @ [58] @ commas (map field_text [FInt 0, FStr (ascii ''CMCC''), FInt (- 7)])))
     (commas (map field_conv [FInt 0, FStr (ascii ''CMCC''), FInt (- 7)])) = Some (3, [AtInt 0, AtStr (Some (ascii ''CMCC'')), AtInt (- 7)])"
  using at_scanf_roundtrip [of "FInt 0" "[FStr (ascii ''CMCC''), FInt (- 7)]" "ascii ''+COPS''"]
  by (simp add: ascii_def int_of_def dec_of.simps)

end
