(* ===== verification/At_Channel.thy ===== *)
theory At_Channel
  imports At_Tok
begin

text \<open>
  The AT channel (\<^verbatim>\<open>atchannel.c\<close>): the buffered line reader, the dispatch of lines to the pending command or to the
  handler of unsolicited lines, and the commands. The input of the reader is the list of what
  successive \<^verbatim>\<open>read\<close> calls find; a call with less room leaves the rest for the next, and an empty entry or the
  end of the list is the end of the file or an error. An access outside of the buffer is \<open>None\<close>.
\<close>

subsection \<open>Strings\<close>

fun strStartsWith :: "cstr \<Rightarrow> cstr \<Rightarrow> bool" where
  "strStartsWith line [] \<longleftrightarrow> True"
| "strStartsWith [] (p # ps) \<longleftrightarrow> False"
| "strStartsWith (c # cs) (p # ps) \<longleftrightarrow> c = p \<and> strStartsWith cs ps"

definition s_finalResponsesError :: "cstr list" where
  "s_finalResponsesError = map ascii [''ERROR'', ''+CMS ERROR:'', ''+CME ERROR:'', ''NO CARRIER'', ''NO ANSWER'',
     ''NO DIALTONE'', ''COMMAND NOT SUPPORT'']"

definition isFinalResponseError :: "cstr \<Rightarrow> bool" where
  "isFinalResponseError line \<longleftrightarrow> list_ex (strStartsWith line) s_finalResponsesError"

definition s_finalResponsesSuccess :: "cstr list" where
  "s_finalResponsesSuccess = [ascii ''OK'', ascii ''+QIND: '' @ [34] @ ascii ''FOTA'' @ [34, 44, 34] @ ascii ''END'' @ [34, 44, 48],
     ascii ''CONNECT'']"

definition isFinalResponseSuccess :: "cstr \<Rightarrow> bool" where
  "isFinalResponseSuccess line \<longleftrightarrow> list_ex (strStartsWith line) s_finalResponsesSuccess"

definition s_smsUnsoliciteds :: "cstr list" where
  "s_smsUnsoliciteds = map ascii [''+CMT:'', ''+CDS:'', ''+CBM:'', ''+CMTI:'']"

definition isSMSUnsolicited :: "cstr \<Rightarrow> bool" where
  "isSMSUnsolicited line \<longleftrightarrow> list_ex (strStartsWith line) s_smsUnsoliciteds"

subsection \<open>The line reader\<close>

record at_reader =
  s_ATBuffer :: buf
  s_ATBufferCur :: nat
  at_reboot :: bool

definition MAX_AT_RESPONSE :: nat where "MAX_AT_RESPONSE = 4096"

definition at_reader_init :: at_reader where
  "at_reader_init = \<lparr>s_ATBuffer = replicate MAX_AT_RESPONSE 0, s_ATBufferCur = 0, at_reboot = False\<rparr>"

definition is_eol :: "byte \<Rightarrow> bool" where
  "is_eol c \<longleftrightarrow> c = 13 \<or> c = 10"

definition skip_eols :: "buf \<Rightarrow> nat \<Rightarrow> nat access" where
  "skip_eols b i = (let j = i + length (takeWhile is_eol (drop i b)) in if j < length b then Some j else None)"

definition strlen_at :: "buf \<Rightarrow> nat \<Rightarrow> nat access" where
  "strlen_at b i = (let n = length (takeWhile (\<lambda>c. c \<noteq> 0) (drop i b)) in if i + n < length b then Some n else None)"

text \<open>\<^verbatim>\<open>findNextEOL\<close>; the inner \<open>None\<close> is \<^verbatim>\<open>NULL\<close>.\<close>

definition findNextEOL :: "buf \<Rightarrow> nat \<Rightarrow> nat option access" where
  "findNextEOL b i =
     (if take 3 (drop i b) = [62, 32, 0] then Some (Some (i + 2))
      else (let j = i + length (takeWhile (\<lambda>c. c \<noteq> 0 \<and> \<not> is_eol c) (drop i b))
            in if j < length b then Some (if b ! j = 0 then None else Some j) else None))"

text \<open>The first part of \<^verbatim>\<open>readline\<close>: the buffer, \<^verbatim>\<open>s_ATBufferCur\<close>, \<^verbatim>\<open>p_read\<close> and \<^verbatim>\<open>p_eol\<close>.\<close>

definition readline_begin :: "buf \<Rightarrow> nat \<Rightarrow> (buf \<times> nat \<times> nat \<times> nat option) access" where
  "readline_begin b cur = do {
     c \<leftarrow> rd8 b cur;
     if c = 0 then do { b \<leftarrow> wr b 0 [0]; Some (b, 0, 0, None) }
     else do {
       cur \<leftarrow> skip_eols b cur;
       e \<leftarrow> findNextEOL b cur;
       (case e of
          Some j \<Rightarrow> Some (b, cur, 0, Some j)
        | None \<Rightarrow> do {
            len \<leftarrow> strlen_at b cur;
            bs \<leftarrow> rdn b cur (len + 1);
            b \<leftarrow> wr b 0 bs;
            Some (b, 0, len, None) }) } }"

text \<open>The loop that reads: \<^verbatim>\<open>p_read[count] = 0\<close> is stored behind what was read.\<close>

definition rest_of_read :: "nat \<Rightarrow> buf \<Rightarrow> buf list \<Rightarrow> buf list" where
  "rest_of_read n ch chunks = (if n < length ch then drop n ch # chunks else chunks)"

function read_loop :: "buf \<Rightarrow> nat \<Rightarrow> nat \<Rightarrow> buf list \<Rightarrow> (nat option \<times> buf \<times> nat \<times> buf list) access" where
  "read_loop b cur p [] = Some (None, if p = length b then b[0 := 0] else b, if p = length b then 0 else cur, [])"
| "read_loop b cur p (ch # chunks) =
     (let (b, cur, p) = (if p = length b then (b[0 := 0], 0, 0) else (b, cur, p)) in
      if ch = [] then Some (None, b, cur, chunks)
      else do {
        let count = min (length ch) (length b - p);
        b \<leftarrow> wr b p (take count ch @ [0]);
        cur \<leftarrow> skip_eols b cur;
        e \<leftarrow> findNextEOL b cur;
        (case e of
           Some j \<Rightarrow> Some (Some j, b, cur, rest_of_read count ch chunks)
         | None \<Rightarrow> read_loop b cur (p + count) (rest_of_read count ch chunks)) })"
  by pat_completeness auto
termination
  by (relation "measure (\<lambda>(b, cur, p, chunks). length chunks)")
     (auto simp: rest_of_read_def wr_def split: if_splits)

definition QSIMSTAT_INSERTED :: cstr where
  "QSIMSTAT_INSERTED = ascii ''+QSIMSTAT: 1,1''"

definition readline :: "at_reader \<Rightarrow> buf list \<Rightarrow> (cstr option \<times> at_reader \<times> buf list) access" where
  "readline r chunks = do {
     (b, cur, p, e) \<leftarrow> readline_begin (s_ATBuffer r) (s_ATBufferCur r);
     (e, b, cur, chunks) \<leftarrow> (case e of Some j \<Rightarrow> Some (Some j, b, cur, chunks) | None \<Rightarrow> read_loop b cur p chunks);
     (case e of
        None \<Rightarrow> Some (None, r\<lparr>s_ATBuffer := b, s_ATBufferCur := cur\<rparr>, chunks)
      | Some j \<Rightarrow> do {
          let ret = take (j - cur) (drop cur b);
          b \<leftarrow> wr b j [0];
          Some (Some ret, \<lparr>s_ATBuffer = b, s_ATBufferCur = j + 1, at_reboot = (at_reboot r \<or> ret = QSIMSTAT_INSERTED)\<rparr>, chunks) }) }"

subsection \<open>The pending command\<close>

datatype at_type = NO_RESULT | NUMERIC | SINGLELINE | MULTILINE

record at_response =
  at_success :: bool
  finalResponse :: "cstr option"
  p_intermediates :: "cstr list"

text \<open>What the reader writes to the device on its own: an SMS or raw data.\<close>

datatype at_output = CtrlZ cstr | Raw buf

record at_chan =
  s_fd :: int
  s_atc_proxy :: bool
  s_readerClosed :: bool
  s_type :: at_type
  s_responsePrefix :: "cstr option"
  s_smsPDU :: "cstr option"
  s_raw_data :: "buf option"
  sp_response :: "at_response option"
  cond_signalled :: bool
  unsolicited :: "(cstr \<times> cstr option) list"
  at_output :: "at_output list"

definition at_response_new :: at_response where
  "at_response_new = \<lparr>at_success = False, finalResponse = None, p_intermediates = []\<rparr>"

definition handleUnsolicited :: "cstr \<Rightarrow> at_chan \<Rightarrow> at_chan" where
  "handleUnsolicited line c = c\<lparr>unsolicited := unsolicited c @ [(line, None)]\<rparr>"

definition addIntermediate :: "cstr \<Rightarrow> at_response \<Rightarrow> at_chan \<Rightarrow> at_chan" where
  "addIntermediate line r c = c\<lparr>sp_response := Some (r\<lparr>p_intermediates := line # p_intermediates r\<rparr>)\<rparr>"

definition handleFinalResponse :: "bool \<Rightarrow> cstr \<Rightarrow> at_response \<Rightarrow> at_chan \<Rightarrow> at_chan" where
  "handleFinalResponse ok line r c =
     (let c = (if s_atc_proxy c then handleUnsolicited line c else c)
      in c\<lparr>sp_response := Some (r\<lparr>at_success := ok, finalResponse := Some line\<rparr>), cond_signalled := True\<rparr>)"

definition at_writable :: "at_chan \<Rightarrow> bool" where
  "at_writable c \<longleftrightarrow> 0 \<le> s_fd c \<and> \<not> s_readerClosed c"

definition at_write :: "at_output \<Rightarrow> at_chan \<Rightarrow> at_chan" where
  "at_write w c = (if at_writable c then c\<lparr>at_output := at_output c @ [w]\<rparr> else c)"

text \<open>A line for a command with intermediate responses; a prefix of \<^verbatim>\<open>NULL\<close> is dereferenced.\<close>

definition intermediate :: "cstr \<Rightarrow> at_response \<Rightarrow> at_chan \<Rightarrow> at_chan access" where
  "intermediate line r c =
     (case s_type c of
        NO_RESULT \<Rightarrow> Some (handleUnsolicited line c)
      | NUMERIC \<Rightarrow> Some (if p_intermediates r = [] \<and> line \<noteq> [] \<and> c_isdigit (hd line)
                         then addIntermediate line r c else handleUnsolicited line c)
      | SINGLELINE \<Rightarrow>
          if p_intermediates r = []
          then (case s_responsePrefix c of
                  None \<Rightarrow> None
                | Some p \<Rightarrow> Some (if strStartsWith line p then addIntermediate line r c else handleUnsolicited line c))
          else Some (handleUnsolicited line c)
      | MULTILINE \<Rightarrow>
          (case s_responsePrefix c of
             None \<Rightarrow> None
           | Some p \<Rightarrow> Some (if strStartsWith line p then addIntermediate line r c else handleUnsolicited line c)))"

definition processLine :: "cstr \<Rightarrow> at_chan \<Rightarrow> at_chan access" where
  "processLine line c =
     (case sp_response c of
        None \<Rightarrow> Some (handleUnsolicited line c)
      | Some r \<Rightarrow>
          (case (if line = ascii ''CONNECT'' then s_raw_data c else None) of
             Some raw \<Rightarrow> Some ((at_write (Raw raw) c)\<lparr>s_raw_data := None\<rparr>)
           | None \<Rightarrow>
               if isFinalResponseSuccess line then Some (handleFinalResponse True line r c)
               else if isFinalResponseError line then Some (handleFinalResponse False line r c)
               else (case (if line = ascii ''> '' then s_smsPDU c else None) of
                       Some pdu \<Rightarrow> Some ((at_write (CtrlZ pdu) c)\<lparr>s_smsPDU := None\<rparr>)
                     | None \<Rightarrow> intermediate line r c)))"

text \<open>\<^verbatim>\<open>onReaderClosed\<close>, with a callback installed.\<close>

definition onReaderClosed :: "at_chan \<Rightarrow> at_chan" where
  "onReaderClosed c = (if s_readerClosed c then c else c\<lparr>s_readerClosed := True, cond_signalled := True\<rparr>)"

text \<open>\<^verbatim>\<open>readerLoop\<close>: \<open>None\<close> inside of the result if the loop still runs after \<open>fuel\<close> rounds.\<close>

fun readerLoop :: "nat \<Rightarrow> at_reader \<Rightarrow> buf list \<Rightarrow> at_chan \<Rightarrow> at_chan option access" where
  "readerLoop 0 rd chunks c = Some None"
| "readerLoop (Suc fuel) rd chunks c = do {
     (line, rd, chunks) \<leftarrow> readline rd chunks;
     (case line of
        None \<Rightarrow> Some (Some (onReaderClosed c))
      | Some l \<Rightarrow>
          if isSMSUnsolicited l
          then do {
            (line2, rd, chunks) \<leftarrow> readline rd chunks;
            (case line2 of
               None \<Rightarrow> Some (Some (onReaderClosed c))
             | Some l2 \<Rightarrow> readerLoop fuel rd chunks (c\<lparr>unsolicited := unsolicited c @ [(l, Some l2)]\<rparr>)) }
          else do { c \<leftarrow> processLine l c; readerLoop fuel rd chunks c }) }"

subsection \<open>Commands\<close>

definition AT_ERROR_GENERIC :: int where "AT_ERROR_GENERIC = - 1"
definition AT_ERROR_COMMAND_PENDING :: int where "AT_ERROR_COMMAND_PENDING = - 2"
definition AT_ERROR_CHANNEL_CLOSED :: int where "AT_ERROR_CHANNEL_CLOSED = - 3"
definition AT_ERROR_TIMEOUT :: int where "AT_ERROR_TIMEOUT = - 4"
definition AT_ERROR_INVALID_RESPONSE :: int where "AT_ERROR_INVALID_RESPONSE = - 6"

text \<open>The loop of \<^verbatim>\<open>write\<close> calls with their results: the error code, what was written and the results
  left. \<open>None\<close> if the last call has not returned.\<close>

fun write_loop :: "int list \<Rightarrow> buf \<Rightarrow> buf \<Rightarrow> (int \<times> buf \<times> int list) option" where
  "write_loop ws [] out = Some (0, out, ws)"
| "write_loop [] (x # xs) out = None"
| "write_loop (w # ws) (x # xs) out =
     (if w < 0 then Some (AT_ERROR_GENERIC, out, ws)
      else write_loop ws (drop (nat w) (x # xs)) (out @ take (nat w) (x # xs)))"

text \<open>\<^verbatim>\<open>writeline\<close>: a short command goes out together with its carriage return.\<close>

definition writeline :: "int list \<Rightarrow> cstr \<Rightarrow> at_chan \<Rightarrow> (int \<times> buf) option" where
  "writeline ws s c =
     (if \<not> at_writable c then Some (AT_ERROR_CHANNEL_CLOSED, [])
      else if length s < 63 then map_option (\<lambda>(e, out, ws). (e, out)) (write_loop ws (s @ [13]) [])
      else (case write_loop ws s [] of
              None \<Rightarrow> None
            | Some (e, out, ws) \<Rightarrow>
                if e < 0 then Some (e, out) else map_option (\<lambda>(e, out, ws). (e, out)) (write_loop ws [13] out)))"

definition clearPendingCommand :: "at_chan \<Rightarrow> at_chan" where
  "clearPendingCommand c = c\<lparr>sp_response := None, s_responsePrefix := None, s_smsPDU := None\<rparr>"

text \<open>\<^verbatim>\<open>at_send_command_full_nolock\<close> up to its wait: \<open>Inl err\<close> returns. \<open>wl\<close> is the result of \<^verbatim>\<open>writeline\<close>.\<close>

definition at_send_begin ::
  "int \<Rightarrow> at_type \<Rightarrow> cstr option \<Rightarrow> cstr option \<Rightarrow> at_chan \<Rightarrow> (int \<times> at_chan) + at_chan" where
  "at_send_begin wl type responsePrefix smspdu c =
     (if sp_response c \<noteq> None then Inl (AT_ERROR_COMMAND_PENDING, clearPendingCommand c)
      else if wl < 0 then Inl (wl, clearPendingCommand c)
      else Inr (c\<lparr>s_type := type, s_responsePrefix := responsePrefix, s_smsPDU := smspdu,
                   sp_response := Some at_response_new, cond_signalled := False\<rparr>))"

text \<open>The rest, when the wait is over (\<open>timeout\<close> if it ran out of time): the error, the response given to the caller
  with its lines in the order they came, and the channel.\<close>

definition at_send_end :: "bool \<Rightarrow> at_chan \<Rightarrow> int \<times> at_response option \<times> at_chan" where
  "at_send_end timeout c =
     (if timeout then (AT_ERROR_TIMEOUT, None, clearPendingCommand c)
      else (let r = map_option (\<lambda>r. r\<lparr>p_intermediates := rev (p_intermediates r)\<rparr>) (sp_response c)
            in (if s_readerClosed c then AT_ERROR_CHANNEL_CLOSED else 0, r, clearPendingCommand c)))"

text \<open>A whole command: what the reader does until the response is final or the channel is closed. The wait
  runs out of time when the arrivals end before. The loop dereferences \<^verbatim>\<open>sp_response\<close>.\<close>

datatype at_arrival = At_line cstr | At_close

fun at_arrive :: "at_arrival \<Rightarrow> at_chan \<Rightarrow> at_chan access" where
  "at_arrive (At_line l) c = processLine l c"
| "at_arrive At_close c = Some (onReaderClosed c)"

fun at_wait :: "at_arrival list \<Rightarrow> at_chan \<Rightarrow> (int \<times> at_response option \<times> at_chan) access" where
  "at_wait es c =
     (case sp_response c of
        None \<Rightarrow> None
      | Some r \<Rightarrow>
          if finalResponse r \<noteq> None \<or> s_readerClosed c then Some (at_send_end False c)
          else (case es of [] \<Rightarrow> Some (at_send_end True c) | e # es' \<Rightarrow> do { c \<leftarrow> at_arrive e c; at_wait es' c }))"

declare at_wait.simps [simp del]

type_synonym at_result = "int \<times> at_response option \<times> at_chan"

definition at_send_command_full ::
  "int \<Rightarrow> at_arrival list \<Rightarrow> at_type \<Rightarrow> cstr option \<Rightarrow> cstr option \<Rightarrow> at_chan \<Rightarrow> at_result access" where
  "at_send_command_full wl es type responsePrefix smspdu c =
     (case at_send_begin wl type responsePrefix smspdu c of
        Inl (e, c) \<Rightarrow> Some (e, None, c)
      | Inr c \<Rightarrow> at_wait es c)"

text \<open>The forms of a command; a successful command that needs an intermediate response must have one.\<close>

type_synonym at_command = "int \<Rightarrow> at_arrival list \<Rightarrow> at_chan \<Rightarrow> at_result access"

definition needs_intermediate :: "at_result \<Rightarrow> at_result" where
  "needs_intermediate x =
     (let (err, r, c) = x in
      case r of
        Some p \<Rightarrow> if err = 0 \<and> at_success p \<and> p_intermediates p = [] then (AT_ERROR_INVALID_RESPONSE, None, c) else x
      | None \<Rightarrow> x)"

definition at_send_command :: at_command where
  "at_send_command wl es c = at_send_command_full wl es NO_RESULT None None c"

definition at_send_command_singleline :: "cstr \<Rightarrow> at_command" where
  "at_send_command_singleline prefix wl es c =
     map_option needs_intermediate (at_send_command_full wl es SINGLELINE (Some prefix) None c)"

definition at_send_command_numeric :: at_command where
  "at_send_command_numeric wl es c = map_option needs_intermediate (at_send_command_full wl es NUMERIC None None c)"

definition at_send_command_sms :: "cstr \<Rightarrow> cstr \<Rightarrow> at_command" where
  "at_send_command_sms pdu prefix wl es c =
     map_option needs_intermediate (at_send_command_full wl es SINGLELINE (Some prefix) (Some pdu) c)"

definition at_send_command_multiline :: "cstr \<Rightarrow> at_command" where
  "at_send_command_multiline prefix wl es c = at_send_command_full wl es MULTILINE (Some prefix) None c"

definition at_send_command_raw :: "buf \<Rightarrow> cstr \<Rightarrow> at_command" where
  "at_send_command_raw raw prefix wl es c =
     at_send_command_full wl es SINGLELINE (Some prefix) None (c\<lparr>s_raw_data := Some raw\<rparr>)"

text \<open>A session: the channel and the commands issued on it. The device decides for each command, by its
  number, whether the write fails and what the reader then sees.\<close>

record at_session =
  chan :: at_chan
  at_cmds :: "cstr list"

type_synonym at_device = "nat \<Rightarrow> bool \<times> at_arrival list"

definition at_written :: "bool \<Rightarrow> at_chan \<Rightarrow> int" where
  "at_written fails c = (if \<not> at_writable c then AT_ERROR_CHANNEL_CLOSED else if fails then AT_ERROR_GENERIC else 0)"

definition at_issue ::
  "at_device \<Rightarrow> cstr \<Rightarrow> at_command \<Rightarrow> 'a at_session_scheme \<Rightarrow> (int \<times> at_response option \<times> 'a at_session_scheme) access" where
  "at_issue dev cmd f s =
     (let (fails, es) = dev (length (at_cmds s)) in do {
        (err, r, c) \<leftarrow> f (at_written fails (chan s)) es (chan s);
        Some (err, r, s\<lparr>chan := c, at_cmds := at_cmds s @ [cmd]\<rparr>) })"

text \<open>The loop of \<^verbatim>\<open>at_handshake\<close>, which starts with \<^verbatim>\<open>HANDSHAKE_RETRY_COUNT\<close> tries.\<close>

fun handshake_loop :: "at_device \<Rightarrow> nat \<Rightarrow> int \<Rightarrow> 'a at_session_scheme \<Rightarrow> (int \<times> 'a at_session_scheme) access" where
  "handshake_loop dev 0 err s = Some (err, s)"
| "handshake_loop dev (Suc n) err s = do {
     (err, r, s) \<leftarrow> at_issue dev (ascii ''ATE0Q0V1'') at_send_command s;
     if err = 0 then Some (0, s) else handshake_loop dev n err s }"

definition at_handshake :: "at_device \<Rightarrow> 'a at_session_scheme \<Rightarrow> (int \<times> 'a at_session_scheme) access" where
  "at_handshake dev s = handshake_loop dev 8 0 s"

definition at_get_cme_error :: "at_response option \<Rightarrow> int" where
  "at_get_cme_error p_response =
     (case p_response of
        None \<Rightarrow> - 1
      | Some r \<Rightarrow>
          if at_success r then 0
          else (case finalResponse r of
                  None \<Rightarrow> - 1
                | Some f \<Rightarrow>
                    if \<not> strStartsWith f (ascii ''+CME ERROR:'') then - 1
                    else (let (err, cur) = at_tok_start (Some f) in
                          if err < 0 then - 1
                          else (let (err, v, cur) = at_tok_nextint cur in
                                if err < 0 then - 1 else (case v of None \<Rightarrow> - 1 | Some i \<Rightarrow> i)))))"

definition at_close :: "at_chan \<Rightarrow> at_chan" where
  "at_close c = c\<lparr>s_fd := - 1, s_readerClosed := True, cond_signalled := True\<rparr>"

definition at_open :: "int \<Rightarrow> bool \<Rightarrow> at_chan \<Rightarrow> at_chan" where
  "at_open fd prxy c = c\<lparr>s_fd := fd, s_readerClosed := False, s_atc_proxy := prxy, s_responsePrefix := None,
                         s_smsPDU := None, sp_response := None\<rparr>"

end
