(* ===== verification/At_Reader.thy ===== *)
theory At_Reader
  imports At_Channel
begin

text \<open>
  The line reader delivers the lines of the input, however the input is cut into reads: the incremental
  \<^verbatim>\<open>readline\<close> with its buffer is equivalent to cutting the whole input at line ends. And a command gets the lines that
  answer it.
\<close>

subsection \<open>The lines of an input\<close>

text \<open>The first complete line of a text, without the line ends before it, and what follows its line end.\<close>

definition next_line :: "buf \<Rightarrow> (cstr \<times> buf) option" where
  "next_line t = (let u = dropWhile is_eol t; l = takeWhile (\<lambda>c. \<not> is_eol c) u
                  in if length l < length u then Some (l, drop (length l + 1) u) else None)"

lemma next_line_length: "next_line t = Some (l, r) \<Longrightarrow> length r < length t"
  using length_dropWhile_le [of is_eol t] by (auto simp: next_line_def Let_def split: if_splits)

function at_lines :: "buf \<Rightarrow> cstr list" where
  "at_lines t = (case next_line t of None \<Rightarrow> [] | Some (l, r) \<Rightarrow> l # at_lines r)"
  by pat_completeness auto
termination
  by (relation "measure length") (auto dest: next_line_length)

declare at_lines.simps [simp del]

lemma next_line_Some:
  assumes "next_line t = Some (l, r)"
  obtains n e where "t = n @ l @ e # r" "list_all is_eol n" "is_eol e" "list_all (\<lambda>c. \<not> is_eol c) l" "l \<noteq> []"
proof -
  define u where "u = dropWhile is_eol t"
  have l: "l = takeWhile (\<lambda>c. \<not> is_eol c) u" and len: "length l < length u" and r: "r = drop (length l + 1) u"
    using assms by (auto simp: next_line_def u_def Let_def split: if_splits)
  have e: "is_eol (u ! length l)"
    using len nth_length_takeWhile [of "\<lambda>c. \<not> is_eol c" u] by (simp add: l)
  have "u = l @ u ! length l # r"
    using len by (metis (lifting) Cons_nth_drop_Suc One_nat_def add.right_neutral add_Suc_right append_take_drop_id l r takeWhile_eq_take)
  moreover have "t = takeWhile is_eol t @ u"
    by (simp add: u_def)
  moreover have "l \<noteq> []"
  proof
    assume "l = []"
    then have "is_eol (hd u)" "u \<noteq> []"
      using e len by (auto simp: hd_conv_nth)
    then show False
      using hd_dropWhile [of is_eol t] by (simp add: u_def)
  qed
  ultimately show ?thesis
    using e by (intro that [of "takeWhile is_eol t" "u ! length l"])
      (auto simp: list_all_iff l dest: set_takeWhileD)
qed

lemma next_line_None:
  "next_line t = None \<longleftrightarrow> (\<forall>c \<in> set (dropWhile is_eol t). \<not> is_eol c)"
proof -
  have "length (takeWhile P u) < length u \<longleftrightarrow> (\<exists>c \<in> set u. \<not> P c)" for P and u :: buf
    by (induction u) auto
  then show ?thesis
    by (simp add: next_line_def Let_def)
qed

lemma next_line_make:
  assumes "list_all is_eol n" "list_all (\<lambda>c. \<not> is_eol c) l" "l \<noteq> []" "is_eol e"
  shows "next_line (n @ l @ e # r) = Some (l, r)"
proof -
  have "dropWhile is_eol (n @ l @ e # r) = l @ e # r"
    using assms by (cases l) (auto simp: list_all_iff dropWhile_append)
  moreover have "takeWhile (\<lambda>c. \<not> is_eol c) (l @ e # r) = l"
    using assms by (auto simp: list_all_iff takeWhile_append takeWhile_eq_all_conv)
  ultimately show ?thesis
    by (simp add: next_line_def Let_def)
qed

lemma next_line_append:
  "next_line t = Some (l, r) \<Longrightarrow> next_line (t @ u) = Some (l, r @ u)"
  by (erule next_line_Some) (simp add: next_line_make)

text \<open>The buffer holds the text \<open>t\<close> from \<open>cur\<close> on, ended by a NUL.\<close>

definition holds :: "buf \<Rightarrow> nat \<Rightarrow> buf \<Rightarrow> bool" where
  "holds b cur t \<longleftrightarrow> (\<exists>pre junk. b = pre @ t @ 0 # junk \<and> length pre = cur) \<and> 0 \<notin> set t"

lemma holdsI:
  "b = pre @ t @ 0 # junk \<Longrightarrow> length pre = cur \<Longrightarrow> 0 \<notin> set t \<Longrightarrow> holds b cur t"
  unfolding holds_def by blast

lemma skip_eols_holds:
  assumes "holds b cur t"
  shows "skip_eols b cur = Some (cur + length (takeWhile is_eol t)) \<and>
         holds b (cur + length (takeWhile is_eol t)) (dropWhile is_eol t)"
proof -
  obtain pre junk where b: "b = pre @ t @ 0 # junk" "length pre = cur" and t: "0 \<notin> set t"
    using assms by (auto simp: holds_def)
  have z: "\<not> is_eol 0"
    by (simp add: is_eol_def)
  have "takeWhile is_eol (t @ 0 # junk) = takeWhile is_eol t"
    using z by (induction t) auto
  moreover have "length (takeWhile is_eol t) < length (t @ 0 # junk)"
    using length_takeWhile_le [of is_eol t] by simp
  moreover have "b = (pre @ takeWhile is_eol t) @ dropWhile is_eol t @ 0 # junk"
    using b by (metis append.assoc takeWhile_dropWhile_id)
  moreover have "0 \<notin> set (dropWhile is_eol t)"
    using t by (auto dest: set_dropWhileD)
  ultimately show ?thesis
    using b by (auto simp: skip_eols_def Let_def intro!: holdsI [where pre = "pre @ takeWhile is_eol t" and junk = junk])
qed

lemma list_cases3:
  obtains "t = []" | x where "t = [x]" | x y where "t = [x, y]" | x y z u where "t = x # y # z # u"
  by (metis list.exhaust)

lemma findNextEOL_holds:
  assumes "holds b cur t" "t \<noteq> [62, 32]"
  shows "findNextEOL b cur = Some (if \<exists>c \<in> set t. is_eol c then Some (cur + length (takeWhile (\<lambda>c. \<not> is_eol c) t)) else None)"
proof -
  obtain pre junk where b: "b = pre @ t @ 0 # junk" "length pre = cur" and t: "0 \<notin> set t"
    using assms(1) by (auto simp: holds_def)
  let ?n = "length (takeWhile (\<lambda>c. \<not> is_eol c) t)"
  have d: "drop cur b = t @ 0 # junk"
    using b by simp
  have np: "take 3 (t @ 0 # junk) \<noteq> [62, 32, 0]"
  proof
    assume a: "take 3 (t @ 0 # junk) = [62, 32, 0]"
    then have "(t @ 0 # junk) ! 0 = 62" "(t @ 0 # junk) ! Suc 0 = 32" "(t @ 0 # junk) ! Suc (Suc 0) = 0"
      by (metis nth_Cons_0 nth_Cons_Suc nth_take zero_less_numeral lessI numeral_3_eq_3 less_SucI)+
    then show False
      using assms(2) t by (cases t rule: list_cases3) auto
  qed
  have w: "takeWhile (\<lambda>c. c \<noteq> 0 \<and> \<not> is_eol c) (t @ 0 # junk) = takeWhile (\<lambda>c. \<not> is_eol c) t"
    using t by (induction t) (auto simp: is_eol_def)
  have at: "b ! (cur + ?n) = (t @ 0 # junk) ! ?n"
    using b by (simp add: nth_append)
  have "?n \<le> length t"
    by (rule length_takeWhile_le)
  have "(\<exists>c \<in> set t. is_eol c) \<longleftrightarrow> ?n < length t"
    by (induction t) auto
  moreover have "(t @ 0 # junk) ! ?n = 0 \<longleftrightarrow> \<not> (\<exists>c \<in> set t. is_eol c)"
    using t by (induction t) (auto simp: is_eol_def)
  ultimately show ?thesis
    using b d np w at \<open>?n \<le> length t\<close> by (simp add: findNextEOL_def Let_def)
qed

lemma strlen_holds:
  assumes "holds b cur t"
  shows "strlen_at b cur = Some (length t)"
proof -
  obtain pre junk where b: "b = pre @ t @ 0 # junk" "length pre = cur" and t: "0 \<notin> set t"
    using assms by (auto simp: holds_def)
  then have "takeWhile (\<lambda>c. c \<noteq> 0) (drop cur b) = t"
    by (auto simp: takeWhile_append takeWhile_eq_all_conv)
  then show ?thesis
    using b by (simp add: strlen_at_def Let_def)
qed

text \<open>Copying the text to the start of the buffer.\<close>

lemma move_holds:
  assumes "holds b cur t"
  shows "\<exists>b'. rdn b cur (length t + 1) = Some (t @ [0]) \<and> wr b 0 (t @ [0]) = Some b' \<and> length b' = length b \<and> holds b' 0 t"
proof -
  obtain pre junk where b: "b = pre @ t @ 0 # junk" "length pre = cur" and t: "0 \<notin> set t"
    using assms by (auto simp: holds_def)
  have "rdn b cur (length t + 1) = Some (t @ [0])"
    using b by (simp add: rdn_def)
  moreover have "wr b 0 (t @ [0]) = Some (t @ 0 # drop (length t + 1) b)"
    using b by (simp add: wr_def)
  moreover have "length (t @ 0 # drop (length t + 1) b) = length b"
    using b by simp
  moreover have "holds (t @ 0 # drop (length t + 1) b) 0 t"
    using t by (intro holdsI [where pre = "[]" and junk = "drop (length t + 1) b"]) auto
  ultimately show ?thesis
    by blast
qed

text \<open>Storing a chunk behind the text.\<close>

lemma append_holds:
  assumes "holds b 0 t" "length t + length ch < length b" "0 \<notin> set ch"
  shows "\<exists>b'. wr b (length t) (ch @ [0]) = Some b' \<and> length b' = length b \<and> holds b' 0 (t @ ch)"
proof -
  obtain junk where b: "b = t @ 0 # junk" and t: "0 \<notin> set t"
    using assms by (auto simp: holds_def)
  then have "wr b (length t) (ch @ [0]) = Some ((t @ ch) @ 0 # drop (length t + (length ch + 1)) b)"
    using assms(2) by (simp add: wr_def)
  moreover have "holds ((t @ ch) @ 0 # drop (length t + (length ch + 1)) b) 0 (t @ ch)"
    using t assms(3) by (intro holdsI [where pre = "[]"]) auto
  moreover have "length ((t @ ch) @ 0 # drop (length t + (length ch + 1)) b) = length b"
    using assms(2) by simp
  ultimately show ?thesis
    by blast
qed

text \<open>Cutting a line: its line end becomes its NUL.\<close>

lemma cut_holds:
  assumes "holds b cur (l @ e # r)"
  shows "\<exists>b'. take (length l) (drop cur b) = l \<and> wr b (cur + length l) [0] = Some b' \<and> length b' = length b \<and>
              holds b' (cur + length l + 1) r"
proof -
  obtain pre junk where b: "b = pre @ (l @ e # r) @ 0 # junk" "length pre = cur" and t: "0 \<notin> set (l @ e # r)"
    using assms by (auto simp: holds_def)
  have "wr b (cur + length l) [0] = Some ((pre @ l @ [0]) @ r @ 0 # junk)"
    using b by (simp add: wr_def)
  moreover have "holds ((pre @ l @ [0]) @ r @ 0 # junk) (cur + length l + 1) r"
    using b t by (intro holdsI [where pre = "pre @ l @ [0]" and junk = junk]) auto
  ultimately show ?thesis
    using b by auto
qed

lemma rd8_holds: "holds b cur t \<Longrightarrow> rd8 b cur = Some (case t of [] \<Rightarrow> 0 | c # _ \<Rightarrow> c)"
  by (auto simp: holds_def rd8_def nth_append split: list.split)

subsection \<open>One line\<close>

text \<open>A text with no prompt in it; the reader takes \<^verbatim>\<open>"> "\<close> for a line when it is all that was read.\<close>

fun no_prompt :: "buf \<Rightarrow> bool" where
  "no_prompt (a # b # t) \<longleftrightarrow> \<not> (a = 62 \<and> b = 32) \<and> no_prompt (b # t)"
| "no_prompt [a] \<longleftrightarrow> True"
| "no_prompt [] \<longleftrightarrow> True"

lemma no_prompt_infix: "no_prompt (x @ y @ z) \<Longrightarrow> y \<noteq> [62, 32]"
  by (induction x rule: no_prompt.induct) auto

lemma no_prompt_suffix: "no_prompt (x @ y) \<Longrightarrow> no_prompt y"
  by (induction x rule: no_prompt.induct) (auto, cases y, auto)

text \<open>Every \<open>K + 1\<close> bytes in a row have a complete line in them.\<close>

definition lines_within :: "nat \<Rightarrow> buf \<Rightarrow> bool" where
  "lines_within K t \<longleftrightarrow> list_all (\<lambda>i. next_line (take (Suc K) (drop i t)) \<noteq> None) [0..<length t - K]"

lemma lines_withinD:
  assumes "lines_within K (x @ y @ z)" "next_line y = None"
  shows "length y \<le> K"
proof (rule ccontr)
  assume "\<not> length y \<le> K"
  then have "length x \<in> set [0..<length (x @ y @ z) - K]"
    by auto
  with assms(1) have "next_line (take (Suc K) (drop (length x) (x @ y @ z))) \<noteq> None"
    unfolding lines_within_def list_all_iff by blast
  then obtain l r where "next_line (take (Suc K) y) = Some (l, r)"
    using \<open>\<not> length y \<le> K\<close> by auto
  then have "next_line (take (Suc K) y @ drop (Suc K) y) \<noteq> None"
    by (simp add: next_line_append del: append_take_drop_id)
  then show False
    using assms(2) by simp
qed

lemma eol_at_next_line:
  assumes "next_line t = Some (l, r)"
  shows "\<exists>e. dropWhile is_eol t = l @ e # r \<and> is_eol e \<and> takeWhile (\<lambda>c. \<not> is_eol c) (l @ e # r) = l"
  using assms by (rule next_line_Some)
    (auto simp: list_all_iff dropWhile_append takeWhile_append takeWhile_eq_all_conv neq_Nil_conv)

text \<open>The search for a line in the text from \<open>cur\<close> on.\<close>

lemma find_line:
  assumes "holds b cur t" "dropWhile is_eol t \<noteq> [62, 32]"
  shows "\<exists>cur'. skip_eols b cur = Some cur' \<and> cur' = cur + length (takeWhile is_eol t) \<and>
           holds b cur' (dropWhile is_eol t) \<and>
           findNextEOL b cur' = Some (map_option (\<lambda>(l, r). cur' + length l) (next_line t))"
proof -
  let ?c = "cur + length (takeWhile is_eol t)"
  have s: "skip_eols b cur = Some ?c" "holds b ?c (dropWhile is_eol t)"
    using skip_eols_holds [OF assms(1)] by auto
  have "findNextEOL b ?c = Some (map_option (\<lambda>(l, r). ?c + length l) (next_line t))"
  proof (cases "next_line t")
    case None
    then show ?thesis
      using findNextEOL_holds [OF s(2) assms(2)] by (auto simp: next_line_None)
  next
    case (Some lr)
    then obtain l r where n: "next_line t = Some (l, r)"
      by (cases lr) auto
    from eol_at_next_line [OF n] show ?thesis
      using findNextEOL_holds [OF s(2) assms(2)] by (auto simp: n)
  qed
  then show ?thesis
    using s by blast
qed

lemma lines_within_suffix:
  assumes "lines_within K (x @ y)"
  shows "lines_within K y"
  unfolding lines_within_def list_all_iff
proof
  fix i
  assume "i \<in> set [0..<length y - K]"
  then have "length x + i \<in> set [0..<length (x @ y) - K]"
    by auto
  with assms have "next_line (take (Suc K) (drop (length x + i) (x @ y))) \<noteq> None"
    unfolding lines_within_def list_all_iff by blast
  then show "next_line (take (Suc K) (drop i y)) \<noteq> None"
    by simp
qed

lemma no_promptD: "no_prompt (t @ u) \<Longrightarrow> dropWhile is_eol t \<noteq> [62, 32]"
  using no_prompt_infix [of "takeWhile is_eol t" "dropWhile is_eol t" u]
  by (metis append.assoc takeWhile_dropWhile_id)

lemma readline_begin_line:
  assumes "holds b cur t" "no_prompt (t @ u)" "next_line t = Some (l, r)"
  shows "\<exists>cur' e. readline_begin b cur = Some (b, cur', 0, Some (cur' + length l)) \<and> holds b cur' (l @ e # r)"
proof -
  have "t \<noteq> []"
    using assms(3) by (auto simp: next_line_def)
  then have "rd8 b cur = Some (hd t)" "hd t \<noteq> 0"
    using assms(1) rd8_holds [OF assms(1)] by (auto simp: holds_def neq_Nil_conv)
  moreover obtain e where "dropWhile is_eol t = l @ e # r"
    using eol_at_next_line [OF assms(3)] by blast
  ultimately show ?thesis
    using find_line [OF assms(1) no_promptD [OF assms(2)]] assms(3) by (auto simp: readline_begin_def)
qed

lemma readline_begin_part:
  assumes "holds b cur t" "no_prompt (t @ u)" "next_line t = None"
  shows "\<exists>b'. readline_begin b cur = Some (b', 0, length (dropWhile is_eol t), None) \<and> length b' = length b \<and>
              holds b' 0 (dropWhile is_eol t)"
proof (cases t)
  case Nil
  with assms(1) show ?thesis
    using rd8_holds [OF assms(1)] move_holds [OF assms(1)] by (auto simp: readline_begin_def)
next
  case (Cons x xs)
  then have x: "rd8 b cur = Some x" "x \<noteq> 0"
    using assms(1) rd8_holds [OF assms(1)] by (auto simp: holds_def)
  obtain cur' where f: "skip_eols b cur = Some cur'" "holds b cur' (dropWhile is_eol t)" "findNextEOL b cur' = Some None"
    using find_line [OF assms(1) no_promptD [OF assms(2)]] assms(3) by auto
  then show ?thesis
    using move_holds [OF f(2)] strlen_holds [OF f(2)] x by (auto simp: readline_begin_def)
qed

text \<open>Skipping the line ends in two steps.\<close>

lemma dropWhile_twice: "dropWhile P (dropWhile P w @ ch) = dropWhile P (w @ ch)"
  by (induction w) auto

lemma takeWhile_twice:
  "length (takeWhile P w) + length (takeWhile P (dropWhile P w @ ch)) = length (takeWhile P (w @ ch))"
  by (induction w) auto

lemma takeWhile_dropWhile: "takeWhile P (dropWhile P w) = []"
  by (induction w) auto

lemma next_line_skip: "next_line (dropWhile is_eol w @ ch) = next_line (w @ ch)"
  by (simp add: next_line_def dropWhile_twice)

lemma skip_holds:
  assumes "holds b 0 (w @ ch)"
  shows "holds b (length (takeWhile is_eol w)) (dropWhile is_eol w @ ch)"
proof -
  obtain junk where b: "b = (w @ ch) @ 0 # junk" and z: "0 \<notin> set (w @ ch)"
    using assms by (auto simp: holds_def)
  have "b = takeWhile is_eol w @ (dropWhile is_eol w @ ch) @ 0 # junk"
    using b by (metis append.assoc takeWhile_dropWhile_id)
  then show ?thesis
    using z by (intro holdsI [where junk = junk]) (auto dest: set_dropWhileD)
qed

text \<open>Chunks the reader can store, \<open>C\<close> bytes at most each.\<close>

abbreviation chunks_ok :: "nat \<Rightarrow> buf list \<Rightarrow> bool" where
  "chunks_ok C chunks \<equiv> list_all (\<lambda>ch. ch \<noteq> [] \<and> length ch \<le> C \<and> 0 \<notin> set ch) chunks"

text \<open>The reader is left with the line at \<open>cur\<close>, and with the rest of the input in the buffer and the chunks.\<close>

definition found :: "nat \<Rightarrow> nat \<Rightarrow> cstr \<Rightarrow> buf \<Rightarrow> nat option \<times> buf \<times> nat \<times> buf list \<Rightarrow> bool" where
  "found N C l rest = (\<lambda>(j, b, cur, chunks). j = Some (cur + length l) \<and> length b = N \<and> chunks_ok C chunks \<and>
                        (\<exists>e r. holds b cur (l @ e # r) \<and> r @ concat chunks = rest))"

lemma read_loop_step:
  assumes "holds b 0 w" "length w + length ch < length b" "ch \<noteq> []" "0 \<notin> set ch" "no_prompt ((w @ ch) @ u)"
  shows "\<exists>b'. length b' = length b \<and> holds b' 0 (w @ ch) \<and> holds b' (length (takeWhile is_eol (w @ ch))) (dropWhile is_eol (w @ ch)) \<and>
    read_loop b (length (takeWhile is_eol w)) (length w) (ch # chunks) =
      (case next_line (w @ ch) of
         Some (l, r) \<Rightarrow> Some (Some (length (takeWhile is_eol (w @ ch)) + length l), b', length (takeWhile is_eol (w @ ch)), chunks)
       | None \<Rightarrow> read_loop b' (length (takeWhile is_eol (w @ ch))) (length (w @ ch)) chunks)"
proof -
  obtain b' where b': "wr b (length w) (ch @ [0]) = Some b'" "length b' = length b" "holds b' 0 (w @ ch)"
    using append_holds [OF assms(1,2,4)] by blast
  have "dropWhile is_eol (dropWhile is_eol w @ ch) \<noteq> [62, 32]"
    using no_promptD [OF assms(5)] by (simp add: dropWhile_twice)
  from find_line [OF skip_holds [OF b'(3)] this]
  have "skip_eols b' (length (takeWhile is_eol w)) = Some (length (takeWhile is_eol (w @ ch)))"
    "holds b' (length (takeWhile is_eol (w @ ch))) (dropWhile is_eol (w @ ch))"
    "findNextEOL b' (length (takeWhile is_eol (w @ ch))) =
       Some (map_option (\<lambda>(l, r). length (takeWhile is_eol (w @ ch)) + length l) (next_line (w @ ch)))"
    by (simp_all only: takeWhile_twice dropWhile_twice next_line_skip) auto
  then show ?thesis
    using assms(2,3) b' by (intro exI [of _ b']) (simp add: rest_of_read_def split: option.split)
qed

lemma read_loop_lines:
  assumes "holds b 0 w" "next_line w = None" "chunks_ok C chunks" "no_prompt (w @ concat chunks)"
    "lines_within K (w @ concat chunks)" "K + C < length b"
  shows "case next_line (w @ concat chunks) of
           None \<Rightarrow> \<exists>b' cur'. read_loop b (length (takeWhile is_eol w)) (length w) chunks = Some (None, b', cur', [])
         | Some (l, rest) \<Rightarrow> \<exists>x. read_loop b (length (takeWhile is_eol w)) (length w) chunks = Some x \<and> found (length b) C l rest x"
  using assms
proof (induction chunks arbitrary: b w)
  case Nil
  then show ?case
    by (simp split: option.split)
next
  case (Cons ch chunks)
  have w: "length w + length ch < length b"
    using lines_withinD [of K "[]" w "concat (ch # chunks)"] Cons.prems by simp
  obtain b' where b': "length b' = length b" "holds b' 0 (w @ ch)"
    "holds b' (length (takeWhile is_eol (w @ ch))) (dropWhile is_eol (w @ ch))"
    "read_loop b (length (takeWhile is_eol w)) (length w) (ch # chunks) =
      (case next_line (w @ ch) of
         Some (l, r) \<Rightarrow> Some (Some (length (takeWhile is_eol (w @ ch)) + length l), b', length (takeWhile is_eol (w @ ch)), chunks)
       | None \<Rightarrow> read_loop b' (length (takeWhile is_eol (w @ ch))) (length (w @ ch)) chunks)"
    using read_loop_step [of b w ch "concat chunks" chunks] Cons.prems w by auto
  show ?case
  proof (cases "next_line (w @ ch)")
    case None
    then show ?thesis
      using Cons.IH [OF b'(2) None] Cons.prems b' by (simp only: option.case) simp
  next
    case (Some lr)
    then obtain l r where n: "next_line (w @ ch) = Some (l, r)"
      by (cases lr) auto
    moreover obtain e where "dropWhile is_eol (w @ ch) = l @ e # r"
      using eol_at_next_line [OF n] by blast
    ultimately show ?thesis
      using next_line_append [OF n, of "concat chunks"] b' Cons.prems(3) by (auto simp: found_def)
  qed
qed

text \<open>A reader in the middle of an input: \<open>t\<close> is what its buffer holds, \<open>rest\<close> all that is to come.\<close>

definition reads :: "nat \<Rightarrow> nat \<Rightarrow> at_reader \<Rightarrow> buf list \<Rightarrow> buf \<Rightarrow> bool" where
  "reads N C rd chunks rest \<longleftrightarrow> length (s_ATBuffer rd) = N \<and> chunks_ok C chunks \<and>
     (\<exists>t. holds (s_ATBuffer rd) (s_ATBufferCur rd) t \<and> t @ concat chunks = rest)"

lemma readline_finish:
  assumes "found N C l rest (Some j, b, cur, chunks)"
    "readline_begin (s_ATBuffer rd) (s_ATBufferCur rd) = Some (b0, cur0, p, e)"
    "(case e of Some j \<Rightarrow> Some (Some j, b0, cur0, chunks0) | None \<Rightarrow> read_loop b0 cur0 p chunks0) = Some (Some j, b, cur, chunks)"
  shows "\<exists>rd'. readline rd chunks0 = Some (Some l, rd', chunks) \<and> reads N C rd' chunks rest"
proof -
  obtain e' r where f: "holds b cur (l @ e' # r)" "r @ concat chunks = rest" "j = cur + length l" "length b = N" "chunks_ok C chunks"
    using assms(1) by (auto simp: found_def)
  obtain b' where "take (length l) (drop cur b) = l" "wr b (cur + length l) [0] = Some b'" "length b' = length b"
    "holds b' (cur + length l + 1) r"
    using cut_holds [OF f(1)] by blast
  then show ?thesis
    using assms(2,3) f by (auto simp: readline_def reads_def)
qed

lemma readline_lines:
  assumes "reads N C rd chunks rest" "no_prompt rest" "lines_within K rest" "K + C < N"
  shows "case next_line rest of
           None \<Rightarrow> \<exists>rd' chunks'. readline rd chunks = Some (None, rd', chunks')
         | Some (l, rest') \<Rightarrow> \<exists>rd' chunks'. readline rd chunks = Some (Some l, rd', chunks') \<and> reads N C rd' chunks' rest'"
proof -
  obtain t where t: "holds (s_ATBuffer rd) (s_ATBufferCur rd) t" "t @ concat chunks = rest"
    and N: "length (s_ATBuffer rd) = N" "chunks_ok C chunks"
    using assms(1) by (auto simp: reads_def)
  have np: "no_prompt (t @ concat chunks)" and lw: "lines_within K (t @ concat chunks)"
    using assms t by simp_all
  show ?thesis
  proof (cases "next_line t")
    case None
    obtain b where b: "readline_begin (s_ATBuffer rd) (s_ATBufferCur rd) = Some (b, 0, length (dropWhile is_eol t), None)"
      "length b = N" "holds b 0 (dropWhile is_eol t)"
      using readline_begin_part [OF t(1) np None] N by auto
    have sfx: "t @ concat chunks = takeWhile is_eol t @ dropWhile is_eol t @ concat chunks"
      by (metis append.assoc takeWhile_dropWhile_id)
    have w: "next_line (dropWhile is_eol t) = None" "takeWhile is_eol (dropWhile is_eol t) = []"
      using next_line_skip [of t "[]"] None by (simp_all add: takeWhile_dropWhile)
    have "case next_line rest of
        None \<Rightarrow> \<exists>b' cur'. read_loop b 0 (length (dropWhile is_eol t)) chunks = Some (None, b', cur', [])
      | Some (l, rest) \<Rightarrow> \<exists>x. read_loop b 0 (length (dropWhile is_eol t)) chunks = Some x \<and> found N C l rest x"
      using read_loop_lines [OF b(3) w(1) N(2), of K] w(2) b(2) assms(4) t(2) next_line_skip [of t "concat chunks"]
        no_prompt_suffix [OF np [unfolded sfx]] lines_within_suffix [OF lw [unfolded sfx]]
      by (auto split: option.splits)
    then show ?thesis
      using b(1) readline_finish [where rd = rd and ?chunks0.0 = chunks]
      by (auto simp: readline_def found_def split: option.splits) fastforce
  next
    case (Some lr)
    then obtain l r where n: "next_line t = Some (l, r)"
      by (cases lr) auto
    obtain cur' e where b: "readline_begin (s_ATBuffer rd) (s_ATBufferCur rd) = Some (s_ATBuffer rd, cur', 0, Some (cur' + length l))"
      "holds (s_ATBuffer rd) cur' (l @ e # r)"
      using readline_begin_line [OF t(1) np n] by blast
    then have "found N C l (r @ concat chunks) (Some (cur' + length l), s_ATBuffer rd, cur', chunks)"
      using N by (auto simp: found_def)
    from readline_finish [OF this b(1), of chunks] show ?thesis
      using next_line_append [OF n, of "concat chunks"] t(2) by auto
  qed
qed

subsection \<open>The reader\<close>

text \<open>What the reader has to do with the lines of its input, up to the end of the file.\<close>

fun reader_lines :: "cstr list \<Rightarrow> at_chan \<Rightarrow> at_chan access" where
  "reader_lines [] c = Some (onReaderClosed c)"
| "reader_lines [l] c = (if isSMSUnsolicited l then Some (onReaderClosed c) else map_option onReaderClosed (processLine l c))"
| "reader_lines (l # l2 # ls) c =
     (if isSMSUnsolicited l then reader_lines ls (c\<lparr>unsolicited := unsolicited c @ [(l, Some l2)]\<rparr>)
      else do { c \<leftarrow> processLine l c; reader_lines (l2 # ls) c })"

lemma reader_lines_Cons:
  "reader_lines (l # ls) c =
     (if isSMSUnsolicited l
      then (case ls of [] \<Rightarrow> Some (onReaderClosed c)
            | l2 # ls' \<Rightarrow> reader_lines ls' (c\<lparr>unsolicited := unsolicited c @ [(l, Some l2)]\<rparr>))
      else do { c \<leftarrow> processLine l c; reader_lines ls c })"
  by (cases ls; cases "processLine l c") simp_all

lemma next_line_rest:
  assumes "next_line t = Some (l, r)"
  shows "no_prompt t \<Longrightarrow> no_prompt r" "lines_within K t \<Longrightarrow> lines_within K r" "length r < length t"
proof -
  obtain n e where "t = (n @ l @ [e]) @ r"
    using assms by (auto elim: next_line_Some)
  then show "no_prompt t \<Longrightarrow> no_prompt r" "lines_within K t \<Longrightarrow> lines_within K r" "length r < length t"
    using no_prompt_suffix lines_within_suffix by (blast, blast, simp)
qed

lemma at_lines_None: "next_line t = None \<Longrightarrow> at_lines t = []"
  and at_lines_Some: "next_line t = Some (l, r) \<Longrightarrow> at_lines t = l # at_lines r"
  by (simp_all add: at_lines.simps [of t])

lemma readerLoop_reads:
  assumes "reads N C rd chunks rest" "no_prompt rest" "lines_within K rest" "K + C < N" "length rest < fuel"
  shows "readerLoop fuel rd chunks c = map_option Some (reader_lines (at_lines rest) c)"
  using assms
proof (induction fuel arbitrary: rd chunks rest c)
  case 0
  then show ?case
    by simp
next
  case (Suc fuel)
  note step = readline_lines [OF Suc.prems(1-4)]
  show ?case
  proof (cases "next_line rest")
    case None
    with step obtain rd' chunks' where "readline rd chunks = Some (None, rd', chunks')"
      by auto
    with None show ?thesis
      by (simp add: at_lines_None)
  next
    case (Some lr)
    then obtain l r where n: "next_line rest = Some (l, r)"
      by (cases lr) auto
    with step obtain rd' chunks' where l: "readline rd chunks = Some (Some l, rd', chunks')" "reads N C rd' chunks' r"
      by auto
    note r = next_line_rest(1) [OF n Suc.prems(2)] next_line_rest(2) [OF n Suc.prems(3)] next_line_rest(3) [OF n]
    note step2 = readline_lines [OF l(2) r(1,2) Suc.prems(4)]
    have "readerLoop fuel rd' chunks' d = map_option Some (reader_lines (at_lines r) d)" for d
      using Suc.IH [OF l(2) r(1,2) Suc.prems(4)] Suc.prems(5) r(3) by simp
    moreover have "readerLoop fuel rd'' chunks'' d = map_option Some (reader_lines (at_lines r') d)"
      if "next_line r = Some (l', r')" "reads N C rd'' chunks'' r'" for d l' r' rd'' chunks''
      using Suc.IH [OF that(2) next_line_rest(1) [OF that(1) r(1)] next_line_rest(2) [OF that(1) r(2)] Suc.prems(4)]
        next_line_rest(3) [OF that(1)] Suc.prems(5) r(3) by simp
    ultimately show ?thesis
      using step2 by (cases "next_line r")
        (auto simp: l(1) at_lines_Some [OF n] at_lines_None at_lines_Some reader_lines_Cons map_option_bind o_def
           split: bind_splits)
  qed
qed

lemma reads_init: "chunks_ok C chunks \<Longrightarrow> reads MAX_AT_RESPONSE C at_reader_init chunks (concat chunks)"
  unfolding reads_def
  by (intro conjI exI [of _ "[]"]) (auto simp: at_reader_init_def holds_def MAX_AT_RESPONSE_def replicate_Suc [of 4095, simplified])



subsection \<open>A command\<close>

text \<open>A command with its lines still to come.\<close>

definition awaiting :: "cstr \<Rightarrow> cstr list \<Rightarrow> at_chan \<Rightarrow> bool" where
  "awaiting prefix got c \<longleftrightarrow> sp_response c = Some (at_response_new\<lparr>p_intermediates := got\<rparr>) \<and> \<not> s_readerClosed c \<and>
     s_type c = MULTILINE \<and> s_responsePrefix c = Some prefix \<and> s_smsPDU c = None \<and> s_raw_data c = None"

definition at_final :: "cstr \<Rightarrow> bool" where
  "at_final l \<longleftrightarrow> isFinalResponseSuccess l \<or> isFinalResponseError l"

lemma awaiting_line:
  assumes "awaiting prefix got c" "\<not> at_final l"
  shows "\<exists>d. processLine l c = Some d \<and> awaiting prefix (if strStartsWith l prefix then l # got else got) d \<and>
           unsolicited d = unsolicited c @ (if strStartsWith l prefix then [] else [(l, None)]) \<and> s_atc_proxy d = s_atc_proxy c"
  using assms
  by (auto simp: awaiting_def at_final_def processLine_def intermediate_def addIntermediate_def handleUnsolicited_def at_response_new_def)

lemma awaiting_final:
  assumes "awaiting prefix got c" "at_final f"
  shows "\<exists>d. processLine f c = Some d \<and> \<not> s_readerClosed d \<and>
           sp_response d = Some \<lparr>at_success = isFinalResponseSuccess f, finalResponse = Some f, p_intermediates = got\<rparr> \<and>
           unsolicited d = unsolicited c @ (if s_atc_proxy c then [(f, None)] else [])"
  using assms
  by (auto simp: awaiting_def at_final_def processLine_def handleFinalResponse_def handleUnsolicited_def at_response_new_def Let_def)

lemma at_wait_multiline:
  assumes "awaiting prefix got c" "list_all (\<lambda>l. \<not> at_final l) ls" "at_final f"
  shows "\<exists>d. at_wait (map At_line ls @ At_line f # later) c =
      Some (0, Some \<lparr>at_success = isFinalResponseSuccess f, finalResponse = Some f,
                     p_intermediates = rev got @ filter (\<lambda>l. strStartsWith l prefix) ls\<rparr>, d) \<and> sp_response d = None \<and>
      unsolicited d = unsolicited c @ map (\<lambda>l. (l, None)) (filter (\<lambda>l. \<not> strStartsWith l prefix) ls) @
        (if s_atc_proxy c then [(f, None)] else [])"
  using assms(1,2)
proof (induction ls arbitrary: c got)
  case Nil
  then have "sp_response c = Some (at_response_new\<lparr>p_intermediates := got\<rparr>)" "\<not> s_readerClosed c"
    by (simp_all add: awaiting_def)
  with awaiting_final [OF Nil(1) assms(3)] show ?case
    by (auto simp: at_wait.simps [of _ c] at_wait.simps [of later] at_send_end_def clearPendingCommand_def at_response_new_def)
next
  case (Cons l ls)
  have c: "sp_response c = Some (at_response_new\<lparr>p_intermediates := got\<rparr>)" "\<not> s_readerClosed c"
    using Cons.prems by (simp_all add: awaiting_def)
  obtain d where d: "processLine l c = Some d" "awaiting prefix (if strStartsWith l prefix then l # got else got) d"
    "unsolicited d = unsolicited c @ (if strStartsWith l prefix then [] else [(l, None)])" "s_atc_proxy d = s_atc_proxy c"
    using awaiting_line [OF Cons.prems(1)] Cons.prems(2) by auto
  show ?case
    using Cons.IH [OF d(2)] Cons.prems(2) c d by (auto simp: at_wait.simps [of _ c] at_response_new_def)
qed

text \<open>C11: A command that expects several lines (\<^verbatim>\<open>at_send_command_multiline\<close>) returns without an error exactly the lines with its
  prefix that come before the final line, in the order they came, and whether the final line reports success. All other
  lines are handled as unsolicited ones in their order, the final line too for a proxy, and the channel is
  ready for the next command. Lines after the final line are left alone.\<close>

theorem multiline_response:
  assumes "sp_response c = None" "\<not> s_readerClosed c" "s_raw_data c = None" "0 \<le> wl"
    "list_all (\<lambda>l. \<not> at_final l) ls" "at_final f"
  shows "\<exists>d. at_send_command_multiline prefix wl (map At_line ls @ At_line f # later) c =
      Some (0, Some \<lparr>at_success = isFinalResponseSuccess f, finalResponse = Some f,
                     p_intermediates = filter (\<lambda>l. strStartsWith l prefix) ls\<rparr>, d) \<and> sp_response d = None \<and>
      unsolicited d = unsolicited c @ map (\<lambda>l. (l, None)) (filter (\<lambda>l. \<not> strStartsWith l prefix) ls) @
        (if s_atc_proxy c then [(f, None)] else [])"
proof -
  let ?c = "c\<lparr>s_type := MULTILINE, s_responsePrefix := Some prefix, s_smsPDU := None,
               sp_response := Some at_response_new, cond_signalled := False\<rparr>"
  have "awaiting prefix [] ?c"
    using assms(1-3) by (simp add: awaiting_def at_response_new_def)
  from at_wait_multiline [OF this assms(5,6), of later] show ?thesis
    using assms(1,4) by (simp add: at_send_command_multiline_def at_send_command_full_def at_send_begin_def)
qed

theorem multiline_response_witness:
  "let c = \<lparr>s_fd = 3, s_atc_proxy = True, s_readerClosed = False, s_type = NO_RESULT, s_responsePrefix = None, s_smsPDU = None,
            s_raw_data = None, sp_response = None, cond_signalled = False, unsolicited = [], at_output = []\<rparr>
   in \<exists>d. at_send_command_multiline (ascii ''+A'') 0 (map At_line [ascii ''+A: 1'', ascii ''RING'', ascii ''+A: 2'', ascii ''OK'']) c =
        Some (0, Some \<lparr>at_success = True, finalResponse = Some (ascii ''OK''), p_intermediates = [ascii ''+A: 1'', ascii ''+A: 2'']\<rparr>, d) \<and>
        unsolicited d = [(ascii ''RING'', None), (ascii ''OK'', None)]"
proof -
  let ?c = "\<lparr>s_fd = 3, s_atc_proxy = True, s_readerClosed = False, s_type = NO_RESULT, s_responsePrefix = None, s_smsPDU = None,
            s_raw_data = None, sp_response = None, cond_signalled = False, unsolicited = [], at_output = []\<rparr>"
  have "list_all (\<lambda>l. \<not> at_final l) [ascii ''+A: 1'', ascii ''RING'', ascii ''+A: 2'']" "at_final (ascii ''OK'')"
    "isFinalResponseSuccess (ascii ''OK'')"
    by code_simp+
  moreover have "strStartsWith (ascii ''+A: 1'') (ascii ''+A'')" "strStartsWith (ascii ''+A: 2'') (ascii ''+A'')"
    "\<not> strStartsWith (ascii ''RING'') (ascii ''+A'')"
    by code_simp+
  ultimately show ?thesis
    using multiline_response [of ?c 0 "[ascii ''+A: 1'', ascii ''RING'', ascii ''+A: 2'']" "ascii ''OK''" "ascii ''+A''" "[]"]
    by (auto simp: Let_def)
qed

end
