(* ===== verification/Atc.thy ===== *)
theory Atc
  imports Conn_Invariant At_Reader
begin

text \<open>
  The AT back end (\<^verbatim>\<open>atc.c\<close>): the handlers of the table \<^verbatim>\<open>atc_request_ops\<close>, each of which issues AT commands on the
  channel and reads the response lines, the start of the modem and the thread that waits for the device. The
  statics of the file are the record \<open>atc\<close>, which extends the session of the channel. Where the code reads a local integer
  that was never set, its value is the parameter \<open>junk\<close>; a text pointer that was never set is a fault. The
  host is little-endian.
\<close>

subsection \<open>State and helpers\<close>

datatype STYLE_ATC = UNKNOWN | EG800Q | EG800G

text \<open>\<open>shm_status\<close> is the connection status in shared memory if there is any, \<open>system_log\<close> the arguments of \<^verbatim>\<open>system\<close> and
  \<open>to_main\<close> the events sent to the main thread; \<open>modem_restarts\<close> is the assignment to \<^verbatim>\<open>g_donot_exit_when_modem_hangup\<close>.\<close>

record atc = at_session +
  style_atc :: STYLE_ATC
  asr_style_atc :: bool
  s_pdp :: int
  modem_restarts :: bool
  shm_status :: "byte option"
  system_log :: "cstr list"
  to_main :: "cm_event list"

definition quoted :: "cstr \<Rightarrow> cstr" where
  "quoted s = [34] @ s @ [34]"

definition check_mcu_endian :: bool where
  "check_mcu_endian \<longleftrightarrow> hd (bytes32 1) \<noteq> 0"

definition at_response_error :: "int \<Rightarrow> at_response option \<Rightarrow> bool" where
  "at_response_error err p_response \<longleftrightarrow>
     err \<noteq> 0 \<or> (case p_response of None \<Rightarrow> True | Some r \<Rightarrow> finalResponse r = None \<or> \<not> at_success r)"

text \<open>\<^verbatim>\<open>p_response->p_intermediates->line\<close> and the list of all lines.\<close>

definition lines_of :: "at_response option \<Rightarrow> cstr list access" where
  "lines_of r = map_option p_intermediates r"

definition first_line :: "at_response option \<Rightarrow> cstr access" where
  "first_line r = do { ls \<leftarrow> lines_of r; (case ls of [] \<Rightarrow> None | l # _ \<Rightarrow> Some l) }"

text \<open>The value of the destination of conversion \<open>i\<close> that was \<open>d\<close> before.\<close>

definition scanned_int :: "at_val list \<Rightarrow> nat \<Rightarrow> int \<Rightarrow> int" where
  "scanned_int vs i d = (if i < length vs then (case vs ! i of AtInt v \<Rightarrow> v | _ \<Rightarrow> d) else d)"

definition scanned_str :: "at_val list \<Rightarrow> nat \<Rightarrow> cstr option \<Rightarrow> cstr option" where
  "scanned_str vs i d = (if i < length vs then (case vs ! i of AtStr t \<Rightarrow> t | _ \<Rightarrow> d) else d)"

definition change_connect_status :: "byte \<Rightarrow> atc \<Rightarrow> atc" where
  "change_connect_status status a =
     (if shm_status a = None then a
      else a\<lparr>shm_status := Some status, system_log := system_log a @ [ascii ''/etc/init.d/failover network'']\<rparr>)"

definition send_event :: "cm_event \<Rightarrow> atc \<Rightarrow> atc" where
  "send_event e a = a\<lparr>to_main := to_main a @ [e]\<rparr>"

definition onUnsolicited :: "cstr \<Rightarrow> cm_event option" where
  "onUnsolicited s =
     (if strStartsWith s (ascii ''+QNETDEVSTATUS:'') then Some RIL_UNSOL_DATA_CALL_LIST_CHANGED
      else if strStartsWith s (ascii ''+CGREG:'') \<or> strStartsWith s (ascii ''+CEREG:'') \<or> strStartsWith s (ascii ''+C5GREG:'')
      then Some RIL_UNSOL_RESPONSE_VOICE_NETWORK_STATE_CHANGED else None)"

text \<open>\<^verbatim>\<open>sscanf\<close> with \<^verbatim>\<open>%d.%d.%d.%d\<close>, and with \<^verbatim>\<open>%02X\<close> four times, as the GNU C library has them.\<close>

definition sscan_d :: "cstr \<Rightarrow> (int \<times> cstr) option" where
  "sscan_d s =
     (let r = dropWhile c_isspace s;
          r' = (if r \<noteq> [] \<and> (hd r = 45 \<or> hd r = 43) then tl r else r);
          ds = takeWhile c_isdigit r'
      in if ds = [] then None else Some (c_int (if hd r = 45 then - digits_value ds else digits_value ds), drop (length ds) r'))"

fun dotted :: "nat \<Rightarrow> cstr \<Rightarrow> int list" where
  "dotted 0 s = []"
| "dotted (Suc n) s =
     (case sscan_d s of
        None \<Rightarrow> []
      | Some (v, r) \<Rightarrow> v # (case r of [] \<Rightarrow> [] | c # r' \<Rightarrow> if c = 46 then dotted n r' else []))"

definition sscan_x2 :: "cstr \<Rightarrow> (int \<times> cstr) option" where
  "sscan_x2 s =
     (let r = dropWhile c_isspace s; w = take 2 r in
      if length w = 2 \<and> w ! 0 = 48 \<and> (w ! 1 = 120 \<or> w ! 1 = 88) then Some (0, drop 2 r)
      else (let sign = w \<noteq> [] \<and> (hd w = 45 \<or> hd w = 43);
                ds = takeWhile (is_digit_in 16) (if sign then tl w else w)
            in if ds = [] then None
               else Some (if hd w = 45 then - digits_in 16 ds else digits_in 16 ds, drop (length ds + (if sign then 1 else 0)) r)))"

fun hex_bytes :: "nat \<Rightarrow> cstr \<Rightarrow> int list" where
  "hex_bytes 0 s = []"
| "hex_bytes (Suc n) s = (case sscan_x2 s of None \<Rightarrow> [] | Some (v, r) \<Rightarrow> v # hex_bytes n r)"

text \<open>The array \<^verbatim>\<open>addr[4]\<close> of zeros after the scan, and the address made of it.\<close>

definition addr_array :: "int list \<Rightarrow> int list" where
  "addr_array vs = take 4 (vs @ replicate 4 0)"

definition addr_word :: "int list \<Rightarrow> u32" where
  "addr_word addr =
     (let b = (\<lambda>n i. push_bit n (word_of_int (addr ! i) :: u32)) in
      if check_mcu_endian then b 0 0 OR b 8 1 OR b 16 2 OR b 24 3 else b 24 0 OR b 16 1 OR b 8 2 OR b 0 3)"

definition dotted_address :: "cstr \<Rightarrow> u32" where
  "dotted_address s = addr_word (addr_array (dotted 4 s))"

definition hex_address :: "cstr \<Rightarrow> u32" where
  "hex_address s = addr_word (rev (addr_array (hex_bytes 4 s)))"

subsection \<open>Identification and SIM\<close>

definition atc_requestBaseBandVersion :: "at_device \<Rightarrow> PROFILE_T \<Rightarrow> atc \<Rightarrow> (int \<times> PROFILE_T \<times> atc) access" where
  "atc_requestBaseBandVersion dev profile a = do {
     (err, r, a) \<leftarrow> at_issue dev (ascii ''AT+CGMR'') (at_send_command_multiline []) a;
     if at_response_error err r then Some (- 1, profile, a)
     else do {
       ls \<leftarrow> lines_of r;
       let (retVal, profile) = (case ls of [] \<Rightarrow> (- 1, profile) | l # _ \<Rightarrow> (0, profile\<lparr>BaseBandVersion := take 63 l\<rparr>));
       let a = (if strStartsWith (BaseBandVersion profile) (ascii ''EG800G'') then a\<lparr>style_atc := EG800G\<rparr>
                else if strStartsWith (BaseBandVersion profile) (ascii ''EG800Q'') then a\<lparr>style_atc := EG800Q\<rparr> else a);
       Some (retVal, profile, a) } }"

text \<open>The number of a status of the SIM card.\<close>

fun sim_code :: "SIM_Status \<Rightarrow> int" where
  "sim_code SIM_ABSENT = 0" | "sim_code SIM_NOT_READY = 1" | "sim_code SIM_READY = 2" | "sim_code SIM_PIN = 3"
| "sim_code SIM_PUK = 4" | "sim_code SIM_NETWORK_PERSONALIZATION = 5" | "sim_code SIM_BAD = 6"

definition cpin_status :: "cstr \<Rightarrow> SIM_Status option" where
  "cpin_status cpinResult =
     (if cpinResult = ascii ''SIM PIN'' then Some SIM_PIN
      else if cpinResult = ascii ''SIM PUK'' then Some SIM_PUK
      else if cpinResult = ascii ''PH-NET PIN'' then None
      else if cpinResult \<noteq> ascii ''READY'' then Some SIM_ABSENT
      else Some SIM_READY)"

definition atc_requestGetSIMStatus :: "at_device \<Rightarrow> SIM_Status \<Rightarrow> atc \<Rightarrow> (int \<times> SIM_Status \<times> atc) access" where
  "atc_requestGetSIMStatus dev old a = do {
     (err, r, a) \<leftarrow> at_issue dev (ascii ''AT+CPIN?'') (at_send_command_singleline (ascii ''+CPIN:'')) a;
     if at_response_error err r then Some (err, SIM_NOT_READY, a)
     else (let cme = at_get_cme_error r in
       if cme = 10 \<or> cme = 3 \<or> cme = 13 then Some (err, SIM_ABSENT, a)
       else if cme \<noteq> 0 then Some (err, SIM_NOT_READY, a)
       else do {
         l \<leftarrow> first_line r;
         let (err, cur) = at_tok_start (Some l);
         if err < 0 then Some (err, SIM_NOT_READY, a)
         else (let (err, t, cur) = at_tok_nextstr cur in
           if err < 0 then Some (err, SIM_NOT_READY, a)
           else do {
             cpinResult \<leftarrow> t;
             Some (case cpin_status cpinResult of
                     Some st \<Rightarrow> (err, st, a)
                   | None \<Rightarrow> (sim_code SIM_NETWORK_PERSONALIZATION, old, a)) }) }) }"

text \<open>The response is not asked for, so the error test always sees a null pointer.\<close>

definition atc_requestEnterSimPin :: "at_device \<Rightarrow> cstr \<Rightarrow> atc \<Rightarrow> (int \<times> atc) access" where
  "atc_requestEnterSimPin dev pPinCode a = do {
     (err, r, a) \<leftarrow> at_issue dev (ascii ''AT+CPIN='' @ pPinCode) at_send_command a;
     Some (if \<not> at_response_error err None then 0 else - 1, a) }"

definition atc_requestGetICCID :: "at_device \<Rightarrow> atc \<Rightarrow> (int \<times> atc) access" where
  "atc_requestGetICCID dev a = do {
     (err, r, a) \<leftarrow> at_issue dev (ascii ''AT+QCCID'') (at_send_command_singleline (ascii ''+QCCID:'')) a;
     if at_response_error err r then Some (- 1, a)
     else do {
       ls \<leftarrow> lines_of r;
       (case ls of
          [] \<Rightarrow> Some (- 1, a)
        | l # _ \<Rightarrow> do {
            (n, vs) \<leftarrow> at_tok_scanf (Some l) (ascii ''%s'');
            if n \<noteq> 1 then Some (- 1, a)
            else do { iccid \<leftarrow> scanned_str vs 0 None; Some (if iccid \<noteq> [] then 0 else - 1, a) } }) } }"

definition atc_requestGetIMSI :: "at_device \<Rightarrow> atc \<Rightarrow> (int \<times> atc) access" where
  "atc_requestGetIMSI dev a = do {
     (err, r, a) \<leftarrow> at_issue dev (ascii ''AT+CIMI'') at_send_command_numeric a;
     if at_response_error err r then Some (- 1, a)
     else do { ls \<leftarrow> lines_of r; Some (if ls = [] then - 1 else 0, a) } }"

definition atc_requestSimHotplug :: "at_device \<Rightarrow> atc \<Rightarrow> (int \<times> atc) access" where
  "atc_requestSimHotplug dev a = do {
     (err, r, a) \<leftarrow> at_issue dev (ascii ''AT+QSIMDET=1,1'') at_send_command a;
     if at_response_error err r then Some (- 1, a)
     else do {
       (err, r, a) \<leftarrow> at_issue dev (ascii ''AT+QSIMSTAT=1'') at_send_command a;
       Some (if at_response_error err r then - 1 else 0, a) } }"

definition atc_requestRebootModem :: "at_device \<Rightarrow> atc \<Rightarrow> (int \<times> atc) access" where
  "atc_requestRebootModem dev a = do {
     (err, r, a) \<leftarrow> at_issue dev (ascii ''AT+CFUN=1,1'') at_send_command a;
     Some (if at_response_error err r then - 1 else 0, a) }"

subsection \<open>The profile\<close>

definition atc_ipStr :: "cstr list" where
  "atc_ipStr = map ascii [''NULL'', ''IPV4'', ''IPV6'', ''IPV4V6'']"

definition ip_str :: "int \<Rightarrow> cstr access" where
  "ip_str i = (if 0 \<le> i \<and> i < 4 then Some (atc_ipStr ! nat i) else None)"

definition qicsgp :: "int \<Rightarrow> int \<Rightarrow> cstr \<Rightarrow> cstr \<Rightarrow> cstr \<Rightarrow> int \<Rightarrow> cstr" where
  "qicsgp context type n u w authentication =
     ascii ''AT+QICSGP='' @ int_of context @ [44] @ int_of type @ [44] @ quoted n @ [44] @ quoted u @ [44] @ quoted w @ [44] @
     int_of authentication"

definition text_of :: "cstr option \<Rightarrow> cstr" where
  "text_of s = (case s of None \<Rightarrow> [] | Some t \<Rightarrow> t)"

definition atc_requestSetProfile :: "at_device \<Rightarrow> PROFILE_T \<Rightarrow> atc \<Rightarrow> (int \<times> PROFILE_T \<times> atc) access" where
  "atc_requestSetProfile dev profile a = do {
     ip \<leftarrow> ip_str (iptype profile);
     if old_apn profile = text_of (apn profile) \<and> old_user profile = text_of (user profile) \<and>
        old_password profile = text_of (password profile) \<and> old_iptype profile = iptype profile \<and> old_auth profile = auth profile
     then Some (0, profile, a)
     else do {
       (err, r, a) \<leftarrow> at_issue dev (qicsgp (pdp profile) (iptype profile) (text_of (apn profile)) (text_of (user profile))
                        (text_of (password profile)) (auth profile)) at_send_command a;
       if at_response_error err r
       then do {
         (err, r, a) \<leftarrow> at_issue dev (ascii ''AT+CGDCONT='' @ int_of (pdp profile) @ [44] @ quoted ip @ [44] @
                                        quoted (text_of (apn profile))) at_send_command a;
         Some (1, profile, a) }
       else Some (1, profile, a) } }"

text \<open>The query of a profile. A modem that gives no line for a profile is made to define one and asked again; \<open>None\<close>
  inside of the result if this still goes on after \<open>fuel\<close> rounds.\<close>

fun qicsgp_query ::
  "at_device \<Rightarrow> nat \<Rightarrow> PROFILE_T \<Rightarrow> atc \<Rightarrow> (int \<times> at_response option \<times> atc) option access" where
  "qicsgp_query dev 0 profile a = Some None"
| "qicsgp_query dev (Suc fuel) profile a = do {
     (err, r, a) \<leftarrow> at_issue dev (ascii ''AT+QICSGP='' @ int_of (pdp profile)) (at_send_command_singleline (ascii ''+QICSGP:'')) a;
     if err = AT_ERROR_INVALID_RESPONSE \<and> r = None
     then do {
       (err, r, a) \<leftarrow> at_issue dev (qicsgp (pdp profile) (iptype profile) [] [] [] 0) at_send_command a;
       if \<not> at_response_error err r then qicsgp_query dev fuel profile a else Some (Some (err, r, a)) }
     else Some (Some (err, r, a)) }"

definition cgdcont_type :: "cstr \<Rightarrow> int" where
  "cgdcont_type t = (if c_caseeq t (ascii ''IPV4V6'') then 3 else if c_caseeq t (ascii ''IPV6'') then 2 else 1)"

fun cgdcont_search :: "int \<Rightarrow> cstr list \<Rightarrow> cstr option \<Rightarrow> (int \<times> cstr option) access" where
  "cgdcont_search context [] n = Some (1, n)"
| "cgdcont_search context (l # ls) n = do {
     (err, vs) \<leftarrow> at_tok_scanf (Some l) (ascii ''%d%s%s'');
     if err = 3 \<and> scanned_int vs 0 0 = context
     then do { t \<leftarrow> scanned_str vs 1 None; Some (cgdcont_type t, scanned_str vs 2 n) }
     else cgdcont_search context ls None }"

text \<open>\<^verbatim>\<open>strncpy\<close> into an array of 64 bytes; a text that fills it has no terminator, which is a fault of its readers.\<close>

definition strncpy64 :: "cstr \<Rightarrow> cstr access" where
  "strncpy64 s = (if length s < 64 then Some s else None)"

definition store_old :: "int \<Rightarrow> cstr option \<Rightarrow> cstr option \<Rightarrow> cstr option \<Rightarrow> int \<Rightarrow> PROFILE_T \<Rightarrow> PROFILE_T access" where
  "store_old type n u w authentication profile = do {
     n \<leftarrow> strncpy64 (text_of n); u \<leftarrow> strncpy64 (text_of u); w \<leftarrow> strncpy64 (text_of w);
     ip \<leftarrow> ip_str type;
     Some (profile\<lparr>old_apn := n, old_user := u, old_password := w, old_auth := authentication, old_iptype := type\<rparr>) }"

definition atc_requestGetProfile ::
  "at_device \<Rightarrow> int \<Rightarrow> nat \<Rightarrow> PROFILE_T \<Rightarrow> atc \<Rightarrow> (int \<times> PROFILE_T \<times> atc) option access" where
  "atc_requestGetProfile dev junk fuel profile a = do {
     let profile = profile\<lparr>iptype := (if enable_ipv4 profile \<and> enable_ipv6 profile then 3 else if enable_ipv6 profile then 2 else 1)\<rparr>;
     q \<leftarrow> qicsgp_query dev fuel profile a;
     (case q of
        None \<Rightarrow> Some None
      | Some (err, r, a) \<Rightarrow>
          if \<not> at_response_error err r
          then do {
            l \<leftarrow> first_line r;
            (n, vs) \<leftarrow> at_tok_scanf (Some l) (ascii ''%d%s%s%s%d'');
            profile \<leftarrow> store_old (scanned_int vs 0 1) (scanned_str vs 1 (Some [])) (scanned_str vs 2 (Some []))
                         (scanned_str vs 3 (Some [])) (scanned_int vs 4 0) profile;
            Some (Some (if n \<noteq> 4 \<or> junk \<noteq> pdp profile then - 1 else 0, profile, a)) }
          else do {
            (err, r, a) \<leftarrow> at_issue dev (ascii ''AT+CGDCONT?'') (at_send_command_multiline (ascii ''+CGDCONT:'')) a;
            if at_response_error err r
            then do { profile \<leftarrow> store_old 1 (Some []) (Some []) (Some []) 0 profile; Some (Some (- 1, profile, a)) }
            else do {
              ls \<leftarrow> lines_of r;
              (type, n) \<leftarrow> cgdcont_search (pdp profile) ls (Some []);
              profile \<leftarrow> store_old type n (Some []) (Some []) 0 profile;
              Some (Some (0, profile, a)) } }) }"

subsection \<open>Registration\<close>

text \<open>The registration command for an access technology of \<^verbatim>\<open>+COPS\<close>.\<close>

definition reg_command :: "int \<Rightarrow> (cstr \<times> cstr) option" where
  "reg_command cops_act =
     (if cops_act \<in> {2, 3, 4, 5, 6} then Some (ascii ''AT+CGREG?'', ascii ''+CGREG:'')
      else if cops_act \<in> {7, 13} then Some (ascii ''AT+CEREG?'', ascii ''+CEREG:'')
      else if cops_act \<in> {10, 11, 12} then Some (ascii ''AT+C5GREG?'', ascii ''+C5GREG:'')
      else None)"

text \<open>The registration state in a line, by the number of its commas; \<open>None\<close> inside where the code gives up.\<close>

definition reg_scan :: "cstr \<Rightarrow> cstr \<Rightarrow> nat \<Rightarrow> int option access" where
  "reg_scan line fmt n = do {
     (k, vs) \<leftarrow> at_tok_scanf (Some line) fmt;
     Some (if k \<noteq> n then None else Some (scanned_int vs 1 0)) }"

definition reg_state :: "cstr \<Rightarrow> int option access" where
  "reg_state line =
     (let commas = at_tok_count (Some line) in
      if commas = 0
      then (let (err, v, cur) = at_tok_nextint (Some line) in Some (if err < 0 then None else v))
      else if commas = 1 then reg_scan line (ascii ''%d%d'') 2
      else if commas = 2 then reg_scan line (ascii ''%d%x%x'') 3
      else if commas = 3 then reg_scan line (ascii ''%d%d%x%x'') 4
      else if commas \<le> 7 then reg_scan line (ascii ''%d%d%x%x%d'') 5
      else Some None)"

definition cops_command :: cstr where
  "cops_command = ascii ''AT+COPS=3,0;+COPS?;+COPS=3,1;+COPS?;+COPS=3,2;+COPS?''"

definition atc_requestRegistrationState :: "at_device \<Rightarrow> byte \<Rightarrow> atc \<Rightarrow> (int \<times> byte \<times> atc) access" where
  "atc_requestRegistrationState dev old a = do {
     (err, r, a) \<leftarrow> at_issue dev cops_command (at_send_command_multiline (ascii ''+COPS:'')) a;
     if at_response_error err r then Some (- 1, 0, a)
     else do {
       ls \<leftarrow> lines_of r;
       act \<leftarrow> (case ls of
                [] \<Rightarrow> Some (Some (- 1))
              | l # _ \<Rightarrow> do { (n, vs) \<leftarrow> at_tok_scanf (Some l) (ascii ''%d%d%s%d'');
                             Some (if n \<noteq> 4 then None else Some (scanned_int vs 3 (- 1))) });
       (case Option.bind act reg_command of
          None \<Rightarrow> Some (0, 0, a)
        | Some (cmd, prefix) \<Rightarrow> do {
            (err, r, a) \<leftarrow> at_issue dev cmd (at_send_command_singleline prefix) a;
            if at_response_error err r then Some (0, 0, a)
            else do {
              ls \<leftarrow> lines_of r;
              (case ls of
                 [] \<Rightarrow> Some (0, 0, a)
               | line # _ \<Rightarrow> do {
                   state \<leftarrow> reg_state line;
                   Some (0, if state = Some 1 \<or> state = Some 5 then 1 else 0, a) }) } }) } }"

subsection \<open>The data call\<close>

text \<open>The state \<^verbatim>\<open>AT+CGACT?\<close> reports for a context.\<close>

fun cgact_state :: "int \<Rightarrow> cstr list \<Rightarrow> int access" where
  "cgact_state context [] = Some 0"
| "cgact_state context (l # ls) = do {
     (n, vs) \<leftarrow> at_tok_scanf (Some l) (ascii ''%d%d'');
     if scanned_int vs 0 0 = context then Some (scanned_int vs 1 0) else cgact_state context ls }"

text \<open>Activating the context on a modem of ASR: the result is the error to return, if there is one. An
  \<^verbatim>\<open>ERROR\<close> response of the modem gives the value 0.\<close>

definition asr_activate :: "at_device \<Rightarrow> int \<Rightarrow> atc \<Rightarrow> (int option \<times> atc) access" where
  "asr_activate dev context a = do {
     (err, r, a) \<leftarrow> at_issue dev (ascii ''AT+CGACT?'') (at_send_command_multiline (ascii ''+CGACT:'')) a;
     if at_response_error err r then Some (Some err, a)
     else do {
       ls \<leftarrow> lines_of r;
       state \<leftarrow> cgact_state context ls;
       if state = 0
       then do {
         (err, r, a) \<leftarrow> at_issue dev (ascii ''AT+CGACT=1,'' @ int_of context) at_send_command a;
         Some (if at_response_error err r then Some err else None, a) }
       else Some (None, a) } }"

text \<open>Up to 15 queries of the state of the call; \<open>Some err\<close> ends the set-up.\<close>

fun await_netdev :: "at_device \<Rightarrow> int \<Rightarrow> nat \<Rightarrow> atc \<Rightarrow> (int option \<times> atc) access" where
  "await_netdev dev context 0 a = Some (None, a)"
| "await_netdev dev context (Suc n) a = do {
     (err, r, a) \<leftarrow> at_issue dev (ascii ''AT+QNETDEVSTATUS='' @ int_of context)
                      (at_send_command_singleline (ascii ''+QNETDEVSTATUS'')) a;
     if err \<noteq> 0 then Some (Some err, a)
     else if \<not> at_response_error err r then Some (None, a)
     else await_netdev dev context n a }"

definition netdevctl :: "int \<Rightarrow> int \<Rightarrow> int \<Rightarrow> cstr" where
  "netdevctl x y z = ascii ''AT+QNETDEVCTL='' @ int_of x @ [44] @ int_of y @ [44] @ int_of z"

definition atc_dial :: "at_device \<Rightarrow> int \<Rightarrow> atc \<Rightarrow> (int \<times> atc) access" where
  "atc_dial dev context a = do {
     (err, r, a) \<leftarrow> at_issue dev (if asr_style_atc a then netdevctl 1 context 1 else netdevctl context 1 1) at_send_command a;
     if at_response_error err r then Some (err, a)
     else do {
       (e, a) \<leftarrow> (if \<not> asr_style_atc a \<and> style_atc a \<noteq> EG800Q then await_netdev dev context 15 a else Some (None, a));
       Some (case e of Some err \<Rightarrow> (err, a) | None \<Rightarrow> (0, send_event RIL_UNSOL_DATA_CALL_LIST_CHANGED a)) } }"

definition atc_requestSetupDataCall :: "at_device \<Rightarrow> PROFILE_T \<Rightarrow> int \<Rightarrow> atc \<Rightarrow> (int \<times> PROFILE_T \<times> atc) access" where
  "atc_requestSetupDataCall dev profile family a = do {
     let a = (if strStartsWith (BaseBandVersion profile) (ascii ''RG801H'') \<or> strStartsWith (BaseBandVersion profile) (ascii ''EC200H'')
              then a\<lparr>system_log := system_log a @ [ascii ''ifconfig '' @ usbnet_adapter profile @ ascii '' up'']\<rparr> else a);
     (e, a) \<leftarrow> (if asr_style_atc a then asr_activate dev (pdp profile) a else Some (None, a));
     (case e of
        Some err \<Rightarrow> Some (err, profile, a)
      | None \<Rightarrow> do { (err, a) \<leftarrow> atc_dial dev (pdp profile) a; Some (err, profile, a) }) }"

text \<open>The lines of \<^verbatim>\<open>+CGPADDR\<close>: the IPv4 address of a context, 0 if there is none.\<close>

fun cgpaddr_search :: "int \<Rightarrow> cstr list \<Rightarrow> u32 access" where
  "cgpaddr_search context [] = Some 0"
| "cgpaddr_search context (l # ls) = do {
     (n, vs) \<leftarrow> at_tok_scanf (Some l) (ascii ''%d%s%s'');
     if n < 2 \<or> scanned_int vs 0 0 \<noteq> context then cgpaddr_search context ls
     else (case scanned_str vs 1 None of Some t \<Rightarrow> Some (dotted_address t) | None \<Rightarrow> cgpaddr_search context ls) }"

definition cgpaddr :: "at_device \<Rightarrow> int \<Rightarrow> atc \<Rightarrow> (u32 \<times> atc) access" where
  "cgpaddr dev context a = do {
     (err, r, a) \<leftarrow> at_issue dev (ascii ''AT+CGPADDR='' @ int_of context) (at_send_command_singleline (ascii ''+CGPADDR:'')) a;
     if at_response_error err r then Some (0, a)
     else do { ls \<leftarrow> lines_of r; v \<leftarrow> cgpaddr_search context ls; Some (v, a) } }"

text \<open>Whether one of the instances an EG800Q reports is connected.\<close>

fun eg800q_connected :: "int \<Rightarrow> cstr list \<Rightarrow> bool access" where
  "eg800q_connected junk [] = Some False"
| "eg800q_connected junk (l # ls) = do {
     (n, vs) \<leftarrow> at_tok_scanf (Some l) (ascii ''%d%d%d%d'');
     if n \<noteq> 4 \<and> scanned_int vs 2 junk \<noteq> 4 then eg800q_connected junk ls
     else if scanned_int vs 1 junk = 2 then Some True
     else eg800q_connected junk ls }"

definition netdev_address :: "cstr \<Rightarrow> u32" where
  "netdev_address t = (if t = [] then 0 else if 46 \<in> set t then dotted_address t else hex_address t)"

definition at_netdevstatus :: "at_device \<Rightarrow> int \<Rightarrow> int \<Rightarrow> atc \<Rightarrow> (u32 \<times> atc) access" where
  "at_netdevstatus dev junk context a =
     (if style_atc a = EG800Q
      then do {
        (err, r, a) \<leftarrow> at_issue dev (ascii ''AT+QNETDEVSTATUS?'') (at_send_command_multiline (ascii ''+QNETDEVSTATUS:'')) a;
        if at_response_error err r then Some (0, a)
        else do {
          ls \<leftarrow> lines_of r;
          connect \<leftarrow> eg800q_connected junk ls;
          if connect then cgpaddr dev context a else Some (0, a) } }
      else do {
        (err, r, a) \<leftarrow> at_issue dev (ascii ''AT+QNETDEVSTATUS='' @ int_of context)
                         (at_send_command_singleline (ascii ''+QNETDEVSTATUS'')) a;
        if at_response_error err r then Some (0, a)
        else do {
          ls \<leftarrow> lines_of r;
          (case ls of
             [] \<Rightarrow> Some (0, a)
           | l # _ \<Rightarrow> do {
               (n, vs) \<leftarrow> at_tok_scanf (Some l) (ascii ''%s%s%s%s%s%s%s%s%s%s'');
               Some (if 0 < n then (case scanned_str vs 0 None of None \<Rightarrow> 0 | Some t \<Rightarrow> netdev_address t) else 0, a) }) } })"

text \<open>The lines of \<^verbatim>\<open>+QNETDEVCTL\<close>: \<^verbatim>\<open>bind\<close>, \<^verbatim>\<open>cid\<close> and \<^verbatim>\<open>state\<close> keep what the last line stored, even if it belongs to another
  context.\<close>

fun netdevctl_scan :: "int \<Rightarrow> cstr list \<Rightarrow> int \<times> int \<times> int \<Rightarrow> (int \<times> int \<times> int) access" where
  "netdevctl_scan context [] st = Some st"
| "netdevctl_scan context (l # ls) st = do {
     let (bnd, cid, state) = st;
     (n, vs) \<leftarrow> at_tok_scanf (Some l) (ascii ''%d%d%d%d'');
     let (bnd, cid, state) = (scanned_int vs 0 bnd, scanned_int vs 1 cid, scanned_int vs 3 state);
     netdevctl_scan context ls
       (if n \<noteq> 4 \<or> cid \<noteq> context then (bnd, cid, state) else (if bnd \<noteq> 1 then 0 else bnd, cid, state)) }"

text \<open>The second loop; \<^verbatim>\<open>cid\<close> is kept if a line does not set it.\<close>

fun cgact_keep :: "int \<Rightarrow> cstr list \<Rightarrow> int \<Rightarrow> int \<Rightarrow> int access" where
  "cgact_keep context [] cid state = Some state"
| "cgact_keep context (l # ls) cid state = do {
     (n, vs) \<leftarrow> at_tok_scanf (Some l) (ascii ''%d%d'');
     if scanned_int vs 0 cid = context then Some (scanned_int vs 1 0) else cgact_keep context ls (scanned_int vs 0 cid) 0 }"

definition asr_query :: "at_device \<Rightarrow> int \<Rightarrow> int \<Rightarrow> atc \<Rightarrow> (byte \<times> atc) access" where
  "asr_query dev junk context a = do {
     (err, r, a) \<leftarrow> at_issue dev (ascii ''AT+QNETDEVCTL?'') (at_send_command_multiline (ascii ''+QNETDEVCTL:'')) a;
     if at_response_error err r then Some (QWDS_PKT_DATA_DISCONNECTED, a)
     else do {
       ls \<leftarrow> lines_of r;
       (bnd, cid, state) \<leftarrow> netdevctl_scan context ls (0, junk, 0);
       if bnd = 0 \<or> state = 0 then Some (QWDS_PKT_DATA_DISCONNECTED, a)
       else do {
         (err, r, a) \<leftarrow> at_issue dev (ascii ''AT+CGACT?'') (at_send_command_multiline (ascii ''+CGACT:'')) a;
         if at_response_error err r then Some (QWDS_PKT_DATA_DISCONNECTED, a)
         else do {
           ls \<leftarrow> lines_of r;
           state \<leftarrow> cgact_keep context ls cid state;
           Some (if bnd \<noteq> 0 \<and> state \<noteq> 0 then QWDS_PKT_DATA_CONNECTED else QWDS_PKT_DATA_DISCONNECTED, a) } } } }"

definition atc_requestQueryDataCall :: "at_device \<Rightarrow> int \<Rightarrow> byte \<Rightarrow> int \<Rightarrow> atc \<Rightarrow> (int \<times> byte \<times> atc) access" where
  "atc_requestQueryDataCall dev junk old family a = do {
     (status, a) \<leftarrow> (if \<not> asr_style_atc a
                     then do { (v, a) \<leftarrow> at_netdevstatus dev junk (s_pdp a) a;
                               Some (if v \<noteq> 0 then QWDS_PKT_DATA_CONNECTED else QWDS_PKT_DATA_DISCONNECTED, a) }
                     else asr_query dev junk (s_pdp a) a);
     Some (0, status, change_connect_status status a) }"

definition hangup_command :: "int \<Rightarrow> atc \<Rightarrow> cstr" where
  "hangup_command context a =
     (if asr_style_atc a
      then (if style_atc a = EG800G then ascii ''AT+QNETDEVCTL=0'' else netdevctl 0 context 0)
      else (if style_atc a = EG800Q then netdevctl 0 context 0 else netdevctl context 0 0))"

definition atc_requestDeactivateDefaultPDP :: "at_device \<Rightarrow> PROFILE_T \<Rightarrow> int \<Rightarrow> atc \<Rightarrow> (int \<times> PROFILE_T \<times> atc) access" where
  "atc_requestDeactivateDefaultPDP dev profile family a = do {
     (err, r, a) \<leftarrow> at_issue dev (hangup_command (pdp profile) a) at_send_command a;
     Some (0, profile, change_connect_status QWDS_PKT_DATA_DISCONNECTED a) }"

definition atc_requestGetIPAddress :: "at_device \<Rightarrow> int \<Rightarrow> PROFILE_T \<Rightarrow> int \<Rightarrow> atc \<Rightarrow> (int \<times> PROFILE_T \<times> atc) access" where
  "atc_requestGetIPAddress dev junk profile family a = do {
     (v4Addr, a) \<leftarrow> (if \<not> asr_style_atc a then at_netdevstatus dev junk (pdp profile) a else cgpaddr dev (pdp profile) a);
     let (profile, a) = (if v4Addr \<noteq> 0 \<and> Address4 (ipv4 profile) \<noteq> v4Addr
                         then (profile\<lparr>ipv4 := (ipv4 profile)\<lparr>Address4 := v4Addr\<rparr>\<rparr>, change_connect_status QWDS_PKT_DATA_CONNECTED a)
                         else (profile, a));
     Some (if v4Addr \<noteq> 0 then 0 else - 1, profile, a) }"

subsection \<open>Signal information\<close>

definition fmt_nr5g_sa :: cstr where "fmt_nr5g_sa = ascii ''%s,%s,%s,%s,%d,%d,%x,%d,%x,%d,%d,%d,%d,%d,%d,%d''"
definition fmt_nr5g_nsa :: cstr where "fmt_nr5g_nsa = ascii ''%s%s%s%s%d%d%d%dd''"
definition fmt_lte_short :: cstr where "fmt_lte_short = ascii ''%s%s%s%s%s%x%d%d%d%d%d%x%d%d%d%d%d%d%d''"
definition fmt_lte :: cstr where "fmt_lte = ascii ''%s%s%s%s%s%s%x%d%d%d%d%d%x%d%d%d%d%d%d%d''"

text \<open>The access technology of a \<^verbatim>\<open>+QENG\<close> line about the serving cell, with the state before it.\<close>

definition qeng_rat :: "cstr \<Rightarrow> (cstr \<times> cstr) option access" where
  "qeng_rat l = do {
     (n, vs) \<leftarrow> at_tok_scanf (Some l) (ascii ''%s%s'');
     if n \<noteq> 2 then Some None
     else do {
       type \<leftarrow> scanned_str vs 0 None;
       if type \<noteq> ascii ''servingcell'' then Some None
       else do {
         state \<leftarrow> scanned_str vs 1 None;
         if state = ascii ''SEARCH'' \<or> state = ascii ''LIMSRV'' then Some None
         else if state = ascii ''NOCONN'' \<or> state = ascii ''CONNECT''
         then do {
           (n, vs) \<leftarrow> at_tok_scanf (Some l) (ascii ''%s%s%s'');
           if n \<noteq> 3 then Some None else do { rat \<leftarrow> scanned_str vs 2 None; Some (Some (state, rat)) } }
         else Some (Some (state, state)) } } }"

text \<open>The values scanned from a line are only logged; what matters is whether one is a 5G cell beside LTE.\<close>

fun qeng_lines :: "cstr list \<Rightarrow> bool \<Rightarrow> bool access" where
  "qeng_lines [] nsa = Some nsa"
| "qeng_lines (l # ls) nsa = do {
     x \<leftarrow> qeng_rat l;
     (case x of
        None \<Rightarrow> qeng_lines ls nsa
      | Some (state, rat) \<Rightarrow>
          if rat = ascii ''NR5G-SA'' then do { v \<leftarrow> at_tok_scanf (Some l) fmt_nr5g_sa; qeng_lines ls nsa }
          else if rat = ascii ''NR5G-NSA'' then do { v \<leftarrow> at_tok_scanf (Some l) fmt_nr5g_nsa; qeng_lines ls True }
          else if rat = ascii ''LTE''
          then do { v \<leftarrow> at_tok_scanf (Some l) (if rat = state then fmt_lte_short else fmt_lte); qeng_lines ls nsa }
          else qeng_lines ls nsa) }"

definition endc_query :: "at_device \<Rightarrow> atc \<Rightarrow> (int \<times> atc) access" where
  "endc_query dev a = do {
     (err, r, a) \<leftarrow> at_issue dev (ascii ''at+qendc'') (at_send_command_multiline (ascii ''+QENDC:'')) a;
     if at_response_error err r then Some (0, a)
     else do {
       ls \<leftarrow> lines_of r;
       (case ls of [] \<Rightarrow> Some (0, a) | l # _ \<Rightarrow> do { v \<leftarrow> at_tok_scanf (Some l) (ascii ''%d%d%d%d''); Some (0, a) }) } }"

definition atc_requestGetSignalInfo :: "at_device \<Rightarrow> atc \<Rightarrow> (int \<times> atc) access" where
  "atc_requestGetSignalInfo dev a = do {
     (err, r, a) \<leftarrow> at_issue dev (ascii ''at+cops?'') (at_send_command_singleline (ascii ''+COPS:'')) a;
     if at_response_error err r then Some (- 1, a)
     else do {
       ls \<leftarrow> lines_of r;
       (case ls of
          [] \<Rightarrow> Some (- 1, a)
        | l # _ \<Rightarrow> do {
            (n, vs) \<leftarrow> at_tok_scanf (Some l) (ascii ''%d%d%s%d'');
            if n \<noteq> 4 then Some (0, a)
            else do {
              (err, r, a) \<leftarrow> at_issue dev (ascii ''at+qeng='' @ quoted (ascii ''servingcell''))
                               (at_send_command_multiline (ascii ''+QENG:'')) a;
              if at_response_error err r then Some (0, a)
              else do {
                ls \<leftarrow> lines_of r;
                nsa \<leftarrow> qeng_lines ls False;
                if nsa then endc_query dev a else Some (0, a) } } }) } }"

subsection \<open>Start and thread\<close>

definition asr_detect :: "at_device \<Rightarrow> atc \<Rightarrow> (int \<times> atc) access" where
  "asr_detect dev a = do {
     (err, r, a) \<leftarrow> at_issue dev (ascii ''AT+QNETDEVSTATUS=?'') (at_send_command_singleline (ascii ''+QNETDEVSTATUS:'')) a;
     Some (err, if at_response_error err r then a\<lparr>asr_style_atc := True\<rparr> else a) }"

text \<open>The NAT setting that fits the kind of modem; a change restarts the modem.\<close>

definition nat_setup :: "at_device \<Rightarrow> atc \<Rightarrow> (int \<times> atc) access" where
  "nat_setup dev a = do {
     (err, r, a) \<leftarrow> at_issue dev (ascii ''AT+QCFG='' @ quoted (ascii ''NAT'')) (at_send_command_singleline (ascii ''+QCFG:'')) a;
     if at_response_error err r then Some (err, a)
     else do {
       l \<leftarrow> first_line r;
       (n, vs) \<leftarrow> at_tok_scanf (Some l) (ascii ''%s%d'');
       let new_nat = (if asr_style_atc a then 1 else 0);
       if n = 2 \<and> scanned_int vs 1 0 \<noteq> new_nat
       then do {
         (err, r, a) \<leftarrow> at_issue dev (ascii ''AT+QCFG='' @ quoted (ascii ''NAT'') @ [44] @ int_of new_nat) at_send_command a;
         if at_response_error err r then Some (0, a)
         else do {
           (err, r, a) \<leftarrow> at_issue dev (ascii ''at+cfun=1,1'') at_send_command a;
           Some (0, if err = 0 then a\<lparr>modem_restarts := True\<rparr> else a) } }
       else Some (0, a) } }"

definition atc_init :: "at_device \<Rightarrow> PROFILE_T \<Rightarrow> atc \<Rightarrow> (int \<times> PROFILE_T \<times> atc) access" where
  "atc_init dev profile a =
     (if proxy profile \<noteq> [] then do { (err, a) \<leftarrow> asr_detect dev (a\<lparr>s_pdp := pdp profile\<rparr>); Some (err, profile, a) }
      else do {
        (err, a) \<leftarrow> at_handshake dev a;
        if err \<noteq> 0 then Some (err, profile, a)
        else do {
          let a = a\<lparr>s_pdp := pdp profile\<rparr>;
          (err, r, a) \<leftarrow> at_issue dev (ascii ''AT+QCFG='' @ quoted (ascii ''usbnet'')) (at_send_command_singleline (ascii ''+QCFG:'')) a;
          (err, r, a) \<leftarrow> at_issue dev (ascii ''AT+QNETDEVCTL=?'') (at_send_command_multiline (ascii ''+QNETDEVCTL:'')) a;
          (err, r, a) \<leftarrow> at_issue dev (ascii ''AT+CGREG=2'') at_send_command a;
          (err, r, a) \<leftarrow> at_issue dev (ascii ''AT+CEREG=2'') at_send_command a;
          (err, r, a) \<leftarrow> at_issue dev (ascii ''AT+C5GREG=2'') at_send_command a;
          (err, a) \<leftarrow> asr_detect dev a;
          (err, a) \<leftarrow> nat_setup dev a;
          Some (err, profile, a) } })"

definition atc_deinit :: "atc \<Rightarrow> (int \<times> atc) access" where
  "atc_deinit a = Some (0, a)"

text \<open>A turn of the thread: how \<^verbatim>\<open>poll\<close> ended, an error condition of the device, then of the control socket and the
  event read from it.\<close>

datatype atc_round = AtcTimeout | AtcError | AtcReady bool bool "device_cmd option"

fun atc_read_loop :: "atc_round list \<Rightarrow> bool \<Rightarrow> bool" where
  "atc_read_loop [] quitting = False"
| "atc_read_loop (AtcTimeout # rs) quitting = (quitting \<or> atc_read_loop rs quitting)"
| "atc_read_loop (AtcError # rs) quitting = True"
| "atc_read_loop (AtcReady deverr ctlerr ev # rs) quitting =
     (if deverr \<or> ctlerr \<or> ev = Some RIL_REQUEST_QUIT then True
      else atc_read_loop rs (quitting \<or> ev = Some DEVICE_EVENT_STOP))"

definition atc_quit :: "atc \<Rightarrow> atc" where
  "atc_quit a = send_event RIL_INDICATE_DEVICE_DISCONNECTED (a\<lparr>chan := at_close (chan a)\<rparr>)"

text \<open>The thread on the descriptor \<open>fd\<close> of the device; \<open>created\<close> if the reader thread could be started. The
  result tells whether the thread has ended.\<close>

definition atc_read_thread :: "int \<Rightarrow> bool \<Rightarrow> atc_round list \<Rightarrow> atc \<Rightarrow> bool \<times> atc" where
  "atc_read_thread fd created rounds a =
     (if fd \<le> 0 then (True, atc_quit a)
      else (let a = a\<lparr>chan := at_open fd False (chan a)\<rparr> in
            if \<not> created then (True, atc_quit a)
            else (let a = send_event RIL_INDICATE_DEVICE_CONNECTED a in
                  if atc_read_loop rounds False then (True, atc_quit a) else (False, a))))"

subsection \<open>The tables\<close>

definition atc_request_table :: "at_device \<Rightarrow> int \<Rightarrow> nat \<Rightarrow> atc request_table" where
  "atc_request_table dev junk fuel =
     \<lparr>op_BaseBandVersion = Some (atc_requestBaseBandVersion dev),
      op_SetEthMode = None, op_SetLoopBackState = None,
      op_GetSIMStatus = Some (atc_requestGetSIMStatus dev),
      op_EnterSimPin = Some (atc_requestEnterSimPin dev),
      op_SetProfile = Some (atc_requestSetProfile dev),
      op_GetProfile = Some (atc_requestGetProfile dev junk fuel),
      op_RegistrationState = atc_requestRegistrationState dev,
      op_SetupDataCall = atc_requestSetupDataCall dev,
      op_QueryDataCall = atc_requestQueryDataCall dev junk,
      op_DeactivateDefaultPDP = atc_requestDeactivateDefaultPDP dev,
      op_GetIPAddress = atc_requestGetIPAddress dev junk,
      op_GetSignalInfo = Some (atc_requestGetSignalInfo dev),
      op_GetCellInfoList = None,
      op_GetICCID = Some (atc_requestGetICCID dev),
      op_GetIMSI = Some (atc_requestGetIMSI dev),
      op_GetCoexWWANState = None,
      op_SimHotplug = Some (atc_requestSimHotplug dev),
      op_RebootModem = Some (atc_requestRebootModem dev)\<rparr>"

definition atc_device_table :: "at_device \<Rightarrow> atc device_table" where
  "atc_device_table dev = \<lparr>dev_init = Some (atc_init dev), dev_deinit = Some atc_deinit\<rparr>"

end
