(* ===== verification/Qmi_Network.thy ===== *)
theory Qmi_Network
  imports Qmi_Calls
begin

text \<open>
  Properties of the registration handlers: the CDMA codes, and how the blocks of a system information response
  decide whether the modem is attached and whether it is treated as CDMA.
\<close>

subsection \<open>CDMA codes\<close>

text \<open>In the codes of a CDMA network the digit 0 is written as 10, and 11 (111) is subtracted.\<close>

definition cdma_digit :: "nat \<Rightarrow> nat" where
  "cdma_digit d = (if d = 0 then 10 else d)"

definition cdma_mcc_code :: "nat \<Rightarrow> nat \<Rightarrow> nat \<Rightarrow> nat" where
  "cdma_mcc_code d1 d2 d3 = 100 * cdma_digit d1 + 10 * cdma_digit d2 + cdma_digit d3 - 111"

definition cdma_mnc_code :: "nat \<Rightarrow> nat \<Rightarrow> nat" where
  "cdma_mnc_code d1 d2 = 10 * cdma_digit d1 + cdma_digit d2 - 11"

lemma cdma_digit_step_digit:
  assumes "d < 10" shows "cdma_digit_step (10 * x + cdma_digit d) = (d, x)"
proof (cases "d = 0")
  case True
  then show ?thesis by (simp add: cdma_digit_step_def cdma_digit_def)
next
  case False
  with assms have "(10 * x + d) mod 10 = d" and "(10 * x + d) div 10 = x" by simp_all
  with False show ?thesis by (simp add: cdma_digit_step_def cdma_digit_def)
qed

text \<open>The conversion of a CDMA country code is the inverse of its encoding: for all digits
  \<open>d1 d2 d3\<close> the code of the network is converted to the decimal number \<open>d1 d2 d3\<close>.\<close>

theorem cdma_mcc_roundtrip:
  assumes "d1 < 10" and "d2 < 10" and "d3 < 10"
  shows "quectel_convert_cdma_mcc_2_ascii_mcc (of_nat (cdma_mcc_code d1 d2 d3))
         = of_nat (100 * d1 + 10 * d2 + d3)"
proof -
  let ?c = "cdma_mcc_code d1 d2 d3"
  have b: "1 \<le> cdma_digit d1" "cdma_digit d1 \<le> 10" "1 \<le> cdma_digit d2" "cdma_digit d2 \<le> 10"
    "1 \<le> cdma_digit d3" "cdma_digit d3 \<le> 10"
    using assms by (auto simp: cdma_digit_def)
  then have c: "?c \<le> 999" and c111: "?c + 111 = 10 * (10 * cdma_digit d1 + cdma_digit d2) + cdma_digit d3"
    by (simp_all add: cdma_mcc_code_def)
  from c have u: "unat (of_nat ?c :: u16) = ?c" by (simp add: unat_of_nat_u16)
  then have ne: "(of_nat ?c :: u16) \<noteq> 0x3FF"
    using c by (auto simp: word_unat_eq_iff)
  have d1: "(if cdma_digit d1 = 10 then 0 else cdma_digit d1) = d1"
    using assms(1) by (auto simp: cdma_digit_def)
  show ?thesis
    unfolding quectel_convert_cdma_mcc_2_ascii_mcc_def if_not_P [OF ne] u c111
      cdma_digit_step_digit [OF assms(3)] Let_def prod.case cdma_digit_step_digit [OF assms(2)] d1
    using assms by (simp add: algebra_simps)
qed

theorem cdma_mcc_roundtrip_witness: "quectel_convert_cdma_mcc_2_ascii_mcc (of_nat (cdma_mcc_code 4 6 0)) = 460"
  using cdma_mcc_roundtrip [of 4 6 0] by simp

text \<open>The same for the two digits of a CDMA network code; no encoded pair of digits is taken for the
  wildcard.\<close>

theorem cdma_mnc_roundtrip:
  assumes "d1 < 10" and "d2 < 10"
  shows "quectel_convert_cdma_mnc_2_ascii_mnc (of_nat (cdma_mnc_code d1 d2)) = of_nat (10 * d1 + d2)"
proof -
  let ?c = "cdma_mnc_code d1 d2"
  have b: "1 \<le> cdma_digit d1" "cdma_digit d1 \<le> 10" "1 \<le> cdma_digit d2" "cdma_digit d2 \<le> 10"
    using assms by (auto simp: cdma_digit_def)
  then have c: "?c \<le> 99" and c11: "?c + 11 = 10 * cdma_digit d1 + cdma_digit d2"
    by (simp_all add: cdma_mnc_code_def)
  from c have u: "unat (of_nat ?c :: u16) = ?c" by (simp add: unat_of_nat_u16)
  then have ne: "(of_nat ?c :: u16) \<noteq> 0x7F"
    using c by (auto simp: word_unat_eq_iff)
  have d1: "(if cdma_digit d1 = 10 then 0 else cdma_digit d1) = d1"
    using assms(1) by (auto simp: cdma_digit_def)
  show ?thesis
    unfolding quectel_convert_cdma_mnc_2_ascii_mnc_def if_not_P [OF ne] u c11
      cdma_digit_step_digit [OF assms(2)] Let_def prod.case d1
    using assms by (simp add: algebra_simps)
qed

theorem cdma_mnc_roundtrip_witness: "quectel_convert_cdma_mnc_2_ascii_mnc (of_nat (cdma_mnc_code 0 3)) = 3"
  using cdma_mnc_roundtrip [of 0 3] by simp

subsection \<open>LTE takes precedence over CDMA\<close>

lemma home_codes_keep_cdma:
  assumes "cdma_home_codes alloc send codes env = Some (codes', env')"
  shows "s_is_cdma env' = s_is_cdma env"
proof -
  obtain e hn where h: "requestGetHomeNetwork alloc send True False
      \<lparr>hn_mcc = 0, hn_mnc = 0, hn_sid = 0, hn_nid = 0\<rparr> env = Some (e, hn, env')"
    using assms by (auto simp: cdma_home_codes_def bind_eq_Some_conv)
  then obtain err rsp env1 where t: "qmi_transact alloc send QMUX_TYPE_NAS 0x25 None env = Some (err, rsp, env1)"
    by (auto simp: requestGetHomeNetwork_def bind_eq_Some_conv)
  with h obtain c where "qmi_rsp_check_and_return err rsp = Some c"
    by (auto simp: requestGetHomeNetwork_def bind_eq_Some_conv)
  then have "env' = env1"
    using h t by (cases c) (auto simp: requestGetHomeNetwork_def bind_eq_Some_conv Let_def)
  then show ?thesis using transact_handles(3) [OF t] by simp
qed

text \<open>A block of the response, by its value: whether it says that the modem has service, or that it is registered
  in the packet domain, and which of the blocks are about LTE or 5G and which about CDMA.\<close>

definition in_service :: "tlv \<Rightarrow> bool" where
  "in_service t \<longleftrightarrow> TLVValue t ! 0 = 0x02"

definition packet_domain :: "tlv \<Rightarrow> bool" where
  "packet_domain t \<longleftrightarrow> TLVValue t ! 0 = 0x01 \<and> bit (TLVValue t ! 1) 1"

definition lte_block :: "tlv \<Rightarrow> bool" where
  "lte_block t \<longleftrightarrow> TLVType t \<in> {0x14, 0x4A} \<and> in_service t \<or> TLVType t = 0x19 \<and> packet_domain t"

definition cdma_block :: "tlv \<Rightarrow> bool" where
  "cdma_block t \<longleftrightarrow> TLVType t \<in> {0x10, 0x11} \<and> in_service t \<or> TLVType t \<in> {0x15, 0x16} \<and> packet_domain t"

definition attached_block :: "tlv \<Rightarrow> bool" where
  "attached_block t \<longleftrightarrow> TLVType t \<in> {0x15, 0x16, 0x17, 0x18, 0x19, 0x25, 0x4B} \<and> packet_domain t"

definition sys_info_size :: "tlv \<Rightarrow> bool" where
  "sys_info_size t \<longleftrightarrow> (TLVType t \<in> {0x10, 0x11, 0x14, 0x4A} \<longrightarrow> 1 \<le> length (TLVValue t)) \<and>
     (TLVType t \<in> {0x15, 0x16, 0x17, 0x18, 0x19, 0x25, 0x4B} \<longrightarrow> 2 \<le> length (TLVValue t))"

lemma and_2_bit: "(x :: byte) AND 2 \<noteq> 0 \<longleftrightarrow> bit x 1"
  using and_exp_eq_0_iff_not_bit [of x 1] by simp

lemma ps_domain_tlv:
  assumes "2 \<le> length (TLVValue t)"
  shows "ps_domain (pre @ tlv_bytes t @ ys) (length pre) = Some (packet_domain t)"
proof -
  have "rd8 (pre @ tlv_bytes t @ ys) (length pre + 3) = Some (TLVValue t ! 0)"
      "rd8 (pre @ tlv_bytes t @ ys) (length pre + 4) = Some (TLVValue t ! 1)"
    by (rule rd8_tlv_at; use assms in linarith)+
  then show ?thesis
    by (auto simp: ps_domain_def packet_domain_def and_2_bit)
qed

lemma network_id_frame:
  "network_id m p off v = Some v' \<Longrightarrow> is_lte v' = is_lte v \<and> PSAttachedState v' = PSAttachedState v"
  by (auto simp: network_id_def bind_eq_Some_conv split: if_splits)

text \<open>The effect of one block.\<close>

definition block_effect :: "tlv \<Rightarrow> reg_vars \<Rightarrow> qmi_env \<Rightarrow> reg_vars \<Rightarrow> qmi_env \<Rightarrow> bool" where
  "block_effect t v env v' env' \<longleftrightarrow> is_lte v' = (is_lte v \<or> lte_block t) \<and>
     PSAttachedState v' = (if attached_block t then 1 else PSAttachedState v) \<and>
     s_is_cdma env' = (if lte_block t then False else if cdma_block t then \<not> is_lte v else s_is_cdma env)"

lemma block_effect_service:
  assumes "sys_info_block alloc send m (length pre) (TLVType t) v env = Some (v', env')" and m: "m = pre @ tlv_bytes t @ ys"
    and "1 \<le> length (TLVValue t)" and ty: "TLVType t \<in> {0x10, 0x11, 0x14, 0x4A}"
  shows "block_effect t v env v' env'"
proof -
  have "rd8 m (length pre + 3) = Some (TLVValue t ! 0)"
    unfolding m by (rule rd8_tlv_at) (use assms(3) in linarith)+
  then show ?thesis
    using assms(1) ty
    by (auto simp: sys_info_block_def block_effect_def lte_block_def cdma_block_def attached_block_def in_service_def
        split: if_splits)
qed

lemma block_effect_domain:
  assumes "sys_info_block alloc send m (length pre) (TLVType t) v env = Some (v', env')" and m: "m = pre @ tlv_bytes t @ ys"
    and "2 \<le> length (TLVValue t)" and ty: "TLVType t \<in> {0x15, 0x17, 0x18, 0x19, 0x25, 0x4B}"
  shows "block_effect t v env v' env'"
proof -
  have "ps_domain m (length pre) = Some (packet_domain t)"
    using ps_domain_tlv [OF assms(3), of pre ys] by (simp add: m)
  then show ?thesis
    using assms(1) ty
    by (auto simp: sys_info_block_def block_effect_def lte_block_def cdma_block_def attached_block_def
        bind_eq_Some_conv split: if_splits dest!: network_id_frame)
qed

lemma block_effect_hdr:
  assumes "sys_info_block alloc send m (length pre) 0x16 v env = Some (v', env')" and m: "m = pre @ tlv_bytes t @ ys"
    and "2 \<le> length (TLVValue t)" and ty: "TLVType t = 0x16"
  shows "block_effect t v env v' env'"
proof -
  have "ps_domain m (length pre) = Some (packet_domain t)"
    using ps_domain_tlv [OF assms(3), of pre ys] by (simp add: m)
  then show ?thesis
    using assms(1) ty
    by (auto simp: sys_info_block_def block_effect_def lte_block_def cdma_block_def attached_block_def Let_def
        bind_eq_Some_conv split: if_splits dest!: home_codes_keep_cdma)
qed

lemma block_effect_other:
  assumes "sys_info_block alloc send m p (TLVType t) v env = Some (v', env')"
    and "TLVType t \<notin> {0x10, 0x11, 0x14, 0x4A, 0x15, 0x16, 0x17, 0x18, 0x19, 0x25, 0x4B}"
  shows "block_effect t v env v' env'"
  using assms
  by (auto simp: sys_info_block_def block_effect_def lte_block_def cdma_block_def attached_block_def
      bind_eq_Some_conv split: if_splits)

lemma sys_info_block_effect:
  assumes "sys_info_block alloc send m (length pre) (TLVType t) v env = Some (v', env')" and m: "m = pre @ tlv_bytes t @ ys"
    and "sys_info_size t"
  shows "block_effect t v env v' env'"
proof -
  consider "TLVType t \<in> {0x10, 0x11, 0x14, 0x4A}" | "TLVType t \<in> {0x15, 0x17, 0x18, 0x19, 0x25, 0x4B}" | "TLVType t = 0x16"
    | "TLVType t \<notin> {0x10, 0x11, 0x14, 0x4A, 0x15, 0x16, 0x17, 0x18, 0x19, 0x25, 0x4B}" by blast
  then show ?thesis
  proof cases
    case 1
    then show ?thesis using block_effect_service [OF assms(1,2)] assms(3) unfolding sys_info_size_def by blast
  next
    case 2
    then show ?thesis using block_effect_domain [OF assms(1,2)] assms(3) unfolding sys_info_size_def by blast
  next
    case 3
    then show ?thesis using block_effect_hdr [OF _ m _ 3] assms(1,3) unfolding sys_info_size_def by auto
  next
    case 4
    then show ?thesis using block_effect_other [OF assms(1)] by blast
  qed
qed

lemma sys_info_loop_effect:
  assumes "sys_info_loop alloc send m (int (length (tlvs_bytes ts))) (length pre) v env = Some (v', env')"
    and "m = pre @ tlvs_bytes ts" and "length (tlvs_bytes ts) < 65536" and "\<forall>t\<in>set ts. sys_info_size t"
    and "is_lte v \<Longrightarrow> \<not> s_is_cdma env"
  shows "is_lte v' = (is_lte v \<or> (\<exists>t\<in>set ts. lte_block t)) \<and>
         PSAttachedState v' = (if \<exists>t\<in>set ts. attached_block t then 1 else PSAttachedState v) \<and>
         s_is_cdma env' = (\<not> is_lte v' \<and> (s_is_cdma env \<or> (\<exists>t\<in>set ts. cdma_block t)))"
  using assms
proof (induction ts arbitrary: pre v env)
  case Nil
  then show ?case by auto
next
  case (Cons t ts)
  have m: "m = pre @ tlv_bytes t @ tlvs_bytes ts" using Cons.prems(2) by simp
  have l: "length (tlv_bytes t) = length (TLVValue t) + 3" by simp
  have n: "unat (of_nat (length (TLVValue t)) :: u16) = length (TLVValue t)"
    using Cons.prems(3) by (simp add: unat_of_nat_u16)
  then have u: "uint (of_nat (length (TLVValue t)) :: u16) = int (length (TLVValue t))"
    by (simp only: uint_nat)
  have "rd8 m (length pre) = Some (TLVType t)" "rd16 m (length pre + 1) = Some (of_nat (length (TLVValue t)))"
    unfolding m by (rule rd8_tlv_type rd16_tlv_length)+
  then obtain v1 env1 where s: "sys_info_block alloc send m (length pre) (TLVType t) v env = Some (v1, env1)"
      "sys_info_loop alloc send m (int (length (tlvs_bytes ts))) (length (pre @ tlv_bytes t)) v1 env1 = Some (v', env')"
    using Cons.prems(1) n
    unfolding sys_info_loop.simps [of alloc send m "int (length (tlvs_bytes (t # ts)))"]
    by (auto simp: bind_eq_Some_conv l n u algebra_simps simp del: sys_info_loop.simps unat_of_nat)
  have e: "block_effect t v env v1 env1"
    by (rule sys_info_block_effect [OF s(1) m]) (use Cons.prems(4) in simp)
  have "is_lte v1 \<Longrightarrow> \<not> s_is_cdma env1"
    using e Cons.prems(5) by (auto simp: block_effect_def split: if_splits)
  with Cons.IH [OF s(2)] Cons.prems(3,4) m
  have "is_lte v' = (is_lte v1 \<or> (\<exists>t\<in>set ts. lte_block t))"
      "PSAttachedState v' = (if \<exists>t\<in>set ts. attached_block t then 1 else PSAttachedState v1)"
      "s_is_cdma env' = (\<not> is_lte v' \<and> (s_is_cdma env1 \<or> (\<exists>t\<in>set ts. cdma_block t)))" by simp_all
  then show ?case
    using e Cons.prems(5) unfolding block_effect_def
    by (cases "lte_block t"; cases "cdma_block t") auto
qed

lemma data_class_name_cdma: "s_is_cdma (snd (data_class_name v env)) = s_is_cdma env"
  by (simp add: data_class_name_def Let_def)

text \<open>What \<^verbatim>\<open>requestRegistrationState2\<close> does behind its loop.\<close>

definition registration_result :: "reg_vars \<Rightarrow> qmi_env \<Rightarrow> int \<times> byte \<times> (u16 \<times> u16 \<times> string) option \<times> qmi_env" where
  "registration_result v env =
     (let v = (if DataCapList v AND WWAN_DATA_CLASS_LTE \<noteq> 0 \<and> endc_available_valid v
                  \<and> restrict_dcnr_valid v \<and> endc_available v \<noteq> 0 \<and> restrict_dcnr v = 0
               then v\<lparr>DataCapList := DataCapList v OR WWAN_DATA_CLASS_5G_NSA\<rparr> else v);
          (str, env) = data_class_name v env
      in (0, PSAttachedState v, Some (MobileCountryCode v, MobileNetworkCode v, str), env))"

lemma registration_result_frame:
  "fst (registration_result v env) = 0" "fst (snd (registration_result v env)) = PSAttachedState v"
  "s_is_cdma (snd (snd (snd (registration_result v env)))) = s_is_cdma env"
  by (simp_all add: registration_result_def Let_def data_class_name_cdma case_prod_beta)

lemma requestRegistrationState2_split:
  "requestRegistrationState2 alloc send env = do {
     (err, rsp, env) \<leftarrow> qmi_transact alloc send QMUX_TYPE_NAS 0x4D None env;
     c \<leftarrow> qmi_rsp_check_and_return err rsp;
     (case c of
        Inl e \<Rightarrow> Some (e, 0, None, env)
      | Inr m \<Rightarrow> do {
          len \<leftarrow> rd16 m 11;
          (v, env) \<leftarrow> sys_info_loop alloc send m (uint len) 13 reg_vars_init
                         (env\<lparr>s_is_cdma := False, s_5g_type := 0, s_hdr_personality := 0\<rparr>);
          Some (registration_result v env) }) }"
  by (simp only: requestRegistrationState2_def registration_result_def Let_def case_prod_beta)

text \<open>C31: LTE and 5G take precedence: when \<^verbatim>\<open>requestRegistrationState2\<close> returns for a successful system information
  response, the modem is treated as CDMA exactly if one of its blocks reports CDMA service (0x10 or
  0x11 in service, 0x15 or 0x16 in the packet domain) and none reports LTE or 5G service (0x14 or 0x4A in
  service, 0x19 in the packet domain), whatever other blocks there are and in whatever order they
  come; it is reported as attached exactly if a system information block is in the packet
  domain. The blocks are long enough for the members that are tested.\<close>

theorem lte_excludes_cdma:
  assumes "\<And>n. alloc n" and "requestRegistrationState2 alloc send env = Some (r, ps, info, env')"
    and "send (sent env @ [qmux_frame QMUX_TYPE_NAS 0 0 (next_tid env) 0x4D []]) = (0, Some (rsp_frame qt cid tid 0x4D 0 0 ts))"
    and "7 + length (tlvs_bytes ts) < 65536" and "\<forall>t\<in>set ts. sys_info_size t"
  shows "(s_is_cdma env' \<longleftrightarrow> (\<exists>t\<in>set ts. cdma_block t) \<and> \<not> (\<exists>t\<in>set ts. lte_block t)) \<and>
         ps = (if \<exists>t\<in>set ts. attached_block t then 1 else 0) \<and> r = 0"
proof -
  let ?ts = "mk_tlv 0x02 (bytes16 0 @ bytes16 0) # ts"
  define m where "m = rsp_frame qt cid tid 0x4D 0 0 ts"
  define pre where "pre = [0x01] @ bytes16 (of_nat (19 + length (tlvs_bytes ts))) @ [0x00, qt, cid, 2] @ bytes16 tid
       @ bytes16 0x4D @ bytes16 (of_nat (7 + length (tlvs_bytes ts)))"
  define e0 where "e0 = (with_request (qmux_frame QMUX_TYPE_NAS 0 0 (next_tid env) 0x4D []) env)\<lparr>s_is_cdma := False, s_5g_type := 0, s_hdr_personality := 0\<rparr>"
  have m: "m = pre @ tlvs_bytes ?ts" and pre: "length pre = 13"
    by (simp_all add: m_def pre_def rsp_frame_split tlv_bytes_def)
  have "rd16 m 11 = Some (of_nat (length (tlvs_bytes ?ts)))"
  proof -
    have "m = ([0x01] @ bytes16 (of_nat (19 + length (tlvs_bytes ts))) @ [0x00, qt, cid, 2] @ bytes16 tid @ bytes16 0x4D) @
        bytes16 (of_nat (7 + length (tlvs_bytes ts))) @ tlvs_bytes ?ts"
      unfolding m pre_def by simp
    then show ?thesis by (simp only:) (subst rd16_append_right, simp_all)
  qed
  moreover have "uint (of_nat (length (tlvs_bytes ?ts)) :: u16) = int (length (tlvs_bytes ?ts))"
    unfolding uint_nat by (subst unat_of_nat_u16) (use assms(4) in simp)
  moreover have "qmi_rsp_check_and_return 0 (Some m) = Some (Inr m)"
    by (simp add: m_def rsp_check_frame)
  ultimately have "Option.bind (sys_info_loop alloc send m (int (length (tlvs_bytes ?ts))) (length pre) reg_vars_init e0)
      (\<lambda>(v, env). Some (registration_result v env)) = Some (r, ps, info, env')"
    using assms(2) unfolding pre requestRegistrationState2_split transact_None [OF assms(1)] Let_def assms(3)
    by (simp add: m_def [symmetric] e0_def del: sys_info_loop.simps)
  then obtain v env1 where l: "sys_info_loop alloc send m (int (length (tlvs_bytes ?ts))) (length pre) reg_vars_init e0 = Some (v, env1)"
      and "(r, ps, info, env') = registration_result v env1"
    by (auto simp: bind_eq_Some_conv simp del: sys_info_loop.simps)
  then have "s_is_cdma env' = s_is_cdma env1" "ps = PSAttachedState v" "r = 0"
    using registration_result_frame [of v env1] by (metis fst_conv snd_conv)+
  moreover have "\<forall>t\<in>set ?ts. sys_info_size t" "\<not> lte_block (hd ?ts)" "\<not> cdma_block (hd ?ts)" "\<not> attached_block (hd ?ts)"
    using assms(5) by (simp_all add: sys_info_size_def lte_block_def cdma_block_def attached_block_def)
  ultimately show ?thesis
    using sys_info_loop_effect [OF l m] assms(4) by (auto simp: e0_def reg_vars_init_def)
qed


text \<open>A modem with CDMA service that is also served by 5G.\<close>

definition sample_sys_info :: "tlv list" where
  "sample_sys_info = [mk_tlv 0x10 [2], mk_tlv 0x4A [2], mk_tlv 0x4B (1 # 2 # replicate 18 0 @ replicate 7 0)]"

lemma sample_sys_info_returns:
  "requestRegistrationState2 (\<lambda>n. True) (\<lambda>h. (0, Some (rsp_frame 3 5 1 0x4D 0 0 sample_sys_info))) qmi_env_init \<noteq> None"
  by code_simp

theorem lte_excludes_cdma_witness:
  "\<exists>info env'. requestRegistrationState2 (\<lambda>n. True) (\<lambda>h. (0, Some (rsp_frame 3 5 1 0x4D 0 0 sample_sys_info))) qmi_env_init
       = Some (0, 1, info, env') \<and> \<not> s_is_cdma env'"
proof -
  obtain r ps info env' where r: "requestRegistrationState2 (\<lambda>n. True)
      (\<lambda>h. (0, Some (rsp_frame 3 5 1 0x4D 0 0 sample_sys_info))) qmi_env_init = Some (r, ps, info, env')"
    using sample_sys_info_returns by auto
  have "(s_is_cdma env' \<longleftrightarrow> (\<exists>t\<in>set sample_sys_info. cdma_block t) \<and> \<not> (\<exists>t\<in>set sample_sys_info. lte_block t)) \<and>
         ps = (if \<exists>t\<in>set sample_sys_info. attached_block t then 1 else 0) \<and> r = 0"
    by (rule lte_excludes_cdma [OF _ r]) (simp_all add: sample_sys_info_def sys_info_size_def)
  moreover have "\<exists>t\<in>set sample_sys_info. lte_block t" "\<exists>t\<in>set sample_sys_info. attached_block t"
    by (simp_all add: sample_sys_info_def lte_block_def attached_block_def in_service_def packet_domain_def)
  ultimately show ?thesis
    using r by auto
qed

end
