(* ===== verification/Qmi_Wwan.thy ===== *)
theory Qmi_Wwan
  imports Qmi_Network
begin

text \<open>
  The \<^verbatim>\<open>qmi_wwan\<close>/MHI back end (\<^verbatim>\<open>QmiWwanCM.c\<close>): control messages to the modem or to a proxy, the table of
  client ids, sending with the client id of the service, initialisation and release, and the
  reader thread. System calls are parameters: what \<^verbatim>\<open>poll\<close> reports and what \<^verbatim>\<open>read\<close> and \<^verbatim>\<open>write\<close> return.
\<close>

subsection \<open>Control messages\<close>

text \<open>\<^verbatim>\<open>QMIBuf\<close> is not initialised here; \<open>junk\<close> is what the stack holds.\<close>

definition ComposeQCTLMsg ::
  "(nat \<Rightarrow> bool) \<Rightarrow> buf \<Rightarrow> u16 \<Rightarrow> builder option \<Rightarrow> int \<Rightarrow> (buf option \<times> int) access" where
  "ComposeQCTLMsg alloc junk QMICTLType custom t = do {
     b \<leftarrow> wr junk 0 [0x01];
     b \<leftarrow> wr b 3 [0x00];
     b \<leftarrow> wr b 4 [QMUX_TYPE_CTL];
     b \<leftarrow> wr b 5 [0x00];
     b \<leftarrow> wr b 6 [0x00];
     let (tid, t') = GetQCTLTransactionId t;
     b \<leftarrow> wr b 7 [tid];
     b \<leftarrow> wr b 8 (bytes16 QMICTLType);
     b \<leftarrow> (case custom of
            Some f \<Rightarrow> do { (b, n) \<leftarrow> f b; wr b 10 (bytes16 (n - 6)) }
          | None \<Rightarrow> wr b 10 (bytes16 0));
     mlen \<leftarrow> rd16 b 10;
     let qlen = mlen + 6 + 6 - 1;
     b \<leftarrow> wr b 1 (bytes16 qlen);
     let len = unat qlen + 1;
     if alloc len then do { m \<leftarrow> rdn b 0 len; Some (Some m, t') } else Some (None, t') }"

definition CtlGetVersionReq :: builder where
  "CtlGetVersionReq b = do {
     b \<leftarrow> wr b 12 [0x01]; b \<leftarrow> wr b 13 (bytes16 1); b \<leftarrow> wr b 15 [QMUX_TYPE_ALL]; Some (b, 10) }"

definition CtlGetClientIdReq :: "byte \<Rightarrow> builder" where
  "CtlGetClientIdReq arg b = do {
     b \<leftarrow> wr b 12 [0x01]; b \<leftarrow> wr b 13 (bytes16 1); b \<leftarrow> wr b 15 [arg]; Some (b, 10) }"

definition CtlReleaseClientIdReq :: "byte \<Rightarrow> byte \<Rightarrow> builder" where
  "CtlReleaseClientIdReq ty cid b = do {
     b \<leftarrow> wr b 12 [0x01]; b \<leftarrow> wr b 13 (bytes16 2); b \<leftarrow> wr b 15 [ty]; b \<leftarrow> wr b 16 [cid]; Some (b, 11) }"

definition CtlLibQmiProxyOpenReq :: "cstr \<Rightarrow> builder" where
  "CtlLibQmiProxyOpenReq device_path b = do {
     b \<leftarrow> wr b 12 [0x01]; b \<leftarrow> wr b 13 (bytes16 (of_nat (length device_path))); b \<leftarrow> wr b 15 device_path;
     Some (b, 9 + of_nat (length device_path)) }"

subsection \<open>Client ids\<close>

record wwan =
  ctl_tid :: int
  qmiclientId :: "byte list"
  ctl_sent :: "buf list"

definition wwan_init :: wwan where
  "wwan_init = \<lparr>ctl_tid = 0, qmiclientId = replicate 255 0, ctl_sent = []\<rparr>"

text \<open>A control request and its response; \<open>junk\<close> gives the stack contents at the n-th request.\<close>

definition ctl_transact ::
  "(nat \<Rightarrow> bool) \<Rightarrow> (nat \<Rightarrow> buf) \<Rightarrow> transport \<Rightarrow> u16 \<Rightarrow> builder option \<Rightarrow> wwan \<Rightarrow> (int \<times> buf option \<times> wwan) access" where
  "ctl_transact alloc junk send ty custom w = do {
     (m, t) \<leftarrow> ComposeQCTLMsg alloc (junk (length (ctl_sent w))) ty custom (ctl_tid w);
     let w = w\<lparr>ctl_tid := t\<rparr>;
     Some (case m of
             None \<Rightarrow> (- EINVAL, None, w)
           | Some r \<Rightarrow> (let h = ctl_sent w @ [r]; (err, rsp) = send h in (err, rsp, w\<lparr>ctl_sent := h\<rparr>))) }"

definition libqmi_proxy_open ::
  "(nat \<Rightarrow> bool) \<Rightarrow> (nat \<Rightarrow> buf) \<Rightarrow> transport \<Rightarrow> cstr \<Rightarrow> wwan \<Rightarrow> (int \<times> wwan) access" where
  "libqmi_proxy_open alloc junk send cdc_wdm w = do {
     (ret, rsp, w) \<leftarrow> ctl_transact alloc junk send QMI_MESSAGE_CTL_INTERNAL_PROXY_OPEN
                        (Some (CtlLibQmiProxyOpenReq cdc_wdm)) w;
     (case rsp of
        None \<Rightarrow> Some (- 1, w)
      | Some m \<Rightarrow>
          if ret \<noteq> 0 then Some (- 1, w)
          else do {
            res \<leftarrow> rd16 m 15; err \<leftarrow> rd16 m 17;
            Some (if res = 0 \<and> err = 0 then 0 else - 1, w) }) }"

definition QmiWwanGetClientID ::
  "(nat \<Rightarrow> bool) \<Rightarrow> (nat \<Rightarrow> buf) \<Rightarrow> transport \<Rightarrow> byte \<Rightarrow> wwan \<Rightarrow> (byte \<times> wwan) access" where
  "QmiWwanGetClientID alloc junk send QMIType w = do {
     (ret, rsp, w) \<leftarrow> ctl_transact alloc junk send QMICTL_GET_CLIENT_ID_REQ (Some (CtlGetClientIdReq QMIType)) w;
     (case rsp of
        None \<Rightarrow> Some (0, w)
      | Some m \<Rightarrow> do {
          QMUXResult \<leftarrow> rd16 m 15; QMUXError \<leftarrow> rd16 m 17; ClientId \<leftarrow> rd8 m 23;
          if QMUXResult = 0 \<and> QMUXError = 0
          then do { ty \<leftarrow> rd8 m 22; Some (if ty = QMIType then ClientId else 0, w) }
          else Some (0, w) }) }"

definition QmiWwanReleaseClientID ::
  "(nat \<Rightarrow> bool) \<Rightarrow> (nat \<Rightarrow> buf) \<Rightarrow> transport \<Rightarrow> byte \<Rightarrow> byte \<Rightarrow> wwan \<Rightarrow> wwan access" where
  "QmiWwanReleaseClientID alloc junk send QMIType ClientId w = do {
     (ret, rsp, w) \<leftarrow> ctl_transact alloc junk send QMICTL_RELEASE_CLIENT_ID_REQ
                        (Some (CtlReleaseClientIdReq QMIType ClientId)) w;
     Some w }"

definition set_client :: "byte \<Rightarrow> byte \<Rightarrow> wwan \<Rightarrow> wwan" where
  "set_client ty cid w = w\<lparr>qmiclientId := (qmiclientId w)[unat ty := cid]\<rparr>"

subsection \<open>Initialisation and release\<close>

text \<open>At most ten attempts to synchronise; the result of the last one counts.\<close>

fun sync_loop ::
  "(nat \<Rightarrow> bool) \<Rightarrow> (nat \<Rightarrow> buf) \<Rightarrow> transport \<Rightarrow> nat \<Rightarrow> int \<Rightarrow> wwan \<Rightarrow> (int \<times> wwan) access" where
  "sync_loop alloc junk send 0 ret w = Some (ret, w)"
| "sync_loop alloc junk send (Suc n) ret w = do {
     (ret, rsp, w) \<leftarrow> ctl_transact alloc junk send QMICTL_SYNC_REQ None w;
     if ret = 0 then Some (0, w) else sync_loop alloc junk send n ret w }"

text \<open>The versions in the response, 5 bytes each from offset 23; the last entry for the WDA service counts.\<close>

fun version_loop :: "buf \<Rightarrow> nat \<Rightarrow> nat \<Rightarrow> int \<Rightarrow> int access" where
  "version_loop m i 0 v = Some v"
| "version_loop m i (Suc n) v = do {
     ty \<leftarrow> rd8 m (23 + 5 * i);
     if ty = QMUX_TYPE_WDS_ADMIN
     then do { minor \<leftarrow> rd16 m (26 + 5 * i); version_loop m (i + 1) n (if minor > 16 then 1 else 0) }
     else version_loop m (i + 1) n v }"

definition wwan_qmap_version :: "buf option \<Rightarrow> PROFILE_T \<Rightarrow> PROFILE_T access" where
  "wwan_qmap_version rsp profile =
     (case rsp of
        None \<Rightarrow> Some profile
      | Some m \<Rightarrow>
          if qmap_mode profile = 0 then Some profile
          else do {
            res \<leftarrow> rd16 m 15; err \<leftarrow> rd16 m 17;
            if res = 0 \<and> err = 0 then do {
              n \<leftarrow> rd8 m 22;
              v \<leftarrow> version_loop m 0 (unat n) (prof_qmap_version profile);
              Some (profile\<lparr>prof_qmap_version := v\<rparr>) }
            else Some profile })"

definition wwan_clients ::
  "(nat \<Rightarrow> bool) \<Rightarrow> (nat \<Rightarrow> buf) \<Rightarrow> transport \<Rightarrow> PROFILE_T \<Rightarrow> wwan \<Rightarrow> wwan access" where
  "wwan_clients alloc junk send profile w = do {
     (c, w) \<leftarrow> QmiWwanGetClientID alloc junk send QMUX_TYPE_WDS w;
     let w = set_client QMUX_TYPE_WDS c w;
     w \<leftarrow> (if enable_ipv6 profile then do {
              (c, w) \<leftarrow> QmiWwanGetClientID alloc junk send QMUX_TYPE_WDS w;
              Some (set_client QMUX_TYPE_WDS_IPV6 c w) } else Some w);
     (c, w) \<leftarrow> QmiWwanGetClientID alloc junk send QMUX_TYPE_DMS w;
     let w = set_client QMUX_TYPE_DMS c w;
     (c, w) \<leftarrow> QmiWwanGetClientID alloc junk send QMUX_TYPE_NAS w;
     let w = set_client QMUX_TYPE_NAS c w;
     (c, w) \<leftarrow> QmiWwanGetClientID alloc junk send QMUX_TYPE_UIM w;
     let w = set_client QMUX_TYPE_UIM c w;
     (c, w) \<leftarrow> QmiWwanGetClientID alloc junk send QMUX_TYPE_WDS_ADMIN w;
     Some (set_client QMUX_TYPE_WDS_ADMIN c w) }"

definition QmiWwanInit ::
  "(nat \<Rightarrow> bool) \<Rightarrow> (nat \<Rightarrow> buf) \<Rightarrow> transport \<Rightarrow> PROFILE_T \<Rightarrow> wwan \<Rightarrow> (int \<times> PROFILE_T \<times> wwan) access" where
  "QmiWwanInit alloc junk send profile w = do {
     (ret, w) \<leftarrow> (if proxy profile = ascii ''qmi-proxy''
                  then libqmi_proxy_open alloc junk send (qmichannel profile) w else Some (0, w));
     if ret \<noteq> 0 then Some (ret, profile, w)
     else do {
       (ret, w) \<leftarrow> (if proxy profile = [] then sync_loop alloc junk send 10 0 w else Some (0, w));
       if ret \<noteq> 0 then Some (ret, profile, w)
       else do {
         (e, rsp, w) \<leftarrow> ctl_transact alloc junk send QMICTL_GET_VERSION_REQ (Some CtlGetVersionReq) w;
         profile \<leftarrow> wwan_qmap_version rsp profile;
         w \<leftarrow> wwan_clients alloc junk send profile w;
         Some (0, profile\<lparr>wda_client := uint (qmiclientId w ! unat QMUX_TYPE_WDS_ADMIN)\<rparr>, w) } } }"

fun deinit_loop ::
  "(nat \<Rightarrow> bool) \<Rightarrow> (nat \<Rightarrow> buf) \<Rightarrow> transport \<Rightarrow> nat list \<Rightarrow> wwan \<Rightarrow> wwan access" where
  "deinit_loop alloc junk send [] w = Some w"
| "deinit_loop alloc junk send (i # is) w =
     (if qmiclientId w ! i \<noteq> 0 then do {
        w \<leftarrow> QmiWwanReleaseClientID alloc junk send
               (if of_nat i = QMUX_TYPE_WDS_IPV6 then QMUX_TYPE_WDS else of_nat i) (qmiclientId w ! i) w;
        deinit_loop alloc junk send is (w\<lparr>qmiclientId := (qmiclientId w)[i := 0]\<rparr>) }
      else deinit_loop alloc junk send is w)"

definition QmiWwanDeInit :: "(nat \<Rightarrow> bool) \<Rightarrow> (nat \<Rightarrow> buf) \<Rightarrow> transport \<Rightarrow> wwan \<Rightarrow> wwan access" where
  "QmiWwanDeInit alloc junk send w = deinit_loop alloc junk send [0..<length (qmiclientId w)] w"

subsection \<open>Sending\<close>

text \<open>
  \<open>pres\<close> is the result of \<^verbatim>\<open>poll\<close> and whether it reports \<^verbatim>\<open>POLLOUT\<close>, \<open>wres\<close> the result of
  \<^verbatim>\<open>write\<close> for the bytes to write. The result has the request as it was changed and the bytes
  given to \<^verbatim>\<open>write\<close>.
\<close>

definition QmiWwanSendQMI ::
  "int \<Rightarrow> byte list \<Rightarrow> int \<times> bool \<Rightarrow> (buf \<Rightarrow> int) \<Rightarrow> buf \<Rightarrow> (int \<times> buf \<times> buf option) access" where
  "QmiWwanSendQMI cdc_wdm_fd ids pres wres r =
     (if cdc_wdm_fd = - 1 then Some (- ENODEV, r, None)
      else do {
        ty \<leftarrow> rd8 r 4;
        (ok, r) \<leftarrow>
          (if ty \<noteq> QMUX_TYPE_CTL then do {
             cid \<leftarrow> (if unat ty < length ids then Some (ids ! unat ty) else None);
             r \<leftarrow> wr r 5 [cid];
             if cid = 0 then Some (False, r)
             else if ty = QMUX_TYPE_WDS_IPV6 then do { r \<leftarrow> wr r 4 [QMUX_TYPE_WDS]; Some (True, r) }
             else Some (True, r) }
           else Some (True, r));
        if \<not> ok then Some (- ENODEV, r, None)
        else if snd pres then do {
          l \<leftarrow> rd16 r 1;
          bs \<leftarrow> rdn r 0 (unat l + 1);
          let ret = wres bs;
          Some (if ret = int (unat l) + 1 then 0 else ret, r, Some bs) }
        else Some (fst pres, r, None) })"

definition wwan_dev :: "int \<Rightarrow> byte list \<Rightarrow> int \<times> bool \<Rightarrow> (buf \<Rightarrow> int) \<Rightarrow> qmidev" where
  "wwan_dev fd ids pres wres r = map_option (\<lambda>(e, r', w). (e, r')) (QmiWwanSendQMI fd ids pres wres r)"

subsection \<open>The reader thread\<close>

text \<open>
  \<open>avail\<close> are the bytes the socket has. A second \<^verbatim>\<open>read\<close> without data returns -1; its size is a
  \<^verbatim>\<open>size_t\<close> and wraps for a length below 5, and storing more than the buffer takes is a fault.
\<close>

definition qmi_proxy_read :: "nat \<Rightarrow> buf \<Rightarrow> buf \<Rightarrow> (int \<times> buf) access" where
  "qmi_proxy_read bufsize avail b = do {
     let h = take 6 avail;
     b \<leftarrow> wr b 0 h;
     if length h = 0 then Some (- 1, b)
     else if length h \<noteq> 6 then Some (int (length h), b)
     else do {
       l \<leftarrow> rd16 b 1;
       if unat l < bufsize then do {
         let n = (if 5 \<le> unat l then unat l - 5 else 2 ^ 64 + unat l - 5);
         let r = take n (drop 6 avail);
         b \<leftarrow> wr b 6 r;
         Some (6 + (if n = 0 then 0 else if r = [] then - 1 else int (length r)), b) }
       else Some (6, b) } }"

datatype triger_event = RIL_REQUEST_QUIT | SIG_EVENT_STOP_REQ | OTHER_EVENT

text \<open>One turn of the reader: \<^verbatim>\<open>poll\<close> ran out of time, failed, or reported events. For each of the two
  descriptors: hang-up, and what there is to read. A short read of the control socket is \<open>None\<close>.\<close>

datatype reader_round =
    PollTimeout
  | PollError
  | PollReady bool "triger_event option option" bool "buf option"

record reader =
  wait_for_request_quit :: bool
  cm_recv_buf :: buf
  rthr :: qmi_thread

text \<open>The device part of a turn: \<open>bs\<close> are the bytes \<^verbatim>\<open>read\<close> can deliver.\<close>

definition wwan_device_in :: "(nat \<Rightarrow> bool) \<Rightarrow> bool \<Rightarrow> buf \<Rightarrow> reader \<Rightarrow> reader access" where
  "wwan_device_in alloc proxied bs rd = do {
     (nreads, b) \<leftarrow>
       (if proxied then qmi_proxy_read 4096 bs (cm_recv_buf rd)
        else do { let x = take 4096 bs; b \<leftarrow> wr (cm_recv_buf rd) 0 x;
                  Some (if x = [] then - 1 else int (length x), b) });
     let rd = rd\<lparr>cm_recv_buf := b\<rparr>;
     if nreads \<le> 0 then Some rd
     else do {
       l \<leftarrow> rd16 b 1;
       if nreads \<noteq> uint l + 1 then Some rd
       else do { t \<leftarrow> QmiThreadRecvQMI alloc (Some b) (rthr rd); Some (rd\<lparr>rthr := t\<rparr>) } } }"

definition wwan_quit :: "(nat \<Rightarrow> bool) \<Rightarrow> reader \<Rightarrow> reader access" where
  "wwan_quit alloc rd = do {
     t \<leftarrow> QmiThreadRecvQMI alloc None (qmidevice_send_event_to_main RIL_INDICATE_DEVICE_DISCONNECTED (rthr rd));
     Some (rd\<lparr>rthr := t\<rparr>) }"

text \<open>The loop over the turns; \<open>True\<close> when the thread has left it and exited.\<close>

fun QmiWwanThread_loop ::
  "(nat \<Rightarrow> bool) \<Rightarrow> bool \<Rightarrow> reader_round list \<Rightarrow> reader \<Rightarrow> (bool \<times> reader) access" where
  "QmiWwanThread_loop alloc proxied [] rd = Some (False, rd)"
| "QmiWwanThread_loop alloc proxied (PollTimeout # rs) rd =
     (if wait_for_request_quit rd then do {
        t \<leftarrow> QmiThreadRecvQMI alloc None (rthr rd);
        QmiWwanThread_loop alloc proxied rs (rd\<lparr>rthr := t\<rparr>) }
      else do { rd \<leftarrow> wwan_quit alloc rd; Some (True, rd) })"
| "QmiWwanThread_loop alloc proxied (PollError # rs) rd = do { rd \<leftarrow> wwan_quit alloc rd; Some (True, rd) }"
| "QmiWwanThread_loop alloc proxied (PollReady hup1 ev hup2 bs # rs) rd =
     (if hup1 \<or> ev = Some (Some RIL_REQUEST_QUIT)
      then do { rd \<leftarrow> wwan_quit alloc rd; Some (True, rd) }
      else (let rd = (if ev = Some (Some SIG_EVENT_STOP_REQ) then rd\<lparr>wait_for_request_quit := True\<rparr> else rd)
            in if hup2 then do { rd \<leftarrow> wwan_quit alloc rd; Some (True, rd) }
               else do {
                 rd \<leftarrow> (case bs of None \<Rightarrow> Some rd | Some x \<Rightarrow> wwan_device_in alloc proxied x rd);
                 QmiWwanThread_loop alloc proxied rs rd }))"

text \<open>The proxy the thread connects to, if any; the last character of the device name selects it.\<close>

definition has_prefix :: "string \<Rightarrow> cstr \<Rightarrow> bool" where
  "has_prefix p s \<longleftrightarrow> take (length p) s = ascii p"

definition wwan_proxy_name :: "PROFILE_T \<Rightarrow> cstr access" where
  "wwan_proxy_name profile =
     (if qmichannel profile = [] then None
      else (let num = last (qmichannel profile) in
        Some (if proxy profile \<noteq> [] then
                (if has_prefix ''quectel-qmi-proxy'' (proxy profile) then ascii ''quectel-qmi-proxy'' @ [num]
                 else proxy profile)
              else if has_prefix ''/dev/mhi_IPCR'' (qmichannel profile) then ascii ''quectel-qrtr-proxy'' @ [num]
              else if qmap_mode profile > 1 then ascii ''quectel-qmi-proxy'' @ [num]
              else [])))"

definition QmiWwanThread ::
  "(nat \<Rightarrow> bool) \<Rightarrow> (cstr \<Rightarrow> int) \<Rightarrow> (cstr \<Rightarrow> int) \<Rightarrow> reader_round list \<Rightarrow> PROFILE_T \<Rightarrow> reader
     \<Rightarrow> (bool \<times> PROFILE_T \<times> reader) access" where
  "QmiWwanThread alloc cm_open_proxy cm_open_dev rounds profile rd = do {
     p \<leftarrow> wwan_proxy_name profile;
     let profile = profile\<lparr>proxy := p\<rparr>;
     let fd = (if p \<noteq> [] then cm_open_proxy p else cm_open_dev (qmichannel profile));
     if fd = - 1
     then Some (True, profile, rd\<lparr>rthr := qmidevice_send_event_to_main RIL_INDICATE_DEVICE_DISCONNECTED (rthr rd)\<rparr>)
     else do {
       let rd = rd\<lparr>rthr := qmidevice_send_event_to_main RIL_INDICATE_DEVICE_CONNECTED (rthr rd)\<rparr>;
       (quit, rd) \<leftarrow> QmiWwanThread_loop alloc (p \<noteq> []) rounds (rd\<lparr>wait_for_request_quit := False\<rparr>);
       Some (quit, profile, rd) } }"

end
