(* ===== verification/Gobi_Net.thy ===== *)
theory Gobi_Net
  imports Qmi_Wwan
begin

text \<open>
  The GobiNet back end (\<^verbatim>\<open>GobiNetCM.c\<close>): one descriptor per QMI service, opened on the same device file,
  takes the place of a client id. The driver speaks QMUX without the \<^verbatim>\<open>QCQMI_HDR\<close>, which is
  stripped when a request is written and made up when a message is read.
\<close>

record gobi =
  gobi_ids :: "int list"
  gobi_calls :: nat
  gobi_closed :: "int list"

definition gobi_init :: gobi where
  "gobi_init = \<lparr>gobi_ids = replicate 255 0, gobi_calls = 0, gobi_closed = []\<rparr>"

definition gobi_client_byte :: "int \<Rightarrow> byte \<Rightarrow> byte" where
  "gobi_client_byte fd ty = (if (word_of_int fd :: byte) \<noteq> 0 then word_of_int fd else ty)"

text \<open>A \<^verbatim>\<open>Length\<close> below 5 makes the size to write wrap around, which reads behind the request.\<close>

definition GobiNetSendQMI :: "int list \<Rightarrow> (int \<Rightarrow> buf \<Rightarrow> int) \<Rightarrow> buf \<Rightarrow> (int \<times> buf \<times> buf option) access" where
  "GobiNetSendQMI ids wres r = do {
     ty \<leftarrow> rd8 r 4;
     fd \<leftarrow> (if unat ty < length ids then Some (ids ! unat ty) else None);
     r \<leftarrow> wr r 5 [gobi_client_byte fd ty];
     if fd \<le> 0 then Some (- ENODEV, r, None)
     else do {
       l \<leftarrow> rd16 r 1;
       bs \<leftarrow> (if 5 \<le> unat l then rdn r 6 (unat l - 5) else None);
       let ret = wres fd bs;
       Some (if ret = int (unat l) - 5 then 0 else ret, r, Some bs) } }"

definition gobi_dev :: "int list \<Rightarrow> (int \<Rightarrow> buf \<Rightarrow> int) \<Rightarrow> qmidev" where
  "gobi_dev ids wres r = map_option (\<lambda>(e, r', w). (e, r')) (GobiNetSendQMI ids wres r)"

text \<open>\<open>os k\<close> is what the \<open>k\<close>-th call gets from \<^verbatim>\<open>cm_open_dev\<close> and from the \<^verbatim>\<open>ioctl\<close>.\<close>

definition GobiNetGetClientID :: "(nat \<Rightarrow> int \<times> int) \<Rightarrow> byte \<Rightarrow> gobi \<Rightarrow> int \<times> gobi" where
  "GobiNetGetClientID os QMIType g =
     (let (ClientId, io) = os (gobi_calls g); g = g\<lparr>gobi_calls := gobi_calls g + 1\<rparr>
      in if ClientId = - 1 then (- 1, g)
         else if io \<noteq> 0 then (0, g\<lparr>gobi_closed := gobi_closed g @ [ClientId]\<rparr>)
         else (ClientId, g))"

definition gobi_open :: "(nat \<Rightarrow> int \<times> int) \<Rightarrow> byte \<Rightarrow> byte \<Rightarrow> gobi \<Rightarrow> gobi" where
  "gobi_open os slot ty g =
     (let (c, g) = GobiNetGetClientID os ty g in g\<lparr>gobi_ids := (gobi_ids g)[unat slot := c]\<rparr>)"

definition GobiNetDeInit :: "gobi \<Rightarrow> gobi" where
  "GobiNetDeInit g = g\<lparr>gobi_ids := map (\<lambda>i. 0) (gobi_ids g),
                       gobi_closed := gobi_closed g @ filter (\<lambda>i. i \<noteq> 0) (gobi_ids g)\<rparr>"

definition gobi_clients :: "(nat \<Rightarrow> int \<times> int) \<Rightarrow> PROFILE_T \<Rightarrow> gobi \<Rightarrow> PROFILE_T \<times> gobi" where
  "gobi_clients os profile g =
     (let g = gobi_open os QMUX_TYPE_WDS QMUX_TYPE_WDS g;
          g = (if enable_ipv6 profile then gobi_open os QMUX_TYPE_WDS_IPV6 QMUX_TYPE_WDS g else g);
          g = gobi_open os QMUX_TYPE_DMS QMUX_TYPE_DMS g;
          g = gobi_open os QMUX_TYPE_NAS QMUX_TYPE_NAS g;
          g = gobi_open os QMUX_TYPE_UIM QMUX_TYPE_UIM g
      in if qmap_mode profile = 0 \<or> loopback_state profile \<noteq> 0
         then (let g = gobi_open os QMUX_TYPE_WDS_ADMIN QMUX_TYPE_WDS_ADMIN g
               in (profile\<lparr>wda_client := gobi_ids g ! unat QMUX_TYPE_WDS_ADMIN\<rparr>, g))
         else (profile, g))"

text \<open>A turn of the reader: the control socket, then the open descriptors in the order of the table,
  each with its error flag and the bytes it has. Here \<^verbatim>\<open>POLLERR\<close> quits as well.\<close>

datatype gobi_round =
    GobiTimeout
  | GobiError
  | GobiReady bool "triger_event option option" "(int \<times> bool \<times> buf option) list"

record gobi_reader = reader +
  gobi_st :: gobi

definition last_index :: "int \<Rightarrow> int list \<Rightarrow> nat option" where
  "last_index fd ids = (case filter (\<lambda>i. ids ! i = fd) [0..<length ids] of [] \<Rightarrow> None | is \<Rightarrow> Some (last is))"

text \<open>A message read from descriptor \<open>fd\<close>: the header in front of it is made up.\<close>

definition gobi_device_in :: "(nat \<Rightarrow> bool) \<Rightarrow> int \<Rightarrow> buf \<Rightarrow> gobi_reader \<Rightarrow> gobi_reader access" where
  "gobi_device_in alloc fd bs rd = do {
     let x = take 4090 bs;
     b \<leftarrow> wr (cm_recv_buf rd) 6 x;
     b \<leftarrow> (case last_index fd (gobi_ids (gobi_st rd)) of None \<Rightarrow> Some b | Some i \<Rightarrow> wr b 4 [of_nat i]);
     b \<leftarrow> wr b 0 [0x01];
     b \<leftarrow> wr b 1 (bytes16 (of_nat (length x + 5)));
     b \<leftarrow> wr b 3 [0x00];
     ty \<leftarrow> rd8 b 4;
     b \<leftarrow> wr b 5 [gobi_client_byte fd ty];
     t \<leftarrow> QmiThreadRecvQMI alloc (Some b) (rthr rd);
     Some (rd\<lparr>cm_recv_buf := b, rthr := t\<rparr>) }"

definition gobi_quit :: "(nat \<Rightarrow> bool) \<Rightarrow> gobi_reader \<Rightarrow> gobi_reader access" where
  "gobi_quit alloc rd = do {
     let rd = rd\<lparr>gobi_st := GobiNetDeInit (gobi_st rd)\<rparr>;
     t \<leftarrow> QmiThreadRecvQMI alloc None (qmidevice_send_event_to_main RIL_INDICATE_DEVICE_DISCONNECTED (rthr rd));
     Some (rd\<lparr>rthr := t\<rparr>) }"

text \<open>The descriptors of a turn; \<open>True\<close> asks the thread to quit, a failed read ends the turn.\<close>

fun gobi_devices ::
  "(nat \<Rightarrow> bool) \<Rightarrow> (int \<times> bool \<times> buf option) list \<Rightarrow> gobi_reader \<Rightarrow> (bool \<times> gobi_reader) access" where
  "gobi_devices alloc [] rd = Some (False, rd)"
| "gobi_devices alloc ((fd, err, inp) # ds) rd =
     (if err then Some (True, rd)
      else (case inp of
              None \<Rightarrow> gobi_devices alloc ds rd
            | Some bs \<Rightarrow> if bs = [] then Some (False, rd)
                         else do { rd \<leftarrow> gobi_device_in alloc fd bs rd; gobi_devices alloc ds rd }))"

fun GobiNetThread_loop :: "(nat \<Rightarrow> bool) \<Rightarrow> gobi_round list \<Rightarrow> gobi_reader \<Rightarrow> (bool \<times> gobi_reader) access" where
  "GobiNetThread_loop alloc [] rd = Some (False, rd)"
| "GobiNetThread_loop alloc (GobiTimeout # rs) rd =
     (if wait_for_request_quit rd then do {
        t \<leftarrow> QmiThreadRecvQMI alloc None (rthr rd);
        GobiNetThread_loop alloc rs (rd\<lparr>rthr := t\<rparr>) }
      else do { rd \<leftarrow> gobi_quit alloc rd; Some (True, rd) })"
| "GobiNetThread_loop alloc (GobiError # rs) rd = do { rd \<leftarrow> gobi_quit alloc rd; Some (True, rd) }"
| "GobiNetThread_loop alloc (GobiReady err ev ds # rs) rd =
     (if err \<or> ev = Some (Some RIL_REQUEST_QUIT) then do { rd \<leftarrow> gobi_quit alloc rd; Some (True, rd) }
      else do {
        let rd = (if ev = Some (Some SIG_EVENT_STOP_REQ) then rd\<lparr>wait_for_request_quit := True\<rparr> else rd);
        (quit, rd) \<leftarrow> gobi_devices alloc ds rd;
        if quit then do { rd \<leftarrow> gobi_quit alloc rd; Some (True, rd) }
        else GobiNetThread_loop alloc rs rd })"

definition GobiNetThread ::
  "(nat \<Rightarrow> bool) \<Rightarrow> (nat \<Rightarrow> int \<times> int) \<Rightarrow> gobi_round list \<Rightarrow> PROFILE_T \<Rightarrow> gobi_reader
     \<Rightarrow> (bool \<times> PROFILE_T \<times> gobi_reader) access" where
  "GobiNetThread alloc os rounds profile rd =
     (let (profile, g) = gobi_clients os profile (gobi_st rd)
      in if gobi_ids g ! unat QMUX_TYPE_WDS = 0
         then Some (True, profile, rd\<lparr>gobi_st := GobiNetDeInit g,
                rthr := qmidevice_send_event_to_main RIL_INDICATE_DEVICE_DISCONNECTED (rthr rd)\<rparr>)
         else do {
           let rd = rd\<lparr>gobi_st := g, wait_for_request_quit := False,
                        rthr := qmidevice_send_event_to_main RIL_INDICATE_DEVICE_CONNECTED (rthr rd)\<rparr>;
           (quit, rd) \<leftarrow> GobiNetThread_loop alloc rounds rd;
           Some (quit, profile, rd) })"

end
