(* ===== verification/Qmi_Device.thy ===== *)
theory Qmi_Device
  imports Gobi_Net
begin

text \<open>
  What the two back ends guarantee to the layers above. \<open>qmi_device\<close> is the contract of
  \<^verbatim>\<open>qmidev_send\<close>, interpreted on both back ends; \<open>qmi_channel\<close> is the contract of
  \<^verbatim>\<open>QmiThreadSendQMI\<close> the request handlers build on, interpreted on the rendezvous over a device.
\<close>

subsection \<open>Sending through a device\<close>

lemma rd8_drop: "rd8 (drop k b) i = rd8 b (k + i)"
  by (auto simp: rd8_def)

text \<open>A device may set the service and the client id of a request (bytes 4 and 5) and nothing else; a request for
  the service \<open>q\<close> that it takes goes out as one for the service \<open>svc q\<close> and the client \<open>client q\<close>.\<close>

locale qmi_device =
  fixes dev :: qmidev and svc client :: "byte \<Rightarrow> byte"
  assumes shape: "dev r = Some (e, r') \<Longrightarrow> length r' = length r \<and> take 4 r' = take 4 r \<and> drop 6 r' = drop 6 r"
    and addressed: "dev r = Some (0, r') \<Longrightarrow> rd8 r 4 = Some q \<Longrightarrow> q \<noteq> QMUX_TYPE_CTL \<Longrightarrow>
      rd8 r' 4 = Some (svc q) \<and> rd8 r' 5 = Some (client q)"
    and service: "q \<noteq> QMUX_TYPE_CTL \<Longrightarrow> svc q \<noteq> QMUX_TYPE_CTL"
begin

lemma keeps_tid: "dev r = Some (e, r') \<Longrightarrow> rd16 r' 7 = rd16 r 7"
proof -
  assume d: "dev r = Some (e, r')"
  have "rd8 r' (6 + i) = rd8 r (6 + i)" for i
    using shape [OF d] by (metis rd8_drop)
  from this [of 1] this [of 2] show ?thesis by (simp add: rd16_def)
qed

lemma response_own:
  assumes "dev r = Some (0, r')" and "is_response r' m = Some True" and "rd8 r 4 = Some q" and "q \<noteq> QMUX_TYPE_CTL"
  shows "rd8 m 4 = Some (svc q) \<and> rd8 m 5 = Some (client q) \<and> rd16 m 7 = rd16 r 7"
  using assms(2) keeps_tid [OF assms(1)] addressed [OF assms(1,3,4)] service [OF assms(4)]
  unfolding is_response_bytes by auto

end

text \<open>The service a request goes out with on \<^verbatim>\<open>qmi_wwan\<close>: the IPv6 instance of WDS is WDS for the modem.\<close>

definition wwan_service :: "byte \<Rightarrow> byte" where
  "wwan_service q = (if q = QMUX_TYPE_WDS_IPV6 then QMUX_TYPE_WDS else q)"

lemma wr_outside:
  assumes "wr r i vs = Some r'" and "j \<le> i" and "i + length vs \<le> k"
  shows "length r' = length r \<and> take j r' = take j r \<and> drop k r' = drop k r"
  using length_wr [OF assms(1)] take_wr_below [OF assms(1,2)] drop_wr_above [OF assms(1,3)] by simp

lemma wr_one: "wr r i [b] = Some r' \<Longrightarrow> rd8 r' j = (if j = i then Some b else rd8 r j)"
  by (auto simp: wr_def rd8_def upd_conv_take_nth_drop [symmetric] nth_list_update split: if_splits)

lemma wwan_dev_request:
  assumes "wwan_dev fd ids pres wres r = Some (e, r')" and "rd8 r 4 = Some q" and "q \<noteq> QMUX_TYPE_CTL" and "e = 0"
  shows "rd8 r' 4 = Some (wwan_service q) \<and> rd8 r' 5 = Some (ids ! unat q)"
proof -
  obtain r1 where r1: "wr r 5 [ids ! unat q] = Some r1"
      and "if q = QMUX_TYPE_WDS_IPV6 then wr r1 4 [QMUX_TYPE_WDS] = Some r' else r' = r1"
    using assms
    by (auto simp: wwan_dev_def QmiWwanSendQMI_def bind_eq_Some_conv Let_def ENODEV_def split: if_splits)
  then show ?thesis
    using wr_one [OF r1] wr_one [of r1 4 QMUX_TYPE_WDS r'] assms(2) by (auto simp: wwan_service_def split: if_splits)
qed

interpretation wwan_device: qmi_device "wwan_dev fd ids pres wres" wwan_service "\<lambda>q. ids ! unat q" for fd ids pres wres
proof
  fix r e r' assume d: "wwan_dev fd ids pres wres r = Some (e, r')"
  show "length r' = length r \<and> take 4 r' = take 4 r \<and> drop 6 r' = drop 6 r"
  proof (cases "r' = r")
    case False
    with d obtain r1 cid where r1: "wr r 5 [cid] = Some r1" and
      r': "r' = r1 \<or> wr r1 4 [QMUX_TYPE_WDS] = Some r'"
      by (auto simp: wwan_dev_def QmiWwanSendQMI_def bind_eq_Some_conv Let_def split: if_splits)
    show ?thesis
      using wr_outside [OF r1, of 4 6] r' wr_outside [of r1 4 "[QMUX_TYPE_WDS]" r' 4 6] by auto
  qed simp
next
  fix r r' q assume "wwan_dev fd ids pres wres r = Some (0, r')" "rd8 r 4 = Some q" "q \<noteq> QMUX_TYPE_CTL"
  then show "rd8 r' 4 = Some (wwan_service q) \<and> rd8 r' 5 = Some (ids ! unat q)"
    by (rule wwan_dev_request) simp
next
  fix q :: byte assume "q \<noteq> QMUX_TYPE_CTL"
  then show "wwan_service q \<noteq> QMUX_TYPE_CTL" by (simp add: wwan_service_def)
qed

interpretation gobi_device: qmi_device "gobi_dev ids wres" "\<lambda>q. q" "\<lambda>q. gobi_client_byte (ids ! unat q) q" for ids wres
proof
  fix r e r' assume d: "gobi_dev ids wres r = Some (e, r')"
  then obtain cid where "wr r 5 [cid] = Some r'"
    by (auto simp: gobi_dev_def GobiNetSendQMI_def bind_eq_Some_conv Let_def split: if_splits)
  then show "length r' = length r \<and> take 4 r' = take 4 r \<and> drop 6 r' = drop 6 r"
    using wr_outside [of r 5 "[cid]" r' 4 6] by simp
next
  fix r r' q assume "gobi_dev ids wres r = Some (0, r')" and q: "rd8 r 4 = Some q"
  then have "wr r 5 [gobi_client_byte (ids ! unat q) q] = Some r'"
    by (auto simp: gobi_dev_def GobiNetSendQMI_def bind_eq_Some_conv Let_def split: if_splits)
  then show "rd8 r' 4 = Some q \<and> rd8 r' 5 = Some (gobi_client_byte (ids ! unat q) q)"
    using wr_one q by simp
qed

subsection \<open>The rendezvous over a device\<close>

lemma recv_all_inv:
  assumes "recv_all alloc ms (thr c) = Some t" and "chan_inv c"
  shows "chan_inv (c\<lparr>thr := t, got := got c @ List.map_filter id ms\<rparr>)"
  using assms
proof (induction ms arbitrary: c)
  case Nil
  then have "c\<lparr>thr := t, got := got c @ List.map_filter id []\<rparr> = c"
    by (cases c) (simp add: map_filter_def)
  with Nil show ?case by metis
next
  case (Cons m ms)
  then obtain t1 where t1: "QmiThreadRecvQMI alloc m (thr c) = Some t1" "recv_all alloc ms t1 = Some t"
    by (auto simp: bind_eq_Some_conv)
  let ?c = "c\<lparr>thr := t1, got := got c @ (case m of None \<Rightarrow> [] | Some n \<Rightarrow> [n])\<rparr>"
  have "chan_inv ?c" by (rule recv_keeps_inv [OF Cons.prems(2) t1(1) refl])
  from Cons.IH [OF _ this, of] t1(2) show ?case
    by (cases m) (simp_all add: map_filter_def)
qed

lemma send_result_answer:
  assumes "QmiThreadSendQMITimeout alloc dev ms wait (Some r) want st = Some (e, Some x, st')"
  shows "e = 0 \<and> (\<exists>r' m. dev r = Some (0, r') \<and> Some m \<in> set ms \<and> answer_of r' m x)"
proof -
  obtain ret t where b: "QmiThreadSendQMI_begin dev r st = Some (ret, t)"
    using assms by (auto simp: QmiThreadSendQMITimeout_def bind_eq_Some_conv)
  have "ret = 0"
    using assms b by (auto simp: QmiThreadSendQMITimeout_def split: if_splits)
  with b obtain r' where r': "dev r = Some (0, r')" "s_pRequest t = Some r'" "cond_waiting t"
      "s_pResponse t = None" "\<not> cond_signalled t"
    by (auto simp: QmiThreadSendQMI_begin_def bind_eq_Some_conv Let_def)
  from assms b \<open>ret = 0\<close> obtain t2 where t2: "recv_all alloc ms t = Some t2"
      "e = wait (cond_signalled t2)" "fst (QmiThreadSendQMI_end e want t2) = Some x"
    by (auto simp: QmiThreadSendQMITimeout_def bind_eq_Some_conv Let_def split: prod.splits)
  then have e: "e = 0" and x: "s_pResponse t2 = Some x"
    by (auto simp: QmiThreadSendQMI_end_def Let_def split: if_splits option.splits)
  let ?c = "\<lparr>thr = t, ph = Waiting r', got = []\<rparr> :: chan"
  have "chan_inv ?c" using r' by (simp add: chan_inv_def)
  from recv_all_inv [OF _ this, of alloc ms t2] t2(1) x
  have "\<exists>m\<in>set (List.map_filter id ms). answer_of r' m x"
    by (simp add: chan_inv_def)
  then have "\<exists>m. Some m \<in> set ms \<and> answer_of r' m x"
    by (auto simp: map_filter_def)
  with e r'(1) show ?thesis by blast
qed

text \<open>
  The transport of the handlers made from the rendezvous: \<open>script h\<close> are the messages the reader
  hands over while the request sent last in \<open>h\<close> is outstanding. The state the earlier requests
  leave behind is overwritten by the next one, so that it starts from \<open>qmi_thread_init\<close>.
\<close>

definition thread_send ::
  "(nat \<Rightarrow> bool) \<Rightarrow> qmidev \<Rightarrow> (buf list \<Rightarrow> buf option list) \<Rightarrow> (bool \<Rightarrow> int) \<Rightarrow> transport" where
  "thread_send alloc dev script wait h =
     (case QmiThreadSendQMITimeout alloc dev (script h) wait (Some (last h)) True qmi_thread_init of
        None \<Rightarrow> (- EINVAL, None) | Some (e, x, st) \<Rightarrow> (e, x))"

lemma qmux_frame_service: "rd8 (qmux_frame qt cid fl tid mt ts) 4 = Some qt"
  by (simp add: qmux_frame_def rd8_def bytes16_def)

text \<open>The messages are those the reader thread was given (\<open>heard\<close>); a response is the copy of one of them.\<close>

locale qmi_channel =
  fixes send :: transport and heard :: "buf list \<Rightarrow> buf option list" and svc client :: "byte \<Rightarrow> byte"
  assumes own: "send h = (e, Some x) \<Longrightarrow> rd8 (last h) 4 = Some q \<Longrightarrow> q \<noteq> QMUX_TYPE_CTL \<Longrightarrow>
    e = 0 \<and> (\<exists>m l. Some m \<in> set (heard h) \<and> rd8 m 4 = Some (svc q) \<and> rd8 m 5 = Some (client q) \<and>
      rd16 m 7 = rd16 (last h) 7 \<and> rd16 m 1 = Some l \<and> unat l + 1 \<le> length m \<and> x = take (unat l + 1) m)"
begin

lemma frame_own:
  assumes "send (s @ [qmux_frame q 0 fl tid mt ts]) = (e, Some x)" and "q \<noteq> QMUX_TYPE_CTL"
  shows "e = 0 \<and> (\<exists>m l. Some m \<in> set (heard (s @ [qmux_frame q 0 fl tid mt ts])) \<and> rd8 m 4 = Some (svc q) \<and>
      rd8 m 5 = Some (client q) \<and> rd16 m 7 = Some tid \<and> rd16 m 1 = Some l \<and> unat l + 1 \<le> length m \<and>
      x = take (unat l + 1) m)"
  using own [OF assms(1) _ assms(2)] by (simp add: qmux_frame_tid qmux_frame_service)

lemma transact_None_own:
  assumes "\<And>n. alloc n" and "qmi_transact alloc send q mt None env = Some (e, Some x, env')" and "q \<noteq> QMUX_TYPE_CTL"
  shows "e = 0 \<and> (\<exists>m l. Some m \<in> set (heard (sent env')) \<and> rd8 m 4 = Some (svc q) \<and> rd8 m 5 = Some (client q) \<and>
      rd16 m 7 = Some (next_tid env) \<and> rd16 m 1 = Some l \<and> unat l + 1 \<le> length m \<and> x = take (unat l + 1) m)"
proof -
  have "send (sent env @ [qmux_frame q 0 0 (next_tid env) mt []]) = (e, Some x)"
      "sent env' = sent env @ [qmux_frame q 0 0 (next_tid env) mt []]"
    using assms(2) by (auto simp: transact_None [OF assms(1)] Let_def split: prod.splits)
  with frame_own [OF this(1) assms(3)] show ?thesis by simp
qed

end

locale qmi_channel_request = qmi_channel send heard svc client + qmux_builder custom blocks fits
  for send :: transport and heard :: "buf list \<Rightarrow> buf option list" and svc client :: "byte \<Rightarrow> byte"
    and custom :: builder and blocks :: "tlv list" and fits :: bool
begin

lemma transact_own:
  assumes "fits" and "\<And>n. alloc n" and "qmi_transact alloc send q mt (Some custom) env = Some (e, Some x, env')"
    and "q \<noteq> QMUX_TYPE_CTL"
  shows "e = 0 \<and> (\<exists>m l. Some m \<in> set (heard (sent env')) \<and> rd8 m 4 = Some (svc q) \<and> rd8 m 5 = Some (client q) \<and>
      rd16 m 7 = Some (next_tid env) \<and> rd16 m 1 = Some l \<and> unat l + 1 \<le> length m \<and> x = take (unat l + 1) m)"
proof -
  have "send (sent env @ [qmux_frame q 0 0 (next_tid env) mt blocks]) = (e, Some x)"
      "sent env' = sent env @ [qmux_frame q 0 0 (next_tid env) mt blocks]"
    using assms(3) by (auto simp: transact [OF assms(1,2)] Let_def split: prod.splits)
  with frame_own [OF this(1) assms(4)] show ?thesis by simp
qed

end

lemma thread_send_own:
  assumes "qmi_device dev svc client" and "thread_send alloc dev script wait h = (e, Some x)"
    and "rd8 (last h) 4 = Some q" and "q \<noteq> QMUX_TYPE_CTL"
  shows "e = 0 \<and> (\<exists>m l. Some m \<in> set (script h) \<and> rd8 m 4 = Some (svc q) \<and> rd8 m 5 = Some (client q) \<and>
      rd16 m 7 = rd16 (last h) 7 \<and> rd16 m 1 = Some l \<and> unat l + 1 \<le> length m \<and> x = take (unat l + 1) m)"
proof -
  have "\<exists>st. QmiThreadSendQMITimeout alloc dev (script h) wait (Some (last h)) True qmi_thread_init
      = Some (e, Some x, st)"
    using assms(2) by (auto simp: thread_send_def split: option.splits prod.splits)
  then obtain r' m where r: "e = 0" "dev (last h) = Some (0, r')" "Some m \<in> set (script h)" "answer_of r' m x"
    using send_result_answer by blast
  then have "is_response r' m = Some True"
    by (simp add: answer_of_def)
  from qmi_device.response_own [OF assms(1) r(2) this assms(3,4)] answer_of_copy [OF r(4)] r(1,3) show ?thesis
    by blast
qed

interpretation wwan_channel: qmi_channel "thread_send alloc (wwan_dev fd ids pres wres) script wait" script wwan_service
  "\<lambda>q. ids ! unat q" for alloc fd ids pres wres script wait
  by unfold_locales (rule thread_send_own [OF wwan_device.qmi_device_axioms])

interpretation gobi_channel: qmi_channel "thread_send alloc (gobi_dev ids wres) script wait" script "\<lambda>q. q"
  "\<lambda>q. gobi_client_byte (ids ! unat q) q" for alloc ids wres script wait
  by unfold_locales (rule thread_send_own [OF gobi_device.qmi_device_axioms])

interpretation wwan_start: qmi_channel_request "thread_send alloc (wwan_dev fd ids pres wres) script wait" script wwan_service
  "\<lambda>q. ids ! unat q" "WdsStartNwInterfaceReq cdma hdr profile" "start_nw_blocks cdma profile"
  "13 + length (tlvs_bytes (start_nw_blocks cdma profile)) \<le> WDM_DEFAULT_BUFSIZE"
  for alloc fd ids pres wres script wait cdma hdr profile
  by unfold_locales


definition sample_start_response :: buf where
  "sample_start_response = [1, 26, 0, 0x80, 1, 5, 2, 1, 0, 0x20, 0, 14, 0, 2, 4, 0, 0, 0, 0, 0, 1, 4, 0, 7, 0, 0, 0]"

lemma sample_start_exchange:
  "thread_send (\<lambda>n. True) (wwan_dev 3 [0, 5] (1, True) (\<lambda>bs. int (length bs))) (\<lambda>h. [Some sample_start_response])
     (\<lambda>s. if s then 0 else ETIMEDOUT) [qmux_frame 1 0 0 1 0x20 [mk_tlv 0x30 [1], mk_tlv 0x19 [4]]]
   = (0, Some sample_start_response)"
  by code_simp


subsection \<open>Sending with the client id of the service\<close>

text \<open>Sending a service request through \<^verbatim>\<open>QmiWwanSendQMI\<close>: with a client for the service and a device
  that takes the message, exactly the request is written, with the client id of the service and
  with the IPv6 instance of WDS addressed as WDS, and the result is 0; without a client nothing
  is written and the result is \<^verbatim>\<open>-ENODEV\<close>.\<close>

theorem wwan_send_service:
  assumes "fd \<noteq> - 1" and "qt \<noteq> QMUX_TYPE_CTL" and "unat qt < length ids" and "12 + length (tlvs_bytes ts) < 65536"
    and "wres (qmux_frame (if qt = QMUX_TYPE_WDS_IPV6 then QMUX_TYPE_WDS else qt) (ids ! unat qt) fl tid mt ts)
           = int (13 + length (tlvs_bytes ts))"
  shows "QmiWwanSendQMI fd ids (pr, True) wres (qmux_frame qt 0 fl tid mt ts) =
         (if ids ! unat qt = 0 then Some (- ENODEV, qmux_frame qt 0 fl tid mt ts, None)
          else Some (0, qmux_frame (if qt = QMUX_TYPE_WDS_IPV6 then QMUX_TYPE_WDS else qt) (ids ! unat qt) fl tid mt ts,
                 Some (qmux_frame (if qt = QMUX_TYPE_WDS_IPV6 then QMUX_TYPE_WDS else qt) (ids ! unat qt) fl tid mt ts)))"
proof -
  define L where "L = bytes16 (of_nat (12 + length (tlvs_bytes ts)) :: u16)"
  define R where "R = bytes16 tid @ mux_body mt ts"
  obtain l0 l1 where L: "L = [l0, l1]" by (simp add: L_def bytes16_def)
  have fr: "qmux_frame q c fl tid mt ts = [0x01, l0, l1, 0x00, q, c, fl] @ R" for q c
    using L by (simp add: qmux_frame_def R_def L_def)
  have len: "rd16 (qmux_frame q c fl tid mt ts) 1 = Some (of_nat (12 + length (tlvs_bytes ts)))" for q c
    using rd16_append_right [of "[0x01]" 1] by (simp add: qmux_frame_def)
  have un: "unat (of_nat (12 + length (tlvs_bytes ts)) :: u16) = 12 + length (tlvs_bytes ts)"
    unfolding unat_of_nat_u16 using assms(4) by simp
  have all: "rdn (qmux_frame q c fl tid mt ts) 0 (12 + length (tlvs_bytes ts) + 1) = Some (qmux_frame q c fl tid mt ts)" for q c
    using rdn_prefix [of "qmux_frame q c fl tid mt ts" "[]"] by (simp add: add.commute)
  have w5: "wr (qmux_frame q c fl tid mt ts) 5 [c'] = Some (qmux_frame q c' fl tid mt ts)" for q c c'
    by (simp add: fr wr_def)
  have w4: "wr (qmux_frame q c fl tid mt ts) 4 [q'] = Some (qmux_frame q' c fl tid mt ts)" for q c q'
    by (simp add: fr wr_def)
  have ty: "rd8 (qmux_frame q c fl tid mt ts) 4 = Some q" for q c
    by (simp add: fr rd8_def)
  have io: "do { l \<leftarrow> rd16 (qmux_frame q c fl tid mt ts) 1; bs \<leftarrow> rdn (qmux_frame q c fl tid mt ts) 0 (unat l + 1);
                 let ret = wres bs; Some (if ret = int (unat l) + 1 then 0 else ret, x, Some bs) }
            = Some (if wres (qmux_frame q c fl tid mt ts) = int (13 + length (tlvs_bytes ts)) then 0
                    else wres (qmux_frame q c fl tid mt ts), x, Some (qmux_frame q c fl tid mt ts))" for q c x
    unfolding len Option.bind.simps un all Let_def by (simp add: algebra_simps)
  show ?thesis
    unfolding QmiWwanSendQMI_def ty Option.bind.simps snd_conv
    using assms by (cases "ids ! unat qt = 0"; cases "qt = QMUX_TYPE_WDS_IPV6")
      (simp_all only: io w5 w4 if_True if_False simp_thms Option.bind.simps prod.case assms(5))
qed

theorem wwan_send_service_witness:
  "QmiWwanSendQMI 3 [0, 5] (1, True) (\<lambda>bs. int (length bs)) (qmux_frame 1 0 0 7 0x22 [])
   = Some (0, qmux_frame 1 5 0 7 0x22 [], Some (qmux_frame 1 5 0 7 0x22 []))"
  using wwan_send_service [of 3 1 "[0, 5]" "[]" "\<lambda>bs. int (length bs)" 0 7 "0x22" 1] by simp

text \<open>\<^verbatim>\<open>QmiWwanSendQMI\<close> takes a device that is not writable for success: when \<^verbatim>\<open>poll\<close> runs out of its
  5 seconds it returns 0, which the function passes on although nothing was written, so that
  the caller waits for a response to a request that was never sent.\<close>

theorem wwan_send_poll_timeout:
  assumes "fd \<noteq> - 1" and "rd8 r 4 = Some QMUX_TYPE_CTL"
  shows "QmiWwanSendQMI fd ids (0, False) wres r = Some (0, r, None)"
  using assms by (simp add: QmiWwanSendQMI_def)

theorem wwan_send_poll_timeout_witness:
  "QmiWwanSendQMI 3 [] (0, False) (\<lambda>bs. 0) [1, 11, 0, 0, 0, 0, 0, 1, 0x27, 0, 0, 0]
   = Some (0, [1, 11, 0, 0, 0, 0, 0, 1, 0x27, 0, 0, 0], None)"
  using wwan_send_poll_timeout [of 3 "[1, 11, 0, 0, 0, 0, 0, 1, 0x27, 0, 0, 0]" "[]" "\<lambda>bs. 0"]
  by (simp add: rd8_def)

subsection \<open>Exit of a reader thread\<close>

text \<open>A sender that waits either has its request published, or was signalled already.\<close>

definition sender_ok :: "qmi_thread \<Rightarrow> bool" where
  "sender_ok t \<longleftrightarrow> cond_waiting t \<longrightarrow> s_pRequest t \<noteq> None \<or> cond_signalled t"

definition released :: "qmi_thread \<Rightarrow> bool" where
  "released t \<longleftrightarrow> s_pRequest t = None \<and> (cond_waiting t \<longrightarrow> cond_signalled t) \<and>
     (main_events t \<noteq> [] \<and> last (main_events t) = RIL_INDICATE_DEVICE_DISCONNECTED)"

lemma send_event_ok [simp]: "sender_ok (qmidevice_send_event_to_main e t) = sender_ok t"
  by (simp add: sender_ok_def qmidevice_send_event_to_main_def)

lemma recv_sender_ok: "QmiThreadRecvQMI alloc m t = Some t' \<Longrightarrow> sender_ok t \<Longrightarrow> sender_ok t'"
  by (auto simp: QmiThreadRecvQMI_def sender_ok_def pthread_cond_signal_def qmidevice_send_event_to_main_def
      bind_eq_Some_conv split: option.splits if_splits)

lemma recv_None_releases:
  assumes "QmiThreadRecvQMI alloc None (qmidevice_send_event_to_main RIL_INDICATE_DEVICE_DISCONNECTED t) = Some t'"
    and "sender_ok t"
  shows "released t'"
  using assms
  by (cases "s_pRequest t") (auto simp: QmiThreadRecvQMI_def released_def sender_ok_def pthread_cond_signal_def
      qmidevice_send_event_to_main_def split: if_splits)

lemma wwan_quit_releases: "wwan_quit alloc rd = Some rd' \<Longrightarrow> sender_ok (rthr rd) \<Longrightarrow> released (rthr rd')"
  by (auto simp: wwan_quit_def bind_eq_Some_conv intro: recv_None_releases)

lemma wwan_device_in_ok: "wwan_device_in alloc proxied bs rd = Some rd' \<Longrightarrow> sender_ok (rthr rd) \<Longrightarrow> sender_ok (rthr rd')"
  by (auto simp: wwan_device_in_def bind_eq_Some_conv Let_def split: if_splits intro: recv_sender_ok)

text \<open>C34: When the reader thread of the \<^verbatim>\<open>qmi_wwan\<close> back end leaves its loop, whatever it received before
  and for whatever reason it quits, a thread that waits for a response is woken, no request
  stays published, and the last event for the main loop says that the device is gone.\<close>

theorem wwan_exit_releases_sender:
  assumes "QmiWwanThread_loop alloc proxied rounds rd = Some (True, rd')" and "sender_ok (rthr rd)"
  shows "released (rthr rd')"
  using assms
proof (induction alloc proxied rounds rd rule: QmiWwanThread_loop.induct)
  case (2 alloc proxied rs rd)
  then show ?case
    by (auto simp: bind_eq_Some_conv split: if_splits intro: wwan_quit_releases recv_sender_ok)
next
  case (3 alloc proxied rs rd)
  then show ?case by (auto simp: bind_eq_Some_conv intro: wwan_quit_releases)
next
  case (4 alloc proxied hup1 ev hup2 bs rs rd)
  let ?rd = "if ev = Some (Some SIG_EVENT_STOP_REQ) then rd\<lparr>wait_for_request_quit := True\<rparr> else rd"
  have ok: "sender_ok (rthr ?rd)" using 4(3) by simp
  show ?case
  proof (cases "hup1 \<or> ev = Some (Some RIL_REQUEST_QUIT) \<or> hup2")
    case True
    then show ?thesis
      using 4(2) ok 4(3) by (auto simp: bind_eq_Some_conv Let_def split: if_splits intro: wwan_quit_releases)
  next
    case False
    with 4(2) obtain rd1 where r1: "(case bs of None \<Rightarrow> Some ?rd | Some x \<Rightarrow> wwan_device_in alloc proxied x ?rd) = Some rd1"
      and r2: "QmiWwanThread_loop alloc proxied rs rd1 = Some (True, rd')"
      by (auto simp: bind_eq_Some_conv Let_def)
    have "sender_ok (rthr rd1)"
      using r1 ok wwan_device_in_ok by (cases bs) auto
    then show ?thesis
      using 4(1) [OF _ refl _ r1 r2] False by blast
  qed
qed simp

definition sample_reader :: reader where
  "sample_reader = \<lparr>wait_for_request_quit = False, cm_recv_buf = sample_indication,
     rthr = qmi_thread_init\<lparr>s_pRequest := Some sample_request, cond_waiting := True\<rparr>\<rparr>"

theorem wwan_exit_releases_sender_witness:
  "\<exists>rd'. QmiWwanThread_loop (\<lambda>n. True) False [PollReady False None False (Some sample_indication), PollError]
           sample_reader = Some (True, rd') \<and> released (rthr rd')"
proof -
  have "\<exists>rd'. QmiWwanThread_loop (\<lambda>n. True) False [PollReady False None False (Some sample_indication), PollError]
           sample_reader = Some (True, rd')"
    by (simp add: wwan_device_in_def wwan_quit_def sample_reader_def sample_simps wr_def rd16_def rd8_def le16_def
        QmiThreadRecvQMI_def is_response_def unsol_event_def qmi_thread_init_def qmidevice_send_event_to_main_def
        QMINAS_SERVING_SYSTEM_IND_def)
  then obtain rd' where r: "QmiWwanThread_loop (\<lambda>n. True) False
      [PollReady False None False (Some sample_indication), PollError] sample_reader = Some (True, rd')" ..
  have "sender_ok (rthr sample_reader)" by (simp add: sender_ok_def sample_reader_def)
  from wwan_exit_releases_sender [OF r this] r show ?thesis by blast
qed

lemma gobi_quit_releases: "gobi_quit alloc rd = Some rd' \<Longrightarrow> sender_ok (rthr rd) \<Longrightarrow> released (rthr rd')"
  by (auto simp: gobi_quit_def bind_eq_Some_conv intro: recv_None_releases)

lemma gobi_quit_closes:
  assumes "gobi_quit alloc rd = Some rd'"
  shows "\<forall>i\<in>set (gobi_ids (gobi_st rd')). i = 0"
    and "gobi_closed (gobi_st rd') = gobi_closed (gobi_st rd) @ filter (\<lambda>i. i \<noteq> 0) (gobi_ids (gobi_st rd))"
  using assms by (auto simp: gobi_quit_def bind_eq_Some_conv GobiNetDeInit_def)

lemma gobi_device_in_ok: "gobi_device_in alloc fd bs rd = Some rd' \<Longrightarrow> sender_ok (rthr rd) \<Longrightarrow> sender_ok (rthr rd')"
  by (auto simp: gobi_device_in_def bind_eq_Some_conv Let_def intro: recv_sender_ok)

lemma gobi_devices_ok:
  "gobi_devices alloc ds rd = Some (q, rd') \<Longrightarrow> sender_ok (rthr rd) \<Longrightarrow> sender_ok (rthr rd')"
  by (induction alloc ds rd rule: gobi_devices.induct)
     (auto simp: bind_eq_Some_conv split: if_splits option.splits dest: gobi_device_in_ok)

text \<open>The same for the GobiNet back end; besides, no descriptor stays open when its reader thread
  exits.\<close>

theorem gobi_exit_releases_sender:
  assumes "GobiNetThread_loop alloc rounds rd = Some (True, rd')" and "sender_ok (rthr rd)"
  shows "released (rthr rd') \<and> (\<forall>i\<in>set (gobi_ids (gobi_st rd')). i = 0)"
  using assms
proof (induction alloc rounds rd rule: GobiNetThread_loop.induct)
  case (2 alloc rs rd)
  then show ?case
    by (auto simp: bind_eq_Some_conv split: if_splits intro: gobi_quit_releases recv_sender_ok
        dest: gobi_quit_closes(1))
next
  case (3 alloc rs rd)
  then show ?case by (auto simp: bind_eq_Some_conv intro: gobi_quit_releases dest: gobi_quit_closes(1))
next
  case (4 alloc err ev ds rs rd)
  let ?rd = "if ev = Some (Some SIG_EVENT_STOP_REQ) then rd\<lparr>wait_for_request_quit := True\<rparr> else rd"
  have ok: "sender_ok (rthr ?rd)" using 4(3) by simp
  show ?case
  proof (cases "err \<or> ev = Some (Some RIL_REQUEST_QUIT)")
    case True
    then show ?thesis
      using 4(2,3) by (auto simp: bind_eq_Some_conv intro: gobi_quit_releases dest: gobi_quit_closes(1))
  next
    case False
    with 4(2) obtain q rd1 where r1: "gobi_devices alloc ds ?rd = Some (q, rd1)"
      and r2: "(if q then do { rd \<leftarrow> gobi_quit alloc rd1; Some (True, rd) } else GobiNetThread_loop alloc rs rd1) = Some (True, rd')"
      by (auto simp: bind_eq_Some_conv Let_def)
    have ok1: "sender_ok (rthr rd1)" by (rule gobi_devices_ok [OF r1 ok])
    show ?thesis
    proof (cases q)
      case True
      then show ?thesis
        using r2 ok1 by (auto simp: bind_eq_Some_conv intro: gobi_quit_releases dest: gobi_quit_closes(1))
    next
      case False
      then show ?thesis
        using 4(1) [OF _ refl r1 refl False _ ok1] \<open>\<not> (err \<or> ev = Some (Some RIL_REQUEST_QUIT))\<close> r2 by simp
    qed
  qed
qed simp

definition sample_gobi_reader :: gobi_reader where
  "sample_gobi_reader = \<lparr>wait_for_request_quit = False, cm_recv_buf = replicate 32 0,
     rthr = qmi_thread_init\<lparr>s_pRequest := Some sample_request, cond_waiting := True\<rparr>,
     gobi_st = \<lparr>gobi_ids = [0, 4, 5], gobi_calls = 2, gobi_closed = []\<rparr>\<rparr>"

theorem gobi_exit_releases_sender_witness:
  "\<exists>rd'. GobiNetThread_loop (\<lambda>n. True) [GobiReady False (Some None) [(4, True, None)]] sample_gobi_reader
           = Some (True, rd') \<and> released (rthr rd') \<and> gobi_ids (gobi_st rd') = [0, 0, 0]"
proof -
  obtain rd' where r: "GobiNetThread_loop (\<lambda>n. True) [GobiReady False (Some None) [(4, True, None)]] sample_gobi_reader
      = Some (True, rd')" and i: "gobi_ids (gobi_st rd') = [0, 0, 0]"
    by (simp add: gobi_quit_def sample_gobi_reader_def QmiThreadRecvQMI_def GobiNetDeInit_def qmidevice_send_event_to_main_def
        pthread_cond_signal_def)
  have "sender_ok (rthr sample_gobi_reader)" by (simp add: sender_ok_def sample_gobi_reader_def)
  from gobi_exit_releases_sender [OF r this] r i show ?thesis by blast
qed

subsection \<open>Opening GobiNet descriptors\<close>

lemma gobi_open_fails:
  assumes "\<And>k. fst (os k) = - 1"
  shows "gobi_ids (gobi_open os slot ty g) = (gobi_ids g)[unat slot := - 1]"
  using assms [of "gobi_calls g"]
  by (cases "os (gobi_calls g)") (simp add: gobi_open_def GobiNetGetClientID_def Let_def)

lemma gobi_clients_fail:
  assumes "\<And>k. fst (os k) = - 1" and "gobi_ids g = replicate 255 0"
  shows "gobi_ids (snd (gobi_clients os profile g)) ! 1 = - 1" and "length (gobi_ids (snd (gobi_clients os profile g))) = 255"
  using assms(2) by (simp_all add: gobi_clients_def gobi_open_fails [OF assms(1)] Let_def)

text \<open>The GobiNet thread does not notice that the device cannot be opened: \<^verbatim>\<open>GobiNetGetClientID\<close>
  returns -1 then, but the thread compares with 0, so it reports a connected device and enters its
  loop, while every request for the service is refused with \<^verbatim>\<open>-ENODEV\<close>.\<close>

theorem gobi_open_failure_unnoticed:
  assumes "\<And>k. fst (os k) = - 1" and "gobi_ids (gobi_st rd) = replicate 255 0"
    and "rd8 r 4 = Some QMUX_TYPE_WDS" and "6 \<le> length r"
  shows "\<exists>profile' rd' r'. GobiNetThread alloc os [] profile rd = Some (False, profile', rd') \<and>
           last (main_events (rthr rd')) = RIL_INDICATE_DEVICE_CONNECTED \<and>
           GobiNetSendQMI (gobi_ids (gobi_st rd')) wres r = Some (- ENODEV, r', None)"
proof -
  obtain profile' g where c: "gobi_clients os profile (gobi_st rd) = (profile', g)" by fastforce
  have i: "gobi_ids g ! 1 = - 1" and l: "length (gobi_ids g) = 255"
    using gobi_clients_fail [of os "gobi_st rd" profile] assms(1,2) by (simp_all add: c)
  obtain r' where "wr r 5 [gobi_client_byte (- 1) QMUX_TYPE_WDS] = Some r'"
    using assms(4) by (simp add: wr_def)
  then have "GobiNetSendQMI (gobi_ids g) wres r = Some (- ENODEV, r', None)"
    using i l by (simp add: GobiNetSendQMI_def assms(3))
  then show ?thesis
    using i by (simp add: GobiNetThread_def c qmidevice_send_event_to_main_def)
qed

theorem gobi_open_failure_unnoticed_witness:
  "\<exists>profile' rd' r'. GobiNetThread (\<lambda>n. True) (\<lambda>k. (- 1, 0)) [] s_profile
        (sample_gobi_reader\<lparr>gobi_st := gobi_init\<rparr>) = Some (False, profile', rd') \<and>
      last (main_events (rthr rd')) = RIL_INDICATE_DEVICE_CONNECTED \<and>
      GobiNetSendQMI (gobi_ids (gobi_st rd')) (\<lambda>fd bs. 0) (qmux_frame 1 0 0 7 0x22 []) = Some (- ENODEV, r', None)"
  by (rule gobi_open_failure_unnoticed) (simp_all add: gobi_init_def qmux_frame_def bytes16_def rd8_def)

subsection \<open>Releasing client ids\<close>

text \<open>The client ids that are released, in the order of the table; the IPv6 instance is a WDS client.\<close>

definition held_clients :: "byte list \<Rightarrow> (byte \<times> byte) list" where
  "held_clients ids = map (\<lambda>i. (if of_nat i = QMUX_TYPE_WDS_IPV6 then QMUX_TYPE_WDS else of_nat i, ids ! i))
                        (filter (\<lambda>i. ids ! i \<noteq> 0) [0..<length ids])"

definition ctl_frame :: "byte \<Rightarrow> u16 \<Rightarrow> tlv list \<Rightarrow> buf" where
  "ctl_frame tid ty ts = [0x01] @ bytes16 (of_nat (11 + length (tlvs_bytes ts))) @ [0x00, QMUX_TYPE_CTL, 0x00, 0x00, tid]
     @ bytes16 ty @ bytes16 (of_nat (length (tlvs_bytes ts))) @ tlvs_bytes ts"

text \<open>The stores of \<^verbatim>\<open>ComposeQCTLMsg\<close> that do not depend on the builder.\<close>

definition ctl_header :: "buf \<Rightarrow> byte \<Rightarrow> u16 \<Rightarrow> (buf \<Rightarrow> 'a access) \<Rightarrow> 'a access" where
  "ctl_header junk tid ty f = do {
     b \<leftarrow> wr junk 0 [0x01]; b \<leftarrow> wr b 3 [0x00]; b \<leftarrow> wr b 4 [QMUX_TYPE_CTL]; b \<leftarrow> wr b 5 [0x00];
     b \<leftarrow> wr b 6 [0x00]; b \<leftarrow> wr b 7 [tid]; b \<leftarrow> wr b 8 (bytes16 ty); f b }"

lemma length_12_conv:
  "length xs = 12 \<Longrightarrow> \<exists>a b c d e f g h i j k l. xs = [a, b, c, d, e, f, g, h, i, j, k, l]"
  by (auto simp: numeral_eq_Suc length_Suc_conv)

lemma ctl_header_stores:
  assumes "length junk = 256"
  shows "\<exists>j1 j2 j10 j11 q. length q = 244 \<and> (\<forall>f. ctl_header junk tid ty f
           = f ([0x01, j1, j2, 0x00, QMUX_TYPE_CTL, 0x00, 0x00, tid] @ bytes16 ty @ [j10, j11] @ q))"
proof -
  have "length (take 12 junk) = 12" using assms by simp
  from length_12_conv [OF this] obtain j0 j1 j2 j3 j4 j5 j6 j7 j8 j9 j10 j11 where
    "take 12 junk = [j0, j1, j2, j3, j4, j5, j6, j7, j8, j9, j10, j11]"
    by (elim exE) (rule that, assumption)
  then have j: "junk = [j0, j1, j2, j3, j4, j5, j6, j7, j8, j9, j10, j11] @ drop 12 junk"
    by (metis append_take_drop_id)
  show ?thesis
    by (rule exI [of _ j1], rule exI [of _ j2], rule exI [of _ j10], rule exI [of _ j11], rule exI [of _ "drop 12 junk"],
        intro conjI allI, simp add: assms, subst j)
       (simp add: ctl_header_def wr_append_left wr_def bytes16_def del: append_Cons append_Nil, simp)
qed

lemma ComposeQCTLMsg_header:
  "ComposeQCTLMsg alloc junk ty custom t =
     (let (tid, t') = GetQCTLTransactionId t in
      ctl_header junk tid ty (\<lambda>b. do {
        b \<leftarrow> (case custom of
               Some f \<Rightarrow> do { (b, n) \<leftarrow> f b; wr b 10 (bytes16 (n - 6)) }
             | None \<Rightarrow> wr b 10 (bytes16 0));
        mlen \<leftarrow> rd16 b 10;
        let qlen = mlen + 6 + 6 - 1;
        b \<leftarrow> wr b 1 (bytes16 qlen);
        let len = unat qlen + 1;
        if alloc len then do { m \<leftarrow> rdn b 0 len; Some (Some m, t') } else Some (None, t') }))"
  by (simp add: ComposeQCTLMsg_def ctl_header_def split: prod.splits)

lemma diff_add_cancel_six: "(6 :: u16) + x - 6 = x"
  by simp

text \<open>The contract of a builder of control requests; what the buffer held before does not show.\<close>

locale qctl_builder =
  fixes custom :: builder and blocks :: "tlv list" and fits :: bool
  assumes stores: "fits \<Longrightarrow> custom b = Option.bind (wr b 12 (tlvs_bytes blocks))
                                         (\<lambda>b. Some (b, 6 + of_nat (length (tlvs_bytes blocks))))"
    and size: "fits \<Longrightarrow> 12 + length (tlvs_bytes blocks) \<le> WDM_DEFAULT_BUFSIZE"
begin

lemma compose:
  assumes "fits" and "length junk = WDM_DEFAULT_BUFSIZE" and "GetQCTLTransactionId t = (tid, t')"
  shows "ComposeQCTLMsg alloc junk ty (Some custom) t =
         Some (if alloc (12 + length (tlvs_bytes blocks)) then Some (ctl_frame tid ty blocks) else None, t')"
proof -
  let ?T = "tlvs_bytes blocks"
  let ?l = "of_nat (length ?T) :: u16"
  have n: "length ?T \<le> 244" and lj: "length junk = 256"
    using size [OF assms(1)] assms(2) by (simp_all add: WDM_DEFAULT_BUFSIZE_def)
  obtain j1 j2 j10 j11 q where q: "length q = 244"
    and hdr: "\<And>f :: buf \<Rightarrow> (buf option \<times> int) access. ctl_header junk tid ty f = f ([0x01, j1, j2, 0x00, QMUX_TYPE_CTL, 0x00, 0x00, tid] @ bytes16 ty @ [j10, j11] @ q)"
    using ctl_header_stores [OF lj, of tid ty] by (elim exE conjE) (rule that, assumption, drule spec, assumption)
  define r where "r = drop (length ?T) q"
  let ?h = "[0x01, j1, j2, 0x00, QMUX_TYPE_CTL, 0x00, 0x00, tid] @ bytes16 ty"
  have cust: "custom (?h @ [j10, j11] @ q) = Some (?h @ [j10, j11] @ ?T @ r, 6 + ?l)"
    using n q wr_behind [of "?h @ [j10, j11]" 12 q 0 ?T] by (simp add: stores [OF assms(1)] wr_def [of q] r_def)
  have w10: "wr (?h @ [j10, j11] @ ?T @ r) 10 (bytes16 ?l) = Some (?h @ bytes16 ?l @ ?T @ r)"
    by (simp add: wr_def bytes16_def)
  have rd: "rd16 (?h @ bytes16 ?l @ ?T @ r) 10 = Some ?l"
    using rd16_append_right [of ?h 10 "bytes16 ?l @ ?T @ r"] by simp
  have ql: "unat (?l + 6 + 6 - 1) = 11 + length ?T" and qn: "?l + 6 + 6 - 1 = of_nat (11 + length ?T)"
    using n by (simp_all add: unat_word_ariths unat_of_nat_u16)
  have w1: "wr (?h @ bytes16 ?l @ ?T @ r) 1 (bytes16 (?l + 6 + 6 - 1)) = Some (ctl_frame tid ty blocks @ r)"
    unfolding qn by (simp add: wr_def ctl_frame_def bytes16_def numeral_3_eq_3)
  have len: "11 + length ?T + 1 = length (ctl_frame tid ty blocks)"
    by (simp add: ctl_frame_def)
  have rdm: "rdn (ctl_frame tid ty blocks @ r) 0 (11 + length ?T + 1) = Some (ctl_frame tid ty blocks)"
    unfolding len by (rule rdn_prefix)
  define F where "F = (\<lambda>b. do {
        b \<leftarrow> do { (b, n) \<leftarrow> custom b; wr b 10 (bytes16 (n - 6)) };
        mlen \<leftarrow> rd16 b 10;
        let qlen = mlen + 6 + 6 - 1;
        b \<leftarrow> wr b 1 (bytes16 qlen);
        let len = unat qlen + 1;
        if alloc len then do { m \<leftarrow> rdn b 0 len; Some (Some m, t') } else Some (None, t') })"
  have "ComposeQCTLMsg alloc junk ty (Some custom) t = ctl_header junk tid ty F"
    by (simp add: ComposeQCTLMsg_header assms(3) F_def)
  also have "\<dots> = F (?h @ [j10, j11] @ q)"
    unfolding hdr by simp
  also have "\<dots> = Some (if alloc (12 + length ?T) then Some (ctl_frame tid ty blocks) else None, t')"
    unfolding F_def cust Option.bind.simps prod.case diff_add_cancel_six w10 rd Let_def w1 ql rdm by simp
  finally show ?thesis .
qed

end


interpretation release_client: qctl_builder "CtlReleaseClientIdReq ty cid" "[mk_tlv 0x01 [ty, cid]]" True for ty cid
  by unfold_locales
     (simp_all add: CtlReleaseClientIdReq_def wr_merge tlv_bytes_def WDM_DEFAULT_BUFSIZE_def)

interpretation get_client: qctl_builder "CtlGetClientIdReq ty" "[mk_tlv 0x01 [ty]]" True for ty
  by unfold_locales
     (simp_all add: CtlGetClientIdReq_def wr_merge tlv_bytes_def WDM_DEFAULT_BUFSIZE_def)

interpretation get_version: qctl_builder CtlGetVersionReq "[mk_tlv 0x01 [QMUX_TYPE_ALL]]" True
  by unfold_locales
     (simp_all add: CtlGetVersionReq_def wr_merge tlv_bytes_def WDM_DEFAULT_BUFSIZE_def)

interpretation proxy_open: qctl_builder "CtlLibQmiProxyOpenReq path" "[mk_tlv 0x01 path]" "length path \<le> 241" for path
  by unfold_locales
     (simp_all add: CtlLibQmiProxyOpenReq_def wr_merge tlv_bytes_def WDM_DEFAULT_BUFSIZE_def)

lemma release_transact:
  assumes "\<And>n. alloc n" and "\<And>k. length (junk k) = WDM_DEFAULT_BUFSIZE" and "GetQCTLTransactionId (ctl_tid w) = (tid, t')"
  shows "QmiWwanReleaseClientID alloc junk send ty cid w =
         Some (w\<lparr>ctl_tid := t', ctl_sent := ctl_sent w @ [ctl_frame tid QMICTL_RELEASE_CLIENT_ID_REQ [mk_tlv 0x01 [ty, cid]]]\<rparr>)"
  unfolding QmiWwanReleaseClientID_def ctl_transact_def release_client.compose [OF TrueI assms(2,3)]
  using assms(1) by (simp add: Let_def split: prod.splits)

text \<open>\<open>releases t cs\<close> are the RELEASE requests for the clients \<open>cs\<close> with the identifiers after \<open>t\<close>.\<close>

fun releases :: "int \<Rightarrow> (byte \<times> byte) list \<Rightarrow> buf list" where
  "releases t [] = []"
| "releases t (c # cs) = ctl_frame (fst (GetQCTLTransactionId t)) QMICTL_RELEASE_CLIENT_ID_REQ [mk_tlv 0x01 [fst c, snd c]]
     # releases (snd (GetQCTLTransactionId t)) cs"

definition release_of :: "byte list \<Rightarrow> nat \<Rightarrow> byte \<times> byte" where
  "release_of ids i = (if of_nat i = QMUX_TYPE_WDS_IPV6 then QMUX_TYPE_WDS else of_nat i, ids ! i)"

lemma held_clients_alt: "held_clients ids = map (release_of ids) (filter (\<lambda>i. ids ! i \<noteq> 0) [0..<length ids])"
  by (simp add: held_clients_def release_of_def)

lemma deinit_loop_releases:
  assumes "\<And>n. alloc n" and "\<And>k. length (junk k) = WDM_DEFAULT_BUFSIZE" and "distinct is"
    and "\<forall>i\<in>set is. i < length (qmiclientId w)"
  shows "\<exists>t. deinit_loop alloc junk send is w =
     Some (w\<lparr>ctl_tid := t,
             qmiclientId := fold (\<lambda>i ids. ids[i := 0]) is (qmiclientId w),
             ctl_sent := ctl_sent w @ releases (ctl_tid w) (map (release_of (qmiclientId w)) (filter (\<lambda>i. qmiclientId w ! i \<noteq> 0) is))\<rparr>)"
  using assms(3,4)
proof (induction "is" arbitrary: w)
  case Nil
  have "w\<lparr>ctl_tid := ctl_tid w, qmiclientId := qmiclientId w, ctl_sent := ctl_sent w\<rparr> = w" by (cases w) simp
  then show ?case by (auto intro: exI [of _ "ctl_tid w"])
next
  case (Cons i "is")
  obtain tid t' where t: "GetQCTLTransactionId (ctl_tid w) = (tid, t')" by fastforce
  let ?ids = "qmiclientId w"
  have same: "map (release_of (?ids[i := 0])) (filter (\<lambda>j. ?ids[i := 0] ! j \<noteq> 0) is)
            = map (release_of ?ids) (filter (\<lambda>j. ?ids ! j \<noteq> 0) is)"
  proof -
    have "?ids[i := 0] ! j = ?ids ! j" if "j \<in> set is" for j
      using that Cons.prems(1) by (auto intro!: nth_list_update_neq)
    then have "filter (\<lambda>j. ?ids[i := 0] ! j \<noteq> 0) is = filter (\<lambda>j. ?ids ! j \<noteq> 0) is"
      by (auto intro: filter_cong)
    with \<open>\<And>j. j \<in> set is \<Longrightarrow> ?ids[i := 0] ! j = ?ids ! j\<close> show ?thesis by (simp add: release_of_def)
  qed
  show ?case
  proof (cases "?ids ! i = 0")
    case True
    then have "?ids[i := 0] = ?ids" by (metis list_update_id)
    with True Cons show ?thesis by simp
  next
    case False
    let ?w = "w\<lparr>ctl_tid := t', ctl_sent := ctl_sent w @ [ctl_frame tid QMICTL_RELEASE_CLIENT_ID_REQ
                  [mk_tlv 0x01 [fst (release_of ?ids i), snd (release_of ?ids i)]]], qmiclientId := ?ids[i := 0]\<rparr>"
    have "deinit_loop alloc junk send (i # is) w = deinit_loop alloc junk send is ?w"
      using False by (simp add: release_transact [OF assms(1,2) t] release_of_def)
    moreover obtain t2 where "deinit_loop alloc junk send is ?w =
        Some (?w\<lparr>ctl_tid := t2, qmiclientId := fold (\<lambda>i ids. ids[i := 0]) is (qmiclientId ?w),
           ctl_sent := ctl_sent ?w @ releases (ctl_tid ?w)
             (map (release_of (qmiclientId ?w)) (filter (\<lambda>i. qmiclientId ?w ! i \<noteq> 0) is))\<rparr>)"
      using Cons.IH [of ?w] Cons.prems by auto
    ultimately show ?thesis
      using False t same by auto
  qed
qed

lemma fold_clear: "fold (\<lambda>i ids. ids[i := 0]) [0..<n] ids = replicate (min n (length ids)) 0 @ drop n (ids :: byte list)"
proof (induction n)
  case (Suc n)
  show ?case
  proof (cases "n < length ids")
    case True
    then have "drop n ids = ids ! n # drop (Suc n) ids" by (rule Cons_nth_drop_Suc [symmetric])
    with True Suc show ?thesis by (simp add: list_update_append min_def replicate_app_Cons_same)
  next
    case False
    with Suc show ?thesis by (simp add: min_def list_update_beyond)
  qed
qed simp

text \<open>\<^verbatim>\<open>QmiWwanDeInit\<close> gives back what was allocated: it sends one RELEASE request per client id that is
  held, in the order of the table, with the service and the id of the client (the IPv6 instance of
  WDS as WDS), and no id is held afterwards. The contents of the stack do not show in the requests.\<close>

theorem wwan_deinit_releases_all:
  assumes "\<And>n. alloc n" and "\<And>k. length (junk k) = WDM_DEFAULT_BUFSIZE"
  shows "\<exists>t. QmiWwanDeInit alloc junk send w =
     Some (w\<lparr>ctl_tid := t, qmiclientId := replicate (length (qmiclientId w)) 0,
             ctl_sent := ctl_sent w @ releases (ctl_tid w) (held_clients (qmiclientId w))\<rparr>)"
  using deinit_loop_releases [of alloc junk "[0..<length (qmiclientId w)]" w send] assms
  by (simp add: QmiWwanDeInit_def held_clients_alt fold_clear)

theorem wwan_deinit_releases_all_witness:
  "\<exists>t. QmiWwanDeInit (\<lambda>n. True) (\<lambda>k. replicate 256 0xAA) (\<lambda>h. (0, None)) (wwan_init\<lparr>qmiclientId := [0, 5, 0, 7]\<rparr>) =
     Some (wwan_init\<lparr>ctl_tid := t, qmiclientId := [0, 0, 0, 0],
       ctl_sent := [ctl_frame 1 0x23 [mk_tlv 1 [1, 5]], ctl_frame 2 0x23 [mk_tlv 1 [3, 7]]]\<rparr>)"
proof -
  have held: "held_clients [0, 5, 0, 7] = [(1, 5), (3, 7)]" by code_simp
  have "replicate 4 0 = [0, 0, 0, 0 :: byte]" by (simp add: numeral_eq_Suc)
  then show ?thesis
    using wwan_deinit_releases_all [of "\<lambda>n. True" "\<lambda>k. replicate 256 0xAA" "\<lambda>h. (0, None)" "wwan_init\<lparr>qmiclientId := [0, 5, 0, 7]\<rparr>"]
    by (simp add: WDM_DEFAULT_BUFSIZE_def wwan_init_def held GetQCTLTransactionId_def)
qed

end
