(* ===== verification/Conn_Qmi.thy ===== *)
theory Conn_Qmi
  imports Conn_Invariant Qmi_Device
begin

text \<open>
  The connection manager on a QMI modem: the tables \<^verbatim>\<open>qmi_request_ops\<close> of \<^verbatim>\<open>QMIThread.c\<close> and
  \<^verbatim>\<open>qmiwwan_qmidev_ops\<close> of \<^verbatim>\<open>QmiWwanCM.c\<close> as tables of the manager, the proof that they
  meet its contract.
\<close>

record qmi_modem =
  requests :: qmi_env
  device :: wwan

definition on_requests :: "(qmi_env \<Rightarrow> (int \<times> qmi_env) access) \<Rightarrow> qmi_modem op" where
  "on_requests f m = do { (e, r) \<leftarrow> f (requests m); Some (e, m\<lparr>requests := r\<rparr>) }"

definition on_requests2 :: "(qmi_env \<Rightarrow> (int \<times> 'a \<times> qmi_env) access) \<Rightarrow> qmi_modem \<Rightarrow> (int \<times> 'a \<times> qmi_modem) access" where
  "on_requests2 f m = do { (e, x, r) \<leftarrow> f (requests m); Some (e, x, m\<lparr>requests := r\<rparr>) }"

definition qmi_request_table :: "(nat \<Rightarrow> bool) \<Rightarrow> transport \<Rightarrow> nat \<Rightarrow> qmi_modem request_table" where
  "qmi_request_table alloc send fuel =
     \<lparr>op_BaseBandVersion = Some (\<lambda>p. on_requests2 (requestBaseBandVersion alloc send p)),
      op_SetEthMode = Some (\<lambda>p. on_requests2 (requestSetEthMode alloc send p)),
      op_SetLoopBackState = Some (\<lambda>st factor. on_requests (requestSetLoopBackState alloc send st factor)),
      op_GetSIMStatus = Some (\<lambda>s. on_requests2 (requestGetSIMStatus alloc send s)),
      op_EnterSimPin = Some (\<lambda>pin. on_requests (requestEnterSimPin alloc send pin)),
      op_SetProfile = Some (\<lambda>p m. do { (e, m) \<leftarrow> on_requests (requestSetProfile alloc send p) m; Some (e, p, m) }),
      op_GetProfile = Some (\<lambda>p m. do {
          r \<leftarrow> requestGetProfile alloc send fuel p (requests m);
          Some (map_option (\<lambda>(e, p, r). (e, p, m\<lparr>requests := r\<rparr>)) r) }),
      op_RegistrationState = (\<lambda>s m. do {
          (e, s, info, r) \<leftarrow> requestRegistrationState alloc send s (requests m);
          Some (e, s, m\<lparr>requests := r\<rparr>) }),
      op_SetupDataCall = (\<lambda>p family. on_requests2 (requestSetupDataCall alloc send p family)),
      op_QueryDataCall = (\<lambda>s family. on_requests2 (requestQueryDataCall alloc send s family)),
      op_DeactivateDefaultPDP = (\<lambda>p family m. do {
          (e, m) \<leftarrow> on_requests (requestDeactivateDefaultPDP alloc send family) m; Some (e, p, m) }),
      op_GetIPAddress = (\<lambda>p family. on_requests2 (requestGetIPAddress alloc send p family)),
      op_GetSignalInfo = None, op_GetCellInfoList = None, op_GetICCID = None, op_GetIMSI = None,
      op_GetCoexWWANState = None, op_SimHotplug = None, op_RebootModem = None\<rparr>"

definition qmiwwan_device_table ::
  "(nat \<Rightarrow> bool) \<Rightarrow> (nat \<Rightarrow> buf) \<Rightarrow> transport \<Rightarrow> qmi_modem device_table" where
  "qmiwwan_device_table alloc junk ctl =
     \<lparr>dev_init = Some (\<lambda>p m. do { (e, p, w) \<leftarrow> QmiWwanInit alloc junk ctl p (device m); Some (e, p, m\<lparr>device := w\<rparr>) }),
      dev_deinit = Some (\<lambda>m. do { w \<leftarrow> QmiWwanDeInit alloc junk ctl (device m); Some (0, m\<lparr>device := w\<rparr>) })\<rparr>"

lemma qmi_request_table_simps [simp]:
  "op_BaseBandVersion (qmi_request_table alloc send fuel) = Some (\<lambda>p. on_requests2 (requestBaseBandVersion alloc send p))"
  "op_SetEthMode (qmi_request_table alloc send fuel) = Some (\<lambda>p. on_requests2 (requestSetEthMode alloc send p))"
  "op_SetLoopBackState (qmi_request_table alloc send fuel)
     = Some (\<lambda>st factor. on_requests (requestSetLoopBackState alloc send st factor))"
  "op_GetSIMStatus (qmi_request_table alloc send fuel) = Some (\<lambda>s. on_requests2 (requestGetSIMStatus alloc send s))"
  "op_EnterSimPin (qmi_request_table alloc send fuel) = Some (\<lambda>pin. on_requests (requestEnterSimPin alloc send pin))"
  "op_SetupDataCall (qmi_request_table alloc send fuel) = (\<lambda>p family. on_requests2 (requestSetupDataCall alloc send p family))"
  "op_QueryDataCall (qmi_request_table alloc send fuel) = (\<lambda>s family. on_requests2 (requestQueryDataCall alloc send s family))"
  "op_GetIPAddress (qmi_request_table alloc send fuel) = (\<lambda>p family. on_requests2 (requestGetIPAddress alloc send p family))"
  "op_GetSignalInfo (qmi_request_table alloc send fuel) = None" "op_GetCellInfoList (qmi_request_table alloc send fuel) = None"
  "op_GetICCID (qmi_request_table alloc send fuel) = None" "op_GetIMSI (qmi_request_table alloc send fuel) = None"
  "op_GetCoexWWANState (qmi_request_table alloc send fuel) = None" "op_SimHotplug (qmi_request_table alloc send fuel) = None"
  "op_RebootModem (qmi_request_table alloc send fuel) = None"
  by (simp_all add: qmi_request_table_def)

lemma qmi_registration_op:
  "op_RegistrationState (qmi_request_table alloc send fuel) s m =
     do { (e, s, info, r) \<leftarrow> requestRegistrationState alloc send s (requests m); Some (e, s, m\<lparr>requests := r\<rparr>) }"
  by (simp add: qmi_request_table_def)

lemma qmi_deactivate_op:
  "op_DeactivateDefaultPDP (qmi_request_table alloc send fuel) p family m =
     do { (e, m) \<leftarrow> on_requests (requestDeactivateDefaultPDP alloc send family) m; Some (e, p, m) }"
  by (simp add: qmi_request_table_def)

subsection \<open>The handlers keep the mode of the profile\<close>

lemma same_mode_updates2 [simp]:
  "same_mode p (q\<lparr>rawIP := i\<rparr>) = same_mode p q" "same_mode p (q\<lparr>prof_qmap_version := i\<rparr>) = same_mode p q"
  "same_mode p (q\<lparr>PCSCFIpv4Addr1 := w\<rparr>) = same_mode p q" "same_mode p (q\<lparr>PCSCFIpv4Addr2 := w\<rparr>) = same_mode p q"
  "same_mode p (q\<lparr>PCSCFIpv6Addr1 := b\<rparr>) = same_mode p q" "same_mode p (q\<lparr>PCSCFIpv6Addr2 := b\<rparr>) = same_mode p q"
  "same_mode p (q\<lparr>wda_client := i\<rparr>) = same_mode p q" "same_mode p (q\<lparr>qmap_mode := i\<rparr>) = same_mode p q"
  by (simp_all add: same_mode_def)

lemma on_requests2_mode:
  assumes "\<And>r. pred_option (\<lambda>(e, q, r). same_mode p q) (f r)"
  shows "pred_option (\<lambda>(e, q, m). same_mode p q) (on_requests2 f m)"
  unfolding on_requests2_def by (rule pred_option_bindI [OF assms]) auto

lemmas mode_intros = pred_option_bind_any

lemma pred_option_if:
  "(b \<Longrightarrow> pred_option P x) \<Longrightarrow> (\<not> b \<Longrightarrow> pred_option P y) \<Longrightarrow> pred_option P (if b then x else y)"
  by simp

lemma setup_keeps_mode: "pred_option (\<lambda>(e, q, r). same_mode p q) (requestSetupDataCall alloc send p family r)"
  unfolding requestSetupDataCall_def Let_def
  by (auto intro!: mode_intros split: option.split prod.split)

lemma version_keeps_mode: "pred_option (\<lambda>(e, q, r). same_mode p q) (requestBaseBandVersion alloc send p r)"
  unfolding requestBaseBandVersion_def
  by (auto intro!: mode_intros split: option.split prod.split sum.split)

lemma with_tlv_pred:
  "(\<And>x. pred_option P (f x)) \<Longrightarrow> pred_option (pred_option P) (with_tlv m ty f)"
  unfolding with_tlv_def
  by (auto intro!: mode_intros split: option.split simp: option.pred_map comp_def)

lemma pcscf_keeps_mode: "pred_option (same_mode p) (pcscf_settings m p)"
proof -
  have six: "pred_option (pred_option (same_mode p)) (with_tlv m 0x2e (\<lambda>i. do {
            n \<leftarrow> rd8 m (i + 3);
            if n = 1 then do { a \<leftarrow> rdn m (i + 4) 16; Some (p\<lparr>PCSCFIpv6Addr1 := a\<rparr>) }
            else if n = 2 then do { a \<leftarrow> rdn m (i + 4) 16; b \<leftarrow> rdn m (i + 20) 16;
                                    Some (p\<lparr>PCSCFIpv6Addr1 := a, PCSCFIpv6Addr2 := b\<rparr>) }
            else Some p }))"
    by (rule with_tlv_pred) (auto intro!: mode_intros)
  have four: "pred_option (pred_option (same_mode p)) (with_tlv m 0x23 (\<lambda>i. do {
            n \<leftarrow> rd8 m (i + 3);
            if n = 1 then do { a \<leftarrow> rd32 m (i + 4); Some (q\<lparr>PCSCFIpv4Addr1 := a\<rparr>) }
            else if n = 2 then do { a \<leftarrow> rd32 m (i + 4); b \<leftarrow> rd32 m (i + 8);
                                    Some (q\<lparr>PCSCFIpv4Addr1 := a, PCSCFIpv4Addr2 := b\<rparr>) }
            else Some q }))" if "same_mode p q" for q
    by (rule with_tlv_pred) (auto intro!: mode_intros simp: that)
  show ?thesis
    unfolding pcscf_settings_def Let_def
    by (rule pred_option_bindI [OF six], rule pred_option_bindI [OF four]) (auto split: option.splits)
qed

lemma rsp_check_mode:
  assumes "\<And>e. same_mode p (q e)" "\<And>m r. pred_option (\<lambda>(e, q, r). same_mode p q) (g m r)"
  shows "pred_option (\<lambda>(e, q, r). same_mode p q)
           (do { (err, rsp, r) \<leftarrow> x; c \<leftarrow> qmi_rsp_check_and_return err rsp;
                 (case c of Inl e \<Rightarrow> Some (e, q e, r) | Inr m \<Rightarrow> g m r) })"
  by (auto intro!: mode_intros assms split: sum.split prod.split)

lemma address_keeps_mode: "pred_option (\<lambda>(e, q, r). same_mode p q) (requestGetIPAddress alloc send p family r)"
proof -
  have rest: "pred_option (\<lambda>(e, q, r). same_mode p q) (do {
                q \<leftarrow> pcscf_settings m q; v4 \<leftarrow> ipv4_settings m (ipv4 q); v6 \<leftarrow> ipv6_settings m (ipv6 q);
                mtu \<leftarrow> with_tlv m 0x29 (\<lambda>p. rd32 m (p + 3));
                let v4 = (case mtu of None \<Rightarrow> v4 | Some x \<Rightarrow> if f = IpFamilyV4 then v4\<lparr>Mtu4 := x\<rparr> else v4);
                let v6 = (case mtu of None \<Rightarrow> v6 | Some x \<Rightarrow> if f = IpFamilyV4 then v6 else v6\<lparr>Mtu6 := x\<rparr>);
                Some (0, q\<lparr>ipv4 := v4, ipv6 := v6\<rparr>, r) })" if "same_mode p q" for m q r f
    unfolding Let_def
    by (rule pred_option_bindI [OF pcscf_keeps_mode]) (auto intro!: mode_intros intro: same_mode_trans [OF that])
  show ?thesis
    unfolding requestGetIPAddress_def Let_def
    by (auto intro!: rsp_check_mode rest [unfolded Let_def])
qed

lemma eth_settings_keep_mode: "eth_mode_settings p = (s, q, v) \<Longrightarrow> same_mode p q"
  by (auto simp: eth_mode_settings_def Let_def split: if_splits)

lemma eth_response_keeps_mode: "pred_option (\<lambda>(s, q, r). same_mode p q) (eth_mode_response m s p r)"
  unfolding eth_mode_response_def Let_def
  by (auto intro!: mode_intros split: option.split prod.split)

lemma eth_keeps_mode: "pred_option (\<lambda>(e, q, r). same_mode p q) (requestSetEthMode alloc send p r)"
proof -
  have rest: "pred_option (\<lambda>(e, q, r). same_mode p q) (do {
      (s, q, r) \<leftarrow> eth_mode_response m s q r; (e, r) \<leftarrow> eth_mode_families alloc send s q r; Some (e, q, r) })"
    if "same_mode p q" for m s q r
    by (rule pred_option_bindI [OF eth_response_keeps_mode])
       (auto intro!: mode_intros intro: same_mode_trans [OF that])
  have fam: "pred_option (\<lambda>(e, q, r). same_mode p q) (do { (e, r) \<leftarrow> eth_mode_families alloc send s q r; Some (e, q, r) })"
    if "same_mode p q" for s q r
    using that by (auto intro!: mode_intros)
  obtain s q v where e: "eth_mode_settings p = (s, q, v)" by (cases "eth_mode_settings p")
  show ?thesis
    using eth_settings_keep_mode [OF e] unfolding requestSetEthMode_def Let_def e
    by (auto intro!: rest fam rsp_check_mode)
qed

lemma profile_settings_keep_mode: "pred_option (same_mode p) (profile_settings m p)"
  unfolding profile_settings_def Let_def
  by (auto intro!: mode_intros)

lemma profile_search_keeps_mode:
  "same_mode p q \<Longrightarrow> pred_option (\<lambda>(s, q, r). same_mode p q) (profile_search alloc send is q r)"
proof (induction "is" arbitrary: q r)
  case (Cons i "is")
  then show ?case
    unfolding profile_search.simps Let_def
    by (auto intro!: mode_intros split: sum.split)
qed simp

lemma profile_rounds_keep_mode:
  "same_mode p q \<Longrightarrow>
   pred_option (pred_option (\<lambda>(e, q, r). same_mode p q)) (requestGetProfile_rounds alloc send fuel q r)"
proof (induction fuel arbitrary: q r)
  case (Suc fuel)
  have found: "pred_option (pred_option (\<lambda>(e, q, r). same_mode p q))
      (do { q \<leftarrow> profile_settings m q'; Some (Some (0, q, r')) })" if "same_mode p q'" for m q' r'
    by (rule pred_option_bindI [OF profile_settings_keep_mode]) (auto intro: same_mode_trans [OF that])
  have body: "pred_option (pred_option (\<lambda>(e, q, r). same_mode p q))
      (do { is \<leftarrow> profile_indexs m; (s, q, r) \<leftarrow> profile_search alloc send is q r';
            (case s of Failed e \<Rightarrow> Some (Some (e, q, r)) | Recheck \<Rightarrow> requestGetProfile_rounds alloc send fuel q r
             | Found m \<Rightarrow> do { q \<leftarrow> profile_settings m q; Some (Some (0, q, r)) }) })" for m r'
    by (rule mode_intros, rule pred_option_bindI [OF profile_search_keeps_mode [OF Suc(2)]])
       (use Suc(1) in \<open>auto split: search.split intro!: found\<close>)
  show ?case
    unfolding requestGetProfile_rounds.simps
    by (rule mode_intros, unfold split_paired_all prod.case, (rule mode_intros)+)
       (simp add: body Suc(2) split: sum.split)
qed simp

lemma get_profile_keeps_mode:
  "pred_option (pred_option (\<lambda>(e, q, r). same_mode p q)) (requestGetProfile alloc send fuel p r)"
  by (auto simp: requestGetProfile_def Let_def intro!: profile_rounds_keep_mode)

lemma wwan_init_keeps_mode: "pred_option (\<lambda>(e, q, w). same_mode p q) (QmiWwanInit alloc junk ctl p w)"
proof -
  have v: "pred_option (same_mode p) (wwan_qmap_version rsp p)" for rsp
    unfolding wwan_qmap_version_def by (auto intro!: mode_intros split: option.split)
  have rest: "pred_option (\<lambda>(e, q, w). same_mode p q) (do {
      q \<leftarrow> wwan_qmap_version rsp p; w \<leftarrow> wwan_clients alloc junk ctl q w;
      Some (0, q\<lparr>wda_client := uint (qmiclientId w ! unat QMUX_TYPE_WDS_ADMIN)\<rparr>, w) })" for rsp w
    by (rule pred_option_bindI [OF v]) (auto intro!: mode_intros)
  have inner: "pred_option (\<lambda>(e, q, w). same_mode p q) (do {
      (e, rsp, w) \<leftarrow> ctl_transact alloc junk ctl QMICTL_GET_VERSION_REQ (Some CtlGetVersionReq) w;
      q \<leftarrow> wwan_qmap_version rsp p; w \<leftarrow> wwan_clients alloc junk ctl q w;
      Some (0, q\<lparr>wda_client := uint (qmiclientId w ! unat QMUX_TYPE_WDS_ADMIN)\<rparr>, w) })" for w
    by (rule mode_intros, unfold split_paired_all prod.case, rule rest)
  show ?thesis
    unfolding QmiWwanInit_def
    by (rule mode_intros, unfold split_paired_all prod.case, rule pred_option_if, simp,
        rule mode_intros, unfold split_paired_all prod.case, rule pred_option_if, simp, rule inner)
qed

interpretation qmi: dial_modem "qmi_request_table alloc send fuel" "qmiwwan_device_table alloc junk ctl"
  for alloc send fuel junk ctl
proof unfold_locales
  show "pred_option (\<lambda>(e, q, m'). same_mode p q) (op_SetupDataCall (qmi_request_table alloc send fuel) p f m)" for p f m
    by (simp add: qmi_request_table_def on_requests2_mode setup_keeps_mode)
  show "pred_option (\<lambda>(e, q, m'). same_mode p q) (op_DeactivateDefaultPDP (qmi_request_table alloc send fuel) p f m)" for p f m
    by (auto simp: qmi_request_table_def intro!: mode_intros)
  show "pred_option (\<lambda>(e, q, m'). same_mode p q) (op_GetIPAddress (qmi_request_table alloc send fuel) p f m)" for p f m
    by (simp add: qmi_request_table_def on_requests2_mode address_keeps_mode)
  show "pred_option (\<lambda>(e, q, m'). same_mode p q) (g p m)"
    if "op_BaseBandVersion (qmi_request_table alloc send fuel) = Some g" for g p m
    using that by (auto simp: qmi_request_table_def on_requests2_mode version_keeps_mode)
  show "pred_option (\<lambda>(e, q, m'). same_mode p q) (g p m)"
    if "op_SetEthMode (qmi_request_table alloc send fuel) = Some g" for g p m
    using that by (auto simp: qmi_request_table_def on_requests2_mode eth_keeps_mode)
  show "pred_option (\<lambda>(e, q, m'). same_mode p q) (g p m)"
    if "op_SetProfile (qmi_request_table alloc send fuel) = Some g" for g p m
    using that by (auto simp: qmi_request_table_def intro!: mode_intros)
  show "pred_option (pred_option (\<lambda>(e, q, m'). same_mode p q)) (h p m)"
    if "op_GetProfile (qmi_request_table alloc send fuel) = Some h" for h p m
    using that
    by (auto simp: qmi_request_table_def option.pred_map comp_def case_prod_beta
             intro!: pred_option_bindI [OF get_profile_keeps_mode [unfolded case_prod_beta]])
  show "pred_option (\<lambda>(e, q, m'). same_mode p q) (g p m)"
    if "dev_init (qmiwwan_device_table alloc junk ctl) = Some g" for g p m
    using that by (auto simp: qmiwwan_device_table_def intro!: pred_option_bindI [OF wwan_init_keeps_mode])
qed

end
