(* ===== verification/Conn_Props.thy ===== *)
theory Conn_Props
  imports Conn_Qmi
begin

text \<open>
  Properties of the connection manager: what a run on a QMI modem keeps, how a check sets the link, when
  and how often the manager dials, and what it leaves behind. The sample run of the witnesses is one on a
  modem that never answers.
\<close>

subsection \<open>A run on a silent modem\<close>

definition quiet_net :: net_os where
  "quiet_net = \<lparr>can_exec = (\<lambda>_. True), sys_file = (\<lambda>_ _. Missing), if_addr = (\<lambda>_ _. None), if_mtu = (\<lambda>_ _. None),
     if_up = (\<lambda>_ _. False), can_write = (\<lambda>_. False), route_dels = 0\<rparr>"

definition sample_env :: main_env where
  "sample_env = \<lparr>signal_pair = True, control_pair = True, thread_created = True,
     first_event = Some RIL_INDICATE_DEVICE_CONNECTED, self_exe = None, self_pid = 100, procs = []\<rparr>"

definition sample_cm :: "qmi_modem cm" where
  "sample_cm = \<lparr>prof = s_profile\<lparr>enable_ipv4 := True, proxy := ascii ''quectel-qmi-proxy'',
       request_ops := Some qmi_request_ops, usbnet_adapter := ascii ''wwan0''\<rparr>,
     modem = \<lparr>requests = qmi_env_init, device = wwan_init\<rparr>, PSAttachedState = 0, IPv4ConnectionStatus = 0,
     IPv6ConnectionStatus = 0, SetupCallFail = 0, SetupCallAllowTime = 0, s_link = - 1,
     g_donot_exit_when_modem_hangup = 0, g_reboot_modem = 0, signals = [], events = [], device_cmds = [],
     pending_alarm = 0, net = [], readings = 0, kills = []\<rparr>"

definition silent :: transport where "silent h = (- ETIMEDOUT, None)"
abbreviation "all_memory \<equiv> (\<lambda>_ :: nat. True)"
abbreviation "zero_stack \<equiv> (\<lambda>_ :: nat. replicate WDM_DEFAULT_BUFSIZE (0 :: byte))"

definition no_clients :: "wwan \<Rightarrow> bool" where "no_clients w \<longleftrightarrow> qmiclientId w = replicate 255 0"

lemma silent_ctl:
  "no_clients w \<Longrightarrow> yields (ctl_transact all_memory zero_stack silent ty (Some (CtlGetClientIdReq q)) w) (\<lambda>(e, r, w'). r = None \<and> no_clients w')"
  "no_clients w \<Longrightarrow> yields (ctl_transact all_memory zero_stack silent ty (Some CtlGetVersionReq) w) (\<lambda>(e, r, w'). r = None \<and> no_clients w')"
  by (cases "GetQCTLTransactionId (ctl_tid w)", simp add: ctl_transact_def get_client.compose get_version.compose silent_def Let_def no_clients_def)+

lemma silent_client:
  "no_clients w \<Longrightarrow> yields (QmiWwanGetClientID all_memory zero_stack silent q w) (\<lambda>(c, w'). c = 0 \<and> no_clients w')"
  unfolding QmiWwanGetClientID_def by (erule yields_bind [OF silent_ctl(1)]) auto

lemma no_clients_set: "no_clients w \<Longrightarrow> no_clients (set_client q 0 w)"
  by (cases "unat q < 255") (simp_all add: no_clients_def set_client_def list_update_same_conv list_update_beyond)

lemma silent_clients:
  assumes "no_clients w" "\<not> enable_ipv6 p"
  shows "yields (wwan_clients all_memory zero_stack silent p w) no_clients"
  unfolding wwan_clients_def using assms
  by (auto simp: Let_def intro!: yields_bind [OF silent_client] no_clients_set)

lemma silent_init:
  assumes "no_clients w" "proxy p = ascii ''quectel-qmi-proxy''" "\<not> enable_ipv6 p"
  shows "yields (QmiWwanInit all_memory zero_stack silent p w) (\<lambda>(e, q, w'). e = 0 \<and> q = p\<lparr>wda_client := 0\<rparr>)"
proof -
  have "yields (do {
         (e, rsp, w) \<leftarrow> ctl_transact all_memory zero_stack silent QMICTL_GET_VERSION_REQ (Some CtlGetVersionReq) w;
         q \<leftarrow> wwan_qmap_version rsp p;
         w \<leftarrow> wwan_clients all_memory zero_stack silent q w;
         Some (0 :: int, q\<lparr>wda_client := uint (qmiclientId w ! unat QMUX_TYPE_WDS_ADMIN)\<rparr>, w) })
      (\<lambda>(e, q, w'). e = 0 \<and> q = p\<lparr>wda_client := 0\<rparr>)"
    by (rule yields_bind [OF silent_ctl(2) [OF assms(1)]])
       (auto simp: wwan_qmap_version_def assms(3) no_clients_def intro!: yields_bind [OF silent_clients])
  then show ?thesis
    by (simp add: QmiWwanInit_def assms(2) ascii_def)
qed

definition sample_after_init where
  "sample_after_init w = (cm_begin of_nat sample_cm)\<lparr>prof := (prof sample_cm)\<lparr>wda_client := 0\<rparr>, modem := \<lparr>requests = qmi_env_init, device = w\<rparr>\<rparr>"

lemma silent_requests:
   "yields (cm_requests 1 (qmi_request_table all_memory silent 1) (sample_after_init w))
   (\<lambda>r. \<exists>d. r = Some d \<and> IPv4ConnectionStatus d = 0 \<and> IPv6ConnectionStatus d = 0 \<and> signals d = [SIG_EVENT_CHECK] \<and> events d = [] \<and> s_link d = - 1 \<and>
     enable_ipv4 (prof d) \<and> \<not> enable_ipv6 (prof d) \<and> readings d = 1 \<and> SetupCallAllowTime d = 0 \<and> PSAttachedState d = 0 \<and> s_9x07 (requests (modem d)))"
  by (simp add: cm_requests_def qmi_request_table_def call_prof_def on_requests2_def sample_after_init_def sample_cm_def cm_begin_def clock_msec_def
    requestBaseBandVersion_def transact_None silent_def qmi_rsp_check_and_return_def requestSetEthMode_def 
    data_format.transact s_profile_def loopback_setup_def call_opt_def sim_setup_def sim_query_def requestGetSIMStatus_def qmi_env_init_def
    QMI_ERR_OP_DEVICE_UNSUPPORTED_def ETIMEDOUT_def enter_pin_def get_profile_def requestGetProfile_def call_registration_def requestRegistrationState_def requestRegistrationState2_def
    stale_call_def send_signo_to_main_def)

definition nothing :: "arrival list \<times> poll_result" where
  "nothing = ([], Polled \<lparr>re_err = False, re_hup = False\<rparr> \<lparr>re_err = False, re_hup = False\<rparr>)"

lemma silent_check:
  assumes "IPv4ConnectionStatus c = 0" "s_link c = - 1" "enable_ipv4 (prof c)" "\<not> enable_ipv6 (prof c)"
    "PSAttachedState c = 0" "s_9x07 (requests (modem c))"
  shows "yields (sig_check quiet_net (qmi_request_table all_memory silent 1) c)
   (\<lambda>d. IPv4ConnectionStatus d = 1 \<and> s_link d = 0 \<and> signals d = signals c @ [SIG_EVENT_START] \<and> events d = events c \<and>
        readings d = readings c \<and> SetupCallAllowTime d = SetupCallAllowTime c)"
  using assms
  by (simp add: sig_check_def call_opt_def call_registration_def qmi_registration_op requestRegistrationState_def
      requestRegistrationState2_def transact_None silent_def qmi_rsp_check_and_return_def check_ipv4_def on_requests2_def
      requestQueryDataCall_def check_ipv6_def check_link_def usbnet_link_change_def udhcpc_stop_def needs_call_def
      send_signo_to_main_def ETIMEDOUT_def Let_def)

lemma silent_turn:
  assumes "IPv4ConnectionStatus c = 0" "signals c = [SIG_EVENT_CHECK]" "events c = []" "s_link c = - 1"
     "enable_ipv4 (prof c)" "\<not> enable_ipv6 (prof c)" "PSAttachedState c = 0" "s_9x07 (requests (modem c))"
  shows "yields (cm_loop quiet_net of_nat (qmi_request_table all_memory silent 1) (qmiwwan_device_table all_memory zero_stack silent) [nothing] c)
   (\<lambda>(q, d). \<not> q \<and> IPv4ConnectionStatus d = 1 \<and> s_link d = 0 \<and> signals d = [SIG_EVENT_START] \<and> readings d = readings c \<and> SetupCallAllowTime d = SetupCallAllowTime c)"
  using silent_check [of "c\<lparr>signals := [], pending_alarm := 0\<rparr>"] assms
  by (auto simp: yields_def nothing_def cm_turn_def poll_fd_def reboot_requested_def read_signal_def)

lemma silent_run:
  "\<exists>d. qmi_main quiet_net of_nat 1 sample_env (qmi_request_table all_memory silent 1)
         (qmiwwan_device_table all_memory zero_stack silent) [nothing] sample_cm = Some (Main_running d) \<and>
       IPv4ConnectionStatus d = 1 \<and> s_link d = 0 \<and> signals d = [SIG_EVENT_START] \<and> readings d = 1 \<and> SetupCallAllowTime d = 0"
proof -
  have "no_clients wwan_init"
    by (simp add: no_clients_def wwan_init_def)
  moreover have "proxy (prof sample_cm) = ascii ''quectel-qmi-proxy''" "\<not> enable_ipv6 (prof sample_cm)"
    by (simp_all add: sample_cm_def s_profile_def)
  ultimately obtain w where i: "QmiWwanInit all_memory zero_stack silent (prof sample_cm) wwan_init
      = Some (0, (prof sample_cm)\<lparr>wda_client := 0\<rparr>, w)"
    using silent_init [of wwan_init "prof sample_cm"] by (auto simp: yields_def)
  have b: "call_prof (dev_init (qmiwwan_device_table all_memory zero_stack silent)) (cm_begin of_nat sample_cm)
      = Some (0, sample_after_init w)"
    using i by (simp add: call_prof_def qmiwwan_device_table_def sample_after_init_def cm_begin_def clock_msec_def sample_cm_def)
  have k: "cm_kill_brothers sample_env (cm_begin of_nat sample_cm) = Some (cm_begin of_nat sample_cm)"
    by (simp add: cm_kill_brothers_def cm_begin_def clock_msec_def sample_cm_def s_profile_def kill_brothers_def
        sample_env_def read_link_def)
  obtain c where c: "cm_requests 1 (qmi_request_table all_memory silent 1) (sample_after_init w) = Some (Some c)"
      "IPv4ConnectionStatus c = 0" "signals c = [SIG_EVENT_CHECK]" "events c = []" "s_link c = - 1" "enable_ipv4 (prof c)"
      "\<not> enable_ipv6 (prof c)" "readings c = 1" "SetupCallAllowTime c = 0" "PSAttachedState c = 0"
      "s_9x07 (requests (modem c))"
    using silent_requests [of w] unfolding yields_def by blast
  obtain d where "cm_loop quiet_net of_nat (qmi_request_table all_memory silent 1)
        (qmiwwan_device_table all_memory zero_stack silent) [nothing] c = Some (False, d)"
      "IPv4ConnectionStatus d = 1" "s_link d = 0" "signals d = [SIG_EVENT_START]" "readings d = 1" "SetupCallAllowTime d = 0"
    using silent_turn [OF c(2-7,10,11)] c(8,9) unfolding yields_def by auto
  moreover have "signal_pair sample_env" "control_pair sample_env" "thread_created sample_env"
      "first_event sample_env = Some RIL_INDICATE_DEVICE_CONNECTED"
    by (simp_all add: sample_env_def)
  ultimately show ?thesis
    using k b c(1) by (simp add: qmi_main_def Let_def del: cm_loop.simps)
qed

subsection \<open>Properties of the manager on a QMI modem\<close>

text \<open>C3: Whatever signals, device events, poll results and modem answers \<^verbatim>\<open>qmi_main\<close> meets, every data call it
  believes to be connected belongs to an IP family the user enabled, the network link is up at most
  for enabled families, and its mode (families and request table) is the one it was started with.\<close>

theorem connected_only_if_enabled:
  assumes "qmi_main os clock fuel env (qmi_request_table alloc send fuel') (qmiwwan_device_table alloc junk ctl) inputs c
             = Some (Main_running d)"
    and "s_link c = - 1 \<or> s_link c = 0"
  shows "(IPv4ConnectionStatus d = QWDS_PKT_DATA_CONNECTED \<longrightarrow> enable_ipv4 (prof c)) \<and>
         (IPv6ConnectionStatus d = QWDS_PKT_DATA_CONNECTED \<longrightarrow> enable_ipv6 (prof c)) \<and>
         (s_link d = - 1 \<or> (bit (s_link d) 4 \<longrightarrow> enable_ipv4 (prof c)) \<and> (bit (s_link d) 6 \<longrightarrow> enable_ipv6 (prof c))) \<and>
         enable_ipv4 (prof d) = enable_ipv4 (prof c) \<and> enable_ipv6 (prof d) = enable_ipv6 (prof c) \<and>
         request_ops (prof d) = request_ops (prof c)"
proof -
  have "link_ok (prof c) (s_link c)"
    using assms(2) by (auto simp: link_ok_def)
  from qmi.qmi_main_ok [OF this, of clock os fuel env alloc send fuel' junk ctl inputs] show ?thesis
    using assms(1) by (auto simp: outcome_ok_def cm_ok_def same_mode_def link_ok_def)
qed

theorem connected_only_if_enabled_witness:
  "\<exists>d. qmi_main quiet_net of_nat 1 sample_env (qmi_request_table all_memory silent 1)
         (qmiwwan_device_table all_memory zero_stack silent) [nothing] sample_cm = Some (Main_running d) \<and> s_link d = 0 \<and> enable_ipv4 (prof d) = enable_ipv4 (prof sample_cm)"
proof -
  have l: "s_link sample_cm = - 1 \<or> s_link sample_cm = 0"
    by (simp add: sample_cm_def)
  obtain d where d: "qmi_main quiet_net of_nat 1 sample_env (qmi_request_table all_memory silent 1)
         (qmiwwan_device_table all_memory zero_stack silent) [nothing] sample_cm = Some (Main_running d)" "s_link d = 0"
    using silent_run by blast
  with connected_only_if_enabled [OF d(1) l] show ?thesis
    by blast
qed

text \<open>C7: At every moment of a run of \<^verbatim>\<open>qmi_main\<close> the time before which the manager does not dial is a clock value it
  has read, put off by 0, 1, 5, 10, 20, 40 or 60 seconds: however often dialling failed, it is
  never put off by more than a minute.\<close>

theorem redial_within_a_minute:
  assumes "qmi_main os clock fuel env (qmi_request_table alloc send fuel') (qmiwwan_device_table alloc junk ctl) inputs c
             = Some (Main_running d)"
    and "s_link c = - 1 \<or> s_link c = 0"
  shows "\<exists>j < readings d. \<exists>s \<in> {0, 1, 5, 10, 20, 40, 60}. SetupCallAllowTime d = clock j + 1000 * s"
proof -
  have "link_ok (prof c) (s_link c)"
    using assms(2) by (auto simp: link_ok_def)
  from qmi.qmi_main_ok [OF this, of clock os fuel env alloc send fuel' junk ctl inputs] have "cm_ok clock (prof c) d"
    using assms(1) by (simp add: outcome_ok_def)
  then show ?thesis
    by (auto simp: cm_ok_def delays_def)
qed


theorem redial_within_a_minute_witness:
  "\<exists>d. qmi_main quiet_net of_nat 1 sample_env (qmi_request_table all_memory silent 1)
         (qmiwwan_device_table all_memory zero_stack silent) [nothing] sample_cm = Some (Main_running d) \<and> s_link d = 0 \<and>
       (\<exists>j < readings d. \<exists>s \<in> {0, 1, 5, 10, 20, 40, 60}. SetupCallAllowTime d = of_nat j + 1000 * s)"
proof -
  have l: "s_link sample_cm = - 1 \<or> s_link sample_cm = 0"
    by (simp add: sample_cm_def)
  obtain d where d: "qmi_main quiet_net of_nat 1 sample_env (qmi_request_table all_memory silent 1)
         (qmiwwan_device_table all_memory zero_stack silent) [nothing] sample_cm = Some (Main_running d)" "s_link d = 0"
    using silent_run by blast
  with redial_within_a_minute [OF d(1) l] show ?thesis
    by blast
qed

subsection \<open>What a check does to the link\<close>

text \<open>The members the requests leave alone.\<close>

definition same_frame :: "'m cm \<Rightarrow> 'm cm \<Rightarrow> bool" where
  "same_frame c d \<longleftrightarrow> s_link d = s_link c \<and> signals d = signals c \<and> net d = net c \<and> SetupCallFail d = SetupCallFail c \<and>
     SetupCallAllowTime d = SetupCallAllowTime c \<and> readings d = readings c"

lemma same_frame_trans: "same_frame c d \<Longrightarrow> same_frame d e \<Longrightarrow> same_frame c e"
  by (simp add: same_frame_def)

lemma same_frame_updates [simp]:
  "same_frame c (d\<lparr>IPv4ConnectionStatus := s\<rparr>) = same_frame c d" "same_frame c (d\<lparr>IPv6ConnectionStatus := s\<rparr>) = same_frame c d"
  "same_frame c (d\<lparr>modem := m\<rparr>) = same_frame c d" "same_frame c (d\<lparr>prof := p\<rparr>) = same_frame c d"
  "same_frame c (d\<lparr>PSAttachedState := s\<rparr>) = same_frame c d" "same_frame c c"
  by (simp_all add: same_frame_def)

lemma call_op_frame: "pred_option (\<lambda>(e, d). same_frame c d) (call_op f family c)"
  by (auto simp: call_op_def intro!: pred_option_bind_any)

lemma call_opt_frame: "pred_option (same_frame c) (call_opt f c)"
  by (auto simp: call_opt_def split: option.split intro!: pred_option_bind_any)

lemma registration_frame: "pred_option (same_frame c) (call_registration rt c)"
  by (auto simp: call_registration_def intro!: pred_option_bind_any)

lemma call_op_frame_from:
  "same_frame c d \<Longrightarrow> pred_option (\<lambda>(e, d'). same_frame c d') (call_op f family d)"
  using call_op_frame [of d f family] by (auto simp: pred_option_Some_iff dest: same_frame_trans)

lemma check_address_frame: "pred_option (\<lambda>(b, d). same_frame c d) (check_ipv4_address rt c)"
  by (auto simp: check_ipv4_address_def Let_def intro!: pred_option_bindI [OF call_op_frame])

lemma check_address_frame_from:
  "same_frame c d \<Longrightarrow> pred_option (\<lambda>(b, d'). same_frame c d') (check_ipv4_address rt d)"
  using check_address_frame [of d rt] by (auto simp: pred_option_Some_iff dest: same_frame_trans)

lemma missing_address_frame: "same_frame c d \<Longrightarrow> pred_option (same_frame c) (missing_address rt d)"
  by (auto simp: missing_address_def intro!: pred_option_bindI [OF call_op_frame_from])

lemma changed_address_frame: "same_frame c d \<Longrightarrow> pred_option (same_frame c) (changed_address rt d)"
  by (auto simp: changed_address_def intro!: pred_option_bindI [OF check_address_frame_from]
        pred_option_bindI [OF call_op_frame_from])

lemma check_ipv4_frame: "pred_option (same_frame c) (check_ipv4 rt c)"
proof -
  have "pred_option (same_frame c)
     (if e = 0 then do { c \<leftarrow> missing_address rt d; changed_address rt c }
      else Some (d\<lparr>IPv4ConnectionStatus := QWDS_PKT_DATA_DISCONNECTED\<rparr>))" if "same_frame c d" for d and e :: int
    using that by (auto intro!: pred_option_bindI [OF missing_address_frame] changed_address_frame)
  from this [of "c\<lparr>IPv4ConnectionStatus := s, modem := m\<rparr>" for s m] show ?thesis
    unfolding check_ipv4_def Let_def by (simp add: pred_option_bind_any case_prod_beta)
qed

lemma check_ipv6_frame: "pred_option (same_frame c) (check_ipv6 rt c)"
  by (auto simp: check_ipv6_def intro!: pred_option_bind_any)

lemma driver_link_state_addresses:
  "ql_set_driver_link_state os (p\<lparr>ipv4 := a, ipv6 := b\<rparr>) l t = ql_set_driver_link_state os p l t"
proof -
  have "muxid (p\<lparr>ipv4 := a, ipv6 := b\<rparr>) = muxid p" "usbnet_adapter (p\<lparr>ipv4 := a, ipv6 := b\<rparr>) = usbnet_adapter p"
    "qmapnet_adapter (p\<lparr>ipv4 := a, ipv6 := b\<rparr>) = qmapnet_adapter p" "qmap_mode (p\<lparr>ipv4 := a, ipv6 := b\<rparr>) = qmap_mode p"
    by simp_all
  then show ?thesis
    by (simp only: ql_set_driver_link_state_def)
qed

lemma link_change_sets:
  assumes "usbnet_link_change os link c = Some d"
  shows "s_link d = link \<and> signals d = signals c \<and> (s_link c = link \<longrightarrow> net d = net c) \<and>
         (s_link c \<noteq> link \<and> link = 0 \<longrightarrow> net d = snd (udhcpc_stop os (prof c) (net c)))"
proof -
  have "snd (udhcpc_stop os (p\<lparr>ipv4 := a, ipv6 := b\<rparr>) t) = snd (udhcpc_stop os p t)" for p a b t
    by (simp add: udhcpc_stop_def Let_def net_ifname_def driver_link_state_addresses)
  then show ?thesis
    using assms
    by (auto simp: usbnet_link_change_def Let_def bind_eq_Some_conv split: if_splits prod.splits) (metis snd_conv)+
qed

lemma requests_frame:
  "pred_option (same_frame c) (do {
     c \<leftarrow> call_opt (op_GetSignalInfo rt) c; c \<leftarrow> call_opt (op_GetCellInfoList rt) c; c \<leftarrow> call_opt (op_GetCoexWWANState rt) c;
     c \<leftarrow> (if PSAttachedState c \<noteq> 1 then call_registration rt c else Some c);
     c \<leftarrow> check_ipv4 rt c; check_ipv6 rt c })"
proof -
  have reg: "pred_option (same_frame d) (if PSAttachedState d \<noteq> 1 then call_registration rt d else Some d)" for d
    using registration_frame [of d rt] by simp
  show ?thesis
    by (rule pred_option_bindI [OF call_opt_frame], rule pred_option_bindI [OF call_opt_frame],
        rule pred_option_bindI [OF call_opt_frame], rule pred_option_bindI [OF reg],
        rule pred_option_bindI [OF check_ipv4_frame], rule option.pred_mono_strong [OF check_ipv6_frame])
       (blast intro: same_frame_trans)
qed

text \<open>The two link bits, \<^verbatim>\<open>1 << IpFamilyV4\<close> and \<^verbatim>\<open>1 << IpFamilyV6\<close>.\<close>

lemma link_bits_sum:
  "link_bits c = (if IPv4ConnectionStatus c = QWDS_PKT_DATA_CONNECTED then 16 else 0) +
                 (if IPv6ConnectionStatus c = QWDS_PKT_DATA_CONNECTED then 64 else 0)"
  by (simp add: link_bits_def)

text \<open>C5: After a periodic check the link has bit 4 set exactly if the IPv4 call is connected and bit 6 exactly if
  the IPv6 call is, and is down if both are disconnected; if neither is connected and one is in any other state,
  the link is left alone. The network is touched only if the link changes, a link that goes down stops the DHCP
  clients, and a new attempt to dial is queued exactly if an enabled family is disconnected. This holds for the
  requests of every back end.\<close>

theorem check_sets_link:
  assumes "sig_check os rt c = Some d"
  shows "s_link d = (if IPv4ConnectionStatus d = QWDS_PKT_DATA_DISCONNECTED \<and> IPv6ConnectionStatus d = QWDS_PKT_DATA_DISCONNECTED then 0
                     else if IPv4ConnectionStatus d = QWDS_PKT_DATA_CONNECTED \<or> IPv6ConnectionStatus d = QWDS_PKT_DATA_CONNECTED
                     then (if IPv4ConnectionStatus d = QWDS_PKT_DATA_CONNECTED then 16 else 0) +
                          (if IPv6ConnectionStatus d = QWDS_PKT_DATA_CONNECTED then 64 else 0)
                     else s_link c) \<and>
         (s_link d = s_link c \<longrightarrow> net d = net c) \<and>
         (s_link d \<noteq> s_link c \<and> s_link d = 0 \<longrightarrow> (\<exists>p. net d = snd (udhcpc_stop os p (net c)))) \<and>
         signals d = signals c @
           (if enable_ipv4 (prof d) \<and> IPv4ConnectionStatus d = QWDS_PKT_DATA_DISCONNECTED \<or>
               enable_ipv6 (prof d) \<and> IPv6ConnectionStatus d = QWDS_PKT_DATA_DISCONNECTED
            then [SIG_EVENT_START] else [])"
proof -
  obtain e f where e: "(do {
     c \<leftarrow> call_opt (op_GetSignalInfo rt) c; c \<leftarrow> call_opt (op_GetCellInfoList rt) c; c \<leftarrow> call_opt (op_GetCoexWWANState rt) c;
     c \<leftarrow> (if PSAttachedState c \<noteq> 1 then call_registration rt c else Some c);
     c \<leftarrow> check_ipv4 rt c; check_ipv6 rt c }) = Some e" and f: "check_link os e = Some f"
    and d: "d = (if needs_call f then send_signo_to_main SIG_EVENT_START f else f)"
    using assms by (auto simp: sig_check_def bind_eq_Some_conv)
  have "same_frame c e"
    using requests_frame [of c rt] e by simp
  moreover have st: "IPv4ConnectionStatus f = IPv4ConnectionStatus e" "IPv6ConnectionStatus f = IPv6ConnectionStatus e"
    using f by (auto simp: check_link_def usbnet_link_change_def Let_def bind_eq_Some_conv split: if_splits prod.splits)
  moreover have "some_call d = some_call e" "link_bits d = link_bits e" "needs_call d = needs_call f"
      "IPv4ConnectionStatus d = IPv4ConnectionStatus e" "IPv6ConnectionStatus d = IPv6ConnectionStatus e"
    using st by (simp_all add: d some_call_def link_bits_def needs_call_def send_signo_to_main_def)
  moreover have "s_link d = s_link f" "net d = net f" "signals d = signals f @ (if needs_call f then [SIG_EVENT_START] else [])"
    by (simp_all add: d send_signo_to_main_def)
  ultimately have "s_link d = (if IPv4ConnectionStatus d = QWDS_PKT_DATA_DISCONNECTED \<and> IPv6ConnectionStatus d = QWDS_PKT_DATA_DISCONNECTED
                     then 0 else if some_call d then link_bits d else s_link c) \<and>
         (s_link d = s_link c \<longrightarrow> net d = net c) \<and>
         (s_link d \<noteq> s_link c \<and> s_link d = 0 \<longrightarrow> (\<exists>p. net d = snd (udhcpc_stop os p (net c)))) \<and>
         signals d = signals c @ (if needs_call d then [SIG_EVENT_START] else [])"
    using f link_change_sets [of os _ e f] by (auto simp: check_link_def same_frame_def split: if_splits)
  then show ?thesis
    unfolding some_call_def link_bits_sum needs_call_def by blast
qed

theorem check_sets_link_witness:
  "\<exists>d. sig_check quiet_net (qmi_request_table all_memory silent 1) (sample_after_init wwan_init) = Some d \<and>
       s_link d = 0 \<and> signals d = [SIG_EVENT_START] \<and> (\<exists>p. net d = snd (udhcpc_stop quiet_net p []))"
proof -
  let ?c = "sample_after_init wwan_init"
  have c: "IPv4ConnectionStatus ?c = 0" "s_link ?c = - 1" "enable_ipv4 (prof ?c)" "\<not> enable_ipv6 (prof ?c)"
      "PSAttachedState ?c = 0" "s_9x07 (requests (modem ?c))" "signals ?c = []" "net ?c = []"
    by (simp_all add: sample_after_init_def cm_begin_def clock_msec_def sample_cm_def s_profile_def qmi_env_init_def)
  obtain d where d: "sig_check quiet_net (qmi_request_table all_memory silent 1) ?c = Some d" "s_link d = 0" "signals d = [SIG_EVENT_START]"
    using silent_check [OF c(1-6)] c(7) by (auto simp: yields_def)
  from check_sets_link [OF d(1)] d c(2,8) show ?thesis
    by auto
qed

subsection \<open>When the manager dials\<close>

lemma setup_with_auth_frame: "pred_option (\<lambda>(e, d). same_frame c d) (setup_with_auth rt c)"
  unfolding setup_with_auth_def Let_def
  by (rule pred_option_bindI [OF call_op_frame]) (auto intro!: pred_option_bindI [OF call_op_frame_from])

lemma start_ipv4_frame: "pred_option (same_frame c) (start_ipv4 rt c)"
  unfolding start_ipv4_def
  by (auto intro!: pred_option_bindI [OF setup_with_auth_frame] pred_option_bindI [OF call_op_frame_from])

lemma start_ipv6_frame: "same_frame c d \<Longrightarrow> pred_option (same_frame c) (start_ipv6 rt d)"
  unfolding start_ipv6_def
  by (auto intro!: pred_option_bindI [OF call_op_frame_from])

definition backoff :: "nat \<Rightarrow> nat" where
  "backoff n = (if n = 0 then 5 else if n = 1 then 10 else if n = 2 then 20 else if n = 3 then 40 else 60)"

lemma backoff_ucast: "ucast (of_nat (backoff n) :: 64 word) = (of_nat (backoff n) :: u32)"
  by (simp add: backoff_def)

lemma allow_time_backoff: "allow_time n = of_nat (backoff (unat n))"
proof (cases "n < 5")
  case True
  then have "unat n = 0 \<or> unat n = 1 \<or> unat n = 2 \<or> unat n = 3 \<or> unat n = 4"
    unfolding word_less_nat_alt by simp linarith
  then show ?thesis
    using True by (elim disjE) (simp_all add: allow_time_def backoff_def)
next
  case False
  then have "4 < unat n"
    unfolding word_less_nat_alt by simp
  then show ?thesis
    using False by (simp add: allow_time_def backoff_def)
qed

text \<open>C6: The signal to dial sends no request unless the modem is attached or in loopback and the time allowed for dialling has
  come; before that time it only arms the alarm for the rest of the wait. A dial that leaves an enabled family
  disconnected arms the alarm and forbids dialling for 5, 10, 20, 40 or 60 seconds after the first,
  second, third, fourth or a later failure in a row; a dial that leaves a call up and nothing to do starts the count
  again.\<close>

theorem dial_backoff:
  assumes "sig_start clock rt c = Some d"
  shows "(PSAttachedState c \<noteq> 1 \<and> loopback_state (prof c) = 0 \<longrightarrow> d = c) \<and>
         (\<not> (PSAttachedState c \<noteq> 1 \<and> loopback_state (prof c) = 0) \<and> SetupCallAllowTime c > clock (readings c) \<longrightarrow>
            d = c\<lparr>readings := readings c + 2,
                  pending_alarm := ucast ((SetupCallAllowTime c - clock (readings c + 1) + 999) div 1000)\<rparr>) \<and>
         (\<not> (PSAttachedState c \<noteq> 1 \<and> loopback_state (prof c) = 0) \<and> SetupCallAllowTime c \<le> clock (readings c) \<longrightarrow>
            (enable_ipv4 (prof d) \<and> IPv4ConnectionStatus d = QWDS_PKT_DATA_DISCONNECTED \<or>
             enable_ipv6 (prof d) \<and> IPv6ConnectionStatus d = QWDS_PKT_DATA_DISCONNECTED \<longrightarrow>
               SetupCallFail d = SetupCallFail c + 1 \<and> pending_alarm d = of_nat (backoff (unat (SetupCallFail c))) \<and>
               SetupCallAllowTime d = clock (readings c + 1) + 1000 * of_nat (backoff (unat (SetupCallFail c)))) \<and>
            (\<not> (enable_ipv4 (prof d) \<and> IPv4ConnectionStatus d = QWDS_PKT_DATA_DISCONNECTED) \<and>
             \<not> (enable_ipv6 (prof d) \<and> IPv6ConnectionStatus d = QWDS_PKT_DATA_DISCONNECTED) \<and>
             (IPv4ConnectionStatus d = QWDS_PKT_DATA_CONNECTED \<or> IPv6ConnectionStatus d = QWDS_PKT_DATA_CONNECTED) \<longrightarrow>
             SetupCallFail d = 0 \<and> SetupCallAllowTime d = clock (readings c + 1)))"
proof (cases "\<not> (PSAttachedState c \<noteq> 1 \<and> loopback_state (prof c) = 0) \<and> SetupCallAllowTime c \<le> clock (readings c)")
  case True
  define c1 where "c1 = c\<lparr>readings := Suc (readings c)\<rparr>"
  have "sig_start clock rt c = do { d \<leftarrow> start_ipv4 rt c1; d \<leftarrow> start_ipv6 rt d; Some (schedule_retry clock d) }"
    using True by (auto simp: sig_start_def clock_msec_def Let_def c1_def)
  then have "do { d \<leftarrow> start_ipv4 rt c1; d \<leftarrow> start_ipv6 rt d; Some (schedule_retry clock d) } = Some d"
    using assms by simp
  then obtain e f where ef: "start_ipv4 rt c1 = Some e" "start_ipv6 rt e = Some f" "d = schedule_retry clock f"
    by (auto simp: bind_eq_Some_conv)
  then have "same_frame c1 f"
    using start_ipv4_frame [of c1 rt] start_ipv6_frame [of c1 e rt] by simp
  moreover have "needs_call d = needs_call f" "some_call d = some_call f"
    by (auto simp: ef(3) schedule_retry_def clock_msec_def Let_def needs_call_def some_call_def)
  ultimately have "(needs_call d \<longrightarrow>
               SetupCallFail d = SetupCallFail c + 1 \<and> pending_alarm d = of_nat (backoff (unat (SetupCallFail c))) \<and>
               SetupCallAllowTime d = clock (readings c + 1) + 1000 * of_nat (backoff (unat (SetupCallFail c)))) \<and>
            (\<not> needs_call d \<and> some_call d \<longrightarrow> SetupCallFail d = 0 \<and> SetupCallAllowTime d = clock (readings c + 1))"
    using ef(3) by (auto simp: schedule_retry_def clock_msec_def Let_def same_frame_def c1_def allow_time_backoff backoff_ucast)
  then show ?thesis
    unfolding needs_call_def some_call_def using True by auto
next
  case False
  then show ?thesis
    using assms by (auto simp: sig_start_def clock_msec_def Let_def not_le)
qed

text \<open>A modem that refuses every call.\<close>

definition refusing :: "qmi_modem request_table" where
  "refusing = (qmi_request_table all_memory silent 1)\<lparr>op_SetupDataCall := (\<lambda>p family m. Some (14, p, m))\<rparr>"

theorem dial_backoff_witness:
  "\<exists>d. sig_start of_nat refusing ((sample_after_init wwan_init)\<lparr>PSAttachedState := 1, IPv4ConnectionStatus := 1, SetupCallFail := 2\<rparr>) = Some d \<and>
       SetupCallFail d = 3 \<and> pending_alarm d = 20 \<and> SetupCallAllowTime d = 2 + 1000 * 20"
proof -
  let ?c = "(sample_after_init wwan_init)\<lparr>PSAttachedState := 1, IPv4ConnectionStatus := 1, SetupCallFail := 2\<rparr>"
  have r: "op_SetupDataCall refusing = (\<lambda>p family m. Some (14, p, m))"
    by (simp add: refusing_def)
  obtain d where d: "sig_start of_nat refusing ?c = Some d" "needs_call d"
    by (simp add: sig_start_def sample_after_init_def cm_begin_def clock_msec_def sample_cm_def s_profile_def start_ipv4_def
        setup_with_auth_def call_op_def r nonempty_def start_ipv6_def schedule_retry_def needs_call_def Let_def)
  moreover have "PSAttachedState ?c = 1" "SetupCallAllowTime ?c = 0" "SetupCallFail ?c = 2" "readings ?c = 1"
    by (simp_all add: sample_after_init_def cm_begin_def clock_msec_def sample_cm_def)
  ultimately show ?thesis
    using dial_backoff [OF d(1)] by (simp add: backoff_def needs_call_def)
qed

subsection \<open>What the manager leaves behind\<close>

text \<open>The \<^verbatim>\<open>QMIWDS_STOP_NETWORK_INTERFACE_REQ\<close> for the call of a family.\<close>

definition call_handle :: "int \<Rightarrow> qmi_env \<Rightarrow> u32" where
  "call_handle family r = (if family = IpFamilyV4 then WdsConnectionIPv4Handle r else WdsConnectionIPv6Handle r)"

definition stop_request :: "int \<Rightarrow> qmi_env \<Rightarrow> buf" where
  "stop_request family r = qmux_frame (wds_type family) 0 0 (next_tid r) 0x21 [mk_tlv 0x01 (bytes32 (call_handle family r))]"

definition acknowledges :: "transport \<Rightarrow> bool" where
  "acknowledges send \<longleftrightarrow> (\<forall>h. \<exists>m. send h = (0, Some m) \<and> rd16 m 16 = Some 0 \<and> rd16 m 18 = Some 0)"

lemma hang_up:
  assumes "\<And>n. alloc n" "acknowledges send" "family = IpFamilyV4 \<or> family = IpFamilyV6"
  shows "requestDeactivateDefaultPDP alloc send family r =
         Some (0, if call_handle family r = 0 then r else set_handle family 0 (with_request (stop_request family r) r))"
proof (cases "call_handle family r = 0")
  case False
  have b: "stop_nw_blocks (WdsConnectionIPv4Handle r) (WdsConnectionIPv6Handle r) family
      = [mk_tlv 0x01 (bytes32 (call_handle family r))]"
    by (simp add: stop_nw_blocks_def call_handle_def)
  obtain m where "send (sent r @ [stop_request family r]) = (0, Some m)" "rd16 m 16 = Some 0" "rd16 m 18 = Some 0"
    using assms(2) unfolding acknowledges_def by blast
  then show ?thesis
    using False assms(3)
    by (auto simp: requestDeactivateDefaultPDP_def stop_nw.transact [OF TrueI assms(1)] b Let_def qmi_rsp_check_and_return_def
        call_handle_def stop_request_def IpFamilyV4_def IpFamilyV6_def)
qed (use assms(3) in \<open>auto simp: requestDeactivateDefaultPDP_def call_handle_def IpFamilyV4_def IpFamilyV6_def\<close>)

lemma link_change_down:
  "\<exists>d. usbnet_link_change os 0 c = Some d \<and> s_link d = 0 \<and> modem d = modem c"
  by (auto simp: usbnet_link_change_def Let_def split: prod.splits)

text \<open>C4: When the main loop is left, for whatever reason, and the modem acknowledges requests, the manager hangs up every call it
  holds on an enabled family, with one request per call that names its handle, forgets the handles and
  takes the link down; it sends nothing for a family without a call.\<close>

theorem quit_hangs_up:
  assumes "\<And>n. alloc n" and "acknowledges send"
    and "r4 = (if enable_ipv4 (prof c) \<and> call_handle IpFamilyV4 (requests (modem c)) \<noteq> 0
               then set_handle IpFamilyV4 0 (with_request (stop_request IpFamilyV4 (requests (modem c))) (requests (modem c)))
               else requests (modem c))"
    and "r6 = (if enable_ipv6 (prof c) \<and> call_handle IpFamilyV6 r4 \<noteq> 0
               then set_handle IpFamilyV6 0 (with_request (stop_request IpFamilyV6 r4) r4) else r4)"
  shows "\<exists>d. main_quit os (qmi_request_table alloc send fuel) c = Some d \<and> s_link d = 0 \<and> requests (modem d) = r6 \<and>
             (enable_ipv4 (prof c) \<longrightarrow> WdsConnectionIPv4Handle (requests (modem d)) = 0) \<and>
             (enable_ipv6 (prof c) \<longrightarrow> WdsConnectionIPv6Handle (requests (modem d)) = 0)"
proof -
  have four: "(if enable_ipv4 (prof c)
      then map_option snd (call_op (op_DeactivateDefaultPDP (qmi_request_table alloc send fuel)) IpFamilyV4 c) else Some c)
      = Some (c\<lparr>modem := (modem c)\<lparr>requests := r4\<rparr>\<rparr>)"
    using assms(3) hang_up [OF assms(1,2), where family = IpFamilyV4 and r = "requests (modem c)"]
    by (simp add: call_op_def qmi_deactivate_op on_requests_def)
  let ?c = "c\<lparr>modem := (modem c)\<lparr>requests := r4\<rparr>\<rparr>"
  have six: "(if enable_ipv6 (prof ?c)
      then map_option snd (call_op (op_DeactivateDefaultPDP (qmi_request_table alloc send fuel)) IpFamilyV6 ?c) else Some ?c)
      = Some (?c\<lparr>modem := (modem c)\<lparr>requests := r6\<rparr>\<rparr>)"
    using assms(4) hang_up [OF assms(1,2), where family = IpFamilyV6 and r = r4]
    by (simp add: call_op_def qmi_deactivate_op on_requests_def)
  obtain d where "usbnet_link_change os 0 (?c\<lparr>modem := (modem c)\<lparr>requests := r6\<rparr>\<rparr>) = Some d" "s_link d = 0"
      "modem d = (modem c)\<lparr>requests := r6\<rparr>"
    using link_change_down [of os "?c\<lparr>modem := (modem c)\<lparr>requests := r6\<rparr>\<rparr>"] by auto
  moreover have "enable_ipv4 (prof c) \<longrightarrow> WdsConnectionIPv4Handle r6 = 0" "enable_ipv6 (prof c) \<longrightarrow> WdsConnectionIPv6Handle r6 = 0"
    by (auto simp: assms(3,4) call_handle_def set_handle_def IpFamilyV4_def IpFamilyV6_def)
  ultimately show ?thesis
    unfolding main_quit_def four Option.bind.simps six by simp
qed

theorem quit_hangs_up_witness:
  "\<exists>d. main_quit quiet_net (qmi_request_table all_memory (\<lambda>h. (0, Some (rsp_frame 1 5 1 0x21 0 0 []))) 1)
         ((sample_after_init wwan_init)\<lparr>modem := \<lparr>requests = qmi_env_init\<lparr>WdsConnectionIPv4Handle := 7\<rparr>, device = wwan_init\<rparr>\<rparr>) = Some d \<and>
       s_link d = 0 \<and> WdsConnectionIPv4Handle (requests (modem d)) = 0 \<and>
       sent (requests (modem d)) = [qmux_frame 1 0 0 1 0x21 [mk_tlv 0x01 (bytes32 7)]]"
proof -
  let ?send = "\<lambda>h :: buf list. (0 :: int, Some (rsp_frame 1 5 1 0x21 0 0 []))"
  let ?r = "qmi_env_init\<lparr>WdsConnectionIPv4Handle := 7\<rparr>"
  let ?c = "(sample_after_init wwan_init)\<lparr>modem := \<lparr>requests = ?r, device = wwan_init\<rparr>\<rparr>"
  have "acknowledges ?send"
    by (simp add: acknowledges_def rsp_frame_result rsp_frame_error)
  moreover have e: "enable_ipv4 (prof ?c)" "\<not> enable_ipv6 (prof ?c)" "requests (modem ?c) = ?r"
    by (simp_all add: sample_after_init_def cm_begin_def clock_msec_def sample_cm_def s_profile_def)
  moreover have "call_handle IpFamilyV4 ?r = 7" "stop_request IpFamilyV4 ?r = qmux_frame 1 0 0 1 0x21 [mk_tlv 0x01 (bytes32 7)]"
    by (simp_all add: call_handle_def stop_request_def IpFamilyV4_def wds_type_def next_tid_def GetQMUXTransactionId_def qmi_env_init_def)
  ultimately show ?thesis
    using quit_hangs_up [where alloc = all_memory and send = ?send and c = ?c and os = quiet_net and fuel = 1, OF TrueI _ refl refl]
    by (auto simp: set_handle_def with_request_def qmi_env_init_def IpFamilyV4_def)
qed

end
