(* ===== verification/Atc_Props.thy ===== *)
theory Atc_Props
  imports Atc Conn_Props
begin

text \<open>
  The AT back end under all behaviours of the modem: its commands always come to an end and leave the channel
  free, its table meets the contract of the connection manager, and the address the modem reports is the one that is used.
\<close>

subsection \<open>A command on a free channel\<close>

definition waiting :: "at_chan \<Rightarrow> bool" where
  "waiting c \<longleftrightarrow> sp_response c \<noteq> None \<and> (s_type c = SINGLELINE \<or> s_type c = MULTILINE \<longrightarrow> s_responsePrefix c \<noteq> None)"

lemma waiting_simps [simp]:
  "waiting (handleUnsolicited l c) = waiting c" "waiting (c\<lparr>s_smsPDU := x\<rparr>) = waiting c" "waiting (c\<lparr>s_raw_data := y\<rparr>) = waiting c"
  "waiting (at_write w c) = waiting c" "waiting (onReaderClosed c) = waiting c"
  by (simp_all add: waiting_def handleUnsolicited_def at_write_def onReaderClosed_def)

lemma intermediate_waiting: "waiting c \<Longrightarrow> \<exists>d. intermediate l r c = Some d \<and> waiting d"
  by (auto simp: intermediate_def addIntermediate_def handleUnsolicited_def waiting_def split: at_type.splits)

lemma handleFinalResponse_waiting: "waiting c \<Longrightarrow> waiting (handleFinalResponse ok l r c)"
  by (simp add: handleFinalResponse_def handleUnsolicited_def Let_def waiting_def)

lemma processLine_waiting: "waiting c \<Longrightarrow> \<exists>d. processLine l c = Some d \<and> waiting d"
  by (auto simp: processLine_def handleFinalResponse_waiting intermediate_waiting split: option.split)

lemma at_arrive_waiting: "waiting c \<Longrightarrow> \<exists>d. at_arrive e c = Some d \<and> waiting d"
  by (cases e) (simp_all add: processLine_waiting)

text \<open>What every command gives: an error, or a response that is final; the channel is free again.\<close>

definition at_done :: "at_result \<Rightarrow> bool" where
  "at_done = (\<lambda>(err, r, d). sp_response d = None \<and> (err = 0 \<longrightarrow> r \<noteq> None))"

lemma at_wait_total: "waiting c \<Longrightarrow> yields (at_wait es c) at_done"
proof (induction es arbitrary: c)
  case Nil
  then show ?case
    by (auto simp: at_wait.simps [of _ c] waiting_def at_done_def at_send_end_def clearPendingCommand_def AT_ERROR_TIMEOUT_def)
next
  case (Cons e es)
  then show ?case
    using at_arrive_waiting [OF Cons.prems, of e]
    by (auto simp: at_wait.simps [of _ c] waiting_def at_done_def at_send_end_def clearPendingCommand_def)
qed

lemma at_send_command_full_total:
  assumes "sp_response c = None" "type = SINGLELINE \<or> type = MULTILINE \<Longrightarrow> prefix \<noteq> None"
  shows "yields (at_send_command_full wl es type prefix smspdu c) at_done"
proof -
  have "waiting (c\<lparr>s_type := type, s_responsePrefix := prefix, s_smsPDU := smspdu, sp_response := Some at_response_new,
                   cond_signalled := False\<rparr>)"
    using assms(2) by (simp add: waiting_def)
  from at_wait_total [OF this] show ?thesis
    using assms(1) by (auto simp: at_send_command_full_def at_send_begin_def at_done_def clearPendingCommand_def)
qed

text \<open>The contract of a form of command: on a free channel it comes to an end. The forms that ask for one line have one
  when the modem reports success.\<close>

locale at_form =
  fixes f :: at_command
  assumes form_done: "sp_response c = None \<Longrightarrow> yields (f wl es c) at_done"

locale at_line_form = at_form +
  assumes form_line: "f wl es c = Some (err, r, d) \<Longrightarrow> \<not> at_response_error err r \<Longrightarrow> \<exists>l. first_line r = Some l"

text \<open>A part of a session: at most \<open>n\<close> commands were issued and the channel is free.\<close>

definition issues :: "nat \<Rightarrow> 'a at_session_scheme \<Rightarrow> 'a at_session_scheme \<Rightarrow> bool" where
  "issues n a b \<longleftrightarrow> sp_response (chan b) = None \<and> (\<exists>cs. at_cmds b = at_cmds a @ cs \<and> length cs \<le> n)"

lemma issues_refl: "sp_response (chan a) = None \<Longrightarrow> issues n a a"
  by (simp add: issues_def)

lemma issues_trans: "issues n a b \<Longrightarrow> issues m b c \<Longrightarrow> n + m \<le> k \<Longrightarrow> issues k a c"
  by (auto simp: issues_def intro: exI [of _ "_ @ _"])

lemma issues_idle: "issues n a b \<Longrightarrow> sp_response (chan b) = None"
  by (simp add: issues_def)

lemma issues_mono: "issues n a b \<Longrightarrow> n \<le> m \<Longrightarrow> issues m a b"
  by (auto simp: issues_def)

lemma issues_few: "issues (Suc 0) a b \<Longrightarrow> issues (numeral k) a b" "issues (Suc 0) a b \<Longrightarrow> issues (Suc n) a b" "issues 2 a b \<Longrightarrow> issues 18 a b"
  "issues 18 a b \<Longrightarrow> issues 36 a b" "issues 36 a b \<Longrightarrow> issues 38 a b"
  by (auto elim!: issues_mono)

context at_form
begin

lemma issue_exact:
  assumes "sp_response (chan s) = None"
  shows "yields (at_issue dev cmd f s)
           (\<lambda>(err, r, s'). issues 1 s s' \<and> (err = 0 \<longrightarrow> r \<noteq> None) \<and> (\<exists>c. s' = s\<lparr>chan := c, at_cmds := at_cmds s @ [cmd]\<rparr>))"
proof -
  obtain fails es where d: "dev (length (at_cmds s)) = (fails, es)"
    by (cases "dev (length (at_cmds s))")
  show ?thesis
    using form_done [OF assms, of "at_written fails (chan s)" es]
    by (auto simp: at_issue_def d yields_def at_done_def issues_def)
qed

lemma issue:
  "sp_response (chan s) = None \<Longrightarrow> yields (at_issue dev cmd f s) (\<lambda>(err, r, s'). issues 1 s s' \<and> (err = 0 \<longrightarrow> r \<noteq> None))"
  by (rule yields_mono [OF issue_exact]) auto

end

context at_line_form
begin

lemma issue_line:
  assumes "sp_response (chan s) = None"
  shows "yields (at_issue dev cmd f s)
           (\<lambda>(err, r, s'). issues 1 s s' \<and> (\<not> at_response_error err r \<longrightarrow> (\<exists>l. first_line r = Some l)))"
proof -
  obtain fails es where d: "dev (length (at_cmds s)) = (fails, es)"
    by (cases "dev (length (at_cmds s))")
  show ?thesis
    using form_done [OF assms, of "at_written fails (chan s)" es] form_line [of "at_written fails (chan s)" es "chan s"]
    by (auto simp: at_issue_def d yields_def at_done_def issues_def)
qed

end

lemma needs_intermediate_done: "yields m at_done \<Longrightarrow> yields (map_option needs_intermediate m) at_done"
proof -
  have "at_done x \<Longrightarrow> at_done (needs_intermediate x)" for x
    by (auto simp: at_done_def needs_intermediate_def AT_ERROR_INVALID_RESPONSE_def split: option.splits if_splits)
  then show "yields m at_done \<Longrightarrow> yields (map_option needs_intermediate m) at_done"
    by (cases m) auto
qed

lemma needs_intermediate_line:
  assumes "map_option needs_intermediate m = Some (err, r, d)" "\<not> at_response_error err r"
  shows "\<exists>l. first_line r = Some l"
  using assms
  by (auto simp: needs_intermediate_def at_response_error_def first_line_def lines_of_def split: option.splits if_splits list.splits)

interpretation plain: at_form at_send_command
  by unfold_locales (auto simp: at_send_command_def intro: at_send_command_full_total)

interpretation multi: at_form "at_send_command_multiline prefix" for prefix
  by unfold_locales (auto simp: at_send_command_multiline_def intro: at_send_command_full_total)

interpretation single: at_line_form "at_send_command_singleline prefix" for prefix
  by unfold_locales
    (auto simp: at_send_command_singleline_def simp del: map_option_eq_Some
      intro!: needs_intermediate_done at_send_command_full_total intro: needs_intermediate_line)

interpretation numeric: at_line_form at_send_command_numeric
  by unfold_locales
    (auto simp: at_send_command_numeric_def simp del: map_option_eq_Some
      intro!: needs_intermediate_done at_send_command_full_total intro: needs_intermediate_line)

subsection \<open>Scanning a line\<close>

text \<open>Formats without a \<^verbatim>\<open>%\<close> at the end: the scan stays within its format.\<close>

fun fmt_ok :: "cstr \<Rightarrow> bool" where
  "fmt_ok [] = True"
| "fmt_ok [c] = (c \<noteq> 37)"
| "fmt_ok (c # d # fmt) = (if c = 44 \<or> c = 32 then fmt_ok (d # fmt) else c \<noteq> 37 \<or> fmt_ok fmt)"

lemma scanf_loop_total: "fmt_ok fmt \<Longrightarrow> scanf_loop fmt line n out \<noteq> None"
  by (induction fmt line n out rule: scanf_loop.induct) (auto simp: Let_def split: prod.splits)

lemma scan_total: "fmt_ok fmt \<Longrightarrow> yields (at_tok_scanf line fmt) (\<lambda>_. True)"
  using scanf_loop_total by (fastforce simp: at_tok_scanf_def yields_def split: option.split prod.split)

lemma formats_ok [simp]:
  "fmt_ok (ascii ''%d%d'')" "fmt_ok (ascii ''%d%d%d%d'')" "fmt_ok (ascii ''%d%s%s'')" "fmt_ok (ascii ''%d%d%s%d'')"
  "fmt_ok (ascii ''%d%x%x'')" "fmt_ok (ascii ''%d%d%x%x'')" "fmt_ok (ascii ''%d%d%x%x%d'')" "fmt_ok (ascii ''%s%d'')"
  "fmt_ok (ascii ''%s%s%s%s%s%s%s%s%s%s'')"
  by code_simp+

lemmas scan_step = yields_bind [OF scan_total]

lemma cgact_state_total: "yields (cgact_state context ls) (\<lambda>_. True)"
  by (induction ls) (auto intro!: scan_step)

lemma cgact_keep_total: "yields (cgact_keep context ls cid state) (\<lambda>_. True)"
  by (induction ls arbitrary: cid state) (auto intro!: scan_step)

lemma netdevctl_scan_total: "yields (netdevctl_scan context ls st) (\<lambda>_. True)"
  by (induction ls arbitrary: st) (auto simp: Let_def intro!: scan_step split: prod.split)

lemma cgpaddr_search_total: "yields (cgpaddr_search context ls) (\<lambda>_. True)"
  by (induction ls) (auto intro!: scan_step split: option.split)

lemma eg800q_connected_total: "yields (eg800q_connected junk ls) (\<lambda>_. True)"
  by (induction ls) (auto intro!: scan_step)

lemma reg_state_total: "yields (reg_state line) (\<lambda>_. True)"
  by (auto simp: reg_state_def reg_scan_def Let_def intro!: scan_step split: prod.split)

lemmas lines_total = cgact_state_total cgact_keep_total netdevctl_scan_total cgpaddr_search_total eg800q_connected_total reg_state_total

lemma not_error: "\<not> at_response_error err r \<Longrightarrow> \<exists>p. r = Some p"
  by (auto simp: at_response_error_def split: option.splits)

lemma lines_of_Some [simp]: "lines_of (Some p) = Some (p_intermediates p)"
  by (simp add: lines_of_def)

subsection \<open>The handlers\<close>

lemmas issue_steps = yields_bind [OF plain.issue] yields_bind [OF multi.issue] yields_bind [OF single.issue] yields_bind [OF numeric.issue]
lemmas line_steps = yields_bind [OF cgact_state_total] yields_bind [OF cgact_keep_total]
  yields_bind [OF netdevctl_scan_total] yields_bind [OF cgpaddr_search_total] yields_bind [OF eg800q_connected_total]
  yields_bind [OF reg_state_total] scan_step

lemma asr_activate_total:
  "sp_response (chan a) = None \<Longrightarrow> yields (asr_activate dev context a) (\<lambda>(e, b). issues 2 a b)"
  unfolding asr_activate_def
  by (auto simp: issues_def dest!: not_error intro!: issue_steps line_steps)

lemma await_netdev_total:
  "sp_response (chan a) = None \<Longrightarrow> yields (await_netdev dev context n a) (\<lambda>(e, b). issues n a b)"
proof (induction n arbitrary: a)
  case (Suc n)
  have "yields (await_netdev dev context n b) (\<lambda>(e, b). issues (Suc n) a b)" if "issues 1 a b" for b
    using Suc.IH [OF issues_idle [OF that]] by (rule yields_mono) (auto intro: issues_trans [OF that])
  then show ?case
    using Suc.prems by (auto intro!: issue_steps intro: issues_few)
qed (simp add: issues_refl)

lemma atc_dial_total:
  assumes "sp_response (chan a) = None"
  shows "yields (atc_dial dev context a) (\<lambda>(e, b). issues 16 a b)"
proof -
  have ev: "issues n a (send_event e b) = issues n a b" for n e b
    by (simp add: issues_def send_event_def)
  have await: "yields (await_netdev dev context 15 b) (\<lambda>(e, d). issues 16 a d)" if "issues 1 a b" for b
    using await_netdev_total [OF issues_idle [OF that], of dev "context" 15]
    by (rule yields_mono) (auto intro: issues_trans [OF that])
  show ?thesis
    unfolding atc_dial_def using assms
    by (auto simp: ev intro!: issue_steps yields_bind [OF await] intro: issues_few split: option.split)
qed

lemma atc_setup_total:
  assumes "sp_response (chan a) = None"
  shows "yields (atc_requestSetupDataCall dev profile family a) (\<lambda>(e, q, b). q = profile \<and> issues 18 a b)"
proof -
  let ?a = "if strStartsWith (BaseBandVersion profile) (ascii ''RG801H'') \<or> strStartsWith (BaseBandVersion profile) (ascii ''EC200H'')
              then a\<lparr>system_log := system_log a @ [ascii ''ifconfig '' @ usbnet_adapter profile @ ascii '' up'']\<rparr> else a"
  have i: "issues n ?a b = issues n a b" for n b
    by (simp add: issues_def)
  have act: "yields (if asr_style_atc ?a then asr_activate dev (pdp profile) ?a else Some (None, ?a)) (\<lambda>(e, b). issues 2 a b)"
    using asr_activate_total [of ?a dev "pdp profile"] assms by (auto simp: i issues_def)
  have dial: "yields (do { (err, b) \<leftarrow> atc_dial dev (pdp profile) b; Some (err, profile, b) }) (\<lambda>(e, q, b). q = profile \<and> issues 18 a b)"
    if "issues 2 a b" for b
    by (rule yields_bind [OF atc_dial_total [OF issues_idle [OF that]]]) (use issues_trans [OF that, of 16 _ 18] in auto)
  show ?thesis
    unfolding atc_requestSetupDataCall_def Let_def
    by (rule yields_bind [OF act]) (auto simp: dial intro: issues_few split: option.split)
qed

lemma cgpaddr_total: "sp_response (chan a) = None \<Longrightarrow> yields (cgpaddr dev context a) (\<lambda>(v, b). issues 1 a b)"
  unfolding cgpaddr_def by (auto dest!: not_error intro!: issue_steps line_steps)

lemma netdevstatus_total:
  assumes "sp_response (chan a) = None"
  shows "yields (at_netdevstatus dev junk context a) (\<lambda>(v, b). issues 2 a b)"
proof -
  have "yields (cgpaddr dev context b) (\<lambda>(v, d). issues 2 a d)" if "issues 1 a b" for b
    using cgpaddr_total [OF issues_idle [OF that]] by (rule yields_mono) (auto intro: issues_trans [OF that])
  then show ?thesis
    unfolding at_netdevstatus_def using assms
    by (auto simp: issues_few(1) dest!: not_error intro!: issue_steps line_steps split: list.split)
qed

lemma asr_query_total: "sp_response (chan a) = None \<Longrightarrow> yields (asr_query dev junk context a) (\<lambda>(s, b). issues 2 a b)"
  unfolding asr_query_def
  by (auto simp: issues_def dest!: not_error intro!: issue_steps line_steps)

lemma issues_status [simp]: "issues n a (change_connect_status s b) = issues n a b"
  by (simp add: issues_def change_connect_status_def)

lemma atc_query_total:
  assumes "sp_response (chan a) = None"
  shows "yields (atc_requestQueryDataCall dev junk old family a) (\<lambda>(e, s, b). e = 0 \<and> issues 2 a b)"
  unfolding atc_requestQueryDataCall_def using assms
  by (auto intro!: yields_bind [OF netdevstatus_total] yields_bind [OF asr_query_total])

lemma atc_hangup_total:
  assumes "sp_response (chan a) = None"
  shows "yields (atc_requestDeactivateDefaultPDP dev profile family a)
           (\<lambda>(e, q, b). e = 0 \<and> q = profile \<and> issues 1 a b \<and> at_cmds b = at_cmds a @ [hangup_command (pdp profile) a])"
  unfolding atc_requestDeactivateDefaultPDP_def using assms
  by (auto simp: change_connect_status_def issues_def intro!: yields_bind [OF plain.issue_exact])

lemma atc_address_total:
  assumes "sp_response (chan a) = None"
  shows "yields (atc_requestGetIPAddress dev junk profile family a) (\<lambda>(e, q, b). issues 2 a b)"
  unfolding atc_requestGetIPAddress_def Let_def using assms
  by (auto intro!: yields_bind [OF netdevstatus_total] yields_bind [OF cgpaddr_total] intro: issues_few)

lemma atc_registration_total:
  assumes "sp_response (chan a) = None"
  shows "yields (atc_requestRegistrationState dev old a) (\<lambda>(e, s, b). (s = 0 \<or> s = 1) \<and> issues 2 a b)"
  unfolding atc_requestRegistrationState_def using assms
  by (auto simp: issues_def dest!: not_error intro!: issue_steps line_steps split: list.split option.split)

subsection \<open>Addresses\<close>

lemma c_int_id: "- (2 ^ 31) \<le> i \<Longrightarrow> i < 2 ^ 31 \<Longrightarrow> c_int i = i"
  by (simp add: c_int_def sint_sbintrunc' signed_take_bit_int_eq_self)

lemma sscan_d_dec_of:
  assumes "n < 2 ^ 31" "r = [] \<or> \<not> c_isdigit (hd r)"
  shows "sscan_d (dec_of n @ r) = Some (int n, r)"
proof -
  obtain c u where cu: "dec_of n = c # u"
    by (cases "dec_of n") auto
  then have c: "c_isdigit c"
    using dec_of_digits [of c n] by simp
  have tw: "takeWhile c_isdigit (c # u @ r) = c # u"
    using assms(2) dec_of_digits [of _ n] cu by (cases r) (auto simp: takeWhile_append takeWhile_eq_all_conv)
  have "c_int (int n) = int n"
    using assms(1) by (intro c_int_id) simp_all
  moreover have "\<not> c_isspace c" "c \<noteq> 45" "c \<noteq> 43"
    using c digit_not_space by (auto simp: c_isdigit_def)
  ultimately show ?thesis
    using tw digits_value_dec_of [of n] cu by (simp add: sscan_d_def Let_def)
qed

definition dotted_text :: "byte \<Rightarrow> byte \<Rightarrow> byte \<Rightarrow> byte \<Rightarrow> cstr" where
  "dotted_text a b c d = dec_of (unat a) @ 46 # dec_of (unat b) @ 46 # dec_of (unat c) @ 46 # dec_of (unat d)"

lemma dotted_dotted_text:
  "dotted 4 (dotted_text a b c d) = map (\<lambda>x. int (unat x)) [a, b, c, d]"
proof -
  have byte: "unat x < 2 ^ 31" for x :: byte
    using unat_byte_lt [of x] by simp
  have dot: "\<not> c_isdigit 46"
    by (simp add: c_isdigit_def)
  have last: "sscan_d (dec_of (unat d)) = Some (int (unat d), [])"
    using sscan_d_dec_of [OF byte, of "[]" d] by simp
  have "sscan_d (dec_of (unat x) @ 46 # r) = Some (int (unat x), 46 # r)" for x :: byte and r
    using sscan_d_dec_of [OF byte, of "46 # r" x] dot by simp
  then show ?thesis
    by (simp add: dotted_text_def eval_nat_numeral last)
qed

lemma addr_word_bytes: "addr_word (map (\<lambda>x. int (unat x)) [a, b, c, d]) = le32 a b c d"
proof -
  let ?w = "\<lambda>x. ucast (x :: byte) :: u32"
  have bits: "bit (?w x) n \<Longrightarrow> n < 8" for x n
    by (auto simp: bit_unsigned_iff dest: bit_imp_le_length)
  have "push_bit 16 (?w c) + push_bit 24 (?w d) = push_bit 16 (?w c) OR push_bit 24 (?w d)"
    by (rule disjunctive_add) (auto simp: bit_push_bit_iff dest!: bits)
  moreover have "push_bit 8 (?w b) + (push_bit 16 (?w c) OR push_bit 24 (?w d)) = push_bit 8 (?w b) OR push_bit 16 (?w c) OR push_bit 24 (?w d)"
    by (rule disjunctive_add) (auto simp: bit_push_bit_iff bit_or_iff dest!: bits)
  moreover have "?w a + (push_bit 8 (?w b) OR push_bit 16 (?w c) OR push_bit 24 (?w d))
      = ?w a OR push_bit 8 (?w b) OR push_bit 16 (?w c) OR push_bit 24 (?w d)"
    by (rule disjunctive_add) (auto simp: bit_push_bit_iff bit_or_iff dest!: bits)
  ultimately have "?w a OR push_bit 8 (?w b) OR push_bit 16 (?w c) OR push_bit 24 (?w d)
      = ?w a + (push_bit 8 (?w b) + (push_bit 16 (?w c) + push_bit 24 (?w d)))"
    by simp
  also have "\<dots> = le32 a b c d"
    by (simp add: le32_def push_bit_eq_mult)
  finally show ?thesis
    by (simp add: addr_word_def check_mcu_endian_def bytes32_def)
qed

text \<open>Equations to evaluate addresses with.\<close>

lemma little_endian [code]: "check_mcu_endian = True"
  by (simp add: check_mcu_endian_def bytes32_def)

lemma addr_word_eval [code]:
  "addr_word addr =
     (if check_mcu_endian then word_of_int (addr ! 0) OR word_of_int (addr ! 1 * 256) OR word_of_int (addr ! 2 * 65536) OR word_of_int (addr ! 3 * 16777216)
      else word_of_int (addr ! 0 * 16777216) OR word_of_int (addr ! 1 * 65536) OR word_of_int (addr ! 2 * 256) OR word_of_int (addr ! 3))"
  by (simp add: addr_word_def Let_def push_bit_eq_mult)

lemma dotted_address_text: "dotted_address (dotted_text a b c d) = le32 a b c d"
  unfolding dotted_address_def dotted_dotted_text addr_word_bytes [symmetric] by (simp add: addr_array_def)

text \<open>A command whose modem answers with one line and \<^verbatim>\<open>OK\<close>.\<close>

lemma final_lines: "isFinalResponseSuccess (ascii ''OK'')" "ascii ''OK'' \<noteq> ascii ''CONNECT''" "at_final (ascii ''CONNECT'')"
  by code_simp+

lemma single_reply:
  assumes "sp_response c = None" "at_writable c" "strStartsWith l prefix" "\<not> at_final l"
  shows "\<exists>d. at_send_command_singleline prefix 0 [At_line l, At_line (ascii ''OK'')] c =
           Some (0, Some \<lparr>at_success = True, finalResponse = Some (ascii ''OK''), p_intermediates = [l]\<rparr>, d) \<and> sp_response d = None"
proof -
  let ?c = "c\<lparr>s_type := SINGLELINE, s_responsePrefix := Some prefix, s_smsPDU := None, sp_response := Some at_response_new,
              cond_signalled := False\<rparr>"
  let ?d = "?c\<lparr>sp_response := Some (at_response_new\<lparr>p_intermediates := [l]\<rparr>)\<rparr>"
  have "l \<noteq> ascii ''CONNECT''"
    using assms(4) final_lines(3) by auto
  then have "processLine l ?c = Some ?d"
    using assms(3,4) by (auto simp: processLine_def at_final_def intermediate_def addIntermediate_def at_response_new_def)
  moreover obtain e where "processLine (ascii ''OK'') ?d = Some e" "s_readerClosed e = s_readerClosed c"
    "sp_response e = Some \<lparr>at_success = True, finalResponse = Some (ascii ''OK''), p_intermediates = [l]\<rparr>"
    by (simp add: processLine_def final_lines handleFinalResponse_def handleUnsolicited_def at_response_new_def Let_def)
  ultimately show ?thesis
    using assms(1,2)
    by (simp add: at_send_command_singleline_def at_send_command_full_def at_send_begin_def at_wait.simps at_response_new_def
        at_send_end_def needs_intermediate_def clearPendingCommand_def at_writable_def)
qed

lemma scanf_space:
  assumes "at_tok_hasmore (Some s)" "\<not> at_dash (Some s)"
  shows "scanf_loop (37 # d # fmt) (Some (32 # s)) n out = scanf_loop (37 # d # fmt) (Some s) n out"
proof -
  have "nextTok (Some (32 # s)) = nextTok (Some s)"
    by (simp add: nextTok_def skipWhiteSpace_def c_isspace_def)
  then have "scan_one x (Some (32 # s)) = scan_one x (Some s)" if "x \<in> {100, 120, 98, 115}" for x
    using that by (auto simp: scan_one_def at_tok_nextint_def at_tok_nexthexint_def at_tok_nextbool_def at_tok_nextint_base_def at_tok_nextstr_def)
  moreover have "\<not> at_dash (Some (32 # s))"
    by (auto simp: at_dash_def split: list.split)
  moreover have "at_tok_hasmore (Some (32 # s))"
    by (simp add: at_tok_hasmore_def)
  ultimately show ?thesis
    using assms by (cases "d \<in> {100, 120, 98, 115}") (auto simp: scan_one_def)
qed

lemma scan_cgpaddr:
  assumes "- (2 ^ 31) \<le> i" "i < 2 ^ 31" "34 \<notin> set t" "length t \<le> 900"
  shows "at_tok_scanf (Some (ascii ''+CGPADDR: '' @ int_of i @ [44] @ quoted t)) (ascii ''%d%s%s'')
         = Some (2, [AtInt i, AtStr (Some t)])"
proof -
  obtain c u where cu: "int_of i = c # u" "c \<noteq> 45 \<or> u \<noteq> [] \<and> hd u \<noteq> 44" by (rule int_of_first)
  let ?s = "int_of i @ 44 # 34 # t @ [34]"
  have fmt: "ascii ''%d%s%s'' = [37, 100, 37, 115, 37, 115]"
    by code_simp
  have rest: "scanf_loop [37, 115] (Some []) n out = Some (n, out)" for n out
    by (simp add: at_tok_hasmore_def)
  have "length (int_of i) \<le> 11"
  proof -
    have "nat i \<le> nat (2 ^ 31)" "nat (- i) \<le> nat (2 ^ 31)"
      using assms(1,2) by (intro nat_mono; simp)+
    then have "nat i < 10 ^ 10" "nat (- i) < 10 ^ 10"
      by simp_all
    then show ?thesis
      using length_dec_of [of "nat i" 10] length_dec_of [of "nat (- i)" 10] by (simp add: int_of_def)
  qed
  then have len: "length (ascii ''+CGPADDR: '' @ ?s) \<le> 1023"
    using assms(4) by (simp add: ascii_def)
  have "at_tok_hasmore (Some ?s)" "\<not> at_dash (Some ?s)"
    using cu by (cases u; auto simp: at_tok_hasmore_def at_dash_def split: list.splits)+
  then have "scanf_loop (ascii ''%d%s%s'') (Some (32 # ?s)) 0 [] = scanf_loop (ascii ''%d%s%s'') (Some ?s) 0 []"
    unfolding fmt by (rule scanf_space)
  also have "\<dots> = Some (2, [AtInt i, AtStr (Some t)])"
    using scanf_field [of "FInt i" ?s "34 # t @ [34]" "[37, 115, 37, 115]" 0 "[]"]
      scanf_field [of "FStr t" "34 # t @ [34]" "[]" "[37, 115]" 1 "[AtInt i]"] assms rest
    by (simp add: fmt del: scanf_loop.simps)
  finally have "scanf_loop (ascii ''%d%s%s'') (Some (32 # ?s)) 0 [] = Some (2, [AtInt i, AtStr (Some t)])" .
  moreover have "at_tok_start (Some (ascii ''+CGPADDR: '' @ ?s)) = (0, Some (32 # ?s))"
    by (simp add: at_tok_start_def ascii_def)
  ultimately show ?thesis
    using len by (simp add: at_tok_scanf_def quoted_def)
qed

subsection \<open>The contract of the connection manager\<close>

lemma atc_mode:
  "pred_option (\<lambda>(e, q, b). same_mode p q) (atc_requestBaseBandVersion dev p a)"
  "pred_option (\<lambda>(e, q, b). same_mode p q) (atc_requestSetProfile dev p a)"
  "pred_option (\<lambda>(e, q, b). same_mode p q) (atc_requestSetupDataCall dev p f a)"
  "pred_option (\<lambda>(e, q, b). same_mode p q) (atc_requestDeactivateDefaultPDP dev p f a)"
  "pred_option (\<lambda>(e, q, b). same_mode p q) (atc_requestGetIPAddress dev junk p f a)"
  "pred_option (\<lambda>(e, q, b). same_mode p q) (atc_init dev p a)"
  unfolding atc_requestBaseBandVersion_def atc_requestSetProfile_def atc_requestSetupDataCall_def
    atc_requestDeactivateDefaultPDP_def atc_requestGetIPAddress_def atc_init_def Let_def
  by (auto intro!: pred_option_bind_any split: option.split list.split)

lemma store_old_mode: "pred_option (same_mode p) (store_old type n u w i p)"
  unfolding store_old_def by (auto intro!: pred_option_bind_any)

lemma atc_get_profile_mode:
  "pred_option (pred_option (\<lambda>(e, q, b). same_mode p q)) (atc_requestGetProfile dev junk fuel p a)"
proof -
  have [simp]: "same_mode (p\<lparr>iptype := i\<rparr>) q = same_mode p q" for i q
    by (simp add: same_mode_def)
  show ?thesis
    unfolding atc_requestGetProfile_def Let_def
    by (auto intro!: pred_option_bind_any pred_option_bindI [OF store_old_mode] split: option.split)
qed

interpretation atc: dial_modem "atc_request_table dev junk fuel" "atc_device_table dev" for dev junk fuel
  by unfold_locales (auto simp: atc_request_table_def atc_device_table_def atc_mode atc_get_profile_mode)

subsection \<open>Properties\<close>

text \<open>C14: Whatever the modem answers, and whether it answers at all, the AT handlers the connection manager dials with come
  to an end without a fault, leave the channel free for the next command and issue a bounded number of commands: 18 for setting up a
  call, 2 for the state of the call, its address and the registration, and one for hanging up.\<close>

theorem atc_calls_return:
  assumes "sp_response (chan a) = None"
  shows "(\<exists>e b. atc_requestSetupDataCall dev p f a = Some (e, p, b) \<and> sp_response (chan b) = None \<and>
            length (at_cmds b) \<le> length (at_cmds a) + 18) \<and>
         (\<exists>s b. atc_requestQueryDataCall dev junk old f a = Some (0, s, b) \<and> sp_response (chan b) = None \<and>
            length (at_cmds b) \<le> length (at_cmds a) + 2) \<and>
         (\<exists>e q b. atc_requestGetIPAddress dev junk p f a = Some (e, q, b) \<and> sp_response (chan b) = None \<and>
            length (at_cmds b) \<le> length (at_cmds a) + 2) \<and>
         (\<exists>e s b. atc_requestRegistrationState dev old a = Some (e, s, b) \<and> (s = 0 \<or> s = 1) \<and> sp_response (chan b) = None \<and>
            length (at_cmds b) \<le> length (at_cmds a) + 2) \<and>
         (\<exists>b. atc_requestDeactivateDefaultPDP dev p f a = Some (0, p, b) \<and> sp_response (chan b) = None \<and>
            at_cmds b = at_cmds a @ [hangup_command (pdp p) a])"
  using atc_setup_total [OF assms, of dev p f] atc_query_total [OF assms, of dev junk old f] atc_address_total [OF assms, of dev junk p f]
    atc_registration_total [OF assms, of dev old] atc_hangup_total [OF assms, of dev p f]
  by (intro conjI) (auto simp: yields_def issues_def)

definition free_chan :: at_chan where
  "free_chan = \<lparr>s_fd = 3, s_atc_proxy = False, s_readerClosed = False, s_type = NO_RESULT, s_responsePrefix = None, s_smsPDU = None,
     s_raw_data = None, sp_response = None, cond_signalled = False, unsolicited = [], at_output = []\<rparr>"

definition sample_atc :: atc where
  "sample_atc = \<lparr>chan = free_chan, at_cmds = [], style_atc = UNKNOWN, asr_style_atc = True, s_pdp = 1, modem_restarts = False,
     shm_status = None, system_log = [], to_main = []\<rparr>"

theorem atc_calls_return_witness:
  "\<exists>b. atc_requestDeactivateDefaultPDP (\<lambda>n. (False, [])) (s_profile\<lparr>pdp := 1\<rparr>) IpFamilyV4 sample_atc = Some (0, s_profile\<lparr>pdp := 1\<rparr>, b) \<and>
       sp_response (chan b) = None \<and> at_cmds b = [netdevctl 0 1 0]"
  using atc_calls_return [of sample_atc "\<lambda>n. (False, [])" "s_profile\<lparr>pdp := 1\<rparr>" IpFamilyV4]
  by (simp add: sample_atc_def free_chan_def hangup_command_def s_profile_def)

text \<open>The address an ASR modem reports in dotted form for the context of the profile is the one the profile gets, with its
  numbers in the order of the bytes in memory; one command is issued.\<close>

theorem atc_address:
  assumes "sp_response (chan a) = None" "at_writable (chan a)" "asr_style_atc a"
    "- (2 ^ 31) \<le> pdp p" "pdp p < 2 ^ 31" "le32 b0 b1 b2 b3 \<noteq> 0"
    "dev (length (at_cmds a)) =
       (False, [At_line (ascii ''+CGPADDR: '' @ int_of (pdp p) @ [44] @ quoted (dotted_text b0 b1 b2 b3)), At_line (ascii ''OK'')])"
  shows "\<exists>b. atc_requestGetIPAddress dev junk p f a = Some (0, p\<lparr>ipv4 := (ipv4 p)\<lparr>Address4 := le32 b0 b1 b2 b3\<rparr>\<rparr>, b) \<and>
             at_cmds b = at_cmds a @ [ascii ''AT+CGPADDR='' @ int_of (pdp p)]"
proof -
  let ?l = "ascii ''+CGPADDR: '' @ int_of (pdp p) @ [44] @ quoted (dotted_text b0 b1 b2 b3)"
  have "strStartsWith ?l (ascii ''+CGPADDR:'')" "\<not> at_final ?l"
    by (simp_all add: ascii_def at_final_def isFinalResponseSuccess_def isFinalResponseError_def s_finalResponsesSuccess_def s_finalResponsesError_def)
  from single_reply [OF assms(1,2) this] obtain d where d: "at_send_command_singleline (ascii ''+CGPADDR:'') 0 [At_line ?l, At_line (ascii ''OK'')] (chan a) =
           Some (0, Some \<lparr>at_success = True, finalResponse = Some (ascii ''OK''), p_intermediates = [?l]\<rparr>, d)" "sp_response d = None"
    by blast
  have "34 \<notin> set (dotted_text b0 b1 b2 b3)" "length (dotted_text b0 b1 b2 b3) \<le> 900"
    using dec_of_byte [of b0] dec_of_byte [of b1] dec_of_byte [of b2] dec_of_byte [of b3] dec_of_no_sep [of 34]
    by (auto simp: dotted_text_def c_isdigit_def)
  from scan_cgpaddr [OF assms(4,5) this]
  have "cgpaddr_search (pdp p) [?l] = Some (le32 b0 b1 b2 b3)"
    by (simp add: scanned_int_def scanned_str_def dotted_address_text)
  then have "cgpaddr dev (pdp p) a = Some (le32 b0 b1 b2 b3, a\<lparr>chan := d, at_cmds := at_cmds a @ [ascii ''AT+CGPADDR='' @ int_of (pdp p)]\<rparr>)"
    using d assms(2,7) by (simp add: cgpaddr_def at_issue_def at_written_def at_response_error_def)
  then show ?thesis
    using assms(3,6) by (auto simp: atc_requestGetIPAddress_def Let_def change_connect_status_def)
qed

theorem atc_address_witness:
  "\<exists>b. atc_requestGetIPAddress
      (\<lambda>n. (False, [At_line (ascii ''+CGPADDR: 1,'' @ quoted (ascii ''10.201.80.91'')), At_line (ascii ''OK'')])) 0
      (s_profile\<lparr>pdp := 1\<rparr>) IpFamilyV4 sample_atc = Some (0, s_profile\<lparr>pdp := 1, ipv4 := ipv4_zero\<lparr>Address4 := 0x5B50C90A\<rparr>\<rparr>, b) \<and>
     at_cmds b = [ascii ''AT+CGPADDR=1'']"
  using atc_address [of sample_atc "s_profile\<lparr>pdp := 1\<rparr>" 10 201 80 91
      "\<lambda>n. (False, [At_line (ascii ''+CGPADDR: 1,'' @ quoted (ascii ''10.201.80.91'')), At_line (ascii ''OK'')])" 0 IpFamilyV4]
  by (simp add: sample_atc_def free_chan_def at_writable_def s_profile_def int_of_def dec_of.simps le32_def ascii_def quoted_def dotted_text_def)

text \<open>Dialling through the table of the connection manager.\<close>

abbreviation chan_free :: "atc cm \<Rightarrow> bool" where
  "chan_free c \<equiv> sp_response (chan (modem c)) = None"

lemma call_setup:
  assumes "chan_free c"
  shows "yields (call_op (op_SetupDataCall (atc_request_table dev junk fuel)) f c)
           (\<lambda>(e, d). issues 18 (modem c) (modem d) \<and> IPv4ConnectionStatus d = IPv4ConnectionStatus c)"
  unfolding call_op_def using assms
  by (auto simp: atc_request_table_def intro!: yields_bind [OF atc_setup_total])

lemma address_nonzero:
  assumes "sp_response (chan a) = None"
  shows "yields (atc_requestGetIPAddress dev junk p f a) (\<lambda>(e, q, b). issues 2 a b \<and> (e = 0 \<longrightarrow> Address4 (ipv4 q) \<noteq> 0))"
  unfolding atc_requestGetIPAddress_def Let_def using assms
  by (auto intro!: yields_bind [OF netdevstatus_total] yields_bind [OF cgpaddr_total] intro: issues_few)

lemma call_address:
  assumes "chan_free c"
  shows "yields (call_op (op_GetIPAddress (atc_request_table dev junk fuel)) f c)
           (\<lambda>(e, d). issues 2 (modem c) (modem d) \<and> (e = 0 \<longrightarrow> Address4 (ipv4 (prof d)) \<noteq> 0) \<and>
                     IPv4ConnectionStatus d = IPv4ConnectionStatus c)"
  unfolding call_op_def using assms
  by (auto simp: atc_request_table_def intro!: yields_bind [OF address_nonzero])

lemma setup_with_auth_total:
  assumes "chan_free c"
  shows "yields (setup_with_auth (atc_request_table dev junk fuel) c)
           (\<lambda>(e, d). issues 36 (modem c) (modem d) \<and> IPv4ConnectionStatus d = IPv4ConnectionStatus c)"
proof -
  have again: "yields (call_op (op_SetupDataCall (atc_request_table dev junk fuel)) IpFamilyV4 (d\<lparr>prof := q\<rparr>))
      (\<lambda>(e, x). issues 36 (modem c) (modem x) \<and> IPv4ConnectionStatus x = IPv4ConnectionStatus d)" if "issues 18 (modem c) (modem d)" for d q
  proof -
    have "chan_free (d\<lparr>prof := q\<rparr>)"
      using issues_idle [OF that] by simp
    from call_setup [OF this] show ?thesis
      by (rule yields_mono) (use issues_trans [OF that, of 18 _ 36] in auto)
  qed
  show ?thesis
    unfolding setup_with_auth_def
    by (rule yields_bind [OF call_setup [OF assms]])
      (auto simp: Let_def intro!: yields_bind [OF again] intro: issues_few)
qed


text \<open>A modem that answers the first command, the one of an address and the registration, and is silent otherwise.\<close>

definition sample_at_device :: at_device where
  "sample_at_device n =
     (False, if n = 0 then [At_line (ascii ''+QNETDEVSTATUS: 1''), At_line (ascii ''OK'')]
             else if n = 1 \<or> n = 2 then [At_line (ascii ''+QNETDEVSTATUS: '' @ quoted (ascii ''10.0.0.2'')), At_line (ascii ''OK'')]
             else [])"

definition sample_atc_cm :: "atc cm" where
  "sample_atc_cm = \<lparr>prof = s_profile\<lparr>enable_ipv4 := True, pdp := 1, proxy := ascii ''quectel-atc-proxy'',
       request_ops := Some atc_request_ops, usbnet_adapter := ascii ''usb0''\<rparr>,
     modem = sample_atc\<lparr>asr_style_atc := False\<rparr>, PSAttachedState = 0, IPv4ConnectionStatus = 0,
     IPv6ConnectionStatus = 0, SetupCallFail = 0, SetupCallAllowTime = 0, s_link = - 1,
     g_donot_exit_when_modem_hangup = 0, g_reboot_modem = 0, signals = [], events = [], device_cmds = [],
     pending_alarm = 0, net = [], readings = 0, kills = []\<rparr>"


text \<open>C15: The connection manager keeps its invariant on an AT modem: whatever signals, device events and answers of the modem
  \<^verbatim>\<open>qmi_main\<close> meets with the table \<^verbatim>\<open>atc_request_ops\<close>, calls it believes connected and the network link belong to enabled
  families, and dialling is put off by at most a minute.\<close>

theorem atc_manager_invariant:
  assumes "qmi_main os clock fuel env (atc_request_table dev junk fuel') (atc_device_table dev) inputs c = Some (Main_running d)"
    and "s_link c = - 1 \<or> s_link c = 0"
  shows "(IPv4ConnectionStatus d = QWDS_PKT_DATA_CONNECTED \<longrightarrow> enable_ipv4 (prof c)) \<and>
         (IPv6ConnectionStatus d = QWDS_PKT_DATA_CONNECTED \<longrightarrow> enable_ipv6 (prof c)) \<and>
         (s_link d = - 1 \<or> (bit (s_link d) 4 \<longrightarrow> enable_ipv4 (prof c)) \<and> (bit (s_link d) 6 \<longrightarrow> enable_ipv6 (prof c))) \<and>
         (\<exists>j < readings d. \<exists>s \<in> {0, 1, 5, 10, 20, 40, 60}. SetupCallAllowTime d = clock j + 1000 * s)"
proof -
  have "link_ok (prof c) (s_link c)"
    using assms(2) by (auto simp: link_ok_def)
  from atc.qmi_main_ok [OF this, of clock os fuel env dev junk fuel' inputs] have "cm_ok clock (prof c) d"
    using assms(1) by (simp add: outcome_ok_def)
  then show ?thesis
    by (auto simp: cm_ok_def same_mode_def link_ok_def delays_def)
qed

theorem atc_manager_invariant_witness:
  "\<exists>d. qmi_main quiet_net of_nat 1 sample_env (atc_request_table sample_at_device 0 1) (atc_device_table sample_at_device) [nothing] sample_atc_cm
         = Some (Main_running d) \<and> s_link d = 0 \<and> \<not> bit (s_link d) 6"
proof -
  let ?run = "qmi_main quiet_net of_nat 1 sample_env (atc_request_table sample_at_device 0 1) (atc_device_table sample_at_device) [nothing] sample_atc_cm"
  have "(case ?run of Some (Main_running d) \<Rightarrow> s_link d = 0 | _ \<Rightarrow> False)"
    by code_simp
  then obtain d where d: "?run = Some (Main_running d)" "s_link d = 0"
    by (auto split: option.splits main_outcome.splits)
  have "s_link sample_atc_cm = - 1 \<or> s_link sample_atc_cm = 0"
    by (simp add: sample_atc_cm_def)
  from atc_manager_invariant [OF d(1) this] d show ?thesis
    by (auto simp: sample_atc_cm_def s_profile_def)
qed

text \<open>The result of entering a PIN does not depend on the answer of the modem: it is an error even if the PIN was accepted.\<close>

theorem atc_pin_always_fails:
  "atc_requestEnterSimPin dev pin a = Some (e, b) \<Longrightarrow> e = - 1"
  by (auto simp: atc_requestEnterSimPin_def at_response_error_def bind_eq_Some_conv split: prod.splits)

end
