(* ===== verification/Mbim_Wire.thy ===== *)
theory Mbim_Wire
  imports Atc
begin

text \<open>
  The wire format of MBIM as \<^verbatim>\<open>mbim-cm.c\<close> has it: service identifiers, texts of two bytes per character, messages
  and the records inside of them. A message is the list of its bytes; members are read and written at the offsets of the packed
  structures. The host is little-endian.
\<close>

subsection \<open>Service identifiers\<close>

definition UUID_BASIC_CONNECT :: cstr where "UUID_BASIC_CONNECT = ascii ''a289cc33-bcbb-8b4f-b6b0-133ec2aae6df''"
definition UUID_BASIC_CONNECT_EXT :: cstr where "UUID_BASIC_CONNECT_EXT = ascii ''3d01dcc5-fef5-4d05-0d3a-bef7058e9aaf''"
definition uuid_ext_qmux :: cstr where "uuid_ext_qmux = ascii ''d1a30bc2-f97a-6e43-bf65-c7e24fb0f0d3''"
definition UUID_LIBMBIM_PROXY :: cstr where "UUID_LIBMBIM_PROXY = ascii ''838cf7fb-8d0d-4d7f-871e-d71dbefbb39b''"
definition UUID_MBIMContextTypeInternet :: cstr where
  "UUID_MBIMContextTypeInternet = ascii ''7E5E2A7E-4E6F-7272-736B-656E7E5E2A7E''"

text \<open>The format of an identifier: a byte in hexadecimal where the list has \<^term>\<open>True\<close>, a dash elsewhere.\<close>

definition uuid_format :: "bool list" where
  "uuid_format = [True, True, True, True, False, True, True, False, True, True, False, True, True, False,
                  True, True, True, True, True, True]"

fun uuid_scan :: "bool list \<Rightarrow> cstr \<Rightarrow> int list" where
  "uuid_scan [] s = []"
| "uuid_scan (True # fmt) s = (case sscan_x2 s of None \<Rightarrow> [] | Some (v, r) \<Rightarrow> v # uuid_scan fmt r)"
| "uuid_scan (False # fmt) s = (case s of [] \<Rightarrow> [] | c # r \<Rightarrow> if c = 45 then uuid_scan fmt r else [])"

text \<open>The copy of the text has room for 36 characters, and a byte that was not scanned was never set.\<close>

definition str2uuid :: "cstr \<Rightarrow> buf access" where
  "str2uuid str =
     (if 36 < length str then None
      else (let d = uuid_scan uuid_format (map c_tolower str) in
            if length d = 16 then Some (map word_of_int d) else None))"

definition hex_char :: "nat \<Rightarrow> byte" where
  "hex_char n = of_nat (if n < 10 then 48 + n else 87 + n)"

definition hex2 :: "byte \<Rightarrow> cstr" where
  "hex2 b = [hex_char (unat b div 16), hex_char (unat b mod 16)]"

fun uuid_print :: "bool list \<Rightarrow> buf \<Rightarrow> cstr" where
  "uuid_print (True # fmt) (b # bs) = hex2 b @ uuid_print fmt bs"
| "uuid_print (False # fmt) bs = 45 # uuid_print fmt bs"
| "uuid_print fmt bs = []"

definition uuid2str :: "buf \<Rightarrow> cstr" where
  "uuid2str pUUID = uuid_print uuid_format pUUID"

subsection \<open>Texts\<close>

text \<open>\<^verbatim>\<open>wchar2char\<close> from offset \<open>off\<close> of a block into an array of \<open>dst_len\<close> bytes.\<close>

definition wchar2char :: "buf \<Rightarrow> nat \<Rightarrow> nat \<Rightarrow> nat \<Rightarrow> cstr access" where
  "wchar2char m off src_size dst_len =
     map_option cstr_of (those (map (\<lambda>i. rd8 m (off + i * 2)) [0..<min (dst_len - 1) (src_size div 2)]))"

text \<open>The bytes \<^verbatim>\<open>char2wchar\<close> stores; it returns their number.\<close>

definition char2wchar :: "cstr \<Rightarrow> nat \<Rightarrow> nat \<Rightarrow> buf" where
  "char2wchar src src_len dst_len =
     (let src_len = (if dst_len div 2 < src_len then dst_len div 2 else src_len)
      in concat (map (\<lambda>c. [c, 0]) (take src_len src)))"

subsection \<open>Addresses\<close>

definition mbim2qmi_ipv4addr :: "u32 \<Rightarrow> u32" where
  "mbim2qmi_ipv4addr addr =
     drop_bit 24 addr OR (drop_bit 8 addr AND 0xff00) OR (push_bit 8 addr AND 0xff0000) OR push_bit 24 addr"

definition mbim2qmi_ipv6addr :: "buf \<Rightarrow> nat \<Rightarrow> buf access" where
  "mbim2qmi_ipv6addr m off = rdn m off 16"

subsection \<open>Messages\<close>

definition MBIM_OPEN_MSG :: u32 where "MBIM_OPEN_MSG = 1"
definition MBIM_CLOSE_MSG :: u32 where "MBIM_CLOSE_MSG = 2"
definition MBIM_COMMAND_MSG :: u32 where "MBIM_COMMAND_MSG = 3"
definition MBIM_OPEN_DONE :: u32 where "MBIM_OPEN_DONE = 0x80000001"
definition MBIM_CLOSE_DONE :: u32 where "MBIM_CLOSE_DONE = 0x80000002"
definition MBIM_COMMAND_DONE :: u32 where "MBIM_COMMAND_DONE = 0x80000003"
definition MBIM_FUNCTION_ERROR_MSG :: u32 where "MBIM_FUNCTION_ERROR_MSG = 0x80000004"
definition MBIM_INDICATE_STATUS_MSG :: u32 where "MBIM_INDICATE_STATUS_MSG = 0x80000007"

abbreviation (input) "MBIM_CID_DEVICE_CAPS \<equiv> (1 :: u32)"
abbreviation (input) "MBIM_CID_SUBSCRIBER_READY_STATUS \<equiv> (2 :: u32)"
abbreviation (input) "MBIM_CID_RADIO_STATE \<equiv> (3 :: u32)"
abbreviation (input) "MBIM_CID_REGISTER_STATE \<equiv> (9 :: u32)"
abbreviation (input) "MBIM_CID_PACKET_SERVICE \<equiv> (10 :: u32)"
abbreviation (input) "MBIM_CID_CONNECT \<equiv> (12 :: u32)"
abbreviation (input) "MBIM_CID_IP_CONFIGURATION \<equiv> (15 :: u32)"
abbreviation (input) "MBIM_CID_DEVICE_SERVICES \<equiv> (16 :: u32)"
abbreviation (input) "MBIM_CID_MS_VERSION \<equiv> (15 :: u32)"
abbreviation (input) "MBIM_CID_PROXY_CONTROL_CONFIGURATION \<equiv> (1 :: u32)"
abbreviation (input) "MBIM_CID_CMD_TYPE_QUERY \<equiv> (0 :: u32)"
abbreviation (input) "MBIM_CID_CMD_TYPE_SET \<equiv> (1 :: u32)"

text \<open>\<^verbatim>\<open>MBIM_MESSAGE_HEADER\<close>, and \<^verbatim>\<open>MBIM_COMMAND_MSG_T\<close> with the bytes that follow it.\<close>

definition mbim_header :: "u32 \<Rightarrow> nat \<Rightarrow> u32 \<Rightarrow> buf" where
  "mbim_header type n tid = bytes32 type @ bytes32 (of_nat n) @ bytes32 tid"

definition mbim_command :: "u32 \<Rightarrow> buf \<Rightarrow> u32 \<Rightarrow> u32 \<Rightarrow> u32 \<Rightarrow> buf \<Rightarrow> buf" where
  "mbim_command tid uuid cid ty infolen info =
     mbim_header MBIM_COMMAND_MSG (48 + length info) tid @ bytes32 1 @ bytes32 0 @ uuid @
     bytes32 cid @ bytes32 ty @ bytes32 infolen @ info"

text \<open>\<^verbatim>\<open>memcpy(pRequest->DeviceServiceId.uuid, \<dots>, 16)\<close>\<close>

definition set_service :: "buf \<Rightarrow> buf \<Rightarrow> buf" where
  "set_service uuid m = take 20 m @ uuid @ drop 36 m"

subsection \<open>The connect record\<close>

definition align_32 :: "int \<Rightarrow> int" where
  "align_32 len = len + (if len mod 4 \<noteq> 0 then 4 - len mod 4 else 0)"

definition wide_len :: "cstr option \<Rightarrow> int" where
  "wide_len t = (if nonempty t then 2 * int (length (the t)) else 0)"

text \<open>The size and the offset of a text are the members at \<open>field + 4\<close> and \<open>field\<close>; the space left is a
  \<^verbatim>\<open>size_t\<close>. The result is the new record and the value of \<^verbatim>\<open>offset\<close>, which counts this text only.\<close>

definition put_text :: "int \<Rightarrow> nat \<Rightarrow> cstr option \<Rightarrow> buf \<times> int \<Rightarrow> (buf \<times> int) access" where
  "put_text buflen field t = (\<lambda>(b, offset).
     if nonempty t then do {
       b \<leftarrow> wr b (field + 4) (bytes32 (of_nat (2 * length (the t))));
       b \<leftarrow> wr b field (bytes32 (word_of_int (offset + 60)));
       let w = char2wchar (the t) (length (the t)) (nat ((buflen - offset) mod 2 ^ 64));
       b \<leftarrow> wr b (60 + nat offset) w;
       Some (b, align_32 (int (length w))) }
     else Some (b, offset))"

definition mbim_populate_connect_data ::
  "(nat \<Rightarrow> bool) \<Rightarrow> cstr option \<Rightarrow> cstr option \<Rightarrow> cstr option \<Rightarrow> (int \<times> buf option) access" where
  "mbim_populate_connect_data alloc apn_text user_text passwd =
     (let buflen = align_32 (align_32 (align_32 (wide_len apn_text) + wide_len user_text) + wide_len passwd) in
      if \<not> alloc (60 + nat buflen) then Some (- 1, None)
      else do {
        s \<leftarrow> put_text buflen 8 apn_text (replicate (60 + nat buflen) 0, 0);
        s \<leftarrow> put_text buflen 16 user_text s;
        s \<leftarrow> put_text buflen 24 passwd s;
        Some (buflen, Some (fst s)) })"

end
