(* ===== verification/Mbim.thy ===== *)
theory Mbim
  imports Mbim_Wire
begin

text \<open>
  The MBIM back end (\<^verbatim>\<open>mbim-cm.c\<close>): the rendezvous of a command with the thread that reads the device, the queries and
  settings, the handlers of the table \<^verbatim>\<open>mbim_request_ops\<close> and the table \<^verbatim>\<open>mbim_dev_ops\<close>. The statics of the file are the record
  \<open>mbim\<close>. The environment decides which allocations succeed (by size), what uninitialised memory holds (by offset), what
  \<^verbatim>\<open>write\<close> returns for each command and which messages the reader gets before the command takes the lock and while
  it waits. The build is without \<^verbatim>\<open>CONFIG_CELLINFO\<close>.
\<close>

subsection \<open>State\<close>

definition ENOMEM :: int where "ENOMEM = 12"

record mbim =
  mb_TransactionId :: u32
  mbim_apn :: "cstr option"
  mbim_user :: "cstr option"
  mbim_passwd :: "cstr option"
  mbim_iptype :: int
  mbim_auth :: int
  mbim_sessionID :: int
  mbim_fd :: int
  mb_reader :: bool
  mb_proxied :: bool
  mbim_pRequest :: "buf option"
  mbim_pResponse :: "buf option"
  mb_signalled :: bool
  mb_recv_buf :: buf
  qmi_over_mbim_support :: bool
  qmi_over_mbim_sk :: "(int \<times> int) option"
  qmidev_over_mbim :: bool
  qmi_over_mbim_nas :: byte
  mbim_ms_version :: int
  mbim_open_state :: int
  ReadyState :: u32
  RegisterState :: u32
  PacketServiceState :: u32
  ActivationState :: u32
  oldReadyState :: u32
  oldRegisterState :: u32
  oldPacketServiceState :: u32
  oldActivationState :: u32
  mb_qmi :: qmi_thread
  mb_calls :: nat
  mb_sent :: "buf list"

text \<open>\<open>mb_reader\<close> is \<^verbatim>\<open>s_tid_reader != 0\<close>, \<open>mb_recv_buf\<close> is \<^verbatim>\<open>cm_recv_buf\<close>, \<open>mb_proxied\<close> is \<^verbatim>\<open>profile->proxy[0] != 0\<close>
  of the reader, \<open>mb_qmi\<close> holds the state of the QMI thread and with it the events sent to the main thread; \<open>mb_calls\<close> and
  \<open>mb_sent\<close> record the commands.\<close>

definition mbim_init_state :: mbim where
  "mbim_init_state =
     \<lparr>mb_TransactionId = 1, mbim_apn = None, mbim_user = None, mbim_passwd = None, mbim_iptype = 0, mbim_auth = 0,
      mbim_sessionID = 0, mbim_fd = - 1, mb_reader = False, mb_proxied = False, mbim_pRequest = None, mbim_pResponse = None,
      mb_signalled = False, mb_recv_buf = replicate 4096 0, qmi_over_mbim_support = False, qmi_over_mbim_sk = None,
      qmidev_over_mbim = False, qmi_over_mbim_nas = 0, mbim_ms_version = 1, mbim_open_state = 0,
      ReadyState = 0, RegisterState = 0, PacketServiceState = 0, ActivationState = 0,
      oldReadyState = 0, oldRegisterState = 0, oldPacketServiceState = 0, oldActivationState = 0,
      mb_qmi = qmi_thread_init, mb_calls = 0, mb_sent = []\<rparr>"

definition mb_event :: "cm_event \<Rightarrow> mbim \<Rightarrow> mbim" where
  "mb_event e s = s\<lparr>mb_qmi := qmidevice_send_event_to_main e (mb_qmi s)\<rparr>"

definition mb_events :: "mbim \<Rightarrow> cm_event list" where
  "mb_events s = main_events (mb_qmi s)"

datatype mbim_arrival = Mb_message buf | Mb_close

record mbim_io =
  io_before :: "mbim_arrival list"
  io_write :: int
  io_waiting :: "mbim_arrival list"
  io_late :: "mbim_arrival list"

record mbim_env =
  mb_alloc :: "nat \<Rightarrow> bool"
  mb_junk :: "nat \<Rightarrow> byte"
  mb_device :: "nat \<Rightarrow> mbim_io"
  mb_socketpair :: "(int \<times> int) option"

subsection \<open>Composition of requests\<close>

definition compose_open_command :: "(nat \<Rightarrow> bool) \<Rightarrow> u32 \<Rightarrow> mbim \<Rightarrow> buf option \<times> mbim" where
  "compose_open_command alloc MaxControlTransfer s =
     (if \<not> alloc 16 then (None, s)
      else (Some (mbim_header MBIM_OPEN_MSG 16 (mb_TransactionId s) @ bytes32 MaxControlTransfer),
            s\<lparr>mb_TransactionId := mb_TransactionId s + 1\<rparr>))"

definition compose_close_command :: "(nat \<Rightarrow> bool) \<Rightarrow> mbim \<Rightarrow> buf option \<times> mbim" where
  "compose_close_command alloc s =
     (if \<not> alloc 12 then (None, s)
      else (Some (mbim_header MBIM_CLOSE_MSG 12 (mb_TransactionId s)), s\<lparr>mb_TransactionId := mb_TransactionId s + 1\<rparr>))"

text \<open>A buffer holds at least the \<open>n\<close> bytes that are copied; without one they stay uninitialised.\<close>

definition compose_basic_connect_command ::
  "mbim_env \<Rightarrow> u32 \<Rightarrow> u32 \<Rightarrow> buf option \<Rightarrow> nat \<Rightarrow> mbim \<Rightarrow> (buf option \<times> mbim) access" where
  "compose_basic_connect_command w CID CommandType pInformationBuffer n s =
     (if \<not> mb_alloc w (48 + n) then Some (None, s)
      else do {
        uuid \<leftarrow> str2uuid UUID_BASIC_CONNECT;
        m \<leftarrow> (case pInformationBuffer of
               Some b \<Rightarrow> if n \<noteq> 0
                 then do { b \<leftarrow> rdn b 0 n; Some (mbim_command (mb_TransactionId s) uuid CID CommandType (of_nat n) b) }
                 else Some (mbim_command (mb_TransactionId s) uuid CID CommandType 0 [])
             | None \<Rightarrow> Some (mbim_command (mb_TransactionId s) uuid CID CommandType 0 (map (mb_junk w) [0..<n])));
        Some (Some m, s\<lparr>mb_TransactionId := mb_TransactionId s + 1\<rparr>) })"

definition compose_basic_connect_ext_command ::
  "mbim_env \<Rightarrow> u32 \<Rightarrow> u32 \<Rightarrow> buf option \<Rightarrow> nat \<Rightarrow> mbim \<Rightarrow> (buf option \<times> mbim) access" where
  "compose_basic_connect_ext_command w CID CommandType pInformationBuffer n s = do {
     (pRequest, s) \<leftarrow> compose_basic_connect_command w CID CommandType pInformationBuffer n s;
     uuid \<leftarrow> str2uuid UUID_BASIC_CONNECT_EXT;
     Some (map_option (set_service uuid) pRequest, s) }"

definition compose_qmi_over_mbim_command ::
  "mbim_env \<Rightarrow> u32 \<Rightarrow> u32 \<Rightarrow> buf option \<Rightarrow> nat \<Rightarrow> mbim \<Rightarrow> (buf option \<times> mbim) access" where
  "compose_qmi_over_mbim_command w CID CommandType pInformationBuffer n s = do {
     (pRequest, s) \<leftarrow> compose_basic_connect_command w CID CommandType pInformationBuffer n s;
     uuid \<leftarrow> str2uuid uuid_ext_qmux;
     Some (map_option (set_service uuid) pRequest, s) }"

subsection \<open>The reader\<close>

text \<open>The event an indication stands for: a state that differs from the one last reported.\<close>

definition indication_event :: "mbim \<Rightarrow> buf \<Rightarrow> cm_event option access" where
  "indication_event s m = do {
     uuid \<leftarrow> rdn m 20 16; basic \<leftarrow> str2uuid UUID_BASIC_CONNECT;
     if uuid \<noteq> basic then Some None
     else do {
       cid \<leftarrow> rd32 m 36;
       if cid = MBIM_CID_SUBSCRIBER_READY_STATUS then do {
         st \<leftarrow> rd32 m 44;
         Some (if oldReadyState s \<noteq> st then Some RIL_UNSOL_RESPONSE_VOICE_NETWORK_STATE_CHANGED else None) }
       else if cid = MBIM_CID_REGISTER_STATE then do {
         st \<leftarrow> rd32 m 48;
         Some (if oldRegisterState s \<noteq> st then Some RIL_UNSOL_RESPONSE_VOICE_NETWORK_STATE_CHANGED else None) }
       else if cid = MBIM_CID_PACKET_SERVICE then do {
         st \<leftarrow> rd32 m 48;
         Some (if oldPacketServiceState s \<noteq> st then Some RIL_UNSOL_RESPONSE_VOICE_NETWORK_STATE_CHANGED else None) }
       else if cid = MBIM_CID_CONNECT then do {
         sid \<leftarrow> rd32 m 44; st \<leftarrow> rd32 m 48;
         Some (if sid = word_of_int (mbim_sessionID s) \<and> oldActivationState s \<noteq> st
               then Some RIL_UNSOL_DATA_CALL_LIST_CHANGED else None) }
       else Some None } }"

definition mbim_recv_command :: "(nat \<Rightarrow> bool) \<Rightarrow> buf option \<Rightarrow> mbim \<Rightarrow> mbim access" where
  "mbim_recv_command alloc pResponse s =
     (case pResponse of
        None \<Rightarrow> Some (s\<lparr>mb_signalled := True\<rparr>)
      | Some m \<Rightarrow> do {
          mine \<leftarrow> (case mbim_pRequest s of None \<Rightarrow> Some False
                   | Some r \<Rightarrow> do { a \<leftarrow> rd32 r 8; b \<leftarrow> rd32 m 8; Some (a = b) });
          if mine then do {
            n \<leftarrow> rd32 m 4;
            if alloc (unat n) then do { c \<leftarrow> rdn m 0 (unat n); Some (s\<lparr>mbim_pResponse := Some c, mb_signalled := True\<rparr>) }
            else Some (s\<lparr>mbim_pResponse := None, mb_signalled := True\<rparr>) }
          else do {
            ty \<leftarrow> rd32 m 0;
            if ty = MBIM_INDICATE_STATUS_MSG then do {
              ev \<leftarrow> indication_event s m;
              Some (case ev of None \<Rightarrow> s | Some e \<Rightarrow> mb_event e s) }
            else Some s } })"

text \<open>\<open>avail\<close> are the bytes the descriptor has; an error of \<^verbatim>\<open>read\<close> is \<open>[]\<close>. The size of the second read wraps for a
  length below 12.\<close>

definition mbim_proxy_read :: "buf \<Rightarrow> buf \<Rightarrow> nat \<Rightarrow> (int \<times> buf) access" where
  "mbim_proxy_read avail b bufsize = do {
     let h = take 12 avail;
     b \<leftarrow> wr b 0 h;
     if length h = 0 then Some (- 1, b)
     else if length h \<noteq> 12 then Some (int (length h), b)
     else do {
       l \<leftarrow> rd32 b 4;
       if unat l \<le> bufsize then do {
         let n = nat ((uint l - 12) mod 2 ^ 64);
         let r = take n (drop 12 avail);
         b \<leftarrow> wr b 12 r;
         Some (12 + (if n = 0 then 0 else if r = [] then - 1 else int (length r)), b) }
       else Some (12, b) } }"

text \<open>What the reader does with the bytes of the device; the result says whether there was a message.\<close>

definition mbim_device_in :: "(nat \<Rightarrow> bool) \<Rightarrow> buf \<Rightarrow> mbim \<Rightarrow> (bool \<times> mbim) access" where
  "mbim_device_in alloc bs s = do {
     (nreads, b) \<leftarrow>
       (if mb_proxied s then mbim_proxy_read bs (mb_recv_buf s) 4096
        else do { let x = take 4096 bs; b \<leftarrow> wr (mb_recv_buf s) 0 x;
                  Some (if x = [] then - 1 else int (length x), b) });
     let s = s\<lparr>mb_recv_buf := b\<rparr>;
     if nreads \<le> 0 then Some (False, s)
     else do { s \<leftarrow> mbim_recv_command alloc (Some b) s; Some (True, s) } }"

definition mbim_reader_quit :: "(nat \<Rightarrow> bool) \<Rightarrow> mbim \<Rightarrow> mbim access" where
  "mbim_reader_quit alloc s = do {
     s \<leftarrow> mbim_recv_command alloc None (s\<lparr>mbim_fd := - 1\<rparr>);
     Some ((mb_event RIL_INDICATE_DEVICE_DISCONNECTED s)\<lparr>mb_reader := False\<rparr>) }"

fun mbim_arrive :: "(nat \<Rightarrow> bool) \<Rightarrow> mbim_arrival \<Rightarrow> mbim \<Rightarrow> mbim access" where
  "mbim_arrive alloc (Mb_message bs) s =
     (if mb_reader s \<and> 0 < mbim_fd s then map_option snd (mbim_device_in alloc bs s) else Some s)"
| "mbim_arrive alloc Mb_close s = (if mb_reader s then mbim_reader_quit alloc s else Some s)"

fun mbim_arrivals :: "(nat \<Rightarrow> bool) \<Rightarrow> mbim_arrival list \<Rightarrow> mbim \<Rightarrow> mbim access" where
  "mbim_arrivals alloc [] s = Some s"
| "mbim_arrivals alloc (e # es) s = do { s \<leftarrow> mbim_arrive alloc e s; mbim_arrivals alloc es s }"

subsection \<open>Commands\<close>

text \<open>\<^verbatim>\<open>pthread_cond_timeout_np\<close>: the reader runs until it signals the condition; without a signal the time runs out. What
  arrives before the sender has the mutex again (\<open>io_late\<close>) is still handled with the request in place.\<close>

fun mbim_wait :: "(nat \<Rightarrow> bool) \<Rightarrow> mbim_arrival list \<Rightarrow> mbim \<Rightarrow> (int \<times> mbim) access" where
  "mbim_wait alloc es s =
     (if mb_signalled s then Some (0, s)
      else (case es of [] \<Rightarrow> Some (ETIMEDOUT, s)
            | e # es \<Rightarrow> do { s \<leftarrow> mbim_arrive alloc e s; mbim_wait alloc es s }))"

declare mbim_wait.simps [simp del]

text \<open>The proxy needs the upper byte of the identifier, so \<^verbatim>\<open>0x1000000\<close> starts again at 1.\<close>

definition renumber :: "buf \<Rightarrow> mbim \<Rightarrow> (buf \<times> mbim) access" where
  "renumber r s = do {
     tid \<leftarrow> rd32 r 8;
     if tid = 0xFFFFFF + 1 then do { r \<leftarrow> wr r 8 (bytes32 1); Some (r, s\<lparr>mb_TransactionId := 1 + 1\<rparr>) }
     else Some (r, s) }"

definition mbim_send_locked :: "(nat \<Rightarrow> bool) \<Rightarrow> mbim_io \<Rightarrow> buf \<Rightarrow> mbim \<Rightarrow> (int \<times> buf option \<times> mbim) access" where
  "mbim_send_locked alloc io r s = do {
     (r, s) \<leftarrow> renumber r s;
     let s = s\<lparr>mbim_pRequest := Some r, mbim_pResponse := None, mb_signalled := False, mb_sent := mb_sent s @ [r]\<rparr>;
     n \<leftarrow> rd32 r 4;
     (ret, s) \<leftarrow> (if 0 < io_write io \<and> word_of_int (io_write io) = n then do {
                    (ret, s) \<leftarrow> mbim_wait alloc (io_waiting io) s;
                    s \<leftarrow> mbim_arrivals alloc (io_late io) s;
                    Some (ret, s) }
                  else Some (io_write io, s));
     Some (ret, if 0 < io_write io \<and> word_of_int (io_write io) = n \<and> ret = 0 then mbim_pResponse s else None,
           s\<lparr>mbim_pRequest := None, mbim_pResponse := None\<rparr>) }"

definition mbim_send_command :: "mbim_env \<Rightarrow> buf option \<Rightarrow> mbim \<Rightarrow> (int \<times> buf option \<times> mbim) access" where
  "mbim_send_command w pRequest s = do {
     let io = mb_device w (mb_calls s);
     s \<leftarrow> mbim_arrivals (mb_alloc w) (io_before io) (s\<lparr>mb_calls := mb_calls s + 1\<rparr>);
     if mbim_fd s \<le> 0 then Some (- ENODEV, None, s)
     else if \<not> mb_reader s then Some (- EINVAL, None, s)
     else (case pRequest of None \<Rightarrow> Some (- ENOMEM, None, s) | Some r \<Rightarrow> mbim_send_locked (mb_alloc w) io r s) }"

definition MBIM_ERROR_NOT_OPENED :: int where "MBIM_ERROR_NOT_OPENED = 5"

definition mbim_status_code :: "buf option \<Rightarrow> mbim \<Rightarrow> (int \<times> mbim) access" where
  "mbim_status_code pMsgHdr s =
     (case pMsgHdr of
        None \<Rightarrow> Some (0, s)
      | Some m \<Rightarrow> do {
          ty \<leftarrow> rd32 m 0;
          if ty = MBIM_OPEN_DONE \<or> ty = MBIM_CLOSE_DONE then do { st \<leftarrow> rd32 m 12; Some (sint st, s) }
          else if ty = MBIM_COMMAND_DONE then do { st \<leftarrow> rd32 m 40; Some (sint st, s) }
          else if ty = MBIM_FUNCTION_ERROR_MSG then do {
            st \<leftarrow> rd32 m 12;
            Some (sint st, if sint st = MBIM_ERROR_NOT_OPENED then s\<lparr>mbim_open_state := 0\<rparr> else s) }
          else Some (0, s) })"

definition mbim_check_err :: "int \<Rightarrow> buf option \<Rightarrow> mbim \<Rightarrow> ((int + buf) \<times> mbim) access" where
  "mbim_check_err err pCmdDone s = do {
     (status, s) \<leftarrow> mbim_status_code pCmdDone s;
     Some (case pCmdDone of
             Some m \<Rightarrow> if err \<noteq> 0 then Inl err else if status \<noteq> 0 then Inl status else Inr m
           | None \<Rightarrow> if err \<noteq> 0 then Inl err else if status \<noteq> 0 then Inl status else Inl 8888, s) }"

text \<open>Every request goes through these two; the handler goes on with the response \<open>m\<close> and returns \<open>err\<close>, which is 0.\<close>

definition mbim_transact ::
  "mbim_env \<Rightarrow> buf option \<Rightarrow> (buf \<Rightarrow> mbim \<Rightarrow> (int \<times> 'a \<times> mbim) access) \<Rightarrow> 'a \<Rightarrow> mbim \<Rightarrow> (int \<times> 'a \<times> mbim) access" where
  "mbim_transact w pRequest f x s = do {
     (err, pCmdDone, s) \<leftarrow> mbim_send_command w pRequest s;
     (c, s) \<leftarrow> mbim_check_err err pCmdDone s;
     (case c of Inl e \<Rightarrow> Some (e, x, s) | Inr m \<Rightarrow> f m s) }"

end
