(* ===== verification/Mbim_Requests.thy ===== *)
theory Mbim_Requests
  imports Mbim
begin

text \<open>
  The queries and settings of \<^verbatim>\<open>mbim-cm.c\<close>, the handlers of \<^verbatim>\<open>mbim_request_ops\<close>, the start and the end of the device and the
  thread that reads it. Values that are only logged are read, since the reads can leave the block of the response, and then dropped.
  The information buffer of a response starts at byte 48.
\<close>

subsection \<open>The reported states\<close>

definition mbim_update_state :: "mbim \<Rightarrow> mbim" where
  "mbim_update_state s =
     s\<lparr>oldReadyState := ReadyState s, oldRegisterState := RegisterState s,
       oldPacketServiceState := PacketServiceState s, oldActivationState := ActivationState s\<rparr>"

subsection \<open>Opening and closing\<close>

definition mbim_open_device :: "mbim_env \<Rightarrow> u32 \<Rightarrow> mbim \<Rightarrow> (int \<times> mbim) access" where
  "mbim_open_device w MaxControlTransfer s =
     (let (pRequest, s) = compose_open_command (mb_alloc w) MaxControlTransfer s in do {
        (e, _, s) \<leftarrow> mbim_transact w pRequest (\<lambda>m s. do { st \<leftarrow> rd32 m 12; Some (sint st, (), s) }) () s;
        Some (e, s) })"

definition mbim_close_device :: "mbim_env \<Rightarrow> mbim \<Rightarrow> (int \<times> mbim) access" where
  "mbim_close_device w s =
     (let (pRequest, s) = compose_close_command (mb_alloc w) s in do {
        (e, _, s) \<leftarrow> mbim_transact w pRequest (\<lambda>m s. do { st \<leftarrow> rd32 m 12; Some (sint st, (), s) }) () s;
        Some (e, s) })"

subsection \<open>Queries and settings of the basic service\<close>

text \<open>The common shape: compose, send, and look at a response that carries information.\<close>

definition mbim_basic ::
  "mbim_env \<Rightarrow> u32 \<Rightarrow> u32 \<Rightarrow> buf option \<Rightarrow> nat \<Rightarrow> (buf \<Rightarrow> 'a \<Rightarrow> mbim \<Rightarrow> ('a \<times> mbim) access) \<Rightarrow> 'a \<Rightarrow> mbim
     \<Rightarrow> (int \<times> 'a \<times> mbim) access" where
  "mbim_basic w cid ty info n f x s = do {
     (pRequest, s) \<leftarrow> compose_basic_connect_command w cid ty info n s;
     mbim_transact w pRequest (\<lambda>m s. do {
       l \<leftarrow> rd32 m 44;
       if l \<noteq> 0 then do { (x, s) \<leftarrow> f m x s; Some (0, x, s) } else Some (0, x, s) }) x s }"

definition drop_unit :: "(int \<times> unit \<times> mbim) access \<Rightarrow> (int \<times> mbim) access" where
  "drop_unit r = map_option (\<lambda>(e, _, s). (e, s)) r"

text \<open>\<^verbatim>\<open>set_connect\<close> and \<^verbatim>\<open>ip_info\<close> are on the stack and only their first member is set.\<close>

definition session_info :: "mbim_env \<Rightarrow> int \<Rightarrow> buf" where
  "session_info w sessionID = bytes32 (word_of_int sessionID) @ map (mb_junk w) [4..<60]"

definition take_activation :: "buf \<Rightarrow> unit \<Rightarrow> mbim \<Rightarrow> (unit \<times> mbim) access" where
  "take_activation m x s = do { st \<leftarrow> rd32 m 52; Some ((), mbim_update_state (s\<lparr>ActivationState := st\<rparr>)) }"

definition mbim_query_connect :: "mbim_env \<Rightarrow> int \<Rightarrow> mbim \<Rightarrow> (int \<times> mbim) access" where
  "mbim_query_connect w sessionID s =
     drop_unit (mbim_basic w MBIM_CID_CONNECT MBIM_CID_CMD_TYPE_QUERY (Some (session_info w sessionID)) 60 take_activation () s)"

definition mbim_ms_version_query :: "mbim_env \<Rightarrow> mbim \<Rightarrow> (int \<times> mbim) access" where
  "mbim_ms_version_query w s = do {
     (pRequest, s) \<leftarrow> compose_basic_connect_ext_command w MBIM_CID_MS_VERSION MBIM_CID_CMD_TYPE_QUERY (Some [0, 1, 0, 2]) 4 s;
     drop_unit (mbim_transact w pRequest (\<lambda>m s. do {
       l \<leftarrow> rd32 m 44;
       if l \<noteq> 0 then do { v \<leftarrow> rd8 m 51; Some (0, (), s\<lparr>mbim_ms_version := uint v\<rparr>) } else Some (0, (), s) }) () s) }"

text \<open>Whether a service lists \<^verbatim>\<open>MBIM_CID_MS_VERSION\<close>; the element is at \<open>p\<close> and \<open>n\<close> entries are left from index \<open>i\<close>.\<close>

fun lists_version :: "buf \<Rightarrow> nat \<Rightarrow> nat \<Rightarrow> nat \<Rightarrow> bool \<Rightarrow> bool access" where
  "lists_version m p 0 i seen = Some seen"
| "lists_version m p (Suc n) i seen = do {
     c \<leftarrow> rd32 m (p + 28 + 4 * i);
     lists_version m p n (i + 1) (seen \<or> c = MBIM_CID_MS_VERSION) }"

fun services_loop :: "buf \<Rightarrow> nat \<Rightarrow> nat \<Rightarrow> bool \<times> bool \<Rightarrow> (bool \<times> bool) access" where
  "services_loop m 0 i st = Some st"
| "services_loop m (Suc n) i (v2, qmux) = do {
     off \<leftarrow> rd32 m (48 + 8 + 8 * i);
     let p = 48 + unat off;
     uuid \<leftarrow> rdn m p 16;
     st \<leftarrow> (if c_caseeq UUID_BASIC_CONNECT_EXT (uuid2str uuid)
           then do { k \<leftarrow> rd32 m (p + 24); v \<leftarrow> lists_version m p (unat k) 0 v2; Some (v, qmux) }
           else Some (v2, qmux \<or> c_caseeq uuid_ext_qmux (uuid2str uuid)));
     services_loop m n (i + 1) st }"

definition mbim_device_services_query :: "mbim_env \<Rightarrow> mbim \<Rightarrow> (int \<times> mbim) access" where
  "mbim_device_services_query w s = do {
     (e, v2, s) \<leftarrow> mbim_basic w MBIM_CID_DEVICE_SERVICES MBIM_CID_CMD_TYPE_QUERY None 0 (\<lambda>m v2 s. do {
         k \<leftarrow> rd32 m 48;
         (v2, qmux) \<leftarrow> services_loop m (unat k) 0 (v2, qmi_over_mbim_support s);
         Some (v2, s\<lparr>qmi_over_mbim_support := qmux\<rparr>) }) False s;
     s \<leftarrow> (if v2 then map_option snd (mbim_ms_version_query w s) else Some s);
     Some (e, s) }"

text \<open>The text at an offset and with a size that are the members at \<open>i\<close> and \<open>i + 4\<close> of the information.\<close>

definition info_text :: "buf \<Rightarrow> nat \<Rightarrow> cstr access" where
  "info_text m i = do { off \<leftarrow> rd32 m (48 + i); n \<leftarrow> rd32 m (48 + i + 4); wchar2char m (48 + unat off) (unat n) 32 }"

definition info_text_if :: "buf \<Rightarrow> nat \<Rightarrow> cstr option access" where
  "info_text_if m i = do {
     off \<leftarrow> rd32 m (48 + i);
     if off = 0 then Some None
     else do { n \<leftarrow> rd32 m (48 + i + 4); if n = 0 then Some None else map_option Some (info_text m i) } }"

definition mbim_device_caps_query :: "mbim_env \<Rightarrow> PROFILE_T \<Rightarrow> mbim \<Rightarrow> (int \<times> PROFILE_T \<times> mbim) access" where
  "mbim_device_caps_query w profile s =
     mbim_basic w MBIM_CID_DEVICE_CAPS MBIM_CID_CMD_TYPE_QUERY None 0 (\<lambda>m profile s. do {
       DeviceId \<leftarrow> info_text_if m 40;
       FirmwareInfo \<leftarrow> info_text_if m 48;
       let profile = (case FirmwareInfo of None \<Rightarrow> profile | Some tmp \<Rightarrow> profile\<lparr>BaseBandVersion := tmp\<rparr>);
       HardwareInfo \<leftarrow> info_text_if m 56;
       Some (profile, s) }) profile s"

definition mbim_set_radio_state :: "mbim_env \<Rightarrow> u32 \<Rightarrow> mbim \<Rightarrow> (int \<times> mbim) access" where
  "mbim_set_radio_state w RadioState s =
     drop_unit (mbim_basic w MBIM_CID_RADIO_STATE MBIM_CID_CMD_TYPE_SET (Some (bytes32 RadioState)) 4
       (\<lambda>m x s. do { hw \<leftarrow> rd32 m 48; sw \<leftarrow> rd32 m 52; Some (x, s) }) () s)"

definition mbim_subscriber_status_query :: "mbim_env \<Rightarrow> mbim \<Rightarrow> (int \<times> mbim) access" where
  "mbim_subscriber_status_query w s =
     drop_unit (mbim_basic w MBIM_CID_SUBSCRIBER_READY_STATUS MBIM_CID_CMD_TYPE_QUERY None 0 (\<lambda>m x s. do {
       SubscriberId \<leftarrow> info_text m 4;
       SimIccId \<leftarrow> info_text m 12;
       st \<leftarrow> rd32 m 48;
       Some (x, mbim_update_state (s\<lparr>ReadyState := st\<rparr>)) }) () s)"

definition mbim_register_state_query :: "mbim_env \<Rightarrow> mbim \<Rightarrow> (int \<times> mbim) access" where
  "mbim_register_state_query w s =
     drop_unit (mbim_basic w MBIM_CID_REGISTER_STATE MBIM_CID_CMD_TYPE_QUERY None 0
       (\<lambda>m x s. do { st \<leftarrow> rd32 m 52; Some (x, mbim_update_state (s\<lparr>RegisterState := st\<rparr>)) }) () s)"

text \<open>\<^verbatim>\<open>MBIM_PACKET_SERVICE_INFO_V2_T\<close> has 32 bytes.\<close>

definition mbim_packet_service_query :: "mbim_env \<Rightarrow> mbim \<Rightarrow> (int \<times> mbim) access" where
  "mbim_packet_service_query w s =
     drop_unit (mbim_basic w MBIM_CID_PACKET_SERVICE MBIM_CID_CMD_TYPE_QUERY None 0 (\<lambda>m x s. do {
       st \<leftarrow> rd32 m 52;
       let s = mbim_update_state (s\<lparr>PacketServiceState := st\<rparr>);
       l \<leftarrow> rd32 m 44;
       if l = 32 then do { c \<leftarrow> rd32 m 56; Some (x, s) } else Some (x, s) }) () s)"

definition mbim_packet_service_set :: "mbim_env \<Rightarrow> u32 \<Rightarrow> mbim \<Rightarrow> (int \<times> mbim) access" where
  "mbim_packet_service_set w action s =
     drop_unit (mbim_basic w MBIM_CID_PACKET_SERVICE MBIM_CID_CMD_TYPE_SET (Some (bytes32 action)) 4
       (\<lambda>m x s. do { st \<leftarrow> rd32 m 52; Some (x, mbim_update_state (s\<lparr>PacketServiceState := st\<rparr>)) }) () s)"

subsection \<open>The data call\<close>

definition connect_record :: "mbim_env \<Rightarrow> int \<Rightarrow> int \<Rightarrow> mbim \<Rightarrow> buf option access" where
  "connect_record w onoff sessionID s = do {
     (buflen, c) \<leftarrow> mbim_populate_connect_data (mb_alloc w) (mbim_apn s) (mbim_user s) (mbim_passwd s);
     (case c of
        None \<Rightarrow> Some None
      | Some b \<Rightarrow> do {
          b \<leftarrow> wr b 0 (bytes32 (word_of_int sessionID));
          b \<leftarrow> wr b 4 (bytes32 (if onoff = 0 then 0 else 1));
          b \<leftarrow> wr b 32 (bytes32 0);
          b \<leftarrow> wr b 36 (bytes32 (word_of_int (mbim_auth s)));
          b \<leftarrow> wr b 40 (bytes32 (word_of_int (mbim_iptype s)));
          uuid \<leftarrow> str2uuid UUID_MBIMContextTypeInternet;
          b \<leftarrow> wr b 44 uuid;
          Some (Some b) }) }"

definition mbim_set_connect :: "mbim_env \<Rightarrow> int \<Rightarrow> int \<Rightarrow> mbim \<Rightarrow> (int \<times> mbim) access" where
  "mbim_set_connect w onoff sessionID s = do {
     c \<leftarrow> connect_record w onoff sessionID s;
     (case c of
        None \<Rightarrow> Some (ENOMEM, s)
      | Some b \<Rightarrow> drop_unit (mbim_basic w MBIM_CID_CONNECT MBIM_CID_CMD_TYPE_SET (Some b) (length b) take_activation () s)) }"

text \<open>\<^verbatim>\<open>pInfo->DataBuffer[offset - sizeof(*pInfo)]\<close> is byte \<open>offset\<close> of the information.\<close>

definition info_addr :: "buf \<Rightarrow> nat \<Rightarrow> nat access" where
  "info_addr m i = do { off \<leftarrow> rd32 m (48 + i); Some (48 + unat off) }"

definition ip4_at :: "buf \<Rightarrow> nat \<Rightarrow> u32 access" where
  "ip4_at m p = map_option mbim2qmi_ipv4addr (rd32 m p)"

text \<open>An optional address at the offset that is member \<open>i\<close>, \<open>d\<close> bytes further on.\<close>

definition ip_opt :: "bool \<Rightarrow> buf \<Rightarrow> nat \<Rightarrow> nat \<Rightarrow> (buf \<Rightarrow> nat \<Rightarrow> 'a access) \<Rightarrow> 'a \<Rightarrow> 'a access" where
  "ip_opt present m i d g old = (if present then do { p \<leftarrow> info_addr m i; g m (p + d) } else Some old)"

definition mbim_ipv4_config :: "buf \<Rightarrow> u32 \<Rightarrow> IPV4_T \<Rightarrow> (u32 \<times> IPV4_T) access" where
  "mbim_ipv4_config m mtu v4 = do {
     avail \<leftarrow> rd32 m 52;
     if \<not> bit avail 0 then Some (mtu, v4)
     else do {
       p \<leftarrow> info_addr m 16;
       prefix \<leftarrow> rd32 m p;
       n \<leftarrow> (if bit avail 2 then rd32 m 84 else Some 0);
       mtu \<leftarrow> (if bit avail 3 then rd32 m 100 else Some mtu);
       a \<leftarrow> ip4_at m (p + 4);
       g \<leftarrow> ip_opt (bit avail 1) m 28 0 ip4_at (Gateway4 v4);
       mask \<leftarrow> prefix_mask (unat (ucast prefix :: byte));
       d1 \<leftarrow> ip_opt (bit avail 2) m 40 0 ip4_at (DnsPrimary4 v4);
       d2 \<leftarrow> ip_opt (bit avail 2 \<and> n = 2) m 40 4 ip4_at (DnsSecondary4 v4);
       Some (mtu, \<lparr>Address4 = a, Gateway4 = g, SubnetMask4 = mbim2qmi_ipv4addr mask, DnsPrimary4 = d1,
                   DnsSecondary4 = d2, Mtu4 = mbim2qmi_ipv4addr mtu\<rparr>) } }"

definition mbim_ipv6_config :: "buf \<Rightarrow> u32 \<Rightarrow> IPV6_T \<Rightarrow> IPV6_T access" where
  "mbim_ipv6_config m mtu v6 = do {
     avail \<leftarrow> rd32 m 56;
     if \<not> bit avail 0 then Some v6
     else do {
       p \<leftarrow> info_addr m 24;
       prefix \<leftarrow> rd32 m p;
       n \<leftarrow> (if bit avail 2 then rd32 m 92 else Some 0);
       mtu \<leftarrow> (if bit avail 3 then rd32 m 104 else Some mtu);
       a \<leftarrow> mbim2qmi_ipv6addr m (p + 4);
       g \<leftarrow> ip_opt (bit avail 1) m 32 0 mbim2qmi_ipv6addr (Gateway6 v6);
       d1 \<leftarrow> ip_opt (bit avail 2) m 48 0 mbim2qmi_ipv6addr (DnsPrimary6 v6);
       d2 \<leftarrow> ip_opt (bit avail 2 \<and> n = 2) m 48 16 mbim2qmi_ipv6addr (DnsSecondary6 v6);
       Some (v6\<lparr>Address6 := a, Gateway6 := g, DnsPrimary6 := d1, DnsSecondary6 := d2,
                PrefixLengthIPAddr := ucast prefix, PrefixLengthGateway := ucast prefix, Mtu6 := mbim2qmi_ipv4addr mtu\<rparr>) } }"

definition mbim_ip_config :: "mbim_env \<Rightarrow> PROFILE_T \<Rightarrow> int \<Rightarrow> mbim \<Rightarrow> (int \<times> PROFILE_T \<times> mbim) access" where
  "mbim_ip_config w profile sessionID s =
     mbim_basic w MBIM_CID_IP_CONFIGURATION MBIM_CID_CMD_TYPE_QUERY (Some (session_info w sessionID)) 60 (\<lambda>m profile s. do {
       (mtu, v4) \<leftarrow> mbim_ipv4_config m 1500 (ipv4 profile);
       v6 \<leftarrow> mbim_ipv6_config m mtu (ipv6 profile);
       Some (profile\<lparr>ipv4 := v4, ipv6 := v6\<rparr>, s) }) profile s"


subsection \<open>Start and end\<close>

definition mbim_proxy_configure :: "mbim_env \<Rightarrow> cstr \<Rightarrow> mbim \<Rightarrow> (int \<times> mbim) access" where
  "mbim_proxy_configure w dev s = do {
     (pRequest, s) \<leftarrow> compose_basic_connect_command w MBIM_CID_PROXY_CONTROL_CONFIGURATION MBIM_CID_CMD_TYPE_SET None
                        (12 + length dev * 2) s;
     pRequest \<leftarrow> (case pRequest of
                   None \<Rightarrow> Some None
                 | Some m \<Rightarrow> do {
                     uuid \<leftarrow> str2uuid UUID_LIBMBIM_PROXY;
                     let path = char2wchar dev (length dev) (length dev * 2);
                     m \<leftarrow> wr (set_service uuid m) 60 path;
                     m \<leftarrow> wr m 48 (bytes32 12 @ bytes32 (of_nat (length path)) @ bytes32 15);
                     Some (Some m) });
     drop_unit (mbim_transact w pRequest (\<lambda>m s. Some (0, (), s)) () s) }"

text \<open>The attempts to open the device, \<open>n\<close> of which are left.\<close>

fun open_attempts :: "mbim_env \<Rightarrow> nat \<Rightarrow> mbim \<Rightarrow> (int \<times> mbim) access" where
  "open_attempts w 0 s = Some (ETIMEDOUT, s)"
| "open_attempts w (Suc n) s = do {
     (retval, s) \<leftarrow> mbim_open_device w 4096 s;
     if retval \<noteq> ETIMEDOUT then Some (retval, s) else open_attempts w n s }"

definition qmi_over_mbim_start :: "mbim_env \<Rightarrow> mbim \<Rightarrow> mbim" where
  "qmi_over_mbim_start w s =
     (if qmi_over_mbim_support s
      then (case mb_socketpair w of None \<Rightarrow> s | Some sk \<Rightarrow> s\<lparr>qmi_over_mbim_sk := Some sk, qmidev_over_mbim := True\<rparr>)
      else s)"

definition mbim_init :: "mbim_env \<Rightarrow> PROFILE_T \<Rightarrow> mbim \<Rightarrow> (int \<times> PROFILE_T \<times> mbim) access" where
  "mbim_init w profile s = do {
     (retval, s) \<leftarrow> (if proxy profile = ascii ''mbim-proxy'' then mbim_proxy_configure w (qmichannel profile) s else Some (0, s));
     if retval \<noteq> 0 then Some (retval, profile, s)
     else do {
       (retval, s) \<leftarrow> open_attempts w 10 s;
       if retval \<noteq> 0 then Some (retval, profile, s)
       else do {
         (retval, profile, s) \<leftarrow> mbim_device_caps_query w profile s;
         if retval \<noteq> 0 then Some (retval, profile, s)
         else do {
           (retval, s) \<leftarrow> mbim_device_services_query w (mbim_update_state s);
           if retval \<noteq> 0 then Some (retval, profile, s)
           else do {
             (retval, s) \<leftarrow> mbim_set_radio_state w 1 (mbim_update_state s);
             if retval \<noteq> 0 then Some (retval, profile, s)
             else Some (0, profile, qmi_over_mbim_start w (mbim_update_state s)) } } } } }"

text \<open>Without \<^verbatim>\<open>CONFIG_CELLINFO\<close> no client identifier is ever requested, so there is none to release; the descriptors
  of the socket pair are closed and keep their numbers.\<close>

definition mbim_deinit :: "mbim_env \<Rightarrow> mbim \<Rightarrow> (int \<times> mbim) access" where
  "mbim_deinit w s = do { (e, s) \<leftarrow> mbim_close_device w s; Some (0, s) }"

subsection \<open>The request table\<close>

definition mbim_requestBaseBandVersion :: "PROFILE_T \<Rightarrow> mbim \<Rightarrow> (int \<times> PROFILE_T \<times> mbim) access" where
  "mbim_requestBaseBandVersion profile s = Some (0, profile, s)"

definition ready_status :: "u32 \<Rightarrow> SIM_Status" where
  "ready_status st =
     (if st = 0 then SIM_NOT_READY else if st = 1 then SIM_READY else if st = 2 then SIM_ABSENT
      else if st = 3 then SIM_BAD else if st = 4 then SIM_ABSENT else if st = 5 then SIM_ABSENT
      else if st = 6 then SIM_PIN else SIM_ABSENT)"

definition mbim_requestGetSIMStatus :: "mbim_env \<Rightarrow> SIM_Status \<Rightarrow> mbim \<Rightarrow> (int \<times> SIM_Status \<times> mbim) access" where
  "mbim_requestGetSIMStatus w old s = do {
     (retval, s) \<leftarrow> mbim_subscriber_status_query w s;
     if retval \<noteq> 0 then Some (retval, SIM_ABSENT, s)
     else (let s = mbim_update_state s in Some (retval, ready_status (ReadyState s), s)) }"

text \<open>Registered at home or roaming is attached; of the states of the packet service only \<^verbatim>\<open>Attached\<close> is.\<close>

definition mbim_requestRegistrationState :: "mbim_env \<Rightarrow> byte \<Rightarrow> mbim \<Rightarrow> (int \<times> byte \<times> mbim) access" where
  "mbim_requestRegistrationState w old s = do {
     (retval, s) \<leftarrow> mbim_register_state_query w s;
     if retval \<noteq> 0 then Some (retval, 0, s)
     else (let s = mbim_update_state s in
       if \<not> (RegisterState s = 3 \<or> RegisterState s = 4) then Some (retval, 0, s)
       else do {
         (retval, s) \<leftarrow> mbim_packet_service_query w s;
         if retval \<noteq> 0 then Some (retval, 1, s)
         else if PacketServiceState s = 2 then Some (retval, 1, s)
         else do { (e, s) \<leftarrow> mbim_packet_service_set w 0 s; Some (retval, 0, s) } }) }"

definition mbim_credentials :: "PROFILE_T \<Rightarrow> mbim \<Rightarrow> mbim" where
  "mbim_credentials profile s =
     (let s = (if apn profile \<noteq> None then s\<lparr>mbim_apn := apn profile\<rparr> else s);
          s = (if user profile \<noteq> None then s\<lparr>mbim_user := user profile\<rparr> else s);
          s = (if password profile \<noteq> None then s\<lparr>mbim_passwd := password profile\<rparr> else s);
          s = (if auth profile \<noteq> 0 then s\<lparr>mbim_auth := auth profile\<rparr> else s);
          s = (if enable_ipv4 profile then s\<lparr>mbim_iptype := 1\<rparr> else s);
          s = (if enable_ipv6 profile then s\<lparr>mbim_iptype := 2\<rparr> else s)
      in if enable_ipv4 profile \<and> enable_ipv6 profile then s\<lparr>mbim_iptype := 4\<rparr> else s)"

definition mbim_requestSetupDataCall :: "mbim_env \<Rightarrow> PROFILE_T \<Rightarrow> int \<Rightarrow> mbim \<Rightarrow> (int \<times> PROFILE_T \<times> mbim) access" where
  "mbim_requestSetupDataCall w profile family s = do {
     (retval, s) \<leftarrow> mbim_set_connect w 1 (mbim_sessionID s) (mbim_credentials profile s);
     Some (retval, profile, s) }"

definition activation_status :: "u32 \<Rightarrow> byte" where
  "activation_status st =
     (if st = 0 then QWDS_PKT_DATA_UNKNOW else if st = 1 then QWDS_PKT_DATA_CONNECTED else QWDS_PKT_DATA_DISCONNECTED)"

definition mbim_requestQueryDataCall :: "mbim_env \<Rightarrow> byte \<Rightarrow> int \<Rightarrow> mbim \<Rightarrow> (int \<times> byte \<times> mbim) access" where
  "mbim_requestQueryDataCall w old family s = do {
     (retval, s) \<leftarrow> mbim_query_connect w (mbim_sessionID s) s;
     Some (retval, if retval \<noteq> 0 then QWDS_PKT_DATA_DISCONNECTED else activation_status (ActivationState s), s) }"

definition mbim_requestDeactivateDefaultPDP :: "mbim_env \<Rightarrow> PROFILE_T \<Rightarrow> int \<Rightarrow> mbim \<Rightarrow> (int \<times> PROFILE_T \<times> mbim) access" where
  "mbim_requestDeactivateDefaultPDP w profile family s = do {
     (retval, s) \<leftarrow> mbim_set_connect w 0 (mbim_sessionID s) s; Some (retval, profile, s) }"

definition mbim_requestGetIPAddress :: "mbim_env \<Rightarrow> PROFILE_T \<Rightarrow> int \<Rightarrow> mbim \<Rightarrow> (int \<times> PROFILE_T \<times> mbim) access" where
  "mbim_requestGetIPAddress w profile family s = mbim_ip_config w profile (mbim_sessionID s) s"

definition mbim_request_table :: "mbim_env \<Rightarrow> mbim request_table" where
  "mbim_request_table w =
     \<lparr>op_BaseBandVersion = Some mbim_requestBaseBandVersion,
      op_SetEthMode = None, op_SetLoopBackState = None,
      op_GetSIMStatus = Some (mbim_requestGetSIMStatus w),
      op_EnterSimPin = None, op_SetProfile = None, op_GetProfile = None,
      op_RegistrationState = mbim_requestRegistrationState w,
      op_SetupDataCall = mbim_requestSetupDataCall w,
      op_QueryDataCall = mbim_requestQueryDataCall w,
      op_DeactivateDefaultPDP = mbim_requestDeactivateDefaultPDP w,
      op_GetIPAddress = mbim_requestGetIPAddress w,
      op_GetSignalInfo = None, op_GetCellInfoList = None, op_GetICCID = None, op_GetIMSI = None,
      op_GetCoexWWANState = None, op_SimHotplug = None, op_RebootModem = None\<rparr>"

definition mbim_device_table :: "mbim_env \<Rightarrow> mbim device_table" where
  "mbim_device_table w = \<lparr>dev_init = Some (mbim_init w), dev_deinit = Some (mbim_deinit w)\<rparr>"

subsection \<open>QMI over MBIM\<close>

text \<open>The frame goes out as the information of a command, and the answer into the socket pair, on which \<^verbatim>\<open>write\<close>
  returns \<open>sk_write\<close>. The result has the frame, whose client identifier is set.\<close>

definition qmi_over_mbim_qmidev_send ::
  "mbim_env \<Rightarrow> (buf \<Rightarrow> int) \<Rightarrow> buf \<Rightarrow> mbim \<Rightarrow> (int \<times> buf \<times> mbim) access" where
  "qmi_over_mbim_qmidev_send w sk_write pQMI s = do {
     l \<leftarrow> rd16 pQMI 1;
     ty \<leftarrow> rd8 pQMI 4;
     pQMI \<leftarrow> (if ty = QMUX_TYPE_NAS then wr pQMI 5 [qmi_over_mbim_nas s] else Some pQMI);
     c \<leftarrow> rd8 pQMI 5;
     if ty \<noteq> QMUX_TYPE_CTL \<and> c = 0 then Some (- ENODEV, pQMI, s)
     else do {
       (pRequest, s) \<leftarrow> compose_qmi_over_mbim_command w 1 MBIM_CID_CMD_TYPE_SET (Some pQMI) (unat l + 1) s;
       mbim_transact w pRequest (\<lambda>m s. do {
         n \<leftarrow> rd32 m 44;
         if n = 0 then Some (- 1, pQMI, s)
         else do { b \<leftarrow> rdn m 48 (unat n); Some (if sk_write b = uint n then 0 else - 1, pQMI, s) } }) pQMI s } }"

subsection \<open>The reader thread\<close>

text \<open>A turn of the thread: how \<^verbatim>\<open>poll\<close> ended, and for the device, the control socket and the socket pair an error condition and
  what there is to read. A short read of the control socket is \<open>Some None\<close>.\<close>

datatype mbim_round = MbTimeout | MbError
  | MbReady bool "buf option" bool "device_cmd option option" bool "buf option"

text \<open>The two sockets of a turn; the result says whether the thread quits and whether it was told to wait for that.\<close>

definition mbim_control_in :: "bool \<Rightarrow> device_cmd option option \<Rightarrow> bool \<Rightarrow> bool \<times> bool" where
  "mbim_control_in err2 ev stopping =
     (if err2 \<or> ev = Some (Some RIL_REQUEST_QUIT) then (True, stopping)
      else (False, stopping \<or> ev = Some (Some DEVICE_EVENT_STOP)))"

definition mbim_qmi_in :: "(nat \<Rightarrow> bool) \<Rightarrow> bool \<Rightarrow> buf option \<Rightarrow> mbim \<Rightarrow> (bool \<times> mbim) access" where
  "mbim_qmi_in alloc err3 input s =
     (if qmi_over_mbim_sk s = None then Some (False, s)
      else if err3 then Some (True, s)
      else (case input of
              None \<Rightarrow> Some (False, s)
            | Some bs \<Rightarrow> do {
                b \<leftarrow> wr (mb_recv_buf s) 0 (take 4096 bs);
                let s = s\<lparr>mb_recv_buf := b\<rparr>;
                if bs = [] then Some (False, s)
                else do { q \<leftarrow> QmiThreadRecvQMI alloc (Some b) (mb_qmi s); Some (False, s\<lparr>mb_qmi := q\<rparr>) } }))"

text \<open>A device that has nothing to deliver ends the turn before the other descriptors are looked at.\<close>

fun mbim_read_loop :: "(nat \<Rightarrow> bool) \<Rightarrow> mbim_round list \<Rightarrow> bool \<Rightarrow> mbim \<Rightarrow> (bool \<times> mbim) access" where
  "mbim_read_loop alloc [] stopping s = Some (False, s)"
| "mbim_read_loop alloc (MbTimeout # rs) stopping s =
     (if stopping then Some (True, s) else mbim_read_loop alloc rs stopping s)"
| "mbim_read_loop alloc (MbError # rs) stopping s = Some (True, s)"
| "mbim_read_loop alloc (MbReady err1 bs err2 ev err3 input # rs) stopping s =
     (if err1 then Some (True, s)
      else do {
        (goes_on, s) \<leftarrow> (case bs of None \<Rightarrow> Some (True, s) | Some x \<Rightarrow> mbim_device_in alloc x s);
        if \<not> goes_on then mbim_read_loop alloc rs stopping s
        else (let (quit, stopping) = mbim_control_in err2 ev stopping in
          if quit then Some (True, s)
          else do {
            (quit, s) \<leftarrow> mbim_qmi_in alloc err3 input s;
            if quit then Some (True, s) else mbim_read_loop alloc rs stopping s }) })"

definition mbim_thread_begin :: "PROFILE_T \<Rightarrow> mbim \<Rightarrow> PROFILE_T \<times> mbim" where
  "mbim_thread_begin profile s =
     (let s = s\<lparr>mb_reader := True\<rparr> in
      if 1 < qmap_mode profile \<and> qmapnet_adapter profile \<noteq> []
      then (profile\<lparr>proxy := (if proxy profile = [] then ascii ''quectel-mbim-proxy'' else proxy profile)\<rparr>,
            s\<lparr>mbim_sessionID := pdp profile\<rparr>)
      else (profile, s))"

definition mbim_read_thread ::
  "(nat \<Rightarrow> bool) \<Rightarrow> (cstr \<Rightarrow> int) \<Rightarrow> (cstr \<Rightarrow> int) \<Rightarrow> mbim_round list \<Rightarrow> PROFILE_T \<Rightarrow> mbim
     \<Rightarrow> (bool \<times> PROFILE_T \<times> mbim) access" where
  "mbim_read_thread alloc cm_open_proxy cm_open_dev rounds profile s =
     (let (profile, s) = mbim_thread_begin profile s;
          fd = (if proxy profile \<noteq> [] then cm_open_proxy (proxy profile) else cm_open_dev (qmichannel profile));
          s = s\<lparr>mb_proxied := (proxy profile \<noteq> []), mbim_fd := fd\<rparr>
      in if fd \<le> 0 then do { s \<leftarrow> mbim_reader_quit alloc s; Some (True, profile, s) }
         else do {
           (quit, s) \<leftarrow> mbim_read_loop alloc rounds False (mb_event RIL_INDICATE_DEVICE_CONNECTED s);
           if quit then do { s \<leftarrow> mbim_reader_quit alloc s; Some (True, profile, s) } else Some (False, profile, s) })"

end
