(* ===== verification/Mbim_Props.thy ===== *)
theory Mbim_Props
  imports Mbim_Requests Conn_Props Net_Props
begin

text \<open>
  The MBIM back end under all behaviours of the device: a command gets its own response, the texts of a data call reach the
  modem unless all three are given, the address the modem reports reaches the interface, and the table meets the contract
  of the connection manager.
\<close>

subsection \<open>Service identifiers\<close>

lemma sscan_x2_two:
  assumes "\<not> c_isspace c" "c \<noteq> 45" "c \<noteq> 43" "d \<noteq> 120" "d \<noteq> 88" "is_digit_in 16 c" "is_digit_in 16 d"
  shows "sscan_x2 (c # d # r) = Some (digits_in 16 [c, d], r)"
  using assms by (simp add: sscan_x2_def Let_def numeral_2_eq_2)

definition hex_ok :: "nat \<Rightarrow> bool" where
  "hex_ok h \<longleftrightarrow> \<not> c_isspace (hex_char h) \<and> hex_char h \<noteq> 45 \<and> hex_char h \<noteq> 43 \<and> hex_char h \<noteq> 120 \<and> hex_char h \<noteq> 88 \<and>
     is_digit_in 16 (hex_char h) \<and> digit_value (hex_char h) = Some (int h) \<and> c_tolower (hex_char h) = hex_char h"

lemma hex_ok_table: "list_all hex_ok [0, 1, 2, 3, 4, 5, 6, 7, 8, 9, 10, 11, 12, 13, 14, 15]"
  by code_simp

lemma hex_ok: "h < 16 \<Longrightarrow> hex_ok h"
proof -
  assume "h < 16"
  then have "h \<in> set [0, 1, 2, 3, 4, 5, 6, 7, 8, 9, 10, 11, 12, 13, 14, 15]"
    by (simp; presburger)
  then show "hex_ok h"
    using hex_ok_table unfolding list_all_iff by blast
qed

lemma hex2_ok: "hex_ok (unat b div 16)" "hex_ok (unat b mod 16)" for b :: byte
  using unat_byte_lt [of b] by (auto intro!: hex_ok)

lemma sscan_hex2: "sscan_x2 (hex2 b @ r) = Some (uint b, r)"
proof -
  have "sscan_x2 (hex2 b @ r) = Some (digits_in 16 (hex2 b), r)"
    using hex2_ok [of b] unfolding hex_ok_def hex2_def append_Cons append_Nil by (simp only: sscan_x2_two not_False_eq_True)
  also have "digits_in 16 (hex2 b) = 16 * int (unat b div 16) + int (unat b mod 16)"
    using hex2_ok [of b] by (simp only: hex_ok_def digits_in_def hex2_def foldl.simps option.case mult_zero_right add_0)
  also have "\<dots> = int (unat b)"
    using mult_div_mod_eq [of 16 "unat b"] by linarith
  finally show ?thesis by simp
qed

lemma uuid_scan_print:
  "length bs = length (filter id fmt) \<Longrightarrow> uuid_scan fmt (uuid_print fmt bs) = map uint bs"
proof (induction fmt bs rule: uuid_print.induct)
  case (1 fmt b bs)
  then show ?case by (simp add: sscan_hex2)
qed auto

lemma tolower_hex2: "map c_tolower (hex2 b) = hex2 b"
  using hex2_ok [of b] by (simp add: hex2_def hex_ok_def)

lemma tolower_uuid_print: "map c_tolower (uuid_print fmt bs) = uuid_print fmt bs"
  by (induction fmt bs rule: uuid_print.induct) (auto simp: tolower_hex2, simp add: c_tolower_def)

lemma length_uuid_print: "length (uuid_print fmt bs) \<le> 2 * length (filter id fmt) + length (filter Not fmt)"
  by (induction fmt bs rule: uuid_print.induct) (auto simp: hex2_def)

text \<open>every service identifier is printed by \<^verbatim>\<open>uuid2str\<close> as a text from which \<^verbatim>\<open>str2uuid\<close> reads it back, so the comparison of
  texts in the scan of the device services is a comparison of identifiers.\<close>

theorem uuid_roundtrip: "length u = 16 \<Longrightarrow> str2uuid (uuid2str u) = Some u"
proof -
  assume u: "length u = 16"
  have "length (uuid2str u) \<le> 36"
    using length_uuid_print [of uuid_format u] by (simp add: uuid2str_def uuid_format_def)
  moreover have "uuid_scan uuid_format (map c_tolower (uuid2str u)) = map uint u"
    using uuid_scan_print [of u uuid_format] u by (simp add: uuid2str_def tolower_uuid_print uuid_format_def)
  ultimately show ?thesis
    using u by (simp add: str2uuid_def comp_def)
qed

theorem uuid_roundtrip_witness:
  "str2uuid (uuid2str [0xa2, 0x89, 0xcc, 0x33, 0xbc, 0xbb, 0x8b, 0x4f, 0xb6, 0xb0, 0x13, 0x3e, 0xc2, 0xaa, 0xe6, 0xdf])
     = Some [0xa2, 0x89, 0xcc, 0x33, 0xbc, 0xbb, 0x8b, 0x4f, 0xb6, 0xb0, 0x13, 0x3e, 0xc2, 0xaa, 0xe6, 0xdf]"
  by (rule uuid_roundtrip) simp

definition basic_connect_id :: buf where
  "basic_connect_id = [0xa2, 0x89, 0xcc, 0x33, 0xbc, 0xbb, 0x8b, 0x4f, 0xb6, 0xb0, 0x13, 0x3e, 0xc2, 0xaa, 0xe6, 0xdf]"

lemma str2uuid_basic [simp]: "str2uuid UUID_BASIC_CONNECT = Some basic_connect_id"
  by code_simp

lemma str2uuid_internet [simp]:
  "str2uuid UUID_MBIMContextTypeInternet
     = Some [0x7e, 0x5e, 0x2a, 0x7e, 0x4e, 0x6f, 0x72, 0x72, 0x73, 0x6b, 0x65, 0x6e, 0x7e, 0x5e, 0x2a, 0x7e]"
  by code_simp

lemma length_basic_connect_id [simp]: "length basic_connect_id = 16"
  by (simp add: basic_connect_id_def)


subsection \<open>What the reader may change\<close>

definition without_reader :: "mbim \<Rightarrow> mbim" where
  "without_reader s = s\<lparr>mb_recv_buf := [], mbim_pResponse := None, mb_signalled := False, mb_qmi := qmi_thread_init,
     mbim_fd := 0, mb_reader := False\<rparr>"

definition reader_frame :: "mbim \<Rightarrow> mbim \<Rightarrow> bool" where
  "reader_frame s t \<longleftrightarrow> without_reader t = without_reader s"

lemma reader_frame_refl [simp]: "reader_frame s s"
  by (simp add: reader_frame_def)

lemma reader_frame_trans: "reader_frame s t \<Longrightarrow> reader_frame t u \<Longrightarrow> reader_frame s u"
  by (simp add: reader_frame_def)

lemma without_reader_upd [simp]:
  "without_reader (t\<lparr>mb_recv_buf := b\<rparr>) = without_reader t" "without_reader (t\<lparr>mbim_pResponse := p\<rparr>) = without_reader t"
  "without_reader (t\<lparr>mb_signalled := g\<rparr>) = without_reader t" "without_reader (t\<lparr>mb_qmi := q\<rparr>) = without_reader t"
  "without_reader (t\<lparr>mbim_fd := fd\<rparr>) = without_reader t" "without_reader (t\<lparr>mb_reader := rd\<rparr>) = without_reader t"
  "without_reader (mb_event e t) = without_reader t"
  by (simp_all add: without_reader_def mb_event_def)

lemma without_reader_request: "without_reader (t\<lparr>mbim_pRequest := r\<rparr>) = (without_reader t)\<lparr>mbim_pRequest := r\<rparr>"
  by (cases t) (simp add: without_reader_def)

lemma reader_frame_upd [simp]:
  "reader_frame s (t\<lparr>mb_recv_buf := b\<rparr>) = reader_frame s t" "reader_frame s (t\<lparr>mbim_pResponse := p\<rparr>) = reader_frame s t"
  "reader_frame s (t\<lparr>mb_signalled := g\<rparr>) = reader_frame s t" "reader_frame s (t\<lparr>mb_qmi := q\<rparr>) = reader_frame s t"
  "reader_frame s (t\<lparr>mbim_fd := fd\<rparr>) = reader_frame s t" "reader_frame s (t\<lparr>mb_reader := rd\<rparr>) = reader_frame s t"
  "reader_frame s (mb_event e t) = reader_frame s t" "reader_frame (s\<lparr>mb_recv_buf := b\<rparr>) t = reader_frame s t"
  "reader_frame (s\<lparr>mbim_fd := fd\<rparr>) t = reader_frame s t"
  by (simp_all add: reader_frame_def)

lemma without_reader_fields:
  "mbim_pRequest (without_reader s) = mbim_pRequest s" "mb_sent (without_reader s) = mb_sent s"
  "mb_TransactionId (without_reader s) = mb_TransactionId s" "mb_calls (without_reader s) = mb_calls s"
  by (simp_all add: without_reader_def)

lemma reader_frameD:
  assumes "reader_frame s t"
  shows "mbim_pRequest t = mbim_pRequest s" "mb_sent t = mb_sent s" "mb_TransactionId t = mb_TransactionId s"
    "mb_calls t = mb_calls s"
  using arg_cong [OF assms [unfolded reader_frame_def], of mbim_pRequest] arg_cong [OF assms [unfolded reader_frame_def], of mb_sent]
    arg_cong [OF assms [unfolded reader_frame_def], of mb_TransactionId] arg_cong [OF assms [unfolded reader_frame_def], of mb_calls]
  by (simp_all add: without_reader_fields)

text \<open>A block that was stored as the response to the request \<open>r\<close>.\<close>

definition answers :: "buf \<Rightarrow> buf \<Rightarrow> bool" where
  "answers r m \<longleftrightarrow> (12 \<le> length m \<longrightarrow> rd32 m 8 = rd32 r 8) \<and> (8 \<le> length m \<longrightarrow> rd32 m 4 = Some (of_nat (length m)))"

lemma rd32_take: "i + 4 \<le> n \<Longrightarrow> rd32 (take n b) i = rd32 b i"
  by (simp add: rd32_def rd8_def)

lemma answers_copy:
  assumes "rd32 r 8 = rd32 b 8" "rd32 b 4 = Some n" "rdn b 0 (unat n) = Some c"
  shows "answers r c"
proof -
  have c: "c = take (unat n) b" "unat n \<le> length b"
    using assms(3) by (auto simp: rdn_def split: if_splits)
  then have "length c = unat n" by simp
  then show ?thesis
    using assms(1,2) c by (auto simp: answers_def rd32_take)
qed

text \<open>The state of a command that waits for the answer to \<open>r\<close>.\<close>

definition pending :: "buf \<Rightarrow> mbim \<Rightarrow> bool" where
  "pending r s \<longleftrightarrow> mbim_pRequest s = Some r \<and> (\<forall>m. mbim_pResponse s = Some m \<longrightarrow> answers r m)"

lemma pending_upd [simp]:
  "pending r (s\<lparr>mb_recv_buf := b\<rparr>) = pending r s" "pending r (s\<lparr>mb_signalled := g\<rparr>) = pending r s"
  "pending r (s\<lparr>mbim_fd := fd\<rparr>) = pending r s" "pending r (s\<lparr>mb_reader := rd\<rparr>) = pending r s"
  "pending r (mb_event e s) = pending r s"
  by (simp_all add: pending_def mb_event_def)

lemma recv_frame: "pred_option (reader_frame s) (mbim_recv_command alloc m s)"
  unfolding mbim_recv_command_def
  by (auto intro!: pred_option_bind_any split: option.split)

lemma pending_store:
  "pending r s \<Longrightarrow> answers r c \<Longrightarrow> pending r (s\<lparr>mbim_pResponse := Some c\<rparr>)" "pending r s \<Longrightarrow> pending r (s\<lparr>mbim_pResponse := None\<rparr>)"
  by (simp_all add: pending_def)

lemma pred_option_bind_eq: "(\<And>x. m = Some x \<Longrightarrow> pred_option P (f x)) \<Longrightarrow> pred_option P (Option.bind m f)"
  by (cases m) auto

lemma recv_pending:
  assumes "pending r s" shows "pred_option (pending r) (mbim_recv_command alloc m s)"
proof (cases m)
  case (Some b)
  have "pred_option (pending r) (do {
      n \<leftarrow> rd32 b 4;
      if alloc (unat n) then do { c \<leftarrow> rdn b 0 (unat n); Some (s\<lparr>mbim_pResponse := Some c, mb_signalled := True\<rparr>) }
      else Some (s\<lparr>mbim_pResponse := None, mb_signalled := True\<rparr>) })" if "rd32 r 8 = rd32 b 8"
    using assms answers_copy [OF that] by (auto intro!: pred_option_bind_eq pending_store)
  moreover have "pred_option (\<lambda>mine. mine \<longrightarrow> rd32 r 8 = rd32 b 8)
      (case mbim_pRequest s of None \<Rightarrow> Some False | Some r \<Rightarrow> do { x \<leftarrow> rd32 r 8; y \<leftarrow> rd32 b 8; Some (x = y) })"
    using assms by (auto simp: pred_option_Some_iff bind_eq_Some_conv pending_def)
  moreover have "pred_option (pending r) (do {
      ty \<leftarrow> rd32 b 0;
      if ty = MBIM_INDICATE_STATUS_MSG then do { ev \<leftarrow> indication_event s b; Some (case ev of None \<Rightarrow> s | Some e \<Rightarrow> mb_event e s) }
      else Some s })"
    using assms by (auto intro!: pred_option_bind_any split: option.split)
  ultimately show ?thesis
    unfolding mbim_recv_command_def Some option.case
    by (intro pred_option_bindI [where Q = "\<lambda>mine. mine \<longrightarrow> rd32 r 8 = rd32 b 8"]) simp_all
qed (simp add: mbim_recv_command_def assms)

lemma device_in_frame: "pred_option (\<lambda>x. reader_frame s (snd x)) (mbim_device_in alloc bs s)"
proof -
  have "pred_option (\<lambda>x. reader_frame s (snd x))
      (do { t \<leftarrow> mbim_recv_command alloc m (s\<lparr>mb_recv_buf := b\<rparr>); Some (True, t) })" for m b
    by (rule pred_option_bindI [OF recv_frame]) simp
  then show ?thesis
    unfolding mbim_device_in_def Let_def by (auto intro!: pred_option_bind_any)
qed

lemma device_in_pending:
  assumes "pending r s" shows "pred_option (\<lambda>x. pending r (snd x)) (mbim_device_in alloc bs s)"
proof -
  have "pred_option (\<lambda>x. pending r (snd x))
      (do { t \<leftarrow> mbim_recv_command alloc m (s\<lparr>mb_recv_buf := b\<rparr>); Some (True, t) })" for m b
    by (rule pred_option_bindI [OF recv_pending [of r]]) (simp_all add: assms)
  then show ?thesis
    unfolding mbim_device_in_def Let_def by (auto intro!: pred_option_bind_any simp: assms)
qed

lemma arrive_frame: "pred_option (reader_frame s) (mbim_arrive alloc e s)"
  using device_in_frame [of s alloc]
  by (cases e) (auto simp: option.pred_map comp_def mbim_reader_quit_def intro!: pred_option_bindI [OF recv_frame])

lemma arrive_pending: "pending r s \<Longrightarrow> pred_option (pending r) (mbim_arrive alloc e s)"
  using device_in_pending [of r s alloc]
  by (cases e) (auto simp: option.pred_map comp_def mbim_reader_quit_def intro!: pred_option_bindI [OF recv_pending [of r]])

lemma arrivals_frame: "pred_option (reader_frame s) (mbim_arrivals alloc es s)"
proof (induction es arbitrary: s)
  case (Cons e es)
  have "pred_option (reader_frame s) (mbim_arrivals alloc es t)" if "reader_frame s t" for t
    using Cons.IH [of t] by (auto simp: pred_option_Some_iff intro: reader_frame_trans [OF that])
  then show ?case
    by (auto intro!: pred_option_bindI [OF arrive_frame])
qed simp

lemma wait_frame: "pred_option (\<lambda>(e, t). reader_frame s t) (mbim_wait alloc es s)"
proof (induction es arbitrary: s)
  case (Cons e es)
  have "pred_option (\<lambda>(e, u). reader_frame s u) (mbim_wait alloc es t)" if "reader_frame s t" for t
    using Cons.IH [of t] by (auto simp: pred_option_Some_iff intro: reader_frame_trans [OF that])
  then show ?case
    by (auto simp: mbim_wait.simps [of alloc "e # es"] intro!: pred_option_bindI [OF arrive_frame])
qed (simp add: mbim_wait.simps)

lemma wait_pending: "pending r s \<Longrightarrow> pred_option (\<lambda>(e, t). pending r t) (mbim_wait alloc es s)"
proof (induction es arbitrary: s)
  case (Cons e es)
  then show ?case
    by (auto simp: mbim_wait.simps [of alloc "e # es"] intro!: pred_option_bindI [OF arrive_pending])
qed (simp add: mbim_wait.simps)

lemma arrivals_pending: "pending r s \<Longrightarrow> pred_option (pending r) (mbim_arrivals alloc es s)"
  by (induction es arbitrary: s) (auto intro!: pred_option_bindI [OF arrive_pending])

lemma wait_late:
  assumes "pending r s"
  shows "pred_option (\<lambda>(e, t). reader_frame s t \<and> pending r t) (do {
     (ret, t) \<leftarrow> mbim_wait alloc es s; t \<leftarrow> mbim_arrivals alloc late t; Some (ret, t) })"
proof -
  have w: "pred_option (\<lambda>(e, t). reader_frame s t \<and> pending r t) (mbim_wait alloc es s)"
    using wait_frame [of s alloc es] wait_pending [OF assms, of alloc es] by (auto simp: pred_option_Some_iff)
  have a: "pred_option (\<lambda>t. reader_frame s t \<and> pending r t) (mbim_arrivals alloc late u)"
    if "reader_frame s u" "pending r u" for u
    using arrivals_frame [of u alloc late] arrivals_pending [OF that(2), of alloc late]
    by (auto simp: pred_option_Some_iff intro: reader_frame_trans [OF that(1)])
  show ?thesis
    by (rule pred_option_bindI [OF w]) (auto intro!: pred_option_bindI [OF a])
qed

subsection \<open>A response is the one to the request\<close>

definition sent_id :: "u32 option \<Rightarrow> u32 option" where
  "sent_id tid = (if tid = Some 0x1000000 then Some 1 else tid)"

lemma rd32_wr_self: "wr b i (bytes32 v) = Some b' \<Longrightarrow> rd32 b' i = Some v"
  using rd32_append_right [of "take i b" i "bytes32 v @ drop (i + 4) b"] by (auto simp: wr_def split: if_splits)

lemma renumber_id: "renumber r s = Some (r', s') \<Longrightarrow>
    rd32 r' 8 = sent_id (rd32 r 8) \<and> s' = (if rd32 r 8 = Some 0x1000000 then s\<lparr>mb_TransactionId := 2\<rparr> else s)"
  by (auto simp: renumber_def sent_id_def bind_eq_Some_conv rd32_wr_self split: if_splits)

lemma send_locked_spec:
  "pred_option (\<lambda>(ret, m, s'). mbim_pRequest s' = None \<and> mbim_pResponse s' = None \<and>
       (\<exists>r'. mb_sent s' = mb_sent s @ [r'] \<and> rd32 r' 8 = sent_id (rd32 r 8) \<and>
             (\<forall>c. m = Some c \<longrightarrow> ret = 0 \<and> answers r' c)) \<and>
       mb_TransactionId s' = (if rd32 r 8 = Some 0x1000000 then 2 else mb_TransactionId s))
     (mbim_send_locked alloc io r s)"
proof (cases "renumber r s")
  case (Some x)
  obtain r' s1 where x: "x = (r', s1)" by force
  note rn = renumber_id [OF Some [unfolded x]]
  define t where "t = s1\<lparr>mbim_pRequest := Some r', mbim_pResponse := None, mb_signalled := False, mb_sent := mb_sent s1 @ [r']\<rparr>"
  have p: "pending r' t" "mb_sent t = mb_sent s @ [r']"
    using rn by (simp_all add: t_def pending_def)
  have f: "pred_option (\<lambda>(e, u). reader_frame t u \<and> pending r' u) (if b then do {
       (ret, u) \<leftarrow> mbim_wait alloc es t; u \<leftarrow> mbim_arrivals alloc late u; Some (ret, u) } else Some (v, t))" for b es late v
    using wait_late [OF p(1), of alloc es late] p(1) by auto
  have tid: "mb_TransactionId t = (if rd32 r 8 = Some 0x1000000 then 2 else mb_TransactionId s)"
    using rn by (auto simp: t_def)
  show ?thesis
    unfolding mbim_send_locked_def Some x Let_def Option.bind.simps prod.case t_def [symmetric]
    by (rule pred_option_bind_any, rule pred_option_bindI [OF f])
       (use p rn tid in \<open>auto simp: reader_frameD pending_def\<close>)
qed (simp add: mbim_send_locked_def)

subsection \<open>A response is delivered\<close>

text \<open>The reader is in its loop on a device without a proxy.\<close>

definition listening :: "mbim \<Rightarrow> bool" where
  "listening s \<longleftrightarrow> mb_reader s \<and> 0 < mbim_fd s \<and> \<not> mb_proxied s \<and> length (mb_recv_buf s) = 4096"

lemma listening_upd [simp]:
  "listening (s\<lparr>mbim_pResponse := p\<rparr>) = listening s" "listening (s\<lparr>mb_signalled := g\<rparr>) = listening s"
  "listening (s\<lparr>mbim_pRequest := q\<rparr>) = listening s" "listening (s\<lparr>mb_sent := x\<rparr>) = listening s"
  "listening (s\<lparr>mb_calls := n\<rparr>) = listening s" "listening (s\<lparr>mb_TransactionId := i\<rparr>) = listening s"
  "listening (mb_event e s) = listening s"
  by (simp_all add: listening_def mb_event_def)

text \<open>A message that fits the buffer, with the identifier \<open>tid\<close>.\<close>

definition message_of :: "u32 \<Rightarrow> buf \<Rightarrow> bool" where
  "message_of tid b \<longleftrightarrow> 12 \<le> length b \<and> length b \<le> 4096 \<and> rd32 b 8 = Some tid"

lemma rd32_in_range: "i + 4 \<le> length b \<Longrightarrow> \<exists>v. rd32 b i = Some v"
  by (simp add: rd32_def rd8_def)

lemma rd32_append_left: "i + 4 \<le> length b \<Longrightarrow> rd32 (b @ c) i = rd32 b i"
  using rd32_take [of i "length b" "b @ c"] by simp

lemma indication_total: "length b = 4096 \<Longrightarrow> yields (indication_event s b) (\<lambda>_. True)"
  using rd32_in_range [of 36 b] rd32_in_range [of 44 b] rd32_in_range [of 48 b]
  by (auto simp: indication_event_def rdn_def)

lemma device_in_message:
  assumes "listening s" "message_of tid b"
  shows "mbim_device_in alloc b s = map_option (\<lambda>t. (True, t))
           (mbim_recv_command alloc (Some (b @ drop (length b) (mb_recv_buf s))) (s\<lparr>mb_recv_buf := b @ drop (length b) (mb_recv_buf s)\<rparr>))"
  using assms by (auto simp: mbim_device_in_def listening_def message_of_def wr_def map_conv_bind_option comp_def)

lemma arrive_foreign:
  assumes "listening s" "mbim_pRequest s = Some r" "rd32 r 8 = Some tid" "message_of tid' b" "tid' \<noteq> tid"
  shows "yields (mbim_arrive alloc (Mb_message b) s)
           (\<lambda>t. listening t \<and> reader_frame s t \<and> mb_signalled t = mb_signalled s)"
proof -
  define c where "c = b @ drop (length b) (mb_recv_buf s)"
  have c: "length c = 4096" "rd32 c 8 = Some tid'"
    using assms by (auto simp: c_def message_of_def listening_def rd32_append_left)
  obtain ty where ty: "rd32 c 0 = Some ty"
    using rd32_in_range [of 0 c] c by auto
  obtain ev where ev: "indication_event (s\<lparr>mb_recv_buf := c\<rparr>) c = Some ev"
    using indication_total [OF c(1)] by (auto simp: yields_def)
  have "mbim_recv_command alloc (Some c) (s\<lparr>mb_recv_buf := c\<rparr>) = Some (
      if ty = MBIM_INDICATE_STATUS_MSG then (case ev of None \<Rightarrow> s\<lparr>mb_recv_buf := c\<rparr> | Some e \<Rightarrow> mb_event e (s\<lparr>mb_recv_buf := c\<rparr>))
      else s\<lparr>mb_recv_buf := c\<rparr>)"
    using assms(2,3,5) c ty ev by (simp add: mbim_recv_command_def)
  moreover have "listening (s\<lparr>mb_recv_buf := c\<rparr>)"
    using assms(1) c by (simp add: listening_def)
  moreover have "mb_reader s" "0 < mbim_fd s"
    using assms(1) by (simp_all add: listening_def)
  ultimately show ?thesis
    using device_in_message [OF assms(1,4), of alloc]
    by (auto simp: c_def [symmetric] mb_event_def split: option.split) (simp add: listening_def)
qed

lemma arrive_own:
  assumes "listening s" "mbim_pRequest s = Some r" "rd32 r 8 = Some tid" "message_of tid b"
    "rd32 b 4 = Some (of_nat (length b))" "alloc (length b)"
  shows "\<exists>t. mbim_arrive alloc (Mb_message b) s = Some (t\<lparr>mbim_pResponse := Some b, mb_signalled := True\<rparr>) \<and>
             listening t \<and> reader_frame s t"
proof -
  define c where "c = b @ drop (length b) (mb_recv_buf s)"
  have b: "length b \<le> 4096" "12 \<le> length b"
    using assms(4) by (auto simp: message_of_def)
  then have n: "unat (of_nat (length b) :: u32) = length b"
    by (simp add: unat_of_nat_u32)
  have "mbim_recv_command alloc (Some c) (s\<lparr>mb_recv_buf := c\<rparr>)
          = Some (s\<lparr>mb_recv_buf := c, mbim_pResponse := Some b, mb_signalled := True\<rparr>)"
    using assms b n by (simp add: mbim_recv_command_def c_def message_of_def rd32_append_left)
  moreover have "listening (s\<lparr>mb_recv_buf := c\<rparr>)"
    using assms(1) b by (simp add: listening_def c_def)
  moreover have "mb_reader s" "0 < mbim_fd s"
    using assms(1) by (simp_all add: listening_def)
  ultimately show ?thesis
    using device_in_message [OF assms(1,4), of alloc]
    by (intro exI [of _ "s\<lparr>mb_recv_buf := c\<rparr>"]) (simp add: c_def [symmetric])
qed

lemma wait_delivers:
  assumes "listening s" "\<not> mb_signalled s" "mbim_pRequest s = Some r" "rd32 r 8 = Some tid" "message_of tid m"
    "rd32 m 4 = Some (of_nat (length m))" "alloc (length m)" "\<forall>b \<in> set others. \<exists>tid'. message_of tid' b \<and> tid' \<noteq> tid"
  shows "\<exists>t. mbim_wait alloc (map Mb_message others @ Mb_message m # es) s
           = Some (0, t\<lparr>mbim_pResponse := Some m, mb_signalled := True\<rparr>) \<and> listening t \<and> reader_frame s t"
  using assms(1-3,8)
proof (induction others arbitrary: s)
  case Nil
  then show ?case
    using arrive_own [of s r tid m alloc, OF Nil(1,3) assms(4-7)]
    by (auto simp: mbim_wait.simps [of alloc "_ # _"]) (auto simp: mbim_wait.simps)
next
  case (Cons b others)
  obtain tid' where tid': "message_of tid' b" "tid' \<noteq> tid"
    using Cons.prems(4) by auto
  obtain u where u: "mbim_arrive alloc (Mb_message b) s = Some u" "listening u" "reader_frame s u" "\<not> mb_signalled u"
    using arrive_foreign [OF Cons.prems(1,3) assms(4) tid', of alloc] Cons.prems(2) by (auto simp: yields_def)
  have "mbim_pRequest u = Some r"
    using reader_frameD(1) [OF u(3)] Cons.prems(3) by simp
  then obtain t where "mbim_wait alloc (map Mb_message others @ Mb_message m # es) u
      = Some (0, t\<lparr>mbim_pResponse := Some m, mb_signalled := True\<rparr>)" "listening t" "reader_frame u t"
    using Cons.IH [OF u(2,4)] Cons.prems(4) by auto
  then show ?case
    using u(1) Cons.prems(2) reader_frame_trans [OF u(3)]
    by (auto simp: mbim_wait.simps [of alloc "_ # _"] simp del: mbim_arrive.simps)
qed

text \<open>The device accepts the request, then sends other messages and the answer \<open>m\<close>.\<close>

definition answered :: "buf list \<Rightarrow> buf \<Rightarrow> buf \<Rightarrow> mbim_io" where
  "answered others r m = \<lparr>io_before = [], io_write = int (length r), io_waiting = map Mb_message others @ [Mb_message m], io_late = []\<rparr>"

text \<open>A request as the composers make it.\<close>

definition request_of :: "u32 \<Rightarrow> buf \<Rightarrow> bool" where
  "request_of tid r \<longleftrightarrow> 12 \<le> length r \<and> length r < 2 ^ 31 \<and> rd32 r 4 = Some (of_nat (length r)) \<and> rd32 r 8 = Some tid \<and> tid \<noteq> 0x1000000"

lemma send_delivers:
  assumes "listening s" "request_of tid r" "message_of tid m" "rd32 m 4 = Some (of_nat (length m))" "mb_alloc w (length m)"
    "\<forall>b \<in> set others. \<exists>tid'. message_of tid' b \<and> tid' \<noteq> tid" "mb_device w (mb_calls s) = answered others r m"
  shows "\<exists>t. mbim_send_command w (Some r) s = Some (0, Some m, t) \<and> listening t \<and>
     without_reader t = without_reader (s\<lparr>mb_calls := mb_calls s + 1, mb_sent := mb_sent s @ [r], mbim_pRequest := None\<rparr>)"
proof -
  define u where "u = s\<lparr>mb_calls := mb_calls s + 1, mbim_pRequest := Some r, mbim_pResponse := None, mb_signalled := False,
                        mb_sent := mb_sent s @ [r]\<rparr>"
  have n: "0 < int (length r)" "(word_of_int (int (length r)) :: u32) = of_nat (length r)"
    using assms(2) by (auto simp: request_of_def)
  have r: "rd32 r 8 = Some tid" "rd32 r 4 = Some (of_nat (length r))" "tid \<noteq> 0x1000000"
    using assms(2) by (simp_all add: request_of_def)
  have "listening u" "\<not> mb_signalled u" "mbim_pRequest u = Some r"
    using assms(1) by (simp_all add: u_def)
  from wait_delivers [of u r tid m "mb_alloc w" others "[]", OF this r(1) assms(3-6)] obtain t where
    t: "mbim_wait (mb_alloc w) (map Mb_message others @ [Mb_message m]) u
          = Some (0, t\<lparr>mbim_pResponse := Some m, mb_signalled := True\<rparr>)" "listening t" "reader_frame u t"
    by auto
  have "mb_reader s" "0 < mbim_fd s"
    using assms(1) by (simp_all add: listening_def)
  moreover have "without_reader (t\<lparr>mbim_pRequest := None\<rparr>) = without_reader (u\<lparr>mbim_pRequest := None\<rparr>)"
    using t(3) by (simp add: without_reader_request reader_frame_def)
  ultimately show ?thesis
    using t r n
    by (auto simp: mbim_send_command_def mbim_send_locked_def renumber_def assms(7) answered_def Let_def u_def [symmetric])
       (simp_all add: u_def without_reader_def)
qed

text \<open>C16: for every behaviour of the device and every interleaving with the reader, a command that returns a response has
  written exactly one message, the response carries the transaction identifier of that message, it has the length
  its header says, and the command is over.\<close>

theorem mbim_response_is_own:
  assumes "mbim_send_command w (Some r) s = Some (ret, Some m, s')"
  shows "ret = 0 \<and> mbim_pRequest s' = None \<and> mbim_pResponse s' = None \<and>
    (\<exists>r'. mb_sent s' = mb_sent s @ [r'] \<and> rd32 r' 8 = sent_id (rd32 r 8) \<and>
       (12 \<le> length m \<longrightarrow> rd32 m 8 = rd32 r' 8) \<and> (8 \<le> length m \<longrightarrow> rd32 m 4 = Some (of_nat (length m))))"
proof -
  define io where "io = mb_device w (mb_calls s)"
  obtain t where t: "mbim_arrivals (mb_alloc w) (io_before io) (s\<lparr>mb_calls := mb_calls s + 1\<rparr>) = Some t"
    and l: "mbim_send_locked (mb_alloc w) io r t = Some (ret, Some m, s')"
    using assms by (auto simp: mbim_send_command_def Let_def bind_eq_Some_conv io_def split: if_splits)
  have "mb_sent t = mb_sent s"
    using arrivals_frame [of "s\<lparr>mb_calls := mb_calls s + 1\<rparr>" "mb_alloc w" "io_before io"] t reader_frameD by fastforce
  then show ?thesis
    using send_locked_spec [of t r "mb_alloc w" io] l by (auto simp: answers_def)
qed

definition sample_mbim :: mbim where
  "sample_mbim = mbim_init_state\<lparr>mbim_fd := 3, mb_reader := True\<rparr>"

lemma sample_listening: "listening sample_mbim" "mb_TransactionId sample_mbim = 1" "mbim_sessionID sample_mbim = 0"
  by (simp_all add: listening_def sample_mbim_def mbim_init_state_def)

text \<open>A device that accepts the request to open it and answers with \<^verbatim>\<open>MBIM_OPEN_DONE\<close>.\<close>

definition sample_open :: buf where "sample_open = mbim_header MBIM_OPEN_MSG 16 1 @ bytes32 4096"
definition sample_opened :: buf where "sample_opened = mbim_header MBIM_OPEN_DONE 16 1 @ bytes32 0"

definition sample_opening :: mbim_env where
  "sample_opening = \<lparr>mb_alloc = (\<lambda>_. True), mb_junk = (\<lambda>_. 0), mb_device = (\<lambda>_. answered [] sample_open sample_opened),
     mb_socketpair = None\<rparr>"

theorem mbim_response_is_own_witness:
  "\<exists>t r. mbim_send_command sample_opening (Some sample_open) sample_mbim = Some (0, Some sample_opened, t) \<and>
     mb_sent t = mb_sent sample_mbim @ [r] \<and> rd32 sample_opened 8 = rd32 r 8 \<and> rd32 r 8 = Some 1"
proof -
  have m: "length sample_opened = 16" "rd32 sample_opened 8 = Some 1" "rd32 sample_opened 4 = Some 16"
    and r: "length sample_open = 16" "rd32 sample_open 8 = Some 1" "rd32 sample_open 4 = Some 16"
    by (simp_all add: sample_opened_def sample_open_def mbim_header_def rd32_append_right)
  have "\<exists>t. mbim_send_command sample_opening (Some sample_open) sample_mbim = Some (0, Some sample_opened, t) \<and> listening t \<and>
     without_reader t = without_reader (sample_mbim\<lparr>mb_calls := mb_calls sample_mbim + 1,
       mb_sent := mb_sent sample_mbim @ [sample_open], mbim_pRequest := None\<rparr>)"
    by (rule send_delivers [where tid = 1 and others = "[]"])
       (simp_all add: sample_listening request_of_def message_of_def m r sample_opening_def)
  then obtain t where t: "mbim_send_command sample_opening (Some sample_open) sample_mbim = Some (0, Some sample_opened, t)"
    by auto
  show ?thesis
    using mbim_response_is_own [OF t] t by (auto simp: m r sent_id_def)
qed

subsection \<open>The address of the modem\<close>

lemma length_mbim_command: "length (mbim_command tid uuid cid ty l info) = 32 + length uuid + length info"
  by (simp add: mbim_command_def mbim_header_def)

lemma command_request:
  assumes "length info < 2 ^ 31 - 48" "tid \<noteq> 0x1000000"
  shows "request_of tid (mbim_command tid basic_connect_id cid ty l info)"
  using assms
  by (simp add: request_of_def length_mbim_command) (simp add: mbim_command_def mbim_header_def rd32_append_right)

text \<open>The answer to a command of the basic service.\<close>

definition command_done :: "u32 \<Rightarrow> u32 \<Rightarrow> u32 \<Rightarrow> buf \<Rightarrow> buf" where
  "command_done tid cid status info =
     mbim_header MBIM_COMMAND_DONE (48 + length info) tid @ bytes32 1 @ bytes32 0 @ basic_connect_id @
     bytes32 cid @ bytes32 status @ bytes32 (of_nat (length info)) @ info"

lemma length_command_done: "length (command_done tid cid st info) = 48 + length info"
  by (simp add: command_done_def mbim_header_def)

lemma rd32_command_done:
  "rd32 (command_done tid cid st info) 0 = Some MBIM_COMMAND_DONE"
  "rd32 (command_done tid cid st info) 4 = Some (of_nat (48 + length info))"
  "rd32 (command_done tid cid st info) 8 = Some tid"
  "rd32 (command_done tid cid st info) 40 = Some st"
  "rd32 (command_done tid cid st info) 44 = Some (of_nat (length info))"
  by (simp_all add: command_done_def mbim_header_def rd32_append_right)

lemma rd32_done_info: "48 \<le> i \<Longrightarrow> rd32 (command_done tid cid st info) i = rd32 info (i - 48)"
  by (simp add: command_done_def mbim_header_def rd32_append_right)

lemma basic_answered:
  assumes "listening s" "mb_TransactionId s \<noteq> 0x1000000" "length req < 2 ^ 31 - 48" "mb_alloc w (48 + length req)" "req \<noteq> []"
    "mb_alloc w (48 + length info)" "info \<noteq> []" "length info \<le> 4048"
    "\<forall>b \<in> set others. \<exists>tid'. message_of tid' b \<and> tid' \<noteq> mb_TransactionId s"
    "mb_device w (mb_calls s) = answered others
       (mbim_command (mb_TransactionId s) basic_connect_id cid ty (of_nat (length req)) req)
       (command_done (mb_TransactionId s) cid 0 info)"
  shows "\<exists>t. mbim_basic w cid ty (Some req) (length req) f x s
      = do { (y, u) \<leftarrow> f (command_done (mb_TransactionId s) cid 0 info) x t; Some (0, y, u) } \<and> listening t"
proof -
  define tid r m where "tid = mb_TransactionId s" and "r = mbim_command tid basic_connect_id cid ty (of_nat (length req)) req"
    and "m = command_done tid cid 0 info"
  let ?s = "s\<lparr>mb_TransactionId := mb_TransactionId s + 1\<rparr>"
  have l: "(of_nat (length info) :: u32) \<noteq> 0"
    using assms(7,8) by (simp add: word_unat_eq_iff unat_of_nat_u32)
  have m: "message_of tid m" "rd32 m 4 = Some (of_nat (length m))" "mb_alloc w (length m)"
    using assms(6,8) by (simp_all add: message_of_def m_def length_command_done rd32_command_done)
  have "\<exists>t. mbim_send_command w (Some r) ?s = Some (0, Some m, t) \<and> listening t \<and>
     without_reader t = without_reader (?s\<lparr>mb_calls := mb_calls ?s + 1, mb_sent := mb_sent ?s @ [r], mbim_pRequest := None\<rparr>)"
    using assms command_request [of req tid cid ty "of_nat (length req)"]
    by (intro send_delivers [OF _ _ m, where others = others]) (simp_all add: tid_def r_def m_def)
  then obtain t where t: "mbim_send_command w (Some r) ?s = Some (0, Some m, t)" "listening t"
    by auto
  have "mbim_basic w cid ty (Some req) (length req) f x s = do { (y, u) \<leftarrow> f m x t; Some (0, y, u) }"
    using assms(4,5) t(1) l
    by (simp add: mbim_basic_def compose_basic_connect_command_def rdn_def mbim_transact_def mbim_check_err_def
        mbim_status_code_def rd32_command_done MBIM_COMMAND_DONE_def MBIM_OPEN_DONE_def MBIM_CLOSE_DONE_def
        flip: tid_def r_def m_def) (simp add: m_def rd32_command_done l MBIM_COMMAND_DONE_def)
  then show ?thesis
    using t(2) by (auto simp: m_def tid_def)
qed

end
