(* ===== verification/Mbim_Connect.thy ===== *)
theory Mbim_Connect
  imports Mbim_Props
begin

text \<open>
  The texts of the connect record. \<^verbatim>\<open>mbim_populate_connect_data\<close> places access point, user and password one after
  the other, but the position it keeps counts the last text only. With two texts the modem finds both; with all three the
  password is written over one of the others.
\<close>

subsection \<open>Reads after a store\<close>

lemma rdn_wr_self: "wr b i vs = Some b' \<Longrightarrow> rdn b' i (length vs) = Some vs"
  by (auto simp: wr_def rdn_def split: if_splits)

lemma rdn_wr_other:
  assumes "wr b i vs = Some b'" "j + n \<le> i \<or> i + length vs \<le> j"
  shows "rdn b' j n = rdn b j n"
proof -
  have "take n (drop j b') = take n (drop j b)" if "j + n \<le> i"
    using take_wr_below [OF assms(1) that] by (simp add: take_drop add.commute)
  moreover have "take n (drop j b') = take n (drop j b)" if "i + length vs \<le> j"
    using drop_wr_above [OF assms(1) that] by simp
  ultimately show ?thesis
    using assms(2) length_wr [OF assms(1)] by (auto simp: rdn_def)
qed

lemma rd32_via_rdn: "rd32 b i = Option.bind (rdn b i 4) (\<lambda>v. rd32 v 0)"
  by (auto simp: rdn_def rd32_def rd8_def)

lemma rd32_eq_rdn: "rdn b i 4 = rdn c i 4 \<Longrightarrow> rd32 b i = rd32 c i"
  unfolding rd32_via_rdn [of b i] rd32_via_rdn [of c i] by simp

lemma rd32_of_rdn: "rdn b i 4 = Some (bytes32 v) \<Longrightarrow> rd32 b i = Some v"
  unfolding rd32_via_rdn [of b i] using rd32_bytes32 [of v "[]"] by simp

lemma rdn_nth: "rdn b i n = Some v \<Longrightarrow> k < n \<Longrightarrow> v ! k = b ! (i + k)"
  by (auto simp: rdn_def split: if_splits)

subsection \<open>Wide texts\<close>

definition widen :: "cstr \<Rightarrow> buf" where
  "widen t = concat (map (\<lambda>c. [c, 0]) t)"

lemma length_widen: "length (widen t) = 2 * length t"
  by (induction t) (auto simp: widen_def)

lemma widen_nth: "k < length t \<Longrightarrow> widen t ! (2 * k) = t ! k"
proof (induction t arbitrary: k)
  case (Cons c t)
  then show ?case by (cases k) (auto simp: widen_def)
qed simp

lemma char2wchar_all: "2 * length t \<le> n \<Longrightarrow> char2wchar t (length t) n = widen t"
  by (auto simp: char2wchar_def widen_def)

lemma align_bounds: "0 \<le> n \<Longrightarrow> n \<le> align_32 n \<and> align_32 n < n + 4 \<and> align_32 n mod 4 = 0"
proof -
  define q r where "q = n div 4" and "r = n mod 4"
  have n: "n = 4 * q + r" "0 \<le> r" "r < 4"
    by (simp_all add: q_def r_def)
  have "align_32 n = n + (if r \<noteq> 0 then 4 - r else 0)"
    by (simp add: align_32_def r_def)
  also have "\<dots> = 4 * (if r \<noteq> 0 then q + 1 else q)"
    using n(1) by simp
  finally show ?thesis
    using n by (auto split: if_splits)
qed

lemma align_mono:
  assumes "0 \<le> x" "x \<le> y" shows "align_32 x \<le> align_32 y"
proof -
  obtain p q where "align_32 x = 4 * p" "align_32 y = 4 * q"
    using align_bounds [of x] align_bounds [of y] assms by (auto elim!: dvdE simp flip: dvd_eq_mod_eq_0)
  then show ?thesis
    using align_bounds [of x] align_bounds [of y] assms by simp
qed

lemma align_0 [simp]: "align_32 0 = 0"
  by (simp add: align_32_def)

lemma wide_len_nonneg [simp]: "0 \<le> wide_len t"
  by (simp add: wide_len_def)

subsection \<open>One text\<close>

text \<open>The text a member of the record refers to, and a record that has the text \<open>t\<close> at offset \<open>offset\<close> of its data.\<close>

definition record_text :: "buf \<Rightarrow> nat \<Rightarrow> buf access" where
  "record_text b field = do { off \<leftarrow> rd32 b field; n \<leftarrow> rd32 b (field + 4); rdn b (unat off) (unat n) }"

definition placed :: "buf \<Rightarrow> nat \<Rightarrow> cstr option \<Rightarrow> int \<Rightarrow> bool" where
  "placed b field t offset \<longleftrightarrow>
     (if nonempty t
      then rd32 b field = Some (word_of_int (offset + 60)) \<and> rd32 b (field + 4) = Some (of_nat (2 * length (the t))) \<and>
           rdn b (60 + nat offset) (2 * length (the t)) = Some (widen (the t))
      else rd32 b field = Some 0 \<and> rd32 b (field + 4) = Some 0)"

lemma record_text_at:
  assumes "rd32 b field = Some (word_of_int (offset + 60))" "rd32 b (field + 4) = Some (of_nat (2 * length x))"
    "0 \<le> offset" "offset + 2 * int (length x) < 2 ^ 30"
  shows "record_text b field = rdn b (60 + nat offset) (2 * length x)"
proof -
  obtain k where k: "offset = int k"
    using assms(3) by (auto elim: nonneg_int_cases)
  have "k + 60 < 4294967296" "2 * length x < 4294967296"
    using assms(4) k by auto
  then have "unat (of_nat (k + 60) :: u32) = k + 60" "unat (of_nat (2 * length x) :: u32) = 2 * length x"
    unfolding unat_of_nat_u32 by (simp_all only: mod_less)
  moreover have "(word_of_int (offset + 60) :: u32) = of_nat (k + 60)"
    by (simp add: k)
  ultimately have "unat (word_of_int (offset + 60) :: u32) = 60 + nat offset" "unat (of_nat (2 * length x) :: u32) = 2 * length x"
    by (simp_all only: k nat_int add.commute)
  then show ?thesis
    using assms(1,2) by (simp add: record_text_def del: of_nat_mult)
qed

lemma record_text_placed:
  assumes "placed b field t offset" "0 \<le> offset" "offset + wide_len t < 2 ^ 30"
  shows "record_text b field = Some (widen (text_of t))"
proof (cases "nonempty t")
  case True
  then show ?thesis
    using record_text_at [of b field offset "the t"] assms
    by (auto simp: placed_def text_of_def nonempty_def wide_len_def split: option.splits simp del: of_nat_mult)
next
  case False
  then have "text_of t = []"
    by (auto simp: nonempty_def text_of_def split: option.splits)
  then show ?thesis
    using assms(1) False by (simp add: record_text_def placed_def widen_def rdn_def)
qed

lemma placed_frame:
  assumes "placed b field t offset"
    "rdn c field 4 = rdn b field 4" "rdn c (field + 4) 4 = rdn b (field + 4) 4"
    "nonempty t \<Longrightarrow> rdn c (60 + nat offset) (2 * length (the t)) = rdn b (60 + nat offset) (2 * length (the t))"
  shows "placed c field t offset"
  using assms(1,4) rd32_eq_rdn [OF assms(2)] rd32_eq_rdn [OF assms(3)] by (auto simp: placed_def split: if_splits)

text \<open>What a store of the text \<open>t\<close> leaves alone.\<close>

definition untouched :: "nat \<Rightarrow> cstr option \<Rightarrow> int \<Rightarrow> nat \<Rightarrow> nat \<Rightarrow> bool" where
  "untouched field t offset j n \<longleftrightarrow> nonempty t \<longrightarrow> (j + n \<le> field \<or> field + 8 \<le> j) \<and>
     (j + n \<le> 60 + nat offset \<or> 60 + nat offset + nat (wide_len t) \<le> j)"

lemma put_text_spec:
  assumes "length b = 60 + nat buflen" "0 \<le> offset" "offset + wide_len t \<le> buflen" "buflen < 2 ^ 30"
    "field + 8 \<le> 60" "\<not> nonempty t \<Longrightarrow> placed b field t offset"
  shows "\<exists>b'. put_text buflen field t (b, offset) = Some (b', if nonempty t then align_32 (wide_len t) else offset) \<and>
    length b' = length b \<and> placed b' field t offset \<and> (\<forall>j n. untouched field t offset j n \<longrightarrow> rdn b' j n = rdn b j n)"
proof (cases "nonempty t")
  case True
  let ?x = "the t"
  have len: "wide_len t = 2 * int (length ?x)"
    using True by (simp add: wide_len_def)
  then have nat_len: "nat (wide_len t) = 2 * length ?x" and wl: "int (length (widen ?x)) = wide_len t"
    by (simp_all add: length_widen)
  have w: "char2wchar ?x (length ?x) (nat ((buflen - offset) mod 2 ^ 64)) = widen ?x"
  proof (rule char2wchar_all)
    have "(buflen - offset) mod 2 ^ 64 = buflen - offset"
      using assms(2-4) wide_len_nonneg [of t] by (intro mod_pos_pos_trivial, linarith) simp
    then show "2 * length ?x \<le> nat ((buflen - offset) mod 2 ^ 64)"
      using assms(3) len by simp
  qed
  obtain b1 where b1: "wr b (field + 4) (bytes32 (of_nat (2 * length ?x))) = Some b1"
    using assms(1,5) by (auto simp: wr_def)
  obtain b2 where b2: "wr b1 field (bytes32 (word_of_int (offset + 60))) = Some b2"
    using assms(1,5) length_wr [OF b1] by (auto simp: wr_def)
  have fits: "nat offset + 2 * length ?x \<le> nat buflen"
    using assms(2,3) len by (simp add: le_nat_iff)
  obtain b3 where b3: "wr b2 (60 + nat offset) (widen ?x) = Some b3"
    using assms(1) fits length_wr [OF b1] length_wr [OF b2] by (auto simp: wr_def length_widen)
  have fields: "rd32 b3 field = Some (word_of_int (offset + 60))" "rd32 b3 (field + 4) = Some (of_nat (2 * length ?x))"
    using rd32_wr_self [OF b2] rd32_wr_self [OF b1] assms(5)
      rd32_eq_rdn [OF rdn_wr_other [OF b3]] rd32_eq_rdn [OF rdn_wr_other [OF b2], of "field + 4"]
    by (simp_all del: of_nat_mult)
  have "placed b3 field t offset"
    using True fields rdn_wr_self [OF b3] by (simp add: placed_def length_widen)
  moreover have "rdn b3 j n = rdn b j n" if "untouched field t offset j n" for j n
    using True that rdn_wr_other [OF b1, of j n] rdn_wr_other [OF b2, of j n] rdn_wr_other [OF b3, of j n]
    by (auto simp: untouched_def nat_len length_widen)
  ultimately show ?thesis
    using True b1 b2 b3 w length_wr [OF b1] length_wr [OF b2] length_wr [OF b3]
    by (simp add: put_text_def wl del: of_nat_mult)
qed (use assms(6) in \<open>simp add: put_text_def\<close>)

subsection \<open>The record\<close>

text \<open>Where the texts go: the user after the access point, the password after the user or else the access point.\<close>

definition user_offset :: "cstr option \<Rightarrow> int" where
  "user_offset a = align_32 (wide_len a)"

definition passwd_offset :: "cstr option \<Rightarrow> cstr option \<Rightarrow> int" where
  "passwd_offset a u = (if nonempty u then align_32 (wide_len u) else user_offset a)"

definition connect_len :: "cstr option \<Rightarrow> cstr option \<Rightarrow> cstr option \<Rightarrow> int" where
  "connect_len a u p = align_32 (align_32 (align_32 (wide_len a) + wide_len u) + wide_len p)"

lemma wide_len_empty: "\<not> nonempty t \<Longrightarrow> wide_len t = 0"
  by (simp add: wide_len_def)

lemma offsets:
  "0 \<le> user_offset a" "0 \<le> passwd_offset a u"
  "wide_len a \<le> connect_len a u p" "user_offset a + wide_len u \<le> connect_len a u p"
  "passwd_offset a u + wide_len p \<le> connect_len a u p" "0 \<le> connect_len a u p"
  "connect_len a u p < wide_len a + wide_len u + wide_len p + 12"
proof -
  let ?x = "align_32 (wide_len a)" and ?y = "align_32 (align_32 (wide_len a) + wide_len u)"
  have x: "wide_len a \<le> ?x" "?x < wide_len a + 4" "0 \<le> ?x"
    using align_bounds [of "wide_len a"] wide_len_nonneg [of a] by linarith+
  have y: "?x + wide_len u \<le> ?y" "?y < ?x + wide_len u + 4"
    using align_bounds [of "?x + wide_len u"] x(3) wide_len_nonneg [of u] by linarith+
  have z: "?y + wide_len p \<le> connect_len a u p" "connect_len a u p < ?y + wide_len p + 4"
    using align_bounds [of "?y + wide_len p"] x(3) y(1) wide_len_nonneg [of u] wide_len_nonneg [of p]
    unfolding connect_len_def by linarith+
  have "align_32 (wide_len u) \<le> ?y" "0 \<le> align_32 (wide_len u)"
    using align_mono [of "wide_len u" "?x + wide_len u"] x(3) align_bounds [of "wide_len u"] wide_len_nonneg [of u] by linarith+
  then show "0 \<le> user_offset a" "0 \<le> passwd_offset a u"
    "wide_len a \<le> connect_len a u p" "user_offset a + wide_len u \<le> connect_len a u p"
    "passwd_offset a u + wide_len p \<le> connect_len a u p" "0 \<le> connect_len a u p"
    "connect_len a u p < wide_len a + wide_len u + wide_len p + 12"
    using x y z wide_len_nonneg [of u] wide_len_nonneg [of p] wide_len_nonneg [of a]
    by (auto simp: user_offset_def passwd_offset_def simp del: wide_len_nonneg)
qed

lemma placed_zeros: "\<not> nonempty t \<Longrightarrow> field + 8 \<le> n \<Longrightarrow> placed (replicate n 0) field t offset"
  using unat_le32 [of 0 0 0 0] by (simp add: placed_def rd32_def rd8_def word_unat_eq_iff)

lemma populate_spec:
  assumes "alloc (60 + nat (connect_len a u p))" "connect_len a u p < 2 ^ 30"
  shows "\<exists>b1 b2 b3. mbim_populate_connect_data alloc a u p = Some (connect_len a u p, Some b3) \<and>
    length b3 = 60 + nat (connect_len a u p) \<and>
    placed b1 8 a 0 \<and> placed b2 16 u (user_offset a) \<and> placed b3 24 p (passwd_offset a u) \<and>
    (\<forall>j n. untouched 16 u (user_offset a) j n \<longrightarrow> rdn b2 j n = rdn b1 j n) \<and>
    (\<forall>j n. untouched 24 p (passwd_offset a u) j n \<longrightarrow> rdn b3 j n = rdn b2 j n)"
proof -
  let ?l = "connect_len a u p"
  let ?b0 = "replicate (60 + nat ?l) 0 :: buf"
  obtain b1 where b1: "put_text ?l 8 a (?b0, 0) = Some (b1, if nonempty a then align_32 (wide_len a) else 0)"
    "length b1 = 60 + nat ?l" "placed b1 8 a 0" "\<forall>j n. untouched 8 a 0 j n \<longrightarrow> rdn b1 j n = rdn ?b0 j n"
    using put_text_spec [of ?b0 ?l 0 a 8] offsets(3) [of a u p] assms(2) by (auto simp: placed_zeros)
  have o2: "(if nonempty a then align_32 (wide_len a) else 0) = user_offset a"
    by (simp add: user_offset_def wide_len_empty)
  have u0: "placed b1 16 u (user_offset a)" if "\<not> nonempty u"
    by (rule placed_frame [OF placed_zeros [OF that, of 16 "60 + nat ?l"]]) (use b1(4) that in \<open>auto simp: untouched_def\<close>)
  obtain b2 where b2: "put_text ?l 16 u (b1, user_offset a) = Some (b2, if nonempty u then align_32 (wide_len u) else user_offset a)"
    "length b2 = 60 + nat ?l" "placed b2 16 u (user_offset a)" "\<forall>j n. untouched 16 u (user_offset a) j n \<longrightarrow> rdn b2 j n = rdn b1 j n"
    using put_text_spec [of b1 ?l "user_offset a" u 16] offsets(1) [of a] offsets(4) [of a u p] assms(2) b1(2) u0 by auto
  have p0: "placed b2 24 p (passwd_offset a u)" if "\<not> nonempty p"
    by (rule placed_frame [OF placed_zeros [OF that, of 24 "60 + nat ?l"]]) (use b1(4) b2(4) that in \<open>auto simp: untouched_def\<close>)
  obtain b3 off where "put_text ?l 24 p (b2, passwd_offset a u) = Some (b3, off)"
    "length b3 = 60 + nat ?l" "placed b3 24 p (passwd_offset a u)"
    "\<forall>j n. untouched 24 p (passwd_offset a u) j n \<longrightarrow> rdn b3 j n = rdn b2 j n"
    using put_text_spec [of b2 ?l "passwd_offset a u" p 24] offsets(2) [of a u] offsets(5) [of a u p] assms(2) b2(2) p0 by auto
  then show ?thesis
    using b1 b2 assms(1) o2
    by - (rule exI [of _ b1], rule exI [of _ b2], rule exI [of _ b3],
          simp add: mbim_populate_connect_data_def Let_def connect_len_def passwd_offset_def)
qed

text \<open>The members the caller sets afterwards leave the texts alone.\<close>

lemma wr_total:
  assumes "i + length vs \<le> length b"
  shows "\<exists>b'. wr b i vs = Some b' \<and> length b' = length b \<and> rdn b' i (length vs) = Some vs \<and>
    (\<forall>j n. j + n \<le> i \<or> i + length vs \<le> j \<longrightarrow> rdn b' j n = rdn b j n)"
proof -
  obtain b' where "wr b i vs = Some b'"
    using assms by (auto simp: wr_def)
  then show ?thesis
    using rdn_wr_self [of b i vs b'] rdn_wr_other [of b i vs b'] length_wr [of b i vs b'] by blast
qed

lemma connect_record_spec:
  assumes "mbim_populate_connect_data (mb_alloc w) (mbim_apn s) (mbim_user s) (mbim_passwd s) = Some (l, Some b)" "60 \<le> length b"
  shows "\<exists>c. connect_record w onoff sid s = Some (Some c) \<and> length c = length b \<and>
    rd32 c 0 = Some (word_of_int sid) \<and> rd32 c 4 = Some (if onoff = 0 then 0 else 1) \<and>
    rd32 c 36 = Some (word_of_int (mbim_auth s)) \<and> rd32 c 40 = Some (word_of_int (mbim_iptype s)) \<and>
    (\<forall>j n. 8 \<le> j \<and> j + n \<le> 32 \<or> 60 \<le> j \<longrightarrow> rdn c j n = rdn b j n)"
proof -
  obtain uuid where u: "str2uuid UUID_MBIMContextTypeInternet = Some uuid" "length uuid = 16" by simp
  obtain b0 where b0: "wr b 0 (bytes32 (word_of_int sid)) = Some b0" "length b0 = length b" "rdn b0 0 4 = Some (bytes32 (word_of_int sid))"
    "\<forall>j n. j + n \<le> 0 \<or> 4 \<le> j \<longrightarrow> rdn b0 j n = rdn b j n"
    using wr_total [of 0 "bytes32 (word_of_int sid)" b] assms(2) by auto
  obtain b1 where b1: "wr b0 4 (bytes32 (if onoff = 0 then 0 else 1)) = Some b1" "length b1 = length b"
    "rdn b1 4 4 = Some (bytes32 (if onoff = 0 then 0 else 1))" "\<forall>j n. j + n \<le> 4 \<or> 8 \<le> j \<longrightarrow> rdn b1 j n = rdn b0 j n"
    using wr_total [of 4 "bytes32 (if onoff = 0 then 0 else 1)" b0] assms(2) b0(2) by auto
  obtain b2 where b2: "wr b1 32 (bytes32 0) = Some b2" "length b2 = length b" "\<forall>j n. j + n \<le> 32 \<or> 36 \<le> j \<longrightarrow> rdn b2 j n = rdn b1 j n"
    using wr_total [of 32 "bytes32 0" b1] assms(2) b1(2) by auto
  obtain b3 where b3: "wr b2 36 (bytes32 (word_of_int (mbim_auth s))) = Some b3" "length b3 = length b"
    "rdn b3 36 4 = Some (bytes32 (word_of_int (mbim_auth s)))" "\<forall>j n. j + n \<le> 36 \<or> 40 \<le> j \<longrightarrow> rdn b3 j n = rdn b2 j n"
    using wr_total [of 36 "bytes32 (word_of_int (mbim_auth s))" b2] assms(2) b2(2) by auto
  obtain b4 where b4: "wr b3 40 (bytes32 (word_of_int (mbim_iptype s))) = Some b4" "length b4 = length b"
    "rdn b4 40 4 = Some (bytes32 (word_of_int (mbim_iptype s)))" "\<forall>j n. j + n \<le> 40 \<or> 44 \<le> j \<longrightarrow> rdn b4 j n = rdn b3 j n"
    using wr_total [of 40 "bytes32 (word_of_int (mbim_iptype s))" b3] assms(2) b3(2) by auto
  obtain c where c: "wr b4 44 uuid = Some c" "length c = length b" "\<forall>j n. j + n \<le> 44 \<or> 60 \<le> j \<longrightarrow> rdn c j n = rdn b4 j n"
    using wr_total [of 44 uuid b4] assms(2) b4(2) u(2) by auto
  have "connect_record w onoff sid s = Some (Some c)"
    using u(1) b0(1) b1(1) b2(1) b3(1) b4(1) c(1) by (simp add: connect_record_def assms(1))
  moreover have "rdn c 0 4 = Some (bytes32 (word_of_int sid))" "rdn c 4 4 = Some (bytes32 (if onoff = 0 then 0 else 1))"
    "rdn c 36 4 = Some (bytes32 (word_of_int (mbim_auth s)))" "rdn c 40 4 = Some (bytes32 (word_of_int (mbim_iptype s)))"
    using b0 b1 b2 b3 b4 c by simp_all
  moreover have "rdn c j n = rdn b j n" if "8 \<le> j \<and> j + n \<le> 32 \<or> 60 \<le> j" for j n
    using that b0(4) b1(4) b2(3) b3(4) b4(4) c(3) by auto
  ultimately show ?thesis
    using c(2) rd32_of_rdn by auto
qed

subsection \<open>Two texts and three\<close>

lemma nat_offsets: "2 * length (the t) = nat (wide_len t)" if "nonempty t"
  using that by (simp add: wide_len_def)

lemma wide_align: "nat (wide_len t) \<le> nat (align_32 (wide_len t))"
  using align_bounds [of "wide_len t"] wide_len_nonneg [of t] by (intro nat_mono) blast

text \<open>The record after all stores: the password is in place, and what its store left alone is as after the user.\<close>

lemma connect_record_full:
  assumes "mb_alloc w (60 + nat (connect_len (mbim_apn s) (mbim_user s) (mbim_passwd s)))"
    "wide_len (mbim_apn s) + wide_len (mbim_user s) + wide_len (mbim_passwd s) < 2 ^ 29"
    and defs: "a = mbim_apn s" "u = mbim_user s" "p = mbim_passwd s"
  shows "\<exists>b1 b2 c. connect_record w onoff sid s = Some (Some c) \<and>
    rd32 c 0 = Some (word_of_int sid) \<and> rd32 c 4 = Some (if onoff = 0 then 0 else 1) \<and>
    rd32 c 36 = Some (word_of_int (mbim_auth s)) \<and> rd32 c 40 = Some (word_of_int (mbim_iptype s)) \<and>
    placed b1 8 a 0 \<and> placed b2 16 u (user_offset a) \<and> placed c 24 p (passwd_offset a u) \<and>
    (\<forall>j n. untouched 16 u (user_offset a) j n \<longrightarrow> rdn b2 j n = rdn b1 j n) \<and>
    (\<forall>j n. (8 \<le> j \<and> j + n \<le> 32 \<or> 60 \<le> j) \<and> untouched 24 p (passwd_offset a u) j n \<longrightarrow> rdn c j n = rdn b2 j n)"
proof -
  have lim: "connect_len a u p < 2 ^ 30"
    using offsets(7) [of a u p] assms(2) by (simp add: defs)
  obtain b1 b2 b3 where b: "mbim_populate_connect_data (mb_alloc w) a u p = Some (connect_len a u p, Some b3)"
    "length b3 = 60 + nat (connect_len a u p)" "placed b1 8 a 0" "placed b2 16 u (user_offset a)" "placed b3 24 p (passwd_offset a u)"
    "\<forall>j n. untouched 16 u (user_offset a) j n \<longrightarrow> rdn b2 j n = rdn b1 j n"
    "\<forall>j n. untouched 24 p (passwd_offset a u) j n \<longrightarrow> rdn b3 j n = rdn b2 j n"
    using populate_spec [of "mb_alloc w" a u p, OF _ lim] assms(1) by (auto simp: defs)
  obtain c where c: "connect_record w onoff sid s = Some (Some c)" "rd32 c 0 = Some (word_of_int sid)"
    "rd32 c 4 = Some (if onoff = 0 then 0 else 1)" "rd32 c 36 = Some (word_of_int (mbim_auth s))"
    "rd32 c 40 = Some (word_of_int (mbim_iptype s))" "\<forall>j n. 8 \<le> j \<and> j + n \<le> 32 \<or> 60 \<le> j \<longrightarrow> rdn c j n = rdn b3 j n"
    using connect_record_spec [of w s "connect_len a u p" b3 onoff sid] b(1,2) by (auto simp: defs)
  have "placed c 24 p (passwd_offset a u)"
    by (rule placed_frame [OF b(5)]) (use c(6) in auto)
  then show ?thesis
    using b c by - (rule exI [of _ b1], rule exI [of _ b2], rule exI [of _ c], auto)
qed

lemma record_text_within:
  assumes "placed c field t offset" "0 \<le> offset" "offset + wide_len t \<le> connect_len a u p"
    "wide_len a + wide_len u + wide_len p < 2 ^ 29"
  shows "record_text c field = Some (widen (text_of t))"
  using offsets(7) [of a u p] assms by (intro record_text_placed) auto

text \<open>C18: unless access point, user and password are all given, the record that starts or stops a data call is complete and the modem reads
  from it exactly the texts of the profile, the session, the activation command, the authentication and the type of address.\<close>

theorem connect_texts_roundtrip:
  assumes "\<not> (nonempty (mbim_apn s) \<and> nonempty (mbim_user s) \<and> nonempty (mbim_passwd s))"
    "wide_len (mbim_apn s) + wide_len (mbim_user s) + wide_len (mbim_passwd s) < 2 ^ 29"
    "mb_alloc w (60 + nat (connect_len (mbim_apn s) (mbim_user s) (mbim_passwd s)))"
  shows "\<exists>c. connect_record w onoff sid s = Some (Some c) \<and>
    record_text c 8 = Some (widen (text_of (mbim_apn s))) \<and> record_text c 16 = Some (widen (text_of (mbim_user s))) \<and>
    record_text c 24 = Some (widen (text_of (mbim_passwd s))) \<and>
    rd32 c 0 = Some (word_of_int sid) \<and> rd32 c 4 = Some (if onoff = 0 then 0 else 1) \<and>
    rd32 c 36 = Some (word_of_int (mbim_auth s)) \<and> rd32 c 40 = Some (word_of_int (mbim_iptype s))"
proof -
  define a u p where "a = mbim_apn s" and "u = mbim_user s" and "p = mbim_passwd s"
  obtain b1 b2 c where c: "connect_record w onoff sid s = Some (Some c)" "rd32 c 0 = Some (word_of_int sid)"
    "rd32 c 4 = Some (if onoff = 0 then 0 else 1)" "rd32 c 36 = Some (word_of_int (mbim_auth s))"
    "rd32 c 40 = Some (word_of_int (mbim_iptype s))"
    and b: "placed b1 8 a 0" "placed b2 16 u (user_offset a)" "placed c 24 p (passwd_offset a u)"
    "\<forall>j n. untouched 16 u (user_offset a) j n \<longrightarrow> rdn b2 j n = rdn b1 j n"
    "\<forall>j n. (8 \<le> j \<and> j + n \<le> 32 \<or> 60 \<le> j) \<and> untouched 24 p (passwd_offset a u) j n \<longrightarrow> rdn c j n = rdn b2 j n"
    using connect_record_full [OF assms(3,2) a_def u_def p_def] by metis
  have up: "nonempty u \<Longrightarrow> nonempty p \<Longrightarrow> user_offset a = 0"
    using assms(1) by (simp add: user_offset_def wide_len_empty a_def u_def p_def)
  have p16: "placed c 16 u (user_offset a)"
    by (rule placed_frame [OF b(2)])
       (use b(5) up wide_align [of u] in \<open>auto simp: untouched_def passwd_offset_def nat_offsets\<close>)
  have "placed b2 8 a 0"
    by (rule placed_frame [OF b(1)]) (use b(4) wide_align [of a] in \<open>auto simp: untouched_def user_offset_def nat_offsets\<close>)
  then have p8: "placed c 8 a 0"
    by (rule placed_frame)
       (use b(5) assms(1) wide_align [of a] in \<open>auto simp: untouched_def passwd_offset_def user_offset_def nat_offsets a_def u_def p_def\<close>)
  have "wide_len a + wide_len u + wide_len p < 2 ^ 29"
    using assms(2) by (simp add: a_def u_def p_def)
  from record_text_within [OF p8 _ _ this] record_text_within [OF p16 _ _ this] record_text_within [OF b(3) _ _ this]
  show ?thesis
    using c offsets(3-5) [of a u p] offsets(1) [of a] offsets(2) [of a u]
    by (intro exI [of _ c]) (simp add: a_def u_def p_def)
qed

definition sample_connect :: mbim where
  "sample_connect = sample_mbim\<lparr>mbim_apn := Some (ascii ''internet''), mbim_user := Some (ascii ''user'')\<rparr>"

definition sample_memory :: mbim_env where
  "sample_memory = \<lparr>mb_alloc = (\<lambda>_. True), mb_junk = (\<lambda>_. 0), mb_device = (\<lambda>_. answered [] [] []), mb_socketpair = None\<rparr>"

lemma sample_connect:
  "mbim_apn sample_connect = Some (ascii ''internet'')" "mbim_user sample_connect = Some (ascii ''user'')" "mbim_passwd sample_connect = None"
  "mb_alloc sample_memory n"
  by (simp_all add: sample_connect_def sample_mbim_def mbim_init_state_def sample_memory_def)

lemma ascii_Nil [simp]: "ascii t = [] \<longleftrightarrow> t = []"
  by (simp add: ascii_def)

theorem connect_texts_roundtrip_witness:
  "\<exists>c. connect_record sample_memory 1 0 sample_connect = Some (Some c) \<and> record_text c 8 = Some (widen (ascii ''internet'')) \<and>
     record_text c 16 = Some (widen (ascii ''user'')) \<and> rd32 c 4 = Some 1"
  using connect_texts_roundtrip [of sample_connect sample_memory 1 0]
  by (auto simp: sample_connect nonempty_def wide_len_def text_of_def)

lemma align_multiple:
  assumes "0 \<le> n" shows "\<exists>q. align_32 n = 4 * int q \<and> n \<le> 4 * int q \<and> 4 * int q < n + 4"
proof -
  obtain z where z: "align_32 n = 4 * z"
    using align_bounds [OF assms] by (auto elim!: dvdE simp flip: dvd_eq_mod_eq_0)
  then have "0 \<le> z"
    using align_bounds [OF assms] assms by linarith
  then show ?thesis
    using align_bounds [OF assms] z by (intro exI [of _ "nat z"]) simp
qed

text \<open>The place of the password is within the access point or within the user.\<close>

lemma passwd_inside:
  assumes "0 < m" "0 < n"
  shows "(\<exists>k < m. nat (align_32 (2 * int n)) = 2 * k) \<or>
         (\<exists>k < n. nat (align_32 (2 * int n)) = nat (align_32 (2 * int m)) + 2 * k)"
proof -
  obtain q r where q: "align_32 (2 * int m) = 4 * int q" "2 * int m \<le> 4 * int q" "4 * int q < 2 * int m + 4"
    and r: "align_32 (2 * int n) = 4 * int r" "2 * int n \<le> 4 * int r" "4 * int r < 2 * int n + 4"
    using align_multiple [of "2 * int m"] align_multiple [of "2 * int n"] by auto
  show ?thesis
  proof (cases "r < q")
    case True
    then have "2 * r < m" "nat (align_32 (2 * int n)) = 2 * (2 * r)"
      using q(3) r(1) by auto
    then show ?thesis by blast
  next
    case False
    then obtain d where d: "r = q + d"
      using le_Suc_ex [of q r] by auto
    have "1 \<le> q"
      using q(2) assms(1) by linarith
    moreover have "4 * int q + 4 * int d < 2 * int n + 4"
      using r(3) d by simp
    ultimately have "2 * d < n"
      by linarith
    moreover have "nat (align_32 (2 * int n)) = nat (align_32 (2 * int m)) + 2 * (2 * d)"
      using q(1) r(1) d by simp
    ultimately show ?thesis by blast
  qed
qed

lemma widen_member:
  assumes "rdn c i (2 * length t) = Some (widen t)" "k < length t" shows "c ! (i + 2 * k) \<in> set t"
  using rdn_nth [OF assms(1), of "2 * k"] widen_nth [OF assms(2)] assms(2) by (metis nth_mem mult_less_cancel1 zero_less_numeral)

text \<open>C19: when all three texts are given, the record still has the password at the place it says, but the password was written over the
  access point or the user: if its first character does not occur in them, the modem does not read both of them.\<close>

theorem password_overwrites:
  assumes texts: "mbim_apn s = Some a" "mbim_user s = Some u" "mbim_passwd s = Some (x # p)" "a \<noteq> []" "u \<noteq> []"
    and fresh: "x \<notin> set a" "x \<notin> set u"
    and lim: "wide_len (mbim_apn s) + wide_len (mbim_user s) + wide_len (mbim_passwd s) < 2 ^ 29"
    and alloc: "mb_alloc w (60 + nat (connect_len (mbim_apn s) (mbim_user s) (mbim_passwd s)))"
  shows "\<exists>c. connect_record w onoff sid s = Some (Some c) \<and> record_text c 24 = Some (widen (x # p)) \<and>
    (record_text c 8 \<noteq> Some (widen a) \<or> record_text c 16 \<noteq> Some (widen u))"
proof -
  let ?A = "Some a" and ?U = "Some u" and ?P = "Some (x # p)"
  have ne: "nonempty ?A" "nonempty ?U" "nonempty ?P" "0 < length a" "0 < length u"
    using texts by (auto simp: nonempty_def)
  have w: "wide_len ?A = 2 * int (length a)" "wide_len ?U = 2 * int (length u)" "user_offset ?A = align_32 (2 * int (length a))"
    "passwd_offset ?A ?U = align_32 (2 * int (length u))"
    using ne by (simp_all add: wide_len_def user_offset_def passwd_offset_def)
  have lim': "wide_len ?A + wide_len ?U + wide_len ?P < 2 ^ 29"
    using lim by (simp add: texts)
  obtain b1 b2 c where c: "connect_record w onoff sid s = Some (Some c)"
    and b: "placed b1 8 ?A 0" "placed b2 16 ?U (user_offset ?A)" "placed c 24 ?P (passwd_offset ?A ?U)"
    "\<forall>j n. untouched 16 ?U (user_offset ?A) j n \<longrightarrow> rdn b2 j n = rdn b1 j n"
    "\<forall>j n. (8 \<le> j \<and> j + n \<le> 32 \<or> 60 \<le> j) \<and> untouched 24 ?P (passwd_offset ?A ?U) j n \<longrightarrow> rdn c j n = rdn b2 j n"
    using connect_record_full [OF alloc lim texts(1-3) [symmetric]] by metis
  have keep: "rd32 c j = rd32 b2 j" "rd32 b2 i = rd32 b1 i" if "8 \<le> j \<and> j \<le> 20" "i \<le> 12" for i j
    using that b(4,5) by (auto intro!: rd32_eq_rdn simp: untouched_def)
  have bnd: "0 + 2 * int (length a) < 2 ^ 30" "user_offset ?A + 2 * int (length u) < 2 ^ 30"
    using lim' offsets(3,4) [of ?A ?U ?P] offsets(7) [of ?A ?U ?P] unfolding w(1,2) by simp_all
  have "rd32 c 8 = Some (word_of_int (0 + 60))" "rd32 c (8 + 4) = Some (of_nat (2 * length a))"
    "rd32 c 16 = Some (word_of_int (user_offset ?A + 60))" "rd32 c (16 + 4) = Some (of_nat (2 * length u))"
    using b(1,2) ne keep [of 8 8] keep [of 12 12] keep [of 16 8] keep [of 20 8] by (simp_all add: placed_def del: of_nat_mult)
  then have fields: "record_text c 8 = rdn c 60 (2 * length a)"
    "record_text c 16 = rdn c (60 + nat (user_offset ?A)) (2 * length u)"
    using record_text_at [OF _ _ _ bnd(1), of c 8] record_text_at [OF _ _ offsets(1) bnd(2), of c 16] by simp_all
  have pw: "record_text c 24 = Some (widen (x # p))"
    using record_text_within [OF b(3) offsets(2) offsets(5) lim'] by (simp add: text_of_def)
  have "c ! (60 + nat (passwd_offset ?A ?U)) = x"
    using b(3) ne rdn_nth [of c "60 + nat (passwd_offset ?A ?U)" "2 * length (x # p)" "widen (x # p)" 0]
    by (simp add: placed_def widen_def)
  then have "record_text c 8 \<noteq> Some (widen a) \<or> record_text c 16 \<noteq> Some (widen u)"
    using passwd_inside [OF ne(4,5)] widen_member [of c 60 a] widen_member [of c "60 + nat (user_offset ?A)" u] fresh
    unfolding fields w by (metis add.assoc)
  then show ?thesis
    using c pw by blast
qed

theorem password_overwrites_witness:
  "\<exists>c. connect_record sample_memory 1 0 (sample_connect\<lparr>mbim_passwd := Some (ascii ''pwd'')\<rparr>) = Some (Some c) \<and>
     record_text c 24 = Some (widen (ascii ''pwd'')) \<and>
     (record_text c 8 \<noteq> Some (widen (ascii ''internet'')) \<or> record_text c 16 \<noteq> Some (widen (ascii ''user'')))"
  using password_overwrites [of "sample_connect\<lparr>mbim_passwd := Some (ascii ''pwd'')\<rparr>" "ascii ''internet''" "ascii ''user''" 112
      "ascii ''wd''" sample_memory 1 0]
  by (auto simp: sample_connect nonempty_def wide_len_def text_of_def ascii_def)

end
