(* ===== verification/Mbim_Proxy.thy ===== *)
theory Mbim_Proxy
  imports Mbim_Wire
begin

text \<open>
  \<^verbatim>\<open>quectel-mbim-proxy\<close> (\<^verbatim>\<open>quectel-mbim-proxy.c\<close>): one process owns the MBIM device and shares it between up to 32 local
  clients. The upper byte of a transaction identifier carries the number of the client on the way to the device and is
  cleared on the way back. The statics of the file and the server socket of \<^verbatim>\<open>proxy_loop\<close> are the record \<open>mbim_proxy\<close>, which also
  logs the attempts to write, the closed descriptors and the open sockets that are bound to the address of the proxy. What
  \<^verbatim>\<open>poll\<close>, \<^verbatim>\<open>read\<close> and \<^verbatim>\<open>accept\<close> find is an argument: a list of poll results, each with an entry per polled descriptor.
\<close>

subsection \<open>State\<close>

abbreviation (input) "CM_MAX_CLIENT \<equiv> (32 :: nat)"
abbreviation (input) "TID_MASK \<equiv> (0xFFFFFF :: u32)"
abbreviation (input) "TID_SHIFT \<equiv> (24 :: nat)"

record CM_CLIENT_T =
  client_fd :: int
  client_idx :: int

record mbim_proxy =
  cm_clients :: "CM_CLIENT_T list"
  cm_recv_buffer :: buf
  mbim_server_fd :: int
  verbose :: bool
  mp_writes :: "(int \<times> buf) list"
  mp_closed :: "int list"
  mp_bound :: "int list"

text \<open>\<^verbatim>\<open>accept\<close> gets the list of the open descriptors, since it returns none of them; a failed \<^verbatim>\<open>read\<close> is \<open>None\<close> and the end of the
  file \<open>Some []\<close>.\<close>

record mp_event =
  ev_hup :: bool
  ev_in :: bool
  ev_accept :: "int list \<Rightarrow> int"
  ev_read :: "buf option"

record mp_server =
  srv_socket :: int
  srv_setsockopt :: bool
  srv_bind :: bool

record mp_poll =
  poll_ret :: int
  poll_revents :: "nat \<Rightarrow> mp_event"
  poll_server :: mp_server

definition no_client :: CM_CLIENT_T where
  "no_client = \<lparr>client_fd = 0, client_idx = 0\<rparr>"

definition close_fd :: "int \<Rightarrow> mbim_proxy \<Rightarrow> mbim_proxy" where
  "close_fd fd s = s\<lparr>mp_closed := mp_closed s @ [fd], mp_bound := removeAll fd (mp_bound s)\<rparr>"

text \<open>The index of the first entry with a property, as the loops over \<^verbatim>\<open>cm_clients\<close> find it.\<close>

fun first_index :: "('a \<Rightarrow> bool) \<Rightarrow> 'a list \<Rightarrow> nat option" where
  "first_index P [] = None"
| "first_index P (x # xs) = (if P x then Some 0 else map_option Suc (first_index P xs))"

subsection \<open>Writing\<close>

text \<open>The result is \<open>len\<close> whatever \<^verbatim>\<open>poll\<close> and \<^verbatim>\<open>write\<close> return.\<close>

definition non_block_write :: "int \<Rightarrow> buf \<Rightarrow> nat \<Rightarrow> mbim_proxy \<Rightarrow> (nat \<times> mbim_proxy) access" where
  "non_block_write fd data len s = do {
     bs \<leftarrow> rdn data 0 len;
     Some (len, s\<lparr>mp_writes := mp_writes s @ [(fd, bs)]\<rparr>) }"

definition mbim_send_open_msg :: "int \<Rightarrow> u32 \<Rightarrow> mbim_proxy \<Rightarrow> (nat \<times> mbim_proxy) access" where
  "mbim_send_open_msg mbim_dev_fd MaxControlTransfer s =
     non_block_write mbim_dev_fd (mbim_header MBIM_OPEN_MSG 16 1 @ bytes32 MaxControlTransfer) 16 s"

subsection \<open>The server socket\<close>

text \<open>An address in use, or the descriptor \<open>-1\<close> a failed \<^verbatim>\<open>setsockopt\<close> leaves, makes \<^verbatim>\<open>bind\<close> fail.\<close>

definition proxy_make_server :: "mp_server \<Rightarrow> mbim_proxy \<Rightarrow> int \<times> mbim_proxy" where
  "proxy_make_server os s =
     (if srv_socket os < 0 then (- 1, s)
      else (let fd = srv_socket os;
                (fd, s) = (if srv_setsockopt os then (fd, s) else if 0 < fd then (- 1, close_fd fd s) else (fd, s))
            in if fd < 0 \<or> \<not> srv_bind os \<or> mp_bound s \<noteq> [] then (- 1, if 0 < fd then close_fd fd s else s)
               else (fd, s\<lparr>mp_bound := mp_bound s @ [fd]\<rparr>)))"

subsection \<open>Clients\<close>

definition open_fds :: "int \<Rightarrow> mbim_proxy \<Rightarrow> int list" where
  "open_fds mbim_dev_fd s = mbim_dev_fd # mbim_server_fd s # mp_bound s @ map client_fd (cm_clients s)"

definition handle_client_connect :: "int \<Rightarrow> (int list \<Rightarrow> int) \<Rightarrow> mbim_proxy \<Rightarrow> int \<times> mbim_proxy" where
  "handle_client_connect mbim_dev_fd acc s =
     (let fd = acc (open_fds mbim_dev_fd s)
      in if fd < 0 then (- 1, s)
         else (case first_index (\<lambda>c. client_fd c \<le> 0) (cm_clients s) of
                 Some i \<Rightarrow> (0, s\<lparr>cm_clients := (cm_clients s)[i := \<lparr>client_fd = fd, client_idx = int i + 1\<rparr>]\<rparr>)
               | None \<Rightarrow> (- 1, close_fd fd s)))"

definition handle_client_disconnect :: "int \<Rightarrow> mbim_proxy \<Rightarrow> mbim_proxy" where
  "handle_client_disconnect fd s =
     (case first_index (\<lambda>c. client_fd c = fd) (cm_clients s) of
        None \<Rightarrow> s
      | Some i \<Rightarrow> if 0 < fd then (close_fd fd s)\<lparr>cm_clients := (cm_clients s)[i := (cm_clients s ! i)\<lparr>client_fd := - 1\<rparr>]\<rparr>
                  else s)"

text \<open>With \<^verbatim>\<open>-v\<close> the entry behind the client's own is read for the log, which the 32nd client does not have.\<close>

definition log_client :: "int \<Rightarrow> mbim_proxy \<Rightarrow> unit access" where
  "log_client idx s = (if verbose s \<and> \<not> nat idx < length (cm_clients s) then None else Some ())"

definition handle_client_request :: "int \<Rightarrow> int \<Rightarrow> nat \<Rightarrow> mbim_proxy \<Rightarrow> (int \<times> mbim_proxy) access" where
  "handle_client_request mbim_dev_fd fd len s = do {
     TransactionId \<leftarrow> rd32 (cm_recv_buffer s) 8;
     case map_option (\<lambda>i. client_idx (cm_clients s ! i)) (first_index (\<lambda>c. client_fd c = fd) (cm_clients s)) of
       None \<Rightarrow> Some (- 1, s)
     | Some idx \<Rightarrow>
         if idx = - 1 then Some (- 1, s)
         else do {
           MessageType \<leftarrow> rd32 (cm_recv_buffer s) 0;
           if MessageType = MBIM_OPEN_MSG \<or> MessageType = MBIM_CLOSE_MSG then do {
             (_, s) \<leftarrow> non_block_write fd (mbim_header (MessageType OR 0x80000000) 16 TransactionId @ bytes32 0) 16 s;
             Some (0, s) }
           else do {
             b \<leftarrow> wr (cm_recv_buffer s) 8 (bytes32 (TransactionId OR push_bit TID_SHIFT (word_of_int idx)));
             let s = s\<lparr>cm_recv_buffer := b\<rparr>;
             _ \<leftarrow> log_client idx s;
             (ret, s) \<leftarrow> non_block_write mbim_dev_fd b len s;
             Some (if ret = len then 0 else - 1, s) } } }"

subsection \<open>Messages of the device\<close>

fun send_to_all :: "int list \<Rightarrow> buf \<Rightarrow> nat \<Rightarrow> mbim_proxy \<Rightarrow> mbim_proxy access" where
  "send_to_all [] data len s = Some s"
| "send_to_all (fd # fds) data len s = do { (_, s) \<leftarrow> non_block_write fd data len s; send_to_all fds data len s }"

definition live_fds :: "mbim_proxy \<Rightarrow> int list" where
  "live_fds s = filter (\<lambda>fd. 0 < fd) (map client_fd (cm_clients s))"

definition handle_device_response :: "nat \<Rightarrow> mbim_proxy \<Rightarrow> mbim_proxy access" where
  "handle_device_response len s = do {
     TransactionId \<leftarrow> rd32 (cm_recv_buffer s) 8;
     if TransactionId = 0 then send_to_all (live_fds s) (cm_recv_buffer s) len s
     else (case first_index (\<lambda>c. client_idx c = uint (drop_bit TID_SHIFT TransactionId) \<and> 0 < client_fd c) (cm_clients s) of
             None \<Rightarrow> Some s
           | Some i \<Rightarrow> do {
               b \<leftarrow> wr (cm_recv_buffer s) 8 (bytes32 (TransactionId AND TID_MASK));
               (_, s) \<leftarrow> non_block_write (client_fd (cm_clients s ! i)) b len (s\<lparr>cm_recv_buffer := b\<rparr>);
               Some s }) }"

subsection \<open>The loop\<close>

text \<open>How a turn ends: it goes on, it is left by \<^verbatim>\<open>goto error\<close>, or the function returns from inside of it.\<close>

datatype mp_flow = Go_on mbim_proxy | Goto_error mbim_proxy | Return_now int mbim_proxy

definition open_done :: "mp_server \<Rightarrow> mbim_proxy \<Rightarrow> mp_flow access" where
  "open_done os s = do {
     MessageType \<leftarrow> rd32 (cm_recv_buffer s) 0;
     if MessageType = MBIM_OPEN_DONE then do {
       Status \<leftarrow> rd32 (cm_recv_buffer s) 12;
       Some (if Status \<noteq> 0 then Goto_error s
             else (let (fd, s) = proxy_make_server os s in Go_on (s\<lparr>mbim_server_fd := fd\<rparr>))) }
     else Some (Go_on s) }"

text \<open>\<^verbatim>\<open>read(fd, cm_recv_buffer, sizeof(cm_recv_buffer))\<close>: the number of bytes and the buffer.\<close>

definition read_buffer :: "buf option \<Rightarrow> mbim_proxy \<Rightarrow> int \<times> mbim_proxy" where
  "read_buffer r s =
     (case r of
        None \<Rightarrow> (- 1, s)
      | Some bs \<Rightarrow> (let d = take (length (cm_recv_buffer s)) bs
                    in (int (length d), s\<lparr>cm_recv_buffer := d @ drop (length d) (cm_recv_buffer s)\<rparr>)))"

definition proxy_input :: "int \<Rightarrow> mp_server \<Rightarrow> int \<Rightarrow> buf option \<Rightarrow> mbim_proxy \<Rightarrow> mp_flow access" where
  "proxy_input mbim_dev_fd os fd r s =
     (let (len, s) = read_buffer r s
      in if len \<le> 0 then Some (if fd = mbim_dev_fd then Goto_error s else Return_now len (handle_client_disconnect fd s))
         else if fd = mbim_dev_fd then
           (if mbim_server_fd s = - 1 then open_done os s else map_option Go_on (handle_device_response (nat len) s))
         else map_option (Go_on \<circ> snd) (handle_client_request mbim_dev_fd fd (nat len) s))"

definition mbim_event :: "int \<Rightarrow> mp_server \<Rightarrow> int \<Rightarrow> mp_event \<Rightarrow> mbim_proxy \<Rightarrow> mp_flow access" where
  "mbim_event mbim_dev_fd os fd e s =
     (if ev_hup e then
        Some (if fd = mbim_dev_fd then Goto_error s
              else if fd = mbim_server_fd s then Go_on s else Go_on (handle_client_disconnect fd s))
      else if \<not> ev_in e then Some (Go_on s)
      else if fd = mbim_server_fd s then Some (Go_on (snd (handle_client_connect mbim_dev_fd (ev_accept e) s)))
      else proxy_input mbim_dev_fd os fd (ev_read e) s)"

fun mbim_events :: "int \<Rightarrow> mp_server \<Rightarrow> (int \<times> mp_event) list \<Rightarrow> mbim_proxy \<Rightarrow> mp_flow access" where
  "mbim_events mbim_dev_fd os [] s = Some (Go_on s)"
| "mbim_events mbim_dev_fd os ((fd, e) # es) s = do {
     r \<leftarrow> mbim_event mbim_dev_fd os fd e s;
     case r of Go_on s \<Rightarrow> mbim_events mbim_dev_fd os es s | _ \<Rightarrow> Some r }"

definition pollfds :: "int \<Rightarrow> mbim_proxy \<Rightarrow> int list" where
  "pollfds mbim_dev_fd s =
     mbim_dev_fd # (if 0 < mbim_server_fd s then mbim_server_fd s # live_fds s else [])"

definition mbim_turn :: "int \<Rightarrow> mp_poll \<Rightarrow> mbim_proxy \<Rightarrow> mp_flow access" where
  "mbim_turn mbim_dev_fd p s =
     (if poll_ret p \<le> 0 then Some (Goto_error s)
      else (let fds = pollfds mbim_dev_fd s
            in mbim_events mbim_dev_fd (poll_server p) (zip fds (map (poll_revents p) [0..<length fds])) s))"

text \<open>Behind the label \<^verbatim>\<open>error\<close> the server and every client is closed.\<close>

fun close_clients :: "CM_CLIENT_T list \<Rightarrow> mbim_proxy \<Rightarrow> mbim_proxy" where
  "close_clients [] s = s"
| "close_clients (c # cs) s = close_clients cs (if 0 < client_fd c then close_fd (client_fd c) s else s)"

definition proxy_error :: "mbim_proxy \<Rightarrow> mbim_proxy" where
  "proxy_error s =
     (let s = (if 0 < mbim_server_fd s then (close_fd (mbim_server_fd s) s)\<lparr>mbim_server_fd := - 1\<rparr> else s)
      in (close_clients (cm_clients s) s)\<lparr>cm_clients :=
           map (\<lambda>c. if 0 < client_fd c then c\<lparr>client_fd := - 1\<rparr> else c) (cm_clients s)\<rparr>)"

text \<open>The loop over a list of poll results; \<open>Inl\<close> is the state while it runs, \<open>Inr\<close> the one when the function returns.\<close>

fun mbim_turns :: "int \<Rightarrow> mp_poll list \<Rightarrow> mbim_proxy \<Rightarrow> (mbim_proxy + mbim_proxy) access" where
  "mbim_turns mbim_dev_fd ps s =
     (if mbim_dev_fd \<le> 0 then Some (Inr (proxy_error s))
      else (case ps of
              [] \<Rightarrow> Some (Inl s)
            | p # ps \<Rightarrow> do {
                r \<leftarrow> mbim_turn mbim_dev_fd p s;
                case r of
                  Go_on s \<Rightarrow> mbim_turns mbim_dev_fd ps s
                | Goto_error s \<Rightarrow> Some (Inr (proxy_error s))
                | Return_now _ s \<Rightarrow> Some (Inr s) }))"

declare mbim_turns.simps [simp del]

definition proxy_loop :: "int \<Rightarrow> mp_poll list \<Rightarrow> mbim_proxy \<Rightarrow> (mbim_proxy + mbim_proxy) access" where
  "proxy_loop mbim_dev_fd ps s = mbim_turns mbim_dev_fd ps (s\<lparr>mbim_server_fd := - 1\<rparr>)"

text \<open>One pass through the endless loop of \<^verbatim>\<open>main\<close>: the result of \<^verbatim>\<open>open\<close>, then a session with the device.\<close>

definition proxy_session :: "int \<Rightarrow> mp_poll list \<Rightarrow> mbim_proxy \<Rightarrow> (mbim_proxy + mbim_proxy) access" where
  "proxy_session mbim_dev_fd ps s =
     (if mbim_dev_fd < 0 then Some (Inr s)
      else do {
        (_, s) \<leftarrow> mbim_send_open_msg mbim_dev_fd 4096 (s\<lparr>cm_clients := replicate CM_MAX_CLIENT no_client\<rparr>);
        r \<leftarrow> proxy_loop mbim_dev_fd ps s;
        Some (map_sum id (\<lambda>s. if 0 < mbim_dev_fd then close_fd mbim_dev_fd s else s) r) })"

fun proxy_sessions :: "(int \<times> mp_poll list) list \<Rightarrow> mbim_proxy \<Rightarrow> (mbim_proxy + mbim_proxy) access" where
  "proxy_sessions [] s = Some (Inr s)"
| "proxy_sessions ((fd, ps) # ss) s = do {
     r \<leftarrow> proxy_session fd ps s;
     case r of Inl s \<Rightarrow> Some (Inl s) | Inr s \<Rightarrow> proxy_sessions ss s }"

definition proxy_main_state :: "bool \<Rightarrow> mbim_proxy" where
  "proxy_main_state v = \<lparr>cm_clients = replicate CM_MAX_CLIENT no_client, cm_recv_buffer = replicate 4096 0, mbim_server_fd = - 1,
     verbose = v, mp_writes = [], mp_closed = [], mp_bound = []\<rparr>"

end
