(* ===== verification/Mbim_Calls.thy ===== *)
theory Mbim_Calls
  imports Mbim_Props
begin

text \<open>
  The data call on an MBIM modem: what the connect record carries, where the reported address goes, how the
  transaction identifiers run, and the connection manager on top of the MBIM table.
\<close>

subsection \<open>Addresses\<close>

lemma uint_cat16: "uint (word_cat b a :: u16) = 256 * uint b + uint a" for a b :: byte
  using uint_byte_lt [of a] uint_byte_lt [of b]
  by (simp add: word_cat_eq uint_word_ariths push_bit_eq_mult unsigned_ucast_eq take_bit_eq_mod)

lemma uint_cat32: "uint (word_cat b a :: u32) = 65536 * uint b + uint a" for a b :: u16
  using uint_bounded [of a] uint_bounded [of b]
  by (simp add: word_cat_eq uint_word_ariths push_bit_eq_mult unsigned_ucast_eq take_bit_eq_mod)

lemma le32_cat: "le32 a b c d = word_cat (word_cat d c :: u16) (word_cat b a :: u16)"
proof -
  have "uint (le32 a b c d) = int (unat a + 256 * unat b + 65536 * unat c + 16777216 * unat d)"
    by (simp only: unat_le32 [symmetric]) simp
  then show ?thesis
    by (simp add: word_uint_eq_iff uint_cat16 uint_cat32)
qed

text \<open>Evaluation on words instead of natural numbers.\<close>

lemma bytes32_code [code]: "bytes32 w = [ucast w, ucast (drop_bit 8 w), ucast (drop_bit 16 w), ucast (drop_bit 24 w)]"
proof -
  have "unat w div 16777216 < 256"
    using unat_u32_lt [of w] by (simp add: less_mult_imp_div_less)
  then show ?thesis
    using unat_u32_lt [of w]
    by (simp add: bytes32_def word_unat_eq_iff unsigned_ucast_eq unsigned_drop_bit_eq take_bit_eq_mod
        drop_bit_eq_div [where 'a = nat])
qed

lemma le32_code [code]: "le32 a b c d = ucast a + 256 * ucast b + 65536 * ucast c + 16777216 * ucast d"
  by (simp add: le32_def of_nat_unat)

declare str2uuid_basic [code_unfold]

definition cut_4096 :: "buf \<Rightarrow> buf" where
  "cut_4096 = take 4096"

definition proxied_in :: "(nat \<Rightarrow> bool) \<Rightarrow> buf \<Rightarrow> mbim \<Rightarrow> (bool \<times> mbim) access" where
  "proxied_in alloc bs s = (if mb_proxied s then mbim_device_in alloc bs s else None)"

lemma cut_4096_code [code]: "cut_4096 b = (if int (length b) \<le> 4096 then b else take (nat 4096) b)"
  by (simp add: cut_4096_def)

lemma device_in_code [code]:
  "mbim_device_in alloc bs s =
     (if mb_proxied s then proxied_in alloc bs s
      else do { let x = cut_4096 bs; b \<leftarrow> wr (mb_recv_buf s) 0 x; let s = s\<lparr>mb_recv_buf := b\<rparr>;
                if x = [] then Some (False, s) else do { s \<leftarrow> mbim_recv_command alloc (Some b) s; Some (True, s) } })"
  by (cases "mb_proxied s"; cases "wr (mb_recv_buf s) 0 (take 4096 bs)")
     (auto simp: mbim_device_in_def proxied_in_def cut_4096_def Let_def min_def split: if_splits)

lemma byte_masks: "(0xff00 :: u32) = push_bit 8 (mask 8)" "(0xff0000 :: u32) = push_bit 16 (mask 8)"
  by (simp_all add: mask_eq_exp_minus_1 push_bit_eq_mult)

lemma swap_le32: "mbim2qmi_ipv4addr (le32 a b c d) = le32 d c b a"
  unfolding le32_cat mbim2qmi_ipv4addr_def byte_masks
  by (rule bit_word_eqI) (auto simp: bit_simps bit_word_cat_iff)


lemma split256: "a < 256 \<Longrightarrow> (a + 256 * x) mod 256 = a" "a < 256 \<Longrightarrow> (a + 256 * x) div 256 = x" for a x :: nat
  by simp_all

lemma bytes32_le32: "bytes32 (le32 a b c d) = [a, b, c, d]"
proof -
  have n: "unat (le32 a b c d) = unat a + 256 * (unat b + 256 * (unat c + 256 * unat d))"
    by (simp add: unat_le32)
  have d: "x div 65536 = x div 256 div 256" "x div 16777216 = x div 256 div 256 div 256" for x :: nat
    by (simp_all add: div_mult2_eq [symmetric])
  show ?thesis
    unfolding bytes32_def n d
    using unat_byte_lt [of a] unat_byte_lt [of b] unat_byte_lt [of c] unat_byte_lt [of d]
    by (simp only: word_unat_eq_iff unat_of_nat_byte split256 list.inject mod_less simp_thms)
qed

definition dotted_quad :: "buf \<Rightarrow> cstr" where
  "dotted_quad a = dec_of (unat (a ! 0)) @ [46] @ dec_of (unat (a ! 1)) @ [46] @ dec_of (unat (a ! 2)) @ [46] @ dec_of (unat (a ! 3))"

lemma swapped_text:
  assumes "length a = 4"
  shows "ipv4Str (mbim2qmi_ipv4addr (le32 (a ! 0) (a ! 1) (a ! 2) (a ! 3))) = dotted_quad a"
proof -
  have "length (dec_of (unat x)) \<le> 3" for x :: byte
    using length_dec_of [of "unat x" 3] unat_byte_lt [of x] by simp
  from this [of "a ! 0"] this [of "a ! 1"] this [of "a ! 2"] this [of "a ! 3"] show ?thesis
    by (simp add: ipv4Str_def swap_le32 bytes32_le32 dotted_quad_def snprintf_def Let_def)
qed

text \<open>The number of bits of a mask does not depend on the order of its bytes.\<close>

definition swap_index :: "nat \<Rightarrow> nat" where
  "swap_index n = 8 * (3 - n div 8) + n mod 8"

lemma swap_index_table: "list_all (\<lambda>n. swap_index n < 32 \<and> swap_index (swap_index n) = n) [0..<32]"
  by code_simp

lemma swap_index: "n < 32 \<Longrightarrow> swap_index n < 32" "n < 32 \<Longrightarrow> swap_index (swap_index n) = n"
  using swap_index_table by (auto simp: list_all_iff)

lemma swap_index_byte_table:
  "list_all (\<lambda>m. swap_index m = 24 + m \<and> swap_index (8 + m) = 16 + m \<and> swap_index (16 + m) = 8 + m \<and> swap_index (24 + m) = m) [0..<8]"
  by code_simp

lemma swap_index_byte:
  "m < 8 \<Longrightarrow> swap_index m = 24 + m" "m < 8 \<Longrightarrow> swap_index (8 + m) = 16 + m"
  "m < 8 \<Longrightarrow> swap_index (16 + m) = 8 + m" "m < 8 \<Longrightarrow> swap_index (24 + m) = m"
  using swap_index_byte_table by (auto simp: list_all_iff)

lemma bit_u32_high: "32 \<le> n \<Longrightarrow> \<not> bit (w :: u32) n"
  using bit_imp_le_length [of w n] by auto

lemma bit_swap:
  assumes "n < 32" shows "bit (mbim2qmi_ipv4addr w) n \<longleftrightarrow> bit w (swap_index n)"
proof -
  consider (a) "n < 8" | (b) m where "n = 8 + m" "m < 8" | (c) m where "n = 16 + m" "m < 8" | (d) m where "n = 24 + m" "m < 8"
    using assms that(2) [of "n - 8"] that(3) [of "n - 16"] that(4) [of "n - 24"] that(1) by linarith
  then show ?thesis
    by cases (auto simp: mbim2qmi_ipv4addr_def byte_masks swap_index_byte bit_simps bit_u32_high)
qed

lemma mask_bits_card: "mask_bits w = card {n. n < 32 \<and> bit w n}"
proof -
  have "mask_bits w = length (filter (bit w) [0..<32])"
    unfolding mask_bits_def by (intro arg_cong [of _ _ length] filter_cong) (auto simp: and_exp_eq_0_iff_not_bit push_bit_eq_mult)
  also have "\<dots> = card (set (filter (bit w) [0..<32]))"
    by (intro distinct_card [symmetric]) simp
  also have "set (filter (bit w) [0..<32]) = {n. n < 32 \<and> bit w n}"
    by auto
  finally show ?thesis .
qed

lemma swapped_mask: "mask_bits (mbim2qmi_ipv4addr w) = mask_bits w"
proof -
  have "bij_betw swap_index {n. n < 32 \<and> bit w (swap_index n)} {n. n < 32 \<and> bit w n}"
    by (rule bij_betw_byWitness [where f' = swap_index]) (auto simp: swap_index)
  moreover have "{n. n < 32 \<and> bit (mbim2qmi_ipv4addr w) n} = {n. n < 32 \<and> bit w (swap_index n)}"
    by (auto simp: bit_swap)
  ultimately show ?thesis
    unfolding mask_bits_card by (simp add: bij_betw_same_card)
qed

text \<open>\<^verbatim>\<open>MBIM_IP_CONFIGURATION_INFO_T\<close> of an IPv4 call with an address and a gateway.\<close>

definition ip4_info :: "u32 \<Rightarrow> nat \<Rightarrow> buf \<Rightarrow> buf \<Rightarrow> buf" where
  "ip4_info sid k address gateway =
     bytes32 sid @ bytes32 3 @ bytes32 0 @ bytes32 1 @ bytes32 60 @ bytes32 0 @ bytes32 0 @ bytes32 68 @
     bytes32 0 @ bytes32 0 @ bytes32 0 @ bytes32 0 @ bytes32 0 @ bytes32 0 @ bytes32 0 @
     bytes32 (of_nat k) @ address @ gateway"

lemma length_ip4_info: "length (ip4_info sid k a g) = 64 + length a + length g"
  by (simp add: ip4_info_def)

lemma rd32_bytes: "length a = 4 \<Longrightarrow> rd32 (a @ r) 0 = Some (le32 (a ! 0) (a ! 1) (a ! 2) (a ! 3))"
  by (simp add: rd32_def rd8_def nth_append numeral_2_eq_2 numeral_3_eq_3)

lemma rd32_ip4_info:
  assumes "length a = 4" "length g = 4"
  shows "rd32 (ip4_info sid k a g) 4 = Some 3" "rd32 (ip4_info sid k a g) 8 = Some 0" "rd32 (ip4_info sid k a g) 16 = Some 60"
    "rd32 (ip4_info sid k a g) 28 = Some 68" "rd32 (ip4_info sid k a g) 60 = Some (of_nat k)"
    "rd32 (ip4_info sid k a g) 64 = Some (le32 (a ! 0) (a ! 1) (a ! 2) (a ! 3))"
    "rd32 (ip4_info sid k a g) 68 = Some (le32 (g ! 0) (g ! 1) (g ! 2) (g ! 3))"
  using assms rd32_bytes [of a g] rd32_bytes [of g "[]"] by (simp_all add: ip4_info_def rd32_append_right)

lemma ipv4_config_of_info:
  assumes "length a = 4" "length g = 4" "1 \<le> k" "k \<le> 32"
  shows "mbim_ipv4_config (command_done tid cid 0 (ip4_info sid k a g)) mtu v4 = Some (mtu,
    v4\<lparr>Address4 := mbim2qmi_ipv4addr (le32 (a ! 0) (a ! 1) (a ! 2) (a ! 3)),
       Gateway4 := mbim2qmi_ipv4addr (le32 (g ! 0) (g ! 1) (g ! 2) (g ! 3)),
       SubnetMask4 := mbim2qmi_ipv4addr (netmask k), Mtu4 := mbim2qmi_ipv4addr mtu\<rparr>)"
proof -
  have "unat (ucast (of_nat k :: u32) :: byte) = k"
    using assms(4) by (simp add: unsigned_ucast_eq take_bit_eq_mod unat_of_nat_u32)
  moreover have "\<not> bit (3 :: u32) 2" "\<not> bit (3 :: u32) 3" "bit (3 :: u32) 1" "bit (3 :: u32) 0"
    by code_simp+
  ultimately show ?thesis
    using assms
    by (cases v4) (simp add: mbim_ipv4_config_def rd32_done_info rd32_ip4_info info_addr_def ip4_at_def ip_opt_def
        prefix_mask_netmask)
qed

lemma length_session_info [simp]: "length (session_info w sid) = 60"
  by (simp add: session_info_def)

lemma le32_zero: "le32 a b c d = 0 \<longleftrightarrow> [a, b, c, d] = [0, 0, 0, 0]"
  using bytes32_le32 [of a b c d] bytes32_le32 [of 0 0 0 0] unat_le32 [of 0 0 0 0]
  by (metis le32_bytes32 nth_Cons_0 nth_Cons_Suc numeral_2_eq_2 numeral_3_eq_3 One_nat_def unat_0 word_unat_eq_iff
      add_0 mult_zero_right)

text \<open>C17: when the modem answers the query for the configuration of the session with an IPv4 address, a prefix length and a
  gateway, whatever other messages come first, the handler succeeds and the commands that configure the interface name exactly
  that address with that prefix length and that gateway, in dotted notation.\<close>

theorem mbim_address_on_interface:
  assumes "listening s" "mb_TransactionId s \<noteq> 0x1000000" "mb_alloc w 108" "mb_alloc w 120"
    "\<forall>b \<in> set others. \<exists>tid'. message_of tid' b \<and> tid' \<noteq> mb_TransactionId s"
    "mb_device w (mb_calls s) = answered others
       (mbim_command (mb_TransactionId s) basic_connect_id 15 0 60 (session_info w (mbim_sessionID s)))
       (command_done (mb_TransactionId s) 15 0 (ip4_info sid k a g))"
    "length a = 4" "length g = 4" "1 \<le> k" "k \<le> 32" "a \<noteq> [0, 0, 0, 0]" "DnsPrimary4 (ipv4 profile) = 0"
    "can_exec os (ascii ''/sbin/ip'')" "length ifname \<le> 31"
  shows "\<exists>p t. mbim_requestGetIPAddress w profile family s = Some (0, p, t) \<and>
    update_ip_address_by_qmi os ifname (Some (ipv4 p)) None trace = Some (trace @
      [Shell (ascii ''ip -4 address flush dev '' @ ifname),
       Shell (ascii ''ip -4 address add '' @ dotted_quad a @ ascii ''/'' @ dec_of k @ ascii '' dev '' @ ifname),
       Shell (ascii ''ip -4 route add default via '' @ dotted_quad g @ ascii '' dev '' @ ifname)])"
proof -
  define v4 where "v4 = (ipv4 profile)\<lparr>Address4 := mbim2qmi_ipv4addr (le32 (a ! 0) (a ! 1) (a ! 2) (a ! 3)),
       Gateway4 := mbim2qmi_ipv4addr (le32 (g ! 0) (g ! 1) (g ! 2) (g ! 3)),
       SubnetMask4 := mbim2qmi_ipv4addr (netmask k), Mtu4 := mbim2qmi_ipv4addr 1500\<rparr>"
  let ?m = "command_done (mb_TransactionId s) 15 0 (ip4_info sid k a g)"
  have six: "mbim_ipv6_config ?m 1500 v6 = Some v6" for v6
    using assms(7,8) by (simp add: mbim_ipv6_config_def rd32_done_info rd32_ip4_info)
  have nonempty_info: "ip4_info sid k a g \<noteq> []" "session_info w (mbim_sessionID s) \<noteq> []"
    using length_ip4_info [of sid k a g] length_session_info [of w "mbim_sessionID s"] by (auto simp del: length_session_info)
  have handler: "\<exists>t. mbim_requestGetIPAddress w profile family s = Some (0, profile\<lparr>ipv4 := v4, ipv6 := ipv6 profile\<rparr>, t)"
    using basic_answered [of s "session_info w (mbim_sessionID s)" w "ip4_info sid k a g" others 15 0,
        where f = "\<lambda>m profile s. do { (mtu, v4) \<leftarrow> mbim_ipv4_config m 1500 (ipv4 profile);
           v6 \<leftarrow> mbim_ipv6_config m mtu (ipv6 profile); Some (profile\<lparr>ipv4 := v4, ipv6 := v6\<rparr>, s) }" and x = profile]
      assms nonempty_info
    by (auto simp: mbim_requestGetIPAddress_def mbim_ip_config_def length_ip4_info ipv4_config_of_info six v4_def)
  have "Address4 v4 \<noteq> 0"
  proof -
    have "[a ! 3, a ! 2, a ! 1, a ! 0] \<noteq> [0, 0, 0, 0]"
      using assms(7,11) by (auto simp: numeral_eq_Suc length_Suc_conv)
    then show ?thesis
      using le32_zero [of "a ! 3" "a ! 2" "a ! 1" "a ! 0"] by (simp add: v4_def swap_le32)
  qed
  then have "update_ip_address_by_qmi os ifname (Some v4) None trace = Some (trace @
      [Shell (ascii ''ip -4 address flush dev '' @ ifname),
       Shell (ascii ''ip -4 address add '' @ ipv4Str (Address4 v4) @ ascii ''/'' @ dec_of k @ ascii '' dev '' @ ifname),
       Shell (ascii ''ip -4 route add default via '' @ ipv4Str (Gateway4 v4) @ ascii '' dev '' @ ifname)])"
    using assms(9-14) by (intro static_commands) (simp_all add: v4_def swapped_mask mask_bits_netmask)
  then show ?thesis
    using handler swapped_text [OF assms(7)] swapped_text [OF assms(8)] by (auto simp: v4_def)
qed

text \<open>A modem that reports 10.1.2.3/30 with the gateway 10.1.2.2 after an unrelated indication.\<close>

definition sample_indication :: buf where
  "sample_indication = mbim_header MBIM_INDICATE_STATUS_MSG 44 0 @ replicate 32 0"

definition sample_ip_env :: mbim_env where
  "sample_ip_env = \<lparr>mb_alloc = (\<lambda>_. True), mb_junk = (\<lambda>_. 0),
     mb_device = (\<lambda>_. answered [sample_indication]
       (mbim_command 1 basic_connect_id 15 0 60 (bytes32 0 @ map (\<lambda>_. 0) [4..<60]))
       (command_done 1 15 0 (ip4_info 0 30 [10, 1, 2, 3] [10, 1, 2, 2]))),
     mb_socketpair = None\<rparr>"

lemma sample_foreign: "\<forall>b \<in> set [sample_indication]. \<exists>tid'. message_of tid' b \<and> tid' \<noteq> 1"
  by (auto simp: message_of_def sample_indication_def mbim_header_def rd32_append_right)

theorem mbim_address_on_interface_witness:
  "\<exists>p t. mbim_requestGetIPAddress sample_ip_env s_profile 4 sample_mbim = Some (0, p, t) \<and>
    update_ip_address_by_qmi (sample_net []) (ascii ''wwan0'') (Some (ipv4 p)) None [] = Some
      [Shell (ascii ''ip -4 address flush dev wwan0''),
       Shell (ascii ''ip -4 address add 10.1.2.3/30 dev wwan0''),
       Shell (ascii ''ip -4 route add default via 10.1.2.2 dev wwan0'')]"
proof -
  have q: "dotted_quad [10, 1, 2, 3] = ascii ''10.1.2.3''" "dotted_quad [10, 1, 2, 2] = ascii ''10.1.2.2''"
    "dec_of 30 = ascii ''30''"
    by code_simp+
  show ?thesis
    using mbim_address_on_interface [of sample_mbim sample_ip_env "[sample_indication]" 0 30 "[10, 1, 2, 3]" "[10, 1, 2, 2]"
        s_profile "sample_net []" "ascii ''wwan0''" 4 "[]"] sample_foreign
    by (simp add: sample_listening q) (simp add: sample_ip_env_def session_info_def sample_net_def s_profile_def ipv4_zero_def ascii_def)
qed

subsection \<open>Transaction identifiers\<close>

lemma rd32_command_id: "rd32 (mbim_command tid uuid cid ty l info) 8 = Some tid"
  by (simp add: mbim_command_def mbim_header_def rd32_append_right)

lemma compose_sent:
  assumes "compose_basic_connect_command w cid ty info n s = Some (Some r, t)"
  shows "rd32 r 8 = Some (mb_TransactionId s) \<and> t = s\<lparr>mb_TransactionId := mb_TransactionId s + 1\<rparr>"
  using assms
  by (auto simp: compose_basic_connect_command_def bind_eq_Some_conv rd32_command_id split: if_splits option.splits)

lemma unat_plus_one_u32: "unat k < 0xFFFFFFFF \<Longrightarrow> unat (k + 1) = unat k + 1" for k :: u32
  using unat_of_nat_u32 [of "unat k + 1"] mod_less [of "unat k + 1" 4294967296] by (simp only: of_nat_add of_nat_1 of_nat_unat ucast_id)

text \<open>A command is written once or not at all.\<close>

definition written_once :: "buf \<Rightarrow> mbim \<Rightarrow> mbim \<Rightarrow> bool" where
  "written_once r s s' \<longleftrightarrow> mb_sent s' = mb_sent s \<and> mb_TransactionId s' = mb_TransactionId s \<or>
     (\<exists>r'. mb_sent s' = mb_sent s @ [r'] \<and> rd32 r' 8 = sent_id (rd32 r 8)) \<and>
     mb_TransactionId s' = (if rd32 r 8 = Some 0x1000000 then 2 else mb_TransactionId s)"

lemma pred_option_mono: "pred_option P m \<Longrightarrow> (\<And>x. P x \<Longrightarrow> Q x) \<Longrightarrow> pred_option Q m"
  by (cases m) auto

lemma send_command_sent: "pred_option (\<lambda>x. written_once r s (snd (snd x))) (mbim_send_command w (Some r) s)"
proof -
  define io where "io = mb_device w (mb_calls s)"
  have "pred_option (\<lambda>x. written_once r s (snd (snd x)))
     (if mbim_fd t \<le> 0 then Some (- ENODEV, None, t) else if \<not> mb_reader t then Some (- EINVAL, None, t)
      else mbim_send_locked (mb_alloc w) io r t)"
    if "reader_frame (s\<lparr>mb_calls := mb_calls s + 1\<rparr>) t" for t
  proof -
    have t: "mb_sent t = mb_sent s" "mb_TransactionId t = mb_TransactionId s"
      using reader_frameD(2,3) [OF that] by simp_all
    have "pred_option (\<lambda>x. written_once r s (snd (snd x))) (mbim_send_locked (mb_alloc w) io r t)"
      by (rule pred_option_mono [OF send_locked_spec]) (auto simp: written_once_def t)
    then show ?thesis
      by (simp add: written_once_def t)
  qed
  then show ?thesis
    unfolding mbim_send_command_def Let_def io_def [symmetric] option.case
    by (intro pred_option_bindI [OF arrivals_frame])
qed

text \<open>The ways a request comes about.\<close>

inductive composed :: "mbim_env \<Rightarrow> mbim \<Rightarrow> buf option \<Rightarrow> mbim \<Rightarrow> bool" for w :: mbim_env and s :: mbim where
  basic: "compose_basic_connect_command w cid ty info n s = Some (r, t) \<Longrightarrow> composed w s r t"
| ext: "compose_basic_connect_ext_command w cid ty info n s = Some (r, t) \<Longrightarrow> composed w s r t"
| qmi: "compose_qmi_over_mbim_command w cid ty info n s = Some (r, t) \<Longrightarrow> composed w s r t"
| open_msg: "compose_open_command (mb_alloc w) len s = (r, t) \<Longrightarrow> composed w s r t"
| close_msg: "compose_close_command (mb_alloc w) s = (r, t) \<Longrightarrow> composed w s r t"
| edited: "composed w s (Some r) t \<Longrightarrow> rd32 r' 8 = rd32 r 8 \<Longrightarrow> composed w s (Some r') t"

text \<open>Commands one after the other, with the counter each was composed at and the identifier it was written with, if it
  was. Between two commands anything may change but the counter.\<close>

definition written_id :: "mbim \<Rightarrow> mbim \<Rightarrow> u32 option" where
  "written_id s u = (if mb_sent u = mb_sent s then None else rd32 (last (mb_sent u)) 8)"

inductive mbim_commands :: "mbim_env \<Rightarrow> mbim \<Rightarrow> (u32 \<times> u32 option) list \<Rightarrow> mbim \<Rightarrow> bool" for w :: mbim_env where
  none: "mbim_commands w s [] s"
| no_memory: "composed w s None t \<Longrightarrow> mbim_send_command w None t = Some (ret, m, u) \<Longrightarrow> mb_TransactionId u' = mb_TransactionId u \<Longrightarrow>
    mbim_commands w u' ids v \<Longrightarrow> mbim_commands w s ids v"
| command: "composed w s (Some r) t \<Longrightarrow> mbim_send_command w (Some r) t = Some (ret, m, u) \<Longrightarrow> mb_TransactionId u' = mb_TransactionId u \<Longrightarrow>
    mbim_commands w u' ids v \<Longrightarrow> mbim_commands w s ((mb_TransactionId s, written_id s u) # ids) v"

lemma rd32_header_id: "rd32 (mbim_header ty l tid @ xs) 8 = Some tid"
  by (simp add: mbim_header_def rd32_append_right)

lemma set_service_id: "rd32 r 8 = Some i \<Longrightarrow> rd32 (set_service uuid r) 8 = Some i"
  by (auto simp: set_service_def rd32_def rd8_def nth_append bind_eq_Some_conv split: if_splits)

lemma compose_basic_id:
  assumes "compose_basic_connect_command w cid ty info n s = Some (r, t)"
  shows "case r of None \<Rightarrow> t = s
         | Some m \<Rightarrow> rd32 m 8 = Some (mb_TransactionId s) \<and> t = s\<lparr>mb_TransactionId := mb_TransactionId s + 1\<rparr>"
  using assms compose_sent [of w cid ty info n s _ t]
  by (cases r) (auto simp: compose_basic_connect_command_def bind_eq_Some_conv split: if_splits option.splits)

lemma composed_sent:
  assumes "composed w s r t"
  shows "case r of None \<Rightarrow> t = s
         | Some m \<Rightarrow> rd32 m 8 = Some (mb_TransactionId s) \<and> t = s\<lparr>mb_TransactionId := mb_TransactionId s + 1\<rparr>"
  using assms
proof induction
  case (basic cid ty info n r t)
  then show ?case by (rule compose_basic_id)
next
  case (ext cid ty info n r t)
  then obtain m uuid where "compose_basic_connect_command w cid ty info n s = Some (m, t)" "r = map_option (set_service uuid) m"
    by (auto simp: compose_basic_connect_ext_command_def bind_eq_Some_conv)
  then show ?case
    using compose_basic_id [of w cid ty info n s m t] by (cases m) (auto simp: set_service_id)
next
  case (qmi cid ty info n r t)
  then obtain m uuid where "compose_basic_connect_command w cid ty info n s = Some (m, t)" "r = map_option (set_service uuid) m"
    by (auto simp: compose_qmi_over_mbim_command_def bind_eq_Some_conv)
  then show ?case
    using compose_basic_id [of w cid ty info n s m t] by (cases m) (auto simp: set_service_id)
next
  case (open_msg len r t)
  then show ?case
    by (auto simp: compose_open_command_def rd32_header_id split: if_splits)
next
  case (close_msg r t)
  then show ?case
    using rd32_header_id [of MBIM_CLOSE_MSG 12 "mb_TransactionId s" "[]"] by (auto simp: compose_close_command_def split: if_splits)
qed simp

lemma send_none_counter:
  assumes "mbim_send_command w None s = Some (ret, m, u)"
  shows "mb_TransactionId u = mb_TransactionId s"
proof -
  obtain t where t: "mbim_arrivals (mb_alloc w) (io_before (mb_device w (mb_calls s))) (s\<lparr>mb_calls := mb_calls s + 1\<rparr>) = Some t" and "u = t"
    using assms by (auto simp: mbim_send_command_def bind_eq_Some_conv Let_def split: if_splits)
  then show ?thesis
    using arrivals_frame [of "s\<lparr>mb_calls := mb_calls s + 1\<rparr>" "mb_alloc w" "io_before (mb_device w (mb_calls s))"]
    by (auto dest: reader_frameD(3))
qed

text \<open>One command: either nothing is written and the counter moves on, or the command is written with the counter it was composed at,
  except that \<^verbatim>\<open>0x1000000\<close> becomes 1 and the counter 2.\<close>

lemma command_effect:
  assumes "composed w s (Some r) t" "mbim_send_command w (Some r) t = Some (ret, m, u)"
  defines "k \<equiv> mb_TransactionId s"
  shows "mb_sent u = mb_sent s \<and> written_id s u = None \<and> mb_TransactionId u = k + 1 \<or>
         written_id s u = Some (if k = 0x1000000 then 1 else k) \<and> mb_TransactionId u = (if k = 0x1000000 then 2 else k + 1)"
proof -
  have c: "rd32 r 8 = Some k" "t = s\<lparr>mb_TransactionId := k + 1\<rparr>"
    using composed_sent [OF assms(1)] by (auto simp: k_def)
  then show ?thesis
    using send_command_sent [of r t w] assms(2) by (auto simp: written_once_def written_id_def sent_id_def)
qed


definition sample_last_id :: mbim where
  "sample_last_id = sample_mbim\<lparr>mb_TransactionId := 0x1000000, mb_recv_buf := []\<rparr>"

definition sample_deaf :: mbim_env where
  "sample_deaf = \<lparr>mb_alloc = (\<lambda>_. True), mb_junk = (\<lambda>_. 0), mb_device = (\<lambda>_. \<lparr>io_before = [], io_write = 48, io_waiting = [], io_late = []\<rparr>),
     mb_socketpair = None\<rparr>"

definition sample_request :: buf where
  "sample_request = mbim_command 0x1000000 basic_connect_id 16 0 0 []"

lemma sample_deaf_sends:
  "\<exists>s' r'. mbim_send_command sample_deaf (Some sample_request) (sample_last_id\<lparr>mb_TransactionId := 0x1000001\<rparr>) = Some (ETIMEDOUT, None, s') \<and>
     mb_sent s' = [r']"
proof -
  have r: "length sample_request = 48" "rd32 sample_request 8 = Some 0x1000000"
    by (simp_all add: sample_request_def length_mbim_command rd32_command_id)
  obtain r' where r': "wr sample_request 8 (bytes32 1) = Some r'"
    using r(1) by (auto simp: wr_def)
  have "rd32 sample_request 4 = Some 48"
    by (simp add: sample_request_def mbim_command_def mbim_header_def rd32_append_right)
  then have "rd32 r' 4 = Some 48"
    using r' r(1) by (auto simp: wr_def rd32_append_left rd32_take split: if_splits)
  then show ?thesis
    by (simp add: mbim_send_command_def sample_deaf_def sample_last_id_def sample_mbim_def mbim_init_state_def mbim_send_locked_def
        renumber_def r r' mbim_wait.simps)
qed


lemma mbim_commands_head:
  assumes "mbim_commands w s ids v" "ids = (k, x) # rest"
  shows "k = mb_TransactionId s \<and> (x = None \<or> x = Some (if k = 0x1000000 then 1 else k)) \<and>
    (\<exists>u. mbim_commands w u rest v \<and> (x = None \<longrightarrow> mb_TransactionId u = k + 1))"
  using assms
proof induction
  case (no_memory s t ret m u u' ids v)
  then have "mb_TransactionId u' = mb_TransactionId s"
    using composed_sent [OF no_memory(1)] send_none_counter [OF no_memory(2)] by simp
  with no_memory.IH [OF no_memory.prems] show ?case by metis
next
  case (command s r t ret m u u' ids v)
  then show ?case
    using command_effect [OF command(1,2)] by (auto split: if_splits)
qed simp

text \<open>If the command composed at \<^verbatim>\<open>0x1000000\<close> is not written, as the device is closed, the next one that is goes out with
  the identifier \<^verbatim>\<open>0x1000001\<close>, which the proxy takes for a message of another client.\<close>

theorem mbim_id_upper_byte:
  assumes "mbim_commands w s ((0x1000000, None) # (k, Some i) # ids) v"
  shows "k = 0x1000001 \<and> i = 0x1000001"
  using mbim_commands_head [OF assms refl] mbim_commands_head [OF _ refl, of w _ k "Some i" ids v] by (auto split: if_splits)
subsection \<open>The connection manager on an MBIM modem\<close>

lemma basic_keeps:
  assumes "P x" "\<And>m s. pred_option (\<lambda>(y, t). P y) (f m x s)"
  shows "pred_option (\<lambda>(e, y, t). P y) (mbim_basic w cid ty info n f x s)"
proof -
  have "pred_option (\<lambda>(e, y, t). P y) (do { (y, u) \<leftarrow> f m x t; Some (0 :: int, y, u) })" for m t
    by (rule pred_option_bindI [OF assms(2)]) auto
  then have "pred_option (\<lambda>(e, y, t). P y) (do {
       l \<leftarrow> rd32 m 44; if l \<noteq> 0 then do { (y, u) \<leftarrow> f m x t; Some (0 :: int, y, u) } else Some (0, x, t) })" for m t
    using assms(1) by (intro pred_option_bind_any) simp
  then show ?thesis
    unfolding mbim_basic_def mbim_transact_def
    by (intro pred_option_bind_any, unfold split_paired_all prod.case, intro pred_option_bind_any, unfold split_paired_all prod.case,
        intro pred_option_bind_any, unfold split_paired_all prod.case) (simp add: assms(1) split: sum.split)
qed

lemma mbim_caps_mode: "pred_option (\<lambda>(e, q, t). same_mode p q) (mbim_device_caps_query w p s)"
  unfolding mbim_device_caps_query_def Let_def
  by (rule basic_keeps) (auto intro!: pred_option_bind_any split: option.split)

lemma mbim_ip_config_mode: "pred_option (\<lambda>(e, q, t). same_mode p q) (mbim_ip_config w p sid s)"
  unfolding mbim_ip_config_def
  by (rule basic_keeps) (auto intro!: pred_option_bind_any)

lemma mbim_init_mode: "pred_option (\<lambda>(e, q, t). same_mode p q) (mbim_init w p s)"
proof -
  have "pred_option (\<lambda>(e, q, t). same_mode p q) (do {
         (retval, q, s) \<leftarrow> mbim_device_caps_query w p s;
         if retval \<noteq> 0 then Some (retval, q, s)
         else do {
           (retval, s) \<leftarrow> mbim_device_services_query w (mbim_update_state s);
           if retval \<noteq> 0 then Some (retval, q, s)
           else do {
             (retval, s) \<leftarrow> mbim_set_radio_state w 1 (mbim_update_state s);
             if retval \<noteq> 0 then Some (retval, q, s)
             else Some (0, q, qmi_over_mbim_start w (mbim_update_state s)) } } })" for s
    by (rule pred_option_bindI [OF mbim_caps_mode]) (auto intro!: pred_option_bind_any)
  then show ?thesis
    unfolding mbim_init_def by (auto intro!: pred_option_bind_any)
qed

interpretation mbim: dial_modem "mbim_request_table w" "mbim_device_table w" for w
  by unfold_locales
    (auto simp: mbim_request_table_def mbim_device_table_def mbim_requestSetupDataCall_def mbim_requestDeactivateDefaultPDP_def
      mbim_requestGetIPAddress_def mbim_requestBaseBandVersion_def mbim_ip_config_mode mbim_init_mode intro!: pred_option_bind_any)

text \<open>The connection manager keeps its invariant on an MBIM modem: whatever signals, device events and messages of the modem
  \<^verbatim>\<open>qmi_main\<close> meets with the table \<^verbatim>\<open>mbim_request_ops\<close>, calls it believes connected and the network link belong to enabled
  families, and dialling is put off by at most a minute.\<close>

theorem mbim_manager_invariant:
  assumes "qmi_main os clock fuel env (mbim_request_table w) (mbim_device_table w) inputs c = Some (Main_running d)"
    and "s_link c = - 1 \<or> s_link c = 0"
  shows "(IPv4ConnectionStatus d = QWDS_PKT_DATA_CONNECTED \<longrightarrow> enable_ipv4 (prof c)) \<and>
         (IPv6ConnectionStatus d = QWDS_PKT_DATA_CONNECTED \<longrightarrow> enable_ipv6 (prof c)) \<and>
         (s_link d = - 1 \<or> (bit (s_link d) 4 \<longrightarrow> enable_ipv4 (prof c)) \<and> (bit (s_link d) 6 \<longrightarrow> enable_ipv6 (prof c))) \<and>
         (\<exists>j < readings d. \<exists>s \<in> {0, 1, 5, 10, 20, 40, 60}. SetupCallAllowTime d = clock j + 1000 * s)"
proof -
  have "link_ok (prof c) (s_link c)"
    using assms(2) by (auto simp: link_ok_def)
  from mbim.qmi_main_ok [OF this, of clock os fuel env w inputs] have "cm_ok clock (prof c) d"
    using assms(1) by (simp add: outcome_ok_def)
  then show ?thesis
    by (auto simp: cm_ok_def same_mode_def link_ok_def delays_def)
qed

text \<open>A modem that opens, answers the queries of the start without information and then stops to accept commands.\<close>

definition sample_done :: "byte \<Rightarrow> mbim_arrival list" where
  "sample_done tid = [Mb_message ([3, 0, 0, 128, 48, 0, 0, 0, tid, 0, 0, 0] @ replicate 36 0)]"

definition sample_start :: "nat \<Rightarrow> mbim_io" where
  "sample_start n =
     (if n = 0 then \<lparr>io_before = [], io_write = 16, io_waiting = [Mb_message [1, 0, 0, 128, 16, 0, 0, 0, 1, 0, 0, 0, 0, 0, 0, 0]], io_late = []\<rparr>
      else if n = 1 then \<lparr>io_before = [], io_write = 48, io_waiting = sample_done 2, io_late = []\<rparr>
      else if n = 2 then \<lparr>io_before = [], io_write = 48, io_waiting = sample_done 3, io_late = []\<rparr>
      else if n = 3 then \<lparr>io_before = [], io_write = 52, io_waiting = sample_done 4, io_late = []\<rparr>
      else \<lparr>io_before = [], io_write = - 1, io_waiting = [], io_late = []\<rparr>)"

definition sample_start_env :: mbim_env where
  "sample_start_env = \<lparr>mb_alloc = (\<lambda>_. True), mb_junk = (\<lambda>_. 0), mb_device = sample_start, mb_socketpair = None\<rparr>"

definition sample_small :: mbim where
  "sample_small = \<lparr>mb_TransactionId = 1, mbim_apn = None, mbim_user = None, mbim_passwd = None, mbim_iptype = 0, mbim_auth = 0,
      mbim_sessionID = 0, mbim_fd = 3, mb_reader = True, mb_proxied = False, mbim_pRequest = None, mbim_pResponse = None,
      mb_signalled = False, mb_recv_buf = replicate 64 0, qmi_over_mbim_support = False, qmi_over_mbim_sk = None,
      qmidev_over_mbim = False, qmi_over_mbim_nas = 0, mbim_ms_version = 1, mbim_open_state = 0,
      ReadyState = 0, RegisterState = 0, PacketServiceState = 0, ActivationState = 0,
      oldReadyState = 0, oldRegisterState = 0, oldPacketServiceState = 0, oldActivationState = 0,
      mb_qmi = qmi_thread_init, mb_calls = 0, mb_sent = []\<rparr>"

definition sample_mbim_cm :: "mbim cm" where
  "sample_mbim_cm = \<lparr>prof = s_profile\<lparr>enable_ipv4 := True, request_ops := Some mbim_request_ops, usbnet_adapter := ascii ''wwan0''\<rparr>,
     modem = sample_small, PSAttachedState = 0, IPv4ConnectionStatus = 0,
     IPv6ConnectionStatus = 0, SetupCallFail = 0, SetupCallAllowTime = 0, s_link = - 1,
     g_donot_exit_when_modem_hangup = 0, g_reboot_modem = 0, signals = [], events = [], device_cmds = [],
     pending_alarm = 0, net = [], readings = 0, kills = []\<rparr>"

theorem mbim_manager_invariant_witness:
  "\<exists>d. qmi_main quiet_net of_nat 1 sample_env (mbim_request_table sample_start_env) (mbim_device_table sample_start_env) [] sample_mbim_cm
         = Some (Main_running d) \<and> mb_calls (modem d) = 6 \<and> IPv6ConnectionStatus d \<noteq> QWDS_PKT_DATA_CONNECTED"
proof -
  let ?run = "qmi_main quiet_net of_nat 1 sample_env (mbim_request_table sample_start_env) (mbim_device_table sample_start_env) [] sample_mbim_cm"
  have "(case ?run of Some (Main_running d) \<Rightarrow> mb_calls (modem d) = 6 | _ \<Rightarrow> False)"
    by code_simp
  then obtain d where d: "?run = Some (Main_running d)" "mb_calls (modem d) = 6"
    by (auto split: option.splits main_outcome.splits)
  have "s_link sample_mbim_cm = - 1 \<or> s_link sample_mbim_cm = 0"
    by (simp add: sample_mbim_cm_def)
  from mbim_manager_invariant [OF d(1) this] d show ?thesis
    by (auto simp: sample_mbim_cm_def s_profile_def)
qed

end
