(* ===== verification/Mbim_Share.thy ===== *)
theory Mbim_Share
  imports Mbim_Proxy Mbim_Calls
begin

text \<open>
  What the MBIM proxy guarantees over all runs: the table of clients stays consistent, so that the number in the upper byte of a
  transaction identifier names one client, and a response reaches the client that sent the request, with the identifier the
  client chose. \<open>mp_run dev s t\<close> says that events the loop survives lead from \<open>s\<close> to \<open>t\<close>; \<^verbatim>\<open>accept\<close> returns no open descriptor.
\<close>

subsection \<open>Searching the table\<close>

lemma first_index_Some:
  "first_index P xs = Some i \<longleftrightarrow> i < length xs \<and> P (xs ! i) \<and> (\<forall>j<i. \<not> P (xs ! j))"
proof (induction xs arbitrary: i)
  case (Cons x xs)
  show ?case
    by (cases i) (auto simp: Cons less_Suc_eq_0_disj)
qed simp

lemma first_index_None: "first_index P xs = None \<longleftrightarrow> (\<forall>x \<in> set xs. \<not> P x)"
  by (induction xs) auto

lemma first_index_only:
  "i < length xs \<Longrightarrow> P (xs ! i) \<Longrightarrow> (\<And>j. j < length xs \<Longrightarrow> P (xs ! j) \<Longrightarrow> j = i) \<Longrightarrow> first_index P xs = Some i"
  unfolding first_index_Some by (metis less_trans nat_neq_iff)

subsection \<open>Runs\<close>

definition fresh_accept :: "mp_event \<Rightarrow> bool" where
  "fresh_accept e \<longleftrightarrow> (\<forall>fds. ev_accept e fds \<notin> set fds)"

inductive mp_run :: "int \<Rightarrow> mbim_proxy \<Rightarrow> mbim_proxy \<Rightarrow> bool" for dev where
  run_refl: "mp_run dev s s"
| run_event: "mp_run dev s t \<Longrightarrow> fresh_accept e \<Longrightarrow> mbim_event dev os fd e t = Some (Go_on u) \<Longrightarrow> mp_run dev s u"

lemma mp_run_trans: "mp_run dev t u \<Longrightarrow> mp_run dev s t \<Longrightarrow> mp_run dev s u"
  by (induction rule: mp_run.induct) (auto intro: mp_run.intros)

lemma mbim_events_run:
  assumes "\<forall>(fd, e) \<in> set es. fresh_accept e" "mbim_events dev os es s = Some (Go_on t)"
  shows "mp_run dev s t"
  using assms
proof (induction dev os es s rule: mbim_events.induct)
  case (2 dev os fd e es s)
  then obtain u where u: "mbim_event dev os fd e s = Some (Go_on u)" "mbim_events dev os es u = Some (Go_on t)"
    by (auto simp: bind_eq_Some_conv) (case_tac y; auto)
  then have "mp_run dev u t" "mp_run dev s u"
    using 2 by (auto intro: mp_run.intros)
  then show ?case
    by (rule mp_run_trans)
qed (auto intro: mp_run.intros)

text \<open>The states the loop of \<^verbatim>\<open>proxy_loop\<close> is in between two calls of \<^verbatim>\<open>poll\<close> are states of such runs.\<close>

lemma mbim_turns_run:
  assumes "\<forall>p \<in> set ps. \<forall>n. fresh_accept (poll_revents p n)" "mbim_turns dev ps s = Some (Inl t)"
  shows "mp_run dev s t"
  using assms
proof (induction ps arbitrary: s)
  case Nil
  then show ?case
    by (auto simp: mbim_turns.simps [of dev "[]"] intro: mp_run.intros split: if_splits)
next
  case (Cons p ps)
  then obtain u where u: "mbim_turn dev p s = Some (Go_on u)" "mbim_turns dev ps u = Some (Inl t)"
    by (auto simp: mbim_turns.simps [of dev "p # ps"] bind_eq_Some_conv split: if_splits)
      (case_tac y; auto)
  have "mp_run dev s u"
    using u(1) Cons.prems(1) unfolding mbim_turn_def Let_def
    by (intro mbim_events_run) (auto split: if_splits dest!: set_zip_rightD)
  moreover have "mp_run dev u t"
    using Cons u(2) by auto
  ultimately show ?case
    by (metis mp_run_trans)
qed

subsection \<open>The table of clients\<close>

definition slot :: "mbim_proxy \<Rightarrow> nat \<Rightarrow> int \<Rightarrow> bool" where
  "slot s i fd \<longleftrightarrow> i < length (cm_clients s) \<and> 0 < fd \<and> client_fd (cm_clients s ! i) = fd"

definition mp_inv :: "mbim_proxy \<Rightarrow> bool" where
  "mp_inv s \<longleftrightarrow> length (cm_clients s) = CM_MAX_CLIENT \<and> length (cm_recv_buffer s) = 4096 \<and>
     (\<forall>i fd. slot s i fd \<longrightarrow> client_idx (cm_clients s ! i) = int i + 1) \<and>
     (\<forall>i j fd. slot s i fd \<longrightarrow> slot s j fd \<longrightarrow> i = j)"

text \<open>What an event may do to the table and to the log of closed descriptors.\<close>

definition keeps :: "mbim_proxy \<Rightarrow> mbim_proxy \<Rightarrow> bool" where
  "keeps s t \<longleftrightarrow> (mp_inv s \<longrightarrow> mp_inv t) \<and>
     (\<exists>cs. mp_closed t = mp_closed s @ cs \<and> (\<forall>i fd. slot s i fd \<longrightarrow> fd \<notin> set cs \<longrightarrow> slot t i fd))"

lemma keepsI:
  "cm_clients t = cm_clients s \<Longrightarrow> length (cm_recv_buffer t) = length (cm_recv_buffer s) \<Longrightarrow>
   mp_closed t = mp_closed s @ cs \<Longrightarrow> keeps s t"
  by (auto simp: keeps_def mp_inv_def slot_def)

lemma keeps_refl [simp]: "keeps s s"
  by (rule keepsI) auto

lemma keeps_trans: "keeps s t \<Longrightarrow> keeps t u \<Longrightarrow> keeps s u"
  unfolding keeps_def by clarsimp

lemma keeps_write:
  "non_block_write fd b len s = Some (n, t) \<Longrightarrow> keeps s t \<and> cm_clients t = cm_clients s \<and> cm_recv_buffer t = cm_recv_buffer s"
  by (auto simp: non_block_write_def bind_eq_Some_conv intro: keepsI [where cs = "[]"])

lemma keeps_write_buffer:
  assumes "wr (cm_recv_buffer s) i v = Some b" "non_block_write fd c len (s\<lparr>cm_recv_buffer := b\<rparr>) = Some (n, t)"
  shows "keeps s t"
  using assms length_wr [OF assms(1)]
  by (auto simp: non_block_write_def bind_eq_Some_conv intro: keepsI [where cs = "[]"])

lemma keeps_send_to_all: "send_to_all fds b len s = Some t \<Longrightarrow> keeps s t"
proof (induction fds arbitrary: s)
  case (Cons fd fds)
  then show ?case
    by (auto simp: bind_eq_Some_conv dest!: keeps_write intro: keeps_trans)
qed simp

lemma keeps_make_server: "keeps s ((snd (proxy_make_server os s))\<lparr>mbim_server_fd := fd\<rparr>)"
  by (auto simp: proxy_make_server_def close_fd_def Let_def intro: keepsI)

lemma keeps_connect:
  assumes "\<And>fds. acc fds \<notin> set fds"
  shows "keeps s (snd (handle_client_connect dev acc s))"
proof -
  let ?fd = "acc (open_fds dev s)"
  have new: "\<not> slot s j ?fd" for j
    using assms [of "open_fds dev s"] unfolding slot_def open_fds_def
    by (metis Un_iff length_map list.set_intros(2) nth_map nth_mem set_append)
  show ?thesis
  proof (cases "?fd < 0")
    case False
    show ?thesis
    proof (cases "first_index (\<lambda>c. client_fd c \<le> 0) (cm_clients s)")
      case None
      then show ?thesis
        using False by (auto simp: handle_client_connect_def Let_def close_fd_def intro: keepsI)
    next
      case (Some i)
      then have i: "i < length (cm_clients s)" "client_fd (cm_clients s ! i) \<le> 0"
        by (auto simp: first_index_Some)
      let ?t = "s\<lparr>cm_clients := (cm_clients s)[i := \<lparr>client_fd = ?fd, client_idx = int i + 1\<rparr>]\<rparr>"
      have t: "slot ?t j fd \<longleftrightarrow> slot s j fd \<or> j = i \<and> fd = ?fd \<and> 0 < fd" for j fd
        using i by (auto simp: slot_def nth_list_update)
      have "mp_inv s \<Longrightarrow> mp_inv ?t"
        using i new unfolding mp_inv_def t by (auto simp: nth_list_update slot_def)
      then have "keeps s ?t"
        by (auto simp: keeps_def t)
      then show ?thesis
        using False Some by (simp add: handle_client_connect_def Let_def)
    qed
  qed (simp add: handle_client_connect_def Let_def)
qed

lemma keeps_disconnect: "keeps s (handle_client_disconnect fd s)"
proof (cases "first_index (\<lambda>c. client_fd c = fd) (cm_clients s)")
  case (Some i)
  then have i: "i < length (cm_clients s)" "client_fd (cm_clients s ! i) = fd"
    by (auto simp: first_index_Some)
  let ?t = "(close_fd fd s)\<lparr>cm_clients := (cm_clients s)[i := (cm_clients s ! i)\<lparr>client_fd := - 1\<rparr>]\<rparr>"
  have t: "slot ?t j f \<longleftrightarrow> slot s j f \<and> j \<noteq> i" for j f
    using i by (auto simp: slot_def nth_list_update close_fd_def)
  have "mp_inv s \<Longrightarrow> mp_inv ?t"
    unfolding mp_inv_def t by (auto simp: nth_list_update close_fd_def)
  moreover have "slot s j f \<Longrightarrow> f \<noteq> fd \<Longrightarrow> j \<noteq> i" for j f
    using i by (auto simp: slot_def)
  ultimately have "keeps s ?t"
    by (auto simp: keeps_def t) (simp add: close_fd_def)
  then show ?thesis
    using Some by (simp add: handle_client_disconnect_def)
qed (simp add: handle_client_disconnect_def)

lemma keeps_request: "handle_client_request dev fd len s = Some (n, t) \<Longrightarrow> keeps s t"
  unfolding handle_client_request_def
  by (auto simp: bind_eq_Some_conv Let_def dest: keeps_write keeps_write_buffer
      split: option.split_asm if_split_asm)

lemma keeps_response: "handle_device_response len s = Some t \<Longrightarrow> keeps s t"
  unfolding handle_device_response_def
  by (auto simp: bind_eq_Some_conv dest: keeps_send_to_all keeps_write_buffer split: option.split_asm if_split_asm)

lemma keeps_read: "keeps s (snd (read_buffer r s))"
  by (auto simp: read_buffer_def Let_def intro: keepsI [where cs = "[]"] split: option.split)

lemma keeps_input: "proxy_input dev os fd r s = Some (Go_on t) \<Longrightarrow> keeps s t"
proof -
  assume t: "proxy_input dev os fd r s = Some (Go_on t)"
  obtain len u where u: "read_buffer r s = (len, u)"
    by (cases "read_buffer r s")
  have "keeps u t"
    using t keeps_make_server [of u _ os]
    by (auto simp: proxy_input_def u open_done_def bind_eq_Some_conv Let_def dest: keeps_response keeps_request
        split: if_splits prod.splits)
  then show ?thesis
    using keeps_read [of s r] by (auto simp: u intro: keeps_trans)
qed

lemma keeps_event: "fresh_accept e \<Longrightarrow> mbim_event dev os fd e s = Some (Go_on t) \<Longrightarrow> keeps s t"
  by (auto simp: mbim_event_def fresh_accept_def keeps_disconnect keeps_connect dest: keeps_input split: if_splits)

lemma keeps_run: "mp_run dev s t \<Longrightarrow> keeps s t"
  by (induction rule: mp_run.induct) (auto intro: keeps_trans keeps_event)

subsection \<open>Identifiers\<close>

lemma tag_word:
  fixes tid w :: u32
  assumes "tid \<le> TID_MASK" "w \<le> 32"
  shows "drop_bit TID_SHIFT (tid OR push_bit TID_SHIFT w) = w"
    and "(tid OR push_bit TID_SHIFT w) AND TID_MASK = tid"
proof -
  have m: "(TID_MASK) = mask 24"
    by (simp add: mask_eq_exp_minus_1)
  have t: "take_bit 24 tid = tid" "drop_bit 24 tid = 0"
  proof -
    have "uint tid < 2 ^ 24"
      using assms(1) by (simp add: word_le_def)
    then show "take_bit 24 tid = tid" "drop_bit 24 tid = 0"
      by (simp_all add: word_uint_eq_iff unsigned_take_bit_eq take_bit_int_eq_self unsigned_drop_bit_eq drop_bit_eq_div [where 'a = int])
  qed
  have w: "take_bit 8 w = w"
  proof -
    have "uint w < 2 ^ 8"
      using assms(2) by (simp add: word_le_def)
    then show ?thesis
      by (simp add: word_uint_eq_iff unsigned_take_bit_eq take_bit_int_eq_self)
  qed
  have "drop_bit 24 (push_bit 24 w) = take_bit 8 w"
    by (rule bit_eqI) (auto simp: bit_simps)
  then show "drop_bit TID_SHIFT (tid OR push_bit TID_SHIFT w) = w"
    by (simp add: t w)
  have "(tid OR push_bit 24 w) AND mask 24 = take_bit 24 (tid OR push_bit 24 w)"
    by (simp add: take_bit_eq_mask)
  also have "\<dots> = tid"
    by (rule trans [OF _ t(1)]) (rule bit_eqI, auto simp: bit_simps)
  finally show "(tid OR push_bit TID_SHIFT w) AND TID_MASK = tid"
    by (simp add: m)
qed

text \<open>A message with another transaction identifier, and an event that delivers a message with a complete header.\<close>

definition retag :: "u32 \<Rightarrow> buf \<Rightarrow> buf" where
  "retag v m = take 8 m @ bytes32 v @ drop 12 m"

definition delivers :: "mp_event \<Rightarrow> buf \<Rightarrow> bool" where
  "delivers e bs \<longleftrightarrow> \<not> ev_hup e \<and> ev_in e \<and> ev_read e = Some bs \<and> 12 \<le> length bs \<and> length bs \<le> 4096"

lemma read_message:
  "mp_inv s \<Longrightarrow> delivers e bs \<Longrightarrow>
   read_buffer (Some bs) s = (int (length bs), s\<lparr>cm_recv_buffer := bs @ drop (length bs) (cm_recv_buffer s)\<rparr>)"
  by (simp add: read_buffer_def delivers_def mp_inv_def)

lemma write_retagged:
  assumes "12 \<le> length bs"
  shows "wr (bs @ rest) 8 (bytes32 v) = Some (retag v bs @ rest)"
    and "non_block_write fd (retag v bs @ rest) (length bs) s = Some (length bs, s\<lparr>mp_writes := mp_writes s @ [(fd, retag v bs)]\<rparr>)"
  using assms by (simp_all add: wr_def retag_def non_block_write_def rdn_def)

lemma slot_index:
  assumes "mp_inv s" "slot s i fd"
  shows "first_index (\<lambda>c. client_fd c = fd) (cm_clients s) = Some i"
    and "first_index (\<lambda>c. client_idx c = int i + 1 \<and> 0 < client_fd c) (cm_clients s) = Some i"
proof -
  show "first_index (\<lambda>c. client_fd c = fd) (cm_clients s) = Some i"
    using assms by (intro first_index_only) (auto simp: mp_inv_def slot_def)
  show "first_index (\<lambda>c. client_idx c = int i + 1 \<and> 0 < client_fd c) (cm_clients s) = Some i"
  proof (rule first_index_only)
    fix j assume "j < length (cm_clients s)" "client_idx (cm_clients s ! j) = int i + 1 \<and> 0 < client_fd (cm_clients s ! j)"
    then show "j = i"
      using assms by (auto simp: mp_inv_def slot_def)
  qed (use assms in \<open>auto simp: mp_inv_def slot_def\<close>)
qed

lemma request_forwarded:
  assumes "mp_inv s" "slot s i fd" "fd \<noteq> dev" "fd \<noteq> mbim_server_fd s" "verbose s \<longrightarrow> i < 31"
    and "delivers e bs" "rd32 bs 8 = Some tid" "rd32 bs 0 = Some ty" "ty \<noteq> MBIM_OPEN_MSG" "ty \<noteq> MBIM_CLOSE_MSG"
  shows "\<exists>b. mbim_event dev os fd e s = Some (Go_on (s\<lparr>cm_recv_buffer := b,
           mp_writes := mp_writes s @ [(dev, retag (tid OR push_bit TID_SHIFT (word_of_int (int i + 1))) bs)]\<rparr>))"
proof -
  have l: "12 \<le> length bs" and i: "client_idx (cm_clients s ! i) = int i + 1" "length (cm_clients s) = 32"
    using assms by (auto simp: delivers_def mp_inv_def)
  have "log_client (int i + 1) (s\<lparr>cm_recv_buffer := b\<rparr>) = Some ()" for b
    using assms(5) i by (auto simp: log_client_def)
  then show ?thesis
    using assms(3,4,6-) l
    by (auto simp: mbim_event_def proxy_input_def read_message [OF assms(1,6)] handle_client_request_def rd32_append_left
        slot_index [OF assms(1,2)] i write_retagged Let_def delivers_def)
qed

lemma response_returned:
  assumes "mp_inv t" "slot t i fd" "mbim_server_fd t \<noteq> - 1" "mbim_server_fd t \<noteq> dev"
    and "delivers e bs" "rd32 bs 8 = Some (tid OR push_bit TID_SHIFT (word_of_int (int i + 1)))" "tid \<le> TID_MASK"
  shows "\<exists>b. mbim_event dev os dev e t = Some (Go_on (t\<lparr>cm_recv_buffer := b, mp_writes := mp_writes t @ [(fd, retag tid bs)]\<rparr>))"
proof -
  let ?w = "word_of_int (int i + 1) :: u32"
  have "i < 32"
    using assms(1,2) by (auto simp: mp_inv_def slot_def)
  then have u: "uint ?w = int i + 1" "?w \<le> 32"
    unfolding word_le_def uint_word_of_int by simp_all
  have "tid OR push_bit TID_SHIFT ?w \<noteq> 0"
  proof
    assume z: "tid OR push_bit TID_SHIFT ?w = 0"
    have "?w = 0"
      using tag_word(1) [OF assms(7) u(2)] unfolding z by simp
    then have "int i + 1 = 0"
      using u(1) by (simp only: unsigned_0)
    then show False
      by simp
  qed
  then show ?thesis
    using assms(2,3,4,5,6) tag_word [OF assms(7) u(2)] u(1)
    by (auto simp: mbim_event_def proxy_input_def read_message [OF assms(1,5)] handle_device_response_def rd32_append_left
        slot_index [OF assms(1,2)] write_retagged delivers_def slot_def)
qed

subsection \<open>Requests and responses\<close>

definition mp_start :: "mbim_proxy \<Rightarrow> bool" where
  "mp_start s \<longleftrightarrow> cm_clients s = replicate CM_MAX_CLIENT no_client \<and> length (cm_recv_buffer s) = 4096"

lemma mp_inv_start: "mp_start s \<Longrightarrow> mp_inv s"
  by (auto simp: mp_start_def mp_inv_def slot_def no_client_def)

lemma mp_inv_run: "mp_start s \<Longrightarrow> mp_run dev s t \<Longrightarrow> mp_inv t"
  using keeps_run [of dev s t] mp_inv_start [of s] by (auto simp: keeps_def)

lemma slot_run:
  "mp_run dev s t \<Longrightarrow> slot s i fd \<Longrightarrow> mp_closed t = mp_closed s @ cs \<Longrightarrow> fd \<notin> set cs \<Longrightarrow> slot t i fd"
  using keeps_run [of dev s t] by (auto simp: keeps_def)

text \<open>C22: in every run of the MBIM proxy, a request of a connected client with an identifier below \<^verbatim>\<open>0x1000000\<close> is written once to
  the device, changed in its identifier only; and whatever clients come, go and ask meanwhile, as long as that client
  is not closed, a message of the device with the changed identifier is written once, to that client, with the
  identifier the client chose. Identifiers of \<^verbatim>\<open>mbim-cm.c\<close> are in that range.\<close>

theorem mbim_proxy_roundtrip:
  assumes "mp_start s0" "mp_run dev s0 s" "slot s i fd" "fd \<noteq> dev" "fd \<noteq> mbim_server_fd s" "verbose s \<longrightarrow> i < 31"
    and "delivers e bs" "rd32 bs 8 = Some tid" "tid \<le> TID_MASK" "rd32 bs 0 = Some ty" "ty \<noteq> MBIM_OPEN_MSG" "ty \<noteq> MBIM_CLOSE_MSG"
  shows "\<exists>s' tag. mbim_event dev os fd e s = Some (Go_on s') \<and> mp_writes s' = mp_writes s @ [(dev, retag tag bs)] \<and>
    (\<forall>t cs e' bs' os'. mp_run dev s' t \<longrightarrow> mp_closed t = mp_closed s @ cs \<longrightarrow> fd \<notin> set cs \<longrightarrow>
       mbim_server_fd t \<notin> {- 1, dev} \<longrightarrow> delivers e' bs' \<longrightarrow> rd32 bs' 8 = Some tag \<longrightarrow>
       (\<exists>t'. mbim_event dev os' dev e' t = Some (Go_on t') \<and> mp_writes t' = mp_writes t @ [(fd, retag tid bs')]))"
proof -
  let ?tag = "tid OR push_bit TID_SHIFT (word_of_int (int i + 1))"
  have inv: "mp_inv s"
    using assms(1,2) by (rule mp_inv_run)
  obtain b where ev: "mbim_event dev os fd e s = Some (Go_on (s\<lparr>cm_recv_buffer := b, mp_writes := mp_writes s @ [(dev, retag ?tag bs)]\<rparr>))"
    (is "_ = Some (Go_on ?s)")
    using request_forwarded [OF inv assms(3-8,10-12)] by blast
  have "length b = 4096"
    using keeps_input [of dev os fd "Some bs" s ?s] ev assms(4,5,7) inv
    by (auto simp: mbim_event_def delivers_def keeps_def mp_inv_def)
  then have inv': "mp_inv ?s" and sl: "slot ?s i fd"
    using inv assms(3) by (auto simp: mp_inv_def slot_def)
  have "\<exists>t'. mbim_event dev os' dev e' t = Some (Go_on t') \<and> mp_writes t' = mp_writes t @ [(fd, retag tid bs')]"
    if t: "mp_run dev ?s t" "mp_closed t = mp_closed s @ cs" "fd \<notin> set cs" "mbim_server_fd t \<notin> {- 1, dev}" "delivers e' bs'"
      "rd32 bs' 8 = Some ?tag" for t cs e' bs' os'
  proof -
    have "mp_inv t" "slot t i fd"
      using keeps_run [OF t(1)] inv' slot_run [OF t(1) sl] t(2,3) by (auto simp: keeps_def)
    from response_returned [OF this _ _ t(5,6) assms(9), of dev os'] t(4) show ?thesis
      by auto
  qed
  then show ?thesis
    using ev by (intro exI [of _ ?s] exI [of _ ?tag]) auto
qed

definition sample_proxy :: mbim_proxy where
  "sample_proxy = (proxy_main_state False)\<lparr>mbim_server_fd := 5, mp_bound := [5]\<rparr>"

definition sample_mp_os :: mp_server where
  "sample_mp_os = \<lparr>srv_socket = 5, srv_setsockopt = True, srv_bind = True\<rparr>"

definition sample_accept :: mp_event where
  "sample_accept = \<lparr>ev_hup = False, ev_in = True, ev_accept = (\<lambda>fds. fold max fds 6 + 1), ev_read = None\<rparr>"

definition sample_ask :: mp_event where
  "sample_ask = \<lparr>ev_hup = False, ev_in = True, ev_accept = (\<lambda>fds. - 1), ev_read = Some (mbim_header MBIM_COMMAND_MSG 16 9 @ bytes32 0)\<rparr>"

lemma fold_max_ge: "a \<le> fold max xs a \<and> (x \<in> set xs \<longrightarrow> x \<le> fold max xs (a :: int))"
  by (induction xs arbitrary: a) (auto, (metis max.bounded_iff)+)

lemma sample_accept_fresh: "fresh_accept sample_accept"
proof -
  have "fold max fds 6 + 1 \<notin> set fds" for fds :: "int list"
    using fold_max_ge [of 6 fds "fold max fds 6 + 1"] by auto
  then show ?thesis
    by (simp add: fresh_accept_def sample_accept_def)
qed

definition sample_connected :: mbim_proxy where
  "sample_connected = sample_proxy\<lparr>cm_clients := (replicate CM_MAX_CLIENT no_client)[0 := \<lparr>client_fd = 7, client_idx = 1\<rparr>]\<rparr>"

lemma sample_connects: "mbim_event 4 sample_mp_os 5 sample_accept sample_proxy = Some (Go_on sample_connected)"
proof -
  have "fold max (open_fds 4 sample_proxy) 6 = 6"
    by (simp add: open_fds_def sample_proxy_def proxy_main_state_def no_client_def numeral_eq_Suc)
  then show ?thesis
    by (simp add: mbim_event_def sample_accept_def handle_client_connect_def sample_connected_def)
      (simp add: sample_proxy_def proxy_main_state_def no_client_def numeral_eq_Suc)
qed

theorem mbim_proxy_roundtrip_witness:
  "\<exists>s' tag. mbim_event 4 sample_mp_os 7 sample_ask sample_connected = Some (Go_on s') \<and>
     mp_writes s' = [(4, retag tag (mbim_header MBIM_COMMAND_MSG 16 9 @ bytes32 0))]"
proof -
  let ?m = "mbim_header MBIM_COMMAND_MSG 16 9 @ bytes32 0"
  have "mp_start sample_proxy" "slot sample_connected 0 7" "mbim_server_fd sample_connected = 5" "\<not> verbose sample_connected"
    "mp_writes sample_connected = []"
    by (simp_all add: mp_start_def slot_def sample_connected_def sample_proxy_def proxy_main_state_def)
  moreover have "mp_run 4 sample_proxy sample_connected"
    by (rule run_event [OF run_refl sample_accept_fresh sample_connects])
  moreover have "delivers sample_ask ?m"
    by (simp add: delivers_def sample_ask_def mbim_header_def)
  moreover have "rd32 ?m 8 = Some 9" "rd32 ?m 0 = Some MBIM_COMMAND_MSG"
    by (simp_all add: mbim_header_def rd32_append_right)
  ultimately show ?thesis
    using mbim_proxy_roundtrip [of sample_proxy 4 sample_connected 0 7 sample_ask ?m 9 MBIM_COMMAND_MSG sample_mp_os]
    by (auto simp: MBIM_COMMAND_MSG_def MBIM_OPEN_MSG_def MBIM_CLOSE_MSG_def)
qed

subsection \<open>A client that closes its sending side\<close>

text \<open>Sessions during which the address of the proxy stays taken by the socket \<open>b\<close>.\<close>

definition deaf :: "int \<Rightarrow> mbim_proxy \<Rightarrow> bool" where
  "deaf b s \<longleftrightarrow> b \<in> set (mp_bound s) \<and> mbim_server_fd s = - 1 \<and> live_fds s = []"

definition state_of :: "mbim_proxy + mbim_proxy \<Rightarrow> mbim_proxy" where
  "state_of r = (case r of Inl t \<Rightarrow> t | Inr t \<Rightarrow> t)"

definition others :: "int \<Rightarrow> mp_poll list \<Rightarrow> bool" where
  "others b ps \<longleftrightarrow> (\<forall>p \<in> set ps. srv_socket (poll_server p) \<noteq> b)"

lemma deaf_make_server:
  assumes "srv_socket os \<noteq> b" "b \<in> set (mp_bound s)" "proxy_make_server os s = (fd, t)"
  shows "fd = - 1 \<and> b \<in> set (mp_bound t) \<and> cm_clients t = cm_clients s \<and> mp_writes t = mp_writes s"
proof -
  have "mp_bound s \<noteq> []" "removeAll (srv_socket os) (mp_bound s) \<noteq> []"
    using assms(1,2) by (auto simp: filter_empty_conv removeAll_filter_not_eq)
  then show ?thesis
    using assms by (auto simp: proxy_make_server_def close_fd_def Let_def split: if_splits)
qed

lemma deaf_event:
  assumes "deaf b s" "0 < dev" "srv_socket os \<noteq> b" "mbim_event dev os dev e s = Some r"
  shows "\<exists>t. (r = Go_on t \<or> r = Goto_error t) \<and> deaf b t \<and> mp_writes t = mp_writes s"
proof -
  obtain len u where u: "read_buffer (ev_read e) s = (len, u)"
    by (cases "read_buffer (ev_read e) s")
  then have "deaf b u" "mp_writes u = mp_writes s"
    using assms(1) by (auto simp: deaf_def live_fds_def read_buffer_def Let_def split: option.splits)
  then show ?thesis
    using assms deaf_make_server [OF assms(3), of u]
    by (auto simp: mbim_event_def proxy_input_def u open_done_def deaf_def live_fds_def bind_eq_Some_conv
        split: if_splits prod.splits)
qed

lemma proxy_error_deaf: "deaf b s \<Longrightarrow> deaf b (proxy_error s) \<and> mp_writes (proxy_error s) = mp_writes s"
proof -
  assume d: "deaf b s"
  then have "\<forall>c \<in> set (cm_clients s). \<not> 0 < client_fd c"
    by (auto simp: deaf_def live_fds_def filter_empty_conv)
  moreover from this have "close_clients cs s = s" if "set cs \<subseteq> set (cm_clients s)" for cs
    using that by (induction cs) auto
  ultimately have "proxy_error s = s"
    using d by (simp add: proxy_error_def deaf_def cong: map_cong)
  then show ?thesis
    using d by simp
qed

lemma deaf_turns:
  assumes "deaf b s" "others b ps" "mbim_turns dev ps s = Some r"
  shows "deaf b (state_of r) \<and> mp_writes (state_of r) = mp_writes s"
  using assms
proof (induction ps arbitrary: s)
  case Nil
  then show ?case
    using proxy_error_deaf [of b s]
    by (auto simp: mbim_turns.simps [of dev "[]"] state_of_def split: if_splits)
next
  case (Cons p ps)
  show ?case
  proof (cases "0 < dev \<and> 0 < poll_ret p")
    case True
    then have "mbim_turn dev p s = Option.bind (mbim_event dev (poll_server p) dev (poll_revents p 0) s) (\<lambda>r.
        case r of Go_on s \<Rightarrow> mbim_events dev (poll_server p) [] s | _ \<Rightarrow> Some r)"
      using Cons.prems(1) by (simp add: mbim_turn_def pollfds_def deaf_def)
    then obtain q where q: "mbim_event dev (poll_server p) dev (poll_revents p 0) s = Some q" "mbim_turn dev p s = Some q"
      using Cons.prems(3) True
      by (cases "mbim_event dev (poll_server p) dev (poll_revents p 0) s")
        (auto simp: mbim_turns.simps [of dev "p # ps"] split: mp_flow.splits)
    obtain t where t: "q = Go_on t \<or> q = Goto_error t" "deaf b t" "mp_writes t = mp_writes s"
      using deaf_event [OF Cons.prems(1) _ _ q(1)] Cons.prems(2) True by (auto simp: others_def)
    show ?thesis
      using t Cons.IH [of t] Cons.prems(2,3) True q(2) proxy_error_deaf [OF t(2)]
      by (auto simp: mbim_turns.simps [of dev "p # ps"] others_def state_of_def)
  next
    case False
    then show ?thesis
      using Cons.prems proxy_error_deaf [of b s]
      by (auto simp: mbim_turns.simps [of dev "p # ps"] mbim_turn_def state_of_def split: if_splits)
  qed
qed

lemma deaf_sessions:
  assumes "b \<in> set (mp_bound s)" "\<forall>(fd, ps) \<in> set ss. fd \<noteq> b \<and> others b ps" "proxy_sessions ss s = Some r"
  shows "b \<in> set (mp_bound (state_of r)) \<and>
    (\<exists>ws. mp_writes (state_of r) = mp_writes s @ ws \<and> fst ` set ws \<subseteq> fst ` set ss)"
  using assms
proof (induction ss arbitrary: s)
  case (Cons x ss)
  obtain fd ps where x: "x = (fd, ps)"
    by (cases x)
  let ?s = "s\<lparr>cm_clients := replicate CM_MAX_CLIENT no_client\<rparr>"
  obtain q where q: "proxy_session fd ps s = Some q" "case q of Inl t \<Rightarrow> r = Inl t | Inr t \<Rightarrow> proxy_sessions ss t = Some r"
    using Cons.prems(3) by (auto simp: x bind_eq_Some_conv) (case_tac y; auto)
  have "b \<in> set (mp_bound (state_of q)) \<and> (\<exists>ws. mp_writes (state_of q) = mp_writes s @ ws \<and> fst ` set ws \<subseteq> {fd})"
  proof (cases "fd < 0")
    case False
    then obtain n u v where u: "mbim_send_open_msg fd 4096 ?s = Some (n, u)" "proxy_loop fd ps u = Some v"
      "q = map_sum id (\<lambda>s. if 0 < fd then close_fd fd s else s) v"
      using q(1) by (auto simp: proxy_session_def bind_eq_Some_conv)
    then obtain m where m: "u = ?s\<lparr>mp_writes := mp_writes s @ [(fd, m)]\<rparr>"
      by (auto simp: mbim_send_open_msg_def non_block_write_def bind_eq_Some_conv)
    have "deaf b (u\<lparr>mbim_server_fd := - 1\<rparr>)"
      using Cons.prems(1) by (auto simp: m deaf_def live_fds_def no_client_def filter_empty_conv)
    from deaf_turns [OF this _ u(2) [unfolded proxy_loop_def]] Cons.prems(2)
    have "b \<in> set (mp_bound (state_of v)) \<and> mp_writes (state_of v) = mp_writes s @ [(fd, m)]"
      by (auto simp: x m deaf_def)
    then show ?thesis
      using Cons.prems(2) by (auto simp: u(3) x state_of_def close_fd_def split: sum.splits)
  qed (use Cons.prems(1) q(1) in \<open>auto simp: proxy_session_def state_of_def\<close>)
  then obtain ws where ws: "b \<in> set (mp_bound (state_of q))" "mp_writes (state_of q) = mp_writes s @ ws" "fst ` set ws \<subseteq> {fd}"
    by blast
  show ?case
  proof (cases q)
    case (Inl t)
    then show ?thesis
      using ws q(2) by (auto simp: x state_of_def)
  next
    case (Inr t)
    then obtain vs where "b \<in> set (mp_bound (state_of r))" "mp_writes (state_of r) = mp_writes t @ vs" "fst ` set vs \<subseteq> fst ` set ss"
      using Cons.IH [of t] ws(1) q(2) Cons.prems(2) by (auto simp: x state_of_def)
    then show ?thesis
      using ws(2,3) by (auto simp: Inr x state_of_def intro!: exI [of _ "ws @ vs"])
  qed
qed (auto simp: state_of_def)

text \<open>C28: when the read from a client fails or finds the end of the file without a hang-up, \<^verbatim>\<open>proxy_loop\<close> returns at once and the
  server socket stays open. Its address is then taken, so in all later sessions, however many, no server socket is made:
  the proxy serves no client any more and writes to the device only.\<close>

theorem mbim_proxy_server_lost:
  assumes "mbim_server_fd s = b" "b \<in> set (mp_bound s)" "fd \<noteq> dev" "fd \<noteq> b" "dev \<noteq> b"
    and "\<not> ev_hup e" "ev_in e" "ev_read e = None \<or> ev_read e = Some []"
    and "\<forall>(f, ps) \<in> set ss. f \<noteq> b \<and> others b ps"
  shows "\<exists>n s'. mbim_event dev os fd e s = Some (Return_now n s') \<and>
    (\<forall>r. proxy_sessions ss (close_fd dev s') = Some r \<longrightarrow>
       (\<exists>ws. mp_writes (state_of r) = mp_writes s' @ ws \<and> fst ` set ws \<subseteq> fst ` set ss))"
proof -
  obtain len u where u: "read_buffer (ev_read e) s = (len, u)"
    by (cases "read_buffer (ev_read e) s")
  then have "len \<le> 0" "b \<in> set (mp_bound u)"
    using assms(2,8) by (auto simp: read_buffer_def)
  then have "mbim_event dev os fd e s = Some (Return_now len (handle_client_disconnect fd u))"
    "b \<in> set (mp_bound (close_fd dev (handle_client_disconnect fd u)))"
    "mp_writes (close_fd dev (handle_client_disconnect fd u)) = mp_writes (handle_client_disconnect fd u)"
    using assms by (auto simp: mbim_event_def proxy_input_def u handle_client_disconnect_def close_fd_def split: option.split)
  then show ?thesis
    using deaf_sessions [OF _ assms(9)] by metis
qed

definition sample_half_close :: mp_event where
  "sample_half_close = \<lparr>ev_hup = False, ev_in = True, ev_accept = (\<lambda>_. - 1), ev_read = Some []\<rparr>"

definition sample_poll :: mp_poll where
  "sample_poll = \<lparr>poll_ret = 0, poll_revents = (\<lambda>_. sample_half_close), poll_server = \<lparr>srv_socket = 6, srv_setsockopt = True, srv_bind = True\<rparr>\<rparr>"

theorem mbim_proxy_server_lost_witness:
  "\<exists>n s'. mbim_event 4 sample_mp_os 7 sample_half_close sample_connected = Some (Return_now n s') \<and>
    (\<forall>r. proxy_sessions [(4, [sample_poll])] (close_fd 4 s') = Some r \<longrightarrow>
       (\<exists>ws. mp_writes (state_of r) = mp_writes s' @ ws \<and> fst ` set ws \<subseteq> {4}))"
  using mbim_proxy_server_lost [of sample_connected 5 7 4 sample_half_close "[(4, [sample_poll])]" sample_mp_os]
  by (simp add: sample_connected_def sample_proxy_def sample_half_close_def others_def sample_poll_def)

end
