(* ===== verification/Qlist.thy ===== *)
theory Qlist
  imports Prelude
begin

text \<open>
  The intrusive, circular, doubly linked lists of \<^verbatim>\<open>qlist.h\<close> that the proxies keep their
  connections, clients and pending messages in. A heap maps the address of a \<^verbatim>\<open>struct qlistnode\<close>
  to its two links. \<open>ring h p xs\<close> relates a heap to the list of the items behind the list head \<open>p\<close>;
  the operations refine the list operations that the proxy theories use, and leave every other
  ring of the heap alone.
\<close>

type_synonym addr = nat

record qlistnode =
  qnext :: addr
  qprev :: addr

type_synonym qheap = "addr \<Rightarrow> qlistnode"

subsection \<open>The operations\<close>

definition set_next :: "addr \<Rightarrow> addr \<Rightarrow> qheap \<Rightarrow> qheap" where
  "set_next a v h = h(a := (h a)\<lparr>qnext := v\<rparr>)"

definition set_prev :: "addr \<Rightarrow> addr \<Rightarrow> qheap \<Rightarrow> qheap" where
  "set_prev a v h = h(a := (h a)\<lparr>qprev := v\<rparr>)"

definition qlist_init :: "addr \<Rightarrow> qheap \<Rightarrow> qheap" where
  "qlist_init node h = (let h = set_next node node h in set_prev node node h)"

definition qlist_add_tail :: "addr \<Rightarrow> addr \<Rightarrow> qheap \<Rightarrow> qheap" where
  "qlist_add_tail head item h =
     (let h = set_next item head h;
          h = set_prev item (qprev (h head)) h;
          h = set_next (qprev (h head)) item h
      in set_prev head item h)"

definition qlist_remove :: "addr \<Rightarrow> qheap \<Rightarrow> qheap" where
  "qlist_remove item h =
     (let h = set_prev (qnext (h item)) (qprev (h item)) h
      in set_next (qprev (h item)) (qnext (h item)) h)"

definition qlist_empty :: "addr \<Rightarrow> qheap \<Rightarrow> bool" where
  "qlist_empty l h \<longleftrightarrow> l = qnext (h l)"

definition qlist_head :: "addr \<Rightarrow> qheap \<Rightarrow> addr" where
  "qlist_head l h = qnext (h l)"

definition qlist_tail :: "addr \<Rightarrow> qheap \<Rightarrow> addr" where
  "qlist_tail l h = qprev (h l)"

text \<open>\<^verbatim>\<open>qlist_for_each\<close> from \<open>node\<close> on: the nodes visited; on a heap without a ring it need not end.\<close>

partial_function (option) qlist_for_each :: "qheap \<Rightarrow> addr \<Rightarrow> addr \<Rightarrow> addr list option" where
  "qlist_for_each h l node =
     (if node = l then Some []
      else do { ns \<leftarrow> qlist_for_each h l (qnext (h node)); Some (node # ns) })"

subsection \<open>Rings\<close>

fun links :: "qheap \<Rightarrow> addr \<Rightarrow> addr list \<Rightarrow> addr \<Rightarrow> bool" where
  "links h a [] b \<longleftrightarrow> qnext (h a) = b \<and> qprev (h b) = a"
| "links h a (x # xs) b \<longleftrightarrow> qnext (h a) = x \<and> qprev (h x) = a \<and> links h x xs b"

definition ring :: "qheap \<Rightarrow> addr \<Rightarrow> addr list \<Rightarrow> bool" where
  "ring h p xs \<longleftrightarrow> distinct (p # xs) \<and> links h p xs p"

lemma links_append [simp]: "links h a (xs @ y # ys) b \<longleftrightarrow> links h a xs y \<and> links h y ys b"
  by (induction xs arbitrary: a) auto

lemma links_next: "links h a xs b \<Longrightarrow> qnext (h a) = (case xs of [] \<Rightarrow> b | x # _ \<Rightarrow> x)"
  by (cases xs) auto

lemma links_prev: "links h a xs b \<Longrightarrow> qprev (h b) = (if xs = [] then a else last xs)"
  by (induction xs arbitrary: a) auto

lemma links_frame:
  assumes "links h a xs b"
    and "\<And>x. x \<in> set (a # xs) \<Longrightarrow> qnext (h' x) = qnext (h x)"
    and "\<And>x. x \<in> set (xs @ [b]) \<Longrightarrow> qprev (h' x) = qprev (h x)"
  shows "links h' a xs b"
  using assms by (induction xs arbitrary: a) auto

lemma set_next_simps [simp]:
  "qnext (set_next a v h x) = (if x = a then v else qnext (h x))"
  "qprev (set_next a v h x) = qprev (h x)"
  by (simp_all add: set_next_def)

lemma set_prev_simps [simp]:
  "qprev (set_prev a v h x) = (if x = a then v else qprev (h x))"
  "qnext (set_prev a v h x) = qnext (h x)"
  by (simp_all add: set_prev_def)

lemma ring_init: "ring (qlist_init p h) p []"
  by (simp add: ring_def qlist_init_def Let_def)

lemma ring_empty: "ring h p xs \<Longrightarrow> qlist_empty p h \<longleftrightarrow> xs = []"
  by (cases xs) (auto simp: ring_def qlist_empty_def)

lemma ring_head: "ring h p (x # xs) \<Longrightarrow> qlist_head p h = x"
  by (simp add: ring_def qlist_head_def)

lemma ring_tail: "ring h p (xs @ [x]) \<Longrightarrow> qlist_tail p h = x"
  by (auto simp: ring_def qlist_tail_def dest: links_prev)

lemma ring_frame:
  assumes "ring h p xs" and "\<And>x. x \<in> set (p # xs) \<Longrightarrow> h' x = h x"
  shows "ring h' p xs"
  using assms by (auto simp: ring_def intro: links_frame)

lemma add_tail_frame:
  "x \<notin> {p, i, qprev (h p)} \<Longrightarrow> qlist_add_tail p i h x = h x"
  by (auto simp: qlist_add_tail_def Let_def set_next_def set_prev_def)

lemma remove_frame: "x \<notin> {qnext (h i), qprev (h i)} \<Longrightarrow> qlist_remove i h x = h x"
  by (auto simp: qlist_remove_def Let_def set_next_def set_prev_def)

lemma ring_add_tail:
  assumes r: "ring h p xs" and i: "i \<notin> set (p # xs)"
  shows "ring (qlist_add_tail p i h) p (xs @ [i])"
proof (cases xs rule: rev_cases)
  case Nil
  then show ?thesis using r i by (auto simp: ring_def qlist_add_tail_def Let_def)
next
  case (snoc ys z)
  then have l: "links h p ys z" "qnext (h z) = p" "qprev (h p) = z" and d: "distinct (p # ys @ [z])"
    using r by (auto simp: ring_def)
  have "links (qlist_add_tail p i h) p ys z"
    by (rule links_frame [OF l(1)]) (use d i snoc l(3) in \<open>auto simp: qlist_add_tail_def Let_def\<close>)
  then show ?thesis using r i l(3) snoc by (auto simp: ring_def qlist_add_tail_def Let_def)
qed

lemma ring_remove:
  assumes r: "ring h p (xs @ x # ys)"
  shows "ring (qlist_remove x h) p (xs @ ys)"
proof -
  have l: "links h p xs x" "links h x ys p" and d: "distinct (p # xs @ x # ys)"
    using r by (auto simp: ring_def)
  define a where "a = (if xs = [] then p else last xs)"
  define b where "b = (case ys of [] \<Rightarrow> p | y # _ \<Rightarrow> y)"
  have ab: "qprev (h x) = a" "qnext (h x) = b"
    using links_prev [OF l(1)] links_next [OF l(2)] by (simp_all add: a_def b_def)
  have nx: "qnext (qlist_remove x h v) = (if v = a then b else qnext (h v))" for v
    using d by (auto simp: qlist_remove_def Let_def ab a_def b_def split: list.splits)
  have pv: "qprev (qlist_remove x h v) = (if v = b then a else qprev (h v))" for v
    by (simp add: qlist_remove_def Let_def ab)
  have "links (qlist_remove x h) p (xs @ ys) p"
  proof (cases xs rule: rev_cases)
    case Nil
    then show ?thesis
      using l(2) d by (cases ys) (auto simp: nx pv a_def b_def intro!: links_frame [of h _ _ _ "qlist_remove x h"])
  next
    case (snoc us u)
    have u: "links (qlist_remove x h) p us u"
      by (rule links_frame [of h]) (use l(1) d snoc in \<open>auto simp: nx pv a_def b_def split: list.splits\<close>)
    show ?thesis
    proof (cases ys)
      case Nil
      then show ?thesis using u snoc by (simp add: nx pv a_def b_def)
    next
      case (Cons v vs)
      have "links (qlist_remove x h) v vs p"
        by (rule links_frame [of h]) (use l(2) d snoc Cons in \<open>auto simp: nx pv a_def b_def\<close>)
      then show ?thesis using u snoc Cons by (simp add: nx pv a_def b_def)
    qed
  qed
  then show ?thesis using d by (simp add: ring_def)
qed

lemma for_each_links: "links h a xs p \<Longrightarrow> p \<notin> set xs \<Longrightarrow> qlist_for_each h p (qnext (h a)) = Some xs"
  by (induction xs arbitrary: a) (simp_all add: qlist_for_each.simps)

lemma ring_for_each: "ring h p xs \<Longrightarrow> qlist_for_each h p (qlist_head p h) = Some xs"
  unfolding ring_def qlist_head_def by (rule for_each_links) auto

subsection \<open>The queue interface\<close>

text \<open>What the proxies rely on: items are appended at the tail, removed anywhere and served from the head.\<close>

locale node_queue =
  fixes repr :: "'h \<Rightarrow> 'a \<Rightarrow> 'a list \<Rightarrow> bool"
    and create :: "'a \<Rightarrow> 'h \<Rightarrow> 'h"
    and add :: "'a \<Rightarrow> 'a \<Rightarrow> 'h \<Rightarrow> 'h"
    and remove :: "'a \<Rightarrow> 'h \<Rightarrow> 'h"
    and first :: "'a \<Rightarrow> 'h \<Rightarrow> 'a"
    and owned :: "'a \<Rightarrow> 'a list \<Rightarrow> 'a set"
  assumes repr_create: "repr (create p h) p []"
    and repr_add: "repr h p xs \<Longrightarrow> i \<notin> owned p xs \<Longrightarrow> repr (add p i h) p (xs @ [i])"
    and repr_remove: "repr h p (xs @ x # ys) \<Longrightarrow> repr (remove x h) p (xs @ ys)"
    and repr_first: "repr h p (x # xs) \<Longrightarrow> first p h = x"
    and owned_eq: "owned p xs = insert p (set xs)"
begin

definition serve :: "'a \<Rightarrow> 'h \<Rightarrow> 'h" where
  "serve p h = remove (first p h) h"

lemma repr_serve: "repr h p (x # xs) \<Longrightarrow> repr (serve p h) p xs"
  using repr_remove [of h p "[]" x xs] by (simp add: serve_def repr_first)

lemma repr_adds:
  "repr h p xs \<Longrightarrow> distinct (p # xs @ is) \<Longrightarrow> repr (fold (add p) is h) p (xs @ is)"
proof (induction "is" arbitrary: h xs)
  case (Cons i "is")
  then have "repr (add p i h) p (xs @ [i])" by (intro repr_add) (auto simp: owned_eq)
  then show ?case using Cons.IH [of "add p i h" "xs @ [i]"] Cons.prems by simp
qed simp

lemma repr_serves: "repr h p xs \<Longrightarrow> n \<le> length xs \<Longrightarrow> repr ((serve p ^^ n) h) p (drop n xs)"
proof (induction n arbitrary: h xs)
  case (Suc n)
  then obtain y ys where "xs = y # ys" by (cases xs) auto
  then show ?case using Suc.IH [of "serve p h" ys] Suc.prems repr_serve [of h p y ys]
    by (simp add: funpow_swap1)
qed simp

lemma fifo:
  assumes "distinct (p # is)" and "n \<le> length is"
  shows "repr ((serve p ^^ n) (fold (add p) is (create p h))) p (drop n is)"
  using repr_serves [OF repr_adds [OF repr_create, of p "is"]] assms by simp

end

interpretation qlist: node_queue ring qlist_init qlist_add_tail qlist_remove qlist_head "\<lambda>p xs. insert p (set xs)"
  by unfold_locales (auto simp: ring_init ring_add_tail ring_remove ring_head)

text \<open>a \<^verbatim>\<open>qlist\<close> is a first-in first-out queue: after any number of fresh nodes were appended to an
  initialised list and the first \<open>n\<close> of them were removed from its head, a walk over the list ends and
  visits the remaining nodes in the order in which they were appended.\<close>

theorem qlist_fifo:
  fixes h :: qheap
  assumes "distinct (p # is)" and "n \<le> length is"
  defines "h' \<equiv> ((\<lambda>h. qlist_remove (qlist_head p h) h) ^^ n) (fold (qlist_add_tail p) is (qlist_init p h))"
  shows "qlist_for_each h' p (qlist_head p h') = Some (drop n is) \<and> qlist_empty p h' = (n = length is)"
proof -
  have s: "qlist.serve p = (\<lambda>h. qlist_remove (qlist_head p h) h)" for p
    by (rule ext) (simp add: qlist.serve_def)
  have "ring h' p (drop n is)"
    using qlist.fifo [OF assms(1,2), of h] unfolding s h'_def .
  then show ?thesis using ring_for_each ring_empty assms(2) by auto
qed

theorem qlist_fifo_witness:
  "let h' = qlist_remove (qlist_head 1 (qlist_add_tail 1 5 (qlist_add_tail 1 3 (qlist_init 1 (\<lambda>_. \<lparr>qnext = 0, qprev = 0\<rparr>)))))
              (qlist_add_tail 1 5 (qlist_add_tail 1 3 (qlist_init 1 (\<lambda>_. \<lparr>qnext = 0, qprev = 0\<rparr>))))
   in qlist_for_each h' 1 (qlist_head 1 h') = Some [5] \<and> \<not> qlist_empty 1 h'"
  using qlist_fifo [of 1 "[3, 5]" 1 "\<lambda>_. \<lparr>qnext = 0, qprev = 0\<rparr>"] by (simp add: Let_def)

text \<open>The links of the other lists are out of reach of the two operations.\<close>

lemma ring_add_tail_other:
  assumes "ring h p us" and "ring h q zs" and "set (p # us) \<inter> set (q # zs) = {}" and "i \<notin> set (q # zs)"
  shows "ring (qlist_add_tail p i h) q zs"
proof -
  have "qprev (h p) \<in> set (p # us)"
    using links_prev [of h p us p] assms(1) by (auto simp: ring_def)
  then show ?thesis
    by (intro ring_frame [OF assms(2)] add_tail_frame) (use assms(3,4) in auto)
qed

lemma ring_remove_other:
  assumes "ring h p (xs @ x # ys)" and "ring h q zs" and "set (p # xs @ x # ys) \<inter> set (q # zs) = {}"
  shows "ring (qlist_remove x h) q zs"
proof -
  have l: "links h p xs x" "links h x ys p" using assms(1) by (auto simp: ring_def)
  have "qnext (h x) \<in> set (p # ys)" "qprev (h x) \<in> set (p # xs)"
    using links_next [OF l(2)] links_prev [OF l(1)] by (auto split: list.splits if_splits)
  then show ?thesis
    by (intro ring_frame [OF assms(2)] remove_frame) (use assms(3) in auto)
qed

text \<open>C37: appending a node to a list and removing one from it change the list as expected and leave every
  other list on the heap as it is: from well-linked lists (\<open>ring\<close>: following \<^verbatim>\<open>next\<close> from the head visits the
  nodes in order and comes back, and following \<^verbatim>\<open>prev\<close> visits them in the reverse order) that share no node,
  appending a node that is in neither gives the well-linked list with the node at its end, removing any node
  gives the well-linked list without it, the other list stays well-linked with the nodes it had, and a
  walk over the list ends and visits its nodes.\<close>

theorem qlist_refines_list:
  assumes "ring h p us" and "ring h q zs" and "set (p # us) \<inter> set (q # zs) = {}"
  shows "(i \<notin> set (p # us) \<union> set (q # zs) \<longrightarrow>
            ring (qlist_add_tail p i h) p (us @ [i]) \<and> ring (qlist_add_tail p i h) q zs \<and>
            qlist_for_each (qlist_add_tail p i h) p (qlist_head p (qlist_add_tail p i h)) = Some (us @ [i])) \<and>
         (us = xs @ x # ys \<longrightarrow>
            ring (qlist_remove x h) p (xs @ ys) \<and> ring (qlist_remove x h) q zs \<and>
            qlist_for_each (qlist_remove x h) p (qlist_head p (qlist_remove x h)) = Some (xs @ ys))"
  using ring_add_tail [OF assms(1), of i] ring_add_tail_other [OF assms, of i]
    ring_remove [of h p xs x ys] ring_remove_other [of h p xs x ys q zs] assms ring_for_each by auto

definition sample_heap :: qheap where
  "sample_heap = qlist_init 2 (qlist_add_tail 1 5 (qlist_add_tail 1 3 (qlist_init 1 (\<lambda>_. \<lparr>qnext = 0, qprev = 0\<rparr>))))"

lemma sample_heap_links:
  "map (\<lambda>a. (qnext (sample_heap a), qprev (sample_heap a))) [1, 2, 3, 5] = [(3, 5), (2, 2), (5, 1), (1, 3)]"
  by (simp add: sample_heap_def qlist_init_def qlist_add_tail_def Let_def)

theorem qlist_refines_list_witness:
  "ring (qlist_remove 3 sample_heap) 1 [5] \<and> ring (qlist_add_tail 1 7 sample_heap) 1 [3, 5, 7] \<and>
   ring (qlist_remove 3 sample_heap) 2 [] \<and>
   qlist_for_each (qlist_remove 3 sample_heap) 1 (qlist_head 1 (qlist_remove 3 sample_heap)) = Some [5]"
  using qlist_refines_list [of sample_heap 1 "[3, 5]" 2 "[]" 7 "[]" 3 "[5]"] sample_heap_links by (simp add: ring_def)

end
