(* ===== verification/Qmi_Proxy.thy ===== *)
theory Qmi_Proxy
  imports Profile Qlist
begin

text \<open>
  \<^verbatim>\<open>quectel-qmi-proxy\<close> (\<^verbatim>\<open>quectel-qmi-proxy.c\<close>): one process owns the QMI device and shares it between local clients.
  Control messages of all clients go through one queue, with one request outstanding at a time; the
  proxy learns from the responses which client ids belong to which connection, distributes service
  messages by client id and releases the ids of a client that disconnects. The lists are HOL lists;
  theory \<open>Qlist\<close> shows that the operations on \<^verbatim>\<open>struct qlistnode\<close> refine them.

  System calls are parameters: \<open>proxy_os\<close> says whether \<^verbatim>\<open>malloc\<close> succeeds, what the \<open>n\<close>-th \<^verbatim>\<open>poll\<close> for
  writing reports and what \<^verbatim>\<open>write\<close> returns. The logs of the state record every attempt to write,
  \<open>None\<close> for one that found the descriptor not writable.
\<close>

subsection \<open>State\<close>

abbreviation (input) "QMICTL_CTL_FLAG_RSP \<equiv> (0x01 :: byte)"
abbreviation (input) "QMICTL_CTL_FLAG_IND \<equiv> (0x02 :: byte)"

type_synonym qmi_proxy_client = "byte \<times> byte"

record qmi_proxy_msg =
  msg_ClientFd :: int
  msg_qmi :: buf

record qmi_proxy_con =
  con_ClientFd :: int
  con_clients :: "qmi_proxy_client list"

record proxy_os =
  malloc_ok :: bool
  dev_poll :: "nat \<Rightarrow> int \<times> bool"
  dev_write :: "nat \<Rightarrow> int"
  client_pollout :: "nat \<Rightarrow> bool"

record qmi_proxy =
  qmi_proxy_server_fd :: int
  qmi_proxy_connection :: "qmi_proxy_con list"
  qmi_proxy_ctl_msg :: "qmi_proxy_msg list"
  modem_reset_flag :: bool
  qmi_sync_done :: bool
  proxy_qmi_buf :: buf
  dev_log :: "buf option list"
  client_log :: "(int \<times> buf option) list"
  closed_fds :: "int list"

definition proxy_start :: "int \<Rightarrow> qmi_proxy" where
  "proxy_start server_fd =
     \<lparr>qmi_proxy_server_fd = server_fd, qmi_proxy_connection = [], qmi_proxy_ctl_msg = [], modem_reset_flag = False,
      qmi_sync_done = False, proxy_qmi_buf = replicate 4096 0, dev_log = [], client_log = [], closed_fds = []\<rparr>"

subsection \<open>Writing to the device and to clients\<close>

definition send_qmi_to_cdc_wdm :: "proxy_os \<Rightarrow> buf \<Rightarrow> qmi_proxy \<Rightarrow> (int \<times> qmi_proxy) access" where
  "send_qmi_to_cdc_wdm os pQMI p =
     (let n = length (dev_log p); (ret, pollout) = dev_poll os n
      in if pollout then do {
           l \<leftarrow> rd16 pQMI 1;
           bs \<leftarrow> rdn pQMI 0 (unat l + 1);
           Some (dev_write os n, p\<lparr>dev_log := dev_log p @ [Some bs]\<rparr>) }
         else Some (ret, p\<lparr>dev_log := dev_log p @ [None]\<rparr>))"

definition send_qmi_to_client :: "proxy_os \<Rightarrow> buf \<Rightarrow> int \<Rightarrow> qmi_proxy \<Rightarrow> qmi_proxy access" where
  "send_qmi_to_client os pQMI clientFd p =
     (if client_pollout os (length (client_log p)) then do {
        l \<leftarrow> rd16 pQMI 1;
        bs \<leftarrow> rdn pQMI 0 (unat l + 1);
        Some (p\<lparr>client_log := client_log p @ [(clientFd, Some bs)]\<rparr>) }
      else Some (p\<lparr>client_log := client_log p @ [(clientFd, None)]\<rparr>))"

text \<open>A control message enters the queue; it is sent at once when no other one is outstanding.\<close>

definition queue_ctl_msg :: "proxy_os \<Rightarrow> buf \<Rightarrow> qmi_proxy_msg \<Rightarrow> qmi_proxy \<Rightarrow> qmi_proxy access" where
  "queue_ctl_msg os pQMI m p = do {
     p \<leftarrow> (if qmi_proxy_ctl_msg p = []
           then do { (ret, p) \<leftarrow> send_qmi_to_cdc_wdm os pQMI p; Some p } else Some p);
     Some (p\<lparr>qmi_proxy_ctl_msg := qmi_proxy_ctl_msg p @ [m]\<rparr>) }"

subsection \<open>Connections\<close>

definition accept_qmi_connection :: "proxy_os \<Rightarrow> int \<Rightarrow> qmi_proxy \<Rightarrow> qmi_proxy" where
  "accept_qmi_connection os clientfd p =
     (if malloc_ok os
      then p\<lparr>qmi_proxy_connection := qmi_proxy_connection p @ [\<lparr>con_ClientFd = clientfd, con_clients = []\<rparr>]\<rparr>
      else p)"

definition proxy_release_req :: "qmi_proxy_client \<Rightarrow> buf" where
  "proxy_release_req c =
     [0x01] @ bytes16 16 @ [0x00, QMUX_TYPE_CTL, 0x00, 0x00, 255] @ bytes16 QMICTL_RELEASE_CLIENT_ID_REQ
       @ bytes16 5 @ [0x01] @ bytes16 2 @ [fst c, snd c]"

text \<open>The loop over the clients of a connection; an allocation that fails there is a null dereference.\<close>

fun release_clients :: "proxy_os \<Rightarrow> bool \<Rightarrow> qmi_proxy_client list \<Rightarrow> qmi_proxy \<Rightarrow> qmi_proxy access" where
  "release_clients os clientDisconnect [] p = Some p"
| "release_clients os clientDisconnect (c # cs) p =
     (if clientDisconnect then
        (if malloc_ok os then do {
           p \<leftarrow> queue_ctl_msg os (proxy_release_req c)
                  \<lparr>msg_ClientFd = qmi_proxy_server_fd p, msg_qmi = proxy_release_req c\<rparr> p;
           release_clients os clientDisconnect cs p }
         else None)
      else release_clients os clientDisconnect cs p)"

text \<open>Removal of the first element that satisfies a condition, as the loops with \<^verbatim>\<open>break\<close> do it.\<close>

fun remove_first :: "('a \<Rightarrow> bool) \<Rightarrow> 'a list \<Rightarrow> 'a list" where
  "remove_first P [] = []"
| "remove_first P (x # xs) = (if P x then xs else x # remove_first P xs)"

definition cleanup_qmi_connection :: "proxy_os \<Rightarrow> int \<Rightarrow> bool \<Rightarrow> qmi_proxy \<Rightarrow> qmi_proxy access" where
  "cleanup_qmi_connection os clientfd clientDisconnect p =
     (case find (\<lambda>c. con_ClientFd c = clientfd) (qmi_proxy_connection p) of
        None \<Rightarrow> Some p
      | Some qmi_con \<Rightarrow> do {
          p \<leftarrow> release_clients os clientDisconnect (con_clients qmi_con) p;
          Some (p\<lparr>qmi_proxy_ctl_msg := remove_first (\<lambda>m. msg_ClientFd m = clientfd) (qmi_proxy_ctl_msg p),
                  closed_fds := closed_fds p @ [clientfd],
                  qmi_proxy_connection := remove_first (\<lambda>c. con_ClientFd c = clientfd) (qmi_proxy_connection p)\<rparr>) })"

subsection \<open>Messages of the device\<close>

text \<open>Offsets in a response: result 15, error 17, service 22, client id 23.\<close>

definition get_client_id :: "proxy_os \<Rightarrow> buf \<Rightarrow> qmi_proxy_con \<Rightarrow> qmi_proxy_con access" where
  "get_client_id os pQMI qmi_con = do {
     QMIResult \<leftarrow> rd16 pQMI 15; QMIError \<leftarrow> rd16 pQMI 17;
     if QMIResult = 0 \<and> QMIError = 0 then
       (if malloc_ok os then do {
          ty \<leftarrow> rd8 pQMI 22; cid \<leftarrow> rd8 pQMI 23;
          Some (qmi_con\<lparr>con_clients := con_clients qmi_con @ [(ty, cid)]\<rparr>) }
        else None)
     else Some qmi_con }"

definition release_client_id :: "buf \<Rightarrow> qmi_proxy_con \<Rightarrow> qmi_proxy_con access" where
  "release_client_id pQMI qmi_con = do {
     QMIResult \<leftarrow> rd16 pQMI 15; QMIError \<leftarrow> rd16 pQMI 17;
     if QMIResult = 0 \<and> QMIError = 0 then do {
       ty \<leftarrow> rd8 pQMI 22; cid \<leftarrow> rd8 pQMI 23;
       Some (qmi_con\<lparr>con_clients := remove_first (\<lambda>c. c = (ty, cid)) (con_clients qmi_con)\<rparr>) }
     else Some qmi_con }"

text \<open>The loop over the connections that hands a control response to the connection \<open>fd\<close>.\<close>

fun ctl_response_to :: "proxy_os \<Rightarrow> buf \<Rightarrow> int \<Rightarrow> qmi_proxy_con list \<Rightarrow> qmi_proxy \<Rightarrow> (qmi_proxy_con list \<times> qmi_proxy) access" where
  "ctl_response_to os pQMI fd [] p = Some ([], p)"
| "ctl_response_to os pQMI fd (c # cs) p = do {
     (c, p) \<leftarrow>
       (if con_ClientFd c = fd then do {
          p \<leftarrow> send_qmi_to_client os pQMI fd p;
          ty \<leftarrow> rd16 pQMI 8;
          c \<leftarrow> (if ty = QMICTL_GET_CLIENT_ID_REQ then get_client_id os pQMI c
                else if ty = QMICTL_RELEASE_CLIENT_ID_REQ then release_client_id pQMI c
                else Some c);
          Some (c, p) }
        else Some (c, p));
     (cs, p) \<leftarrow> ctl_response_to os pQMI fd cs p;
     Some (c # cs, p) }"

definition recv_ctl_rsp :: "proxy_os \<Rightarrow> buf \<Rightarrow> qmi_proxy \<Rightarrow> qmi_proxy access" where
  "recv_ctl_rsp os pQMI p =
     (case qmi_proxy_ctl_msg p of
        [] \<Rightarrow> Some p
      | qmi_msg # rest \<Rightarrow> do {
          tid \<leftarrow> rd8 (msg_qmi qmi_msg) 7; tid' \<leftarrow> rd8 pQMI 7;
          ty' \<leftarrow> rd16 pQMI 8;
          same \<leftarrow> (if tid \<noteq> tid' then Some False else do { ty \<leftarrow> rd16 (msg_qmi qmi_msg) 8; Some (ty = ty') });
          p \<leftarrow> (if \<not> same then Some p
                else if msg_ClientFd qmi_msg = qmi_proxy_server_fd p then Some p
                else do {
                  (cons, p) \<leftarrow> ctl_response_to os pQMI (msg_ClientFd qmi_msg) (qmi_proxy_connection p) p;
                  Some (p\<lparr>qmi_proxy_connection := cons\<rparr>) });
          let p = p\<lparr>qmi_proxy_ctl_msg := rest\<rparr>;
          (case rest of
             [] \<Rightarrow> Some p
           | m # _ \<Rightarrow> do { (ret, p) \<leftarrow> send_qmi_to_cdc_wdm os (msg_qmi m) p; Some p }) })"

definition service_receivers :: "byte \<Rightarrow> byte \<Rightarrow> qmi_proxy_con list \<Rightarrow> int list" where
  "service_receivers ty cid cons =
     concat (map (\<lambda>con. map (\<lambda>c. con_ClientFd con)
       (filter (\<lambda>c. ty = fst c \<and> (cid = 0 \<or> cid = snd c)) (con_clients con))) cons)"

fun send_to_clients :: "proxy_os \<Rightarrow> buf \<Rightarrow> int list \<Rightarrow> qmi_proxy \<Rightarrow> qmi_proxy access" where
  "send_to_clients os pQMI [] p = Some p"
| "send_to_clients os pQMI (fd # fds) p =
     do { p \<leftarrow> send_qmi_to_client os pQMI fd p; send_to_clients os pQMI fds p }"

definition recv_qmi_from_dev :: "proxy_os \<Rightarrow> buf \<Rightarrow> qmi_proxy \<Rightarrow> qmi_proxy access" where
  "recv_qmi_from_dev os pQMI p =
     (if qmi_proxy_server_fd p = - 1 then Some (p\<lparr>qmi_sync_done := True\<rparr>)
      else do {
        QMIType \<leftarrow> rd8 pQMI 4;
        if QMIType = QMUX_TYPE_CTL then do {
          flags \<leftarrow> rd8 pQMI 6;
          if flags = QMICTL_CTL_FLAG_RSP then recv_ctl_rsp os pQMI p
          else if QMIType = QMICTL_CTL_FLAG_IND then do {
            ty \<leftarrow> rd16 pQMI 8;
            Some (if ty = QMICTL_REVOKE_CLIENT_ID_IND then p\<lparr>modem_reset_flag := True\<rparr> else p) }
          else Some p }
        else do {
          ClientId \<leftarrow> rd8 pQMI 5;
          send_to_clients os pQMI (service_receivers QMIType ClientId (qmi_proxy_connection p)) p } })"

subsection \<open>Messages of the clients\<close>

text \<open>\<^verbatim>\<open>QMICTLType\<close> is compared with \<^verbatim>\<open>QMICTL_SYNC_REQ\<close> without conversion; the model is the little-endian host.\<close>

definition recv_qmi_from_client :: "proxy_os \<Rightarrow> buf \<Rightarrow> nat \<Rightarrow> int \<Rightarrow> qmi_proxy \<Rightarrow> (int \<times> qmi_proxy) access" where
  "recv_qmi_from_client os pQMI sz clientfd p =
     (if qmi_proxy_server_fd p = - 1 then Some (- 1, p)
      else do {
        QMIType \<leftarrow> rd8 pQMI 4;
        if QMIType = QMUX_TYPE_CTL then do {
          ty \<leftarrow> rd16 pQMI 8;
          if ty = QMICTL_SYNC_REQ then Some (0, p)
          else if malloc_ok os then do {
            m \<leftarrow> rdn pQMI 0 sz;
            p \<leftarrow> queue_ctl_msg os pQMI \<lparr>msg_ClientFd = clientfd, msg_qmi = m\<rparr> p;
            Some (0, p) }
          else None }
        else do { (ret, p) \<leftarrow> send_qmi_to_cdc_wdm os pQMI p; Some (0, p) } })"

subsection \<open>Synchronisation\<close>

text \<open>\<open>synced i\<close>: the loop thread has set \<^verbatim>\<open>qmi_sync_done\<close> by the end of the \<open>i\<close>-th wait.\<close>

definition sync_req :: "nat \<Rightarrow> buf" where
  "sync_req i = [0x01] @ bytes16 11 @ [0x00, QMUX_TYPE_CTL, 0x00, 0x00, of_nat (i + 1)] @ bytes16 QMICTL_SYNC_REQ @ bytes16 0"

fun sync_rounds :: "proxy_os \<Rightarrow> (nat \<Rightarrow> bool) \<Rightarrow> nat \<Rightarrow> nat \<Rightarrow> qmi_proxy \<Rightarrow> qmi_proxy access" where
  "sync_rounds os synced i 0 p = Some p"
| "sync_rounds os synced i (Suc n) p = do {
     (ret, p) \<leftarrow> send_qmi_to_cdc_wdm os (sync_req i) p;
     if ret \<le> 0 then Some p
     else (let p = p\<lparr>qmi_sync_done := synced i\<rparr>
           in if synced i then Some p else sync_rounds os synced (i + 1) n p) }"

definition qmi_proxy_init :: "proxy_os \<Rightarrow> (nat \<Rightarrow> bool) \<Rightarrow> nat \<Rightarrow> qmi_proxy \<Rightarrow> (int \<times> qmi_proxy) access" where
  "qmi_proxy_init os synced retry p = do {
     p \<leftarrow> sync_rounds os synced 0 retry (p\<lparr>qmi_sync_done := False\<rparr>);
     Some (if qmi_sync_done p then 0 else - 1, p) }"

subsection \<open>The loop\<close>

text \<open>
  One turn: \<^verbatim>\<open>poll\<close> failed, or for each polled descriptor, in the order of the table, what it reports:
  an error or hang-up, or readable with what \<^verbatim>\<open>read\<close> delivers (no bytes for an end or error), or
  a new connection on the server socket.
\<close>

datatype proxy_event =
    DevError
  | DevRead buf
  | NewClient int
  | ClientHup int
  | ClientRead int buf

text \<open>\<open>Continue\<close> with the next descriptor, \<open>EndTurn\<close> (\<^verbatim>\<open>break\<close>) or \<open>LeaveLoop\<close> (\<^verbatim>\<open>goto qmi_proxy_loop_exit\<close>).\<close>

datatype loop_next = Continue | EndTurn | LeaveLoop

definition proxy_read :: "buf \<Rightarrow> qmi_proxy \<Rightarrow> (nat \<times> qmi_proxy) access" where
  "proxy_read bs p = do {
     let x = take 4096 bs;
     b \<leftarrow> wr (proxy_qmi_buf p) 0 x;
     Some (length x, p\<lparr>proxy_qmi_buf := b\<rparr>) }"

fun proxy_event_step :: "proxy_os \<Rightarrow> proxy_event \<Rightarrow> qmi_proxy \<Rightarrow> (loop_next \<times> qmi_proxy) access" where
  "proxy_event_step os DevError p = Some (LeaveLoop, p)"
| "proxy_event_step os (DevRead bs) p = do {
     (nreads, p) \<leftarrow> proxy_read bs p;
     if nreads = 0 then Some (LeaveLoop, p)
     else do {
       l \<leftarrow> rd16 (proxy_qmi_buf p) 1;
       if nreads \<noteq> unat l + 1 then Some (Continue, p)
       else do {
         p \<leftarrow> recv_qmi_from_dev os (proxy_qmi_buf p) p;
         Some (if modem_reset_flag p then LeaveLoop else Continue, p) } } }"
| "proxy_event_step os (NewClient fd) p = Some (Continue, accept_qmi_connection os fd p)"
| "proxy_event_step os (ClientHup fd) p = do { p \<leftarrow> cleanup_qmi_connection os fd True p; Some (Continue, p) }"
| "proxy_event_step os (ClientRead fd bs) p = do {
     (nreads, p) \<leftarrow> proxy_read bs p;
     if nreads = 0 then do { p \<leftarrow> cleanup_qmi_connection os fd True p; Some (EndTurn, p) }
     else do {
       l \<leftarrow> rd16 (proxy_qmi_buf p) 1;
       if nreads \<noteq> unat l + 1 then Some (Continue, p)
       else do {
         (ret, p) \<leftarrow> recv_qmi_from_client os (proxy_qmi_buf p) nreads fd p;
         Some (Continue, p) } } }"

fun proxy_turn :: "proxy_os \<Rightarrow> proxy_event list \<Rightarrow> qmi_proxy \<Rightarrow> (bool \<times> qmi_proxy) access" where
  "proxy_turn os [] p = Some (False, p)"
| "proxy_turn os (e # es) p = do {
     (k, p) \<leftarrow> proxy_event_step os e p;
     (case k of Continue \<Rightarrow> proxy_turn os es p | EndTurn \<Rightarrow> Some (False, p) | LeaveLoop \<Rightarrow> Some (True, p)) }"

text \<open>Leaving the loop closes every connection, without releasing its clients.\<close>

lemma release_clients_quiet: "release_clients os False cs p = Some p"
  by (induction cs) auto

lemma cleanup_quiet_first:
  assumes "qmi_proxy_connection p = c # cs"
  shows "cleanup_qmi_connection os (con_ClientFd c) False p =
    Some (p\<lparr>qmi_proxy_ctl_msg := remove_first (\<lambda>m. msg_ClientFd m = con_ClientFd c) (qmi_proxy_ctl_msg p),
            closed_fds := closed_fds p @ [con_ClientFd c], qmi_proxy_connection := cs\<rparr>)"
  using assms by (simp add: cleanup_qmi_connection_def release_clients_quiet)

function proxy_exit :: "proxy_os \<Rightarrow> qmi_proxy \<Rightarrow> qmi_proxy access" where
  "proxy_exit os p =
     (case qmi_proxy_connection p of
        [] \<Rightarrow> Some p
      | qmi_con # _ \<Rightarrow>
          (case cleanup_qmi_connection os (con_ClientFd qmi_con) False p of
             None \<Rightarrow> None
           | Some p' \<Rightarrow> proxy_exit os p'))"
  by pat_completeness auto
termination
  by (relation "measure (\<lambda>(os, p). length (qmi_proxy_connection p))")
     (auto simp: cleanup_quiet_first)

text \<open>The turns until the loop is left; the flag tells whether it was. A turn that is \<open>None\<close> is a \<^verbatim>\<open>poll\<close>
  that failed or a loop condition that no longer holds.\<close>

fun qmi_proxy_turns :: "proxy_os \<Rightarrow> proxy_event list option list \<Rightarrow> qmi_proxy \<Rightarrow> (bool \<times> qmi_proxy) access" where
  "qmi_proxy_turns os [] p = Some (False, p)"
| "qmi_proxy_turns os (None # ts) p = do { p \<leftarrow> proxy_exit os p; Some (True, p) }"
| "qmi_proxy_turns os (Some es # ts) p = do {
     (quit, p) \<leftarrow> proxy_turn os es p;
     if quit then do { p \<leftarrow> proxy_exit os p; Some (True, p) } else qmi_proxy_turns os ts p }"

definition qmi_proxy_loop :: "proxy_os \<Rightarrow> proxy_event list option list \<Rightarrow> qmi_proxy \<Rightarrow> (bool \<times> qmi_proxy) access" where
  "qmi_proxy_loop os ts p =
     qmi_proxy_turns os ts (p\<lparr>qmi_proxy_connection := [], qmi_proxy_ctl_msg := []\<rparr>)"

end
