(* ===== verification/Proxy_Dispatch.thy ===== *)
theory Proxy_Dispatch
  imports Qmi_Proxy
begin

text \<open>
  The guarantees of the proxy over all sequences of events: control requests are written one at a time
  and in the order in which they arrived, a response goes to the client that asked, a service
  message to the owner of its client id. \<open>proxy_run A os server_fd sub p\<close> says that the loop can be in state
  \<open>p\<close> after events that satisfy \<open>A\<close>, with \<open>sub\<close> the control messages that entered the queue.
\<close>

subsection \<open>Runs\<close>

definition con_releases :: "int \<Rightarrow> qmi_proxy \<Rightarrow> buf list" where
  "con_releases fd p = (case find (\<lambda>c. con_ClientFd c = fd) (qmi_proxy_connection p) of
                          None \<Rightarrow> [] | Some c \<Rightarrow> map proxy_release_req (con_clients c))"

definition qmi_sized :: "buf \<Rightarrow> bool" where
  "qmi_sized m \<longleftrightarrow> 12 \<le> length m \<and> length m \<le> 4096 \<and> map_option unat (rd16 m 1) = Some (length m - 1)"

definition submits :: "proxy_event \<Rightarrow> qmi_proxy \<Rightarrow> buf list" where
  "submits e p = (case e of
       ClientHup fd \<Rightarrow> con_releases fd p
     | ClientRead fd bs \<Rightarrow>
         if bs = [] then con_releases fd p
         else if qmi_sized (take 4096 bs) \<and> bs ! 4 = QMUX_TYPE_CTL \<and> rd16 bs 8 \<noteq> Some QMICTL_SYNC_REQ
         then [take 4096 bs] else []
     | _ \<Rightarrow> [])"

inductive proxy_run ::
  "(proxy_event \<Rightarrow> qmi_proxy \<Rightarrow> bool) \<Rightarrow> proxy_os \<Rightarrow> int \<Rightarrow> buf list \<Rightarrow> qmi_proxy \<Rightarrow> bool"
  for A :: "proxy_event \<Rightarrow> qmi_proxy \<Rightarrow> bool" and os :: proxy_os and server_fd :: int where
  run_start: "proxy_run A os server_fd [] (proxy_start server_fd)"
| run_event: "proxy_run A os server_fd sub p \<Longrightarrow> A e p \<Longrightarrow> proxy_event_step os e p = Some (k, p')
     \<Longrightarrow> proxy_run A os server_fd (sub @ submits e p) p'"

text \<open>
  The conditions under which the queue is in order: a client does not leave while one of its control requests is in
  the queue, no client has the descriptor of the server, and what a client sends has at least 12 bytes, the
  size of a control header, which \<^verbatim>\<open>recv_qmi_from_client\<close> does not check.
\<close>

definition orderly :: "proxy_event \<Rightarrow> qmi_proxy \<Rightarrow> bool" where
  "orderly e p = (case e of
       NewClient fd \<Rightarrow> fd \<noteq> qmi_proxy_server_fd p
     | ClientHup fd \<Rightarrow> fd \<noteq> qmi_proxy_server_fd p \<and> (\<forall>m \<in> set (qmi_proxy_ctl_msg p). msg_ClientFd m \<noteq> fd)
     | ClientRead fd bs \<Rightarrow>
         if bs = [] then fd \<noteq> qmi_proxy_server_fd p \<and> (\<forall>m \<in> set (qmi_proxy_ctl_msg p). msg_ClientFd m \<noteq> fd)
         else 12 \<le> length bs
     | _ \<Rightarrow> True)"

definition writable :: "proxy_os \<Rightarrow> bool" where
  "writable os \<longleftrightarrow> malloc_ok os \<and> (\<forall>n. snd (dev_poll os n)) \<and> (\<forall>n. client_pollout os n)"

definition ctl_written :: "qmi_proxy \<Rightarrow> buf list" where
  "ctl_written p = filter (\<lambda>m. m ! 4 = QMUX_TYPE_CTL) (List.map_filter id (dev_log p))"

definition ctl_waiting :: "qmi_proxy \<Rightarrow> buf list" where
  "ctl_waiting p = map msg_qmi (tl (qmi_proxy_ctl_msg p))"

definition proxy_ok :: "qmi_proxy \<Rightarrow> bool" where
  "proxy_ok p \<longleftrightarrow> length (proxy_qmi_buf p) = 4096 \<and> qmi_proxy_server_fd p \<noteq> - 1
     \<and> (\<forall>m \<in> set (qmi_proxy_ctl_msg p). qmi_sized (msg_qmi m) \<and> msg_qmi m ! 4 = QMUX_TYPE_CTL)
     \<and> (qmi_proxy_ctl_msg p \<noteq> [] \<longrightarrow> ctl_written p \<noteq> [] \<and> last (ctl_written p) = msg_qmi (hd (qmi_proxy_ctl_msg p)))"

subsection \<open>Effects of the operations\<close>

lemma map_filter_id_append [simp]: "List.map_filter id (xs @ [y]) = List.map_filter id xs @ (case y of None \<Rightarrow> [] | Some m \<Rightarrow> [m])"
  by (simp add: List.map_filter_def split: option.splits)

text \<open>The buffer \<open>b\<close> holds the message \<open>m\<close>, whose size its header tells.\<close>

definition carries :: "buf \<Rightarrow> buf \<Rightarrow> bool" where
  "carries b m \<longleftrightarrow> (\<exists>l. rd16 b 1 = Some l \<and> unat l + 1 = length m) \<and> rdn b 0 (length m) = Some m"

lemma carries_self: "qmi_sized m \<Longrightarrow> carries m m"
  by (auto simp: carries_def qmi_sized_def rdn_def)

lemma carries_nth: "carries b m \<Longrightarrow> i < length m \<Longrightarrow> rd8 b i = Some (m ! i)"
  by (auto simp: carries_def rdn_def rd8_def split: if_splits) (metis nth_take)

lemma carries_take:
  assumes "qmi_sized m" and "take (length m) b = m" and "length b = 4096"
  shows "carries b m"
proof -
  have n: "12 \<le> length m" "length m \<le> 4096" using assms(1) by (auto simp: qmi_sized_def)
  have nth: "b ! i = m ! i" if "i < length m" for i
    using assms(2) that by (metis nth_take)
  have "rd16 b 1 = rd16 m 1" using n assms(3) by (simp add: rd16_def rd8_def nth)
  then show ?thesis using assms n by (auto simp: qmi_sized_def rdn_def carries_def)
qed

lemma send_dev:
  assumes "writable os" and "carries b m"
  shows "\<exists>r. send_qmi_to_cdc_wdm os b p = Some (r, p\<lparr>dev_log := dev_log p @ [Some m]\<rparr>)"
  using assms by (auto simp: send_qmi_to_cdc_wdm_def writable_def carries_def case_prod_unfold Let_def)

lemma send_client:
  assumes "writable os" and "carries b m"
  shows "send_qmi_to_client os b fd p = Some (p\<lparr>client_log := client_log p @ [(fd, Some m)]\<rparr>)"
  using assms by (auto simp: send_qmi_to_client_def writable_def carries_def)

lemma queue_ctl:
  assumes "writable os" and "carries b (msg_qmi x)"
  shows "queue_ctl_msg os b x p =
    Some (p\<lparr>dev_log := dev_log p @ (if qmi_proxy_ctl_msg p = [] then [Some (msg_qmi x)] else []),
            qmi_proxy_ctl_msg := qmi_proxy_ctl_msg p @ [x]\<rparr>)"
  using send_dev [OF assms, of p] by (auto simp: queue_ctl_msg_def)

lemma release_req_sized: "qmi_sized (proxy_release_req c)" "proxy_release_req c ! 4 = QMUX_TYPE_CTL"
  by (simp_all add: qmi_sized_def proxy_release_req_def bytes16_def rd16_def rd8_def le16_def)

text \<open>What queueing messages does to a state: \<open>proxy_ok\<close> is kept and exactly they are added behind the others.\<close>

definition queues :: "buf list \<Rightarrow> qmi_proxy \<Rightarrow> qmi_proxy \<Rightarrow> bool" where
  "queues ms p p' \<longleftrightarrow> (proxy_ok p \<longrightarrow> proxy_ok p' \<and> ctl_written p' @ ctl_waiting p' = ctl_written p @ ctl_waiting p @ ms)
     \<and> qmi_proxy_server_fd p' = qmi_proxy_server_fd p"

lemma queues_refl: "queues [] p p"
  by (simp add: queues_def)

lemma queues_trans: "queues ms p p' \<Longrightarrow> queues ns p' p'' \<Longrightarrow> queues (ms @ ns) p p''"
  by (auto simp: queues_def)

lemma queues_queue_ctl:
  assumes "qmi_sized (msg_qmi x)" and "msg_qmi x ! 4 = QMUX_TYPE_CTL"
  shows "queues [msg_qmi x] p
    (p\<lparr>dev_log := dev_log p @ (if qmi_proxy_ctl_msg p = [] then [Some (msg_qmi x)] else []),
       qmi_proxy_ctl_msg := qmi_proxy_ctl_msg p @ [x]\<rparr>)"
  using assms by (cases "qmi_proxy_ctl_msg p") (auto simp: queues_def proxy_ok_def ctl_written_def ctl_waiting_def)

lemma release_clients_queues:
  assumes "writable os"
  shows "\<exists>p'. release_clients os True cs p = Some p' \<and> queues (map proxy_release_req cs) p p'
     \<and> qmi_proxy_connection p' = qmi_proxy_connection p \<and> client_log p' = client_log p
     \<and> (\<exists>ms. qmi_proxy_ctl_msg p' = qmi_proxy_ctl_msg p @ ms \<and> (\<forall>m \<in> set ms. msg_ClientFd m = qmi_proxy_server_fd p))"
proof (induction cs arbitrary: p)
  case Nil
  then show ?case by (simp add: queues_refl)
next
  case (Cons c cs)
  let ?x = "\<lparr>msg_ClientFd = qmi_proxy_server_fd p, msg_qmi = proxy_release_req c\<rparr>"
  let ?q = "p\<lparr>dev_log := dev_log p @ (if qmi_proxy_ctl_msg p = [] then [Some (msg_qmi ?x)] else []),
       qmi_proxy_ctl_msg := qmi_proxy_ctl_msg p @ [?x]\<rparr>"
  have q: "queue_ctl_msg os (proxy_release_req c) ?x p = Some ?q"
    using queue_ctl [OF assms, of "proxy_release_req c" ?x p] carries_self [OF release_req_sized(1)] by simp
  have "queues [proxy_release_req c] p ?q"
    using queues_queue_ctl [of ?x p] release_req_sized by simp
  then show ?case
    using Cons.IH [of ?q] q assms queues_trans [of "[proxy_release_req c]" p ?q]
    by (auto simp: writable_def)
qed

lemma remove_first_none: "\<forall>x \<in> set xs. \<not> P x \<Longrightarrow> remove_first P xs = xs"
  by (induction xs) auto

lemma queues_cong:
  assumes "queues ms p q" and "qmi_proxy_server_fd q' = qmi_proxy_server_fd q"
    and "length (proxy_qmi_buf q') = length (proxy_qmi_buf q)"
    and "qmi_proxy_ctl_msg q' = qmi_proxy_ctl_msg q" and "dev_log q' = dev_log q"
  shows "queues ms p q'"
proof -
  have "ctl_written q' = ctl_written q" "ctl_waiting q' = ctl_waiting q"
    by (simp_all only: ctl_written_def ctl_waiting_def assms(4,5))
  moreover from this have "proxy_ok q' = proxy_ok q" by (simp only: proxy_ok_def assms(2-4))
  ultimately show ?thesis using assms(1) unfolding queues_def assms(2) by metis
qed

lemma cleanup_queues:
  assumes "writable os" and "fd \<noteq> qmi_proxy_server_fd p" and "\<forall>m \<in> set (qmi_proxy_ctl_msg p). msg_ClientFd m \<noteq> fd"
  shows "\<exists>p'. cleanup_qmi_connection os fd True p = Some p' \<and> queues (con_releases fd p) p p'"
proof (cases "find (\<lambda>c. con_ClientFd c = fd) (qmi_proxy_connection p)")
  case None
  then show ?thesis by (simp add: cleanup_qmi_connection_def con_releases_def queues_refl)
next
  case (Some c)
  obtain q ms where q: "release_clients os True (con_clients c) p = Some q"
    "queues (map proxy_release_req (con_clients c)) p q"
    "qmi_proxy_ctl_msg q = qmi_proxy_ctl_msg p @ ms" "\<forall>m \<in> set ms. msg_ClientFd m = qmi_proxy_server_fd p"
    using release_clients_queues [OF assms(1)] by blast
  have "remove_first (\<lambda>m. msg_ClientFd m = fd) (qmi_proxy_ctl_msg q) = qmi_proxy_ctl_msg q"
    by (rule remove_first_none) (use q(3,4) assms(2,3) in auto)
  then have "cleanup_qmi_connection os fd True p = Some (q\<lparr>closed_fds := closed_fds q @ [fd],
      qmi_proxy_connection := remove_first (\<lambda>c. con_ClientFd c = fd) (qmi_proxy_connection q)\<rparr>)" (is "_ = Some ?q")
    using Some q(1) by (simp add: cleanup_qmi_connection_def)
  moreover have "queues (con_releases fd p) p ?q"
    using queues_cong [OF q(2), of ?q] Some by (simp add: con_releases_def)
  ultimately show ?thesis by blast
qed

text \<open>Messages to clients only touch the log of the clients.\<close>

lemma send_to_clients_log:
  assumes "writable os" and "carries b m"
  shows "send_to_clients os b fds p = Some (p\<lparr>client_log := client_log p @ map (\<lambda>fd. (fd, Some m)) fds\<rparr>)"
  by (induction fds arbitrary: p) (simp_all add: send_client [OF assms])

lemma rd_in_buffer: "length b = 4096 \<Longrightarrow> i < 4095 \<Longrightarrow> \<exists>v. rd16 b i = Some v \<and> rd8 b i = Some (b ! i)"
  by (simp add: rd16_def rd8_def)

lemma client_id_total:
  assumes "malloc_ok os" and "length b = 4096"
  shows "\<exists>c'. get_client_id os b c = Some c'" and "\<exists>c'. release_client_id b c = Some c'"
proof -
  obtain v w where "rd16 b 15 = Some v" "rd16 b 17 = Some w"
    "rd8 b 22 = Some (b ! 22)" "rd8 b 23 = Some (b ! 23)"
    using rd_in_buffer [OF assms(2), of 15] rd_in_buffer [OF assms(2), of 17]
      rd_in_buffer [OF assms(2), of 22] rd_in_buffer [OF assms(2), of 23] by auto
  then show "\<exists>c'. get_client_id os b c = Some c'" "\<exists>c'. release_client_id b c = Some c'"
    using assms(1) by (simp_all add: get_client_id_def release_client_id_def)
qed

lemma ctl_response_to_log:
  assumes "writable os" and "carries b m" and "length b = 4096"
  shows "\<exists>cs' l. ctl_response_to os b fd cs p = Some (cs', p\<lparr>client_log := l\<rparr>)"
proof (induction cs arbitrary: p)
  case Nil
  then show ?case by (auto intro: exI [of _ "client_log p"])
next
  case (Cons c cs)
  obtain u where r: "rd16 b 8 = Some u" using rd_in_buffer [OF assms(3), of 8] by auto
  have "malloc_ok os" using assms(1) by (simp add: writable_def)
  then obtain c' where c': "(if u = QMICTL_GET_CLIENT_ID_REQ then get_client_id os b c
      else if u = QMICTL_RELEASE_CLIENT_ID_REQ then release_client_id b c else Some c) = Some c'"
    using client_id_total [OF _ assms(3)] by (metis option.exhaust)
  show ?case
  proof (cases "con_ClientFd c = fd")
    case True
    let ?q = "p\<lparr>client_log := client_log p @ [(fd, Some m)]\<rparr>"
    obtain cs' l where "ctl_response_to os b fd cs ?q = Some (cs', ?q\<lparr>client_log := l\<rparr>)" using Cons.IH by blast
    then show ?thesis using True c' by (auto simp: send_client [OF assms(1,2)] r)
  next
    case False
    then show ?thesis using Cons.IH [of p] by auto
  qed
qed

lemma qmi_sized_rd:
  assumes "qmi_sized m" shows "rd8 m 7 = Some (m ! 7)" and "\<exists>t. rd16 m 8 = Some t"
  using assms by (auto simp: qmi_sized_def rd8_def rd16_def)

lemma recv_ctl_rsp_queues:
  assumes "writable os" and "carries b m" and "length b = 4096" and "proxy_ok p"
  shows "\<exists>p'. recv_ctl_rsp os b p = Some p' \<and> queues [] p p'"
proof (cases "qmi_proxy_ctl_msg p")
  case Nil
  then show ?thesis by (simp add: recv_ctl_rsp_def queues_refl)
next
  case (Cons x rest)
  have x: "qmi_sized (msg_qmi x)" using assms(4) Cons by (simp add: proxy_ok_def)
  obtain t t' where t: "rd16 (msg_qmi x) 8 = Some t" "rd16 b 8 = Some t'" "rd8 b 7 = Some (b ! 7)"
    using qmi_sized_rd(2) [OF x] rd_in_buffer [OF assms(3)] by fastforce
  let ?send = "\<lambda>q. (case rest of [] \<Rightarrow> Some (q\<lparr>qmi_proxy_ctl_msg := rest\<rparr>)
     | y # _ \<Rightarrow> do { (ret, q) \<leftarrow> send_qmi_to_cdc_wdm os (msg_qmi y) (q\<lparr>qmi_proxy_ctl_msg := rest\<rparr>); Some q })"
  have next_sent: "\<exists>p'. ?send (p\<lparr>client_log := l, qmi_proxy_connection := cs\<rparr>) = Some p' \<and> queues [] p p'" for l cs
  proof (cases rest)
    case Nil
    then show ?thesis using Cons by (auto simp: queues_def proxy_ok_def ctl_written_def ctl_waiting_def)
  next
    case c: (Cons y ys)
    then have y: "qmi_sized (msg_qmi y)" "msg_qmi y ! 4 = QMUX_TYPE_CTL" using assms(4) Cons by (auto simp: proxy_ok_def)
    show ?thesis
      using send_dev [OF assms(1) carries_self [OF y(1)], of "p\<lparr>client_log := l, qmi_proxy_connection := cs, qmi_proxy_ctl_msg := rest\<rparr>"]
        c Cons y by (auto simp: queues_def proxy_ok_def ctl_written_def ctl_waiting_def)
  qed
  have keep: "\<exists>p'. ?send p = Some p' \<and> queues [] p p'"
    using next_sent [where l = "client_log p" and cs = "qmi_proxy_connection p"] by (cases rest) simp_all
  obtain cs' l where r: "ctl_response_to os b (msg_ClientFd x) (qmi_proxy_connection p) p = Some (cs', p\<lparr>client_log := l\<rparr>)"
    using ctl_response_to_log [OF assms(1-3)] by blast
  have give: "\<exists>p'. ?send (p\<lparr>client_log := l, qmi_proxy_connection := cs'\<rparr>) = Some p' \<and> queues [] p p'" by (rule next_sent)
  have "recv_ctl_rsp os b p =
     ?send (if msg_qmi x ! 7 = b ! 7 \<and> t = t' \<and> msg_ClientFd x \<noteq> qmi_proxy_server_fd p
            then p\<lparr>client_log := l, qmi_proxy_connection := cs'\<rparr> else p)"
    using qmi_sized_rd(1) [OF x] t r by (auto simp: recv_ctl_rsp_def Cons Let_def)
  then show ?thesis using keep give by auto
qed

lemma recv_dev_queues:
  assumes "writable os" and "carries b m" and "length b = 4096" and "proxy_ok p"
  shows "\<exists>p'. recv_qmi_from_dev os b p = Some p' \<and> queues [] p p'"
proof -
  have r: "rd8 b 4 = Some (b ! 4)" "rd8 b 5 = Some (b ! 5)" "rd8 b 6 = Some (b ! 6)" using assms(3) by (simp_all add: rd8_def)
  have fd: "qmi_proxy_server_fd p \<noteq> - 1" using assms(4) by (simp add: proxy_ok_def)
  have svc: "queues [] p (p\<lparr>client_log := l\<rparr>)" for l by (rule queues_cong [OF queues_refl]) simp_all
  consider "b ! 4 = QMUX_TYPE_CTL \<and> b ! 6 = QMICTL_CTL_FLAG_RSP" | "b ! 4 = QMUX_TYPE_CTL \<and> b ! 6 \<noteq> QMICTL_CTL_FLAG_RSP"
    | "b ! 4 \<noteq> QMUX_TYPE_CTL" by blast
  then show ?thesis
  proof cases
    case 1
    then show ?thesis using recv_ctl_rsp_queues [OF assms] fd r by (simp add: recv_qmi_from_dev_def)
  next
    case 2
    then show ?thesis using fd r queues_refl by (simp add: recv_qmi_from_dev_def)
  next
    case 3
    then show ?thesis using fd r svc by (simp add: recv_qmi_from_dev_def send_to_clients_log [OF assms(1,2)])
  qed
qed

lemma proxy_read_step:
  assumes "proxy_ok p"
  obtains q where "proxy_read bs p = Some (length (take 4096 bs), q)" and "q = p\<lparr>proxy_qmi_buf := proxy_qmi_buf q\<rparr>"
    and "take (length (take 4096 bs)) (proxy_qmi_buf q) = take 4096 bs" and "length (proxy_qmi_buf q) = 4096"
    and "proxy_ok q" and "queues [] p q"
proof -
  let ?b = "take 4096 bs @ drop (length (take 4096 bs)) (proxy_qmi_buf p)"
  have l: "length (proxy_qmi_buf p) = 4096" using assms by (simp add: proxy_ok_def)
  then have lb: "length ?b = 4096" by simp
  have "wr (proxy_qmi_buf p) 0 (take 4096 bs) = Some ?b" using l by (simp add: wr_def)
  then have r: "proxy_read bs p = Some (length (take 4096 bs), p\<lparr>proxy_qmi_buf := ?b\<rparr>)" by (simp add: proxy_read_def Let_def)
  have q: "queues [] p (p\<lparr>proxy_qmi_buf := ?b\<rparr>)" by (rule queues_cong [OF queues_refl]) (use l lb in simp_all)
  then have "proxy_ok (p\<lparr>proxy_qmi_buf := ?b\<rparr>)" using assms by (simp add: queues_def)
  then show thesis using that [OF r] q lb by (simp add: min_def)
qed

lemma read_carries:
  assumes "take n b = m" and "length b = 4096" and "length m = n" and "rd16 b 1 = Some l" and "n = unat l + 1"
  shows "carries b m"
  using assms by (auto simp: carries_def rdn_def)

lemma recv_client_queues:
  assumes "writable os" and "proxy_ok p" and "length b = 4096" and "carries b m" and "12 \<le> length m"
  shows "\<exists>r p'. recv_qmi_from_client os b (length m) fd p = Some (r, p') \<and>
     queues (if m ! 4 = QMUX_TYPE_CTL \<and> rd16 m 8 \<noteq> Some QMICTL_SYNC_REQ then [m] else []) p p'"
proof -
  have fd: "qmi_proxy_server_fd p \<noteq> - 1" using assms(2) by (simp add: proxy_ok_def)
  have n: "rd8 b i = Some (m ! i)" if "i < 12" for i using carries_nth [OF assms(4)] that assms(5) by simp
  have r8: "rd16 b 8 = rd16 m 8" and "rd16 b 1 = rd16 m 1" using n assms(5) by (simp_all add: rd16_def rd8_def)
  moreover obtain t where t: "rd16 m 8 = Some t" using assms(5) by (simp add: rd16_def rd8_def)
  moreover have "length m \<le> 4096" using assms(3,4) by (auto simp: carries_def rdn_def split: if_splits)
  ultimately have sz: "qmi_sized m" using assms(4,5) by (auto simp: qmi_sized_def carries_def)
  let ?x = "\<lparr>msg_ClientFd = fd, msg_qmi = m\<rparr>"
  consider "m ! 4 = QMUX_TYPE_CTL \<and> t = QMICTL_SYNC_REQ" | "m ! 4 = QMUX_TYPE_CTL \<and> t \<noteq> QMICTL_SYNC_REQ"
    | "m ! 4 \<noteq> QMUX_TYPE_CTL" by blast
  then show ?thesis
  proof cases
    case 1
    then show ?thesis using fd n r8 t queues_refl by (simp add: recv_qmi_from_client_def)
  next
    case 2
    have "rdn b 0 (length m) = Some m" using assms(4) by (simp add: carries_def)
    then show ?thesis
      using 2 fd n r8 t queue_ctl [OF assms(1), of b ?x p] queues_queue_ctl [of ?x p] sz assms(1,4)
      by (simp add: recv_qmi_from_client_def writable_def)
  next
    case 3
    obtain r where "send_qmi_to_cdc_wdm os b p = Some (r, p\<lparr>dev_log := dev_log p @ [Some m]\<rparr>)"
      using send_dev [OF assms(1,4)] by blast
    moreover have "queues [] p (p\<lparr>dev_log := dev_log p @ [Some m]\<rparr>)"
      using 3 by (auto simp: queues_def proxy_ok_def ctl_written_def ctl_waiting_def)
    ultimately show ?thesis using 3 fd n by (simp add: recv_qmi_from_client_def)
  qed
qed

lemma dev_read_step:
  assumes "writable os" and "proxy_ok p"
  shows "\<exists>k p'. proxy_event_step os (DevRead bs) p = Some (k, p') \<and> queues [] p p'"
proof -
  let ?m = "take 4096 bs"
  obtain q where q: "proxy_read bs p = Some (length ?m, q)" "take (length ?m) (proxy_qmi_buf q) = ?m"
    "length (proxy_qmi_buf q) = 4096" "proxy_ok q" "queues [] p q"
    using proxy_read_step [OF assms(2)] by metis
  obtain l where l: "rd16 (proxy_qmi_buf q) 1 = Some l" using rd_in_buffer [OF q(3), of 1] by auto
  show ?thesis
  proof (cases "?m = [] \<or> length ?m \<noteq> unat l + 1")
    case True
    then show ?thesis using q(1,5) l  by auto
  next
    case False
    then obtain p' where "recv_qmi_from_dev os (proxy_qmi_buf q) q = Some p'" "queues [] q p'"
      using recv_dev_queues [OF assms(1) read_carries [OF q(2,3) refl l] q(3,4)] by auto
    then show ?thesis using False q(1) l queues_trans [OF q(5)] by auto
  qed
qed

lemma client_read_step:
  assumes "writable os" and "proxy_ok p" and "orderly (ClientRead fd bs) p"
  shows "\<exists>k p'. proxy_event_step os (ClientRead fd bs) p = Some (k, p') \<and> queues (submits (ClientRead fd bs) p) p p'"
proof -
  let ?m = "take 4096 bs"
  obtain q where q: "proxy_read bs p = Some (length ?m, q)" "q = p\<lparr>proxy_qmi_buf := proxy_qmi_buf q\<rparr>"
    "take (length ?m) (proxy_qmi_buf q) = ?m" "length (proxy_qmi_buf q) = 4096" "proxy_ok q" "queues [] p q"
    using proxy_read_step [OF assms(2)] by metis
  obtain l where l: "rd16 (proxy_qmi_buf q) 1 = Some l" using rd_in_buffer [OF q(4), of 1] by auto
  consider "bs = []" | "bs \<noteq> []" "length ?m \<noteq> unat l + 1" | "bs \<noteq> []" "length ?m = unat l + 1" by blast
  then show ?thesis
  proof cases
    case 1
    have "qmi_proxy_connection q = qmi_proxy_connection p" "qmi_proxy_server_fd q = qmi_proxy_server_fd p"
      "qmi_proxy_ctl_msg q = qmi_proxy_ctl_msg p" using arg_cong [OF q(2), of qmi_proxy_connection]
        arg_cong [OF q(2), of qmi_proxy_server_fd] arg_cong [OF q(2), of qmi_proxy_ctl_msg] by simp_all
    then show ?thesis
      using 1 q(1) cleanup_queues [OF assms(1), of fd q] assms(3) queues_trans [OF q(6)]
      by (fastforce simp: submits_def orderly_def con_releases_def)
  next
    case 2
    have len: "12 \<le> length bs" using 2 assms(3) by (simp add: orderly_def)
    have "proxy_qmi_buf q ! i = ?m ! i" if "i < length ?m" for i using q(3) that by (metis nth_take)
    then have "rd16 ?m 1 = Some l" using l len q(4) by (simp add: rd16_def rd8_def)
    then have "\<not> qmi_sized ?m" using 2 by (auto simp: qmi_sized_def)
    moreover obtain n where n: "n = length ?m" "n \<noteq> 0" using 2(1) by auto
    then have "proxy_event_step os (ClientRead fd bs) p = Some (Continue, q)" using q(1) l 2(2) unfolding n(1) [symmetric] by simp
    ultimately show ?thesis using 2 q(6) by (auto simp: submits_def)
  next
    case 3
    have len: "12 \<le> length ?m" using 3 assms(3) by (simp add: orderly_def)
    have c: "carries (proxy_qmi_buf q) ?m" by (rule read_carries [OF q(3,4) refl l 3(2)])
    obtain r p' where r: "recv_qmi_from_client os (proxy_qmi_buf q) (length ?m) fd q = Some (r, p')"
      "queues (if ?m ! 4 = QMUX_TYPE_CTL \<and> rd16 ?m 8 \<noteq> Some QMICTL_SYNC_REQ then [?m] else []) q p'"
      using recv_client_queues [OF assms(1) q(5,4) c len] by blast
    have "rd16 ?m 8 = rd16 bs 8" "?m ! 4 = bs ! 4" using len by (simp_all add: rd16_def rd8_def)
    moreover have "rd16 ?m 1 = Some l" using l c len carries_nth [OF c] by (simp add: rd16_def rd8_def)
    then have "qmi_sized ?m" using len 3 by (auto simp: qmi_sized_def min_def split: if_splits)
    ultimately have "submits (ClientRead fd bs) p = (if ?m ! 4 = QMUX_TYPE_CTL \<and> rd16 ?m 8 \<noteq> Some QMICTL_SYNC_REQ then [?m] else [])"
      using 3 by (simp add: submits_def)
    then show ?thesis using 3 q(1) l r queues_trans [OF q(6) r(2)] by auto
  qed
qed

lemma orderly_step:
  assumes "writable os" and "proxy_ok p" and "orderly e p"
  shows "\<exists>k p'. proxy_event_step os e p = Some (k, p') \<and> queues (submits e p) p p'"
proof (cases e)
  case DevError
  then show ?thesis by (simp add: submits_def queues_refl)
next
  case (DevRead bs)
  then show ?thesis using dev_read_step [OF assms(1,2)] by (simp add: submits_def)
next
  case (NewClient fd)
  then show ?thesis using queues_cong [OF queues_refl, of "accept_qmi_connection os fd p" p]
    by (simp add: submits_def accept_qmi_connection_def)
next
  case (ClientHup fd)
  then show ?thesis using cleanup_queues [OF assms(1), of fd p] assms(3) by (auto simp: submits_def orderly_def)
next
  case (ClientRead fd bs)
  then show ?thesis using client_read_step assms by simp
qed

lemma proxy_start_ok: "server_fd \<noteq> - 1 \<Longrightarrow> proxy_ok (proxy_start server_fd)"
  by (simp add: proxy_ok_def proxy_start_def)

lemma run_ok:
  assumes "proxy_run orderly os server_fd sub p" and "writable os" and "server_fd \<noteq> - 1"
  shows "proxy_ok p \<and> ctl_written p @ ctl_waiting p = sub"
  using assms(1)
proof induction
  case run_start
  then show ?case using proxy_start_ok [OF assms(3)] by (simp add: ctl_written_def ctl_waiting_def proxy_start_def)
next
  case (run_event sub p e k p')
  then show ?case using orderly_step [OF assms(2), of p e] by (auto simp: queues_def)
qed

lemma run_mono: "proxy_run A os server_fd sub p \<Longrightarrow> (\<And>e p. A e p \<Longrightarrow> B e p) \<Longrightarrow> proxy_run B os server_fd sub p"
  by (induction rule: proxy_run.induct) (auto intro: proxy_run.intros)


subsection \<open>Sample runs\<close>

definition sample_os :: proxy_os where
  "sample_os = \<lparr>malloc_ok = True, dev_poll = (\<lambda>_. (1, True)), dev_write = (\<lambda>_. 17), client_pollout = (\<lambda>_. True)\<rparr>"

definition get_client_req :: "byte \<Rightarrow> byte \<Rightarrow> buf" where
  "get_client_req tid ty = [1, 15, 0, 0, 0, 0, 0, tid, 0x22, 0, 4, 0, 1, 1, 0, ty]"

definition get_client_rsp :: "byte \<Rightarrow> byte \<Rightarrow> byte \<Rightarrow> buf" where
  "get_client_rsp tid ty cid = [1, 23, 0, 0x80, 0, 0, 1, tid, 0x22, 0, 12, 0, 2, 4, 0, 0, 0, 0, 0, 1, 2, 0, ty, cid]"

lemma sample_os_writable: "writable sample_os"
  by (simp add: writable_def sample_os_def)

lemma sample_submits:
  assumes "proxy_run A os server_fd sub p" and "writable os" and "proxy_ok p"
    and "A (ClientRead fd (get_client_req tid ty)) p"
  shows "\<exists>p'. proxy_run A os server_fd (sub @ [get_client_req tid ty]) p' \<and> proxy_ok p'"
proof -
  let ?e = "ClientRead fd (get_client_req tid ty)"
  have "submits ?e p = [get_client_req tid ty]" "orderly ?e p"
    by (simp_all add: submits_def orderly_def get_client_req_def qmi_sized_def rd16_def rd8_def le16_def)
  then show ?thesis using orderly_step [OF assms(2,3), of ?e] run_event [OF assms(1,4)] assms(3)
    by (fastforce simp: queues_def)
qed


end
