(* ===== verification/Proxy_Clients.thy ===== *)
theory Proxy_Clients
  imports Proxy_Dispatch
begin

text \<open>
  Connections and client ids of the proxy: which connection owns which client id, where responses and
  service messages go, what happens when a client leaves or the proxy ends, and the events it
  does not handle as intended.
\<close>

subsection \<open>What no operation changes\<close>

definition steady :: "qmi_proxy \<Rightarrow> int \<times> bool \<times> nat" where
  "steady p = (qmi_proxy_server_fd p, modem_reset_flag p, length (proxy_qmi_buf p))"

lemma send_dev_frame: "send_qmi_to_cdc_wdm os b p = Some (r, q) \<Longrightarrow> \<exists>l. q = p\<lparr>dev_log := l\<rparr>"
  by (auto simp: send_qmi_to_cdc_wdm_def Let_def case_prod_unfold bind_eq_Some_conv split: if_splits)

lemma send_client_frame: "send_qmi_to_client os b fd p = Some q \<Longrightarrow> \<exists>l. q = p\<lparr>client_log := l\<rparr>"
  by (auto simp: send_qmi_to_client_def bind_eq_Some_conv split: if_splits)

lemma queue_ctl_frame: "queue_ctl_msg os b x p = Some q \<Longrightarrow> \<exists>l m. q = p\<lparr>dev_log := l, qmi_proxy_ctl_msg := m\<rparr>"
proof (cases "qmi_proxy_ctl_msg p = []")
  case True
  assume "queue_ctl_msg os b x p = Some q"
  with True show ?thesis by (auto simp: queue_ctl_msg_def bind_eq_Some_conv dest!: send_dev_frame)
next
  case False
  assume "queue_ctl_msg os b x p = Some q"
  with False show ?thesis
    by (intro exI [of _ "dev_log p"] exI [of _ "qmi_proxy_ctl_msg p @ [x]"]) (simp add: queue_ctl_msg_def)
qed

lemma release_clients_frame:
  "release_clients os d cs p = Some q \<Longrightarrow> \<exists>l m. q = p\<lparr>dev_log := l, qmi_proxy_ctl_msg := m\<rparr>"
proof (induction cs arbitrary: p)
  case Nil
  then show ?case by (intro exI [of _ "dev_log p"] exI [of _ "qmi_proxy_ctl_msg p"]) simp
next
  case (Cons c cs)
  show ?case
  proof (cases d)
    case True
    then obtain p' where p': "queue_ctl_msg os (proxy_release_req c)
        \<lparr>msg_ClientFd = qmi_proxy_server_fd p, msg_qmi = proxy_release_req c\<rparr> p = Some p'"
      "release_clients os d cs p' = Some q"
      using Cons.prems by (auto simp: bind_eq_Some_conv split: if_splits)
    obtain l m where "q = p'\<lparr>dev_log := l, qmi_proxy_ctl_msg := m\<rparr>" using Cons.IH [OF p'(2)] by blast
    then show ?thesis using queue_ctl_frame [OF p'(1)] by (intro exI [of _ l] exI [of _ m]) auto
  qed (use Cons in simp)
qed

lemma ctl_response_frame: "ctl_response_to os b fd cs p = Some (cs', q) \<Longrightarrow> \<exists>l. q = p\<lparr>client_log := l\<rparr>"
proof (induction cs arbitrary: cs' p)
  case Nil
  then show ?case by (intro exI [of _ "client_log p"]) simp
next
  case (Cons c cs)
  show ?case
  proof (cases "con_ClientFd c = fd")
    case True
    then obtain p' cs'' where "send_qmi_to_client os b fd p = Some p'" "ctl_response_to os b fd cs p' = Some (cs'', q)"
      using Cons.prems by (auto simp: bind_eq_Some_conv)
    then show ?thesis using send_client_frame [of os b fd p p'] Cons.IH [of p' cs''] by auto
  next
    case False
    then show ?thesis using Cons by (auto simp: bind_eq_Some_conv)
  qed
qed

lemma send_to_clients_frame: "send_to_clients os b fds p = Some q \<Longrightarrow> \<exists>l. q = p\<lparr>client_log := l\<rparr>"
proof (induction fds arbitrary: p)
  case Nil
  then show ?case by (intro exI [of _ "client_log p"]) simp
next
  case (Cons fd fds)
  then obtain p' where "send_qmi_to_client os b fd p = Some p'" "send_to_clients os b fds p' = Some q"
    by (auto simp: bind_eq_Some_conv)
  then show ?case using send_client_frame [of os b fd p p'] Cons.IH [of p'] by auto
qed

subsection \<open>Connections after an event\<close>

text \<open>The change a control response makes to the connection it is for.\<close>

definition ctl_update :: "proxy_os \<Rightarrow> buf \<Rightarrow> qmi_proxy_con \<Rightarrow> qmi_proxy_con access" where
  "ctl_update os b c = do {
     ty \<leftarrow> rd16 b 8;
     if ty = QMICTL_GET_CLIENT_ID_REQ then get_client_id os b c
     else if ty = QMICTL_RELEASE_CLIENT_ID_REQ then release_client_id b c else Some c }"

definition responded :: "proxy_os \<Rightarrow> buf \<Rightarrow> int \<Rightarrow> qmi_proxy_con \<Rightarrow> qmi_proxy_con \<Rightarrow> bool" where
  "responded os b fd c c' \<longleftrightarrow> (if con_ClientFd c = fd then ctl_update os b c = Some c' else c' = c)"

lemma ctl_response_connections:
  "ctl_response_to os b fd cs p = Some (cs', q) \<Longrightarrow>
     list_all2 (responded os b fd) cs cs'"
proof (induction cs arbitrary: cs' p)
  case (Cons c cs)
  show ?case
  proof (cases "con_ClientFd c = fd")
    case True
    then obtain p' c' cs'' where "ctl_update os b c = Some c'" "ctl_response_to os b fd cs p' = Some (cs'', q)" "cs' = c' # cs''"
      using Cons.prems by (auto simp: bind_eq_Some_conv ctl_update_def)
    then show ?thesis using Cons.IH True by (auto simp: responded_def)
  next
    case False
    then show ?thesis using Cons by (auto simp: bind_eq_Some_conv responded_def [of _ _ _ c])
  qed
qed simp

text \<open>A response to a request for a client id that reports success.\<close>

definition grants :: "buf \<Rightarrow> bool" where
  "grants b \<longleftrightarrow> rd16 b 8 = Some QMICTL_GET_CLIENT_ID_REQ \<and> rd16 b 15 = Some 0 \<and> rd16 b 17 = Some 0"

lemma ctl_update_cases:
  assumes "ctl_update os b c = Some c'"
  shows "con_ClientFd c' = con_ClientFd c \<and>
    (con_clients c' = con_clients c \<or> con_clients c' = remove_first (\<lambda>y. y = (b ! 22, b ! 23)) (con_clients c)
     \<or> grants b \<and> con_clients c' = con_clients c @ [(b ! 22, b ! 23)])"
  using assms
  by (auto simp: ctl_update_def get_client_id_def release_client_id_def grants_def bind_eq_Some_conv rd8_Some_iff split: if_splits)

definition proxy_clients :: "qmi_proxy_con list \<Rightarrow> qmi_proxy_client list" where
  "proxy_clients cs = concat (map con_clients cs)"

lemma proxy_clients_Cons: "proxy_clients (c # cs) = con_clients c @ proxy_clients cs"
  by (simp add: proxy_clients_def)

definition owners_ok :: "qmi_proxy_con list \<Rightarrow> bool" where
  "owners_ok cs \<longleftrightarrow> distinct (map con_ClientFd cs) \<and> distinct (proxy_clients cs)"

lemma set_remove_first: "set (remove_first P xs) \<subseteq> set xs"
  by (induction xs) auto

lemma distinct_remove_first: "distinct (map f xs) \<Longrightarrow> distinct (map f (remove_first P xs))"
  using set_remove_first by (induction xs) fastforce+

lemma owners_remove:
  assumes "owners_ok cs" shows "owners_ok (remove_first P cs)"
proof -
  have "distinct (proxy_clients (remove_first P cs))"
    using assms unfolding owners_ok_def proxy_clients_def
  proof (induction cs)
    case (Cons c cs)
    have "set (concat (map con_clients (remove_first P cs))) \<subseteq> set (concat (map con_clients cs))"
      using set_remove_first [of P cs] by auto
    then show ?case using Cons by (auto 4 3)
  qed simp
  then show ?thesis using assms distinct_remove_first [of con_ClientFd cs P] by (simp add: owners_ok_def)
qed

lemma owners_unchanged:
  assumes "list_all2 (responded os b fd) cs cs'" and "fd \<notin> con_ClientFd ` set cs"
  shows "cs' = cs"
  using assms by (induction rule: list_all2_induct) (auto simp: responded_def)

lemma owners_update:
  assumes "list_all2 (responded os b fd) cs cs'" and "owners_ok cs"
    and "grants b \<Longrightarrow> (b ! 22, b ! 23) \<notin> set (proxy_clients cs)"
  shows "owners_ok cs' \<and> map con_ClientFd cs' = map con_ClientFd cs
     \<and> set (proxy_clients cs') \<subseteq> set (proxy_clients cs) \<union> (if grants b then {(b ! 22, b ! 23)} else {})"
  using assms
proof (induction rule: list_all2_induct)
  case (Cons c cs c' cs')
  have o: "owners_ok cs" using Cons.prems by (simp add: owners_ok_def proxy_clients_def)
  show ?case
  proof (cases "con_ClientFd c = fd")
    case True
    have e: "cs' = cs" by (rule owners_unchanged [OF Cons.hyps(2)]) (use Cons.prems(1) True in \<open>auto simp: owners_ok_def\<close>)
    have u: "ctl_update os b c = Some c'" using Cons.hyps(1) True by (simp add: responded_def)
    have d: "distinct (con_clients c)" "distinct (proxy_clients cs)" "set (con_clients c) \<inter> set (proxy_clients cs) = {}"
      using Cons.prems(1) by (auto simp: owners_ok_def proxy_clients_def)
    have "con_ClientFd c' = con_ClientFd c" using ctl_update_cases [OF u] by simp
    moreover have "distinct (con_clients c') \<and> set (con_clients c') \<inter> set (proxy_clients cs) = {} \<and> set (con_clients c') \<subseteq>
        set (con_clients c) \<union> (if grants b then {(b ! 22, b ! 23)} else {})"
      using ctl_update_cases [OF u] d Cons.prems(2) set_remove_first [of "\<lambda>y. y = (b ! 22, b ! 23)" "con_clients c"]
        distinct_remove_first [of id "con_clients c" "\<lambda>y. y = (b ! 22, b ! 23)"]
      by (elim conjE disjE) (simp_all add: proxy_clients_def, blast+)
    ultimately show ?thesis using Cons.prems(1) d by (auto simp: owners_ok_def e proxy_clients_Cons split: if_splits)
  next
    case False
    then show ?thesis using Cons o by (auto simp: owners_ok_def proxy_clients_Cons responded_def [of _ _ _ c] split: if_splits)
  qed
qed (simp add: owners_ok_def proxy_clients_def)

subsection \<open>Invariants of a run\<close>

text \<open>The buffer after a read.\<close>

definition buf_after :: "buf \<Rightarrow> qmi_proxy \<Rightarrow> buf" where
  "buf_after bs p = take 4096 bs @ drop (length (take 4096 bs)) (proxy_qmi_buf p)"

lemma proxy_read_frame:
  "proxy_read bs p = Some (n, q) \<Longrightarrow> n = length (take 4096 bs) \<and> q = p\<lparr>proxy_qmi_buf := buf_after bs p\<rparr>
     \<and> length (buf_after bs p) = length (proxy_qmi_buf p)"
  by (auto simp: proxy_read_def Let_def wr_def buf_after_def split: if_splits)

text \<open>A successful response does not hand out a client id that is in use, and the system does not reuse an open
  descriptor. The bytes are those of the buffer the code looks at, in which a short message leaves older ones.\<close>

definition fresh_ids :: "proxy_event \<Rightarrow> qmi_proxy \<Rightarrow> bool" where
  "fresh_ids e p = (case e of
       NewClient fd \<Rightarrow> fd \<notin> con_ClientFd ` set (qmi_proxy_connection p)
     | DevRead bs \<Rightarrow> grants (buf_after bs p) \<longrightarrow>
         (buf_after bs p ! 22, buf_after bs p ! 23) \<notin> set (proxy_clients (qmi_proxy_connection p))
     | _ \<Rightarrow> True)"

definition sound_events :: "proxy_event \<Rightarrow> qmi_proxy \<Rightarrow> bool" where
  "sound_events e p \<longleftrightarrow> orderly e p \<and> fresh_ids e p"

text \<open>What an event may do: keep the steady part, and keep the owners when the event has fresh ids.\<close>

definition kept :: "bool \<Rightarrow> qmi_proxy \<Rightarrow> qmi_proxy \<Rightarrow> bool" where
  "kept fresh p q \<longleftrightarrow> steady q = steady p \<and>
     (fresh \<and> owners_ok (qmi_proxy_connection p) \<longrightarrow> owners_ok (qmi_proxy_connection q))"

lemma kept_refl: "kept f p p"
  by (simp add: kept_def)

lemma kept_trans: "kept f p q \<Longrightarrow> kept f q r \<Longrightarrow> kept f p r"
  by (simp add: kept_def)

lemma kept_same:
  "steady q = steady p \<Longrightarrow> qmi_proxy_connection q = qmi_proxy_connection p \<Longrightarrow> kept f p q"
  by (simp add: kept_def)

lemma cleanup_kept:
  assumes "cleanup_qmi_connection os fd d p = Some q" shows "kept f p q"
proof (cases "find (\<lambda>c. con_ClientFd c = fd) (qmi_proxy_connection p)")
  case None
  then show ?thesis using assms by (simp add: cleanup_qmi_connection_def kept_refl)
next
  case (Some c)
  then obtain r where r: "release_clients os d (con_clients c) p = Some r" and q: "q = r\<lparr>
      qmi_proxy_ctl_msg := remove_first (\<lambda>m. msg_ClientFd m = fd) (qmi_proxy_ctl_msg r), closed_fds := closed_fds r @ [fd],
      qmi_proxy_connection := remove_first (\<lambda>c. con_ClientFd c = fd) (qmi_proxy_connection r)\<rparr>"
    using assms by (auto simp: cleanup_qmi_connection_def bind_eq_Some_conv)
  show ?thesis using release_clients_frame [OF r] q owners_remove by (auto simp: kept_def steady_def)
qed

lemma recv_ctl_rsp_kept:
  assumes "recv_ctl_rsp os b p = Some q"
    and "f \<Longrightarrow> grants b \<Longrightarrow> (b ! 22, b ! 23) \<notin> set (proxy_clients (qmi_proxy_connection p))"
  shows "kept f p q"
proof (cases "qmi_proxy_ctl_msg p")
  case Nil
  then show ?thesis using assms(1) by (simp add: recv_ctl_rsp_def kept_refl)
next
  case (Cons x rest)
  let ?tail = "\<lambda>r. (case rest of [] \<Rightarrow> Some (r\<lparr>qmi_proxy_ctl_msg := rest\<rparr>)
     | m # _ \<Rightarrow> do { (ret, r) \<leftarrow> send_qmi_to_cdc_wdm os (msg_qmi m) (r\<lparr>qmi_proxy_ctl_msg := rest\<rparr>); Some r })"
  have tail: "kept f r q" if "?tail r = Some q" for r
    using that by (cases rest) (auto simp: bind_eq_Some_conv steady_def dest!: send_dev_frame intro!: kept_same)
  obtain r where r: "?tail r = Some q" "r = p \<or> (\<exists>cs s. ctl_response_to os b (msg_ClientFd x) (qmi_proxy_connection p) p = Some (cs, s)
      \<and> r = s\<lparr>qmi_proxy_connection := cs\<rparr>)"
    using assms(1) Cons by (auto simp: recv_ctl_rsp_def bind_eq_Some_conv Let_def split: if_splits)
  from r(2) have "kept f p r"
  proof
    assume "\<exists>cs s. ctl_response_to os b (msg_ClientFd x) (qmi_proxy_connection p) p = Some (cs, s) \<and> r = s\<lparr>qmi_proxy_connection := cs\<rparr>"
    then obtain cs s where c: "ctl_response_to os b (msg_ClientFd x) (qmi_proxy_connection p) p = Some (cs, s)"
      "r = s\<lparr>qmi_proxy_connection := cs\<rparr>" by blast
    then show ?thesis
      using ctl_response_frame [OF c(1)] owners_update [OF ctl_response_connections [OF c(1)]] assms(2)
      by (auto simp: kept_def steady_def)
  qed (simp add: kept_refl)
  then show ?thesis using kept_trans tail [OF r(1)] by blast
qed

lemma recv_dev_kept:
  assumes "recv_qmi_from_dev os b p = Some q"
    and "f \<Longrightarrow> grants b \<Longrightarrow> (b ! 22, b ! 23) \<notin> set (proxy_clients (qmi_proxy_connection p))"
  shows "kept f p q"
proof (cases "recv_ctl_rsp os b p = Some q")
  case True
  then show ?thesis using recv_ctl_rsp_kept assms(2) by blast
next
  case False
  then show ?thesis using assms(1)
    by (auto simp: recv_qmi_from_dev_def bind_eq_Some_conv steady_def split: if_splits
        dest!: send_to_clients_frame intro!: kept_same)
qed

lemma recv_client_kept:
  assumes "recv_qmi_from_client os b n fd p = Some (r, q)" shows "kept f p q"
  using assms
  by (auto simp: recv_qmi_from_client_def bind_eq_Some_conv kept_refl steady_def split: if_splits
      dest!: queue_ctl_frame send_dev_frame intro!: kept_same)

lemma event_kept:
  assumes "proxy_event_step os e p = Some (k, q)" shows "kept (fresh_ids e p) p q"
proof (cases e)
  case DevError
  then show ?thesis using assms by (simp add: kept_refl)
next
  case (DevRead bs)
  then obtain n r where r: "proxy_read bs p = Some (n, r)"
    "r = q \<or> recv_qmi_from_dev os (proxy_qmi_buf r) r = Some q"
    using assms by (auto simp: bind_eq_Some_conv split: if_splits)
  have f: "r = p\<lparr>proxy_qmi_buf := buf_after bs p\<rparr>" "length (buf_after bs p) = length (proxy_qmi_buf p)"
    using proxy_read_frame [OF r(1)] by auto
  then have "kept (fresh_ids e p) p r" by (intro kept_same) (simp_all add: steady_def)
  moreover have "kept (fresh_ids e p) r q"
    using r(2) f recv_dev_kept [of os "proxy_qmi_buf r" r q "fresh_ids e p"] DevRead by (auto simp: fresh_ids_def kept_refl)
  ultimately show ?thesis by (rule kept_trans)
next
  case (NewClient fd)
  then have "q = accept_qmi_connection os fd p" using assms by simp
  then show ?thesis using NewClient
    by (auto simp: accept_qmi_connection_def kept_def steady_def owners_ok_def proxy_clients_def fresh_ids_def)
next
  case (ClientHup fd)
  then show ?thesis using assms cleanup_kept by (auto simp: bind_eq_Some_conv)
next
  case (ClientRead fd bs)
  then obtain n r where r: "proxy_read bs p = Some (n, r)"
    "r = q \<or> cleanup_qmi_connection os fd True r = Some q \<or> (\<exists>x. recv_qmi_from_client os (proxy_qmi_buf r) n fd r = Some (x, q))"
    using assms by (auto simp: bind_eq_Some_conv split: if_splits)
  have "kept (fresh_ids e p) p r"
    using proxy_read_frame [OF r(1)] by (intro kept_same) (simp_all add: steady_def)
  moreover have "kept (fresh_ids e p) r q" using r(2) cleanup_kept recv_client_kept kept_refl by metis
  ultimately show ?thesis by (rule kept_trans)
qed

lemma run_steady: "proxy_run A os server_fd sub p \<Longrightarrow> steady p = (server_fd, False, 4096)"
proof (induction rule: proxy_run.induct)
  case run_start
  then show ?case by (simp add: steady_def proxy_start_def)
next
  case (run_event sub p e k p')
  then show ?case using event_kept [OF run_event.hyps(3)] by (simp add: kept_def)
qed

lemma run_owners: "proxy_run fresh_ids os server_fd sub p \<Longrightarrow> owners_ok (qmi_proxy_connection p)"
proof (induction rule: proxy_run.induct)
  case run_start
  then show ?case by (simp add: owners_ok_def proxy_clients_def proxy_start_def)
next
  case (run_event sub p e k p')
  then show ?case using event_kept [OF run_event.hyps(3)] by (simp add: kept_def)
qed

text \<open>
  A history lists the events of a run with the states they met. An id that a connection holds comes from a successful
  response to a request for a client id of that connection, which was the outstanding one.
\<close>

inductive proxy_history ::
  "(proxy_event \<Rightarrow> qmi_proxy \<Rightarrow> bool) \<Rightarrow> proxy_os \<Rightarrow> int \<Rightarrow> (proxy_event \<times> qmi_proxy) list \<Rightarrow> qmi_proxy \<Rightarrow> bool"
  for A :: "proxy_event \<Rightarrow> qmi_proxy \<Rightarrow> bool" and os :: proxy_os and server_fd :: int where
  history_start: "proxy_history A os server_fd [] (proxy_start server_fd)"
| history_event: "proxy_history A os server_fd h p \<Longrightarrow> A e p \<Longrightarrow> proxy_event_step os e p = Some (k, p')
     \<Longrightarrow> proxy_history A os server_fd (h @ [(e, p)]) p'"

lemma history_run: "proxy_history A os server_fd h p \<Longrightarrow> \<exists>sub. proxy_run A os server_fd sub p"
  by (induction rule: proxy_history.induct) (blast intro: run_start run_event)+

lemma run_history: "proxy_run A os server_fd sub p \<Longrightarrow> \<exists>h. proxy_history A os server_fd h p"
  by (induction rule: proxy_run.induct) (blast intro: history_start history_event)+

definition granted_by :: "proxy_event \<Rightarrow> qmi_proxy \<Rightarrow> int \<Rightarrow> qmi_proxy_client \<Rightarrow> bool" where
  "granted_by e p fd x \<longleftrightarrow> (\<exists>bs m rest. e = DevRead bs \<and> qmi_proxy_ctl_msg p = m # rest \<and> msg_ClientFd m = fd \<and>
     rd8 (buf_after bs p) 7 = rd8 (msg_qmi m) 7 \<and> rd16 (msg_qmi m) 8 = Some QMICTL_GET_CLIENT_ID_REQ \<and>
     rd16 (buf_after bs p) 8 = Some QMICTL_GET_CLIENT_ID_REQ \<and> rd16 (buf_after bs p) 15 = Some 0 \<and>
     rd16 (buf_after bs p) 17 = Some 0 \<and> x = (buf_after bs p ! 22, buf_after bs p ! 23))"

text \<open>The ids the connections hold afterwards: ones they held before or new ones as \<open>g\<close> allows.\<close>

definition gained :: "(int \<Rightarrow> qmi_proxy_client \<Rightarrow> bool) \<Rightarrow> qmi_proxy_con list \<Rightarrow> qmi_proxy_con list \<Rightarrow> bool" where
  "gained g cs cs' \<longleftrightarrow> (\<forall>c' \<in> set cs'. \<forall>x \<in> set (con_clients c').
     (\<exists>c \<in> set cs. con_ClientFd c = con_ClientFd c' \<and> x \<in> set (con_clients c)) \<or> g (con_ClientFd c') x)"

lemma gained_refl: "gained g cs cs"
  by (auto simp: gained_def)

lemma gained_subset: "set cs' \<subseteq> set cs \<Longrightarrow> gained g cs cs'"
  by (auto simp: gained_def)

lemma cleanup_gained:
  assumes "cleanup_qmi_connection os fd d p = Some q"
  shows "gained g (qmi_proxy_connection p) (qmi_proxy_connection q)"
proof (cases "find (\<lambda>c. con_ClientFd c = fd) (qmi_proxy_connection p)")
  case None
  then show ?thesis using assms by (simp add: cleanup_qmi_connection_def gained_refl)
next
  case (Some c)
  then obtain r where r: "release_clients os d (con_clients c) p = Some r"
      and q: "qmi_proxy_connection q = remove_first (\<lambda>c. con_ClientFd c = fd) (qmi_proxy_connection r)"
    using assms by (auto simp: cleanup_qmi_connection_def bind_eq_Some_conv)
  have "qmi_proxy_connection r = qmi_proxy_connection p" using release_clients_frame [OF r] by auto
  then show ?thesis using q set_remove_first by (intro gained_subset) simp
qed

lemma responded_gained:
  assumes "list_all2 (responded os b fd) cs cs'"
  shows "gained (\<lambda>fd' x. fd' = fd \<and> grants b \<and> x = (b ! 22, b ! 23)) cs cs'"
  unfolding gained_def
proof (intro ballI)
  fix c' x assume c': "c' \<in> set cs'" and x: "x \<in> set (con_clients c')"
  then obtain c where c: "c \<in> set cs" "responded os b fd c c'"
    using assms by (metis in_set_conv_nth list_all2_conv_all_nth)
  then show "(\<exists>c \<in> set cs. con_ClientFd c = con_ClientFd c' \<and> x \<in> set (con_clients c)) \<or>
      con_ClientFd c' = fd \<and> grants b \<and> x = (b ! 22, b ! 23)"
    using x ctl_update_cases [of os b c c'] set_remove_first [of "\<lambda>y. y = (b ! 22, b ! 23)" "con_clients c"]
    by (auto simp: responded_def split: if_splits)
qed

lemma recv_ctl_rsp_gained:
  assumes "recv_ctl_rsp os b p = Some q"
  shows "gained (\<lambda>fd x. \<exists>m rest. qmi_proxy_ctl_msg p = m # rest \<and> msg_ClientFd m = fd \<and> rd8 b 7 = rd8 (msg_qmi m) 7 \<and>
     rd16 (msg_qmi m) 8 = rd16 b 8 \<and> grants b \<and> x = (b ! 22, b ! 23)) (qmi_proxy_connection p) (qmi_proxy_connection q)"
proof (cases "qmi_proxy_ctl_msg p")
  case Nil
  then show ?thesis using assms by (simp add: recv_ctl_rsp_def gained_refl)
next
  case (Cons m rest)
  let ?tail = "\<lambda>r. (case rest of [] \<Rightarrow> Some (r\<lparr>qmi_proxy_ctl_msg := rest\<rparr>)
     | m # _ \<Rightarrow> do { (ret, r) \<leftarrow> send_qmi_to_cdc_wdm os (msg_qmi m) (r\<lparr>qmi_proxy_ctl_msg := rest\<rparr>); Some r })"
  have tail: "qmi_proxy_connection q = qmi_proxy_connection r" if "?tail r = Some q" for r
    using that by (cases rest) (auto simp: bind_eq_Some_conv dest!: send_dev_frame)
  obtain r where r: "?tail r = Some q" "r = p \<or> (rd8 b 7 = rd8 (msg_qmi m) 7 \<and> rd16 (msg_qmi m) 8 = rd16 b 8 \<and>
      (\<exists>cs s. ctl_response_to os b (msg_ClientFd m) (qmi_proxy_connection p) p = Some (cs, s) \<and> r = s\<lparr>qmi_proxy_connection := cs\<rparr>))"
    using assms Cons by (auto simp: recv_ctl_rsp_def bind_eq_Some_conv Let_def split: if_splits)
  from r(2) show ?thesis
    unfolding tail [OF r(1)]
    using responded_gained [OF ctl_response_connections [of os b "msg_ClientFd m" "qmi_proxy_connection p" p]] Cons
    by (auto simp: gained_refl) (fastforce simp: gained_def)
qed

lemma event_gained:
  assumes "proxy_event_step os e p = Some (k, q)"
  shows "gained (granted_by e p) (qmi_proxy_connection p) (qmi_proxy_connection q)"
proof (cases e)
  case (DevRead bs)
  then obtain n r where r: "proxy_read bs p = Some (n, r)" "r = q \<or> recv_qmi_from_dev os (proxy_qmi_buf r) r = Some q"
    using assms by (auto simp: bind_eq_Some_conv split: if_splits)
  have f: "r = p\<lparr>proxy_qmi_buf := buf_after bs p\<rparr>"
    using proxy_read_frame [OF r(1)] by auto
  have "qmi_proxy_connection q = qmi_proxy_connection r \<or> recv_ctl_rsp os (proxy_qmi_buf r) r = Some q"
    using r(2) by (auto simp: recv_qmi_from_dev_def bind_eq_Some_conv split: if_splits dest!: send_to_clients_frame)
  then show ?thesis
    using recv_ctl_rsp_gained [of os "proxy_qmi_buf r" r q]
    by (auto simp: f gained_refl) (fastforce simp: gained_def granted_by_def grants_def DevRead)
next
  case (ClientRead fd bs)
  then obtain n r where r: "proxy_read bs p = Some (n, r)"
    "r = q \<or> cleanup_qmi_connection os fd True r = Some q \<or> (\<exists>x. recv_qmi_from_client os (proxy_qmi_buf r) n fd r = Some (x, q))"
    using assms by (auto simp: bind_eq_Some_conv split: if_splits)
  have "qmi_proxy_connection r = qmi_proxy_connection p"
    using proxy_read_frame [OF r(1)] by auto
  moreover have "qmi_proxy_connection q = qmi_proxy_connection r" if "recv_qmi_from_client os (proxy_qmi_buf r) n fd r = Some (x, q)" for x
    using that by (auto simp: recv_qmi_from_client_def bind_eq_Some_conv split: if_splits dest!: queue_ctl_frame send_dev_frame)
  ultimately show ?thesis
    using r(2) cleanup_gained [of os fd True r q] by (auto simp: gained_refl)
qed (use assms in \<open>auto simp: bind_eq_Some_conv gained_refl accept_qmi_connection_def intro: cleanup_gained\<close>,
     auto simp: gained_def)

lemma history_granted:
  assumes "proxy_history A os server_fd h p" and "c \<in> set (qmi_proxy_connection p)" and "x \<in> set (con_clients c)"
  shows "\<exists>(e, p0) \<in> set h. granted_by e p0 (con_ClientFd c) x"
  using assms
proof (induction arbitrary: c rule: proxy_history.induct)
  case history_start
  then show ?case by (simp add: proxy_start_def)
next
  case (history_event h p e k p')
  then have "(\<exists>d \<in> set (qmi_proxy_connection p). con_ClientFd d = con_ClientFd c \<and> x \<in> set (con_clients d)) \<or>
      granted_by e p (con_ClientFd c) x"
    using event_gained [OF history_event.hyps(3)] by (simp add: gained_def)
  then show ?case
    using history_event.IH by fastforce
qed

text \<open>the proxy never leaves its loop because of a modem reset: after any events \<^verbatim>\<open>modem_reset_flag\<close> is 0,
  also after an indication that the modem revoked the client ids, since the test for indications looks at the
  service type in a branch where it is 0.\<close>

theorem proxy_reset_unnoticed:
  assumes "proxy_run A os server_fd sub p" shows "\<not> modem_reset_flag p"
  using run_steady [OF assms] by (simp add: steady_def)

definition revoke_ind :: buf where
  "revoke_ind = [1, 16, 0, 0x80, 0, 0, 2, 0, 0x24, 0, 5, 0, 1, 2, 0, 1, 3]"

lemma read_sized:
  assumes "proxy_run A os server_fd sub p" and "qmi_sized m"
  defines "q \<equiv> p\<lparr>proxy_qmi_buf := buf_after m p\<rparr>"
  shows "proxy_read m p = Some (length m, q)" and "carries (buf_after m p) m" and "length (buf_after m p) = 4096"
    and "\<exists>l. rd16 (buf_after m p) 1 = Some l \<and> length m = unat l + 1"
proof -
  have l: "length (proxy_qmi_buf p) = 4096" using run_steady [OF assms(1)] by (simp add: steady_def)
  have m: "take 4096 m = m" "length m \<le> 4096" using assms(2) by (simp_all add: qmi_sized_def)
  show "proxy_read m p = Some (length m, q)" using l m by (simp add: proxy_read_def wr_def buf_after_def q_def)
  show "length (buf_after m p) = 4096" using l m by (simp add: buf_after_def)
  then show c: "carries (buf_after m p) m"
    using assms(2) m by (intro carries_take) (simp_all add: buf_after_def)
  then show "\<exists>l. rd16 (buf_after m p) 1 = Some l \<and> length m = unat l + 1" by (auto simp: carries_def)
qed

lemma dev_read_sized:
  assumes "proxy_run A os server_fd sub p" and "qmi_sized m"
    and "recv_qmi_from_dev os (buf_after m p) (p\<lparr>proxy_qmi_buf := buf_after m p\<rparr>) = Some q"
  shows "proxy_event_step os (DevRead m) p = Some (Continue, q)"
proof -
  obtain l where l: "rd16 (buf_after m p) 1 = Some l" "length m = unat l + 1" using read_sized(4) [OF assms(1,2)] by blast
  have "kept False (p\<lparr>proxy_qmi_buf := buf_after m p\<rparr>) q" by (rule recv_dev_kept [OF assms(3)]) simp
  then have "\<not> modem_reset_flag q" using run_steady [OF assms(1)] by (simp add: kept_def steady_def)
  then show ?thesis using assms(3) l read_sized(1) [OF assms(1,2)] by simp
qed

theorem proxy_reset_unnoticed_witness:
  "\<exists>p. proxy_event_step sample_os (DevRead revoke_ind) (proxy_start 5) = Some (Continue, p) \<and> \<not> modem_reset_flag p"
proof -
  have s: "qmi_sized revoke_ind" by (simp add: qmi_sized_def revoke_ind_def rd16_def rd8_def le16_def)
  have r: "proxy_run (\<lambda>e p. True) sample_os 5 [] (proxy_start 5)" by (rule run_start)
  let ?b = "buf_after revoke_ind (proxy_start 5)"
  have "rd8 ?b i = Some (revoke_ind ! i)" if "i < 17" for i
    using carries_nth [OF read_sized(2) [OF r s]] that by (simp add: revoke_ind_def)
  then have "recv_qmi_from_dev sample_os ?b ((proxy_start 5)\<lparr>proxy_qmi_buf := ?b\<rparr>) = Some ((proxy_start 5)\<lparr>proxy_qmi_buf := ?b\<rparr>)"
    by (simp add: recv_qmi_from_dev_def proxy_start_def revoke_ind_def)
  from dev_read_sized [OF r s this] have e: "proxy_event_step sample_os (DevRead revoke_ind) (proxy_start 5)
      = Some (Continue, (proxy_start 5)\<lparr>proxy_qmi_buf := ?b\<rparr>)" .
  show ?thesis using e proxy_reset_unnoticed [OF run_event [OF r _ e]] by blast
qed

subsection \<open>Who gets a message\<close>

lemma receivers_none: "\<forall>c \<in> set (proxy_clients cs). \<not> (ty = fst c \<and> (cid = 0 \<or> cid = snd c)) \<Longrightarrow> service_receivers ty cid cs = []"
  by (induction cs) (auto simp: service_receivers_def proxy_clients_Cons filter_empty_conv)

lemma receivers_append: "service_receivers ty cid (xs @ ys) = service_receivers ty cid xs @ service_receivers ty cid ys"
  by (simp add: service_receivers_def)

lemma filter_unique: "distinct xs \<Longrightarrow> x \<in> set xs \<Longrightarrow> filter (\<lambda>y. y = x) xs = [x]"
  by (induction xs) (auto simp: filter_empty_conv)

lemma receivers_owner:
  assumes "owners_ok cs" and "c \<in> set cs" and "(ty, cid) \<in> set (con_clients c)" and "cid \<noteq> 0"
  shows "service_receivers ty cid cs = [con_ClientFd c]"
proof -
  obtain us vs where s: "cs = us @ c # vs" using assms(2) by (auto simp: in_set_conv_decomp)
  have "distinct (proxy_clients us @ con_clients c @ proxy_clients vs)"
    using assms(1) by (simp add: owners_ok_def s proxy_clients_def)
  then have d: "distinct (con_clients c)" "(ty, cid) \<notin> set (proxy_clients us)" "(ty, cid) \<notin> set (proxy_clients vs)"
    using assms(3) by auto
  have "service_receivers ty cid us = []" "service_receivers ty cid vs = []"
    by (rule receivers_none; use d(2,3) assms(4) in auto)+
  moreover have "filter (\<lambda>c. ty = fst c \<and> (cid = 0 \<or> cid = snd c)) (con_clients c) = [(ty, cid)]"
  proof -
    have "(\<lambda>c. ty = fst c \<and> (cid = 0 \<or> cid = snd c)) = (\<lambda>c. c = (ty, cid))" using assms(4) by auto
    then show ?thesis using filter_unique [OF d(1) assms(3)] by simp
  qed
  ultimately show ?thesis by (simp add: s receivers_append) (simp add: service_receivers_def)
qed

text \<open>C36: in every run in which no successful response hands out a client id that is in use and no descriptor is
  reused while it is open, with the clients writable and memory available: a complete service message that names a
  client id held by a connection is written exactly once, unchanged, to that connection and to no other, nothing is
  written to the device, and the connection holds the id because a response with result and error 0 to its own
  outstanding request for a client id carried it.\<close>

theorem proxy_unicast:
  assumes "writable os" and "server_fd \<noteq> - 1" and "proxy_history fresh_ids os server_fd h p"
    and "c \<in> set (qmi_proxy_connection p)" and "(ty, cid) \<in> set (con_clients c)"
    and "qmi_sized m" and "m ! 4 = ty" and "m ! 5 = cid" and "ty \<noteq> QMUX_TYPE_CTL" and "cid \<noteq> 0"
  shows "(\<exists>q. proxy_event_step os (DevRead m) p = Some (Continue, q)
       \<and> client_log q = client_log p @ [(con_ClientFd c, Some m)] \<and> dev_log q = dev_log p
       \<and> qmi_proxy_connection q = qmi_proxy_connection p) \<and>
     (\<exists>(e, p0) \<in> set h. \<exists>bs x rest. e = DevRead bs \<and> qmi_proxy_ctl_msg p0 = x # rest \<and> msg_ClientFd x = con_ClientFd c \<and>
        rd8 (buf_after bs p0) 7 = rd8 (msg_qmi x) 7 \<and> rd16 (msg_qmi x) 8 = Some QMICTL_GET_CLIENT_ID_REQ \<and>
        rd16 (buf_after bs p0) 8 = Some QMICTL_GET_CLIENT_ID_REQ \<and> rd16 (buf_after bs p0) 15 = Some 0 \<and>
        rd16 (buf_after bs p0) 17 = Some 0 \<and> (ty, cid) = (buf_after bs p0 ! 22, buf_after bs p0 ! 23))"
proof
  obtain sub where run: "proxy_run fresh_ids os server_fd sub p" using history_run [OF assms(3)] by blast
  let ?b = "buf_after m p" and ?p = "p\<lparr>proxy_qmi_buf := buf_after m p\<rparr>"
  let ?q = "?p\<lparr>client_log := client_log p @ [(con_ClientFd c, Some m)]\<rparr>"
  have fd: "qmi_proxy_server_fd p \<noteq> - 1" using run_steady [OF run] assms(2) by (simp add: steady_def)
  have n: "rd8 ?b 4 = Some ty" "rd8 ?b 5 = Some cid"
    using carries_nth [OF read_sized(2) [OF run assms(6)]] assms(6-8) by (auto simp: qmi_sized_def)
  have "service_receivers ty cid (qmi_proxy_connection p) = [con_ClientFd c]"
    by (rule receivers_owner [OF run_owners [OF run] assms(4,5,10)])
  then have "recv_qmi_from_dev os ?b ?p = Some ?q"
    using fd n assms(9) send_to_clients_log [OF assms(1) read_sized(2) [OF run assms(6)], of "[con_ClientFd c]" ?p]
    by (simp add: recv_qmi_from_dev_def)
  then show "\<exists>q. proxy_event_step os (DevRead m) p = Some (Continue, q)
       \<and> client_log q = client_log p @ [(con_ClientFd c, Some m)] \<and> dev_log q = dev_log p
       \<and> qmi_proxy_connection q = qmi_proxy_connection p"
    using dev_read_sized [OF run assms(6)] by (intro exI [of _ ?q]) simp
qed (use history_granted [OF assms(3-5)] in \<open>simp add: granted_by_def\<close>)

lemma ctl_response_exact:
  assumes "writable os" and "carries b m" and "\<And>c. ctl_update os b c = Some (u c)"
  shows "ctl_response_to os b fd cs p =
     Some (map (\<lambda>c. if con_ClientFd c = fd then u c else c) cs,
           p\<lparr>client_log := client_log p @ map (\<lambda>c. (fd, Some m)) (filter (\<lambda>c. con_ClientFd c = fd) cs)\<rparr>)"
proof (induction cs arbitrary: p)
  case (Cons c cs)
  obtain t where t: "rd16 b 8 = Some t" using assms(3) [of c] by (cases "rd16 b 8") (simp_all add: ctl_update_def)
  have "(if t = QMICTL_GET_CLIENT_ID_REQ then get_client_id os b c
         else if t = QMICTL_RELEASE_CLIENT_ID_REQ then release_client_id b c else Some c) = Some (u c)"
    using assms(3) [of c] t by (simp add: ctl_update_def)
  then show ?case using Cons t by (simp add: send_client [OF assms(1,2)])
qed simp

lemma one_connection:
  assumes "distinct (map con_ClientFd cs)" and "c \<in> set cs"
  shows "filter (\<lambda>d. con_ClientFd d = con_ClientFd c) cs = [c]"
  using assms
proof (induction cs)
  case (Cons d cs)
  then show ?case by (cases "d = c") (auto simp: filter_empty_conv image_iff)
qed simp

lemma grant_step:
  assumes "writable os" and "server_fd \<noteq> - 1" and "proxy_run sound_events os server_fd sub p"
    and "qmi_proxy_ctl_msg p = x # rest" and "c \<in> set (qmi_proxy_connection p)" and "con_ClientFd c = msg_ClientFd x"
    and "msg_ClientFd x \<noteq> server_fd" and "rd16 (msg_qmi x) 8 = Some QMICTL_GET_CLIENT_ID_REQ"
    and "qmi_sized m" and "24 \<le> length m" and "m ! 4 = QMUX_TYPE_CTL" and "m ! 6 = QMICTL_CTL_FLAG_RSP"
    and "m ! 7 = msg_qmi x ! 7" and "rd16 m 8 = Some QMICTL_GET_CLIENT_ID_REQ" and "rd16 m 15 = Some 0" and "rd16 m 17 = Some 0"
  shows "\<exists>q. proxy_event_step os (DevRead m) p = Some (Continue, q)
       \<and> client_log q = client_log p @ [(con_ClientFd c, Some m)]
       \<and> qmi_proxy_connection q = map (\<lambda>d. if con_ClientFd d = con_ClientFd c
            then d\<lparr>con_clients := con_clients d @ [(m ! 22, m ! 23)]\<rparr> else d) (qmi_proxy_connection p)
       \<and> qmi_proxy_ctl_msg q = rest \<and> dev_log q = dev_log p @ (case rest of [] \<Rightarrow> [] | y # _ \<Rightarrow> [Some (msg_qmi y)])"
proof -
  let ?b = "buf_after m p" and ?p = "p\<lparr>proxy_qmi_buf := buf_after m p\<rparr>"
  define u where "u d = d\<lparr>con_clients := con_clients d @ [(m ! 22, m ! 23)]\<rparr>" for d :: qmi_proxy_con
  have fd: "qmi_proxy_server_fd p = server_fd" using run_steady [OF assms(3)] by (simp add: steady_def)
  have cb: "carries ?b m" by (rule read_sized(2) [OF assms(3,9)])
  have n: "rd8 ?b i = Some (m ! i)" if "i < 24" for i using carries_nth [OF cb] that assms(10) by simp
  have n16: "rd16 ?b i = rd16 m i" if "i < 23" for i using n [of i] n [of "i + 1"] that assms(10) by (simp add: rd16_def rd8_def)
  have "ctl_update os ?b d = Some (u d)" for d
    using assms(1,14-16) by (simp add: ctl_update_def get_client_id_def n16 n u_def writable_def)
  note r = ctl_response_exact [OF assms(1) cb this, of "msg_ClientFd x" "qmi_proxy_connection p" ?p]
  have "owners_ok (qmi_proxy_connection p)" by (rule run_owners [OF run_mono [OF assms(3)]]) (simp add: sound_events_def)
  then have one: "filter (\<lambda>d. con_ClientFd d = msg_ClientFd x) (qmi_proxy_connection p) = [c]"
    using one_connection assms(5,6) by (metis owners_ok_def)
  have ok: "proxy_ok p" using run_ok [OF run_mono [OF assms(3)] assms(1,2)] by (simp add: sound_events_def)
  then have x: "rd8 (msg_qmi x) 7 = Some (m ! 7)" using qmi_sized_rd(1) assms(4,13) by (simp add: proxy_ok_def)
  define q where "q = ?p\<lparr>client_log := client_log p @ [(con_ClientFd c, Some m)],
     qmi_proxy_connection := map (\<lambda>d. if con_ClientFd d = msg_ClientFd x then u d else d) (qmi_proxy_connection p),
     qmi_proxy_ctl_msg := rest, dev_log := dev_log p @ (case rest of [] \<Rightarrow> [] | y # _ \<Rightarrow> [Some (msg_qmi y)])\<rparr>"
  have "recv_ctl_rsp os ?b ?p = Some q"
  proof (cases rest)
    case Nil
    then show ?thesis using assms(4,6,7,8,14) x r one fd n n16 by (simp add: recv_ctl_rsp_def q_def)
  next
    case (Cons y ys)
    have "carries (msg_qmi y) (msg_qmi y)" using ok assms(4) Cons by (intro carries_self) (simp add: proxy_ok_def)
    from send_dev [OF assms(1) this, of "q\<lparr>dev_log := dev_log p\<rparr>"]
    show ?thesis using assms(4,6,7,8,14) x r one fd n n16 Cons by (auto simp: recv_ctl_rsp_def q_def)
  qed
  then have "recv_qmi_from_dev os ?b ?p = Some q"
    using n fd assms(2,11,12) by (simp add: recv_qmi_from_dev_def)
  from dev_read_sized [OF assms(3,9) this] show ?thesis by (intro exI [of _ q]) (simp add: q_def u_def assms(6))
qed

text \<open>A successful response to the outstanding request for a client id is written to the connection that asked and
  to no other, the id is recorded as a client of that connection only, the request leaves the queue and the next
  waiting one is written to the device.\<close>

theorem proxy_grants_client:
  assumes "writable os" and "server_fd \<noteq> - 1" and "proxy_run sound_events os server_fd sub p"
    and "qmi_proxy_ctl_msg p = x # rest" and "c \<in> set (qmi_proxy_connection p)" and "con_ClientFd c = msg_ClientFd x"
    and "msg_ClientFd x \<noteq> server_fd" and "rd16 (msg_qmi x) 8 = Some QMICTL_GET_CLIENT_ID_REQ"
    and "qmi_sized m" and "24 \<le> length m" and "m ! 4 = QMUX_TYPE_CTL" and "m ! 6 = QMICTL_CTL_FLAG_RSP"
    and "m ! 7 = msg_qmi x ! 7" and "rd16 m 8 = Some QMICTL_GET_CLIENT_ID_REQ" and "rd16 m 15 = Some 0" and "rd16 m 17 = Some 0"
  shows "\<exists>q. proxy_event_step os (DevRead m) p = Some (Continue, q)
       \<and> client_log q = client_log p @ [(con_ClientFd c, Some m)]
       \<and> qmi_proxy_connection q = map (\<lambda>d. if con_ClientFd d = con_ClientFd c
            then d\<lparr>con_clients := con_clients d @ [(m ! 22, m ! 23)]\<rparr> else d) (qmi_proxy_connection p)
       \<and> qmi_proxy_ctl_msg q = rest \<and> dev_log q = dev_log p @ (case rest of [] \<Rightarrow> [] | y # _ \<Rightarrow> [Some (msg_qmi y)])"
  using grant_step [OF assms] .

text \<open>Two clients, the first of which has asked for a client id.\<close>

definition two_clients :: qmi_proxy where
  "two_clients = (proxy_start 5)\<lparr>qmi_proxy_connection := [\<lparr>con_ClientFd = 7, con_clients = []\<rparr>, \<lparr>con_ClientFd = 8, con_clients = []\<rparr>]\<rparr>"

lemma two_clients_run: "proxy_run sound_events sample_os 5 [] two_clients"
proof -
  let ?p = "(proxy_start 5)\<lparr>qmi_proxy_connection := [\<lparr>con_ClientFd = 7, con_clients = []\<rparr>]\<rparr>"
  have "proxy_run sound_events sample_os 5 ([] @ submits (NewClient 7) (proxy_start 5)) ?p"
    by (rule run_event [OF run_start]) (simp_all add: sound_events_def orderly_def fresh_ids_def proxy_start_def sample_os_def accept_qmi_connection_def)
  then have "proxy_run sound_events sample_os 5 [] ?p" by (simp add: submits_def)
  then have "proxy_run sound_events sample_os 5 ([] @ submits (NewClient 8) ?p) two_clients"
    by (rule run_event) (simp_all add: sound_events_def orderly_def fresh_ids_def proxy_start_def sample_os_def accept_qmi_connection_def two_clients_def)
  then show ?thesis by (simp add: submits_def)
qed

lemma get_client_req_sized: "qmi_sized (get_client_req tid ty)" "get_client_req tid ty ! 4 = QMUX_TYPE_CTL"
  "rd16 (get_client_req tid ty) 8 = Some QMICTL_GET_CLIENT_ID_REQ" "get_client_req tid ty ! 7 = tid" "length (get_client_req tid ty) = 16"
  by (simp_all add: get_client_req_def qmi_sized_def rd16_def rd8_def le16_def)

lemma get_client_rsp_sized: "qmi_sized (get_client_rsp tid ty cid)" "length (get_client_rsp tid ty cid) = 24"
  "get_client_rsp tid ty cid ! 4 = QMUX_TYPE_CTL" "get_client_rsp tid ty cid ! 6 = QMICTL_CTL_FLAG_RSP"
  "get_client_rsp tid ty cid ! 7 = tid" "rd16 (get_client_rsp tid ty cid) 8 = Some QMICTL_GET_CLIENT_ID_REQ"
  "rd16 (get_client_rsp tid ty cid) 15 = Some 0" "rd16 (get_client_rsp tid ty cid) 17 = Some 0"
  "get_client_rsp tid ty cid ! 22 = ty" "get_client_rsp tid ty cid ! 23 = cid"
  by (simp_all add: get_client_rsp_def qmi_sized_def rd16_def rd8_def le16_def)

definition asked :: qmi_proxy where
  "asked = two_clients\<lparr>proxy_qmi_buf := buf_after (get_client_req 1 1) two_clients, dev_log := [Some (get_client_req 1 1)],
     qmi_proxy_ctl_msg := [\<lparr>msg_ClientFd = 7, msg_qmi = get_client_req 1 1\<rparr>]\<rparr>"

lemma client_ctl_step:
  assumes "writable os" and "server_fd \<noteq> - 1" and "proxy_run A os server_fd sub p"
    and "qmi_sized m" and "m ! 4 = QMUX_TYPE_CTL" and "rd16 m 8 = Some t" and "t \<noteq> QMICTL_SYNC_REQ"
  shows "proxy_event_step os (ClientRead fd m) p = Some (Continue, p\<lparr>proxy_qmi_buf := buf_after m p,
     dev_log := dev_log p @ (if qmi_proxy_ctl_msg p = [] then [Some m] else []),
     qmi_proxy_ctl_msg := qmi_proxy_ctl_msg p @ [\<lparr>msg_ClientFd = fd, msg_qmi = m\<rparr>]\<rparr>)" (is "_ = Some (_, ?r)")
proof -
  let ?b = "buf_after m p" and ?x = "\<lparr>msg_ClientFd = fd, msg_qmi = m\<rparr>"
  note rs = read_sized [OF assms(3,4)]
  have sfd: "qmi_proxy_server_fd p = server_fd" using run_steady [OF assms(3)] by (simp add: steady_def)
  have n: "rd8 ?b i = Some (m ! i)" if "i < 12" for i using carries_nth [OF rs(2)] that assms(4) by (simp add: qmi_sized_def)
  have "rd16 ?b 8 = rd16 m 8" using n [of 8] n [of 9] assms(4) by (simp add: rd16_def rd8_def qmi_sized_def)
  moreover have "rdn ?b 0 (length m) = Some m" using rs(2) by (simp add: carries_def)
  moreover have "queue_ctl_msg os ?b ?x (p\<lparr>proxy_qmi_buf := ?b\<rparr>) = Some ?r"
    using queue_ctl [OF assms(1), of ?b ?x "p\<lparr>proxy_qmi_buf := ?b\<rparr>"] rs(2) by simp
  ultimately have "recv_qmi_from_client os ?b (length m) fd (p\<lparr>proxy_qmi_buf := ?b\<rparr>) = Some (0, ?r)"
    using n [of 4] assms sfd by (simp add: recv_qmi_from_client_def writable_def)
  then show ?thesis using rs(1,4) by auto
qed

lemma asked_step: "proxy_event_step sample_os (ClientRead 7 (get_client_req 1 1)) two_clients = Some (Continue, asked)"
  using client_ctl_step [OF sample_os_writable _ two_clients_run get_client_req_sized(1,2,3), of 7]
  by (simp add: asked_def) (simp add: two_clients_def proxy_start_def)

lemma asked_run: "proxy_run sound_events sample_os 5 [get_client_req 1 1] asked"
proof -
  have "sound_events (ClientRead 7 (get_client_req 1 1)) two_clients"
    by (simp add: sound_events_def orderly_def fresh_ids_def get_client_req_sized) (simp add: get_client_req_def)
  moreover have "submits (ClientRead 7 (get_client_req 1 1)) two_clients = [get_client_req 1 1]"
    by (simp add: submits_def get_client_req_sized) (simp add: get_client_req_def)
  ultimately show ?thesis using run_event [OF two_clients_run _ asked_step] by fastforce
qed

theorem proxy_grants_client_witness:
  "\<exists>q. proxy_event_step sample_os (DevRead (get_client_rsp 1 1 4)) asked = Some (Continue, q)
     \<and> client_log q = [(7, Some (get_client_rsp 1 1 4))]
     \<and> qmi_proxy_connection q = [\<lparr>con_ClientFd = 7, con_clients = [(1, 4)]\<rparr>, \<lparr>con_ClientFd = 8, con_clients = []\<rparr>]"
  using proxy_grants_client [OF sample_os_writable _ asked_run, of "\<lparr>msg_ClientFd = 7, msg_qmi = get_client_req 1 1\<rparr>" "[]"
      "\<lparr>con_ClientFd = 7, con_clients = []\<rparr>" "get_client_rsp 1 1 4"]
  by (auto simp: asked_def two_clients_def proxy_start_def get_client_req_sized get_client_rsp_sized)

lemma granted_run:
  "\<exists>p. proxy_run sound_events sample_os 5 [get_client_req 1 1] p
     \<and> qmi_proxy_connection p = [\<lparr>con_ClientFd = 7, con_clients = [(1, 4)]\<rparr>, \<lparr>con_ClientFd = 8, con_clients = []\<rparr>]
     \<and> qmi_proxy_ctl_msg p = []"
proof -
  let ?m = "get_client_rsp 1 1 4"
  obtain q where q: "proxy_event_step sample_os (DevRead ?m) asked = Some (Continue, q)"
    "qmi_proxy_connection q = [\<lparr>con_ClientFd = 7, con_clients = [(1, 4)]\<rparr>, \<lparr>con_ClientFd = 8, con_clients = []\<rparr>]"
    "qmi_proxy_ctl_msg q = []"
    using grant_step [OF sample_os_writable _ asked_run, of "\<lparr>msg_ClientFd = 7, msg_qmi = get_client_req 1 1\<rparr>" "[]"
      "\<lparr>con_ClientFd = 7, con_clients = []\<rparr>" ?m]
    by (auto simp: asked_def two_clients_def proxy_start_def get_client_req_sized get_client_rsp_sized)
  have "sound_events (DevRead ?m) asked"
    by (simp add: sound_events_def orderly_def fresh_ids_def asked_def two_clients_def proxy_start_def proxy_clients_def)
  moreover have "submits (DevRead ?m) asked = []" by (simp add: submits_def)
  ultimately show ?thesis using run_event [OF asked_run _ q(1)] q(2,3) by fastforce
qed

theorem proxy_unicast_witness:
  "\<exists>h p q. proxy_history fresh_ids sample_os 5 h p \<and> h \<noteq> []
     \<and> proxy_event_step sample_os (DevRead [1, 12, 0, 0x80, 1, 4, 4, 1, 0, 0x22, 0, 0, 0]) p = Some (Continue, q)
     \<and> client_log q = client_log p @ [(7, Some [1, 12, 0, 0x80, 1, 4, 4, 1, 0, 0x22, 0, 0, 0])]"
proof -
  obtain p where p: "proxy_run sound_events sample_os 5 [get_client_req 1 1] p"
    "qmi_proxy_connection p = [\<lparr>con_ClientFd = 7, con_clients = [(1, 4)]\<rparr>, \<lparr>con_ClientFd = 8, con_clients = []\<rparr>]"
    using granted_run by blast
  have "proxy_run fresh_ids sample_os 5 [get_client_req 1 1] p"
    by (rule run_mono [OF p(1)]) (simp add: sound_events_def)
  then obtain h where h: "proxy_history fresh_ids sample_os 5 h p" using run_history by blast
  have "h \<noteq> [] \<and> (\<exists>q. proxy_event_step sample_os (DevRead [1, 12, 0, 0x80, 1, 4, 4, 1, 0, 0x22, 0, 0, 0]) p = Some (Continue, q)
     \<and> client_log q = client_log p @ [(7, Some [1, 12, 0, 0x80, 1, 4, 4, 1, 0, 0x22, 0, 0, 0])])"
    using proxy_unicast [OF sample_os_writable _ h, of "\<lparr>con_ClientFd = 7, con_clients = [(1, 4)]\<rparr>" 1 4
        "[1, 12, 0, 0x80, 1, 4, 4, 1, 0, 0x22, 0, 0, 0]"] p(2)
    by (auto simp: qmi_sized_def rd16_def rd8_def le16_def simp del: proxy_event_step.simps)
  with h show ?thesis by blast
qed

subsection \<open>Leaving\<close>

text \<open>When the loop is left, the proxy ends its clean-up for any number of connections: every one is closed, in the
  order of the list, no connection is left and nothing is written to the device.\<close>

theorem proxy_exit_closes_all:
  "\<exists>q. proxy_exit os p = Some q \<and> qmi_proxy_connection q = [] \<and> dev_log q = dev_log p
     \<and> closed_fds q = closed_fds p @ map con_ClientFd (qmi_proxy_connection p)"
proof (induction "qmi_proxy_connection p" arbitrary: p)
  case Nil
  then show ?case by (simp add: Nil [symmetric])
next
  case (Cons c cs)
  note c = Cons.hyps(2) [symmetric]
  let ?q = "p\<lparr>qmi_proxy_ctl_msg := remove_first (\<lambda>m. msg_ClientFd m = con_ClientFd c) (qmi_proxy_ctl_msg p),
            closed_fds := closed_fds p @ [con_ClientFd c], qmi_proxy_connection := cs\<rparr>"
  have "proxy_exit os p = proxy_exit os ?q"
    by (subst proxy_exit.simps) (simp add: c cleanup_quiet_first [OF c] del: proxy_exit.simps)
  then show ?case using Cons.hyps(1) [of ?q] c by simp
qed

text \<open>A client that disconnects while its own control request is the outstanding one leaks its client id: the
  release request is queued behind the outstanding one, which is then removed from the queue, so the release
  stands at its head without having been written; the response to the removed request takes it off the queue and
  it never reaches the device.\<close>

theorem proxy_release_lost:
  assumes "writable os" and "server_fd \<noteq> - 1" and "proxy_run A os server_fd sub p"
    and "qmi_proxy_ctl_msg p = [x]" and "msg_ClientFd x \<noteq> server_fd"
    and "find (\<lambda>c. con_ClientFd c = msg_ClientFd x) (qmi_proxy_connection p) = Some c" and "con_clients c = [cl]"
    and "qmi_sized m" and "m ! 4 = QMUX_TYPE_CTL" and "m ! 6 = QMICTL_CTL_FLAG_RSP" and "m ! 7 \<noteq> 255"
  shows "\<exists>q r. proxy_event_step os (ClientHup (msg_ClientFd x)) p = Some (Continue, q)
       \<and> map msg_qmi (qmi_proxy_ctl_msg q) = [proxy_release_req cl]
       \<and> proxy_event_step os (DevRead m) q = Some (Continue, r)
       \<and> qmi_proxy_ctl_msg r = [] \<and> dev_log r = dev_log p"
proof -
  let ?fd = "msg_ClientFd x" and ?r = "\<lparr>msg_ClientFd = server_fd, msg_qmi = proxy_release_req cl\<rparr>"
  have sfd: "qmi_proxy_server_fd p = server_fd" using run_steady [OF assms(3)] by (simp add: steady_def)
  have "malloc_ok os" using assms(1) by (simp add: writable_def)
  then have "release_clients os True (con_clients c) p = Some (p\<lparr>qmi_proxy_ctl_msg := [x, ?r]\<rparr>)"
    by (simp add: assms(4,7) sfd queue_ctl_msg_def)
  then obtain q where q: "cleanup_qmi_connection os ?fd True p = Some q"
    "qmi_proxy_ctl_msg q = [?r]" "dev_log q = dev_log p" "qmi_proxy_server_fd q = server_fd"
    using assms(6) sfd by (simp add: cleanup_qmi_connection_def)
  then have h: "proxy_event_step os (ClientHup ?fd) p = Some (Continue, q)" by simp
  have run: "proxy_run (\<lambda>_ _. True) os server_fd (sub @ submits (ClientHup ?fd) p) q"
    by (rule run_event [OF run_mono [OF assms(3)] _ h]) simp_all
  let ?b = "buf_after m q" and ?q = "q\<lparr>proxy_qmi_buf := buf_after m q\<rparr>"
  have n: "rd8 ?b i = Some (m ! i)" if "i < 12" for i
    using carries_nth [OF read_sized(2) [OF run assms(8)]] that assms(8) by (simp add: qmi_sized_def)
  have t: "\<exists>t. rd16 ?b 8 = Some t" using n [of 8] n [of 9] by (simp add: rd16_def)
  have "rd8 (proxy_release_req cl) 7 = Some 255" by (simp add: proxy_release_req_def rd8_def bytes16_def)
  then have "recv_qmi_from_dev os ?b ?q = Some (?q\<lparr>qmi_proxy_ctl_msg := []\<rparr>)"
    using q assms(2,9-11) n t by (auto simp: recv_qmi_from_dev_def recv_ctl_rsp_def)
  from dev_read_sized [OF run assms(8) this] h q show ?thesis by auto
qed

theorem proxy_release_lost_witness:
  "\<exists>p q r. proxy_event_step sample_os (ClientHup 7) p = Some (Continue, q)
     \<and> map msg_qmi (qmi_proxy_ctl_msg q) = [proxy_release_req (1, 4)]
     \<and> proxy_event_step sample_os (DevRead (get_client_rsp 2 2 5)) q = Some (Continue, r)
     \<and> qmi_proxy_ctl_msg r = [] \<and> dev_log r = dev_log p"
proof -
  obtain p where p: "proxy_run sound_events sample_os 5 [get_client_req 1 1] p"
    "qmi_proxy_connection p = [\<lparr>con_ClientFd = 7, con_clients = [(1, 4)]\<rparr>, \<lparr>con_ClientFd = 8, con_clients = []\<rparr>]"
    "qmi_proxy_ctl_msg p = []" using granted_run by blast
  let ?x = "\<lparr>msg_ClientFd = 7, msg_qmi = get_client_req 2 2\<rparr>"
  obtain p' where p': "proxy_event_step sample_os (ClientRead 7 (get_client_req 2 2)) p = Some (Continue, p')"
    "qmi_proxy_ctl_msg p' = [?x]" "qmi_proxy_connection p' = qmi_proxy_connection p"
    using client_ctl_step [OF sample_os_writable _ p(1) get_client_req_sized(1,2,3), of 7] p(3) by simp
  have r: "proxy_run (\<lambda>_ _. True) sample_os 5 ([get_client_req 1 1] @ submits (ClientRead 7 (get_client_req 2 2)) p) p'"
    by (rule run_event [OF run_mono [OF p(1)] _ p'(1)]) simp_all
  have "find (\<lambda>c. con_ClientFd c = msg_ClientFd ?x) (qmi_proxy_connection p') = Some \<lparr>con_ClientFd = 7, con_clients = [(1, 4)]\<rparr>"
    using p(2) p'(3) by simp
  from proxy_release_lost [OF sample_os_writable _ r p'(2) _ this, of "(1, 4)" "get_client_rsp 2 2 5"]
  show ?thesis by (rule_tac x = p' in exI) (simp add: get_client_rsp_sized del: proxy_event_step.simps)
qed

text \<open>A control message of 7 bytes, shorter than its header, is accepted from a client and copied into the queue at
  its size; the next control response makes the proxy read the transaction id behind the end of that copy.\<close>

theorem proxy_short_request_fault:
  assumes "writable os" and "server_fd \<noteq> - 1" and "proxy_run A os server_fd sub p" and "qmi_proxy_ctl_msg p = []"
    and "bs = [b0, 6, 0, b3, QMUX_TYPE_CTL, b5, b6]" and "rd16 (proxy_qmi_buf p) 8 \<noteq> Some QMICTL_SYNC_REQ"
    and "qmi_sized m" and "m ! 4 = QMUX_TYPE_CTL" and "m ! 6 = QMICTL_CTL_FLAG_RSP"
  shows "\<exists>q. proxy_event_step os (ClientRead fd bs) p = Some (Continue, q) \<and> proxy_event_step os (DevRead m) q = None"
proof -
  let ?b = "buf_after bs p" and ?x = "\<lparr>msg_ClientFd = fd, msg_qmi = bs\<rparr>"
  have st: "qmi_proxy_server_fd p = server_fd" "length (proxy_qmi_buf p) = 4096" using run_steady [OF assms(3)] by (auto simp: steady_def)
  have len: "length bs = 7" by (simp add: assms(5))
  then have b: "?b = bs @ drop 7 (proxy_qmi_buf p)" "length ?b = 4096" using st(2) by (simp_all add: buf_after_def)
  have c: "carries ?b bs" using b by (auto simp: carries_def rdn_def rd16_def rd8_def assms(5) le16_def)
  have "rd16 ?b 8 = rd16 (proxy_qmi_buf p) 8"
    using st(2) len by (simp add: b(1) rd16_def rd8_def nth_append)
  moreover obtain t where "rd16 (proxy_qmi_buf p) 8 = Some t" using rd_in_buffer [OF st(2), of 8] by auto
  ultimately have t: "\<exists>t. rd16 ?b 8 = Some t \<and> t \<noteq> QMICTL_SYNC_REQ" using assms(6) by auto
  let ?q = "p\<lparr>proxy_qmi_buf := ?b, dev_log := dev_log p @ [Some bs], qmi_proxy_ctl_msg := [?x]\<rparr>"
  have "queue_ctl_msg os ?b ?x (p\<lparr>proxy_qmi_buf := ?b\<rparr>) = Some ?q"
    using queue_ctl [OF assms(1), of ?b ?x "p\<lparr>proxy_qmi_buf := ?b\<rparr>"] c assms(4) by simp
  moreover have "rdn ?b 0 7 = Some bs" "rd8 ?b 4 = Some QMUX_TYPE_CTL" "rd16 ?b 1 = Some 6"
    using b by (simp_all add: rdn_def rd8_def rd16_def le16_def assms(5))
  moreover have "proxy_read bs p = Some (7, p\<lparr>proxy_qmi_buf := ?b\<rparr>)"
    using st(2) len by (simp add: proxy_read_def wr_def buf_after_def)
  ultimately have h: "proxy_event_step os (ClientRead fd bs) p = Some (Continue, ?q)"
    using t assms(1,2) st(1) by (auto simp: recv_qmi_from_client_def writable_def)
  have run: "proxy_run (\<lambda>_ _. True) os server_fd (sub @ submits (ClientRead fd bs) p) ?q"
    by (rule run_event [OF run_mono [OF assms(3)] _ h]) simp_all
  note rs = read_sized [OF run assms(7)]
  have n: "rd8 (buf_after m ?q) i = Some (m ! i)" if "i < 12" for i
    using carries_nth [OF rs(2)] that assms(7) by (simp add: qmi_sized_def)
  have "rd8 bs 7 = None" by (simp add: rd8_def assms(5))
  then have "recv_qmi_from_dev os (buf_after m ?q) (?q\<lparr>proxy_qmi_buf := buf_after m ?q\<rparr>) = None"
    using n [of 4] n [of 6] st(1) assms(2,8,9) by (simp add: recv_qmi_from_dev_def recv_ctl_rsp_def)
  then have "proxy_event_step os (DevRead m) ?q = None" using rs(1,4) by auto
  then show ?thesis using h by blast
qed

theorem proxy_short_request_fault_witness:
  "\<exists>q. proxy_event_step sample_os (ClientRead 7 [1, 6, 0, 0, 0, 0, 0]) two_clients = Some (Continue, q)
     \<and> proxy_event_step sample_os (DevRead (get_client_rsp 1 1 4)) q = None"
proof -
  have "rd16 (proxy_qmi_buf two_clients) 8 = Some 0"
    by (simp add: two_clients_def proxy_start_def rd16_def rd8_def le16_def)
  then show ?thesis
    using proxy_short_request_fault [OF sample_os_writable _ two_clients_run _ refl, where ?b0.0 = 1 and ?b3.0 = 0 and ?b5.0 = 0 and ?b6.0 = 0
        and m = "get_client_rsp 1 1 4" and fd = 7]
    by (simp add: get_client_rsp_sized two_clients_def proxy_start_def del: proxy_event_step.simps)
qed

end
