(* ===== verification/Qmap_Mode.thy ===== *)
theory Qmap_Mode
  imports Net_Config Qmi_Requests
begin

text \<open>
  Multiplexing mode and bridge mode of the driver (\<^verbatim>\<open>qmap_bridge_mode.c\<close>, and \<^verbatim>\<open>ql_get_driver_rmnet_info\<close> of \<^verbatim>\<open>util.c\<close>). Files
  are read through the parameter \<open>os\<close>; \<open>dev_sys\<close> adds the targets of symbolic links, the entries of directories, the answer of
  the driver to the private \<^verbatim>\<open>ioctl\<close>, and what the stack holds. \<open>config_qrtr\<close> is the build option \<^verbatim>\<open>CONFIG_QRTR\<close>. Bytes of the
  files are below 128, so it does not matter whether \<^verbatim>\<open>char\<close> is signed.
\<close>

record dev_sys =
  link_target :: "cstr \<Rightarrow> cstr option"
  dir_entries :: "cstr \<Rightarrow> cstr list option"
  rmnet_ioctl :: "cstr \<Rightarrow> RMNET_INFO option"
  stack_junk :: buf

definition readable :: "net_os \<Rightarrow> net_op list \<Rightarrow> cstr \<Rightarrow> bool" where
  "readable os t path \<longleftrightarrow> (case sys_file os t path of Content _ \<Rightarrow> True | _ \<Rightarrow> False)"

definition exists_file :: "net_os \<Rightarrow> net_op list \<Rightarrow> cstr \<Rightarrow> bool" where
  "exists_file os t path \<longleftrightarrow> sys_file os t path \<noteq> Missing"

definition net_path :: "cstr \<Rightarrow> string \<Rightarrow> cstr" where
  "net_path ifname file = ascii ''/sys/class/net/'' @ ifname @ ascii file"

definition qmidev_is_qmiwwan :: "cstr \<Rightarrow> bool" where
  "qmidev_is_qmiwwan ch \<longleftrightarrow> take (length ''/dev/cdc-wdm'') ch = ascii ''/dev/cdc-wdm''"

subsection \<open>The raw IP mode, the driver type and the bridge mode\<close>

text \<open>The interface name is cut to 15 characters; without an answer the record is zero.\<close>

definition ql_get_driver_rmnet_info :: "dev_sys \<Rightarrow> PROFILE_T \<Rightarrow> RMNET_INFO" where
  "ql_get_driver_rmnet_info sys profile =
     (case rmnet_ioctl sys (take 15 (usbnet_adapter profile)) of None \<Rightarrow> rmnet_zero | Some i \<Rightarrow> i)"

definition ql_enable_qmi_wwan_rawip_mode :: "net_os \<Rightarrow> PROFILE_T \<Rightarrow> net_op list \<Rightarrow> int \<times> net_op list" where
  "ql_enable_qmi_wwan_rawip_mode os profile t =
     (if \<not> qmidev_is_qmiwwan (qmichannel profile) then (0, t)
      else (let filename = snprintf 256 (net_path (usbnet_adapter profile) ''/qmi/rawip''); (n, b) = ql_fread os t filename 4
            in if n = 0 \<or> b ! 0 = 49 \<or> b ! 0 = 89 then (0, t)
               else if \<not> can_write os filename then (1, t) else (0, t @ [WriteFile filename [89]])))"

definition ql_driver_type_detect :: "PROFILE_T \<Rightarrow> int \<times> PROFILE_T" where
  "ql_driver_type_detect profile =
     (0, profile\<lparr>qmi_ops := Some (if qmidev_is_gobinet (qmichannel profile) then gobi_qmidev_ops else qmiwwan_qmidev_ops)\<rparr>)"

text \<open>All 16 bytes of the array are written, the last 12 of which were never set.\<close>

definition ql_set_driver_bridge_mode :: "net_os \<Rightarrow> dev_sys \<Rightarrow> PROFILE_T \<Rightarrow> net_op list \<Rightarrow> net_op list" where
  "ql_set_driver_bridge_mode os sys profile t =
     (let ifname = (if qmap_mode profile \<noteq> 0 then qmapnet_adapter profile else usbnet_adapter profile)
      in ql_fwrite os (snprintf 256 (net_path ifname ''/bridge_mode''))
           ([48, if enable_bridge profile then 49 else 48, 10, 0] @ take 12 (stack_junk sys)) t)"

subsection \<open>QMI\<close>

text \<open>\<^verbatim>\<open>readlink\<close> into 510 bytes: its result is used as an index at once, and the search for the last slash has no other end.\<close>

definition driver_of_link :: "cstr option \<Rightarrow> cstr access" where
  "driver_of_link l =
     (case l of
        None \<Rightarrow> None
      | Some d \<Rightarrow> (let d = take 510 d
                  in if length d = 510 \<or> 47 \<notin> set d then None
                     else Some (take 31 (rev (takeWhile (\<lambda>c. c \<noteq> 47) (rev d))))))"

definition nth_int :: "'a list \<Rightarrow> int \<Rightarrow> 'a access" where
  "nth_int xs i = (if 0 \<le> i \<and> i < int (length xs) then Some (xs ! nat i) else None)"

definition rmnet_detect :: "PROFILE_T \<Rightarrow> PROFILE_T access" where
  "rmnet_detect profile =
     (let info = rmnet_info profile; profile = profile\<lparr>qmap_mode := sint (ri_qmap_mode info)\<rparr>
      in if qmap_mode profile = 0 then Some profile
         else (let offset_id = (if muxid profile = 0 then pdp profile - 1 else muxid profile - 0x81);
                   offset_id = (if qmap_mode profile = 1 then 0 else offset_id)
               in do {
                 m \<leftarrow> nth_int (ri_mux_id info) offset_id;
                 ifname \<leftarrow> nth_int (ri_ifname info) offset_id;
                 Some (profile\<lparr>muxid := uint m, qmapnet_adapter := take 31 ifname, qmap_size := sint (ri_rx_urb_size info),
                               prof_qmap_version := sint (ri_qmap_version info)\<rparr>) }))"

text \<open>The first of several paths that is not missing; one that may not be read ends the search (\<open>None\<close>), and without any the
  last one remains.\<close>

fun probe_paths :: "net_os \<Rightarrow> net_op list \<Rightarrow> cstr list \<Rightarrow> cstr option" where
  "probe_paths os t [] = None"
| "probe_paths os t (p # ps) =
     (case sys_file os t p of
        Content _ \<Rightarrow> Some p
      | Denied \<Rightarrow> None
      | Missing \<Rightarrow> if ps = [] then Some p else probe_paths os t ps)"

definition qmap_mode_file :: "buf \<Rightarrow> PROFILE_T \<Rightarrow> PROFILE_T" where
  "qmap_mode_file b profile =
     (let profile = profile\<lparr>qmap_mode := c_atoi b\<rparr>
      in if 1 < qmap_mode profile
         then (let m = (if muxid profile = 0 then pdp profile + 0x80 else muxid profile)
               in profile\<lparr>muxid := m,
                    qmapnet_adapter := snprintf 32 (take 16 (usbnet_adapter profile) @ [46] @ int_of (m - 0x80))\<rparr>)
         else if qmap_mode profile = 1 then profile\<lparr>muxid := 0x81, qmapnet_adapter := usbnet_adapter profile\<rparr>
         else profile)"

text \<open>The identifier in line \<open>i\<close> of \<^verbatim>\<open>add_mux\<close>, whose lines have the form \<^verbatim>\<open>0x11\<close> and five bytes each.\<close>

definition mux_line_id :: "buf \<Rightarrow> int \<Rightarrow> int access" where
  "mux_line_id b i = do {
     x \<leftarrow> nth_int b (5 * i + 2);
     y \<leftarrow> nth_int b (5 * i + 3);
     Some ((uint x - 48) * 16 + (uint y - 48)) }"

definition add_mux_file :: "nat \<Rightarrow> buf \<Rightarrow> PROFILE_T \<Rightarrow> PROFILE_T access" where
  "add_mux_file n b profile =
     (let profile = profile\<lparr>qmap_mode := int n div 5\<rparr>; qmimux = (\<lambda>i. snprintf 32 (ascii ''qmimux'' @ int_of i))
      in if 1 < qmap_mode profile then
           (if muxid profile = 0
            then do { m \<leftarrow> mux_line_id b (pdp profile - 1);
                      Some (profile\<lparr>muxid := m, qmapnet_adapter := qmimux (pdp profile - 1)\<rparr>) }
            else do { m \<leftarrow> mux_line_id b (muxid profile - 0x81);
                      Some (profile\<lparr>muxid := m, qmapnet_adapter := qmimux (m - 0x81)\<rparr>) })
         else if qmap_mode profile = 1
         then do { m \<leftarrow> mux_line_id b 0; Some (profile\<lparr>muxid := m, qmapnet_adapter := qmimux 0\<rparr>) }
         else Some profile)"

definition qmi_qmap_files :: "net_os \<Rightarrow> PROFILE_T \<Rightarrow> net_op list \<Rightarrow> PROFILE_T access" where
  "qmi_qmap_files os profile t =
     (case probe_paths os t (map (snprintf 510)
             [net_path (usbnet_adapter profile) ''/qmap_mode'',
              ascii ''/sys/module/'' @ driver_name profile @ ascii ''/parameters/qmap_mode'',
              net_path (usbnet_adapter profile) ''/device/driver/module/parameters/qmap_mode'']) of
        None \<Rightarrow> Some profile
      | Some filename \<Rightarrow>
          if readable os t filename then
            (let (n, b) = ql_fread os t filename 128 in Some (if 0 < n then qmap_mode_file b profile else profile))
          else if qmidev_is_qmiwwan (qmichannel profile) then
            (if readable os t (snprintf 510 (ascii ''/sys/class/net/qmimux'' @ int_of (pdp profile - 1))) then
               (let (n, b) = ql_fread os t (snprintf 510 (net_path (usbnet_adapter profile) ''/qmi/add_mux'')) 128
                in if 5 \<le> n then add_mux_file n b profile else Some profile)
             else Some profile)
          else Some profile)"

definition qmap_defaults :: "net_os \<Rightarrow> PROFILE_T \<Rightarrow> net_op list \<Rightarrow> PROFILE_T" where
  "qmap_defaults os profile t =
     (if qmap_mode profile = 0 then profile
      else (let filename = snprintf 510 (net_path (usbnet_adapter profile) ''/qmap_size'');
                (n, b) = ql_fread os t filename 32;
                profile = (if qmap_size profile \<noteq> 0 then profile
                           else profile\<lparr>qmap_size := if readable os t filename \<and> 0 < n then c_atoi b else 16 * 1024\<rparr>)
            in if prof_qmap_version profile = 0 then profile\<lparr>prof_qmap_version := 5\<rparr> else profile))"

definition ql_qmi_qmap_mode_detect :: "net_os \<Rightarrow> dev_sys \<Rightarrow> PROFILE_T \<Rightarrow> net_op list \<Rightarrow> (PROFILE_T \<times> net_op list) access" where
  "ql_qmi_qmap_mode_detect os sys profile t = do {
     d \<leftarrow> driver_of_link (link_target sys (snprintf 510 (net_path (usbnet_adapter profile) ''/device/driver'')));
     let profile = profile\<lparr>driver_name := d, rmnet_info := ql_get_driver_rmnet_info sys profile\<rparr>;
     profile \<leftarrow> (if ri_size (rmnet_info profile) \<noteq> 0 then rmnet_detect profile else qmi_qmap_files os profile t);
     let profile = qmap_defaults os profile t;
     Some (profile, ql_set_driver_bridge_mode os sys profile t) }"

subsection \<open>MBIM and QRTR\<close>

definition ql_mbim_usb_vlan_mode_detect :: "net_os \<Rightarrow> PROFILE_T \<Rightarrow> net_op list \<Rightarrow> PROFILE_T" where
  "ql_mbim_usb_vlan_mode_detect os profile t =
     (let tmp = snprintf 128 (ascii ''/sys/class/net/'' @ usbnet_adapter profile @ [46] @ int_of (pdp profile))
      in if exists_file os t tmp
         then profile\<lparr>qmap_mode := 4, muxid := pdp profile, qmapnet_adapter := take 31 (drop 15 tmp)\<rparr> else profile)"

definition ql_mbim_mhi_qmap_mode_detect :: "dev_sys \<Rightarrow> PROFILE_T \<Rightarrow> PROFILE_T access" where
  "ql_mbim_mhi_qmap_mode_detect sys profile =
     (let info = ql_get_driver_rmnet_info sys profile; profile = profile\<lparr>rmnet_info := info\<rparr>
      in if ri_size info = 0 then Some profile
         else (let profile = profile\<lparr>qmap_mode := sint (ri_qmap_mode info)\<rparr>
               in if qmap_mode profile = 0 then Some profile
                  else do {
                    ifname \<leftarrow> nth_int (ri_ifname info) (if qmap_mode profile = 1 then 0 else pdp profile - 1);
                    Some (profile\<lparr>muxid := pdp profile, qmapnet_adapter := ifname, qmap_size := sint (ri_rx_urb_size info),
                                  prof_qmap_version := sint (ri_qmap_version info)\<rparr>) }))"

definition qrtr_qmap :: "net_os \<Rightarrow> PROFILE_T \<Rightarrow> net_op list \<Rightarrow> PROFILE_T \<times> net_op list" where
  "qrtr_qmap os profile t =
     (let m = 0x80 OR pdp profile; ifname = snprintf 32 (ascii ''rmnet_data'' @ int_of (m AND 0xF));
          profile = profile\<lparr>qmap_mode := 4, prof_qmap_version := 9, qmap_size := 31 * 1024, muxid := m, qmapnet_adapter := ifname\<rparr>
      in (profile, if exists_file os t (snprintf 128 (net_path ifname '''')) then t
                   else t @ [CreateVnd (usbnet_adapter profile) ifname m 9]))"

definition ql_qmap_mode_detect ::
  "bool \<Rightarrow> net_os \<Rightarrow> dev_sys \<Rightarrow> PROFILE_T \<Rightarrow> net_op list \<Rightarrow> (PROFILE_T \<times> net_op list) access" where
  "ql_qmap_mode_detect config_qrtr os sys profile t =
     (case software_interface profile of
        SOFTWARE_MBIM \<Rightarrow>
          (case hardware_interface profile of
             HARDWARE_USB \<Rightarrow> Some (ql_mbim_usb_vlan_mode_detect os profile t, t)
           | HARDWARE_PCIE \<Rightarrow> map_option (\<lambda>p. (p, t)) (ql_mbim_mhi_qmap_mode_detect sys profile)
           | _ \<Rightarrow> Some (profile, t))
      | SOFTWARE_QMI \<Rightarrow> ql_qmi_qmap_mode_detect os sys profile t
      | SOFTWARE_QRTR \<Rightarrow> Some (if config_qrtr then qrtr_qmap os profile t else (profile, t))
      | _ \<Rightarrow> Some (profile, t))"

end
