(* ===== verification/Qmap_Props.thy ===== *)
theory Qmap_Props
  imports Qmap_Mode
begin

text \<open>
  The multiplexing channel of the upstream \<^verbatim>\<open>qmi_wwan\<close> driver: \<^verbatim>\<open>ql_qmi_qmap_mode_detect\<close> reads the identifiers from \<^verbatim>\<open>add_mux\<close>, one
  line per channel.
\<close>

subsection \<open>Lines of \<^verbatim>\<open>add_mux\<close>\<close>

text \<open>The driver prints an identifier with \<^verbatim>\<open>0x%02x\<close> and a line end.\<close>

definition mux_line :: "byte \<Rightarrow> buf" where
  "mux_line b = [48, 120, hex_digit (unat b div 16), hex_digit (unat b mod 16), 10]"

definition mux_text :: "byte list \<Rightarrow> buf" where
  "mux_text ids = concat (map mux_line ids)"

lemma length_mux_text [simp]: "length (mux_text ids) = 5 * length ids"
  by (induction ids) (simp_all add: mux_text_def mux_line_def)

lemma nth_int_nat: "nth_int xs (int n) = (if n < length xs then Some (xs ! n) else None)"
  by (simp add: nth_int_def)

lemma mux_text_nth:
  "k < length ids \<Longrightarrow> j < 5 \<Longrightarrow> mux_text ids ! (5 * k + j) = mux_line (ids ! k) ! j"
proof (induction ids arbitrary: k)
  case (Cons b ids)
  have l: "length (mux_line b) = 5"
    by (simp add: mux_line_def)
  show ?case
  proof (cases k)
    case 0
    then show ?thesis
      using Cons.prems(2) l by (simp add: mux_text_def nth_append)
  next
    case (Suc m)
    then show ?thesis
      using Cons.IH [of m] Cons.prems l by (simp add: mux_text_def nth_append)
  qed
qed simp

text \<open>What the subtraction of \<^verbatim>\<open>'0'\<close> makes of a digit: letters are 39 too large.\<close>

lemma hex_digit_minus: "n < 16 \<Longrightarrow> uint (hex_digit n) - 48 = int n + (if n < 10 then 0 else 39)"
proof -
  assume "n < 16"
  then have "unat (hex_digit n) = (if n < 10 then 48 + n else 87 + n)"
    unfolding hex_digit_def unat_of_nat_byte by simp
  moreover have "uint (hex_digit n) = int (unat (hex_digit n))"
    by simp
  ultimately show ?thesis
    by simp
qed

definition misread :: "byte \<Rightarrow> int" where
  "misread b = (if unat b div 16 < 10 then 0 else 624) + (if unat b mod 16 < 10 then 0 else 39)"

lemma mux_line_id_text:
  assumes "k < length ids"
  shows "mux_line_id (mux_text ids @ zs) (int k) = Some (uint (ids ! k) + misread (ids ! k))"
proof -
  let ?b = "ids ! k"
  have "nth_int (mux_text ids @ zs) (5 * int k + int j) = Some (mux_line ?b ! j)" if "j < 5" for j
  proof -
    have "5 * k + j < 5 * length ids"
      using assms that by linarith
    then show ?thesis
      using nth_int_nat [of "mux_text ids @ zs" "5 * k + j"] mux_text_nth [OF assms that] by (simp add: nth_append)
  qed
  from this [of 2] this [of 3]
  have "mux_line_id (mux_text ids @ zs) (int k)
      = Some ((uint (hex_digit (unat ?b div 16)) - 48) * 16 + (uint (hex_digit (unat ?b mod 16)) - 48))"
    by (simp add: mux_line_id_def mux_line_def)
  moreover have "unat ?b div 16 < 16" "unat ?b mod 16 < 16"
    using unat_byte_lt [of ?b] by (simp_all add: less_mult_imp_div_less)
  moreover have "int (unat ?b div 16) * 16 + int (unat ?b mod 16) = uint ?b"
    by (metis div_mult_mod_eq of_nat_add of_nat_mult of_nat_numeral uint_nat)
  ultimately show ?thesis
    by (simp only: hex_digit_minus) (simp add: misread_def)
qed

subsection \<open>Detection\<close>

text \<open>A driver with the channels \<open>ids\<close>, and none of the other signs of multiplexing.\<close>

definition add_mux_driver :: "net_os \<Rightarrow> dev_sys \<Rightarrow> net_op list \<Rightarrow> PROFILE_T \<Rightarrow> byte list \<Rightarrow> bool" where
  "add_mux_driver os sys t p ids \<longleftrightarrow>
     (let name = usbnet_adapter p; link = link_target sys (snprintf 510 (net_path name ''/device/driver''))
      in driver_of_link link \<noteq> None \<and> rmnet_ioctl sys (take 15 name) = None \<and> qmidev_is_qmiwwan (qmichannel p) \<and>
         sys_file os t (snprintf 510 (net_path name ''/qmap_mode'')) = Missing \<and>
         sys_file os t (snprintf 510 (ascii ''/sys/module/'' @ the (driver_of_link link) @ ascii ''/parameters/qmap_mode'')) = Missing \<and>
         sys_file os t (snprintf 510 (net_path name ''/device/driver/module/parameters/qmap_mode'')) = Missing \<and>
         readable os t (snprintf 510 (ascii ''/sys/class/net/qmimux'' @ int_of (pdp p - 1))) \<and>
         sys_file os t (snprintf 510 (net_path name ''/qmi/add_mux'')) = Content (mux_text ids))"

lemma add_mux_files:
  assumes "add_mux_driver os sys t p ids" "2 \<le> length ids" "length ids \<le> 25" "muxid p = 0" "pdp p = int k + 1" "k < length ids"
    and "driver_of_link (link_target sys (snprintf 510 (net_path (usbnet_adapter p) ''/device/driver''))) = Some drv"
  shows "qmi_qmap_files os (p\<lparr>driver_name := drv, rmnet_info := i\<rparr>) t
    = Some (p\<lparr>driver_name := drv, rmnet_info := i, qmap_mode := int (length ids), muxid := uint (ids ! k) + misread (ids ! k),
              qmapnet_adapter := snprintf 32 (ascii ''qmimux'' @ int_of (int k))\<rparr>)"
proof -
  have l: "length (mux_text ids) \<le> 128"
    using assms(3) by simp
  show ?thesis
    using assms l mux_line_id_text [OF assms(6)]
    by (auto simp: qmi_qmap_files_def add_mux_driver_def readable_def ql_fread_def add_mux_file_def Let_def)
qed

lemma qmimux_fits: "k < 100 \<Longrightarrow> snprintf 32 (ascii ''qmimux'' @ int_of (int k)) = ascii ''qmimux'' @ int_of (int k)"
proof -
  assume "k < 100"
  then have "length (dec_of k) \<le> 2"
    by (simp add: dec_of.simps [of k] dec_of.simps [of "k div 10"] less_mult_imp_div_less)
  then show ?thesis
    by (simp add: snprintf_def int_of_def)
qed

text \<open>C24: on the upstream driver, with the channels of \<^verbatim>\<open>add_mux\<close> and no identifier given by the user, the mode is the number of
  the channels and the adapter is the one of the user's channel. The identifier is the one the driver printed for that
  channel exactly if both of its hexadecimal digits are decimal; a letter makes it too large.\<close>

theorem add_mux_channel:
  assumes "add_mux_driver os sys t p ids" "2 \<le> length ids" "length ids \<le> 25" "muxid p = 0" "pdp p = int k + 1" "k < length ids"
  shows "\<exists>q u. ql_qmi_qmap_mode_detect os sys p t = Some (q, u) \<and> qmap_mode q = int (length ids) \<and>
    qmapnet_adapter q = ascii ''qmimux'' @ int_of (int k) \<and> prof_qmap_version q \<noteq> 0 \<and>
    (muxid q = uint (ids ! k) \<longleftrightarrow> unat (ids ! k) div 16 < 10 \<and> unat (ids ! k) mod 16 < 10)"
proof -
  obtain drv where drv: "driver_of_link (link_target sys (snprintf 510 (net_path (usbnet_adapter p) ''/device/driver''))) = Some drv"
    using assms(1) by (auto simp: add_mux_driver_def Let_def)
  let ?p = "p\<lparr>driver_name := drv, rmnet_info := rmnet_zero, qmap_mode := int (length ids), muxid := uint (ids ! k) + misread (ids ! k),
      qmapnet_adapter := snprintf 32 (ascii ''qmimux'' @ int_of (int k))\<rparr>"
  have z: "ql_get_driver_rmnet_info sys p = rmnet_zero" "ri_size rmnet_zero = 0"
    using assms(1) by (simp_all add: ql_get_driver_rmnet_info_def add_mux_driver_def Let_def rmnet_zero_def)
  have "ql_qmi_qmap_mode_detect os sys p t
      = Some (qmap_defaults os ?p t, ql_set_driver_bridge_mode os sys (qmap_defaults os ?p t) t)"
    unfolding ql_qmi_qmap_mode_detect_def drv z Let_def
    using add_mux_files [OF assms drv, of rmnet_zero] z(2) by simp
  moreover have "qmap_mode (qmap_defaults os ?p t) = int (length ids)" "muxid (qmap_defaults os ?p t) = uint (ids ! k) + misread (ids ! k)"
    "qmapnet_adapter (qmap_defaults os ?p t) = ascii ''qmimux'' @ int_of (int k)" "prof_qmap_version (qmap_defaults os ?p t) \<noteq> 0"
    using assms(2,3,6) qmimux_fits [of k] by (auto simp: qmap_defaults_def Let_def split: prod.split)
  moreover have "misread (ids ! k) = 0 \<longleftrightarrow> unat (ids ! k) div 16 < 10 \<and> unat (ids ! k) mod 16 < 10"
    by (simp add: misread_def)
  ultimately show ?thesis
    by auto
qed

definition sample_mux_os :: net_os where
  "sample_mux_os = \<lparr>can_exec = (\<lambda>_. True),
     sys_file = (\<lambda>t f. if f = net_path (ascii ''wwan0'') ''/qmi/add_mux'' then Content (mux_text [0x81, 0x82])
                       else if f = net_path (ascii ''qmimux1'') [] then Content [] else Missing),
     if_addr = (\<lambda>t i. None), if_mtu = (\<lambda>t i. None), if_up = (\<lambda>t i. True), can_write = (\<lambda>f. True), route_dels = 0\<rparr>"

definition sample_mux_sys :: dev_sys where
  "sample_mux_sys = \<lparr>link_target = (\<lambda>f. Some (ascii ''drivers/qmi_wwan'')), dir_entries = (\<lambda>f. None), rmnet_ioctl = (\<lambda>f. None),
     stack_junk = []\<rparr>"

definition sample_mux_profile :: PROFILE_T where
  "sample_mux_profile = s_profile\<lparr>pdp := 2, usbnet_adapter := ascii ''wwan0'', qmichannel := ascii ''/dev/cdc-wdm0''\<rparr>"

lemma sample_mux_driver: "add_mux_driver sample_mux_os sample_mux_sys [] sample_mux_profile [0x81, 0x82]"
  by code_simp

theorem add_mux_channel_witness:
  "\<exists>q u. ql_qmi_qmap_mode_detect sample_mux_os sample_mux_sys sample_mux_profile [] = Some (q, u) \<and> qmap_mode q = 2 \<and> muxid q = 0x82"
  using add_mux_channel [OF sample_mux_driver, of 1] by (auto simp: sample_mux_profile_def s_profile_def)

end
