(* ===== verification/Device.thy ===== *)
theory Device
  imports Qmap_Mode At_Tok
begin

text \<open>
  Detection of the modem (\<^verbatim>\<open>device.c\<close>) and \<^verbatim>\<open>quectel_CM\<close> of \<^verbatim>\<open>main.c\<close>, which detects the modem, chooses the tables of the
  back end and runs \<^verbatim>\<open>qmi_main\<close>. The directory tree under \<^verbatim>\<open>/sys\<close> is a parameter; directory entries have at most 255 bytes, so the
  paths that are put together fit their arrays of 510 bytes. \<^verbatim>\<open>int\<close> has 32 and \<^verbatim>\<open>long\<close> 64 bits.
\<close>

subsection \<open>Files and directories\<close>

abbreviation (input) "CM_INVALID_VAL \<equiv> (- 1 :: int)"

text \<open>\<^verbatim>\<open>fgets\<close> with room for \<open>n\<close> characters: a line with its line end, or a part of it, and the rest of the file.\<close>

definition c_fgets :: "nat \<Rightarrow> buf \<Rightarrow> buf \<times> buf" where
  "c_fgets n s =
     (let l = takeWhile (\<lambda>c. c \<noteq> 10) s; l = (if length l < length s then l @ [10] else l); k = min n (length l)
      in (take k s, drop k s))"

lemma c_fgets_shorter: "s \<noteq> [] \<Longrightarrow> 0 < n \<Longrightarrow> length (snd (c_fgets n s)) < length s"
  by (cases s) (auto simp: c_fgets_def Let_def)

lemma c_fgets_rest: "(l, r) = c_fgets n s \<Longrightarrow> s \<noteq> [] \<Longrightarrow> 0 < n \<Longrightarrow> length r < length s"
  by (metis c_fgets_shorter snd_conv)

text \<open>A first line without a number leads to a second \<^verbatim>\<open>fclose\<close> of the file, which is a fault. The test for \<^verbatim>\<open>ERANGE\<close> compares a
  value that was converted to \<^verbatim>\<open>int\<close> with \<^verbatim>\<open>LONG_MAX\<close> and \<^verbatim>\<open>LONG_MIN\<close>, so it never holds.\<close>

definition file_get_value :: "net_os \<Rightarrow> net_op list \<Rightarrow> cstr \<Rightarrow> int \<Rightarrow> int access" where
  "file_get_value os t fname base =
     (case sys_file os t fname of
        Content c \<Rightarrow>
          if c = [] then Some CM_INVALID_VAL
          else (case strtol base (cstr_of (fst (c_fgets 32 c))) of
                  None \<Rightarrow> None
                | Some num \<Rightarrow> Some (sint (word_of_int num :: u32)))
      | _ \<Rightarrow> Some CM_INVALID_VAL)"

definition dir_get_child :: "dev_sys \<Rightarrow> cstr \<Rightarrow> nat \<Rightarrow> cstr \<Rightarrow> cstr" where
  "dir_get_child sys dirname bufsize pre =
     (case dir_entries sys dirname of
        None \<Rightarrow> []
      | Some es \<Rightarrow>
          (case find (\<lambda>e. (e = [] \<or> e ! 0 \<noteq> 46) \<and> take (length pre) e = pre) es of
             None \<Rightarrow> []
           | Some e \<Rightarrow> snprintf bufsize (take 31 e)))"

text \<open>\<^verbatim>\<open>sscanf(buff, "%15[^=]=%15s", prefix, tail)\<close>: both texts are empty unless they are scanned.\<close>

definition scan_assignment :: "cstr \<Rightarrow> cstr \<times> cstr" where
  "scan_assignment s =
     (let p = take 15 (takeWhile (\<lambda>c. c \<noteq> 61) s); r = drop (length p) s
      in (p, if p \<noteq> [] \<and> r \<noteq> [] \<and> r ! 0 = 61
             then take 15 (takeWhile (\<lambda>c. \<not> c_isspace c) (dropWhile c_isspace (tl r))) else []))"

definition fold_case :: "cstr \<Rightarrow> cstr" where
  "fold_case s = map (\<lambda>c. if 65 \<le> c \<and> c \<le> 90 then c + 32 else c) s"

function conf_lines :: "cstr \<Rightarrow> buf \<Rightarrow> int" where
  "conf_lines key s =
     (if s = [] then CM_INVALID_VAL
      else (let (line, rest) = c_fgets 126 s; (p, v) = scan_assignment (cstr_of line)
            in if fold_case (take (length key) p) = fold_case key then c_atoi v else conf_lines key rest))"
  by pat_completeness auto
termination
  by (relation "measure (length \<circ> snd)") (auto dest: c_fgets_rest)

declare conf_lines.simps [simp del]

definition conf_get_val :: "net_os \<Rightarrow> net_op list \<Rightarrow> cstr \<Rightarrow> cstr \<Rightarrow> int" where
  "conf_get_val os t fname key = (case sys_file os t fname of Content c \<Rightarrow> conf_lines key c | _ \<Rightarrow> CM_INVALID_VAL)"

subsection \<open>The USB device and its interface\<close>

definition query_usb_device_info :: "net_os \<Rightarrow> net_op list \<Rightarrow> cstr \<Rightarrow> usb_device_info access" where
  "query_usb_device_info os t path = do {
     vendor \<leftarrow> file_get_value os t (path @ ascii ''/idVendor'') 16;
     let p = \<lparr>idVendor = vendor, idProduct = 0, busnum = 0, devnum = 0, bNumInterfaces = 0\<rparr>;
     if vendor = CM_INVALID_VAL then Some p
     else do {
       product \<leftarrow> file_get_value os t (path @ ascii ''/idProduct'') 16;
       bus \<leftarrow> file_get_value os t (path @ ascii ''/busnum'') 10;
       dev \<leftarrow> file_get_value os t (path @ ascii ''/devnum'') 10;
       n \<leftarrow> file_get_value os t (path @ ascii ''/bNumInterfaces'') 10;
       Some (p\<lparr>idProduct := product, busnum := bus, devnum := dev, bNumInterfaces := n\<rparr>) } }"

text \<open>\<^verbatim>\<open>readlink\<close> into 128 bytes, and a terminator behind what it stored; the name begins behind the last slash, or behind the first
  character if there is none.\<close>

definition interface_driver :: "cstr option \<Rightarrow> cstr access" where
  "interface_driver l =
     (case l of
        None \<Rightarrow> Some []
      | Some d \<Rightarrow> (let d = take 128 d
                  in if d = [] then Some [] else if length d = 128 then None
                     else Some (take 31 (if 47 \<in> set (tl d) then rev (takeWhile (\<lambda>c. c \<noteq> 47) (rev d)) else tl d))))"

text \<open>The number of endpoints is stored in \<^verbatim>\<open>bInterfaceClass\<close>, which is overwritten; \<^verbatim>\<open>bNumEndpoints\<close> stays 0.\<close>

definition query_usb_interface_info :: "net_os \<Rightarrow> dev_sys \<Rightarrow> net_op list \<Rightarrow> cstr \<Rightarrow> usb_interface_info access" where
  "query_usb_interface_info os sys t path = do {
     _ \<leftarrow> file_get_value os t (path @ ascii ''/bNumEndpoints'') 16;
     cl \<leftarrow> file_get_value os t (path @ ascii ''/bInterfaceClass'') 16;
     sub \<leftarrow> file_get_value os t (path @ ascii ''/bInterfaceSubClass'') 16;
     pr \<leftarrow> file_get_value os t (path @ ascii ''/bInterfaceProtocol'') 16;
     d \<leftarrow> interface_driver (link_target sys (path @ ascii ''/driver''));
     Some \<lparr>bNumEndpoints = 0, bInterfaceClass = cl, bInterfaceSubClass = sub, bInterfaceProtocol = pr, intf_driver = d\<rparr> }"

definition get_driver_type :: "PROFILE_T \<Rightarrow> drv_type" where
  "get_driver_type profile =
     (let i = usb_intf profile
      in if bInterfaceClass i = 0xff then SOFTWARE_QMI
         else if bInterfaceClass i = 2 then
           (if bInterfaceSubClass i = 0x0e then SOFTWARE_MBIM
            else if bInterfaceSubClass i = 0x06 \<or> bInterfaceSubClass i = 0x0d then SOFTWARE_ECM_RNDIS_NCM
            else DRV_INVALID)
         else if bInterfaceClass i = 0xe0 \<and> bInterfaceSubClass i = 1 \<and> bInterfaceProtocol i = 3 then SOFTWARE_ECM_RNDIS_NCM
         else DRV_INVALID)"

subsection \<open>The control channel\<close>

definition device_number :: "int \<Rightarrow> int \<Rightarrow> int" where
  "device_number major minor = push_bit 8 (major AND 0xfff) OR (minor AND 0xff) OR push_bit 12 (minor AND 0xfff00)"

text \<open>The device file of a directory with the control channel, and the node that is made if there is none.\<close>

definition detect_path_cdc_wdm_or_qcqmi :: "net_os \<Rightarrow> dev_sys \<Rightarrow> cstr \<Rightarrow> net_op list \<Rightarrow> cstr \<times> net_op list" where
  "detect_path_cdc_wdm_or_qcqmi os sys path t =
     (if \<not> readable os t path then ([], t)
      else (case find (readable os t) [path @ ascii ''/GobiQMI'', path @ ascii ''/usbmisc'', path @ ascii ''/usb''] of
              None \<Rightarrow> ([], t)
            | Some dir \<Rightarrow>
                (let tmp = dir_get_child sys dir 32 []
                 in if tmp = [] then ([], t)
                    else (let devname = snprintf 37 (ascii ''/dev/'' @ tmp);
                              uevent = dir @ [47] @ tmp @ ascii ''/uevent'';
                              major = conf_get_val os t uevent (ascii ''MAJOR''); minor = conf_get_val os t uevent (ascii ''MINOR'')
                          in (devname,
                              if exists_file os t devname \<or> major = CM_INVALID_VAL \<or> minor = CM_INVALID_VAL then t
                              else t @ [Mknod devname (device_number major minor)])))))"

text \<open>The interface with the AT port of the modems that have no control channel.\<close>

definition at_interface :: "usb_device_info \<Rightarrow> int option" where
  "at_interface d =
     (if idVendor d \<noteq> 0x2c7c then None
      else if idProduct d \<in> {0x0901, 0x0904, 0x8101, 0x6007} then Some 2
      else if idProduct d = 0x0900 then Some 4
      else if idProduct d \<in> {0x6026, 0x6005, 0x6002, 0x6001} then Some 3 else None)"

definition at_port :: "dev_sys \<Rightarrow> (int \<Rightarrow> cstr) \<Rightarrow> int \<Rightarrow> cstr" where
  "at_port sys intf_path atIntf =
     (let devname = dir_get_child sys (intf_path atIntf) 37 (ascii ''tty'')
      in if devname = ascii ''tty'' then dir_get_child sys (intf_path atIntf @ ascii ''/tty'') 37 (ascii ''tty'') else devname)"

definition usb_root :: cstr where
  "usb_root = ascii ''/sys/bus/usb/devices''"

definition usb_intf_path :: "cstr \<Rightarrow> int \<Rightarrow> cstr" where
  "usb_intf_path ent i = usb_root @ [47] @ ent @ ascii '':1.'' @ int_of i"

text \<open>The first interface with a network card; without any the number behind the last one.\<close>

fun net_interface :: "dev_sys \<Rightarrow> cstr \<Rightarrow> nat \<Rightarrow> int \<Rightarrow> int \<times> cstr" where
  "net_interface sys ent 0 i = (i, [])"
| "net_interface sys ent (Suc n) i =
     (let netcard = dir_get_child sys (usb_intf_path ent i @ ascii ''/net'') 33 []
      in if netcard \<noteq> [] then (i, netcard) else net_interface sys ent n (i + 1))"

record detect =
  dt_qmichannel :: cstr
  dt_usbnet_adapter :: cstr
  dt_profile :: PROFILE_T
  dt_ops :: "net_op list"

text \<open>The device of one interface with a network card: the type of the driver gives the place of the control channel.\<close>

definition control_channel :: "net_os \<Rightarrow> dev_sys \<Rightarrow> cstr \<Rightarrow> int \<Rightarrow> PROFILE_T \<Rightarrow> net_op list \<Rightarrow> cstr \<times> net_op list" where
  "control_channel os sys ent netIntf profile t =
     (case get_driver_type profile of
        SOFTWARE_ECM_RNDIS_NCM \<Rightarrow>
          (case at_interface (usb_dev profile) of
             None \<Rightarrow> ([], t)
           | Some i \<Rightarrow> (at_port sys (usb_intf_path ent) i, t))
      | ty \<Rightarrow> if ty = SOFTWARE_QMI \<or> ty = SOFTWARE_MBIM then detect_path_cdc_wdm_or_qcqmi os sys (usb_intf_path ent netIntf) t
              else ([], t))"

definition old_gobi :: "net_os \<Rightarrow> dev_sys \<Rightarrow> cstr \<Rightarrow> detect \<Rightarrow> detect option access" where
  "old_gobi os sys ent d =
     (if exists_file os (dt_ops d) (usb_intf_path ent 4 @ ascii ''/net:usb0'') \<and>
         exists_file os (dt_ops d) (usb_intf_path ent 4 @ ascii ''/GobiQMI:qcqmi0'')
      then do {
        i \<leftarrow> query_usb_interface_info os sys (dt_ops d) (usb_intf_path ent 4);
        Some (Some (d\<lparr>dt_qmichannel := ascii ''/dev/qcqmi0'', dt_usbnet_adapter := ascii ''usb0'',
                      dt_profile := (dt_profile d)\<lparr>usb_intf := i\<rparr>\<rparr>)) }
      else Some None)"

text \<open>The interface \<open>netIntf\<close> of a device, which has the network card \<open>netcard\<close>: the new state, and whether the search is over. An
  adapter the user named is not replaced.\<close>

definition detect_interface :: "net_os \<Rightarrow> dev_sys \<Rightarrow> cstr \<Rightarrow> int \<Rightarrow> cstr \<Rightarrow> detect \<Rightarrow> (bool \<times> detect) access" where
  "detect_interface os sys ent netIntf netcard d =
     (if dt_usbnet_adapter d \<noteq> [] \<and> dt_usbnet_adapter d \<noteq> netcard then Some (False, d)
      else do {
        i \<leftarrow> query_usb_interface_info os sys (dt_ops d) (usb_intf_path ent netIntf);
        let p = (dt_profile d)\<lparr>usb_intf := i\<rparr>;
        let (devname, t) = control_channel os sys ent netIntf p (dt_ops d);
        let d = d\<lparr>dt_profile := p, dt_ops := t\<rparr>;
        Some (if devname = [] then (False, d)
              else (True, d\<lparr>dt_qmichannel := snprintf 32 (if devname ! 0 = 47 then devname else ascii ''/dev/'' @ devname),
                            dt_usbnet_adapter := snprintf 32 netcard\<rparr>)) })"

text \<open>One device with a vendor: the first interface with a network card, or the layout of an old kernel.\<close>

definition detect_device :: "net_os \<Rightarrow> dev_sys \<Rightarrow> cstr \<Rightarrow> detect \<Rightarrow> (bool \<times> detect) access" where
  "detect_device os sys ent d =
     (let (netIntf, netcard) = net_interface sys ent (nat (bNumInterfaces (usb_dev (dt_profile d)) + 8)) 0
      in if netcard = [] then do {
           r \<leftarrow> old_gobi os sys ent d;
           Some (case r of None \<Rightarrow> (False, d) | Some d \<Rightarrow> (True, d)) }
         else detect_interface os sys ent netIntf netcard d)"

definition detect_entry :: "net_os \<Rightarrow> dev_sys \<Rightarrow> cstr \<Rightarrow> detect \<Rightarrow> (bool \<times> detect) access" where
  "detect_entry os sys ent d =
     (if ent \<noteq> [] \<and> ent ! 0 = 117 then Some (False, d)
      else do {
        dev \<leftarrow> query_usb_device_info os (dt_ops d) (usb_root @ [47] @ ent);
        let d = d\<lparr>dt_profile := (dt_profile d)\<lparr>usb_dev := dev\<rparr>\<rparr>;
        if idVendor dev = CM_INVALID_VAL then Some (False, d) else detect_device os sys ent d })"

fun detect_entries :: "net_os \<Rightarrow> dev_sys \<Rightarrow> cstr list \<Rightarrow> detect \<Rightarrow> detect access" where
  "detect_entries os sys [] d = Some d"
| "detect_entries os sys (ent # es) d = do {
     (over, d) \<leftarrow> detect_entry os sys ent d;
     if over then Some d else detect_entries os sys es d }"

definition qmidevice_detect :: "net_os \<Rightarrow> dev_sys \<Rightarrow> detect \<Rightarrow> (bool \<times> detect) access" where
  "qmidevice_detect os sys d =
     (case dir_entries sys usb_root of
        None \<Rightarrow> Some (False, d)
      | Some es \<Rightarrow> do {
          d \<leftarrow> detect_entries os sys es d;
          Some (dt_qmichannel d \<noteq> [] \<and> dt_usbnet_adapter d \<noteq> [], d) })"

subsection \<open>PCIe devices\<close>

definition mhi_root_q :: cstr where "mhi_root_q = ascii ''/sys/bus/mhi_q/devices''"
definition mhi_root :: cstr where "mhi_root = ascii ''/sys/bus/mhi/devices''"

text \<open>The channel of the modem: the first path of \<^verbatim>\<open>_IPCR\<close>, \<^verbatim>\<open>_QMI0\<close> and \<^verbatim>\<open>_MBIM\<close> that exists.\<close>

definition mhi_channel :: "net_os \<Rightarrow> net_op list \<Rightarrow> (string \<Rightarrow> cstr) \<Rightarrow> (drv_type \<times> cstr) option" where
  "mhi_channel os t path =
     (if exists_file os t (path ''_IPCR'') then Some (SOFTWARE_QMI, path ''_IPCR'')
      else if exists_file os t (path ''_QMI0'') then Some (SOFTWARE_QMI, path ''_QMI0'')
      else if exists_file os t (path ''_MBIM'') then Some (SOFTWARE_MBIM, path ''_MBIM'') else None)"

text \<open>\<^verbatim>\<open>sprintf(qmichannel, "/dev/%s", devname)\<close> into an array of 32 bytes.\<close>

definition mhi_device_name :: "cstr \<Rightarrow> cstr access" where
  "mhi_device_name devname = (if 5 + length devname < 32 then Some (ascii ''/dev/'' @ devname) else None)"

definition mhi_entry :: "net_os \<Rightarrow> dev_sys \<Rightarrow> cstr \<Rightarrow> cstr \<Rightarrow> detect \<Rightarrow> (bool \<times> detect) access" where
  "mhi_entry os sys rootdir ent d =
     (let netcard = dir_get_child sys (snprintf 256 (rootdir @ [47] @ take 32 ent @ ascii ''/net'')) 32 [];
          path = (\<lambda>s. snprintf 256 (rootdir @ [47] @ take 13 ent @ ascii s))
      in if \<not> c_strstr ent (ascii ''_IP_HW0'') \<or> netcard = [] \<or>
            dt_usbnet_adapter d \<noteq> [] \<and> netcard \<noteq> dt_usbnet_adapter d then Some (False, d)
         else if rootdir = mhi_root then
           Some (if exists_file os (dt_ops d) (path ''_IPCR'')
                 then (True, d\<lparr>dt_usbnet_adapter := netcard, dt_qmichannel := ascii ''qrtr-3'',
                               dt_profile := (dt_profile d)\<lparr>software_interface := SOFTWARE_QRTR\<rparr>\<rparr>)
                 else (False, d))
         else (case mhi_channel os (dt_ops d) path of
                 None \<Rightarrow> Some (False, d)
               | Some (ty, p) \<Rightarrow>
                   (let devname = dir_get_child sys (p @ ascii ''/mhi_uci_q'') 32 []
                    in if devname = [] then Some (False, d)
                       else do {
                         ch \<leftarrow> mhi_device_name devname;
                         Some (True, d\<lparr>dt_usbnet_adapter := netcard, dt_qmichannel := ch,
                                       dt_profile := (dt_profile d)\<lparr>software_interface := ty\<rparr>\<rparr>) })))"

fun mhi_entries :: "net_os \<Rightarrow> dev_sys \<Rightarrow> cstr \<Rightarrow> cstr list \<Rightarrow> detect \<Rightarrow> (bool \<times> detect) access" where
  "mhi_entries os sys rootdir [] d = Some (False, d)"
| "mhi_entries os sys rootdir (ent # es) d = do {
     (over, d) \<leftarrow> mhi_entry os sys rootdir ent d;
     if over then Some (True, d) else mhi_entries os sys rootdir es d }"

text \<open>Both directories are searched, also when the first one has the modem.\<close>

fun mhi_roots :: "net_os \<Rightarrow> dev_sys \<Rightarrow> cstr list \<Rightarrow> bool \<times> detect \<Rightarrow> (bool \<times> detect) access" where
  "mhi_roots os sys [] (seen, d) = Some (seen, d)"
| "mhi_roots os sys (root # roots) (seen, d) =
     (case dir_entries sys root of
        None \<Rightarrow> mhi_roots os sys roots (seen, d)
      | Some es \<Rightarrow> do {
          (f, d) \<leftarrow> mhi_entries os sys root es d;
          mhi_roots os sys roots (seen \<or> f, d) })"

definition mhidevice_detect :: "net_os \<Rightarrow> dev_sys \<Rightarrow> detect \<Rightarrow> (bool \<times> detect) access" where
  "mhidevice_detect os sys d = mhi_roots os sys [mhi_root_q, mhi_root] (False, d)"

definition atdevice_detect :: "net_os \<Rightarrow> detect \<Rightarrow> bool \<times> detect" where
  "atdevice_detect os d =
     (if exists_file os (dt_ops d) (ascii ''/sys/class/net/sipa_dummy0'')
      then (let d = d\<lparr>dt_usbnet_adapter := ascii ''sipa_dummy0'',
                      dt_profile := (dt_profile d)\<lparr>qmapnet_adapter := snprintf 32 (ascii ''pcie'' @ int_of (pdp (dt_profile d) - 1))\<rparr>\<rparr>
            in if exists_file os (dt_ops d) (ascii ''/dev/stty_nr31'')
               then (True, d\<lparr>dt_qmichannel := ascii ''/dev/stty_nr31'',
                             dt_profile := (dt_profile d)\<lparr>software_interface := SOFTWARE_ECM_RNDIS_NCM\<rparr>\<rparr>)
               else (False, d))
      else (False, d))"

subsection \<open>Attaching the driver again\<close>

definition usbfs_detach_kernel_driver :: "cstr \<Rightarrow> int \<Rightarrow> net_op list \<Rightarrow> net_op list" where
  "usbfs_detach_kernel_driver fd ifnum t = t @ [UsbDriver fd ifnum False]"

definition usbfs_attach_kernel_driver :: "cstr \<Rightarrow> int \<Rightarrow> net_op list \<Rightarrow> net_op list" where
  "usbfs_attach_kernel_driver fd ifnum t = t @ [UsbDriver fd ifnum True]"

text \<open>\<^verbatim>\<open>%03d\<close>\<close>

definition dec3 :: "int \<Rightarrow> cstr" where
  "dec3 i = (let s = int_of \<bar>i\<bar>; w = (if i < 0 then 2 else 3); s = replicate (w - length s) 48 @ s
             in if i < 0 then 45 # s else s)"

text \<open>The device is named by its path instead of a descriptor.\<close>

definition reattach_driver :: "net_os \<Rightarrow> PROFILE_T \<Rightarrow> net_op list \<Rightarrow> int \<times> net_op list" where
  "reattach_driver os profile t =
     (let devpath = snprintf 128 (ascii ''/dev/bus/usb/'' @ dec3 (busnum (usb_dev profile)) @ [47] @ dec3 (devnum (usb_dev profile)))
      in if \<not> can_write os devpath then (- 1, t)
         else (0, usbfs_attach_kernel_driver devpath 4 (usbfs_detach_kernel_driver devpath 4 t)))"

subsection \<open>From the device to the connection manager\<close>

text \<open>A \<^verbatim>\<open>strncpy\<close> of a text that fills the array of 32 bytes leaves it without a terminator.\<close>

definition strncpy32 :: "cstr \<Rightarrow> cstr access" where
  "strncpy32 s = (if length s < 32 then Some s else None)"

definition detect_other :: "bool \<Rightarrow> net_os \<Rightarrow> detect \<Rightarrow> detect option" where
  "detect_other config_qrtr os d =
     (let (at, d) = atdevice_detect os d
      in if at then Some (d\<lparr>dt_profile := (dt_profile d)\<lparr>hardware_interface := HARDWARE_PCIE\<rparr>\<rparr>)
         else if config_qrtr
         then Some (d\<lparr>dt_qmichannel := ascii ''qrtr'', dt_usbnet_adapter := ascii ''rmnet_mhi0'',
                      dt_profile := (dt_profile d)\<lparr>hardware_interface := HARDWARE_PCIE, software_interface := SOFTWARE_QRTR\<rparr>\<rparr>)
         else None)"

definition detect_pcie :: "bool \<Rightarrow> net_os \<Rightarrow> dev_sys \<Rightarrow> detect \<Rightarrow> detect option access" where
  "detect_pcie config_qrtr os sys d = do {
     (mhi, d) \<leftarrow> mhidevice_detect os sys d;
     Some (if mhi then Some (d\<lparr>dt_profile := (dt_profile d)\<lparr>hardware_interface := HARDWARE_PCIE\<rparr>\<rparr>)
           else detect_other config_qrtr os d) }"

definition detect_modem :: "bool \<Rightarrow> net_os \<Rightarrow> dev_sys \<Rightarrow> detect \<Rightarrow> detect option access" where
  "detect_modem config_qrtr os sys d = do {
     (usb, d) \<leftarrow> qmidevice_detect os sys d;
     if usb then Some (Some (d\<lparr>dt_profile := (dt_profile d)\<lparr>hardware_interface := HARDWARE_USB\<rparr>\<rparr>))
     else detect_pcie config_qrtr os sys d }"

text \<open>How \<^verbatim>\<open>quectel_CM\<close> ends: no modem, an exit for want of an APN, a type without a back end, or what \<^verbatim>\<open>qmi_main\<close> makes of
  the profile.\<close>

datatype 'r cm_end = No_modem | Exit_no_apn PROFILE_T | Unsupported PROFILE_T | Ran 'r

definition choose_tables :: "bool \<Rightarrow> PROFILE_T \<Rightarrow> PROFILE_T cm_end" where
  "choose_tables config_qrtr profile =
     (case software_interface profile of
        SOFTWARE_MBIM \<Rightarrow>
          (let profile = profile\<lparr>request_ops := Some mbim_request_ops, qmi_ops := Some mbim_dev_ops\<rparr>
           in if nonempty (apn profile) then Ran profile else Exit_no_apn profile)
      | SOFTWARE_QMI \<Rightarrow>
          Ran (profile\<lparr>request_ops := Some qmi_request_ops,
                 qmi_ops := Some (if qmidev_is_gobinet (qmichannel profile) then gobi_qmidev_ops else qmiwwan_qmidev_ops)\<rparr>)
      | SOFTWARE_ECM_RNDIS_NCM \<Rightarrow> Ran (profile\<lparr>request_ops := Some atc_request_ops, qmi_ops := Some atc_dev_ops\<rparr>)
      | SOFTWARE_QRTR \<Rightarrow>
          if config_qrtr then Ran (profile\<lparr>request_ops := Some qmi_request_ops, qmi_ops := Some qrtr_qmidev_ops\<rparr>)
          else Unsupported profile
      | _ \<Rightarrow> Unsupported profile)"

definition modem_profile :: "detect \<Rightarrow> PROFILE_T" where
  "modem_profile d =
     (let p = (dt_profile d)\<lparr>qmichannel := dt_qmichannel d, usbnet_adapter := dt_usbnet_adapter d\<rparr>
      in if hardware_interface p = HARDWARE_USB then p\<lparr>software_interface := get_driver_type p\<rparr> else p)"

definition quectel_CM ::
  "bool \<Rightarrow> net_os \<Rightarrow> dev_sys \<Rightarrow> (PROFILE_T \<Rightarrow> net_op list \<Rightarrow> 'r access) \<Rightarrow> PROFILE_T \<Rightarrow> net_op list \<Rightarrow> 'r cm_end access" where
  "quectel_CM config_qrtr os sys qmi_main profile t = do {
     name \<leftarrow> strncpy32 (expect_adapter profile);
     d \<leftarrow> detect_modem config_qrtr os sys \<lparr>dt_qmichannel = [], dt_usbnet_adapter = name, dt_profile = profile, dt_ops = t\<rparr>;
     case d of
       None \<Rightarrow> Some No_modem
     | Some d \<Rightarrow> do {
         (p, t) \<leftarrow> ql_qmap_mode_detect config_qrtr os sys (modem_profile d) (dt_ops d);
         case choose_tables config_qrtr p of
           Ran p \<Rightarrow> map_option Ran (qmi_main p t)
         | No_modem \<Rightarrow> Some No_modem
         | Exit_no_apn p \<Rightarrow> Some (Exit_no_apn p)
         | Unsupported p \<Rightarrow> Some (Unsupported p) } }"

end
