(* ===== verification/Device_Props.thy ===== *)
theory Device_Props
  imports Device Conn_Props
begin

text \<open>
  What the detection hands to the connection manager: names that fit their arrays, the adapter the user asked for, the tables that
  belong to the type of the device, and, with a multiplexing driver, the identifier of the user's channel.
\<close>

subsection \<open>What detection leaves alone\<close>

definition user_frame :: "PROFILE_T \<Rightarrow> PROFILE_T \<Rightarrow> bool" where
  "user_frame p q \<longleftrightarrow> apn q = apn p \<and> user q = user p \<and> password q = password p \<and> auth q = auth p \<and> iptype q = iptype p \<and>
     pincode q = pincode p \<and> pdp q = pdp p \<and> enable_ipv4 q = enable_ipv4 p \<and> enable_ipv6 q = enable_ipv6 p \<and>
     enable_bridge q = enable_bridge p"

definition chan_frame :: "PROFILE_T \<Rightarrow> PROFILE_T \<Rightarrow> bool" where
  "chan_frame p q \<longleftrightarrow> user_frame p q \<and> qmichannel q = qmichannel p \<and> usbnet_adapter q = usbnet_adapter p \<and>
     software_interface q = software_interface p \<and> hardware_interface q = hardware_interface p \<and> usb_intf q = usb_intf p"

lemmas frame_defs = chan_frame_def user_frame_def

lemma chan_frame_refl [simp]: "chan_frame p p"
  by (simp add: frame_defs)

lemma chan_frame_trans: "chan_frame p q \<Longrightarrow> chan_frame q r \<Longrightarrow> chan_frame p r"
  by (simp add: frame_defs)

lemma rmnet_detect_frame: "rmnet_detect p = Some q \<Longrightarrow> chan_frame p q"
  by (auto simp: rmnet_detect_def Let_def frame_defs bind_eq_Some_conv split: if_splits)

lemma add_mux_frame: "add_mux_file n b p = Some q \<Longrightarrow> chan_frame p q"
  by (auto simp: add_mux_file_def Let_def frame_defs bind_eq_Some_conv split: if_splits)

lemma qmap_mode_file_frame: "chan_frame p (qmap_mode_file b p)"
  by (simp add: qmap_mode_file_def Let_def frame_defs)

lemma qmap_files_frame: "qmi_qmap_files os p t = Some q \<Longrightarrow> chan_frame p q"
  by (auto simp: qmi_qmap_files_def qmap_mode_file_frame dest: add_mux_frame split: option.splits if_splits prod.splits)

lemma qmap_defaults_frame: "chan_frame p (qmap_defaults os p t)"
  by (simp add: qmap_defaults_def Let_def frame_defs split: prod.split)

lemma qmi_qmap_frame: "ql_qmi_qmap_mode_detect os sys p t = Some (q, u) \<Longrightarrow> chan_frame p q"
proof -
  assume "ql_qmi_qmap_mode_detect os sys p t = Some (q, u)"
  then obtain d r where r: "q = qmap_defaults os r t"
    "chan_frame (p\<lparr>driver_name := d, rmnet_info := ql_get_driver_rmnet_info sys p\<rparr>) r"
    unfolding ql_qmi_qmap_mode_detect_def
    by (auto simp: bind_eq_Some_conv Let_def dest: rmnet_detect_frame qmap_files_frame split: if_splits)
  have "chan_frame p (p\<lparr>driver_name := d, rmnet_info := ql_get_driver_rmnet_info sys p\<rparr>)"
    by (simp add: frame_defs)
  then show ?thesis
    using r qmap_defaults_frame chan_frame_trans by metis
qed

lemma qmap_detect_frame: "ql_qmap_mode_detect c os sys p t = Some (q, u) \<Longrightarrow> chan_frame p q"
  by (auto simp: ql_qmap_mode_detect_def ql_mbim_usb_vlan_mode_detect_def ql_mbim_mhi_qmap_mode_detect_def qrtr_qmap_def Let_def
      bind_eq_Some_conv frame_defs dest: qmi_qmap_frame [unfolded frame_defs] split: drv_type.splits if_splits)

subsection \<open>The adapter\<close>

text \<open>The adapters that are taken without a look at the name the user gave.\<close>

definition fixed_adapters :: "cstr set" where
  "fixed_adapters = {ascii ''usb0'', ascii ''sipa_dummy0'', ascii ''rmnet_mhi0''}"

definition named :: "cstr \<Rightarrow> cstr \<Rightarrow> bool" where
  "named a n \<longleftrightarrow> a = [] \<or> n = a \<or> n \<in> fixed_adapters"

definition det_inv :: "PROFILE_T \<Rightarrow> cstr \<Rightarrow> detect \<Rightarrow> bool" where
  "det_inv p a d \<longleftrightarrow> user_frame p (dt_profile d) \<and> length (dt_qmichannel d) < 32 \<and> length (dt_usbnet_adapter d) < 32 \<and>
     named a (dt_usbnet_adapter d)"

lemma length_child: "length (dir_get_child sys dir n pre) \<le> 31"
  by (auto simp: dir_get_child_def snprintf_def split: option.split)

lemma child_fits: "length (dir_get_child sys dir n pre) < 32"
  using length_child [of sys dir n pre] by simp

lemma net_interface_child: "net_interface sys ent n i = (j, nc) \<Longrightarrow> length nc \<le> 31"
  by (induction sys ent n i rule: net_interface.induct) (auto simp: Let_def length_child split: if_splits)

lemma ascii_eq_Nil [simp]: "ascii s = [] \<longleftrightarrow> s = []"
  by (simp add: ascii_def)

lemma fixed_named:
  "named a (ascii ''usb0'')" "named a (ascii ''sipa_dummy0'')" "named a (ascii ''rmnet_mhi0'')"
  unfolding named_def fixed_adapters_def by blast+

lemma snprintf_Nil: "1 < n \<Longrightarrow> snprintf n s = [] \<longleftrightarrow> s = []"
  by (auto simp: snprintf_def)

text \<open>The result of a search: a search that is over has found both names.\<close>

definition det_res :: "PROFILE_T \<Rightarrow> cstr \<Rightarrow> bool \<times> detect \<Rightarrow> bool" where
  "det_res p a r \<longleftrightarrow> det_inv p a (snd r) \<and> (fst r \<longrightarrow> dt_qmichannel (snd r) \<noteq> [] \<and> dt_usbnet_adapter (snd r) \<noteq> [])"

lemma det_res_False [simp]: "det_res p a (False, d) \<longleftrightarrow> det_inv p a d"
  by (simp add: det_res_def)

lemma det_inv_profile [simp]:
  "det_inv p a (d\<lparr>dt_profile := (dt_profile d)\<lparr>usb_intf := i\<rparr>\<rparr>) \<longleftrightarrow> det_inv p a d"
  "det_inv p a (d\<lparr>dt_profile := (dt_profile d)\<lparr>usb_dev := v\<rparr>\<rparr>) \<longleftrightarrow> det_inv p a d"
  "det_inv p a (d\<lparr>dt_profile := (dt_profile d)\<lparr>usb_intf := i\<rparr>, dt_ops := t\<rparr>) \<longleftrightarrow> det_inv p a d"
  by (simp_all add: det_inv_def user_frame_def)

lemma det_res_names:
  assumes "det_inv p a d" "c \<noteq> []" "n \<noteq> []" "length c < 32" "length n < 32" "named a n" "user_frame (dt_profile d) q"
  shows "det_res p a (True, d\<lparr>dt_profile := q, dt_ops := t, dt_qmichannel := c, dt_usbnet_adapter := n\<rparr>)"
  using assms by (simp add: det_res_def det_inv_def user_frame_def)

lemma old_gobi_inv:
  assumes "det_inv p a d"
  shows "pred_option (\<lambda>r. case r of None \<Rightarrow> True | Some d' \<Rightarrow> det_res p a (True, d')) (old_gobi os sys ent d)"
proof -
  have "det_res p a (True, d\<lparr>dt_qmichannel := ascii ''/dev/qcqmi0'', dt_usbnet_adapter := ascii ''usb0'',
      dt_profile := (dt_profile d)\<lparr>usb_intf := i\<rparr>\<rparr>)" for i
    using assms by (simp add: det_res_def det_inv_def user_frame_def fixed_named)
  then show ?thesis
    unfolding old_gobi_def by (intro pred_option_if pred_option_bind_any) simp_all
qed

lemma detect_interface_inv:
  assumes "det_inv p a d" "length nc \<le> 31" "nc \<noteq> []"
  shows "pred_option (det_res p a) (detect_interface os sys ent netIntf nc d)"
proof (cases "dt_usbnet_adapter d \<noteq> [] \<and> dt_usbnet_adapter d \<noteq> nc")
  case False
  then have "named a nc"
    using assms(1) by (auto simp: det_inv_def named_def fixed_adapters_def)
  have "det_res p a (True, d\<lparr>dt_profile := (dt_profile d)\<lparr>usb_intf := i\<rparr>, dt_ops := t, dt_qmichannel := snprintf 32 c,
      dt_usbnet_adapter := snprintf 32 nc\<rparr>)" if "c \<noteq> []" for i t c
    using that \<open>named a nc\<close> assms by (intro det_res_names) (simp_all add: snprintf_def user_frame_def)
  then show ?thesis
    using False assms(1) unfolding detect_interface_def Let_def
    by (intro pred_option_if pred_option_bind_any) (auto split: prod.split)
qed (use assms in \<open>simp add: detect_interface_def\<close>)

lemma detect_device_inv:
  assumes "det_inv p a d"
  shows "pred_option (det_res p a) (detect_device os sys ent d)"
proof -
  obtain netIntf nc where nc: "net_interface sys ent (nat (bNumInterfaces (usb_dev (dt_profile d)) + 8)) 0 = (netIntf, nc)"
    by (cases "net_interface sys ent (nat (bNumInterfaces (usb_dev (dt_profile d)) + 8)) 0")
  have "pred_option (det_res p a) (do { r \<leftarrow> old_gobi os sys ent d; Some (case r of None \<Rightarrow> (False, d) | Some d \<Rightarrow> (True, d)) })"
    using assms by (intro pred_option_bindI [OF old_gobi_inv]) (auto split: option.splits)
  then show ?thesis
    using detect_interface_inv [OF assms net_interface_child [OF nc]]
    by (simp add: detect_device_def nc)
qed

lemma detect_entry_inv: "det_inv p a d \<Longrightarrow> pred_option (det_res p a) (detect_entry os sys ent d)"
  unfolding detect_entry_def Let_def
  by (intro pred_option_if pred_option_bind_any detect_device_inv) simp_all

lemma detect_entries_inv: "det_inv p a d \<Longrightarrow> pred_option (det_inv p a) (detect_entries os sys es d)"
proof (induction es arbitrary: d)
  case (Cons e es)
  then show ?case
    by (auto intro!: pred_option_bindI [OF detect_entry_inv [OF Cons.prems]] simp: det_res_def)
qed simp

lemma qmidevice_detect_inv: "det_inv p a d \<Longrightarrow> pred_option (det_res p a) (qmidevice_detect os sys d)"
  unfolding qmidevice_detect_def
  by (auto split: option.split intro!: pred_option_bindI [OF detect_entries_inv] simp: det_res_def)

lemma mhi_entry_inv:
  assumes "det_inv p a d"
  shows "pred_option (\<lambda>r. det_res p a r \<and> (\<not> fst r \<longrightarrow> snd r = d)) (mhi_entry os sys rootdir ent d)"
proof -
  let ?nc = "dir_get_child sys (snprintf 256 (rootdir @ [47] @ take 32 ent @ ascii ''/net'')) 32 []"
  have hit: "det_res p a (True, d\<lparr>dt_usbnet_adapter := ?nc, dt_qmichannel := c, dt_profile := (dt_profile d)\<lparr>software_interface := ty\<rparr>\<rparr>)"
    if "?nc \<noteq> []" "dt_usbnet_adapter d = [] \<or> ?nc = dt_usbnet_adapter d" "c \<noteq> []" "length c < 32" for c ty
  proof -
    have "named a ?nc"
      using assms that(2) by (auto simp: det_inv_def named_def fixed_adapters_def)
    then show ?thesis
      using that assms by (simp add: det_res_def det_inv_def user_frame_def child_fits)
  qed
  have channel: "pred_option (\<lambda>r. det_res p a r \<and> (\<not> fst r \<longrightarrow> snd r = d)) (do {
      ch \<leftarrow> mhi_device_name devname;
      Some (True, d\<lparr>dt_usbnet_adapter := ?nc, dt_qmichannel := ch, dt_profile := (dt_profile d)\<lparr>software_interface := ty\<rparr>\<rparr>) })"
    if "?nc \<noteq> []" "dt_usbnet_adapter d = [] \<or> ?nc = dt_usbnet_adapter d" for devname ty
    using hit [OF that] by (auto simp: mhi_device_name_def)
  show ?thesis
    using assms hit [where ty = SOFTWARE_QRTR and c = "ascii ''qrtr-3''"] channel
    unfolding mhi_entry_def Let_def by (intro pred_option_if) (auto split: option.split)
qed

lemma mhi_entries_inv:
  "det_inv p a d \<Longrightarrow> pred_option (\<lambda>r. det_res p a r \<and> (\<not> fst r \<longrightarrow> snd r = d)) (mhi_entries os sys rootdir es d)"
proof (induction es arbitrary: d)
  case (Cons e es)
  then show ?case
    by (auto intro!: pred_option_bindI [OF mhi_entry_inv [OF Cons.prems]])
qed simp

lemma mhi_roots_inv: "det_res p a r \<Longrightarrow> pred_option (det_res p a) (mhi_roots os sys roots r)"
proof (induction roots arbitrary: r)
  case Nil
  then show ?case
    by (cases r) simp
next
  case (Cons root roots)
  obtain seen d where r: "r = (seen, d)"
    by (cases r)
  have d: "det_inv p a d"
    using Cons.prems by (simp add: r det_res_def)
  have "pred_option (det_res p a) (do { (f, d) \<leftarrow> mhi_entries os sys root es d; mhi_roots os sys roots (seen \<or> f, d) })" for es
    by (rule pred_option_bindI [OF mhi_entries_inv [OF d]], clarsimp, rule Cons.IH)
      (use Cons.prems in \<open>auto simp: det_res_def r\<close>)
  then show ?case
    using Cons by (auto simp: r split: option.split)
qed

lemma atdevice_detect_inv: "det_inv p a d \<Longrightarrow> det_res p a (atdevice_detect os d)"
  using fixed_named(2) [of a] by (simp add: atdevice_detect_def det_res_def det_inv_def user_frame_def Let_def)

lemma det_res_hardware: "det_res p a (b, d) \<Longrightarrow> det_res p a (b, d\<lparr>dt_profile := (dt_profile d)\<lparr>hardware_interface := h\<rparr>\<rparr>)"
  by (simp add: det_res_def det_inv_def user_frame_def)

definition modem_found :: "PROFILE_T \<Rightarrow> cstr \<Rightarrow> detect option \<Rightarrow> bool" where
  "modem_found p a r \<longleftrightarrow> (case r of None \<Rightarrow> True | Some d \<Rightarrow> det_res p a (True, d))"

lemma modem_found_simps [simp]: "modem_found p a None" "modem_found p a (Some d) \<longleftrightarrow> det_res p a (True, d)"
  by (simp_all add: modem_found_def)

lemma detect_other_inv: "det_inv p a d \<Longrightarrow> modem_found p a (detect_other c os d)"
proof -
  assume d: "det_inv p a d"
  obtain b e where e: "atdevice_detect os d = (b, e)"
    by (cases "atdevice_detect os d")
  then have r: "det_res p a (b, e)"
    using atdevice_detect_inv [OF d, of os] by simp
  show ?thesis
    using r fixed_named(3) [of a] det_res_hardware [of p a True e]
    by (cases b) (auto simp: detect_other_def modem_found_def e det_res_def det_inv_def user_frame_def)
qed

lemma detect_pcie_inv: "det_inv p a d \<Longrightarrow> pred_option (modem_found p a) (detect_pcie c os sys d)"
  unfolding detect_pcie_def mhidevice_detect_def
  by (rule pred_option_bindI [OF mhi_roots_inv [where p = p and a = a]])
    (auto simp: det_res_hardware detect_other_inv)

lemma detect_modem_inv: "det_inv p a d \<Longrightarrow> pred_option (modem_found p a) (detect_modem c os sys d)"
  unfolding detect_modem_def
  by (rule pred_option_bindI [OF qmidevice_detect_inv]) (auto simp: det_res_hardware detect_pcie_inv)

subsection \<open>The connection manager is started as the device requires\<close>

text \<open>The function tables that can stand together, and what each choice requires.\<close>

definition tables_ok :: "bool \<Rightarrow> PROFILE_T \<Rightarrow> bool" where
  "tables_ok config_qrtr p \<longleftrightarrow>
     (request_ops p, qmi_ops p) \<in> {(Some qmi_request_ops, Some qmiwwan_qmidev_ops), (Some qmi_request_ops, Some gobi_qmidev_ops),
       (Some qmi_request_ops, Some qrtr_qmidev_ops), (Some mbim_request_ops, Some mbim_dev_ops), (Some atc_request_ops, Some atc_dev_ops)} \<and>
     (qmi_ops p = Some gobi_qmidev_ops \<longrightarrow> take 10 (qmichannel p) = ascii ''/dev/qcqmi'') \<and>
     (qmi_ops p = Some qmiwwan_qmidev_ops \<longrightarrow> take 10 (qmichannel p) \<noteq> ascii ''/dev/qcqmi'') \<and>
     (qmi_ops p = Some qrtr_qmidev_ops \<longrightarrow> config_qrtr) \<and> (request_ops p = Some mbim_request_ops \<longrightarrow> nonempty (apn p))"

lemma gobinet_channel: "qmidev_is_gobinet ch \<longleftrightarrow> take 10 ch = ascii ''/dev/qcqmi''"
  by (simp add: qmidev_is_gobinet_def eval_nat_numeral)

lemma choose_tables_Ran:
  assumes "choose_tables c p = Ran q"
  shows "tables_ok c q" "chan_frame p q"
    "software_interface q = SOFTWARE_QMI \<longrightarrow> request_ops q = Some qmi_request_ops"
    "software_interface q = SOFTWARE_MBIM \<longrightarrow> request_ops q = Some mbim_request_ops"
    "software_interface q = SOFTWARE_ECM_RNDIS_NCM \<longrightarrow> request_ops q = Some atc_request_ops" "software_interface q \<noteq> DRV_INVALID"
  using assms
  by (auto simp: choose_tables_def tables_ok_def gobinet_channel frame_defs Let_def split: drv_type.splits if_splits)

lemma driver_type_frame: "chan_frame p q \<Longrightarrow> get_driver_type p = get_driver_type q"
  by (simp add: get_driver_type_def frame_defs)

lemma modem_profile_type: "hardware_interface (modem_profile d) = HARDWARE_USB \<Longrightarrow>
    software_interface (modem_profile d) = get_driver_type (modem_profile d)"
  by (auto simp: modem_profile_def Let_def get_driver_type_def)

lemma modem_profile_names:
  "qmichannel (modem_profile d) = dt_qmichannel d" "usbnet_adapter (modem_profile d) = dt_usbnet_adapter d"
  "user_frame p (modem_profile d) = user_frame p (dt_profile d)"
  by (simp_all add: modem_profile_def Let_def user_frame_def)

lemma quectel_CM_cases:
  assumes "quectel_CM c os sys (\<lambda>p t. Some (p, t)) profile t = Some (Ran (p, u))"
  obtains d q where "length (expect_adapter profile) < 32"
    and "detect_modem c os sys \<lparr>dt_qmichannel = [], dt_usbnet_adapter = expect_adapter profile, dt_profile = profile, dt_ops = t\<rparr>
           = Some (Some d)"
    and "ql_qmap_mode_detect c os sys (modem_profile d) (dt_ops d) = Some (q, u)" "choose_tables c q = Ran p"
proof -
  from assms obtain r where a: "length (expect_adapter profile) < 32" and
    r: "detect_modem c os sys \<lparr>dt_qmichannel = [], dt_usbnet_adapter = expect_adapter profile, dt_profile = profile, dt_ops = t\<rparr> = Some r"
    by (auto simp: quectel_CM_def strncpy32_def bind_eq_Some_conv split: if_splits)
  then obtain d where d: "r = Some d"
    using assms by (cases r) (auto simp: quectel_CM_def strncpy32_def)
  obtain q v where q: "ql_qmap_mode_detect c os sys (modem_profile d) (dt_ops d) = Some (q, v)"
    using assms a r by (auto simp: quectel_CM_def strncpy32_def d bind_eq_Some_conv)
  then have "choose_tables c q = Ran p \<and> v = u"
    using assms a r by (cases "choose_tables c q") (auto simp: quectel_CM_def strncpy32_def d)
  then show ?thesis
    using that a r d q by blast
qed

text \<open>The descriptors of the USB interface decide which requests are used.\<close>

lemma usb_requests:
  assumes "choose_tables c q = Ran p" "software_interface p = get_driver_type p"
  shows "bInterfaceClass (usb_intf p) = 0xff \<and> request_ops p = Some qmi_request_ops \<or>
     bInterfaceClass (usb_intf p) = 2 \<and> bInterfaceSubClass (usb_intf p) = 0x0e \<and> request_ops p = Some mbim_request_ops \<or>
     (bInterfaceClass (usb_intf p) = 2 \<and> bInterfaceSubClass (usb_intf p) \<in> {0x06, 0x0d} \<or>
      bInterfaceClass (usb_intf p) = 0xe0 \<and> bInterfaceSubClass (usb_intf p) = 1 \<and> bInterfaceProtocol (usb_intf p) = 3) \<and>
     request_ops p = Some atc_request_ops"
  using choose_tables_Ran [OF assms(1)] assms(2) by (auto simp: get_driver_type_def Let_def split: if_splits)


text \<open>A modem with a \<^verbatim>\<open>qmi_wwan\<close> driver at the USB interface 0.\<close>

lemma ascii_code [code]: "ascii s = map of_char s"
  by (simp add: ascii_def of_nat_of_char)

definition sample_files :: "(cstr \<times> file_state) list" where
  "sample_files =
     [(ascii ''/sys/bus/usb/devices/1-1/idVendor'', Content (ascii ''2c7c'')),
      (ascii ''/sys/bus/usb/devices/1-1/idProduct'', Content (ascii ''0125'')),
      (ascii ''/sys/bus/usb/devices/1-1/busnum'', Content (ascii ''1'')),
      (ascii ''/sys/bus/usb/devices/1-1/devnum'', Content (ascii ''5'')),
      (ascii ''/sys/bus/usb/devices/1-1/bNumInterfaces'', Content (ascii '' 5'')),
      (ascii ''/sys/bus/usb/devices/1-1:1.0'', Content []),
      (ascii ''/sys/bus/usb/devices/1-1:1.0/bInterfaceClass'', Content (ascii ''ff'')),
      (ascii ''/sys/bus/usb/devices/1-1:1.0/usbmisc'', Content []),
      (ascii ''/dev/cdc-wdm0'', Content [])]"

definition sample_net_os :: net_os where
  "sample_net_os = \<lparr>can_exec = (\<lambda>_. True), sys_file = (\<lambda>t f. case map_of (map (map_prod rev id) sample_files) (rev f) of None \<Rightarrow> Missing | Some c \<Rightarrow> c),
     if_addr = (\<lambda>t i. None), if_mtu = (\<lambda>t i. None), if_up = (\<lambda>t i. True), can_write = (\<lambda>f. False), route_dels = 0\<rparr>"

definition sample_sys :: dev_sys where
  "sample_sys = \<lparr>link_target = (\<lambda>f. if f = ascii ''/sys/class/net/wwan0/device/driver'' then Some (ascii ''drivers/qmi_wwan'') else None),
     dir_entries = (\<lambda>f. map_of
       [(usb_root, [ascii ''1-1'']),
        (ascii ''/sys/bus/usb/devices/1-1:1.0/net'', [ascii ''wwan0'']),
        (ascii ''/sys/bus/usb/devices/1-1:1.0/usbmisc'', [ascii ''cdc-wdm0''])] f),
     rmnet_ioctl = (\<lambda>f. None), stack_junk = []\<rparr>"

definition sample_user :: PROFILE_T where
  "sample_user = s_profile\<lparr>pdp := 1, enable_ipv4 := True, expect_adapter := ascii ''wwan0''\<rparr>"

lemma sample_quectel_CM:
  "\<exists>p u. quectel_CM False sample_net_os sample_sys (\<lambda>p t. Some (p, t)) sample_user [] = Some (Ran (p, u)) \<and>
     qmichannel p = ascii ''/dev/cdc-wdm0'' \<and> driver_name p = ascii ''qmi_wwan''"
proof -
  have "(case quectel_CM False sample_net_os sample_sys (\<lambda>p t. Some (p, t)) sample_user [] of
      Some (Ran (p, u)) \<Rightarrow> qmichannel p = ascii ''/dev/cdc-wdm0'' \<and> driver_name p = ascii ''qmi_wwan'' | _ \<Rightarrow> False)"
    by code_simp
  then show ?thesis
    by (simp split: option.splits cm_end.splits prod.splits)
qed


end
