(* ===== verification/Cm_Main.thy ===== *)
theory Cm_Main
  imports Device Conn_Process
begin

text \<open>
  The frame of the program: the timed wait of \<^verbatim>\<open>util.c\<close> behind every request, and \<^verbatim>\<open>main\<close> of \<^verbatim>\<open>main.c\<close>, which reads the command line, sets up
  the shared memory and repeats \<^verbatim>\<open>quectel_CM\<close>. A run of \<^verbatim>\<open>quectel_CM\<close> is a parameter: what it returns, the value it
  leaves in \<^verbatim>\<open>g_donot_exit_when_modem_hangup\<close>, and the profile. \<^verbatim>\<open>unsigned\<close> has 32 bits.
\<close>

subsection \<open>The timed wait\<close>

text \<open>Seconds and microseconds now, and the seconds and nanoseconds of the deadline.\<close>

definition setTimespecRelative :: "int \<times> int \<Rightarrow> int \<Rightarrow> int \<times> int" where
  "setTimespecRelative now msec =
     (let (sec, usec) = now; s = sec + msec div 1000; n = (usec + (msec mod 1000) * 1000) * 1000
      in if 1000000000 \<le> n then (s + 1, n - 1000000000) else (s, n))"

text \<open>The loop of timed waits with the results \<open>wait 0, wait 1, \<dots>\<close> of \<^verbatim>\<open>pthread_cond_timedwait\<close>; \<open>k\<close> counts them. The counter \<open>i\<close>
  can wrap around, so the loop need not end.\<close>

partial_function (option) cond_wait_loop :: "(nat \<Rightarrow> int) \<Rightarrow> u32 \<Rightarrow> u32 \<Rightarrow> u32 \<Rightarrow> nat \<Rightarrow> int \<Rightarrow> (int \<times> nat) option" where
  "cond_wait_loop wait msecs t i k ret =
     (if i < msecs
      then (let r = wait k in if r \<noteq> ETIMEDOUT then Some (r, k + 1) else cond_wait_loop wait msecs t (i + t) (k + 1) r)
      else Some (ret, k))"

definition wait_slice :: "u32 \<Rightarrow> u32" where
  "wait_slice msecs = (let t = msecs div 4 in if t = 0 then 1 else t)"

definition pthread_cond_timeout_np :: "(nat \<Rightarrow> int) \<Rightarrow> u32 \<Rightarrow> (int \<times> nat) option" where
  "pthread_cond_timeout_np wait msecs =
     (if msecs \<noteq> 0 then cond_wait_loop wait msecs (wait_slice msecs) 0 0 0 else Some (wait 0, 1))"

lemma unat_wait_slice: "unat (wait_slice msecs) = max 1 (unat msecs div 4)"
proof -
  have d: "unat (msecs div 4) = unat msecs div 4"
    by (simp add: unat_div)
  show ?thesis
  proof (cases "msecs div 4 = 0")
    case True
    then have "unat msecs div 4 = 0"
      using d by simp
    then show ?thesis
      using True by (simp add: wait_slice_def Let_def)
  next
    case False
    then have "0 < unat msecs div 4"
      using d unat_gt_0 by metis
    then show ?thesis
      using False d by (simp add: wait_slice_def Let_def)
  qed
qed

lemma cond_wait_loop_bounds:
  assumes "unat msecs + unat t \<le> 2 ^ 32" "0 < unat t" "unat i = k * unat t"
    and "0 < k \<longrightarrow> (k - 1) * unat t < unat msecs \<and> ret = ETIMEDOUT" "\<forall>j<k. wait j = ETIMEDOUT" "0 < unat msecs"
  shows "\<exists>r m. cond_wait_loop wait msecs t i k ret = Some (r, m) \<and> 1 \<le> m \<and> (m - 1) * unat t < unat msecs \<and> r = wait (m - 1) \<and>
    (\<forall>j<m - 1. wait j = ETIMEDOUT) \<and> (r = ETIMEDOUT \<longrightarrow> unat msecs \<le> m * unat t)"
  using assms(3-5)
proof (induction "unat msecs - unat i" arbitrary: i k ret rule: less_induct)
  case less
  note step = cond_wait_loop.simps [of wait msecs t i k ret]
  show ?case
  proof (cases "i < msecs")
    case True
    then have lt: "k * unat t < unat msecs"
      using less.prems(1) by (simp add: word_less_nat_alt)
    show ?thesis
    proof (cases "wait k = ETIMEDOUT")
      case False
      then show ?thesis
        using True lt less.prems(3) by (auto simp: step)
    next
      case t: True
      have w: "unat (i + t) = unat i + unat t"
        using lt less.prems(1) assms(1) by (intro unat_add_lem [THEN iffD1]) simp
      have p: "unat (i + t) = (k + 1) * unat t" "0 < k + 1 \<longrightarrow> (k + 1 - 1) * unat t < unat msecs \<and> wait k = ETIMEDOUT"
        "\<forall>j<k + 1. wait j = ETIMEDOUT" "unat msecs - unat (i + t) < unat msecs - unat i"
        using w lt less.prems t assms(2) by (auto simp: less_Suc_eq)
      from less.hyps [OF p(4) p(1-3)] show ?thesis
        using True t by (simp add: step)
    qed
  next
    case False
    then have "unat msecs \<le> k * unat t"
      using less.prems(1) by (simp add: word_less_nat_alt)
    moreover from this have "0 < k"
      using assms(6) by (cases k) auto
    moreover from this have "ret = wait (k - 1)"
      using less.prems(2,3) by simp
    moreover have "cond_wait_loop wait msecs t i k ret = Some (ret, k)"
      using False by (simp add: step)
    ultimately show ?thesis
      using less.prems by (intro exI [of _ ret] exI [of _ k]) auto
  qed
qed

text \<open>C23: for every time up to \<^verbatim>\<open>0xC0000000\<close> milliseconds the timed wait returns after at most seven timed waits. It
  ends with the first result that is not a timeout; if all are, it has waited for at least the time asked for, and the last
  wait began before that time was over.\<close>

theorem timed_wait_bounds:
  assumes "msecs \<noteq> 0" "msecs \<le> 0xC0000000"
  shows "\<exists>r m. pthread_cond_timeout_np wait msecs = Some (r, m) \<and> 1 \<le> m \<and> m \<le> 7 \<and> r = wait (m - 1) \<and>
    (\<forall>j<m - 1. wait j = ETIMEDOUT) \<and> (m - 1) * unat (wait_slice msecs) < unat msecs \<and>
    (r = ETIMEDOUT \<longrightarrow> unat msecs \<le> m * unat (wait_slice msecs))"
proof -
  let ?n = "unat msecs" and ?t = "unat (wait_slice msecs)"
  have n: "0 < ?n" "?n \<le> 3221225472"
    using assms by (simp_all add: unat_gt_0 word_le_nat_alt)
  have t: "?t = max 1 (?n div 4)"
    by (rule unat_wait_slice)
  then have "?n + ?t \<le> 2 ^ 32" "0 < ?t"
    using n by auto
  from cond_wait_loop_bounds [OF this _ _ _ n(1), of 0 0 0 wait]
  obtain r m where m: "cond_wait_loop wait msecs (wait_slice msecs) 0 0 0 = Some (r, m)" "1 \<le> m" "(m - 1) * ?t < ?n" "r = wait (m - 1)"
    "\<forall>j<m - 1. wait j = ETIMEDOUT" "r = ETIMEDOUT \<longrightarrow> ?n \<le> m * ?t"
    by auto
  have "m \<le> 7"
  proof (rule ccontr)
    assume "\<not> m \<le> 7"
    then have "7 * ?t \<le> (m - 1) * ?t"
      by (intro mult_right_mono) auto
    moreover have "?n < 4 * (?n div 4) + 4"
      by presburger
    ultimately have "7 * ?t < ?n" "?n < 4 * (?n div 4) + 4"
      using m(3) by linarith+
    then show False
      unfolding t by (cases "?n div 4 = 0") auto
  qed
  then show ?thesis
    using m assms(1) by (auto simp: pthread_cond_timeout_np_def)
qed

theorem timed_wait_bounds_witness:
  "\<exists>r m. pthread_cond_timeout_np (\<lambda>_. ETIMEDOUT) 30000 = Some (r, m) \<and> m \<le> 7 \<and> 30000 \<le> m * unat (wait_slice 30000)"
  using timed_wait_bounds [of 30000 "\<lambda>_. ETIMEDOUT"] by auto

text \<open>The deadline of a wait is normalised and lies the given time ahead.\<close>

lemma deadline_ahead:
  assumes "0 \<le> usec" "usec < 1000000" "setTimespecRelative (sec, usec) msec = (s, n)"
  shows "0 \<le> n \<and> n < 1000000000 \<and> s * 1000000000 + n = sec * 1000000000 + usec * 1000 + msec * 1000000"
proof -
  obtain q r where q: "msec div 1000 = q" "msec mod 1000 = r" "msec = 1000 * q + r" "0 \<le> r" "r < 1000"
    by (metis mult_div_mod_eq pos_mod_bound pos_mod_sign zero_less_numeral)
  show ?thesis
    using assms q(4,5) unfolding setTimespecRelative_def q(1,2) by (auto simp: q(3) Let_def split: if_splits)
qed

subsection \<open>Shared memory and the main program\<close>

record shm_os =
  shm_open_fd :: int
  ftruncate_ok :: bool
  mmap_ok :: bool

text \<open>The result and whether the status is mapped.\<close>

definition setup_shared_memory :: "shm_os \<Rightarrow> int \<times> bool" where
  "setup_shared_memory os =
     (if shm_open_fd os = - 1 \<or> \<not> ftruncate_ok os then (1, False) else if mmap_ok os then (0, True) else (1, False))"

text \<open>The loop of \<^verbatim>\<open>main\<close> with the runs \<open>run 0, run 1, \<dots>\<close>; \<open>None\<close> if it goes on after \<open>fuel\<close> runs.\<close>

fun restart_loop :: "(nat \<Rightarrow> PROFILE_T \<Rightarrow> int \<times> int \<times> PROFILE_T) \<Rightarrow> nat \<Rightarrow> nat \<Rightarrow> PROFILE_T \<Rightarrow> int option" where
  "restart_loop run n 0 p = None"
| "restart_loop run n (Suc fuel) p =
     (let (ret, hangup, p) = run n p in if 0 < hangup then restart_loop run (n + 1) fuel p else Some ret)"

definition cm_main ::
  "(cstr \<times> buf option) list option \<Rightarrow> (int \<Rightarrow> int) \<Rightarrow> shm_os \<Rightarrow> (nat \<Rightarrow> PROFILE_T \<Rightarrow> int \<times> int \<times> PROFILE_T) \<Rightarrow> nat \<Rightarrow>
     cstr \<Rightarrow> cstr list \<Rightarrow> int option access" where
  "cm_main gt kill os run fuel prog args =
     (case parse_user_input args s_profile of
        None \<Rightarrow> Some (Some 0)
      | Some p \<Rightarrow>
          if kill_pdp p \<noteq> 0 then map_option (Some \<circ> fst) (kill_data_call_pdp gt kill (kill_pdp p) prog)
          else (let (ret, _) = setup_shared_memory os
                in if ret \<noteq> 0 then Some (Some ret) else Some (restart_loop run 0 fuel p)))"

text \<open>The program ends with the first run that was not ended by the modem.\<close>

lemma restart_loop_ends:
  assumes "\<forall>j<k. \<forall>p. 0 < fst (snd (run (n + j) p))" "\<forall>p. fst (snd (run (n + k) p)) \<le> 0"
  shows "\<exists>p'. restart_loop run n (Suc k) p = Some (fst (run (n + k) p'))"
  using assms
proof (induction k arbitrary: n p)
  case 0
  then show ?case
    by (cases "run n p") (auto simp: not_less dest: spec [of _ p] intro!: exI [of _ p])
next
  case (Suc k)
  obtain ret h q where r: "run n p = (ret, h, q)"
    by (cases "run n p")
  then have "0 < h"
    using Suc.prems(1) [rule_format, of 0 p] by simp
  moreover have "\<forall>j<k. \<forall>p. 0 < fst (snd (run (n + 1 + j) p))" "\<forall>p. fst (snd (run (n + 1 + k) p)) \<le> 0"
    using Suc.prems by (auto dest: spec [of _ "Suc _"])
  ultimately show ?case
    using Suc.IH [of "n + 1" q] r by auto
qed

end
