(* ===== verification/Qrtr_Proxy.thy ===== *)
theory Qrtr_Proxy
  imports Qmi_Proxy
begin

text \<open>
  \<^verbatim>\<open>quectel-qrtr-proxy\<close> (\<^verbatim>\<open>quectel-qrtr-proxy.c\<close>, with the structures of \<^verbatim>\<open>qrtr.h\<close>): local clients speak QMI to the proxy and the proxy speaks QRTR
  to the modem. The proxy answers control requests itself: it hands out client ids and a QRTR port for each of them from two tables of bytes. Service
  messages travel as QRTR data packets between the port of the client and the port the modem announced for the service.

  System calls are parameters: \<open>qrtr_os\<close> says which sizes \<^verbatim>\<open>malloc\<close> can provide, what its memory holds, and what \<^verbatim>\<open>poll\<close> and \<^verbatim>\<open>write\<close> return for
  the \<open>n\<close>-th message. The logs record every attempt to write, \<open>None\<close> for a descriptor that was not writable. The host is little-endian, \<^verbatim>\<open>size_t\<close>
  has 64 bits.

  Offsets in a packet: version 0, type 4, source node 8 and port 12, \<^verbatim>\<open>confirm_rx\<close> 16, size 20, destination node 24 and port 28; behind the header of 32 bytes a
  control packet has its command at 32 and its members from 36.
\<close>

subsection \<open>State\<close>

abbreviation (input) "QRTR_NODE_BCAST \<equiv> (0xffffffff :: u32)"
abbreviation (input) "QRTR_PORT_CTRL \<equiv> (0xfffffffe :: u32)"
abbreviation (input) "QRTR_TYPE_DATA \<equiv> (1 :: u32)"
abbreviation (input) "QRTR_TYPE_HELLO \<equiv> (2 :: u32)"
abbreviation (input) "QRTR_TYPE_NEW_SERVER \<equiv> (4 :: u32)"
abbreviation (input) "QRTR_TYPE_DEL_SERVER \<equiv> (5 :: u32)"
abbreviation (input) "QRTR_TYPE_DEL_CLIENT \<equiv> (6 :: u32)"
abbreviation (input) "QRTR_TYPE_RESUME_TX \<equiv> (7 :: u32)"

text \<open>The statics that no code changes.\<close>

abbreviation (input) "node_modem \<equiv> (3 :: u32)"
abbreviation (input) "node_myself \<equiv> (1 :: u32)"

record QRTR_PROXY_CLINET =
  qc_QMIType :: byte
  qc_ClientId :: byte
  qc_node_id :: u32
  qc_port_id :: u32

record QRTR_PROXY_CONNECTION =
  qr_ClientFd :: int
  qr_clients :: "QRTR_PROXY_CLINET list"

record QRTR_SERVICE =
  sv_service :: u32
  sv_version :: u32
  sv_instance :: u32
  sv_node :: u32
  sv_port :: u32
  sv_src_node_id :: u32
  sv_src_port_id :: u32

record qrtr_os =
  qr_alloc :: "nat \<Rightarrow> bool"
  qr_junk :: "nat \<Rightarrow> byte"
  qr_dev_poll :: "nat \<Rightarrow> int \<times> bool"
  qr_dev_write :: "nat \<Rightarrow> int"
  qr_client_poll :: "nat \<Rightarrow> int \<times> bool"
  qr_client_write :: "nat \<Rightarrow> int"

record qrtr_proxy =
  qrtr_proxy_server_fd :: int
  qrtr_proxy_connection :: "QRTR_PROXY_CONNECTION list"
  qrtr_server_list :: "QRTR_SERVICE list"
  client_bitmap :: "byte list"
  port_bitmap :: "byte list"
  rx_buf :: buf
  qr_dev_log :: "buf option list"
  qr_client_log :: "(int \<times> buf option) list"
  qr_closed :: "int list"

definition qrtr_start :: "qrtr_os \<Rightarrow> qrtr_proxy" where
  "qrtr_start os =
     \<lparr>qrtr_proxy_server_fd = - 1, qrtr_proxy_connection = [], qrtr_server_list = [], client_bitmap = replicate 0xf0 0,
      port_bitmap = replicate 0xff0 0, rx_buf = map (qr_junk os) [0..<8192], qr_dev_log = [], qr_client_log = [], qr_closed = []\<rparr>"

definition find_qrtr_service :: "byte \<Rightarrow> qrtr_proxy \<Rightarrow> QRTR_SERVICE option" where
  "find_qrtr_service QMIType p = find (\<lambda>srv. sv_service srv = ucast QMIType) (qrtr_server_list p)"

subsection \<open>Client ids and ports\<close>

text \<open>The search both allocations share: the first free entry gets its own index, cut to a byte; 0 if there is none.\<close>

definition bitmap_alloc :: "byte list \<Rightarrow> nat \<times> byte list" where
  "bitmap_alloc m = (case find (\<lambda>i. m ! i = 0) [1..<length m] of None \<Rightarrow> (0, m) | Some i \<Rightarrow> (i, m[i := of_nat i]))"

definition bitmap_free :: "nat \<Rightarrow> byte list \<Rightarrow> byte list" where
  "bitmap_free i m = (if i < length m \<and> unat (m ! i) = i then m[i := 0] else m)"

definition alloc_client_id :: "qrtr_proxy \<Rightarrow> nat \<times> qrtr_proxy" where
  "alloc_client_id p = (let (i, m) = bitmap_alloc (client_bitmap p) in (i, p\<lparr>client_bitmap := m\<rparr>))"

definition free_client_id :: "nat \<Rightarrow> qrtr_proxy \<Rightarrow> qrtr_proxy" where
  "free_client_id i p = p\<lparr>client_bitmap := bitmap_free i (client_bitmap p)\<rparr>"

definition alloc_port_id :: "qrtr_proxy \<Rightarrow> nat \<times> qrtr_proxy" where
  "alloc_port_id p = (let (i, m) = bitmap_alloc (port_bitmap p) in (i, p\<lparr>port_bitmap := m\<rparr>))"

definition free_port_id :: "nat \<Rightarrow> qrtr_proxy \<Rightarrow> qrtr_proxy" where
  "free_port_id i p = p\<lparr>port_bitmap := bitmap_free i (port_bitmap p)\<rparr>"

subsection \<open>Writing to the device and to clients\<close>

definition align_4 :: "nat \<Rightarrow> nat" where
  "align_4 n = (n + 3) div 4 * 4"

definition qrtr_send_to_client :: "qrtr_os \<Rightarrow> buf \<Rightarrow> int \<Rightarrow> qrtr_proxy \<Rightarrow> (int \<times> qrtr_proxy) access" where
  "qrtr_send_to_client os pQMI fd p = do {
     l \<leftarrow> rd16 pQMI 1;
     let sz = unat l + 1;
     let n = length (qr_client_log p);
     let (ret, pollout) = qr_client_poll os n;
     if pollout then do {
       bs \<leftarrow> rdn pQMI 0 sz;
       Some (if qr_client_write os n = int sz then 0 else - 1, p\<lparr>qr_client_log := qr_client_log p @ [(fd, Some bs)]\<rparr>) }
     else Some (if ret = int sz then 0 else - 1, p\<lparr>qr_client_log := qr_client_log p @ [(fd, None)]\<rparr>) }"

definition send_qrtr_to_dev :: "qrtr_os \<Rightarrow> buf \<Rightarrow> qrtr_proxy \<Rightarrow> (int \<times> qrtr_proxy) access" where
  "send_qrtr_to_dev os hdr p = do {
     l \<leftarrow> rd32 hdr 20;
     let sz = align_4 (unat l + 32);
     let n = length (qr_dev_log p);
     let (ret, pollout) = qr_dev_poll os n;
     if pollout then do {
       bs \<leftarrow> rdn hdr 0 sz;
       Some (if qr_dev_write os n = int sz then 0 else - 1, p\<lparr>qr_dev_log := qr_dev_log p @ [Some bs]\<rparr>) }
     else Some (if ret = int sz then 0 else - 1, p\<lparr>qr_dev_log := qr_dev_log p @ [None]\<rparr>) }"

text \<open>An address is a pair of node and port.\<close>

type_synonym sockaddr_qrtr = "u32 \<times> u32"

definition qrtr_hdr :: "u32 \<Rightarrow> sockaddr_qrtr \<Rightarrow> sockaddr_qrtr \<Rightarrow> bool \<Rightarrow> u32 \<Rightarrow> buf" where
  "qrtr_hdr type from to confirm_rx sz =
     bytes32 1 @ bytes32 type @ bytes32 (fst from) @ bytes32 (snd from) @ bytes32 (of_bool confirm_rx) @ bytes32 sz
       @ bytes32 (fst to) @ bytes32 (snd to)"

text \<open>The result is -1 on every path. The length is the one of the caller modulo the range of \<^verbatim>\<open>size_t\<close>; up to three bytes behind the data are
  written as \<^verbatim>\<open>malloc\<close> left them.\<close>

definition qrtr_node_enqueue ::
  "qrtr_os \<Rightarrow> buf \<Rightarrow> nat \<Rightarrow> u32 \<Rightarrow> sockaddr_qrtr \<Rightarrow> sockaddr_qrtr \<Rightarrow> bool \<Rightarrow> qrtr_proxy \<Rightarrow> (int \<times> qrtr_proxy) access" where
  "qrtr_node_enqueue os data len type from to confirm_rx p =
     (let n = align_4 ((32 + len) mod 2 ^ 64)
      in if qr_alloc os n then do {
           b \<leftarrow> wr (map (qr_junk os) [0..<n]) 0 (qrtr_hdr type from to confirm_rx (of_nat len));
           bs \<leftarrow> rdn data 0 len;
           b \<leftarrow> wr b 32 bs;
           (_, p) \<leftarrow> send_qrtr_to_dev os b p;
           Some (- 1, p) }
         else Some (- 1, p))"

text \<open>A \<^verbatim>\<open>struct qrtr_ctrl_pkt\<close> for a client, all other members 0.\<close>

definition client_pkt :: "u32 \<Rightarrow> u32 \<Rightarrow> u32 \<Rightarrow> buf" where
  "client_pkt cmd nd prt = bytes32 cmd @ bytes32 nd @ bytes32 prt @ replicate 8 0"

definition send_ctrl_hello :: "qrtr_os \<Rightarrow> u32 \<Rightarrow> u32 \<Rightarrow> qrtr_proxy \<Rightarrow> (int \<times> qrtr_proxy) access" where
  "send_ctrl_hello os sq_node sq_port p = do {
     (rc, p) \<leftarrow> qrtr_node_enqueue os (client_pkt QRTR_TYPE_HELLO 0 0) 20 QRTR_TYPE_HELLO (node_myself, QRTR_PORT_CTRL) (sq_node, sq_port) False p;
     Some (if rc < 0 then rc else 0, p) }"

definition ctrl_cmd_del_client :: "qrtr_os \<Rightarrow> u32 \<Rightarrow> u32 \<Rightarrow> byte \<Rightarrow> qrtr_proxy \<Rightarrow> (int \<times> qrtr_proxy) access" where
  "ctrl_cmd_del_client os sq_node sq_port QMIType p = do {
     let to = (case find_qrtr_service QMIType p of None \<Rightarrow> QRTR_NODE_BCAST | Some srv \<Rightarrow> sv_src_node_id srv);
     (rc, p) \<leftarrow> qrtr_node_enqueue os (client_pkt QRTR_TYPE_DEL_CLIENT sq_node sq_port) 20 QRTR_TYPE_DATA (sq_node, sq_port) (to, QRTR_PORT_CTRL) False p;
     Some (if rc < 0 then rc else 0, p) }"

subsection \<open>Services\<close>

text \<open>\<^verbatim>\<open>hdr->type\<close> is used without conversion. For a removed server the code unlinks the node it has just made, which is linked to itself only, so
  that the list stays as it is.\<close>

definition handle_server_change :: "qrtr_os \<Rightarrow> buf \<Rightarrow> qrtr_proxy \<Rightarrow> qrtr_proxy access" where
  "handle_server_change os hdr p = do {
     node \<leftarrow> rd32 hdr 44;
     if node \<noteq> node_modem then Some p
     else if \<not> qr_alloc os 48 then Some p
     else do {
       service \<leftarrow> rd32 hdr 36; inst \<leftarrow> rd32 hdr 40; port \<leftarrow> rd32 hdr 48;
       src_node_id \<leftarrow> rd32 hdr 8; src_port_id \<leftarrow> rd32 hdr 12;
       let s = \<lparr>sv_service = service, sv_version = inst AND 0xff, sv_instance = drop_bit 8 inst, sv_node = node, sv_port = port,
                sv_src_node_id = src_node_id, sv_src_port_id = src_port_id\<rparr>;
       type \<leftarrow> rd32 hdr 4;
       Some (if type = QRTR_TYPE_NEW_SERVER then p\<lparr>qrtr_server_list := qrtr_server_list p @ [s]\<rparr> else p) } }"

subsection \<open>Clients of a connection\<close>

definition alloc_qrtr_client_id ::
  "qrtr_os \<Rightarrow> QRTR_PROXY_CONNECTION \<Rightarrow> byte \<Rightarrow> qrtr_proxy \<Rightarrow> (byte \<times> QRTR_PROXY_CONNECTION \<times> qrtr_proxy) access" where
  "alloc_qrtr_client_id os qrtr_con QMIType p =
     (if qr_alloc os 32 then
        (let (cid, p) = alloc_client_id p; (port, p) = alloc_port_id p;
             c = \<lparr>qc_QMIType = QMIType, qc_ClientId = of_nat cid, qc_node_id = 1, qc_port_id = of_nat port\<rparr>
         in Some (qc_ClientId c, qrtr_con\<lparr>qr_clients := qr_clients qrtr_con @ [c]\<rparr>, p))
      else None)"

text \<open>What is done for the client that is released.\<close>

definition drop_client :: "qrtr_os \<Rightarrow> QRTR_PROXY_CLINET \<Rightarrow> qrtr_proxy \<Rightarrow> qrtr_proxy access" where
  "drop_client os c p = do {
     (_, p) \<leftarrow> ctrl_cmd_del_client os (qc_node_id c) (qc_port_id c) (qc_QMIType c) p;
     Some (free_port_id (unat (qc_port_id c)) (free_client_id (unat (qc_ClientId c)) p)) }"

definition release_qrtr_client_id ::
  "qrtr_os \<Rightarrow> QRTR_PROXY_CONNECTION \<Rightarrow> byte \<Rightarrow> byte \<Rightarrow> qrtr_proxy \<Rightarrow> (QRTR_PROXY_CONNECTION \<times> qrtr_proxy) access" where
  "release_qrtr_client_id os qrtr_con QMIType ClientId p =
     (let hit = (\<lambda>c. QMIType = qc_QMIType c \<and> ClientId = qc_ClientId c)
      in case find hit (qr_clients qrtr_con) of
           None \<Rightarrow> Some (qrtr_con, p)
         | Some c \<Rightarrow> do {
             p \<leftarrow> drop_client os c p;
             Some (qrtr_con\<lparr>qr_clients := remove_first hit (qr_clients qrtr_con)\<rparr>, p) })"

lemma release_head:
  "qr_clients con = c # cs \<Longrightarrow> release_qrtr_client_id os con (qc_QMIType c) (qc_ClientId c) p =
     do { p \<leftarrow> drop_client os c p; Some (con\<lparr>qr_clients := cs\<rparr>, p) }"
  by (simp add: release_qrtr_client_id_def)

text \<open>The loop of \<^verbatim>\<open>cleanup_qrtr_connection\<close> that releases the first client until there is none.\<close>

function release_all :: "qrtr_os \<Rightarrow> QRTR_PROXY_CONNECTION \<Rightarrow> qrtr_proxy \<Rightarrow> qrtr_proxy access" where
  "release_all os con p =
     (case qr_clients con of
        [] \<Rightarrow> Some p
      | c # cs \<Rightarrow>
          (case release_qrtr_client_id os con (qc_QMIType c) (qc_ClientId c) p of
             None \<Rightarrow> None
           | Some (con', p') \<Rightarrow> release_all os con' p'))"
  by pat_completeness auto
termination
  by (relation "measure (\<lambda>(os, con, p). length (qr_clients con))") (auto simp: release_head bind_eq_Some_conv)

declare release_all.simps [simp del]

subsection \<open>Connections\<close>

definition accept_qrtr_connection :: "qrtr_os \<Rightarrow> int \<Rightarrow> qrtr_proxy \<Rightarrow> qrtr_proxy" where
  "accept_qrtr_connection os clientfd p =
     (if qr_alloc os 40
      then p\<lparr>qrtr_proxy_connection := qrtr_proxy_connection p @ [\<lparr>qr_ClientFd = clientfd, qr_clients = []\<rparr>]\<rparr>
      else p)"

definition cleanup_qrtr_connection :: "qrtr_os \<Rightarrow> int \<Rightarrow> qrtr_proxy \<Rightarrow> qrtr_proxy access" where
  "cleanup_qrtr_connection os clientfd p =
     (case find (\<lambda>c. qr_ClientFd c = clientfd) (qrtr_proxy_connection p) of
        None \<Rightarrow> Some p
      | Some qrtr_con \<Rightarrow> do {
          p \<leftarrow> release_all os qrtr_con p;
          Some (p\<lparr>qr_closed := qr_closed p @ [clientfd],
                  qrtr_proxy_connection := remove_first (\<lambda>c. qr_ClientFd c = clientfd) (qrtr_proxy_connection p)\<rparr>) })"

text \<open>A changed connection takes the place of the first one with its descriptor.\<close>

fun put_con :: "QRTR_PROXY_CONNECTION \<Rightarrow> QRTR_PROXY_CONNECTION list \<Rightarrow> QRTR_PROXY_CONNECTION list" where
  "put_con con [] = []"
| "put_con con (c # cs) = (if qr_ClientFd c = qr_ClientFd con then con # cs else c # put_con con cs)"

subsection \<open>Packets of the device\<close>

definition qmi_head :: "nat \<Rightarrow> byte \<Rightarrow> byte \<Rightarrow> buf" where
  "qmi_head n QMIType ClientId = [0x01] @ bytes16 (of_nat (n + 5)) @ [0x00, QMIType, ClientId]"

text \<open>The two loops over connections and clients: who gets a data packet.\<close>

definition qrtr_receivers :: "u32 \<Rightarrow> u32 \<Rightarrow> QRTR_PROXY_CONNECTION list \<Rightarrow> (int \<times> QRTR_PROXY_CLINET) list" where
  "qrtr_receivers dst_node dst_port cons =
     concat (map (\<lambda>con. map (\<lambda>c. (qr_ClientFd con, c))
       (filter (\<lambda>c. qc_node_id c = dst_node \<and> qc_port_id c = dst_port) (qr_clients con))) cons)"

fun deliver_data :: "qrtr_os \<Rightarrow> buf \<Rightarrow> nat \<Rightarrow> (int \<times> QRTR_PROXY_CLINET) list \<Rightarrow> qrtr_proxy \<Rightarrow> qrtr_proxy access" where
  "deliver_data os hdr sz [] p = Some p"
| "deliver_data os hdr sz ((fd, c) # rs) p = do {
     p \<leftarrow> (if qr_alloc os (sz + 6) then do {
             bs \<leftarrow> rdn hdr 32 sz;
             (_, p) \<leftarrow> qrtr_send_to_client os (qmi_head sz (qc_QMIType c) (qc_ClientId c) @ bs) fd p;
             Some p }
           else Some p);
     deliver_data os hdr sz rs p }"

definition recv_qrtr_from_dev :: "qrtr_os \<Rightarrow> buf \<Rightarrow> qrtr_proxy \<Rightarrow> qrtr_proxy access" where
  "recv_qrtr_from_dev os hdr p = do {
     type \<leftarrow> rd32 hdr 4;
     src_node \<leftarrow> rd32 hdr 8; src_port \<leftarrow> rd32 hdr 12;
     if type = QRTR_TYPE_HELLO then do { (_, p) \<leftarrow> send_ctrl_hello os src_node src_port p; Some p }
     else if type = QRTR_TYPE_NEW_SERVER \<or> type = QRTR_TYPE_DEL_SERVER then handle_server_change os hdr p
     else if type = QRTR_TYPE_DATA then do {
       dst_node \<leftarrow> rd32 hdr 24; dst_port \<leftarrow> rd32 hdr 28; sz \<leftarrow> rd32 hdr 20; confirm_rx \<leftarrow> rd32 hdr 16;
       p \<leftarrow> deliver_data os hdr (unat sz) (qrtr_receivers dst_node dst_port (qrtr_proxy_connection p)) p;
       if confirm_rx \<noteq> 0 then do {
         (_, p) \<leftarrow> qrtr_node_enqueue os (client_pkt QRTR_TYPE_RESUME_TX dst_node dst_port) 20 QRTR_TYPE_RESUME_TX
                    (dst_node, dst_port) (src_node, src_port) False p;
         Some p }
       else Some p }
     else Some p }"

subsection \<open>Messages of the clients\<close>

text \<open>The answers of the proxy to control requests: result block, then a block with the values.\<close>

definition ctl_answer :: "byte \<Rightarrow> u16 \<Rightarrow> u16 \<Rightarrow> u16 \<Rightarrow> buf \<Rightarrow> buf" where
  "ctl_answer tid type res err vals =
     [0x01] @ bytes16 (of_nat (21 + length vals)) @ [0x00, QMUX_TYPE_CTL, 0x00, 0x01, tid] @ bytes16 type @ bytes16 (of_nat (10 + length vals))
       @ [0x02] @ bytes16 4 @ bytes16 res @ bytes16 err @ [0x01] @ bytes16 (of_nat (length vals)) @ vals"

definition qrtr_get_client :: "qrtr_os \<Rightarrow> buf \<Rightarrow> QRTR_PROXY_CONNECTION \<Rightarrow> qrtr_proxy \<Rightarrow> qrtr_proxy access" where
  "qrtr_get_client os pQMI con p = do {
     QMIType \<leftarrow> rd8 pQMI 15; tid \<leftarrow> rd8 pQMI 7; type \<leftarrow> rd16 pQMI 8;
     if qr_alloc os 256 then do {
       (ClientId, p) \<leftarrow>
         (case find_qrtr_service QMIType p of
            None \<Rightarrow> Some (0, p)
          | Some _ \<Rightarrow> do {
              (cid, con, p) \<leftarrow> alloc_qrtr_client_id os con QMIType p;
              Some (cid, p\<lparr>qrtr_proxy_connection := put_con con (qrtr_proxy_connection p)\<rparr>) });
       let ok = ClientId \<noteq> 0;
       (_, p) \<leftarrow> qrtr_send_to_client os
                  (ctl_answer tid type (if ok then 0 else 1) (if ok then 0 else 3) [QMIType, ClientId]) (qr_ClientFd con) p;
       Some p }
     else Some p }"

definition qrtr_release_client :: "qrtr_os \<Rightarrow> buf \<Rightarrow> QRTR_PROXY_CONNECTION \<Rightarrow> qrtr_proxy \<Rightarrow> qrtr_proxy access" where
  "qrtr_release_client os pQMI con p = do {
     QMIType \<leftarrow> rd8 pQMI 15; ClientId \<leftarrow> rd8 pQMI 16; tid \<leftarrow> rd8 pQMI 7; type \<leftarrow> rd16 pQMI 8;
     (con, p) \<leftarrow> release_qrtr_client_id os con QMIType ClientId p;
     let p = p\<lparr>qrtr_proxy_connection := put_con con (qrtr_proxy_connection p)\<rparr>;
     if qr_alloc os 256 then do {
       (_, p) \<leftarrow> qrtr_send_to_client os (ctl_answer tid type 0 0 [QMIType, ClientId]) (qr_ClientFd con) p;
       Some p }
     else Some p }"

definition qrtr_get_version :: "qrtr_os \<Rightarrow> buf \<Rightarrow> QRTR_PROXY_CONNECTION \<Rightarrow> qrtr_proxy \<Rightarrow> qrtr_proxy access" where
  "qrtr_get_version os pQMI con p = do {
     tid \<leftarrow> rd8 pQMI 7; type \<leftarrow> rd16 pQMI 8;
     if qr_alloc os 256 then do {
       (_, p) \<leftarrow> qrtr_send_to_client os (ctl_answer tid type 0 0 [0]) (qr_ClientFd con) p;
       Some p }
     else Some p }"

text \<open>A service message goes out from the port of the client it names. \<^verbatim>\<open>Length + 1 - sizeof(QCQMI_HDR)\<close> is computed in \<^verbatim>\<open>size_t\<close>.\<close>

definition qrtr_service_msg :: "qrtr_os \<Rightarrow> buf \<Rightarrow> QRTR_PROXY_CONNECTION \<Rightarrow> qrtr_proxy \<Rightarrow> qrtr_proxy access" where
  "qrtr_service_msg os pQMI con p = do {
     QMIType \<leftarrow> rd8 pQMI 4; ClientId \<leftarrow> rd8 pQMI 5; l \<leftarrow> rd16 pQMI 1;
     case find (\<lambda>c. QMIType = qc_QMIType c \<and> ClientId = qc_ClientId c) (qr_clients con) of
       None \<Rightarrow> Some p
     | Some c \<Rightarrow>
         (case find_qrtr_service QMIType p of
            None \<Rightarrow> Some p
          | Some srv \<Rightarrow>
              if sv_service srv = 0 then Some p
              else do {
                (_, p) \<leftarrow> qrtr_node_enqueue os (drop 6 pQMI) (nat ((int (unat l) + 1 - 6) mod 2 ^ 64)) QRTR_TYPE_DATA
                           (qc_node_id c, qc_port_id c) (sv_node srv, sv_port srv) False p;
                Some p }) }"

text \<open>With no connection at all the variable \<^verbatim>\<open>qrtr_con\<close> is never set.\<close>

definition qrtr_recv_from_client :: "qrtr_os \<Rightarrow> buf \<Rightarrow> int \<Rightarrow> qrtr_proxy \<Rightarrow> (int \<times> qrtr_proxy) access" where
  "qrtr_recv_from_client os pQMI clientfd p =
     (if qrtr_proxy_connection p = [] then None
      else (case find (\<lambda>c. qr_ClientFd c = clientfd) (qrtr_proxy_connection p) of
              None \<Rightarrow> Some (- 1, p)
            | Some con \<Rightarrow> do {
                QMIType \<leftarrow> rd8 pQMI 4;
                p \<leftarrow> (if QMIType = QMUX_TYPE_CTL then do {
                        type \<leftarrow> rd16 pQMI 8;
                        if type = QMICTL_SYNC_REQ then Some p
                        else if type = QMICTL_GET_CLIENT_ID_REQ then qrtr_get_client os pQMI con p
                        else if type = QMICTL_RELEASE_CLIENT_ID_REQ then qrtr_release_client os pQMI con p
                        else if type = QMICTL_GET_VERSION_REQ then qrtr_get_version os pQMI con p
                        else Some p }
                      else qrtr_service_msg os pQMI con p);
                Some (0, p) }))"

subsection \<open>The loop\<close>

definition qrtr_read :: "buf \<Rightarrow> qrtr_proxy \<Rightarrow> (nat \<times> qrtr_proxy) access" where
  "qrtr_read bs p = do {
     let x = take 8192 bs;
     b \<leftarrow> wr (rx_buf p) 0 x;
     Some (length x, p\<lparr>rx_buf := b\<rparr>) }"

text \<open>The events are the ones of the QMI proxy. The size a packet announces is compared as \<^verbatim>\<open>int\<close>.\<close>

fun qrtr_event_step :: "qrtr_os \<Rightarrow> proxy_event \<Rightarrow> qrtr_proxy \<Rightarrow> (loop_next \<times> qrtr_proxy) access" where
  "qrtr_event_step os DevError p = Some (LeaveLoop, p)"
| "qrtr_event_step os (DevRead bs) p = do {
     (nreads, p) \<leftarrow> qrtr_read bs p;
     if nreads = 0 then Some (LeaveLoop, p)
     else do {
       sz \<leftarrow> rd32 (rx_buf p) 20;
       if int nreads \<noteq> sint (of_nat (align_4 (unat sz + 32)) :: u32) then Some (Continue, p)
       else do { p \<leftarrow> recv_qrtr_from_dev os (rx_buf p) p; Some (Continue, p) } } }"
| "qrtr_event_step os (NewClient fd) p = Some (Continue, accept_qrtr_connection os fd p)"
| "qrtr_event_step os (ClientHup fd) p = do { p \<leftarrow> cleanup_qrtr_connection os fd p; Some (Continue, p) }"
| "qrtr_event_step os (ClientRead fd bs) p = do {
     (nreads, p) \<leftarrow> qrtr_read bs p;
     if nreads = 0 then do { p \<leftarrow> cleanup_qrtr_connection os fd p; Some (EndTurn, p) }
     else do {
       l \<leftarrow> rd16 (rx_buf p) 1;
       if nreads \<noteq> unat l + 1 then Some (Continue, p)
       else do { (ret, p) \<leftarrow> qrtr_recv_from_client os (rx_buf p) fd p; Some (Continue, p) } } }"

fun qrtr_turn :: "qrtr_os \<Rightarrow> proxy_event list \<Rightarrow> qrtr_proxy \<Rightarrow> (bool \<times> qrtr_proxy) access" where
  "qrtr_turn os [] p = Some (False, p)"
| "qrtr_turn os (e # es) p = do {
     (k, p) \<leftarrow> qrtr_event_step os e p;
     (case k of Continue \<Rightarrow> qrtr_turn os es p | EndTurn \<Rightarrow> Some (False, p) | LeaveLoop \<Rightarrow> Some (True, p)) }"

text \<open>Sending to the device changes the log of the device only.\<close>

lemma send_qrtr_to_dev_frame: "send_qrtr_to_dev os b p = Some (r, q) \<Longrightarrow> \<exists>l. q = p\<lparr>qr_dev_log := l\<rparr>"
  by (auto simp: send_qrtr_to_dev_def Let_def bind_eq_Some_conv split: if_splits prod.splits)

lemma qrtr_node_enqueue_frame: "qrtr_node_enqueue os d n ty a b cf p = Some (r, q) \<Longrightarrow> \<exists>l. q = p\<lparr>qr_dev_log := l\<rparr>"
  by (fastforce simp: qrtr_node_enqueue_def Let_def bind_eq_Some_conv split: if_splits
      intro: exI [of _ "qr_dev_log p"] dest: send_qrtr_to_dev_frame)

lemma drop_client_frame:
  assumes "drop_client os c p = Some q"
  shows "\<exists>l. q = p\<lparr>qr_dev_log := l, client_bitmap := bitmap_free (unat (qc_ClientId c)) (client_bitmap p),
                   port_bitmap := bitmap_free (unat (qc_port_id c)) (port_bitmap p)\<rparr>"
  using assms
  by (fastforce simp: drop_client_def ctrl_cmd_del_client_def Let_def bind_eq_Some_conv free_client_id_def free_port_id_def
      dest: qrtr_node_enqueue_frame)

lemma release_all_simps [simp]:
  "release_all os \<lparr>qr_ClientFd = fd, qr_clients = []\<rparr> p = Some p"
  "release_all os \<lparr>qr_ClientFd = fd, qr_clients = c # cs\<rparr> p =
     do { p \<leftarrow> drop_client os c p; release_all os \<lparr>qr_ClientFd = fd, qr_clients = cs\<rparr> p }"
  by (simp_all add: release_all.simps [of os "\<lparr>qr_ClientFd = fd, qr_clients = _\<rparr>"] release_head split: option.splits Option.bind_splits)

lemma release_all_frame:
  "release_all os con p = Some q \<Longrightarrow> \<exists>l m n. q = p\<lparr>qr_dev_log := l, client_bitmap := m, port_bitmap := n\<rparr>"
proof (cases con)
  case (fields fd cs)
  show "release_all os con p = Some q \<Longrightarrow> ?thesis"
    unfolding fields
  proof (induction cs arbitrary: p)
    case Nil
    then have "q = p\<lparr>qr_dev_log := qr_dev_log p, client_bitmap := client_bitmap p, port_bitmap := port_bitmap p\<rparr>"
      by simp
    then show ?case
      by blast
  next
    case (Cons c cs)
    then show ?case
      by (fastforce simp: bind_eq_Some_conv dest: drop_client_frame)
  qed
qed

text \<open>Behind the loop: the first connection is cleaned up until there is none.\<close>

lemma cleanup_qrtr_first:
  assumes "qrtr_proxy_connection p = c # cs" "cleanup_qrtr_connection os (qr_ClientFd c) p = Some q"
  shows "qrtr_proxy_connection q = cs"
  using assms by (auto simp: cleanup_qrtr_connection_def bind_eq_Some_conv dest!: release_all_frame)

function qrtr_exit :: "qrtr_os \<Rightarrow> qrtr_proxy \<Rightarrow> qrtr_proxy access" where
  "qrtr_exit os p =
     (case qrtr_proxy_connection p of
        [] \<Rightarrow> Some p
      | con # _ \<Rightarrow>
          (case cleanup_qrtr_connection os (qr_ClientFd con) p of
             None \<Rightarrow> None
           | Some p' \<Rightarrow> qrtr_exit os p'))"
  by pat_completeness auto
termination
  by (relation "measure (\<lambda>(os, p). length (qrtr_proxy_connection p))") (auto dest: cleanup_qrtr_first)

declare qrtr_exit.simps [simp del]

text \<open>The turns until the loop is left; the flag tells whether it was. A turn that is \<open>None\<close> is a \<^verbatim>\<open>poll\<close> that failed or a loop
  condition that no longer holds. The thread ends at once if there is no memory for its buffer.\<close>

fun qrtr_turns :: "qrtr_os \<Rightarrow> proxy_event list option list \<Rightarrow> qrtr_proxy \<Rightarrow> (bool \<times> qrtr_proxy) access" where
  "qrtr_turns os [] p = Some (False, p)"
| "qrtr_turns os (None # ts) p = do { p \<leftarrow> qrtr_exit os p; Some (True, p) }"
| "qrtr_turns os (Some es # ts) p = do {
     (left, p) \<leftarrow> qrtr_turn os es p;
     if left then do { p \<leftarrow> qrtr_exit os p; Some (True, p) } else qrtr_turns os ts p }"

definition qrtr_proxy_loop :: "qrtr_os \<Rightarrow> proxy_event list option list \<Rightarrow> qrtr_proxy \<Rightarrow> (bool \<times> qrtr_proxy) access" where
  "qrtr_proxy_loop os ts p =
     (if qr_alloc os 8192 then qrtr_turns os ts (p\<lparr>rx_buf := map (qr_junk os) [0..<8192]\<rparr>) else Some (True, p))"

subsection \<open>Start and end of a session\<close>

text \<open>\<open>seen i\<close>: the loop thread has entered a service by the end of the \<open>i\<close>-th wait.\<close>

definition qrtr_proxy_init :: "qrtr_os \<Rightarrow> (nat \<Rightarrow> bool) \<Rightarrow> qrtr_proxy \<Rightarrow> (int \<times> qrtr_proxy) access" where
  "qrtr_proxy_init os seen p = do {
     (_, p) \<leftarrow> send_ctrl_hello os QRTR_NODE_BCAST QRTR_PORT_CTRL p;
     Some (if list_ex seen [0..<10] then 0 else - 1, p) }"

end
