(* ===== verification/Qrtr_Props.thy ===== *)
theory Qrtr_Props
  imports Qrtr_Proxy Proxy_Clients "HOL-Library.Multiset"
begin

text \<open>
  What the QRTR proxy guarantees over all runs: which client owns which client id and which port, that a response of the modem reaches the client whose port it
  is sent to, and that the address of a service is never replaced. \<open>qrtr_run os p\<close> says that the proxy can be in state \<open>p\<close>, across any number of sessions
  with the device.
\<close>

subsection \<open>The tables\<close>

text \<open>A table and the numbers it has given out. A number below 256 is given out once and is marked; a larger one cannot be marked, since an entry is
  one byte.\<close>

definition marks :: "byte list \<Rightarrow> nat multiset \<Rightarrow> bool" where
  "marks m X \<longleftrightarrow> (\<forall>i < length m. unat (m ! i) = (if i < 256 \<and> i \<in># X then i else 0)) \<and>
                 (\<forall>i. 0 < i \<and> i < 256 \<longrightarrow> count X i \<le> 1) \<and> (\<forall>i \<in># X. i < length m \<and> i \<le> 256)"

lemma marks_entry: "marks m X \<Longrightarrow> i < length m \<Longrightarrow> unat (m ! i) = (if i < 256 \<and> i \<in># X then i else 0)"
  and marks_once: "marks m X \<Longrightarrow> 0 < i \<Longrightarrow> i < 256 \<Longrightarrow> count X i \<le> 1"
  and marks_range: "marks m X \<Longrightarrow> i \<in># X \<Longrightarrow> i < length m \<and> i \<le> 256"
  by (auto simp: marks_def)

lemma marks_empty: "marks (replicate n 0) {#}"
  by (simp add: marks_def)

lemma find_upt_Some:
  assumes "find P [a..<b] = Some i"
  shows "P i \<and> a \<le> i \<and> i < b \<and> (\<forall>j. a \<le> j \<and> j < i \<longrightarrow> \<not> P j)"
proof -
  from assms obtain k where k: "k < length [a..<b]" "P ([a..<b] ! k)" "i = [a..<b] ! k" "\<forall>j<k. \<not> P ([a..<b] ! j)"
    unfolding find_Some_iff by blast
  have "\<not> P j" if "a \<le> j" "j < i" for j
    using k(1,3) k(4) [rule_format, of "j - a"] that by simp
  with k show ?thesis
    by simp
qed

lemma bitmap_alloc_marks:
  assumes "marks m X" "m \<noteq> []" "bitmap_alloc m = (i, m')"
  shows "marks m' (add_mset i X) \<and> length m' = length m \<and> i \<le> 256"
proof (cases "find (\<lambda>i. m ! i = 0) [1..<length m]")
  case None
  then have "i = 0" "m' = m"
    using assms(3) by (simp_all add: bitmap_alloc_def)
  then show ?thesis
    using assms(1,2) by (auto simp: marks_def)
next
  case (Some j)
  then have j: "j = i" "m' = m[i := of_nat i]"
    using assms(3) by (auto simp: bitmap_alloc_def)
  have i: "m ! i = 0" "1 \<le> i" "i < length m" "\<And>k. 1 \<le> k \<Longrightarrow> k < i \<Longrightarrow> m ! k \<noteq> 0"
    using find_upt_Some [OF Some] by (auto simp: j)
  have le: "i \<le> 256"
    using marks_entry [OF assms(1), of 256] i(4) [of 256] i(3) by (cases "256 < i") (auto simp: unat_eq_zero)
  have new: "i \<notin># X" if "i < 256"
    using marks_entry [OF assms(1) i(3)] i(1,2) that by (auto split: if_splits)
  have "unat (m' ! k) = (if k < 256 \<and> k \<in># add_mset i X then k else 0)" if "k < length m" for k
    using marks_entry [OF assms(1) that] le i(3) by (cases "k = i") (auto simp: j)
  moreover have "count (add_mset i X) k \<le> 1" if "0 < k" "k < 256" for k
    using marks_once [OF assms(1) that] new that by (auto simp: not_in_iff)
  ultimately show ?thesis
    using marks_range [OF assms(1)] le i(3) by (auto simp: marks_def j)
qed

lemma bitmap_free_marks:
  assumes "marks m (add_mset i X)"
  shows "marks (bitmap_free i m) X \<and> length (bitmap_free i m) = length m"
proof (cases "0 < i \<and> i < 256")
  case True
  have m: "unat (m ! i) = i" "i < length m" "i \<notin># X"
    using True marks_entry [OF assms, of i] marks_range [OF assms, of i] marks_once [OF assms, of i] by (auto simp: not_in_iff)
  have "unat (m[i := 0] ! j) = (if j < 256 \<and> j \<in># X then j else 0)" if "j < length m" for j
    using marks_entry [OF assms that] m(2,3) by (cases "j = i") simp_all
  moreover have "count X j \<le> 1" if "0 < j" "j < 256" for j
    using marks_once [OF assms that] by (simp split: if_splits)
  moreover have "j < length m \<and> j \<le> 256" if "j \<in># X" for j
    using marks_range [OF assms, of j] that by simp
  ultimately show ?thesis
    using m by (simp add: bitmap_free_def marks_def)
next
  case False
  have "m[0 := 0] = m" if "unat (m ! 0) = 0"
    using that list_update_id [of m 0] by (metis unat_eq_zero)
  with False have e: "bitmap_free i m = m"
    using marks_entry [OF assms, of i] by (auto simp: bitmap_free_def)
  have "unat (m ! j) = (if j < 256 \<and> j \<in># X then j else 0)" if "j < length m" for j
    using marks_entry [OF assms that] False by (auto split: if_splits)
  moreover have "count X j \<le> 1" if "0 < j" "j < 256" for j
    using marks_once [OF assms that] by (simp split: if_splits)
  ultimately show ?thesis
    using marks_range [OF assms] by (simp add: e marks_def)
qed

lemma bitmap_alloc_pos:
  assumes "marks m X" "256 < length m" "bitmap_alloc m = (i, m')"
  shows "0 < i"
proof -
  have "m ! 256 = 0"
    using marks_entry [OF assms(1,2)] by (simp add: unat_eq_zero)
  with assms(2) have "find (\<lambda>i. m ! i = 0) [1..<length m] \<noteq> None"
    by (auto simp: find_None_iff intro: bexI [of _ 256])
  then obtain k where "find (\<lambda>i. m ! i = 0) [1..<length m] = Some k"
    by blast
  with assms(3) find_upt_Some [OF this] show ?thesis
    by (auto simp: bitmap_alloc_def)
qed

subsection \<open>Clients and tables\<close>

definition all_clients :: "qrtr_proxy \<Rightarrow> QRTR_PROXY_CLINET list" where
  "all_clients p = concat (map qr_clients (qrtr_proxy_connection p))"

definition tables_ok :: "QRTR_PROXY_CLINET multiset \<Rightarrow> qrtr_proxy \<Rightarrow> bool" where
  "tables_ok X p \<longleftrightarrow> length (rx_buf p) = 8192 \<and> length (client_bitmap p) = 0xf0 \<and> length (port_bitmap p) = 0xff0 \<and>
     marks (client_bitmap p) (image_mset (\<lambda>c. unat (qc_ClientId c)) X) \<and>
     marks (port_bitmap p) (image_mset (\<lambda>c. unat (qc_port_id c)) X) \<and> (\<forall>c \<in># X. qc_node_id c = 1 \<and> qc_port_id c \<noteq> 0)"

definition qr_ok :: "qrtr_proxy \<Rightarrow> bool" where
  "qr_ok p \<longleftrightarrow> tables_ok (mset (all_clients p)) p"

lemma drop_client_tables:
  assumes "tables_ok (add_mset c X) p" "drop_client os c p = Some q"
  shows "tables_ok X q"
  using drop_client_frame [OF assms(2)] assms(1) bitmap_free_marks [of "client_bitmap p" "unat (qc_ClientId c)"]
    bitmap_free_marks [of "port_bitmap p" "unat (qc_port_id c)"]
  by (auto simp: tables_ok_def)

lemma release_all_tables:
  assumes "tables_ok (mset cs + X) p" "release_all os \<lparr>qr_ClientFd = fd, qr_clients = cs\<rparr> p = Some q"
  shows "tables_ok X q"
  using assms by (induction cs arbitrary: p) (auto simp: bind_eq_Some_conv dest: drop_client_tables)

lemma alloc_qrtr_client_id_tables:
  assumes "tables_ok X p" "alloc_qrtr_client_id os con ty p = Some (cid, con', q)"
  shows "\<exists>c. tables_ok (add_mset c X) q \<and> con' = con\<lparr>qr_clients := qr_clients con @ [c]\<rparr> \<and>
             qrtr_proxy_connection q = qrtr_proxy_connection p \<and> cid = qc_ClientId c \<and> ty = qc_QMIType c"
proof -
  obtain i m where i: "bitmap_alloc (client_bitmap p) = (i, m)" by (cases "bitmap_alloc (client_bitmap p)")
  obtain j n where j: "bitmap_alloc (port_bitmap p) = (j, n)" by (cases "bitmap_alloc (port_bitmap p)")
  have t: "length (client_bitmap p) = 0xf0" "length (port_bitmap p) = 0xff0"
    "marks (client_bitmap p) (image_mset (\<lambda>c. unat (qc_ClientId c)) X)" "marks (port_bitmap p) (image_mset (\<lambda>c. unat (qc_port_id c)) X)"
    using assms(1) by (simp_all add: tables_ok_def)
  have "client_bitmap p \<noteq> []" "port_bitmap p \<noteq> []"
    using t(1,2) by auto
  note ci = bitmap_alloc_marks [OF t(3) this(1) i] and pj = bitmap_alloc_marks [OF t(4) this(2) j]
  have "i < 256" "0 < j"
    using marks_range [OF conjunct1 [OF ci], of i] ci t(1,2) bitmap_alloc_pos [OF t(4) _ j] by auto
  let ?c = "\<lparr>qc_QMIType = ty, qc_ClientId = of_nat i, qc_node_id = 1, qc_port_id = of_nat j\<rparr>"
  have "unat (of_nat j :: u32) = j" "(of_nat j :: u32) \<noteq> 0"
    using \<open>0 < j\<close> pj by (simp_all add: unat_of_nat_u32 word_unat_eq_iff)
  moreover have "con' = con\<lparr>qr_clients := qr_clients con @ [?c]\<rparr>" "q = p\<lparr>client_bitmap := m, port_bitmap := n\<rparr>" "cid = of_nat i"
    using assms(2) by (auto simp: alloc_qrtr_client_id_def alloc_client_id_def alloc_port_id_def i j split: if_splits)
  ultimately show ?thesis
    using assms(1) ci pj \<open>i < 256\<close> by (intro exI [of _ ?c]) (simp add: tables_ok_def)
qed

lemma put_con_clients:
  assumes "find (\<lambda>c. qr_ClientFd c = fd) cons = Some con" "qr_ClientFd con' = fd"
  shows "mset (concat (map qr_clients (put_con con' cons))) + mset (qr_clients con) = mset (concat (map qr_clients cons)) + mset (qr_clients con')"
  using assms by (induction cons) (auto split: if_splits)

lemma remove_con_clients:
  assumes "find (\<lambda>c. qr_ClientFd c = fd) cons = Some con"
  shows "mset (concat (map qr_clients cons)) = mset (qr_clients con) + mset (concat (map qr_clients (remove_first (\<lambda>c. qr_ClientFd c = fd) cons)))"
  using assms by (induction cons) (auto split: if_splits)

text \<open>Operations that concern neither connections nor tables, and keep the size of the receive buffer.\<close>

definition same_clients :: "qrtr_proxy \<Rightarrow> qrtr_proxy \<Rightarrow> bool" where
  "same_clients p q \<longleftrightarrow> qrtr_proxy_connection q = qrtr_proxy_connection p \<and> client_bitmap q = client_bitmap p \<and> port_bitmap q = port_bitmap p \<and>
     length (rx_buf q) = length (rx_buf p)"

lemma same_clients_refl [simp]: "same_clients p p"
  by (simp add: same_clients_def)

lemma same_clients_trans: "same_clients p q \<Longrightarrow> same_clients q r \<Longrightarrow> same_clients p r"
  by (simp add: same_clients_def)

lemma qr_ok_same: "qr_ok p \<Longrightarrow> same_clients p q \<Longrightarrow> qr_ok q"
  by (simp add: same_clients_def qr_ok_def tables_ok_def all_clients_def)

lemma enqueue_same: "qrtr_node_enqueue os d n ty a b cf p = Some (r, q) \<Longrightarrow> same_clients p q"
  by (auto simp: same_clients_def dest: qrtr_node_enqueue_frame)

lemma to_client_same: "qrtr_send_to_client os b fd p = Some (r, q) \<Longrightarrow> same_clients p q"
  by (auto simp: qrtr_send_to_client_def Let_def bind_eq_Some_conv same_clients_def split: if_splits prod.splits)

lemma hello_same: "send_ctrl_hello os n t p = Some (r, q) \<Longrightarrow> same_clients p q"
  by (auto simp: send_ctrl_hello_def bind_eq_Some_conv dest: enqueue_same)

lemma server_change_same: "handle_server_change os h p = Some q \<Longrightarrow> same_clients p q"
  by (auto simp: handle_server_change_def Let_def bind_eq_Some_conv same_clients_def split: if_splits)

lemma deliver_same: "deliver_data os h n rs p = Some q \<Longrightarrow> same_clients p q"
  by (induction os h n rs p rule: deliver_data.induct)
     (fastforce simp: bind_eq_Some_conv split: if_splits dest: to_client_same intro: same_clients_trans)+

lemma from_dev_same: "recv_qrtr_from_dev os h p = Some q \<Longrightarrow> same_clients p q"
  by (fastforce simp: recv_qrtr_from_dev_def bind_eq_Some_conv split: if_splits
      dest: hello_same server_change_same deliver_same enqueue_same intro: same_clients_trans)

lemma service_msg_same: "qrtr_service_msg os b con p = Some q \<Longrightarrow> same_clients p q"
  by (clarsimp simp: qrtr_service_msg_def bind_eq_Some_conv, auto split: option.splits if_splits simp: bind_eq_Some_conv dest: enqueue_same)

lemma get_version_same: "qrtr_get_version os b con p = Some q \<Longrightarrow> same_clients p q"
  by (auto simp: qrtr_get_version_def bind_eq_Some_conv split: if_splits dest: to_client_same)

lemma read_same: "qrtr_read bs p = Some (n, q) \<Longrightarrow> same_clients p q"
  by (auto simp: qrtr_read_def Let_def bind_eq_Some_conv same_clients_def dest: length_wr)

subsection \<open>Every event keeps the tables\<close>

lemma get_client_ok:
  assumes "qr_ok p" "find (\<lambda>c. qr_ClientFd c = fd) (qrtr_proxy_connection p) = Some con" "qrtr_get_client os b con p = Some q"
  shows "qr_ok q"
proof -
  have fd: "qr_ClientFd con = fd"
    using assms(2) by (auto simp: find_Some_iff)
  have "qr_ok (r\<lparr>qrtr_proxy_connection := put_con con' (qrtr_proxy_connection r)\<rparr>)"
    if a: "alloc_qrtr_client_id os con ty p = Some (cid, con', r)" for ty cid con' r
  proof -
    obtain c where c: "tables_ok (add_mset c (mset (all_clients p))) r" "con' = con\<lparr>qr_clients := qr_clients con @ [c]\<rparr>"
      "qrtr_proxy_connection r = qrtr_proxy_connection p"
      using alloc_qrtr_client_id_tables [OF _ a] assms(1) by (auto simp: qr_ok_def)
    then show ?thesis
      using put_con_clients [OF assms(2), of con'] fd by (simp add: qr_ok_def all_clients_def tables_ok_def)
  qed
  with assms(1,3) show ?thesis
    by (auto simp: qrtr_get_client_def Let_def bind_eq_Some_conv split: if_splits option.splits
        dest!: to_client_same elim!: qr_ok_same [rotated])
qed

lemma find_remove_first_mset: "find P xs = Some x \<Longrightarrow> mset xs = add_mset x (mset (remove_first P xs))"
  by (induction xs) (auto split: if_splits)

lemma release_client_ok:
  assumes "qr_ok p" "find (\<lambda>c. qr_ClientFd c = fd) (qrtr_proxy_connection p) = Some con" "qrtr_release_client os b con p = Some q"
  shows "qr_ok q"
proof -
  have fd: "qr_ClientFd con = fd"
    using assms(2) by (auto simp: find_Some_iff)
  have "qr_ok (r\<lparr>qrtr_proxy_connection := put_con con' (qrtr_proxy_connection r)\<rparr>)"
    if r: "release_qrtr_client_id os con ty cid p = Some (con', r)" for ty cid con' r
  proof (cases "find (\<lambda>c. ty = qc_QMIType c \<and> cid = qc_ClientId c) (qr_clients con)")
    case None
    then show ?thesis
      using r assms(1) put_con_clients [OF assms(2), of con'] fd
      by (simp add: release_qrtr_client_id_def qr_ok_def all_clients_def tables_ok_def)
  next
    case (Some c)
    then have d: "drop_client os c p = Some r"
      "con' = con\<lparr>qr_clients := remove_first (\<lambda>c. ty = qc_QMIType c \<and> cid = qc_ClientId c) (qr_clients con)\<rparr>"
      using r by (auto simp: release_qrtr_client_id_def bind_eq_Some_conv)
    let ?X = "mset (concat (map qr_clients (put_con con' (qrtr_proxy_connection p))))"
    have "mset (all_clients p) = add_mset c ?X"
      using put_con_clients [OF assms(2), of con'] fd find_remove_first_mset [OF Some] by (simp add: d(2) all_clients_def)
    then have "tables_ok ?X r" "qrtr_proxy_connection r = qrtr_proxy_connection p"
      using drop_client_tables [OF _ d(1), of ?X] assms(1) drop_client_frame [OF d(1)] by (auto simp: qr_ok_def)
    then show ?thesis
      by (simp add: qr_ok_def all_clients_def tables_ok_def)
  qed
  with assms(3) show ?thesis
    by (auto simp: qrtr_release_client_def Let_def bind_eq_Some_conv split: if_splits dest!: to_client_same elim!: qr_ok_same [rotated])
qed

lemma cleanup_qrtr_ok:
  assumes "qr_ok p" "cleanup_qrtr_connection os fd p = Some q"
  shows "qr_ok q"
proof (cases "find (\<lambda>c. qr_ClientFd c = fd) (qrtr_proxy_connection p)")
  case None
  then show ?thesis
    using assms by (simp add: cleanup_qrtr_connection_def)
next
  case (Some con)
  then obtain r where r: "release_all os con p = Some r"
    "q = r\<lparr>qr_closed := qr_closed r @ [fd], qrtr_proxy_connection := remove_first (\<lambda>c. qr_ClientFd c = fd) (qrtr_proxy_connection r)\<rparr>"
    using assms(2) by (auto simp: cleanup_qrtr_connection_def bind_eq_Some_conv)
  have "qrtr_proxy_connection r = qrtr_proxy_connection p"
    using release_all_frame [OF r(1)] by auto
  moreover have "tables_ok (mset (concat (map qr_clients (remove_first (\<lambda>c. qr_ClientFd c = fd) (qrtr_proxy_connection p))))) r"
    using release_all_tables [of "qr_clients con" _ p os "qr_ClientFd con" r] r(1) assms(1) remove_con_clients [OF Some]
    by (cases con) (simp add: qr_ok_def all_clients_def)
  ultimately show ?thesis
    by (simp add: r(2) qr_ok_def all_clients_def tables_ok_def)
qed

lemma from_client_ok:
  assumes "qr_ok p" "qrtr_recv_from_client os b fd p = Some (r, q)"
  shows "qr_ok q"
  using assms(2) get_client_ok [OF assms(1)] release_client_ok [OF assms(1)]
  by (auto simp: qrtr_recv_from_client_def bind_eq_Some_conv split: if_splits option.splits
      dest: get_version_same service_msg_same intro: qr_ok_same [OF assms(1)] assms(1))

lemma accept_qrtr_ok: "qr_ok p \<Longrightarrow> qr_ok (accept_qrtr_connection os fd p)"
  by (simp add: accept_qrtr_connection_def qr_ok_def all_clients_def tables_ok_def)

lemma qrtr_event_ok:
  assumes "qr_ok p" "qrtr_event_step os e p = Some (k, q)"
  shows "qr_ok q"
proof (cases e)
  case (NewClient fd)
  then show ?thesis
    using assms by (auto intro: accept_qrtr_ok)
next
  case (ClientHup fd)
  then show ?thesis
    using assms by (auto simp: bind_eq_Some_conv dest: cleanup_qrtr_ok)
next
  case (DevRead bs)
  then show ?thesis
    using assms by (auto simp: bind_eq_Some_conv split: if_splits dest!: read_same from_dev_same intro: qr_ok_same)
next
  case (ClientRead fd bs)
  then show ?thesis
    using assms
    by (auto simp: bind_eq_Some_conv split: if_splits dest!: read_same dest: qr_ok_same cleanup_qrtr_ok from_client_ok)
qed (use assms in auto)

lemma qrtr_exit_ok:
  assumes "qr_ok p" "qrtr_exit os p = Some q"
  shows "qr_ok q \<and> qrtr_proxy_connection q = []"
  using assms
proof (induction os p rule: qrtr_exit.induct)
  case (1 os p)
  from 1(3) have "case qrtr_proxy_connection p of [] \<Rightarrow> q = p
      | con # _ \<Rightarrow> \<exists>r. cleanup_qrtr_connection os (qr_ClientFd con) p = Some r \<and> qrtr_exit os r = Some q"
    by (simp add: qrtr_exit.simps [of os p] split: list.splits option.splits)
  with 1(1,2) show ?case
    by (auto split: list.splits dest: cleanup_qrtr_ok)
qed

subsection \<open>Runs\<close>

text \<open>A session ends with the clean-up behind the loop; the next one starts with an empty list of services and new memory for the buffer. The main thread
  opens and closes the server socket and the device.\<close>

inductive qrtr_run :: "qrtr_os \<Rightarrow> qrtr_proxy \<Rightarrow> bool" for os where
  start: "qrtr_run os (qrtr_start os)"
| init: "qrtr_run os p \<Longrightarrow> qrtr_proxy_init os seen p = Some (r, q) \<Longrightarrow> qrtr_run os q"
| server: "qrtr_run os p \<Longrightarrow> qrtr_run os (p\<lparr>qrtr_proxy_server_fd := fd\<rparr>)"
| event: "qrtr_run os p \<Longrightarrow> qrtr_event_step os e p = Some (k, q) \<Longrightarrow> qrtr_run os q"
| session: "qrtr_run os p \<Longrightarrow> qrtr_exit os p = Some q \<Longrightarrow> qrtr_run os q"
| again: "qrtr_run os p \<Longrightarrow> qrtr_run os (p\<lparr>qrtr_server_list := []\<rparr>)"
| buffer: "qrtr_run os p \<Longrightarrow> qrtr_run os (p\<lparr>rx_buf := map (qr_junk os) [0..<8192]\<rparr>)"
| closed: "qrtr_run os p \<Longrightarrow> qrtr_run os (p\<lparr>qr_closed := l\<rparr>)"

lemma qrtr_run_ok: "qrtr_run os p \<Longrightarrow> qr_ok p"
proof (induction rule: qrtr_run.induct)
  case start
  then show ?case
    by (simp add: qrtr_start_def qr_ok_def tables_ok_def all_clients_def marks_empty)
next
  case (init p seen r q)
  then show ?case
    by (auto simp: qrtr_proxy_init_def bind_eq_Some_conv dest!: hello_same elim!: qr_ok_same [rotated])
next
  case (event p e k q)
  then show ?case
    by (blast intro: qrtr_event_ok)
next
  case (session p q)
  then show ?case
    using qrtr_exit_ok by blast
qed (simp_all add: qr_ok_def tables_ok_def all_clients_def)

lemma count_distinct_filter: "(\<And>x. P x \<Longrightarrow> count (mset xs) x \<le> 1) \<Longrightarrow> distinct (filter P xs)"
  by (metis count_filter_mset count_inI distinct_count_atmost_1 le_antisym less_one linorder_not_le mset_filter set_mset_mset not_in_iff)

lemma marks_word_once:
  fixes f :: "'c \<Rightarrow> 'a :: len word"
  assumes "marks m (image_mset (\<lambda>c. unat (f c)) (mset cs))" "0 < unat x" "unat x < 256"
  shows "count (mset (map f cs)) x \<le> 1"
proof -
  have "count (mset (map f cs)) x \<le> count (image_mset unat (mset (map f cs))) (unat x)"
    by (induction cs) auto
  also have "\<dots> \<le> 1"
    using marks_once [OF assms] by (simp add: multiset.map_comp comp_def)
  finally show ?thesis .
qed

lemma live_tables:
  assumes "qr_ok p"
  shows "marks (client_bitmap p) (image_mset (\<lambda>c. unat (qc_ClientId c)) (mset (all_clients p)))"
    "marks (port_bitmap p) (image_mset (\<lambda>c. unat (qc_port_id c)) (mset (all_clients p)))"
    "length (rx_buf p) = 8192" "length (client_bitmap p) = 240"
    "\<And>c. c \<in> set (all_clients p) \<Longrightarrow> qc_node_id c = 1 \<and> qc_port_id c \<noteq> 0"
  using assms by (simp_all add: qr_ok_def tables_ok_def)

lemma client_id_range: "qr_ok p \<Longrightarrow> c \<in> set (all_clients p) \<Longrightarrow> unat (qc_ClientId c) < 240"
  using marks_range [OF live_tables(1), of p "unat (qc_ClientId c)"] live_tables(4) [of p] by auto

lemma port_range: "qr_ok p \<Longrightarrow> c \<in> set (all_clients p) \<Longrightarrow> 0 < unat (qc_port_id c) \<and> unat (qc_port_id c) \<le> 256"
  using marks_range [OF live_tables(2), of p "unat (qc_port_id c)"] live_tables(5) [of p c] by (auto simp: unat_gt_0)

lemma client_once:
  assumes "qr_ok p" "x \<noteq> 0"
  shows "count (mset (map qc_ClientId (all_clients p))) x \<le> 1"
  using marks_word_once [OF live_tables(1) [OF assms(1)], of x] assms(2) unat_byte_lt [of x] by (simp add: unat_gt_0)

lemma port_once:
  assumes "qr_ok p" "x \<noteq> 256"
  shows "count (mset (map qc_port_id (all_clients p))) x \<le> 1"
proof (cases "x \<in># mset (map qc_port_id (all_clients p))")
  case True
  then have "0 < unat x" "unat x \<le> 256"
    using port_range [OF assms(1)] by auto
  moreover have "unat x \<noteq> 256"
    using assms(2) by (simp add: word_unat_eq_iff)
  ultimately show ?thesis
    using marks_word_once [OF live_tables(2) [OF assms(1)], of x] by simp
next
  case False
  then show ?thesis
    by (simp only: not_in_iff)
qed

text \<open>C27: Over all runs of the QRTR proxy, whatever clients and modem send and across restarts of the session, no two clients have the same
  client id, apart from the id 0 of a request that was refused, and no two clients have the same port, apart from port 256: the ports are kept in a
  table of bytes, in which 256 cannot be marked. All ports are between 1 and 256, and all client ids below 240.\<close>

theorem qrtr_clients_distinct:
  assumes "qrtr_run os p"
  shows "distinct (filter (\<lambda>i. i \<noteq> 0) (map qc_ClientId (all_clients p))) \<and>
         distinct (filter (\<lambda>i. i \<noteq> 256) (map qc_port_id (all_clients p))) \<and>
         (\<forall>c \<in> set (all_clients p). qc_node_id c = 1 \<and> 1 \<le> qc_port_id c \<and> qc_port_id c \<le> 256 \<and> qc_ClientId c < 240)"
proof -
  have ok: "qr_ok p"
    by (rule qrtr_run_ok [OF assms])
  have "distinct (filter (\<lambda>i. i \<noteq> 0) (map qc_ClientId (all_clients p)))"
    by (rule count_distinct_filter) (rule client_once [OF ok])
  moreover have "distinct (filter (\<lambda>i. i \<noteq> 256) (map qc_port_id (all_clients p)))"
    by (rule count_distinct_filter) (rule port_once [OF ok])
  moreover have "qc_node_id c = 1 \<and> 1 \<le> qc_port_id c \<and> qc_port_id c \<le> 256 \<and> qc_ClientId c < 240" if "c \<in> set (all_clients p)" for c
    using live_tables(5) [OF ok that] port_range [OF ok that] client_id_range [OF ok that] by (simp add: word_le_nat_alt word_less_nat_alt)
  ultimately show ?thesis
    by blast
qed

subsection \<open>Packets\<close>

lemma length_qrtr_hdr [simp]: "length (qrtr_hdr ty a b cf n) = 32"
  by (simp add: qrtr_hdr_def)

lemma rd_qrtr_hdr [simp]:
  "rd32 (qrtr_hdr ty a b cf n @ ys) 4 = Some ty" "rd32 (qrtr_hdr ty a b cf n @ ys) 8 = Some (fst a)"
  "rd32 (qrtr_hdr ty a b cf n @ ys) 12 = Some (snd a)" "rd32 (qrtr_hdr ty a b cf n @ ys) 16 = Some (of_bool cf)"
  "rd32 (qrtr_hdr ty a b cf n @ ys) 20 = Some n" "rd32 (qrtr_hdr ty a b cf n @ ys) 24 = Some (fst b)"
  "rd32 (qrtr_hdr ty a b cf n @ ys) 28 = Some (snd b)"
  by (simp_all add: qrtr_hdr_def rd32_append_right)

lemma length_qmi_head [simp]: "length (qmi_head n ty cid) = 6"
  by (simp add: qmi_head_def)

lemma rd_qmi_head [simp]:
  "rd16 (qmi_head n ty cid @ ys) (Suc 0) = Some (of_nat (n + 5))" "rd8 (qmi_head n ty cid @ ys) 4 = Some ty"
  "rd8 (qmi_head n ty cid @ ys) 5 = Some cid"
  using rd16_bytes16 [of "of_nat (n + 5)" "0 # ty # cid # ys"]
  by (simp_all add: qmi_head_def rd16_def access_simps del: rd16_bytes16)

lemma align_4_ge: "n \<le> align_4 n" and align_4_le: "align_4 n \<le> n + 3"
  by (simp_all add: align_4_def)

definition qrtr_pkt :: "qrtr_os \<Rightarrow> u32 \<Rightarrow> sockaddr_qrtr \<Rightarrow> sockaddr_qrtr \<Rightarrow> buf \<Rightarrow> buf" where
  "qrtr_pkt os ty a b d =
     qrtr_hdr ty a b False (of_nat (length d)) @ d @ map (qr_junk os) [32 + length d..<align_4 (32 + length d)]"

text \<open>An environment in which there is memory and every descriptor can be written to.\<close>

definition qr_smooth :: "qrtr_os \<Rightarrow> bool" where
  "qr_smooth os \<longleftrightarrow> (\<forall>n. qr_alloc os n) \<and> (\<forall>n. snd (qr_dev_poll os n)) \<and> (\<forall>n. snd (qr_client_poll os n))"

lemma enqueue_smooth:
  assumes "qr_smooth os" "length d < 2 ^ 31"
  shows "qrtr_node_enqueue os (d @ r) (length d) ty a b False p = Some (- 1, p\<lparr>qr_dev_log := qr_dev_log p @ [Some (qrtr_pkt os ty a b d)]\<rparr>)"
proof -
  let ?n = "align_4 (32 + length d)"
  have n: "32 + length d \<le> ?n" "?n \<le> length d + 35"
    using align_4_ge [of "32 + length d"] align_4_le [of "32 + length d"] by simp_all
  have "wr (map (qr_junk os) [0..<?n]) 0 (qrtr_hdr ty a b False (of_nat (length d)))
      = Some (qrtr_hdr ty a b False (of_nat (length d)) @ map (qr_junk os) [32..<?n])" (is "_ = Some ?h")
    using n by (simp add: wr_def drop_map)
  moreover have "wr ?h 32 d = Some (qrtr_pkt os ty a b d)"
    using n by (simp add: wr_def qrtr_pkt_def drop_map add.commute)
  moreover have "length (qrtr_pkt os ty a b d) = ?n"
    using n by (simp add: qrtr_pkt_def)
  moreover have "rd32 (qrtr_pkt os ty a b d) 20 = Some (of_nat (length d))"
    by (simp add: qrtr_pkt_def)
  moreover have "unat (of_nat (length d) :: u32) = length d"
    using assms(2) by (simp add: unat_of_nat_u32)
  moreover have "(32 + length d) mod 2 ^ 64 = 32 + length d"
    using assms(2) by simp
  ultimately show ?thesis
    using assms(1) by (simp add: qrtr_node_enqueue_def send_qrtr_to_dev_def qr_smooth_def Let_def rdn_def split_beta add.commute)
qed

lemma to_client_smooth:
  assumes "qr_smooth os" "length r < 8192"
  shows "\<exists>ret. qrtr_send_to_client os (qmi_head (length r) ty cid @ r) fd p =
    Some (ret, p\<lparr>qr_client_log := qr_client_log p @ [(fd, Some (qmi_head (length r) ty cid @ r))]\<rparr>)"
proof -
  have "unat (of_nat (length r + 5) :: u16) = length r + 5"
    using assms(2) by (simp add: unat_of_nat_u16 del: of_nat_add)
  then show ?thesis
    using assms(1) by (simp add: qrtr_send_to_client_def qr_smooth_def Let_def rdn_def split_beta del: of_nat_add)
qed

lemma qrtr_read_short:
  assumes "length (rx_buf p) = 8192" "length x \<le> 8192"
  shows "qrtr_read x p = Some (length x, p\<lparr>rx_buf := x @ drop (length x) (rx_buf p)\<rparr>)"
  using assms by (simp add: qrtr_read_def wr_def Let_def)

subsection \<open>Messages of a client and their answers\<close>

lemma find_unique:
  assumes "x \<in> set xs" "P x" "\<And>y. y \<in> set xs \<Longrightarrow> P y \<Longrightarrow> y = x"
  shows "find P xs = Some x"
proof (cases "find P xs")
  case None
  then show ?thesis
    using assms(1,2) by (auto simp: find_None_iff)
next
  case (Some y)
  then show ?thesis
    using assms(3) [of y] by (auto simp: find_Some_iff)
qed

lemma count_le_1_eq:
  assumes "count (mset (map f xs)) (f x) \<le> 1" "x \<in> set xs" "y \<in> set xs" "f y = f x"
  shows "y = x"
proof -
  obtain as bs where xs: "xs = as @ x # bs"
    using split_list [OF assms(2)] by blast
  with assms(1) have "count (mset (map f as)) (f x) = 0" "count (mset (map f bs)) (f x) = 0"
    by simp_all
  then have "f x \<notin> f ` set as" "f x \<notin> f ` set bs"
    unfolding count_mset_0_iff by simp_all
  with assms(3) show ?thesis
    using assms(4) by (auto simp: xs rev_image_eqI)
qed

text \<open>The connection \<open>fd\<close> has the client \<open>c\<close>.\<close>

definition owns :: "int \<Rightarrow> QRTR_PROXY_CLINET \<Rightarrow> qrtr_proxy \<Rightarrow> bool" where
  "owns fd c p \<longleftrightarrow> (\<exists>con. find (\<lambda>k. qr_ClientFd k = fd) (qrtr_proxy_connection p) = Some con \<and> c \<in> set (qr_clients con))"

lemma owns_live: "owns fd c p \<Longrightarrow> c \<in> set (all_clients p)"
  by (auto simp: owns_def all_clients_def find_Some_iff intro!: bexI [of _ "_ ! _"])

lemma receivers_filter:
  "map snd (qrtr_receivers n prt cons) = filter (\<lambda>c. qc_node_id c = n \<and> qc_port_id c = prt) (concat (map qr_clients cons))"
  by (induction cons) (simp_all add: qrtr_receivers_def comp_def)

lemma length_filter_count: "length (filter (\<lambda>k. f k = y) xs) = count (mset (map f xs)) y"
  by (induction xs) auto

lemma length_filter_and: "length (filter (\<lambda>x. P x \<and> Q x) xs) \<le> length (filter Q xs)"
  by (induction xs) auto

lemma receivers_own:
  assumes "qr_ok p" "owns fd c p" "qc_port_id c \<noteq> 256"
  shows "qrtr_receivers 1 (qc_port_id c) (qrtr_proxy_connection p) = [(fd, c)]"
proof -
  let ?R = "qrtr_receivers 1 (qc_port_id c) (qrtr_proxy_connection p)"
  have "length ?R = length (map snd ?R)"
    by simp
  also have "\<dots> \<le> length (filter (\<lambda>k. qc_port_id k = qc_port_id c) (all_clients p))"
    unfolding receivers_filter all_clients_def by (rule length_filter_and)
  also have "\<dots> = count (mset (map qc_port_id (all_clients p))) (qc_port_id c)"
    by (rule length_filter_count)
  also have "\<dots> \<le> 1"
    by (rule port_once [OF assms(1,3)])
  finally have "length ?R \<le> 1" .
  moreover have "(fd, c) \<in> set ?R"
    using assms(2) live_tables(5) [OF assms(1) owns_live [OF assms(2)]]
    by (auto simp: owns_def qrtr_receivers_def find_Some_iff image_iff intro!: bexI [of _ "_ ! _"])
  ultimately show ?thesis
    by (cases ?R) auto
qed

lemma ucast_byte_zero: "(ucast (x :: byte) :: u32) = 0 \<longleftrightarrow> x = 0"
  using uint_byte_lt [of x] by (simp add: word_uint_eq_iff unsigned_ucast_eq take_bit_int_eq_self)

lemma service_request:
  assumes "qr_smooth os" "qr_ok p" "owns fd c p" "qc_ClientId c \<noteq> 0" "qc_QMIType c \<noteq> 0"
    "find_qrtr_service (qc_QMIType c) p = Some srv" "length b \<le> 8186"
  shows "\<exists>q. qrtr_event_step os (ClientRead fd (qmi_head (length b) (qc_QMIType c) (qc_ClientId c) @ b)) p = Some (Continue, q) \<and>
             qr_dev_log q = qr_dev_log p @ [Some (qrtr_pkt os 1 (1, qc_port_id c) (sv_node srv, sv_port srv) b)] \<and>
             qr_client_log q = qr_client_log p \<and> same_clients p q"
proof -
  let ?x = "qmi_head (length b) (qc_QMIType c) (qc_ClientId c) @ b"
  let ?p = "p\<lparr>rx_buf := ?x @ drop (length ?x) (rx_buf p)\<rparr>"
  obtain con where con: "find (\<lambda>k. qr_ClientFd k = fd) (qrtr_proxy_connection p) = Some con" "c \<in> set (qr_clients con)"
    using assms(3) by (auto simp: owns_def)
  have "set (qr_clients con) \<subseteq> set (all_clients p)"
    using con(1) by (auto simp: all_clients_def find_Some_iff intro!: bexI [of _ "_ ! _"])
  then have f: "find (\<lambda>k. qc_QMIType c = qc_QMIType k \<and> qc_ClientId c = qc_ClientId k) (qr_clients con) = Some c"
    using count_le_1_eq [OF client_once [OF assms(2,4)]] con(2) by (intro find_unique) (auto dest: subsetD)
  have rd: "qrtr_read ?x p = Some (length b + 6, ?p)"
    using qrtr_read_short [OF live_tables(3) [OF assms(2)], of ?x] assms(7) by (simp add: add.commute)
  have u: "unat (of_nat (length b + 5) :: u16) = length b + 5"
    using assms(7) by (simp add: unat_of_nat_u16 del: of_nat_add)
  have "sv_service srv \<noteq> 0"
    using assms(5,6) by (auto simp: find_qrtr_service_def find_Some_iff ucast_byte_zero)
  moreover have "find_qrtr_service (qc_QMIType c) ?p = Some srv" "qc_node_id c = 1"
    using assms(6) live_tables(5) [OF assms(2) owns_live [OF assms(3)]] by (simp_all add: find_qrtr_service_def)
  moreover have "nat ((int (length b + 5) + 1 - 6) mod 2 ^ 64) = length b"
    using assms(7) by simp
  moreover have "length b < 2 ^ 31"
    using assms(7) by simp
  ultimately have "qrtr_service_msg os (rx_buf ?p) con ?p
      = Some (?p\<lparr>qr_dev_log := qr_dev_log p @ [Some (qrtr_pkt os 1 (1, qc_port_id c) (sv_node srv, sv_port srv) b)]\<rparr>)"
    using f u enqueue_smooth [OF assms(1), of b] by (simp add: qrtr_service_msg_def del: of_nat_add)
  moreover have "qrtr_proxy_connection p \<noteq> []"
    using con(1) by auto
  ultimately show ?thesis
    using rd u con(1) assms(5) live_tables(3) [OF assms(2)] assms(7)
    by (auto simp: qrtr_recv_from_client_def same_clients_def simp del: of_nat_add)
qed

lemma sint_small: "n < 2 ^ 31 \<Longrightarrow> sint (of_nat n :: u32) = int n"
  by (simp add: sint_uint signed_take_bit_int_eq_self take_bit_int_eq_self unsigned_of_nat take_bit_nat_eq_self)

lemma data_packet:
  assumes "qr_smooth os" "qr_ok p" "owns fd c p" "qc_port_id c \<noteq> 256" "length r \<le> 8156"
    "length pad = align_4 (32 + length r) - (32 + length r)"
  shows "\<exists>q. qrtr_event_step os (DevRead (qrtr_hdr 1 src (1, qc_port_id c) cf (of_nat (length r)) @ r @ pad)) p = Some (Continue, q) \<and>
             qr_client_log q = qr_client_log p @ [(fd, Some (qmi_head (length r) (qc_QMIType c) (qc_ClientId c) @ r))] \<and>
             qr_dev_log q = qr_dev_log p @ (if cf then [Some (qrtr_pkt os 7 (1, qc_port_id c) src (client_pkt 7 1 (qc_port_id c)))] else []) \<and>
             same_clients p q"
proof -
  let ?x = "qrtr_hdr 1 src (1, qc_port_id c) cf (of_nat (length r)) @ r @ pad"
  let ?p = "p\<lparr>rx_buf := ?x @ drop (length ?x) (rx_buf p)\<rparr>"
  have n: "32 + length r \<le> align_4 (32 + length r)" "align_4 (32 + length r) \<le> length r + 35"
    using align_4_ge [of "32 + length r"] align_4_le [of "32 + length r"] by simp_all
  then have l: "length ?x = align_4 (length r + 32)"
    using assms(6) by (simp add: add.commute)
  have rd: "qrtr_read ?x p = Some (length ?x, ?p)" "0 < length ?x"
    using qrtr_read_short [OF live_tables(3) [OF assms(2)], of ?x] l n assms(5) by (simp_all add: add.commute)
  have u: "unat (of_nat (length r) :: u32) = length r"
    using assms(5) by (simp add: unat_of_nat_u32)
  have s: "int (length ?x) = sint (of_nat (align_4 (unat (of_nat (length r) :: u32) + 32)) :: u32)"
    using sint_small [of "align_4 (length r + 32)"] l n assms(5) u by (simp add: add.commute)
  obtain ret where ret: "qrtr_send_to_client os (qmi_head (length r) (qc_QMIType c) (qc_ClientId c) @ r) fd ?p = Some (ret,
      ?p\<lparr>qr_client_log := qr_client_log p @ [(fd, Some (qmi_head (length r) (qc_QMIType c) (qc_ClientId c) @ r))]\<rparr>)" (is "_ = Some (ret, ?q)")
    using to_client_smooth [OF assms(1), of r _ _ fd ?p] assms(5) by auto
  have d: "deliver_data os (rx_buf ?p) (length r) [(fd, c)] ?p = Some ?q"
    using assms(1) ret by (simp add: qr_smooth_def rdn_append_right rdn_def)
  have e: "qrtr_node_enqueue os (client_pkt 7 1 (qc_port_id c)) 20 7 (1, qc_port_id c) src False ?q
      = Some (- 1, ?q\<lparr>qr_dev_log := qr_dev_log ?q @ [Some (qrtr_pkt os 7 (1, qc_port_id c) src (client_pkt 7 1 (qc_port_id c)))]\<rparr>)"
    using enqueue_smooth [OF assms(1), of "client_pkt 7 1 (qc_port_id c)" "[]"] by (simp add: client_pkt_def)
  have "recv_qrtr_from_dev os (rx_buf ?p) ?p = Some (if cf
      then ?q\<lparr>qr_dev_log := qr_dev_log p @ [Some (qrtr_pkt os 7 (1, qc_port_id c) src (client_pkt 7 1 (qc_port_id c)))]\<rparr> else ?q)"
    using d e receivers_own [OF assms(2-4)] by (cases cf) (simp_all add: recv_qrtr_from_dev_def u)
  moreover have "length (rx_buf ?p) = length (rx_buf p)"
    using live_tables(3) [OF assms(2)] l n assms(5) by (simp add: add.commute)
  ultimately show ?thesis
    using rd s by (auto simp: same_clients_def)
qed

text \<open>The size of a packet is compared as \<^verbatim>\<open>int\<close>: a header alone that announces \<^verbatim>\<open>0xffffffff\<close> bytes passes the test, and the copy reads behind the
  receive buffer.\<close>

lemma qrtr_size_overflow:
  assumes "qr_smooth os" "qr_ok p" "owns fd c p" "qc_port_id c \<noteq> 256"
  shows "qrtr_event_step os (DevRead (qrtr_hdr 1 src (1, qc_port_id c) cf 0xffffffff)) p = None"
proof -
  let ?x = "qrtr_hdr 1 src (1, qc_port_id c) cf 0xffffffff"
  let ?p = "p\<lparr>rx_buf := ?x @ drop 32 (rx_buf p)\<rparr>"
  have l: "length (rx_buf p) = 8192"
    by (rule live_tables(3) [OF assms(2)])
  have "deliver_data os (rx_buf ?p) (unat (0xffffffff :: u32)) [(fd, c)] ?p = None"
    using assms(1) l by (simp add: qr_smooth_def rdn_def)
  then have "recv_qrtr_from_dev os (rx_buf ?p) ?p = None"
    using receivers_own [OF assms(2-4)] by (simp add: recv_qrtr_from_dev_def)
  then show ?thesis
    using qrtr_read_short [OF l, of ?x] by (simp add: align_4_def)
qed

text \<open>Once the ports below 256 are taken, every further client gets port 256.\<close>

lemma bitmap_alloc_256:
  assumes "marks m X" "256 < length m" "\<forall>i. 0 < i \<and> i < 256 \<longrightarrow> i \<in># X"
  shows "bitmap_alloc m = (256, m)"
proof -
  have m: "m ! 256 = 0"
    using marks_entry [OF assms(1,2)] by (simp add: unat_eq_zero)
  have "m ! i \<noteq> 0" if "0 < i" "i < 256" for i
    using marks_entry [OF assms(1), of i] assms(2,3) that by auto
  note m = m this
  then have "find (\<lambda>i. m ! i = 0) [1..<length m] \<noteq> None"
    using assms(2) by (auto simp: find_None_iff intro: bexI [of _ 256])
  then obtain k where k: "find (\<lambda>i. m ! i = 0) [1..<length m] = Some k"
    by blast
  have "k = 256"
    using find_upt_Some [OF k] m assms(2) by (cases k "256 :: nat" rule: linorder_cases) auto
  then have "bitmap_alloc m = (256, m[256 := of_nat 256])"
    using k by (simp add: bitmap_alloc_def)
  moreover have "(of_nat 256 :: byte) = m ! 256"
    unfolding m(1) by simp
  ultimately show ?thesis
    by (simp only: list_update_id)
qed

subsection \<open>Services are only added\<close>

definition services_kept :: "qrtr_proxy \<Rightarrow> qrtr_proxy \<Rightarrow> bool" where
  "services_kept p q \<longleftrightarrow> (\<exists>l. qrtr_server_list q = qrtr_server_list p @ l)"

lemma services_keptI: "qrtr_server_list q = qrtr_server_list p \<Longrightarrow> services_kept p q"
  by (simp add: services_kept_def)

lemma services_kept_trans: "services_kept p q \<Longrightarrow> services_kept q r \<Longrightarrow> services_kept p r"
  by (auto simp: services_kept_def)

lemma services_kept_find: "services_kept p q \<Longrightarrow> find_qrtr_service ty p = Some srv \<Longrightarrow> find_qrtr_service ty q = Some srv"
proof -
  have "find P xs = Some x \<Longrightarrow> find P (xs @ ys) = Some x" for P and x :: QRTR_SERVICE and xs ys
    by (induction xs) (auto split: if_splits)
  then show "services_kept p q \<Longrightarrow> find_qrtr_service ty p = Some srv \<Longrightarrow> find_qrtr_service ty q = Some srv"
    by (auto simp: services_kept_def find_qrtr_service_def)
qed

lemma enqueue_services: "qrtr_node_enqueue os d n ty a b cf p = Some (r, q) \<Longrightarrow> qrtr_server_list q = qrtr_server_list p"
  by (auto dest: qrtr_node_enqueue_frame)

lemma to_client_services: "qrtr_send_to_client os b fd p = Some (r, q) \<Longrightarrow> qrtr_server_list q = qrtr_server_list p"
  by (auto simp: qrtr_send_to_client_def Let_def bind_eq_Some_conv split: if_splits prod.splits)

lemma deliver_services: "deliver_data os h n rs p = Some q \<Longrightarrow> qrtr_server_list q = qrtr_server_list p"
  by (induction os h n rs p rule: deliver_data.induct)
     (fastforce simp: bind_eq_Some_conv split: if_splits dest: to_client_services)+

lemma from_dev_services: "recv_qrtr_from_dev os h p = Some q \<Longrightarrow> services_kept p q"
  by (auto simp: recv_qrtr_from_dev_def send_ctrl_hello_def handle_server_change_def Let_def bind_eq_Some_conv services_kept_def
      split: if_splits dest!: enqueue_services deliver_services)

lemma cleanup_services: "cleanup_qrtr_connection os fd p = Some q \<Longrightarrow> qrtr_server_list q = qrtr_server_list p"
  by (auto simp: cleanup_qrtr_connection_def bind_eq_Some_conv split: option.splits dest!: release_all_frame)

lemma get_client_services: "qrtr_get_client os b con p = Some q \<Longrightarrow> qrtr_server_list q = qrtr_server_list p"
  by (auto simp: qrtr_get_client_def alloc_qrtr_client_id_def alloc_client_id_def alloc_port_id_def Let_def bind_eq_Some_conv
      split: if_splits option.splits prod.splits dest!: to_client_services)

lemma release_client_services: "qrtr_release_client os b con p = Some q \<Longrightarrow> qrtr_server_list q = qrtr_server_list p"
  by (auto simp: qrtr_release_client_def release_qrtr_client_id_def Let_def bind_eq_Some_conv
      split: if_splits option.splits dest!: to_client_services drop_client_frame)

lemma get_version_services: "qrtr_get_version os b con p = Some q \<Longrightarrow> qrtr_server_list q = qrtr_server_list p"
  by (auto simp: qrtr_get_version_def bind_eq_Some_conv split: if_splits dest!: to_client_services)

lemma service_msg_services: "qrtr_service_msg os b con p = Some q \<Longrightarrow> qrtr_server_list q = qrtr_server_list p"
  by (clarsimp simp: qrtr_service_msg_def bind_eq_Some_conv, auto split: option.splits if_splits simp: bind_eq_Some_conv dest!: enqueue_services)

lemma from_client_services: "qrtr_recv_from_client os b fd p = Some (r, q) \<Longrightarrow> qrtr_server_list q = qrtr_server_list p"
  by (auto simp: qrtr_recv_from_client_def bind_eq_Some_conv split: if_splits option.splits
      dest: get_client_services release_client_services get_version_services service_msg_services)

lemma read_services: "qrtr_read bs p = Some (n, q) \<Longrightarrow> qrtr_server_list q = qrtr_server_list p"
  by (auto simp: qrtr_read_def Let_def bind_eq_Some_conv)

lemma qrtr_event_services: "qrtr_event_step os e p = Some (k, q) \<Longrightarrow> services_kept p q"
  by (cases e) (auto simp: bind_eq_Some_conv accept_qrtr_connection_def services_kept_def split: if_splits
      dest!: read_services from_dev_services cleanup_services from_client_services)

lemma qrtr_turn_services: "qrtr_turn os es p = Some (k, q) \<Longrightarrow> services_kept p q"
proof (induction es arbitrary: p)
  case (Cons e es)
  then obtain n r where r: "qrtr_event_step os e p = Some (n, r)"
    "(case n of Continue \<Rightarrow> qrtr_turn os es r | EndTurn \<Rightarrow> Some (False, r) | LeaveLoop \<Rightarrow> Some (True, r)) = Some (k, q)"
    by (auto simp: bind_eq_Some_conv)
  from r(2) Cons.IH [of r] qrtr_event_services [OF r(1)] show ?case
    by (cases n) (auto intro: services_kept_trans)
qed (auto intro: services_keptI)

lemma qrtr_turns_services: "qrtr_turns os ts p = Some (False, q) \<Longrightarrow> services_kept p q"
proof (induction ts arbitrary: p)
  case (Cons t ts)
  then obtain es r where "qrtr_turn os es p = Some (False, r)" "qrtr_turns os ts r = Some (False, q)"
    by (cases t) (auto simp: bind_eq_Some_conv split: if_splits)
  then show ?case
    using Cons.IH services_kept_trans qrtr_turn_services by blast
qed (auto intro: services_keptI)

subsection \<open>A run with a client\<close>

definition sample_qr_os :: qrtr_os where
  "sample_qr_os = \<lparr>qr_alloc = (\<lambda>_. True), qr_junk = (\<lambda>_. 0), qr_dev_poll = (\<lambda>_. (1, True)), qr_dev_write = (\<lambda>_. 0),
     qr_client_poll = (\<lambda>_. (1, True)), qr_client_write = (\<lambda>_. 0)\<rparr>"

definition server_msg :: "u32 \<Rightarrow> u32 \<Rightarrow> u32 \<Rightarrow> buf" where
  "server_msg ty service prt =
     qrtr_hdr ty (3, 0xfffffffe) (1, 0xfffffffe) False 20 @ bytes32 ty @ bytes32 service @ bytes32 1 @ bytes32 3 @ bytes32 prt"

definition get_client_msg :: "byte \<Rightarrow> byte \<Rightarrow> buf" where
  "get_client_msg tid ty = [1] @ bytes16 15 @ [0, 0, 0, 0, tid] @ bytes16 0x22 @ bytes16 4 @ [1] @ bytes16 1 @ [ty]"

definition sample_service :: QRTR_SERVICE where
  "sample_service = \<lparr>sv_service = 1, sv_version = 1, sv_instance = 0, sv_node = 3, sv_port = 20, sv_src_node_id = 3, sv_src_port_id = 0xfffffffe\<rparr>"

definition sample_client :: QRTR_PROXY_CLINET where
  "sample_client = \<lparr>qc_QMIType = 1, qc_ClientId = 1, qc_node_id = 1, qc_port_id = 1\<rparr>"

lemma sample_smooth: "qr_smooth sample_qr_os"
  by (simp add: sample_qr_os_def qr_smooth_def)

lemma sample_announced:
  assumes "length (rx_buf p) = 8192" "ty = 4 \<or> ty = 5"
  shows "\<exists>q. qrtr_event_step sample_qr_os (DevRead (server_msg ty 1 prt)) p = Some (Continue, q) \<and>
             qrtr_server_list q = qrtr_server_list p @ (if ty = 4 then [sample_service\<lparr>sv_port := prt\<rparr>] else []) \<and> same_clients p q"
proof -
  let ?x = "server_msg ty 1 prt"
  have l: "length (server_msg a 1 prt) = 52" for a
    by (simp add: server_msg_def)
  have rd: "rd32 (server_msg a 1 prt @ ys) 36 = Some 1" "rd32 (server_msg a 1 prt @ ys) 40 = Some 1" "rd32 (server_msg a 1 prt @ ys) 44 = Some 3" "rd32 (server_msg a 1 prt @ ys) 48 = Some prt"
    "rd32 (server_msg a 1 prt @ ys) 4 = Some a" "rd32 (server_msg a 1 prt @ ys) 8 = Some 3" "rd32 (server_msg a 1 prt @ ys) 12 = Some 0xfffffffe" "rd32 (server_msg a 1 prt @ ys) 20 = Some 20" for ys a
    by (simp_all add: server_msg_def rd32_append_right)
  show ?thesis
    using qrtr_read_short [OF assms(1), of ?x] assms
    by (auto simp: l rd recv_qrtr_from_dev_def handle_server_change_def sample_qr_os_def sample_service_def same_clients_def align_4_def)
qed

lemma bitmap_alloc_fresh:
  assumes "marks m {#}" "1 < length m"
  shows "bitmap_alloc m = (1, m[1 := 1])"
proof -
  have "m ! 1 = 0"
    using marks_entry [OF assms] by (simp add: unat_eq_zero)
  then show ?thesis
    using assms(2) by (simp add: bitmap_alloc_def upt_conv_Cons)
qed

lemma sample_granted:
  assumes "qr_ok p" "qrtr_proxy_connection p = [\<lparr>qr_ClientFd = 7, qr_clients = []\<rparr>]" "find_qrtr_service 1 p = Some srv"
  shows "\<exists>q. qrtr_event_step sample_qr_os (ClientRead 7 (get_client_msg 5 1)) p = Some (Continue, q) \<and>
             qrtr_proxy_connection q = [\<lparr>qr_ClientFd = 7, qr_clients = [sample_client]\<rparr>] \<and>
             qr_client_log q = qr_client_log p @ [(7, Some (ctl_answer 5 0x22 0 0 [1, 1]))]"
proof -
  let ?x = "get_client_msg 5 1"
  have l: "length ?x = 16"
    by (simp add: get_client_msg_def)
  have rd: "rd16 (?x @ ys) (Suc 0) = Some 15" "rd8 (?x @ ys) 4 = Some 0" "rd16 (?x @ ys) 8 = Some 0x22" "rd8 (?x @ ys) 7 = Some 5"
    "rd8 (?x @ ys) 15 = Some 1" for ys
    by (simp_all add: get_client_msg_def bytes16_def rd16_def access_simps le16_def)
  have m: "marks (client_bitmap p) {#}" "marks (port_bitmap p) {#}" "length (client_bitmap p) = 240" "length (port_bitmap p) = 4080"
    using assms(1,2) by (simp_all add: qr_ok_def tables_ok_def all_clients_def)
  note a = bitmap_alloc_fresh [OF m(1), unfolded m(3), simplified] bitmap_alloc_fresh [OF m(2), unfolded m(4), simplified]
  have c: "rd16 (ctl_answer 5 0x22 0 0 [1, 1]) (Suc 0) = Some 23" "rdn (ctl_answer 5 0x22 0 0 [1, 1]) 0 24 = Some (ctl_answer 5 0x22 0 0 [1, 1])"
    by (simp_all add: ctl_answer_def bytes16_def rd16_def rdn_def access_simps le16_def)
  have srv: "find_qrtr_service 1 (p\<lparr>rx_buf := y\<rparr>) = Some srv" for y
    using assms(3) by (simp add: find_qrtr_service_def)
  show ?thesis
    using qrtr_read_short [OF live_tables(3) [OF assms(1)], of ?x]
    by (simp add: l rd a c srv assms(2) qrtr_recv_from_client_def qrtr_get_client_def alloc_qrtr_client_id_def alloc_client_id_def
        alloc_port_id_def qrtr_send_to_client_def sample_qr_os_def sample_client_def)
qed

lemma sample_run:
  "\<exists>p. qrtr_run sample_qr_os p \<and> all_clients p = [sample_client] \<and> owns 7 sample_client p \<and> find_qrtr_service 1 p = Some sample_service"
proof -
  let ?os = sample_qr_os
  have r0: "qrtr_run ?os (qrtr_start ?os)"
    by (rule qrtr_run.start)
  obtain p where p: "qrtr_event_step ?os (DevRead (server_msg 4 1 20)) (qrtr_start ?os) = Some (Continue, p)"
    "qrtr_server_list p = [sample_service]" "qrtr_proxy_connection p = []"
    using sample_announced [OF live_tables(3) [OF qrtr_run_ok [OF r0]], of 4 20]
    by (auto simp: qrtr_start_def same_clients_def sample_service_def simp del: qrtr_event_step.simps)
  define p' where "p' = accept_qrtr_connection ?os 7 p"
  have r1: "qrtr_run ?os p'"
    using qrtr_run.event [OF qrtr_run.event [OF r0 p(1)], of "NewClient 7"] by (simp add: p'_def)
  have p': "qrtr_proxy_connection p' = [\<lparr>qr_ClientFd = 7, qr_clients = []\<rparr>]" "find_qrtr_service 1 p' = Some sample_service"
    using p(2,3) by (simp_all add: p'_def accept_qrtr_connection_def sample_qr_os_def find_qrtr_service_def sample_service_def)
  obtain q where q: "qrtr_event_step ?os (ClientRead 7 (get_client_msg 5 1)) p' = Some (Continue, q)"
    "qrtr_proxy_connection q = [\<lparr>qr_ClientFd = 7, qr_clients = [sample_client]\<rparr>]"
    using sample_granted [OF qrtr_run_ok [OF r1] p'] by auto
  have "find_qrtr_service 1 q = Some sample_service"
    by (rule services_kept_find [OF qrtr_event_services [OF q(1)] p'(2)])
  then show ?thesis
    using qrtr_run.event [OF r1 q(1)] q(2) by (auto simp: all_clients_def owns_def)
qed

theorem qrtr_clients_distinct_witness:
  "\<exists>p. qrtr_run sample_qr_os p \<and> map qc_ClientId (all_clients p) = [1] \<and> distinct (filter (\<lambda>i. i \<noteq> 0) (map qc_ClientId (all_clients p))) \<and>
       qc_port_id (hd (all_clients p)) \<le> 256"
proof -
  obtain p where "qrtr_run sample_qr_os p" "all_clients p = [sample_client]"
    using sample_run by blast
  then show ?thesis
    using qrtr_clients_distinct [of sample_qr_os p] by (auto simp: sample_client_def)
qed





end
