(* ===== verification/Atc_Proxy.thy ===== *)
theory Atc_Proxy
  imports Atc
begin

text \<open>
  \<^verbatim>\<open>quectel-atc-proxy\<close> (\<^verbatim>\<open>quectel-atc-proxy.c\<close>): one process owns the AT port and passes the commands of local clients to it. It uses
  the AT channel of theory \<open>At_Channel\<close> in its proxy mode, in which final responses go to the handler of unsolicited lines
  as well. The statics of the file are the record \<open>atc_proxy\<close>, which extends the session of the channel; a connection is its
  descriptor. The lines the channel hands to the callback during a command are delivered behind it, since the channel does not depend on
  the clients. \<open>ap_os\<close> says what \<^verbatim>\<open>poll\<close> and \<^verbatim>\<open>write\<close> find for the \<open>n\<close>-th message to a client, whether \<^verbatim>\<open>malloc\<close> succeeds, and what
  a stack slot that was never set holds.
\<close>

subsection \<open>State\<close>

record atc_proxy = at_session +
  ap_connections :: "int list"
  current_client_fd :: "int option"
  atc_proxy_quit :: bool
  ap_modem_reset :: bool
  atc_dev_fd :: int
  atc_proxy_server_fd :: int
  ap_asr_style :: bool
  ap_sent :: "(int \<times> buf option) list"
  ap_closed :: "int list"

record ap_os =
  ap_write :: "nat \<Rightarrow> bool \<times> int"
  ap_malloc :: bool
  ap_stack_fd :: int

subsection \<open>Clients\<close>

definition send_atc_to_client :: "ap_os \<Rightarrow> int \<Rightarrow> buf \<Rightarrow> atc_proxy \<Rightarrow> int \<times> atc_proxy" where
  "send_atc_to_client os clientFd pATC s =
     (let (pollout, ret) = ap_write os (length (ap_sent s))
      in (ret, s\<lparr>ap_sent := ap_sent s @ [(clientFd, if pollout then Some pATC else None)]\<rparr>))"

text \<open>The text of a message to the clients, in an array of 1024 bytes; without a line it has no start.\<close>

definition client_text :: "cstr option \<Rightarrow> cstr option \<Rightarrow> buf access" where
  "client_text line sms_pdu =
     (case line of
        None \<Rightarrow> None
      | Some l \<Rightarrow> (let b = l @ [13, 10] @ (case sms_pdu of None \<Rightarrow> [] | Some p \<Rightarrow> p @ [13, 10])
                  in if length b < 1024 then Some b else None))"

fun send_atc_to_all :: "ap_os \<Rightarrow> buf \<Rightarrow> int list \<Rightarrow> atc_proxy \<Rightarrow> int list \<times> atc_proxy" where
  "send_atc_to_all os b [] s = ([], s)"
| "send_atc_to_all os b (fd # fds) s =
     (if 0 < fd then
        (let (ret, s) = send_atc_to_client os fd b s;
             s = (if ret < 0 then s\<lparr>ap_closed := ap_closed s @ [fd]\<rparr> else s);
             (kept, s) = send_atc_to_all os b fds s
         in (if ret < 0 then kept else fd # kept, s))
      else (let (kept, s) = send_atc_to_all os b fds s in (fd # kept, s)))"

text \<open>The callback. A current client whose connection was freed is a dangling pointer.\<close>

definition proxy_onUnsolicited :: "ap_os \<Rightarrow> cstr option \<Rightarrow> cstr option \<Rightarrow> atc_proxy \<Rightarrow> atc_proxy access" where
  "proxy_onUnsolicited os line sms_pdu s = do {
     b \<leftarrow> client_text line sms_pdu;
     case current_client_fd s of
       Some fd \<Rightarrow>
         if fd \<in> set (ap_connections s) then
           (let (ret, s) = send_atc_to_client os fd b s
            in Some (if ret < 0 then s\<lparr>ap_closed := ap_closed s @ [fd], ap_connections := remove1 fd (ap_connections s)\<rparr> else s))
         else None
     | None \<Rightarrow> (let (kept, s) = send_atc_to_all os b (ap_connections s) s in Some (s\<lparr>ap_connections := kept\<rparr>)) }"

fun deliver_lines :: "ap_os \<Rightarrow> (cstr \<times> cstr option) list \<Rightarrow> atc_proxy \<Rightarrow> atc_proxy access" where
  "deliver_lines os [] s = Some s"
| "deliver_lines os ((l, p) # ls) s = do { s \<leftarrow> proxy_onUnsolicited os (Some l) p s; deliver_lines os ls s }"

definition ap_issue ::
  "ap_os \<Rightarrow> at_device \<Rightarrow> cstr \<Rightarrow> at_command \<Rightarrow> atc_proxy \<Rightarrow> (int \<times> at_response option \<times> atc_proxy) access" where
  "ap_issue os dev cmd f s = do {
     (err, r, s') \<leftarrow> at_issue dev cmd f s;
     s' \<leftarrow> deliver_lines os (drop (length (unsolicited (chan s))) (unsolicited (chan s'))) s';
     Some (err, r, s') }"

text \<open>The result of \<^verbatim>\<open>accept\<close> is not looked at.\<close>

definition accept_atc_connection :: "ap_os \<Rightarrow> int \<Rightarrow> atc_proxy \<Rightarrow> atc_proxy" where
  "accept_atc_connection os clientfd s =
     (if ap_malloc os then s\<lparr>ap_connections := ap_connections s @ [clientfd]\<rparr> else s)"

definition cleanup_atc_connection :: "int \<Rightarrow> atc_proxy \<Rightarrow> atc_proxy" where
  "cleanup_atc_connection clientfd s =
     (if clientfd \<in> set (ap_connections s)
      then s\<lparr>ap_closed := ap_closed s @ [clientfd], ap_connections := remove1 clientfd (ap_connections s),
             current_client_fd := if current_client_fd s = Some clientfd then None else current_client_fd s\<rparr>
      else s)"

subsection \<open>Start\<close>

text \<open>The error code of \<^verbatim>\<open>AT+QNETDEVSTATUS=?\<close> is not stored, so only the response decides.\<close>

definition ap_asr_detect :: "ap_os \<Rightarrow> at_device \<Rightarrow> atc_proxy \<Rightarrow> atc_proxy access" where
  "ap_asr_detect os dev s = do {
     (_, r, s) \<leftarrow> ap_issue os dev (ascii ''AT+QNETDEVSTATUS=?'') (at_send_command_singleline (ascii ''+QNETDEVSTATUS:'')) s;
     Some (if at_response_error 0 r then s\<lparr>ap_asr_style := True\<rparr> else s) }"

definition ap_nat_setup :: "ap_os \<Rightarrow> at_device \<Rightarrow> atc_proxy \<Rightarrow> (int \<times> atc_proxy) access" where
  "ap_nat_setup os dev s = do {
     (err, r, s) \<leftarrow> ap_issue os dev (ascii ''AT+QCFG='' @ quoted (ascii ''NAT'')) (at_send_command_singleline (ascii ''+QCFG:'')) s;
     if at_response_error err r then Some (err, s)
     else do {
       l \<leftarrow> first_line r;
       (n, vs) \<leftarrow> at_tok_scanf (Some l) (ascii ''%s%d'');
       let new_nat = (if ap_asr_style s then 1 else 0);
       if n = 2 \<and> scanned_int vs 1 0 \<noteq> new_nat
       then do {
         (err, r, s) \<leftarrow> ap_issue os dev (ascii ''AT+QCFG='' @ quoted (ascii ''NAT'') @ [44] @ int_of new_nat) at_send_command s;
         if at_response_error err r then Some (0, s)
         else do { (_, _, s) \<leftarrow> ap_issue os dev (ascii ''at+cfun=1,1'') at_send_command s; Some (0, s) } }
       else Some (0, s) } }"

fun ap_handshake :: "ap_os \<Rightarrow> at_device \<Rightarrow> nat \<Rightarrow> int \<Rightarrow> atc_proxy \<Rightarrow> (int \<times> atc_proxy) access" where
  "ap_handshake os dev 0 err s = Some (err, s)"
| "ap_handshake os dev (Suc n) err s = do {
     (err, r, s) \<leftarrow> ap_issue os dev (ascii ''ATE0Q0V1'') at_send_command s;
     if err = 0 then Some (0, s) else ap_handshake os dev n err s }"

definition atc_proxy_init :: "ap_os \<Rightarrow> at_device \<Rightarrow> atc_proxy \<Rightarrow> (int \<times> atc_proxy) access" where
  "atc_proxy_init os dev s = do {
     (err, s) \<leftarrow> ap_handshake os dev 8 0 s;
     if err \<noteq> 0 then Some (err, s)
     else do {
       (_, _, s) \<leftarrow> ap_issue os dev (ascii ''AT+QCFG='' @ quoted (ascii ''usbnet'')) (at_send_command_singleline (ascii ''+QCFG:'')) s;
       (_, _, s) \<leftarrow> ap_issue os dev (ascii ''AT+QNETDEVCTL=?'') (at_send_command_multiline (ascii ''+QNETDEVCTL:'')) s;
       (_, _, s) \<leftarrow> ap_issue os dev (ascii ''AT+CGREG=2'') at_send_command s;
       (_, _, s) \<leftarrow> ap_issue os dev (ascii ''AT+CEREG=2'') at_send_command s;
       (_, _, s) \<leftarrow> ap_issue os dev (ascii ''AT+C5GREG=2'') at_send_command s;
       s \<leftarrow> ap_asr_detect os dev s;
       ap_nat_setup os dev s } }"

text \<open>The server socket: \<open>fd\<close> is the result of \<^verbatim>\<open>create_local_server\<close>.\<close>

definition atc_start_server :: "int \<Rightarrow> atc_proxy \<Rightarrow> atc_proxy" where
  "atc_start_server fd s = s\<lparr>atc_proxy_server_fd := fd\<rparr>"

definition atc_close_server :: "atc_proxy \<Rightarrow> atc_proxy" where
  "atc_close_server s =
     (if atc_proxy_server_fd s \<noteq> - 1
      then s\<lparr>ap_closed := ap_closed s @ [atc_proxy_server_fd s], atc_proxy_server_fd := - 1\<rparr> else s)"

subsection \<open>The loop\<close>

text \<open>An entry of \<^verbatim>\<open>pollfds\<close>: an error condition, input, and what \<^verbatim>\<open>accept\<close> and \<^verbatim>\<open>read\<close> return.\<close>

record ap_event =
  ape_hup :: bool
  ape_in :: bool
  ape_accept :: int
  ape_read :: "buf option"

datatype ap_flow = Ap_next atc_proxy | Ap_break atc_proxy | Ap_exit atc_proxy

text \<open>The search for the current client compares with the entry behind the last one, \<^verbatim>\<open>pollfds[nevents]\<close>, which was not set.\<close>

definition find_client :: "ap_os \<Rightarrow> nat \<Rightarrow> atc_proxy \<Rightarrow> atc_proxy access" where
  "find_client os nevents s =
     (if ap_connections s = [] then Some s
      else if nevents < 66
      then Some (if ap_stack_fd os \<in> set (ap_connections s) then s\<lparr>current_client_fd := Some (ap_stack_fd os)\<rparr> else s)
      else None)"

definition client_command :: "ap_os \<Rightarrow> at_device \<Rightarrow> nat \<Rightarrow> buf \<Rightarrow> atc_proxy \<Rightarrow> atc_proxy access" where
  "client_command os dev nevents b s = do {
     s \<leftarrow> find_client os nevents s;
     if length b = 4096 \<and> 0 \<notin> set b then None
     else do {
       (_, _, s) \<leftarrow> ap_issue os dev (cstr_of b) at_send_command s;
       Some (s\<lparr>current_client_fd := None\<rparr>) } }"

definition ap_event_step :: "ap_os \<Rightarrow> at_device \<Rightarrow> nat \<Rightarrow> int \<Rightarrow> ap_event \<Rightarrow> atc_proxy \<Rightarrow> ap_flow access" where
  "ap_event_step os dev nevents fd e s =
     (if ape_hup e then
        Some (if fd = atc_dev_fd s then Ap_exit s
              else if fd = atc_proxy_server_fd s then Ap_next s else Ap_next (cleanup_atc_connection fd s))
      else if \<not> ape_in e then Some (Ap_next s)
      else if fd = atc_proxy_server_fd s then Some (Ap_next (accept_atc_connection os (ape_accept e) s))
      else if fd = atc_dev_fd s then Some (if ap_modem_reset s then Ap_exit s else Ap_next s)
      else (case ape_read e of
              None \<Rightarrow> Some (Ap_break (cleanup_atc_connection fd s))
            | Some b \<Rightarrow> if b = [] then Some (Ap_break (cleanup_atc_connection fd s))
                        else map_option Ap_next (client_command os dev nevents (take 4096 b) s)))"

fun ap_events :: "ap_os \<Rightarrow> at_device \<Rightarrow> nat \<Rightarrow> (int \<times> ap_event) list \<Rightarrow> atc_proxy \<Rightarrow> ap_flow access" where
  "ap_events os dev nevents [] s = Some (Ap_next s)"
| "ap_events os dev nevents ((fd, e) # es) s = do {
     r \<leftarrow> ap_event_step os dev nevents fd e s;
     case r of Ap_next s \<Rightarrow> ap_events os dev nevents es s | _ \<Rightarrow> Some r }"

definition ap_pollfds :: "atc_proxy \<Rightarrow> int list" where
  "ap_pollfds s =
     (let fds = atc_dev_fd s # (if 0 < atc_proxy_server_fd s then [atc_proxy_server_fd s] else [])
      in fds @ take (66 - length fds) (ap_connections s))"

text \<open>A turn: the result of \<^verbatim>\<open>poll\<close> and the entries.\<close>

record ap_turn =
  apt_poll :: int
  apt_revents :: "nat \<Rightarrow> ap_event"

fun ap_cleanup :: "nat \<Rightarrow> atc_proxy \<Rightarrow> atc_proxy" where
  "ap_cleanup 0 s = s"
| "ap_cleanup (Suc n) s =
     (case ap_connections s of [] \<Rightarrow> s | fd # _ \<Rightarrow> ap_cleanup n (cleanup_atc_connection fd s))"

text \<open>Behind the loop: every turn of the last loop removes a connection, so as many turns as there are connections are enough.\<close>

definition ap_loop_exit :: "atc_proxy \<Rightarrow> atc_proxy" where
  "ap_loop_exit s = ap_cleanup (length (ap_connections s)) (s\<lparr>chan := at_close (chan s)\<rparr>)"

fun ap_turns :: "ap_os \<Rightarrow> at_device \<Rightarrow> ap_turn list \<Rightarrow> atc_proxy \<Rightarrow> (atc_proxy + atc_proxy) access" where
  "ap_turns os dev ts s =
     (if \<not> 0 < atc_dev_fd s \<or> atc_proxy_quit s then Some (Inr (ap_loop_exit s))
      else (case ts of
              [] \<Rightarrow> Some (Inl s)
            | t # ts \<Rightarrow>
                if apt_poll t < 0 then Some (Inr (ap_loop_exit s))
                else (let fds = ap_pollfds s in do {
                  r \<leftarrow> ap_events os dev (length fds) (zip fds (map (apt_revents t) [0..<length fds])) s;
                  case r of
                    Ap_next s \<Rightarrow> ap_turns os dev ts s
                  | Ap_break s \<Rightarrow> ap_turns os dev ts s
                  | Ap_exit s \<Rightarrow> Some (Inr (ap_loop_exit s)) })))"

declare ap_turns.simps [simp del]

definition atc_proxy_loop :: "ap_os \<Rightarrow> at_device \<Rightarrow> ap_turn list \<Rightarrow> atc_proxy \<Rightarrow> (atc_proxy + atc_proxy) access" where
  "atc_proxy_loop os dev ts s = ap_turns os dev ts (s\<lparr>ap_connections := []\<rparr>)"

subsection \<open>What clients get\<close>

text \<open>Lines without an SMS text that fit, all of them written.\<close>

lemma send_atc_to_all_ok:
  assumes "\<forall>n. ap_write os n = (True, k)" "0 \<le> k" "\<forall>fd \<in> set fds. 0 < fd"
  shows "send_atc_to_all os b fds s = (fds, s\<lparr>ap_sent := ap_sent s @ map (\<lambda>fd. (fd, Some b)) fds\<rparr>)"
  using assms(3)
  by (induction fds arbitrary: s) (simp_all add: send_atc_to_client_def assms(1) leD [OF assms(2)])

definition broadcast :: "int list \<Rightarrow> cstr list \<Rightarrow> (int \<times> buf option) list" where
  "broadcast fds ls = concat (map (\<lambda>l. map (\<lambda>fd. (fd, Some (l @ [13, 10]))) fds) ls)"

lemma deliver_lines_ok:
  assumes "\<forall>n. ap_write os n = (True, k)" "0 \<le> k" "\<forall>fd \<in> set (ap_connections s). 0 < fd" "current_client_fd s = None"
    "\<forall>l \<in> set ls. length l < 1022"
  shows "deliver_lines os (map (\<lambda>l. (l, None)) ls) s = Some (s\<lparr>ap_sent := ap_sent s @ broadcast (ap_connections s) ls\<rparr>)"
  using assms(3-)
proof (induction ls arbitrary: s)
  case (Cons l ls)
  have "proxy_onUnsolicited os (Some l) None s
      = Some (s\<lparr>ap_sent := ap_sent s @ map (\<lambda>fd. (fd, Some (l @ [13, 10]))) (ap_connections s)\<rparr>)"
    using Cons.prems send_atc_to_all_ok [OF assms(1,2) Cons.prems(1)]
    by (simp add: proxy_onUnsolicited_def client_text_def)
  then show ?case
    using Cons.IH [of "s\<lparr>ap_sent := ap_sent s @ map (\<lambda>fd. (fd, Some (l @ [13, 10]))) (ap_connections s)\<rparr>"] Cons.prems
    by (simp add: broadcast_def)
qed (simp add: broadcast_def)

text \<open>The channel hands every line of the answer to the callback, the final one too.\<close>

definition is_final :: "cstr \<Rightarrow> bool" where
  "is_final l \<longleftrightarrow> isFinalResponseSuccess l \<or> isFinalResponseError l"

definition proxy_wait :: "at_chan \<Rightarrow> bool" where
  "proxy_wait c \<longleftrightarrow> s_atc_proxy c \<and> s_type c = NO_RESULT \<and> s_smsPDU c = None \<and> s_raw_data c = None \<and> \<not> s_readerClosed c \<and>
     (\<exists>r. sp_response c = Some r \<and> finalResponse r = None)"

lemma processLine_proxy:
  assumes "proxy_wait c" "\<not> is_final l"
  shows "processLine l c = Some (handleUnsolicited l c)" "proxy_wait (handleUnsolicited l c)"
  using assms by (auto simp: proxy_wait_def is_final_def processLine_def intermediate_def handleUnsolicited_def)

lemma processLine_final:
  assumes "proxy_wait c" "is_final l"
  shows "\<exists>r ok. processLine l c = Some (c\<lparr>unsolicited := unsolicited c @ [(l, None)],
    sp_response := Some (r\<lparr>at_success := ok, finalResponse := Some l\<rparr>), cond_signalled := True\<rparr>)"
proof -
  obtain r where r: "sp_response c = Some r"
    using assms(1) by (auto simp: proxy_wait_def)
  have "processLine l c = Some (handleFinalResponse (isFinalResponseSuccess l) l r c)"
    using assms by (auto simp: r proxy_wait_def is_final_def processLine_def)
  then show ?thesis
    using assms(1) by (intro exI) (simp add: proxy_wait_def handleFinalResponse_def handleUnsolicited_def)
qed

lemma at_wait_proxy:
  assumes "proxy_wait c" "\<forall>l \<in> set ls. \<not> is_final l" "is_final f"
  shows "\<exists>r d. at_wait (map At_line ls @ At_line f # es) c = Some (0, r, d) \<and>
    unsolicited d = unsolicited c @ map (\<lambda>l. (l, None)) (ls @ [f])"
  using assms(1,2)
proof (induction ls arbitrary: c)
  case Nil
  obtain r ok where "processLine f c = Some (c\<lparr>unsolicited := unsolicited c @ [(f, None)],
      sp_response := Some (r\<lparr>at_success := ok, finalResponse := Some f\<rparr>), cond_signalled := True\<rparr>)" (is "_ = Some ?d")
    using processLine_final [OF Nil.prems(1) assms(3)] by blast
  then show ?case
    using Nil.prems(1)
    by (auto simp: at_wait.simps [of _ c] at_wait.simps [of _ ?d] proxy_wait_def at_send_end_def clearPendingCommand_def Let_def)
next
  case (Cons l ls)
  then have p: "processLine l c = Some (handleUnsolicited l c)" "proxy_wait (handleUnsolicited l c)"
    using processLine_proxy by auto
  have "at_wait (map At_line (l # ls) @ At_line f # es) c = at_wait (map At_line ls @ At_line f # es) (handleUnsolicited l c)"
    using Cons.prems(1) p(1) by (auto simp: at_wait.simps [of _ c] proxy_wait_def)
  then show ?case
    using Cons.IH [OF p(2)] Cons.prems(2) by (auto simp: handleUnsolicited_def)
qed

definition channel_idle :: "at_chan \<Rightarrow> bool" where
  "channel_idle c \<longleftrightarrow> sp_response c = None \<and> s_raw_data c = None \<and> at_writable c \<and> s_atc_proxy c"

lemma command_proxy:
  assumes "channel_idle (chan s)" "dev (length (at_cmds s)) = (False, map At_line ls @ At_line f # es)"
    "\<forall>l \<in> set ls. \<not> is_final l" "is_final f"
  shows "\<exists>r d. at_issue dev cmd at_send_command s = Some (0, r, s\<lparr>chan := d, at_cmds := at_cmds s @ [cmd]\<rparr>) \<and>
    unsolicited d = unsolicited (chan s) @ map (\<lambda>l. (l, None)) (ls @ [f])"
proof -
  let ?c = "(chan s)\<lparr>s_type := NO_RESULT, s_responsePrefix := None, s_smsPDU := None, sp_response := Some at_response_new,
      cond_signalled := False\<rparr>"
  have "proxy_wait ?c"
    using assms(1) by (simp add: channel_idle_def proxy_wait_def at_writable_def at_response_new_def)
  from at_wait_proxy [OF this assms(3,4), of es] show ?thesis
    using assms(1,2)
    by (auto simp: at_issue_def at_send_command_def at_send_command_full_def at_send_begin_def at_written_def channel_idle_def)
qed


definition sample_atc_chan :: at_chan where
  "sample_atc_chan = \<lparr>s_fd = 3, s_atc_proxy = True, s_readerClosed = False, s_type = NO_RESULT, s_responsePrefix = None, s_smsPDU = None,
     s_raw_data = None, sp_response = None, cond_signalled = False, unsolicited = [], at_output = []\<rparr>"

definition sample_atc_proxy :: atc_proxy where
  "sample_atc_proxy = \<lparr>chan = sample_atc_chan, at_cmds = [], ap_connections = [5, 6], current_client_fd = None, atc_proxy_quit = False,
     ap_modem_reset = False, atc_dev_fd = 3, atc_proxy_server_fd = 4, ap_asr_style = False, ap_sent = [], ap_closed = []\<rparr>"

definition sample_ap_os :: ap_os where
  "sample_ap_os = \<lparr>ap_write = (\<lambda>_. (True, 4)), ap_malloc = True, ap_stack_fd = 0\<rparr>"

lemma sample_lines_final: "is_final (ascii ''OK'')" "\<not> is_final (ascii ''+CSQ: 20,99'')"
  by code_simp+


text \<open>The loop behind the end of the proxy closes every connection.\<close>

lemma ap_cleanup_all:
  "length (ap_connections s) \<le> n \<Longrightarrow> ap_connections (ap_cleanup n s) = [] \<and> ap_closed (ap_cleanup n s) = ap_closed s @ ap_connections s"
proof (induction n arbitrary: s)
  case (Suc n)
  then show ?case
    by (cases "ap_connections s") (auto simp: cleanup_atc_connection_def)
qed simp

end
