(* ===== verification/Proxy_Start.thy ===== *)
theory Proxy_Start
  imports Qrtr_Props Atc_Proxy
begin

text \<open>
  The \<^verbatim>\<open>main\<close> functions of the QMI, the AT and the QRTR proxy: options, the local server socket, and the sessions with the device. What
  \<^verbatim>\<open>getopt\<close> returns is a list of option characters with their arguments. A session is described by what the system does during it: the result of \<^verbatim>\<open>open\<close>, of the
  socket calls, and the turns of the loop thread behind the creation of the server socket; before that the loop thread handles the device only, and what it has seen is
  an argument of the initialisation. The result of a session is \<open>Inl\<close> if its loop still runs and \<open>Inr\<close> if it is over. A signal ends the list of sessions.
\<close>

subsection \<open>Options\<close>

text \<open>The array for the name of the device has 33 bytes. \<open>None\<close> inside of the result is the return behind \<^verbatim>\<open>usage\<close>. The option \<^verbatim>\<open>-i\<close> is among the ones \<^verbatim>\<open>getopt\<close>
  accepts but has no case of its own.\<close>

fun proxy_options :: "cstr \<Rightarrow> (char \<times> cstr) list \<Rightarrow> cstr option access" where
  "proxy_options dev [] = Some (Some dev)"
| "proxy_options dev ((opt, optarg) # os) =
     (if opt = CHR ''d'' then (if length optarg \<le> 32 then proxy_options optarg os else None)
      else if opt = CHR ''v'' then proxy_options dev os
      else Some None)"

text \<open>The name of the server ends with the last character of the device name; the access in front of an empty name is a fault.\<close>

definition proxy_servername :: "cstr \<Rightarrow> cstr \<Rightarrow> cstr access" where
  "proxy_servername prefix dev = (if dev = [] then None else Some (prefix @ [last dev]))"

subsection \<open>The server socket\<close>

record local_os =
  ls_socket :: int
  ls_setsockopt :: bool
  ls_bind :: bool

text \<open>The descriptor or -1, and the descriptors that were closed. \<^verbatim>\<open>sun_path\<close> has 108 bytes. If \<^verbatim>\<open>setsockopt\<close> fails the socket stays open.\<close>

definition create_local_server :: "local_os \<Rightarrow> cstr \<Rightarrow> (int \<times> int list) access" where
  "create_local_server os name =
     (if ls_socket os < 0 then Some (- 1, [])
      else if 107 < length name then None
      else if \<not> ls_setsockopt os then Some (- 1, [])
      else if \<not> ls_bind os then Some (- 1, [ls_socket os])
      else Some (ls_socket os, []))"

subsection \<open>The QMI proxy\<close>

record qmi_round =
  qm_open :: int
  qm_synced :: "nat \<Rightarrow> bool"
  qm_local :: local_os
  qm_turns :: "proxy_event list option list"

definition qmi_session_end :: "int \<Rightarrow> qmi_proxy \<Rightarrow> qmi_proxy" where
  "qmi_session_end cdc_wdm_fd p =
     p\<lparr>closed_fds := closed_fds p @ (if qmi_proxy_server_fd p \<noteq> - 1 then [qmi_proxy_server_fd p] else []) @ [cdc_wdm_fd],
       qmi_proxy_server_fd := - 1, modem_reset_flag := False\<rparr>"

definition qmi_session :: "proxy_os \<Rightarrow> cstr \<Rightarrow> qmi_round \<Rightarrow> qmi_proxy \<Rightarrow> (qmi_proxy + qmi_proxy) access" where
  "qmi_session os servername r p =
     (if qm_open r = - 1 then Some (Inr p)
      else do {
        (ret, p) \<leftarrow> qmi_proxy_init os (qm_synced r) 60 (p\<lparr>qmi_proxy_connection := [], qmi_proxy_ctl_msg := []\<rparr>);
        if ret \<noteq> 0 then Some (Inr (qmi_session_end (qm_open r) p))
        else do {
          (fd, cl) \<leftarrow> create_local_server (qm_local r) servername;
          let p = p\<lparr>qmi_proxy_server_fd := fd, closed_fds := closed_fds p @ cl\<rparr>;
          if fd = - 1 then Some (Inr (qmi_session_end (qm_open r) p))
          else do {
            (over, p) \<leftarrow> qmi_proxy_turns os (if 0 < qm_open r then qm_turns r else [None]) p;
            Some (if over then Inr (qmi_session_end (qm_open r) p) else Inl p) } } })"

fun qmi_sessions :: "proxy_os \<Rightarrow> cstr \<Rightarrow> qmi_round list \<Rightarrow> qmi_proxy \<Rightarrow> (qmi_proxy + qmi_proxy) access" where
  "qmi_sessions os servername [] p = Some (Inr p)"
| "qmi_sessions os servername (r # rs) p = do {
     s \<leftarrow> qmi_session os servername r p;
     case s of Inl p \<Rightarrow> Some (Inl p) | Inr p \<Rightarrow> qmi_sessions os servername rs p }"

definition qmi_proxy_main :: "proxy_os \<Rightarrow> (char \<times> cstr) list \<Rightarrow> qmi_round list \<Rightarrow> (int + (qmi_proxy + qmi_proxy)) access" where
  "qmi_proxy_main os opts rs = do {
     d \<leftarrow> proxy_options (ascii ''/dev/cdc-wdm0'') opts;
     case d of
       None \<Rightarrow> Some (Inl 0)
     | Some cdc_wdm \<Rightarrow> do {
         servername \<leftarrow> proxy_servername (ascii ''quectel-qmi-proxy'') cdc_wdm;
         map_option Inr (qmi_sessions os servername rs (proxy_start (- 1))) } }"

subsection \<open>The QRTR proxy\<close>

record qrtr_round =
  qt_open :: int
  qt_seen :: "nat \<Rightarrow> bool"
  qt_services :: "proxy_event list option list"
  qt_local :: local_os
  qt_turns :: "proxy_event list option list"

definition qrtr_close_server :: "qrtr_proxy \<Rightarrow> qrtr_proxy" where
  "qrtr_close_server p =
     (if qrtr_proxy_server_fd p \<noteq> - 1
      then p\<lparr>qr_closed := qr_closed p @ [qrtr_proxy_server_fd p], qrtr_proxy_server_fd := - 1\<rparr> else p)"

definition qrtr_start_server :: "local_os \<Rightarrow> cstr \<Rightarrow> qrtr_proxy \<Rightarrow> qrtr_proxy access" where
  "qrtr_start_server os servername p = do {
     (fd, cl) \<leftarrow> create_local_server os servername;
     Some (p\<lparr>qrtr_proxy_server_fd := fd, qr_closed := qr_closed p @ cl\<rparr>) }"

text \<open>\<open>qt_services\<close> are the turns of the loop thread during the initialisation. If the server socket cannot be made the loop thread goes on without it.
  The end of the session closes the device.\<close>

definition qrtr_serve :: "qrtr_os \<Rightarrow> cstr \<Rightarrow> qrtr_round \<Rightarrow> int \<Rightarrow> bool \<Rightarrow> qrtr_proxy \<Rightarrow> (qrtr_proxy + qrtr_proxy) access" where
  "qrtr_serve os servername r ret over p =
     (let fin = (\<lambda>p. Inr (p\<lparr>qr_closed := qr_closed p @ [qt_open r]\<rparr>))
      in if ret \<noteq> 0 then Some (fin p)
         else do {
           p \<leftarrow> qrtr_start_server (qt_local r) servername p;
           (over, p) \<leftarrow> (if over then Some (True, p) else qrtr_turns os (qt_turns r) p);
           Some (if over then fin (qrtr_close_server p) else Inl p) })"

definition qrtr_session :: "qrtr_os \<Rightarrow> cstr \<Rightarrow> qrtr_round \<Rightarrow> qrtr_proxy \<Rightarrow> (qrtr_proxy + qrtr_proxy) access" where
  "qrtr_session os servername r p =
     (if qt_open r = - 1 then Some (Inr p)
      else do {
        (ret, p) \<leftarrow> qrtr_proxy_init os (qt_seen r) (p\<lparr>qrtr_proxy_connection := [], qrtr_server_list := []\<rparr>);
        (over, p) \<leftarrow> qrtr_proxy_loop os (if 0 < qt_open r then qt_services r else [None]) p;
        qrtr_serve os servername r ret over p })"

fun qrtr_sessions :: "qrtr_os \<Rightarrow> cstr \<Rightarrow> qrtr_round list \<Rightarrow> qrtr_proxy \<Rightarrow> (qrtr_proxy + qrtr_proxy) access" where
  "qrtr_sessions os servername [] p = Some (Inr p)"
| "qrtr_sessions os servername (r # rs) p = do {
     s \<leftarrow> qrtr_session os servername r p;
     case s of Inl p \<Rightarrow> Some (Inl p) | Inr p \<Rightarrow> qrtr_sessions os servername rs p }"

definition qrtr_proxy_main :: "qrtr_os \<Rightarrow> (char \<times> cstr) list \<Rightarrow> qrtr_round list \<Rightarrow> (int + (qrtr_proxy + qrtr_proxy)) access" where
  "qrtr_proxy_main os opts rs = do {
     d \<leftarrow> proxy_options (ascii ''/dev/mhi_IPCR'') opts;
     case d of
       None \<Rightarrow> Some (Inl 0)
     | Some cdc_wdm \<Rightarrow> do {
         servername \<leftarrow> proxy_servername (ascii ''quectel-qrtr-proxy'') cdc_wdm;
         map_option Inr (qrtr_sessions os servername rs (qrtr_start os)) } }"

subsection \<open>The AT proxy\<close>

record atc_round =
  at_access :: bool
  at_opened :: int
  at_present :: "nat \<Rightarrow> bool"
  at_local :: local_os
  at_turns :: "ap_turn list"

text \<open>The initialisation is repeated up to five times while the device is there; \<open>n\<close> is \<^verbatim>\<open>retry_times\<close>.\<close>

function ap_init_retry :: "ap_os \<Rightarrow> at_device \<Rightarrow> (nat \<Rightarrow> bool) \<Rightarrow> nat \<Rightarrow> atc_proxy \<Rightarrow> atc_proxy access" where
  "ap_init_retry os dev present n s = do {
     (ret, s) \<leftarrow> atc_proxy_init os dev s;
     if ret \<noteq> 0 \<and> n < 5 \<and> present n then ap_init_retry os dev present (n + 1) s else Some s }"
  by pat_completeness auto
termination
  by (relation "measure (\<lambda>(os, dev, present, n, s). 5 - n)") auto

declare ap_init_retry.simps [simp del]

text \<open>\<^verbatim>\<open>pthread_create\<close> returns no negative number, so \<^verbatim>\<open>at_open\<close> does not fail. If \<^verbatim>\<open>open\<close> fails the program ends with -1, which is \<open>None\<close> inside of
  the result.\<close>

definition atc_session ::
  "ap_os \<Rightarrow> at_device \<Rightarrow> cstr \<Rightarrow> atc_round \<Rightarrow> atc_proxy \<Rightarrow> (atc_proxy + atc_proxy) option access" where
  "atc_session os dev servername r s =
     (if \<not> at_access r then Some (Some (Inr s))
      else if at_opened r = - 1 then Some None
      else do {
        let s = s\<lparr>atc_dev_fd := at_opened r, chan := at_open (at_opened r) True (chan s), ap_connections := []\<rparr>;
        s \<leftarrow> ap_init_retry os dev (at_present r) 0 s;
        (fd, cl) \<leftarrow> create_local_server (at_local r) servername;
        let s = atc_start_server fd (s\<lparr>ap_closed := ap_closed s @ cl\<rparr>);
        t \<leftarrow> (if fd = - 1 then Some (Inr s) else ap_turns os dev (at_turns r) s);
        Some (Some (map_sum id
          (\<lambda>s. (atc_close_server s)\<lparr>ap_closed := ap_closed (atc_close_server s) @ [atc_dev_fd s], ap_modem_reset := False\<rparr>) t)) })"

fun atc_sessions ::
  "ap_os \<Rightarrow> at_device \<Rightarrow> cstr \<Rightarrow> atc_round list \<Rightarrow> atc_proxy \<Rightarrow> (atc_proxy + atc_proxy) option access" where
  "atc_sessions os dev servername [] s = Some (Some (Inr s))"
| "atc_sessions os dev servername (r # rs) s = do {
     t \<leftarrow> atc_session os dev servername r s;
     case t of
       None \<Rightarrow> Some None
     | Some (Inl s) \<Rightarrow> Some (Some (Inl s))
     | Some (Inr s) \<Rightarrow> atc_sessions os dev servername rs s }"

definition atc_proxy_main ::
  "ap_os \<Rightarrow> at_device \<Rightarrow> (cstr \<Rightarrow> bool) \<Rightarrow> (char \<times> cstr) list \<Rightarrow> atc_round list \<Rightarrow> atc_proxy \<Rightarrow> (int + (atc_proxy + atc_proxy)) access" where
  "atc_proxy_main os dev acc opts rs s = do {
     d \<leftarrow> proxy_options (ascii ''/dev/ttyUSB2'') opts;
     case d of
       None \<Rightarrow> Some (Inl 0)
     | Some atc_dev \<Rightarrow>
         if \<not> acc atc_dev then Some (Inl (- 1))
         else do {
           servername \<leftarrow> proxy_servername (ascii ''quectel-atc-proxy'') atc_dev;
           t \<leftarrow> atc_sessions os dev servername rs s;
           Some (case t of None \<Rightarrow> Inl (- 1) | Some t \<Rightarrow> Inr t) } }"

subsection \<open>Sessions of the QRTR proxy are runs\<close>

lemma qrtr_turn_run: "qrtr_run os p \<Longrightarrow> qrtr_turn os es p = Some (k, q) \<Longrightarrow> qrtr_run os q"
proof (induction es arbitrary: p)
  case (Cons e es)
  then obtain n r where r: "qrtr_event_step os e p = Some (n, r)"
    "(case n of Continue \<Rightarrow> qrtr_turn os es r | EndTurn \<Rightarrow> Some (False, r) | LeaveLoop \<Rightarrow> Some (True, r)) = Some (k, q)"
    by (auto simp: bind_eq_Some_conv)
  from r(2) Cons.IH [of r] qrtr_run.event [OF Cons.prems(1) r(1)] show ?case
    by (cases n) auto
qed auto

lemma qrtr_turns_run: "qrtr_run os p \<Longrightarrow> qrtr_turns os ts p = Some (k, q) \<Longrightarrow> qrtr_run os q \<and> (k \<longrightarrow> qrtr_proxy_connection q = [])"
proof (induction ts arbitrary: p)
  case (Cons t ts)
  then show ?case
    by (cases t)
       (auto simp: bind_eq_Some_conv split: if_splits dest: qrtr_turn_run qrtr_run.session qrtr_exit_ok [OF qrtr_run_ok])
qed auto

lemma qrtr_event_no_client:
  assumes "qrtr_proxy_connection p = []" "qrtr_event_step os e p = Some (k, q)" "\<forall>fd. e \<noteq> NewClient fd"
  shows "qrtr_proxy_connection q = []"
proof (cases e)
  case (DevRead bs)
  then show ?thesis
    using assms(1,2) by (auto simp: bind_eq_Some_conv same_clients_def split: if_splits dest!: read_same from_dev_same)
next
  case (ClientRead fd bs)
  then show ?thesis
    using assms(1,2)
    by (auto simp: bind_eq_Some_conv same_clients_def cleanup_qrtr_connection_def qrtr_recv_from_client_def split: if_splits dest!: read_same)
qed (use assms in \<open>auto simp: bind_eq_Some_conv cleanup_qrtr_connection_def\<close>)

text \<open>Before the server socket exists there are no new connections.\<close>

definition no_new :: "proxy_event list option list \<Rightarrow> bool" where
  "no_new ts \<longleftrightarrow> (\<forall>es fd. Some es \<in> set ts \<longrightarrow> NewClient fd \<notin> set es)"

lemma qrtr_turn_no_client:
  "qrtr_proxy_connection p = [] \<Longrightarrow> qrtr_turn os es p = Some (k, q) \<Longrightarrow> \<forall>fd. NewClient fd \<notin> set es \<Longrightarrow> qrtr_proxy_connection q = []"
proof (induction es arbitrary: p)
  case (Cons e es)
  then obtain n r where r: "qrtr_event_step os e p = Some (n, r)"
    "(case n of Continue \<Rightarrow> qrtr_turn os es r | EndTurn \<Rightarrow> Some (False, r) | LeaveLoop \<Rightarrow> Some (True, r)) = Some (k, q)"
    by (auto simp: bind_eq_Some_conv)
  have "qrtr_proxy_connection r = []"
    using Cons.prems(3) by (intro qrtr_event_no_client [OF Cons.prems(1) r(1)]) auto
  with r(2) Cons.IH [of r] Cons.prems(3) show ?case
    by (cases n) auto
qed auto

lemma qrtr_exit_no_client: "qrtr_proxy_connection p = [] \<Longrightarrow> qrtr_exit os p = Some p"
  by (simp add: qrtr_exit.simps)

lemma qrtr_turns_no_client:
  "qrtr_proxy_connection p = [] \<Longrightarrow> qrtr_turns os ts p = Some (k, q) \<Longrightarrow> no_new ts \<Longrightarrow> qrtr_proxy_connection q = []"
proof (induction ts arbitrary: p)
  case (Cons t ts)
  show ?case
  proof (cases t)
    case None
    then show ?thesis
      using Cons.prems by (simp add: qrtr_exit_no_client)
  next
    case (Some es)
    obtain l r where r: "qrtr_turn os es p = Some (l, r)" "(if l then do { p \<leftarrow> qrtr_exit os r; Some (True, p) } else qrtr_turns os ts r) = Some (k, q)"
      using Cons.prems(2) Some by (auto simp: bind_eq_Some_conv)
    have "qrtr_proxy_connection r = []"
      using Cons.prems(3) by (intro qrtr_turn_no_client [OF Cons.prems(1) r(1)]) (auto simp: no_new_def Some)
    with r(2) Cons.IH [of r] Cons.prems(3) show ?thesis
      by (auto simp: qrtr_exit_no_client no_new_def split: if_splits)
  qed
qed auto

lemma qrtr_loop_run:
  assumes "qrtr_run os a" "qrtr_proxy_connection a = []" "no_new ts" "qrtr_proxy_loop os ts a = Some (over, b)"
  shows "qrtr_run os b \<and> qrtr_proxy_connection b = []"
proof (cases "qr_alloc os 8192")
  case True
  then have t: "qrtr_turns os ts (a\<lparr>rx_buf := map (qr_junk os) [0..<8192]\<rparr>) = Some (over, b)"
    using assms(4) by (simp add: qrtr_proxy_loop_def)
  show ?thesis
    using qrtr_turns_run [OF qrtr_run.buffer [OF assms(1)] t] qrtr_turns_no_client [OF _ t assms(3)] assms(2) by simp
next
  case False
  then show ?thesis
    using assms by (simp add: qrtr_proxy_loop_def)
qed

lemma qrtr_serve_run:
  assumes "qrtr_run os b" "qrtr_proxy_connection b = []" "qrtr_serve os servername r ret over b = Some s"
  shows "case s of Inl q \<Rightarrow> qrtr_run os q | Inr q \<Rightarrow> qrtr_run os q \<and> qrtr_proxy_connection q = []"
proof (cases "ret = 0")
  case True
  then obtain c over' d where c: "qrtr_start_server (qt_local r) servername b = Some c"
    and d: "(if over then Some (True, c) else qrtr_turns os (qt_turns r) c) = Some (over', d)"
    and s: "s = (if over' then Inr ((qrtr_close_server d)\<lparr>qr_closed := qr_closed (qrtr_close_server d) @ [qt_open r]\<rparr>) else Inl d)"
    using assms(3) unfolding qrtr_serve_def Let_def by (auto simp: bind_eq_Some_conv simp del: if_split_asm)
  have "qrtr_run os c \<and> qrtr_proxy_connection c = []"
    using c assms(1,2) by (auto simp: qrtr_start_server_def bind_eq_Some_conv intro: qrtr_run.server qrtr_run.closed)
  then have d: "qrtr_run os d \<and> (over' \<longrightarrow> qrtr_proxy_connection d = [])"
    using d by (cases over) (auto dest: qrtr_turns_run)
  then have "qrtr_run os (qrtr_close_server d) \<and> qrtr_proxy_connection (qrtr_close_server d) = qrtr_proxy_connection d"
    by (auto simp: qrtr_close_server_def intro: qrtr_run.server qrtr_run.closed)
  with d show ?thesis
    by (auto simp: s intro: qrtr_run.closed)
next
  case False
  then show ?thesis
    using assms by (auto simp: qrtr_serve_def intro: qrtr_run.closed)
qed

lemma qrtr_session_run:
  assumes "qrtr_run os p" "qrtr_proxy_connection p = []" "no_new (qt_services r)" "qrtr_session os servername r p = Some s"
  shows "case s of Inl q \<Rightarrow> qrtr_run os q | Inr q \<Rightarrow> qrtr_run os q \<and> qrtr_proxy_connection q = []"
proof (cases "qt_open r = - 1")
  case True
  then show ?thesis
    using assms by (auto simp: qrtr_session_def)
next
  case False
  have e: "p\<lparr>qrtr_proxy_connection := [], qrtr_server_list := []\<rparr> = p\<lparr>qrtr_server_list := []\<rparr>"
    using assms(2) by (cases p) simp
  obtain ret a b over where i: "qrtr_proxy_init os (qt_seen r) (p\<lparr>qrtr_server_list := []\<rparr>) = Some (ret, a)"
    and l: "qrtr_proxy_loop os (if 0 < qt_open r then qt_services r else [None]) a = Some (over, b)"
    and s: "qrtr_serve os servername r ret over b = Some s"
    using False assms(4) unfolding qrtr_session_def e by (auto simp: bind_eq_Some_conv)
  have a: "qrtr_run os a" "qrtr_proxy_connection a = []"
    using qrtr_run.init [OF qrtr_run.again [OF assms(1)] i] i assms(2)
    by (auto simp: qrtr_proxy_init_def bind_eq_Some_conv same_clients_def dest!: hello_same)
  have "no_new (if 0 < qt_open r then qt_services r else [None])"
    using assms(3) by (simp add: no_new_def)
  then have b: "qrtr_run os b" "qrtr_proxy_connection b = []"
    using qrtr_loop_run [OF a _ l] by simp_all
  show ?thesis
    by (rule qrtr_serve_run [OF b s])
qed

text \<open>Whatever the system, the modem and the clients do, \<^verbatim>\<open>main\<close> is always in a state of a run.\<close>

lemma qrtr_sessions_run:
  assumes "qrtr_run os p" "qrtr_proxy_connection p = []" "\<forall>r \<in> set rs. no_new (qt_services r)" "qrtr_sessions os servername rs p = Some s"
  shows "qrtr_run os (case s of Inl q \<Rightarrow> q | Inr q \<Rightarrow> q)"
  using assms
proof (induction rs arbitrary: p)
  case (Cons r rs)
  then obtain t where t: "qrtr_session os servername r p = Some t" "(case t of Inl p \<Rightarrow> Some (Inl p) | Inr p \<Rightarrow> qrtr_sessions os servername rs p) = Some s"
    by (auto simp: bind_eq_Some_conv)
  show ?case
    using qrtr_session_run [OF Cons.prems(1,2) _ t(1)] t(2) Cons.IH Cons.prems(3) by (auto split: sum.splits)
qed auto

lemma qrtr_main_run:
  assumes "\<forall>r \<in> set rs. no_new (qt_services r)" "qrtr_proxy_main os opts rs = Some (Inr s)"
  shows "qrtr_run os (case s of Inl q \<Rightarrow> q | Inr q \<Rightarrow> q)"
  using assms qrtr_sessions_run [OF qrtr_run.start _ assms(1)]
  by (auto simp: qrtr_proxy_main_def bind_eq_Some_conv qrtr_start_def split: option.splits)

text \<open>The documented option \<^verbatim>\<open>-i\<close> ends each of the programs.\<close>

lemma proxy_options_interface: "proxy_options dev ((CHR ''i'', name) # opts) = Some None"
  by simp

end
