(* ===== verification/Spec2Isabelle.thy ===== *)
theory Spec2Isabelle
  imports Atc_Props Mbim_Connect Mbim_Share Proxy_Clients Qmap_Props Device_Props Cm_Main Proxy_Start
begin

text \<open>
  Verification of the connection manager \<^verbatim>\<open>quectel-CM\<close> and of its proxies, the C programs under
  \<^verbatim>\<open>src/quectel-cm/src\<close>.

  \<^bold>\<open>The program.\<close> \<^verbatim>\<open>quectel-CM\<close> brings up the data connection of a cellular modem. \<^verbatim>\<open>main\<close> reads the command line, sets up
  the shared memory and repeats \<^verbatim>\<open>quectel_CM\<close>, which finds the modem under \<^verbatim>\<open>/sys\<close> (\<^verbatim>\<open>device.c\<close>), detects multiplexing and bridge
  mode of its driver (\<^verbatim>\<open>qmap_bridge_mode.c\<close>) and chooses two tables of functions: the requests of the protocol (QMI, MBIM or
  AT commands) and the operations of the device (\<^verbatim>\<open>qmi_wwan\<close>, GobiNet, MBIM or AT). Then it runs \<^verbatim>\<open>qmi_main\<close>, a loop around \<^verbatim>\<open>poll\<close>
  that dials, checks the calls every few seconds, reacts to events, backs off after failures and hangs up at the end. A second thread reads the device:
  it completes the request the main thread waits for and turns unsolicited messages into events. When a call is up, \<^verbatim>\<open>udhcpc.c\<close> configures
  the network interface with shell commands. Four further programs let several processes share one modem: \<^verbatim>\<open>quectel-qmi-proxy\<close>,
  \<^verbatim>\<open>quectel-mbim-proxy\<close>, \<^verbatim>\<open>quectel-atc-proxy\<close> and \<^verbatim>\<open>quectel-qrtr-proxy\<close>.

  \<^bold>\<open>How C is modelled.\<close> A structure is a record with the names of the members, a function a HOL function of the same name, the
  statics of a file the record the functions of the file pass on. Messages and arrays are lists of bytes; an access outside of them, or
  through \<^verbatim>\<open>NULL\<close>, is the value \<open>None\<close> of the type \<open>'a access\<close>, so that \<open>f x = Some y\<close> includes that \<open>f\<close> does not leave its buffers, and
  \<open>pred_option P (f x)\<close> says that \<open>P\<close> holds of the result unless there is such an access. Members that travel on the wire, counters that can wrap around and clock values keep
  their width: \<^verbatim>\<open>int\<close> and \<^verbatim>\<open>unsigned\<close> have 32 bits, \<^verbatim>\<open>long\<close> has 64, and the host is little-endian. Error codes of the source are the
  returned integers. What the system answers is an argument: which allocations succeed (\<open>alloc\<close>), what memory holds that was never set (\<open>junk\<close>), what \<^verbatim>\<open>poll\<close>,
  \<^verbatim>\<open>read\<close>, \<^verbatim>\<open>write\<close> and \<^verbatim>\<open>accept\<close> return, the files and links under \<^verbatim>\<open>/sys\<close> and \<^verbatim>\<open>/proc\<close> (\<open>net_os\<close>, \<open>dev_sys\<close>), and the
  values of the clock. What the program does to the system is logged in its state: messages written, commands run, descriptors closed.

  \<^bold>\<open>The theories.\<close>

  \<^item> \<open>Prelude\<close>: bytes, accesses at offsets, little-endian members (\<^verbatim>\<open>qendian.h\<close>). \<open>Profile\<close>: the structures of \<^verbatim>\<open>QMIThread.h\<close>.

  \<^item> \<open>Qmi_Tlv\<close>, \<open>Qmi_Message\<close>, \<open>Qmi_Builders\<close>: type-length-value blocks and \<^verbatim>\<open>GetTLV\<close>, \<^verbatim>\<open>ComposeQMUXMsg\<close> and the builders of \<^verbatim>\<open>QMIThread.c\<close>. The
    locale \<open>qmux_builder\<close> is the contract of a builder (it appends a given list of blocks, if they fit), \<open>transaction_counter\<close> the one of the two counters.
    Requests are complete messages from which the blocks are read back; identifiers do not repeat within a cycle.

  \<^item> \<open>Qmi_Thread\<close>: \<^verbatim>\<open>QmiThreadSendQMITimeout\<close> and \<^verbatim>\<open>QmiThreadRecvQMI\<close>, as functions and as a step relation of two threads. A sender gets
    its own response, and gets it if the device sends it in time.

  \<^item> \<open>Qmi_Requests\<close>, \<open>Qmi_Calls\<close>, \<open>Qmi_Network\<close>: the handlers of \<^verbatim>\<open>qmi_request_ops\<close> and what they guarantee for responses
    described by their blocks: data calls, addresses, registration.

  \<^item> \<open>Qmi_Wwan\<close>, \<open>Gobi_Net\<close>, \<open>Qmi_Device\<close>: \<^verbatim>\<open>QmiWwanCM.c\<close> and \<^verbatim>\<open>GobiNetCM.c\<close>. The locales \<open>qmi_device\<close> (what a device may change in a request) and
    \<open>qmi_channel\<close> (what a handler may rely on) are interpreted on both; \<open>qctl_builder\<close> is the contract of the builders of control messages.

  \<^item> \<open>Net_Config\<close>, \<open>Net_Props\<close>: \<^verbatim>\<open>udhcpc.c\<close> with its helpers, as a trace of operations on the system. The commands name the addresses the modem
    reported; \<^verbatim>\<open>/etc/resolv.conf\<close> keeps the entries of other interfaces.

  \<^item> \<open>Conn_Process\<close>, \<open>Conn_Manager\<close>, \<open>Conn_Invariant\<close>, \<open>Conn_Qmi\<close>, \<open>Conn_Props\<close>: \<^verbatim>\<open>main.c\<close>: command line, other instances, \<^verbatim>\<open>qmi_main\<close> over any table of requests. The locale
    \<open>dial_modem\<close> is the contract of the tables and carries the invariant of the loop. It is interpreted on the QMI tables here, on the AT
    tables in \<open>Atc_Props\<close> and on the MBIM tables in \<open>Mbim_Calls\<close>. The link follows the calls, dialling backs off, calls are hung up at the end.

  \<^item> \<open>At_Tok\<close>, \<open>At_Channel\<close>, \<open>At_Reader\<close>: \<^verbatim>\<open>at_tok.c\<close> and \<^verbatim>\<open>atchannel.c\<close>. The buffered reader is equivalent to cutting the whole input at
    line ends; a command gets the lines that answer it; what is printed in the format of a response is read back.

  \<^item> \<open>Atc\<close>, \<open>Atc_Props\<close>: \<^verbatim>\<open>atc.c\<close>. The locales \<open>at_form\<close> and \<open>at_line_form\<close> are the contracts of the four forms of a command. For every behaviour of the
    modem the handlers end after a bounded number of commands.

  \<^item> \<open>Mbim_Wire\<close>, \<open>Mbim\<close>, \<open>Mbim_Requests\<close>, \<open>Mbim_Props\<close>, \<open>Mbim_Calls\<close>, \<open>Mbim_Connect\<close>: \<^verbatim>\<open>mbim-cm.c\<close>. A command gets its own response; the texts of the profile reach the modem unless all
    three are given; the reported address reaches the interface.

  \<^item> \<open>Qlist\<close>, \<open>Qmi_Proxy\<close>, \<open>Proxy_Dispatch\<close>, \<open>Proxy_Clients\<close>: \<^verbatim>\<open>qlist.h\<close> on an explicit heap, refined to lists (locale \<open>node_queue\<close>), and
    \<^verbatim>\<open>quectel-qmi-proxy.c\<close> over all sequences of events: order of control requests, ownership of client ids, clean-up.

  \<^item> \<open>Mbim_Proxy\<close>, \<open>Mbim_Share\<close>: \<^verbatim>\<open>quectel-mbim-proxy.c\<close>. Over all runs a response reaches the client that asked, with its own transaction
    identifier, which rests on the range of the identifiers that \<open>Mbim_Calls\<close> shows of \<^verbatim>\<open>mbim-cm.c\<close>; and the way the proxy loses its server socket.

  \<^item> \<open>Atc_Proxy\<close>: \<^verbatim>\<open>quectel-atc-proxy.c\<close> on the AT channel. A command reaches the modem unchanged, the answer reaches every client.

  \<^item> \<open>Qrtr_Proxy\<close>, \<open>Qrtr_Props\<close>: \<^verbatim>\<open>quectel-qrtr-proxy.c\<close>, which translates between QMI and QRTR. Over all runs client ids and ports identify one client (apart from
    port 256), messages and answers reach the right end unchanged, and the address of a service is never given up.

  \<^item> \<open>Proxy_Start\<close>: the \<^verbatim>\<open>main\<close> functions of the QMI, the AT and the QRTR proxy: options, server socket, sessions with the device. The states of the QRTR proxy
    are the ones of the runs above.

  \<^item> \<open>Qmap_Mode\<close>, \<open>Qmap_Props\<close>, \<open>Device\<close>, \<open>Device_Props\<close>: \<^verbatim>\<open>qmap_bridge_mode.c\<close>, \<^verbatim>\<open>device.c\<close> and \<^verbatim>\<open>quectel_CM\<close>: what \<^verbatim>\<open>qmi_main\<close> is started with, whatever
    \<^verbatim>\<open>/sys\<close> shows, and how the identifier of the multiplexing channel is read.

  \<^item> \<open>Cm_Main\<close>: the timed wait of \<^verbatim>\<open>util.c\<close> behind every request, the shared memory and the loop of \<^verbatim>\<open>main\<close>.

  \<^bold>\<open>Loops.\<close> Loops over a message or a list are recursions with a termination proof. Loops whose end depends on the
  environment have fuel, and being out of fuel is a value of its own: the event loops process a given list of events;
  \<open>requestGetProfile\<close> calls itself after it has created the profile, the retry of \<^verbatim>\<open>AT+QICSGP\<close> in \<open>Atc\<close> and the wait for the SIM card depend on what the modem answers;
  \<open>readerLoop\<close> ends with the input, and one round more than the input has bytes is enough;
  \<open>restart_loop\<close> needs one round more than there are restarts. The theorems about the AT handlers hold with all fuel and say that the handler
  returns; \<open>timed_wait_bounds\<close> shows that the timed wait ends although its counter can wrap around in general.

  \<^bold>\<open>Not modelled.\<close> Printing and logging, which have no effect on the state: \<^verbatim>\<open>QCQMUX.c\<close>, \<^verbatim>\<open>mbim_dump\<close>, \<^verbatim>\<open>usage\<close>, time stamps, the capture of the USB monitor and the
  information about the network card in \<^verbatim>\<open>device.c\<close>. Code the build leaves out: \<^verbatim>\<open>CONFIG_CELLINFO\<close>, \<^verbatim>\<open>CONFIG_SIGNALINFO\<close>, \<^verbatim>\<open>CONFIG_COEX_WWAN_STATE\<close>, \<^verbatim>\<open>CONFIG_IMSI_ICCID\<close>, the QoS options,
  \<^verbatim>\<open>QUECTEL_QMI_MERGE\<close> and \<^verbatim>\<open>QL_OPENWER_NETWORK_SETUP\<close>; the alternatives \<^verbatim>\<open>udhcpc_netlink.c\<close> and \<^verbatim>\<open>udhcpc_script.c\<close>, chosen at build time; \<^verbatim>\<open>rmnetctl.c\<close> and \<^verbatim>\<open>qrtr.c\<close>, which talk
  to kernel interfaces (rtnetlink, QRTR sockets) of particular hosts; and the thread that copies the output of the DHCP client into the log. Outside of \<^verbatim>\<open>src/quectel-cm/src\<close>: the
  C++ programs of the LoRa gateway and of the web interface, which are glue around third-party libraries, the Lua pages, packages and configuration files.
\<close>

end
